(* ===== verification/Go_Float.thy ===== *)
theory Go_Float
  imports Prelude
begin

text \<open>
  The one floating-point computation of \<open>citrun\<close>: \<open>int(float64(limit) * SafetyFactor)\<close>, which
  scales a regional budget (scheduler.go, placement.go).  A finite \<open>float64\<close> is an integer
  mantissa over a power of two; the product of two of them is rounded to 53 significant bits,
  ties to even, and the conversion to \<open>int\<close> truncates towards zero.  NaN and the infinities are
  values of the type because YAML can spell them (\<open>.nan\<close>, \<open>.inf\<close>).  Exponent overflow and
  subnormal results are left out: the factors are in the interval from 0 to 1 and the limits are
  64-bit integers.
\<close>

datatype float64 =
    Fin int nat  \<comment> \<open>mantissa, and the power of two that divides it\<close>
  | Inf bool     \<comment> \<open>True: the positive infinity\<close>
  | NaN

text \<open>Comparisons with an integer constant; each is false on NaN.\<close>

fun f64_le_int :: "float64 \<Rightarrow> int \<Rightarrow> bool" where
  "f64_le_int (Fin m k) n = (m \<le> n * 2 ^ k)"
| "f64_le_int (Inf pos) n = (\<not> pos)"
| "f64_le_int NaN n = False"

fun f64_gt_int :: "float64 \<Rightarrow> int \<Rightarrow> bool" where
  "f64_gt_int (Fin m k) n = (n * 2 ^ k < m)"
| "f64_gt_int (Inf pos) n = pos"
| "f64_gt_int NaN n = False"

fun f64_eq_int :: "float64 \<Rightarrow> int \<Rightarrow> bool" where
  "f64_eq_int (Fin m k) n = (m = n * 2 ^ k)"
| "f64_eq_int (Inf pos) n = False"
| "f64_eq_int NaN n = False"

text \<open>The number of binary digits, and rounding to 53 of them (ties to even).\<close>

fun bitlen :: "nat \<Rightarrow> nat" where
  "bitlen n = (if n = 0 then 0 else Suc (bitlen (n div 2)))"

declare bitlen.simps [simp del]

definition round_at :: "nat \<Rightarrow> nat \<Rightarrow> nat" where
  "round_at s n =
     (let q = n div 2 ^ s; r = n mod 2 ^ s
      in if 2 ^ s < 2 * r \<or> (2 * r = 2 ^ s \<and> odd q) then (q + 1) * 2 ^ s else q * 2 ^ s)"

definition round53 :: "nat \<Rightarrow> nat" where
  "round53 n = round_at (bitlen n - 53) n"

text \<open>
  \<open>int(float64(limit) * f)\<close>.  On NaN and on the infinities the conversion to \<open>int\<close> is left to
  the implementation by the language; on amd64 it gives the least \<open>int64\<close>.
\<close>

definition min_int64 :: int where
  "min_int64 = - (2 ^ 63)"

fun scale_int :: "int \<Rightarrow> float64 \<Rightarrow> int" where
  "scale_int l (Fin m k) =
     sgn l * sgn m * int (round53 (round53 (nat \<bar>l\<bar>) * nat \<bar>m\<bar>) div 2 ^ k)"
| "scale_int l (Inf pos) = min_int64"
| "scale_int l NaN = min_int64"

subsection \<open>Bounds of the rounding\<close>

lemma bitlen_lower: "n \<noteq> 0 \<Longrightarrow> 2 ^ (bitlen n - 1) \<le> n"
proof (induction n rule: bitlen.induct)
  case (1 n)
  show ?case
  proof (cases "n div 2 = 0")
    case True
    then have "bitlen n = 1" using "1.prems" by (simp add: bitlen.simps [of n] bitlen.simps [of 0])
    then show ?thesis using "1.prems" by simp
  next
    case False
    then have pos: "0 < bitlen (n div 2)" by (subst bitlen.simps) simp
    from "1.IH" [OF "1.prems" False] have "2 * 2 ^ (bitlen (n div 2) - 1) \<le> n" by linarith
    also have "2 * 2 ^ (bitlen (n div 2) - 1) = (2::nat) ^ bitlen (n div 2)"
      using pos by (metis Suc_diff_1 power_Suc)
    finally show ?thesis using "1.prems" by (simp add: bitlen.simps [of n])
  qed
qed

lemma round_at_le_multiple:
  assumes "n \<le> c * 2 ^ s"
  shows "round_at s n \<le> c * 2 ^ s"
proof (cases "n mod 2 ^ s = 0")
  case True
  then show ?thesis using assms by (auto simp: round_at_def Let_def)
next
  case False
  then have "n \<noteq> c * 2 ^ s" by auto
  with assms have lt: "n < c * 2 ^ s" by simp
  then have "n div 2 ^ s < c" by (simp add: less_mult_imp_div_less)
  then have "(n div 2 ^ s + 1) * 2 ^ s \<le> c * 2 ^ s" by (intro mult_le_mono1) simp
  moreover have "round_at s n \<le> (n div 2 ^ s + 1) * 2 ^ s" by (simp add: round_at_def Let_def)
  ultimately show ?thesis by (rule le_trans [rotated])
qed

lemma round_at_0 [simp]: "round_at 0 n = n"
  by (simp add: round_at_def Let_def)

lemma round53_small: "n < 2 ^ 53 \<Longrightarrow> round53 n = n"
proof -
  assume n: "n < 2 ^ 53"
  have "bitlen n \<le> 53"
  proof (rule ccontr)
    assume "\<not> bitlen n \<le> 53"
    moreover have "n \<noteq> 0" using calculation by (cases "n = 0") (simp_all add: bitlen.simps [of 0])
    ultimately have "53 \<le> bitlen n - 1" and "n \<noteq> 0" by simp_all
    then have "(2::nat) ^ 53 \<le> 2 ^ (bitlen n - 1)" by (intro power_increasing) auto
    also have "\<dots> \<le> n" using \<open>n \<noteq> 0\<close> by (rule bitlen_lower)
    finally show False using n by simp
  qed
  then show ?thesis by (simp add: round53_def)
qed

text \<open>Rounding never passes a bound that is itself a 53-bit number times a power of two.\<close>

lemma round53_le:
  assumes "n \<le> l * 2 ^ k" and "l < 2 ^ 53"
  shows "round53 n \<le> l * 2 ^ k"
proof (cases "bitlen n - 53 \<le> k")
  case True
  define s where "s = bitlen n - 53"
  have k: "l * 2 ^ k = (l * 2 ^ (k - s)) * 2 ^ s"
    using True by (simp add: s_def flip: power_add)
  have "round_at s n \<le> (l * 2 ^ (k - s)) * 2 ^ s"
    using assms(1) unfolding k by (rule round_at_le_multiple)
  then show ?thesis unfolding k by (simp add: round53_def s_def)
next
  case False
  then have "n \<noteq> 0" by (cases "n = 0") (simp_all add: bitlen.simps [of 0])
  have "l * 2 ^ k < 2 ^ 53 * 2 ^ k" using assms(2) by (intro mult_strict_right_mono) auto
  also have "\<dots> = (2::nat) ^ (53 + k)" by (simp add: power_add)
  also have "\<dots> \<le> 2 ^ (bitlen n - 1)" using False by (intro power_increasing) auto
  also have "\<dots> \<le> n" using \<open>n \<noteq> 0\<close> by (rule bitlen_lower)
  finally show ?thesis using assms(1) by simp
qed

text \<open>A factor in the interval from 0 to 1 never scales a limit up, rounding included.\<close>

lemma scale_int_bounds:
  assumes "0 \<le> l" and "l < 2 ^ 53" and "\<not> f64_le_int f 0" and "\<not> f64_gt_int f 1" and "f \<noteq> NaN"
  shows "0 \<le> scale_int l f \<and> scale_int l f \<le> l"
proof (cases f)
  case (Fin m k)
  with assms have m: "0 < m" "m \<le> 2 ^ k" by auto
  have l53: "nat l < 2 ^ 53" using assms(1,2) by (simp add: nat_less_iff)
  have "nat m \<le> 2 ^ k" using m by (simp add: nat_le_iff)
  then have "nat l * nat m \<le> nat l * 2 ^ k" by (rule mult_le_mono2)
  then have "round53 (nat l * nat m) \<le> nat l * 2 ^ k" using l53 by (rule round53_le)
  then have "round53 (nat l * nat m) div 2 ^ k \<le> nat l"
    by (metis div_le_mono nonzero_mult_div_cancel_right power_not_zero zero_neq_numeral)
  then have "int (round53 (nat l * nat m) div 2 ^ k) \<le> l" using assms(1) by linarith
  moreover have "sgn l * sgn m = (if l = 0 then 0 else 1)" using assms(1) m(1) by (simp add: sgn_if)
  ultimately show ?thesis using Fin assms(1) m(1) by (simp add: round53_small [OF l53])
next
  case (Inf pos)
  with assms show ?thesis by auto
qed (use assms in auto)

lemma scale_int_zero [simp]: "f \<noteq> NaN \<Longrightarrow> \<not> f64_le_int f 0 \<Longrightarrow> \<not> f64_gt_int f 1 \<Longrightarrow> scale_int 0 f = 0"
  using scale_int_bounds [of 0 f] by auto

end
