(* ===== verification/Citrun_Config.thy ===== *)
theory Citrun_Config
  imports Go_Float
begin

text \<open>
  \<open>cmd/citrun/config.go\<close>: the matrix configuration, its defaults and its validation.  The YAML
  maps are association lists: a lookup reads the first entry of a key, and the order of the list
  is the order in which a \<open>range\<close> loop visits the map, which Go leaves open.  The YAML decoder
  (a third-party package) is an argument of \<open>LoadConfig\<close>.
\<close>

subsection \<open>The configuration\<close>

record budgets =
  b_Networks :: int
  b_Subnetworks :: int
  b_Regions :: "(string \<times> (string \<times> int) list) list"

record shape =
  sh_Arch :: string
  sh_CPUs :: int
  sh_Family :: string
  sh_ZoneSet :: string
  sh_Metal :: bool
  sh_MaxParallel :: int

record suite =
  su_VMs :: int
  su_Networks :: int
  su_Subnets :: int
  su_Timeout :: duration
  su_Est :: duration

record matrix_config =
  m_Name :: string
  m_Shapes :: "string list"
  m_Images :: "string list"
  m_Suites :: "string list"
  m_EachZone :: bool

record suite_only_on_rule =
  soo_Suites :: "string list"
  soo_Shapes :: "string list"

record keep_only_rule =
  ko_Shapes :: "string list"
  ko_Suites :: "string list"

record drop_rule =
  d_Shapes :: "string list"
  d_Suites :: "string list"
  d_Images :: "string list"

record zone_set_rule =
  zs_Shapes :: "string list"
  zs_Suites :: "string list"
  zs_Set :: string

record timeout_rule =
  to_Shapes :: "string list"
  to_Value :: duration

text \<open>A rule holds one pointer per kind; \<open>Validate\<close> enforces that exactly one is set.\<close>

record rule =
  r_SuiteOnlyOn :: "suite_only_on_rule option"
  r_KeepOnly :: "keep_only_rule option"
  r_Drop :: "drop_rule option"
  r_ZoneSet :: "zone_set_rule option"
  r_Timeout :: "timeout_rule option"

record quarantine_entry =
  q_Image :: string
  q_Shape :: string
  q_Suite :: string
  q_Reason :: string

record tier_entry =
  te_Shape :: string
  te_Zones :: "string list"

record family =
  f_Name :: string
  f_Shape :: string
  f_CPUs :: int
  f_Family :: string
  f_Arch :: string
  f_ZoneSet :: string
  f_PinnedZone :: string

record sv_config =
  sv_Images :: "string list"
  sv_ArmImages :: "string list"
  sv_Families :: "family list"

record retries =
  rt_Stockout :: int
  rt_Quota :: int
  rt_Timeout :: int
  rt_Infra :: int
  rt_Error :: int
  rt_Failure :: int
  rt_CooldownBase :: duration

record config =
  c_Project :: string
  c_ImagePrefix :: string
  c_DockerImage :: string
  c_ContainerCap :: int
  c_SafetyFactor :: float64
  c_Budgets :: budgets
  c_ZoneSets :: "(string \<times> string list) list"
  c_Shapes :: "(string \<times> shape) list"
  c_Suites :: "(string \<times> suite) list"
  c_Matrix :: "matrix_config list"
  c_Rules :: "rule list"
  c_Quarantine :: "quarantine_entry list"
  c_Tiers :: "(string \<times> tier_entry list) list"
  c_ShapeValidation :: sv_config
  c_Retries :: retries

text \<open>The zero values a lookup of a missing key returns.\<close>

definition zero_shape :: shape where
  "zero_shape = \<lparr>sh_Arch = [], sh_CPUs = 0, sh_Family = [], sh_ZoneSet = [], sh_Metal = False,
     sh_MaxParallel = 0\<rparr>"

definition zero_suite :: suite where
  "zero_suite = \<lparr>su_VMs = 0, su_Networks = 0, su_Subnets = 0, su_Timeout = 0, su_Est = 0\<rparr>"

definition region_budgets :: "config \<Rightarrow> string \<Rightarrow> (string \<times> int) list" where
  "region_budgets c r = lookup0 (b_Regions (c_Budgets c)) [] r"

definition region_limit :: "config \<Rightarrow> string \<Rightarrow> string \<Rightarrow> int" where
  "region_limit c r k = lookup0 (region_budgets c r) 0 k"

definition region_known :: "config \<Rightarrow> string \<Rightarrow> bool" where
  "region_known c r = has_key (b_Regions (c_Budgets c)) r"

definition zone_set :: "config \<Rightarrow> string \<Rightarrow> string list" where
  "zone_set c n = lookup0 (c_ZoneSets c) [] n"

subsection \<open>Defaults and loading\<close>

definition defaultCapStockout :: int where "defaultCapStockout = 4"
definition defaultCapQuota :: int where "defaultCapQuota = 4"
definition defaultCapTimeout :: int where "defaultCapTimeout = 2"
definition defaultCapError :: int where "defaultCapError = 2"
definition defaultCapInfra :: int where "defaultCapInfra = 3"
definition defaultCooldownBase :: duration where "defaultCooldownBase = 120 * second"

text \<open>The \<open>float64\<close> nearest to 0.8, the default safety factor.\<close>

definition f64_0_8 :: float64 where
  "f64_0_8 = Fin 7205759403792794 53"

definition default_int :: "int \<Rightarrow> int \<Rightarrow> int" where
  "default_int x d = (if x = 0 then d else x)"

definition default_retries :: "retries \<Rightarrow> retries" where
  "default_retries r = r\<lparr>
     rt_Stockout := default_int (rt_Stockout r) defaultCapStockout,
     rt_Quota := default_int (rt_Quota r) defaultCapQuota,
     rt_Timeout := default_int (rt_Timeout r) defaultCapTimeout,
     rt_Infra := default_int (rt_Infra r) defaultCapInfra,
     rt_Error := default_int (rt_Error r) defaultCapError,
     rt_CooldownBase := default_int (rt_CooldownBase r) defaultCooldownBase\<rparr>"

definition apply_defaults :: "config \<Rightarrow> config" where
  "apply_defaults c = c\<lparr>
     c_DockerImage := (if c_DockerImage c = [] then ''cloud-image-tests'' else c_DockerImage c),
     c_ContainerCap := default_int (c_ContainerCap c) 80,
     c_SafetyFactor := (if f64_eq_int (c_SafetyFactor c) (-1) then f64_0_8 else c_SafetyFactor c),
     c_Retries := default_retries (c_Retries c)\<rparr>"

text \<open>The region of a zone: the text before its last dash.\<close>

definition zoneRegion :: "string \<Rightarrow> string" where
  "zoneRegion zone =
     (let i = LastIndex (CHR ''-'') zone in if i < 0 then zone else take (nat i) zone)"

subsection \<open>Validation\<close>

datatype config_error =
    ProjectRequired
  | RetriesStockout int | RetriesQuota int | RetriesTimeout int | RetriesInfra int
  | RetriesError int | RetriesFailure int | RetriesCooldownBase duration
  | SafetyFactorRange
  | ZoneSetNoBudgets string string
  | ShapeUnknownZoneSet string string
  | ShapeCPUs string
  | SuiteTimeout string
  | MatrixUnknownShape string string
  | MatrixEachZoneEmpty string string
  | MatrixUnknownSuite string string
  | RuleNeedsSuites nat | RuleNeedsShapes nat | RuleDropEmpty nat
  | RuleUnknownZoneSet nat string
  | RuleActions nat nat
  | QuarantineEmpty nat
  | TierEmpty string
  | TierShapeRequired string nat
  | TierUnknownShape string nat string
  | TierDuplicate string string
  | TierZonesEmpty string nat
  | TierNoBudgets string nat string
  | FamilyNeedsZone string
  | FamilyPinnedNoBudgets string string
  | FamilyUnknownZoneSet string string

definition check :: "bool \<Rightarrow> 'e \<Rightarrow> 'e option" where
  "check bad e = (if bad then Some e else None)"

lemma check_None [simp]: "check bad e = None \<longleftrightarrow> \<not> bad"
  by (simp add: check_def)

fun or_elses :: "'e option list \<Rightarrow> 'e option" where
  "or_elses [] = None"
| "or_elses (x # xs) = or_else x (or_elses xs)"

definition validate_retries :: "config \<Rightarrow> config_error option" where
  "validate_retries c = (let r = c_Retries c in or_elses [
     check (c_Project c = []) ProjectRequired,
     check (rt_Stockout r < 1) (RetriesStockout (rt_Stockout r)),
     check (rt_Quota r < 1) (RetriesQuota (rt_Quota r)),
     check (rt_Timeout r < 1) (RetriesTimeout (rt_Timeout r)),
     check (rt_Infra r < 1) (RetriesInfra (rt_Infra r)),
     check (rt_Error r < 1) (RetriesError (rt_Error r)),
     check (rt_Failure r < 0) (RetriesFailure (rt_Failure r)),
     check (rt_CooldownBase r \<le> 0) (RetriesCooldownBase (rt_CooldownBase r)),
     check (f64_le_int (c_SafetyFactor c) 0 \<or> f64_gt_int (c_SafetyFactor c) 1) SafetyFactorRange])"

definition validate_zone_sets :: "config \<Rightarrow> config_error option" where
  "validate_zone_sets c =
     first_err (\<lambda>(name, zones).
       first_err (\<lambda>z. check (\<not> region_known c (zoneRegion z)) (ZoneSetNoBudgets name z)) zones)
     (c_ZoneSets c)"

definition validate_shapes :: "config \<Rightarrow> config_error option" where
  "validate_shapes c =
     first_err (\<lambda>(name, s). or_elses [
       check (\<not> has_key (c_ZoneSets c) (sh_ZoneSet s)) (ShapeUnknownZoneSet name (sh_ZoneSet s)),
       check (sh_CPUs s \<le> 0) (ShapeCPUs name)])
     (c_Shapes c)"

definition validate_suites :: "config \<Rightarrow> config_error option" where
  "validate_suites c =
     first_err (\<lambda>(name, s). check (su_Timeout s \<le> 0) (SuiteTimeout name)) (c_Suites c)"

definition validate_matrix_shape :: "config \<Rightarrow> matrix_config \<Rightarrow> string \<Rightarrow> config_error option" where
  "validate_matrix_shape c m sh =
     (case map_of (c_Shapes c) sh of
        None \<Rightarrow> Some (MatrixUnknownShape (m_Name m) sh)
      | Some s \<Rightarrow> check (m_EachZone m \<and> zone_set c (sh_ZoneSet s) = [])
                    (MatrixEachZoneEmpty (m_Name m) sh))"

definition validate_matrix :: "config \<Rightarrow> config_error option" where
  "validate_matrix c =
     first_err (\<lambda>m. or_elses [
       first_err (validate_matrix_shape c m) (m_Shapes m),
       first_err (\<lambda>su. check (\<not> has_key (c_Suites c) su) (MatrixUnknownSuite (m_Name m) su))
         (m_Suites m)])
     (c_Matrix c)"

definition opt_err :: "('a \<Rightarrow> 'e option) \<Rightarrow> 'a option \<Rightarrow> 'e option" where
  "opt_err f x = (case x of None \<Rightarrow> None | Some y \<Rightarrow> f y)"

lemma opt_err_None [simp]: "opt_err f x = None \<longleftrightarrow> (\<forall>y. x = Some y \<longrightarrow> f y = None)"
  by (cases x) (simp_all add: opt_err_def)

definition count_some :: "'a option \<Rightarrow> nat" where
  "count_some x = (case x of None \<Rightarrow> 0 | Some y \<Rightarrow> 1)"

definition rule_actions :: "rule \<Rightarrow> nat" where
  "rule_actions r = count_some (r_SuiteOnlyOn r) + count_some (r_KeepOnly r)
     + count_some (r_Drop r) + count_some (r_ZoneSet r) + count_some (r_Timeout r)"

definition validate_rule :: "config \<Rightarrow> nat \<times> rule \<Rightarrow> config_error option" where
  "validate_rule c = (\<lambda>(i, r). or_elses [
     opt_err (\<lambda>x. or_elses [check (soo_Suites x = []) (RuleNeedsSuites i),
                           check (soo_Shapes x = []) (RuleNeedsShapes i)]) (r_SuiteOnlyOn r),
     opt_err (\<lambda>x. or_elses [check (ko_Shapes x = []) (RuleNeedsShapes i),
                           check (ko_Suites x = []) (RuleNeedsSuites i)]) (r_KeepOnly r),
     opt_err (\<lambda>x. check (d_Shapes x = [] \<and> d_Suites x = [] \<and> d_Images x = []) (RuleDropEmpty i))
       (r_Drop r),
     opt_err (\<lambda>x. or_elses [check (zs_Shapes x = []) (RuleNeedsShapes i),
                           check (\<not> has_key (c_ZoneSets c) (zs_Set x))
                             (RuleUnknownZoneSet i (zs_Set x))]) (r_ZoneSet r),
     opt_err (\<lambda>x. check (to_Shapes x = []) (RuleNeedsShapes i)) (r_Timeout r),
     check (rule_actions r \<noteq> 1) (RuleActions i (rule_actions r))])"

definition validate_quarantine :: "config \<Rightarrow> config_error option" where
  "validate_quarantine c =
     first_err (\<lambda>(i, q). check (q_Image q = [] \<and> q_Shape q = [] \<and> q_Suite q = [])
                          (QuarantineEmpty i))
     (enumerate 0 (c_Quarantine c))"

text \<open>One tier: its entries in order, with the shapes already seen.\<close>

fun validate_tier_entries ::
  "config \<Rightarrow> string \<Rightarrow> nat \<Rightarrow> string list \<Rightarrow> tier_entry list \<Rightarrow> config_error option" where
  "validate_tier_entries c name i seen [] = None"
| "validate_tier_entries c name i seen (e # es) = or_elses [
     check (te_Shape e = []) (TierShapeRequired name i),
     check (\<not> has_key (c_Shapes c) (te_Shape e)) (TierUnknownShape name i (te_Shape e)),
     check (te_Shape e \<in> set seen) (TierDuplicate name (te_Shape e)),
     check (te_Zones e = []) (TierZonesEmpty name i),
     first_err (\<lambda>z. check (\<not> region_known c (zoneRegion z)) (TierNoBudgets name i z)) (te_Zones e),
     validate_tier_entries c name (Suc i) (te_Shape e # seen) es]"

definition validate_tiers :: "config \<Rightarrow> config_error option" where
  "validate_tiers c =
     first_err (\<lambda>(name, es). or_elses [check (es = []) (TierEmpty name),
                                      validate_tier_entries c name 0 [] es])
     (c_Tiers c)"

definition validate_family :: "config \<Rightarrow> family \<Rightarrow> config_error option" where
  "validate_family c f =
     (if f_PinnedZone f = [] \<and> f_ZoneSet f = [] then Some (FamilyNeedsZone (f_Name f))
      else if f_PinnedZone f \<noteq> [] then
        check (\<not> region_known c (zoneRegion (f_PinnedZone f)))
          (FamilyPinnedNoBudgets (f_Name f) (f_PinnedZone f))
      else check (\<not> has_key (c_ZoneSets c) (f_ZoneSet f))
             (FamilyUnknownZoneSet (f_Name f) (f_ZoneSet f)))"

definition Validate :: "config \<Rightarrow> config_error option" where
  "Validate c = or_elses [
     validate_retries c,
     validate_zone_sets c,
     validate_shapes c,
     validate_suites c,
     validate_matrix c,
     first_err (validate_rule c) (enumerate 0 (c_Rules c)),
     validate_quarantine c,
     validate_tiers c,
     first_err (validate_family c) (sv_Families (c_ShapeValidation c))]"

text \<open>
  \<open>LoadConfig\<close>: \<open>read\<close> is the file system and \<open>decode\<close> the strict YAML decoder, which overwrites
  the fields present in the document.  The decoder starts from the zero configuration with the
  safety factor \<open>-1\<close>, the mark of an absent field.
\<close>

datatype load_error = ReadError | DecodeError | Invalid config_error

definition zero_config :: config where
  "zero_config = \<lparr>c_Project = [], c_ImagePrefix = [], c_DockerImage = [], c_ContainerCap = 0,
     c_SafetyFactor = Fin 0 0,
     c_Budgets = \<lparr>b_Networks = 0, b_Subnetworks = 0, b_Regions = []\<rparr>,
     c_ZoneSets = [], c_Shapes = [], c_Suites = [], c_Matrix = [], c_Rules = [],
     c_Quarantine = [], c_Tiers = [],
     c_ShapeValidation = \<lparr>sv_Images = [], sv_ArmImages = [], sv_Families = []\<rparr>,
     c_Retries = \<lparr>rt_Stockout = 0, rt_Quota = 0, rt_Timeout = 0, rt_Infra = 0, rt_Error = 0,
       rt_Failure = 0, rt_CooldownBase = 0\<rparr>\<rparr>"

definition LoadConfig ::
  "(string \<Rightarrow> string option) \<Rightarrow> (string \<Rightarrow> config \<Rightarrow> config option) \<Rightarrow> string
     \<Rightarrow> load_error + config" where
  "LoadConfig read decode path =
     (case read path of
        None \<Rightarrow> Inl ReadError
      | Some raw \<Rightarrow>
          (case decode raw (zero_config\<lparr>c_SafetyFactor := Fin (-1) 0\<rparr>) of
             None \<Rightarrow> Inl DecodeError
           | Some c \<Rightarrow>
               (let c' = apply_defaults c
                in case Validate c' of Some e \<Rightarrow> Inl (Invalid e) | None \<Rightarrow> Inr c')))"

subsection \<open>What an accepted configuration satisfies\<close>

lemma or_elses_None [simp]: "or_elses xs = None \<longleftrightarrow> (\<forall>x \<in> set xs. x = None)"
  by (induction xs) auto

text \<open>The contract of a valid configuration, stated without the order of the checks.\<close>

definition valid_retries :: "retries \<Rightarrow> bool" where
  "valid_retries r \<longleftrightarrow> 1 \<le> rt_Stockout r \<and> 1 \<le> rt_Quota r \<and> 1 \<le> rt_Timeout r \<and> 1 \<le> rt_Infra r
     \<and> 1 \<le> rt_Error r \<and> 0 \<le> rt_Failure r \<and> 0 < rt_CooldownBase r"

definition valid_shapes :: "config \<Rightarrow> bool" where
  "valid_shapes c \<longleftrightarrow>
     (\<forall>s \<in> snd ` set (c_Shapes c). has_key (c_ZoneSets c) (sh_ZoneSet s) \<and> 0 < sh_CPUs s)"

definition zones_budgeted :: "config \<Rightarrow> string list \<Rightarrow> bool" where
  "zones_budgeted c zs \<longleftrightarrow> (\<forall>z \<in> set zs. region_known c (zoneRegion z))"

definition valid_matrix_entry :: "config \<Rightarrow> matrix_config \<Rightarrow> bool" where
  "valid_matrix_entry c m \<longleftrightarrow>
     (\<forall>sh \<in> set (m_Shapes m). \<exists>s. map_of (c_Shapes c) sh = Some s
        \<and> (m_EachZone m \<longrightarrow> zone_set c (sh_ZoneSet s) \<noteq> []))
     \<and> (\<forall>su \<in> set (m_Suites m). has_key (c_Suites c) su)"

definition valid_rule :: "config \<Rightarrow> rule \<Rightarrow> bool" where
  "valid_rule c r \<longleftrightarrow> rule_actions r = 1
     \<and> (\<forall>x. r_SuiteOnlyOn r = Some x \<longrightarrow> soo_Suites x \<noteq> [] \<and> soo_Shapes x \<noteq> [])
     \<and> (\<forall>x. r_KeepOnly r = Some x \<longrightarrow> ko_Shapes x \<noteq> [] \<and> ko_Suites x \<noteq> [])
     \<and> (\<forall>x. r_Drop r = Some x \<longrightarrow> d_Shapes x \<noteq> [] \<or> d_Suites x \<noteq> [] \<or> d_Images x \<noteq> [])
     \<and> (\<forall>x. r_ZoneSet r = Some x \<longrightarrow> zs_Shapes x \<noteq> [] \<and> has_key (c_ZoneSets c) (zs_Set x))
     \<and> (\<forall>x. r_Timeout r = Some x \<longrightarrow> to_Shapes x \<noteq> [])"

definition valid_tier :: "config \<Rightarrow> tier_entry list \<Rightarrow> bool" where
  "valid_tier c es \<longleftrightarrow> es \<noteq> [] \<and> distinct (map te_Shape es)
     \<and> (\<forall>e \<in> set es. te_Shape e \<noteq> [] \<and> has_key (c_Shapes c) (te_Shape e)
          \<and> te_Zones e \<noteq> [] \<and> zones_budgeted c (te_Zones e))"

definition valid_family :: "config \<Rightarrow> family \<Rightarrow> bool" where
  "valid_family c f \<longleftrightarrow>
     (if f_PinnedZone f = [] then f_ZoneSet f \<noteq> [] \<and> has_key (c_ZoneSets c) (f_ZoneSet f)
      else region_known c (zoneRegion (f_PinnedZone f)))"

definition valid_config :: "config \<Rightarrow> bool" where
  "valid_config c \<longleftrightarrow> c_Project c \<noteq> [] \<and> valid_retries (c_Retries c)
     \<and> \<not> f64_le_int (c_SafetyFactor c) 0 \<and> \<not> f64_gt_int (c_SafetyFactor c) 1
     \<and> (\<forall>zs \<in> snd ` set (c_ZoneSets c). zones_budgeted c zs)
     \<and> valid_shapes c
     \<and> (\<forall>s \<in> snd ` set (c_Suites c). 0 < su_Timeout s)
     \<and> (\<forall>m \<in> set (c_Matrix c). valid_matrix_entry c m)
     \<and> (\<forall>r \<in> set (c_Rules c). valid_rule c r)
     \<and> (\<forall>q \<in> set (c_Quarantine c). q_Image q \<noteq> [] \<or> q_Shape q \<noteq> [] \<or> q_Suite q \<noteq> [])
     \<and> (\<forall>es \<in> snd ` set (c_Tiers c). valid_tier c es)
     \<and> (\<forall>f \<in> set (sv_Families (c_ShapeValidation c)). valid_family c f)"

lemma validate_retries_None:
  "validate_retries c = None \<longleftrightarrow> c_Project c \<noteq> [] \<and> valid_retries (c_Retries c)
     \<and> \<not> f64_le_int (c_SafetyFactor c) 0 \<and> \<not> f64_gt_int (c_SafetyFactor c) 1"
  by (auto simp: validate_retries_def valid_retries_def Let_def)

lemma validate_zone_sets_None:
  "validate_zone_sets c = None \<longleftrightarrow> (\<forall>zs \<in> snd ` set (c_ZoneSets c). zones_budgeted c zs)"
  by (auto simp: validate_zone_sets_def zones_budgeted_def)

lemma validate_shapes_None: "validate_shapes c = None \<longleftrightarrow> valid_shapes c"
  by (auto simp: validate_shapes_def valid_shapes_def)

lemma validate_suites_None:
  "validate_suites c = None \<longleftrightarrow> (\<forall>s \<in> snd ` set (c_Suites c). 0 < su_Timeout s)"
  by (auto simp: validate_suites_def)

lemma validate_matrix_shape_None:
  "validate_matrix_shape c m sh = None \<longleftrightarrow>
     (\<exists>s. map_of (c_Shapes c) sh = Some s \<and> (m_EachZone m \<longrightarrow> zone_set c (sh_ZoneSet s) \<noteq> []))"
  by (cases "map_of (c_Shapes c) sh") (simp_all add: validate_matrix_shape_def)

lemma validate_matrix_None:
  "validate_matrix c = None \<longleftrightarrow> (\<forall>m \<in> set (c_Matrix c). valid_matrix_entry c m)"
  by (simp add: validate_matrix_def valid_matrix_entry_def validate_matrix_shape_None)

lemma validate_rule_None: "validate_rule c x = None \<longleftrightarrow> valid_rule c (snd x)"
  by (cases x) (auto simp: validate_rule_def valid_rule_def)

lemma set_enumerate_snd: "(\<forall>x \<in> set (enumerate n xs). P (snd x)) \<longleftrightarrow> (\<forall>y \<in> set xs. P y)"
  by (metis (no_types, lifting) image_iff image_set map_snd_enumerate)

lemma validate_rules_None:
  "first_err (validate_rule c) (enumerate 0 (c_Rules c)) = None \<longleftrightarrow>
     (\<forall>r \<in> set (c_Rules c). valid_rule c r)"
  using set_enumerate_snd [of 0 "c_Rules c" "valid_rule c"] by (simp add: validate_rule_None)

lemma validate_quarantine_None:
  "validate_quarantine c = None \<longleftrightarrow>
     (\<forall>q \<in> set (c_Quarantine c). q_Image q \<noteq> [] \<or> q_Shape q \<noteq> [] \<or> q_Suite q \<noteq> [])"
  using set_enumerate_snd [of 0 "c_Quarantine c" "\<lambda>q. q_Image q \<noteq> [] \<or> q_Shape q \<noteq> [] \<or> q_Suite q \<noteq> []"]
  by (simp add: validate_quarantine_def case_prod_unfold)

lemma validate_tier_entries_None:
  "validate_tier_entries c name i seen es = None \<longleftrightarrow>
     distinct (map te_Shape es) \<and> set (map te_Shape es) \<inter> set seen = {}
     \<and> (\<forall>e \<in> set es. te_Shape e \<noteq> [] \<and> has_key (c_Shapes c) (te_Shape e)
          \<and> te_Zones e \<noteq> [] \<and> zones_budgeted c (te_Zones e))"
  by (induction es arbitrary: i seen) (auto simp: zones_budgeted_def)

lemma validate_tiers_None:
  "validate_tiers c = None \<longleftrightarrow> (\<forall>es \<in> snd ` set (c_Tiers c). valid_tier c es)"
  by (auto simp: validate_tiers_def valid_tier_def validate_tier_entries_None)

lemma validate_family_None: "validate_family c f = None \<longleftrightarrow> valid_family c f"
  by (auto simp: validate_family_def valid_family_def)

lemma validate_families_None:
  "first_err (validate_family c) fs = None \<longleftrightarrow> (\<forall>f \<in> set fs. valid_family c f)"
  by (simp add: validate_family_None)

lemmas validate_None = validate_retries_None validate_zone_sets_None validate_shapes_None
  validate_suites_None validate_matrix_None validate_rules_None validate_quarantine_None
  validate_tiers_None validate_families_None

lemma Validate_None: "Validate c = None \<longleftrightarrow> valid_config c"
  by (simp add: Validate_def valid_config_def validate_None del: first_err_None)

lemma zone_set_entry: "z \<in> set (zone_set c n) \<Longrightarrow> \<exists>zs \<in> snd ` set (c_ZoneSets c). z \<in> set zs"
  by (cases "map_of (c_ZoneSets c) n")
     (force simp: zone_set_def lookup0_def dest: map_of_SomeD)+

lemma valid_config_zone_set:
  assumes "valid_config c" and "z \<in> set (zone_set c n)"
  shows "region_known c (zoneRegion z)"
proof -
  from zone_set_entry [OF assms(2)] obtain zs where "zs \<in> snd ` set (c_ZoneSets c)" "z \<in> set zs"
    by blast
  moreover have "\<forall>zs \<in> snd ` set (c_ZoneSets c). zones_budgeted c zs"
    using assms(1) by (simp add: valid_config_def)
  ultimately show ?thesis by (auto simp: zones_budgeted_def)
qed

lemma LoadConfig_Inr:
  "LoadConfig read decode path = Inr c \<Longrightarrow>
     Validate c = None \<and> (\<exists>d. c = apply_defaults d)"
  by (auto simp: LoadConfig_def Let_def split: option.splits)

subsection \<open>Properties\<close>

text \<open>A small configuration, on which the properties of the development are exercised.\<close>

definition example_config :: config where
  "example_config = \<lparr>c_Project = ''proj'', c_ImagePrefix = ''projects/img/global/images'',
     c_DockerImage = ''cloud-image-tests'', c_ContainerCap = 2, c_SafetyFactor = Fin 1 1,
     c_Budgets = \<lparr>b_Networks = 2, b_Subnetworks = 2,
       b_Regions = [(''us-east1'', [(''CPUS'', 16), (''N2_CPUS'', 8)]),
                    (''us-west1'', [(''CPUS'', 4)])]\<rparr>,
     c_ZoneSets = [(''main'', [''us-east1-b'', ''us-east1-c'', ''us-west1-a''])],
     c_Shapes = [(''n2-4'', \<lparr>sh_Arch = ''x86'', sh_CPUs = 4, sh_Family = ''N2_CPUS'',
       sh_ZoneSet = ''main'', sh_Metal = False, sh_MaxParallel = 1\<rparr>)],
     c_Suites = [(''disk'', \<lparr>su_VMs = 1, su_Networks = 1, su_Subnets = 1, su_Timeout = 60 * minute,
       su_Est = 10 * minute\<rparr>)],
     c_Matrix = [\<lparr>m_Name = ''base'', m_Shapes = [''n2-4''], m_Images = [''debian-12'', ''rocky-9''],
       m_Suites = [''disk''], m_EachZone = False\<rparr>],
     c_Rules = [], c_Quarantine = [\<lparr>q_Image = ''rocky-*'', q_Shape = [], q_Suite = [],
       q_Reason = ''flaky''\<rparr>],
     c_Tiers = [(''1'', [\<lparr>te_Shape = ''n2-4'', te_Zones = [''us-east1-c'']\<rparr>])],
     c_ShapeValidation = \<lparr>sv_Images = [], sv_ArmImages = [], sv_Families = []\<rparr>,
     c_Retries = \<lparr>rt_Stockout = 2, rt_Quota = 4, rt_Timeout = 2, rt_Infra = 3, rt_Error = 2,
       rt_Failure = 1, rt_CooldownBase = 120 * second\<rparr>\<rparr>"

lemma example_valid: "Validate example_config = None"
  by code_simp


text \<open>C36: A configuration that \<open>LoadConfig\<close> returns is valid, its retry caps and container cap are
  set, and all zones of its zone sets lie in regions with budgets.\<close>

theorem loaded_config_valid:
  assumes "LoadConfig read decode path = Inr c"
  shows "valid_config c \<and> c_ContainerCap c \<noteq> 0 \<and> c_DockerImage c \<noteq> []
    \<and> (\<forall>n. \<forall>z \<in> set (zone_set c n). region_known c (zoneRegion z))"
proof -
  from LoadConfig_Inr [OF assms] obtain d where v: "Validate c = None" and d: "c = apply_defaults d"
    by blast
  have "c_ContainerCap c \<noteq> 0" "c_DockerImage c \<noteq> []"
    by (simp_all add: d apply_defaults_def default_int_def)
  then show ?thesis using v valid_config_zone_set by (simp add: Validate_None)
qed

theorem loaded_config_valid_witness:
  "LoadConfig (\<lambda>_. Some ''doc'') (\<lambda>_ _. Some (example_config\<lparr>c_ContainerCap := 0\<rparr>)) ''citrun.yaml''
     = Inr (example_config\<lparr>c_ContainerCap := 80\<rparr>)
   \<and> valid_config (example_config\<lparr>c_ContainerCap := 80\<rparr>)"
proof -
  have "LoadConfig (\<lambda>_. Some ''doc'') (\<lambda>_ _. Some (example_config\<lparr>c_ContainerCap := 0\<rparr>)) ''citrun.yaml''
     = Inr (example_config\<lparr>c_ContainerCap := 80\<rparr>)"
    by code_simp
  from loaded_config_valid [OF this] this show ?thesis by blast
qed

text \<open>The check of the safety factor is written so that NaN passes it: a configuration with a
  NaN factor is accepted whenever it is otherwise valid.\<close>

theorem nan_safety_factor_accepted:
  assumes "Validate c = None"
  shows "Validate (c\<lparr>c_SafetyFactor := NaN\<rparr>) = None"
proof -
  have "valid_config c" using assms by (simp add: Validate_None)
  moreover have "valid_rule (c\<lparr>c_SafetyFactor := NaN\<rparr>) = valid_rule c"
    and "valid_matrix_entry (c\<lparr>c_SafetyFactor := NaN\<rparr>) = valid_matrix_entry c"
    and "valid_tier (c\<lparr>c_SafetyFactor := NaN\<rparr>) = valid_tier c"
    and "valid_family (c\<lparr>c_SafetyFactor := NaN\<rparr>) = valid_family c"
    and "zones_budgeted (c\<lparr>c_SafetyFactor := NaN\<rparr>) = zones_budgeted c"
    and "valid_shapes (c\<lparr>c_SafetyFactor := NaN\<rparr>) = valid_shapes c"
    by (simp_all add: fun_eq_iff valid_rule_def valid_matrix_entry_def valid_tier_def valid_family_def
        zones_budgeted_def valid_shapes_def region_known_def zone_set_def)
  ultimately show ?thesis by (simp add: Validate_None valid_config_def)
qed

theorem nan_safety_factor_accepted_witness:
  "Validate (example_config\<lparr>c_SafetyFactor := NaN\<rparr>) = None"
  by (rule nan_safety_factor_accepted [OF example_valid])

end
