(* ===== verification/Path_Match.thy ===== *)
theory Path_Match
  imports Prelude
begin

text \<open>
  \<open>path.Match\<close> of Go's standard library, the glob matcher behind every filter and rule of
  \<open>citrun\<close>: a pattern is split at its unbracketed stars into chunks, and each chunk is matched
  left to right without backtracking.  \<open>None\<close> is \<open>ErrBadPattern\<close>.  Names are read byte by byte,
  which is what the decoder of the original does on ASCII names.
\<close>

fun getEsc :: "string \<Rightarrow> (char \<times> string) option" where
  "getEsc [] = None"
| "getEsc (c # cs) =
     (if c = CHR ''-'' \<or> c = CHR '']'' then None
      else if c = CHR 0x5C then
        (case cs of [] \<Rightarrow> None | d # ds \<Rightarrow> if ds = [] then None else Some (d, ds))
      else if cs = [] then None else Some (c, cs))"

lemma getEsc_length: "getEsc s = Some (c, r) \<Longrightarrow> r \<noteq> [] \<and> length r < length s"
  by (cases s) (auto split: if_splits list.splits)

text \<open>The ranges of a bracket expression; the flag says whether one has been read.\<close>

function match_class :: "string \<Rightarrow> char option \<Rightarrow> bool \<Rightarrow> bool \<Rightarrow> (bool \<times> string) option" where
  "match_class chunk r seen m =
     (if seen \<and> chunk \<noteq> [] \<and> hd chunk = CHR '']'' then Some (m, tl chunk)
      else (case getEsc chunk of
         None \<Rightarrow> None
       | Some (lo, c1) \<Rightarrow>
           if hd c1 = CHR ''-'' then
             (case getEsc (tl c1) of
                None \<Rightarrow> None
              | Some (hi, c2) \<Rightarrow>
                  match_class c2 r True
                    (m \<or> (case r of None \<Rightarrow> False | Some x \<Rightarrow> lo \<le> x \<and> x \<le> hi)))
           else match_class c1 r True
                  (m \<or> (case r of None \<Rightarrow> False | Some x \<Rightarrow> x = lo))))"
  by pat_completeness auto
termination
  by (relation "measure (\<lambda>(c, r, s, m). length c)") (auto dest!: getEsc_length)

declare match_class.simps [simp del]

lemma match_class_length: "match_class c r s m = Some (b, rest) \<Longrightarrow> length rest < length c"
proof (induction c r s m rule: match_class.induct)
  case (1 chunk r seen m)
  from "1.prems" consider
      (close) "chunk \<noteq> []" "rest = tl chunk"
    | (range) lo c1 hi c2 m' where "getEsc chunk = Some (lo, c1)" "hd c1 = CHR ''-''"
        "getEsc (tl c1) = Some (hi, c2)" "match_class c2 r True m' = Some (b, rest)"
        "m' = (m \<or> (case r of None \<Rightarrow> False | Some x \<Rightarrow> lo \<le> x \<and> x \<le> hi))"
        "\<not> (seen \<and> chunk \<noteq> [] \<and> hd chunk = CHR '']'')"
    | (single) lo c1 m' where "getEsc chunk = Some (lo, c1)" "hd c1 \<noteq> CHR ''-''"
        "match_class c1 r True m' = Some (b, rest)"
        "m' = (m \<or> (case r of None \<Rightarrow> False | Some x \<Rightarrow> x = lo))"
        "\<not> (seen \<and> chunk \<noteq> [] \<and> hd chunk = CHR '']'')"
    by (subst (asm) match_class.simps) (auto split: if_splits option.splits)
  then show ?case
  proof cases
    case close
    then show ?thesis by simp
  next
    case range
    have "length rest < length c2"
      using "1.IH"(1) [OF range(6) range(1) refl range(2) range(3) refl] range(4,5) by simp
    then show ?thesis using getEsc_length [OF range(1)] getEsc_length [OF range(3)] by auto
  next
    case single
    have "length rest < length c1"
      using "1.IH"(2) [OF single(5) single(1) refl single(2)] single(3,4) by simp
    then show ?thesis using getEsc_length [OF single(1)] by auto
  qed
qed

definition match_lit :: "char \<Rightarrow> string option \<Rightarrow> string option" where
  "match_lit c s = (case s of Some (x # xs) \<Rightarrow> if x = c then Some xs else None | _ \<Rightarrow> None)"

definition negation :: "string \<Rightarrow> bool \<times> string" where
  "negation cs = (case cs of d # ds \<Rightarrow> if d = CHR ''^'' then (True, ds) else (False, cs)
                           | [] \<Rightarrow> (False, cs))"

lemma negation_length: "length (snd (negation cs)) \<le> length cs"
  by (auto simp: negation_def split: list.splits)

text \<open>
  \<open>matchChunk\<close>: the second argument is what is left of the name, \<open>None\<close> once the match has
  failed; the rest of the chunk is still checked for syntax errors.
\<close>

function match_chunk :: "string \<Rightarrow> string option \<Rightarrow> string option option" where
  "match_chunk [] s = Some s"
| "match_chunk (c # cs) s =
     (let s' = (if s = Some [] then None else s)
      in if c = CHR ''['' then
           (case match_class (snd (negation cs)) (map_option hd s') False False of
              None \<Rightarrow> None
            | Some (m, rest) \<Rightarrow>
                match_chunk rest (if m = fst (negation cs) then None else map_option tl s'))
         else if c = CHR ''?'' then
           match_chunk cs (case s' of None \<Rightarrow> None
                           | Some n \<Rightarrow> if hd n = CHR ''/'' then None else Some (tl n))
         else if c = CHR 0x5C then
           (case cs of [] \<Rightarrow> None | d # ds \<Rightarrow> match_chunk ds (match_lit d s'))
         else match_chunk cs (match_lit c s'))"
  by pat_completeness auto
termination
  by (relation "measure (\<lambda>(c, s). length c)")
     (auto dest!: match_class_length simp: Let_def intro: le_less_trans [OF less_imp_le]
       dest: less_le_trans [OF _ negation_length])

declare match_chunk.simps(2) [simp del]

text \<open>\<open>scanChunk\<close>: the text up to the next star outside brackets, and the rest.\<close>

fun scan :: "bool \<Rightarrow> string \<Rightarrow> string \<times> string" where
  "scan inr [] = ([], [])"
| "scan inr [c] = (if c = CHR ''*'' \<and> \<not> inr then ([], [c]) else ([c], []))"
| "scan inr (c # d # cs) =
     (if c = CHR 0x5C then (let (a, b) = scan inr cs in (c # d # a, b))
      else if c = CHR ''*'' \<and> \<not> inr then ([], c # d # cs)
      else (let (a, b) = scan (if c = CHR ''['' then True
                               else if c = CHR '']'' then False else inr) (d # cs)
            in (c # a, b)))"

definition scan_chunk :: "string \<Rightarrow> bool \<times> string \<times> string" where
  "scan_chunk p =
     (let q = dropWhile (\<lambda>c. c = CHR ''*'') p in (length q < length p, scan False q))"

lemma scan_append: "fst (scan inr p) @ snd (scan inr p) = p"
  by (induction inr p rule: scan.induct) (auto simp: Let_def split: prod.splits)

lemma scan_progress: "p \<noteq> [] \<Longrightarrow> hd p \<noteq> CHR ''*'' \<Longrightarrow> fst (scan False p) \<noteq> []"
  by (cases "(False, p)" rule: scan.cases) (auto simp: Let_def split: prod.splits)

lemma scan_chunk_length:
  assumes "p \<noteq> []" and "scan_chunk p = (star, chunk, rest)"
  shows "length rest < length p"
proof -
  define q where "q = dropWhile (\<lambda>c. c = CHR ''*'') p"
  have s: "star = (length q < length p)" "scan False q = (chunk, rest)"
    using assms(2) by (simp_all add: scan_chunk_def q_def Let_def)
  have len: "length chunk + length rest = length q"
    using scan_append [of False q] s(2) by (metis fst_conv length_append snd_conv)
  show ?thesis
  proof (cases "length q < length p")
    case True
    then show ?thesis using len by simp
  next
    case False
    then have hd: "hd p \<noteq> CHR ''*''" and "q = p"
      using assms(1) by (auto simp: q_def neq_Nil_conv less_Suc_eq_le length_dropWhile_le)
    then have "chunk \<noteq> []" using scan_progress [OF assms(1) hd] s(2) \<open>q = p\<close> by simp
    then show ?thesis using len \<open>q = p\<close> by (cases chunk) auto
  qed
qed

fun star_search :: "string \<Rightarrow> bool \<Rightarrow> string \<Rightarrow> string option option" where
  "star_search chunk final [] = Some None"
| "star_search chunk final (x # xs) =
     (if x = CHR ''/'' then Some None
      else (case match_chunk chunk (Some xs) of
         None \<Rightarrow> None
       | Some None \<Rightarrow> star_search chunk final xs
       | Some (Some t) \<Rightarrow> if final \<and> t \<noteq> [] then star_search chunk final xs else Some (Some t)))"

function rest_valid :: "string \<Rightarrow> bool" where
  "rest_valid p =
     (if p = [] then True
      else (case scan_chunk p of (star, chunk, rest) \<Rightarrow>
              match_chunk chunk (Some []) \<noteq> None \<and> rest_valid rest))"
  by pat_completeness auto
termination
  by (relation "measure length") (auto intro: scan_chunk_length [OF _ sym])

declare rest_valid.simps [simp del]

function path_Match :: "string \<Rightarrow> string \<Rightarrow> bool option" where
  "path_Match pattern name =
     (if pattern = [] then Some (name = [])
      else (case scan_chunk pattern of (star, chunk, rest) \<Rightarrow>
        if star \<and> chunk = [] then Some (CHR ''/'' \<notin> set name)
        else (case match_chunk chunk (Some name) of
            None \<Rightarrow> None
          | Some r \<Rightarrow>
              if r \<noteq> None \<and> (r = Some [] \<or> rest \<noteq> []) then path_Match rest (the r)
              else if star then
                (case star_search chunk (rest = []) name of
                   None \<Rightarrow> None
                 | Some (Some t) \<Rightarrow> path_Match rest t
                 | Some None \<Rightarrow> if rest_valid rest then Some False else None)
              else if rest_valid rest then Some False else None)))"
  by pat_completeness auto
termination
  by (relation "measure (\<lambda>(p, n). length p)") (auto intro: scan_chunk_length [OF _ sym])

declare path_Match.simps [simp del]

text \<open>
  What the patterns of the configuration mean: a pattern without metacharacters matches exactly
  its own text, and a literal followed by one star matches its slash-free continuations.
\<close>

definition literal_pattern :: "string \<Rightarrow> bool" where
  "literal_pattern p = (set p \<inter> {CHR ''*'', CHR ''?'', CHR ''['', CHR 0x5C} = {})"

lemma literal_pattern_Cons [simp]:
  "literal_pattern (c # p) \<longleftrightarrow>
     c \<noteq> CHR ''*'' \<and> c \<noteq> CHR ''?'' \<and> c \<noteq> CHR ''['' \<and> c \<noteq> CHR 0x5C \<and> literal_pattern p"
  by (auto simp: literal_pattern_def)

lemma match_chunk_literal:
  "literal_pattern p \<Longrightarrow>
     match_chunk p s = Some (case s of None \<Rightarrow> None
                             | Some n \<Rightarrow> if HasPrefix n p then Some (drop (length p) n) else None)"
proof (induction p arbitrary: s)
  case Nil
  then show ?case by (auto simp: HasPrefix_def split: option.splits)
next
  case (Cons c p)
  then show ?case
    by (auto simp: match_chunk.simps(2) match_lit_def Let_def HasPrefix_def
             split: option.splits list.splits)
qed

lemma scan_literal_star:
  "literal_pattern p \<Longrightarrow> scan inr p = (p, [])"
  "literal_pattern p \<Longrightarrow> CHR '']'' \<notin> set p \<Longrightarrow> scan False (p @ ''*'') = (p, ''*'')"
proof (induction p arbitrary: inr)
  case Nil
  { case 1 show ?case by simp }
  { case 2 show ?case by simp }
next
  case (Cons c p)
  { case 1 then show ?case using Cons.IH(1) by (cases p) auto }
  { case 2 then show ?case using Cons.IH(2) by (cases p) (auto split: if_splits) }
qed

lemma scan_chunk_literal:
  assumes "literal_pattern p"
  shows "scan_chunk p = (False, p, [])"
proof -
  have "dropWhile (\<lambda>c. c = CHR ''*'') p = p" using assms by (cases p) auto
  then show ?thesis using scan_literal_star(1) [OF assms] by (simp add: scan_chunk_def)
qed

lemma path_Match_literal:
  assumes "literal_pattern p"
  shows "path_Match p s = Some (s = p)"
proof (cases "p = []")
  case True
  then show ?thesis by (simp add: path_Match.simps)
next
  case False
  have nil: "path_Match [] [] = Some True" by (simp add: path_Match.simps)
  show ?thesis
    using False scan_chunk_literal [OF assms] match_chunk_literal [OF assms, of "Some s"]
    by (subst path_Match.simps)
       (auto simp: rest_valid.simps [of "[]"] HasPrefix_def nil split: if_splits)
qed

lemma path_Match_star:
  assumes "literal_pattern p" and "CHR '']'' \<notin> set p" and "p \<noteq> []"
  shows "path_Match (p @ ''*'') s = Some (\<exists>r. s = p @ r \<and> CHR ''/'' \<notin> set r)"
proof -
  have drop: "dropWhile (\<lambda>c. c = CHR ''*'') (p @ ''*'') = p @ ''*''"
    using assms(1,3) by (cases p) auto
  have sc: "scan_chunk (p @ ''*'') = (False, p, ''*'')"
    using scan_literal_star(2) [OF assms(1,2)] by (simp add: scan_chunk_def drop)
  have sc2: "scan_chunk ''*'' = (True, [], [])" by (simp add: scan_chunk_def)
  have star: "path_Match ''*'' n = Some (CHR ''/'' \<notin> set n)" for n
    by (subst path_Match.simps) (simp add: sc2)
  have valid: "rest_valid ''*''"
    by (subst rest_valid.simps) (simp add: sc2 rest_valid.simps [of "[]"])
  show ?thesis
    using match_chunk_literal [OF assms(1), of "Some s"]
    by (subst path_Match.simps) (auto simp: sc star valid HasPrefix_iff)
qed

end
