(* ===== verification/Citrun_Matrix.thy ===== *)
theory Citrun_Matrix
  imports Citrun_Config Path_Match
begin

text \<open>
  \<open>cmd/citrun/matrix.go\<close>: the expansion of the configured matrix into jobs.  The nested loops of
  \<open>ExpandJobs\<close> are loops over an accumulator of the jobs so far and the identifiers seen, and
  return at the first error.  The lemmas relate them to the flat list of candidate jobs.
\<close>

record job =
  j_ID :: string
  j_Config :: string
  j_Image :: string
  j_BaseImage :: string
  j_Shape :: string
  j_Suite :: string
  j_Family :: string
  j_Arch :: string
  j_CPUCost :: int
  j_BudgetKey :: string
  j_Series :: string
  j_MaxParallel :: int
  j_Networks :: int
  j_Subnets :: int
  j_Zones :: "string list"
  j_Timeout :: duration
  j_Est :: duration
  j_Quarantined :: string

record job_filter =
  fl_Configs :: "string list"
  fl_Images :: "string list"
  fl_Shapes :: "string list"
  fl_Suites :: "string list"
  fl_Tier :: string

subsection \<open>Filters and rules\<close>

definition matchAny :: "string list \<Rightarrow> string \<Rightarrow> bool" where
  "matchAny globs s = list_ex (\<lambda>g. path_Match g s = Some True \<or> g = s) globs"

definition shapeSeries :: "string \<Rightarrow> string" where
  "shapeSeries sh = (let i = Index (CHR ''-'') sh in if 0 < i then take (nat i) sh else sh)"

definition admits :: "job_filter \<Rightarrow> job \<Rightarrow> bool" where
  "admits f j =
     (if fl_Configs f \<noteq> [] \<and> \<not> matchAny (fl_Configs f) (j_Config j) then False
      else if fl_Images f \<noteq> [] \<and> \<not> matchAny (fl_Images f) (j_BaseImage j) then False
      else if fl_Shapes f \<noteq> [] \<and> \<not> matchAny (fl_Shapes f) (j_Shape j) then False
      else if fl_Suites f \<noteq> [] \<and> \<not> matchAny (fl_Suites f) (j_Suite j) then False
      else True)"

definition fullImage :: "string \<Rightarrow> string \<Rightarrow> string \<times> string" where
  "fullImage pre img =
     (if CHR ''/'' \<in> set img then (img, last (Split (CHR ''/'') img))
      else (pre @ ''/'' @ img, img))"

text \<open>
  One rule on one job, the cases in the order of the \<open>switch\<close>; \<open>None\<close> when the rule drops the job.
\<close>

definition drop_matches :: "drop_rule \<Rightarrow> job \<Rightarrow> bool" where
  "drop_matches d j =
     ((d_Shapes d \<noteq> [] \<longrightarrow> matchAny (d_Shapes d) (j_Shape j))
      \<and> (d_Suites d \<noteq> [] \<longrightarrow> matchAny (d_Suites d) (j_Suite j))
      \<and> (d_Images d \<noteq> [] \<longrightarrow> matchAny (d_Images d) (j_BaseImage j)))"

definition apply_rule :: "config \<Rightarrow> rule \<Rightarrow> job \<Rightarrow> job option" where
  "apply_rule cfg r j =
     (case r_SuiteOnlyOn r of
        Some x \<Rightarrow>
          if matchAny (soo_Suites x) (j_Suite j) \<and> \<not> matchAny (soo_Shapes x) (j_Shape j)
          then None else Some j
      | None \<Rightarrow>
     (case r_KeepOnly r of
        Some x \<Rightarrow>
          if matchAny (ko_Shapes x) (j_Shape j) \<and> \<not> matchAny (ko_Suites x) (j_Suite j)
          then None else Some j
      | None \<Rightarrow>
     (case r_Drop r of
        Some d \<Rightarrow> if drop_matches d j then None else Some j
      | None \<Rightarrow>
     (case r_ZoneSet r of
        Some z \<Rightarrow>
          if matchAny (zs_Shapes z) (j_Shape j)
             \<and> (zs_Suites z = [] \<or> matchAny (zs_Suites z) (j_Suite j))
          then Some (j\<lparr>j_Zones := zone_set cfg (zs_Set z)\<rparr>) else Some j
      | None \<Rightarrow>
     (case r_Timeout r of
        Some t \<Rightarrow>
          if matchAny (to_Shapes t) (j_Shape j) then Some (j\<lparr>j_Timeout := to_Value t\<rparr>)
          else Some j
      | None \<Rightarrow> Some j)))))"

definition keepJob :: "config \<Rightarrow> job \<Rightarrow> job option" where
  "keepJob cfg j = fold_opt (apply_rule cfg) (c_Rules cfg) j"

definition quarantine_matches :: "quarantine_entry \<Rightarrow> job \<Rightarrow> bool" where
  "quarantine_matches q j =
     (\<not> (q_Image q \<noteq> [] \<and> \<not> matchAny [q_Image q] (j_BaseImage j))
      \<and> \<not> (q_Shape q \<noteq> [] \<and> \<not> matchAny [q_Shape q] (j_Shape j))
      \<and> \<not> (q_Suite q \<noteq> [] \<and> \<not> matchAny [q_Suite q] (j_Suite j)))"

definition applyQuarantine :: "config \<Rightarrow> job \<Rightarrow> job" where
  "applyQuarantine cfg j =
     fold (\<lambda>q j. if quarantine_matches q j then j\<lparr>j_Quarantined := q_Reason q\<rparr> else j)
       (c_Quarantine cfg) j"

text \<open>
  \<open>tierZones\<close>: the outer option is the \<open>ok\<close> result, the inner one tells nil from a zone list.
\<close>

definition tier_active :: "string \<Rightarrow> bool" where
  "tier_active tier = (tier \<noteq> [] \<and> tier \<noteq> ''all'')"

definition tierZones :: "config \<Rightarrow> string \<Rightarrow> string \<Rightarrow> string list option option" where
  "tierZones cfg tier shapeName =
     (if \<not> tier_active tier then Some None
      else (case find (\<lambda>e. te_Shape e = shapeName) (lookup0 (c_Tiers cfg) [] tier) of
              None \<Rightarrow> None
            | Some e \<Rightarrow> Some (if te_Zones e = [] then None else Some (te_Zones e))))"

subsection \<open>Expansion\<close>

datatype expand_error = DuplicateJob string | NoShapeValidationSuite

definition add_job ::
  "job_filter \<Rightarrow> job \<Rightarrow> job list \<times> string list \<Rightarrow> expand_error + (job list \<times> string list)" where
  "add_job f j = (\<lambda>(jobs, seen).
     if j_ID j \<in> set seen then Inl (DuplicateJob (j_ID j))
     else Inr (if admits f j then jobs @ [j] else jobs, j_ID j # seen))"

definition matrix_job :: "config \<Rightarrow> matrix_config \<Rightarrow> string \<Rightarrow> string \<Rightarrow> string \<Rightarrow> job" where
  "matrix_job cfg m shapeName img suiteName =
     (let sh = lookup0 (c_Shapes cfg) zero_shape shapeName;
          (full, base) = fullImage (c_ImagePrefix cfg) img;
          su = lookup0 (c_Suites cfg) zero_suite suiteName;
          vms = (if su_VMs su < 1 then 1 else su_VMs su)
      in \<lparr>j_ID = base @ ''_'' @ shapeName @ ''_'' @ suiteName, j_Config = m_Name m,
          j_Image = full, j_BaseImage = base, j_Shape = shapeName, j_Suite = suiteName,
          j_Family = [], j_Arch = sh_Arch sh, j_CPUCost = sh_CPUs sh * vms,
          j_BudgetKey = sh_Family sh, j_Series = shapeSeries shapeName,
          j_MaxParallel = sh_MaxParallel sh, j_Networks = su_Networks su,
          j_Subnets = su_Subnets su, j_Zones = zone_set cfg (sh_ZoneSet sh),
          j_Timeout = su_Timeout su, j_Est = su_Est su, j_Quarantined = []\<rparr>)"

definition zoned_job :: "job \<Rightarrow> string \<Rightarrow> job" where
  "zoned_job j zone = j\<lparr>j_ID := j_ID j @ ''_'' @ zone, j_Zones := [zone]\<rparr>"

text \<open>A tier's zones replace the job's; an \<open>each_zone\<close> entry makes one job per zone.\<close>

definition tiered :: "string list option \<Rightarrow> job \<Rightarrow> job" where
  "tiered tz j = (case tz of None \<Rightarrow> j | Some zs \<Rightarrow> j\<lparr>j_Zones := zs\<rparr>)"

definition expand_cell ::
  "config \<Rightarrow> job_filter \<Rightarrow> matrix_config \<Rightarrow> string \<Rightarrow> string \<Rightarrow> string
     \<Rightarrow> job list \<times> string list \<Rightarrow> expand_error + (job list \<times> string list)" where
  "expand_cell cfg f m shapeName img suiteName st =
     (case tierZones cfg (fl_Tier f) shapeName of
        None \<Rightarrow> Inr st
      | Some tz \<Rightarrow>
          (case keepJob cfg (matrix_job cfg m shapeName img suiteName) of
             None \<Rightarrow> Inr st
           | Some j0 \<Rightarrow>
               (let j = tiered tz j0
                in if m_EachZone m then
                     fold_err (\<lambda>zone. add_job f (applyQuarantine cfg (zoned_job j zone)))
                       (j_Zones j) st
                   else add_job f (applyQuarantine cfg j) st)))"

definition expand_matrix ::
  "config \<Rightarrow> job_filter \<Rightarrow> job list \<times> string list \<Rightarrow> expand_error + (job list \<times> string list)" where
  "expand_matrix cfg f st =
     fold_err (\<lambda>m.
       fold_err (\<lambda>shapeName.
         fold_err (\<lambda>img.
           fold_err (\<lambda>suiteName. expand_cell cfg f m shapeName img suiteName) (m_Suites m))
         (m_Images m))
       (m_Shapes m))
     (c_Matrix cfg) st"

definition family_images :: "sv_config \<Rightarrow> family \<Rightarrow> string list" where
  "family_images sv fam = (if f_Arch fam = ''arm64'' then sv_ArmImages sv else sv_Images sv)"

definition family_job :: "config \<Rightarrow> suite \<Rightarrow> family \<Rightarrow> string \<Rightarrow> job" where
  "family_job cfg svSuite fam img =
     (let (full, base) = fullImage (c_ImagePrefix cfg) img;
          zones = (if f_PinnedZone fam = [] then zone_set cfg (f_ZoneSet fam)
                   else [f_PinnedZone fam])
      in \<lparr>j_ID = base @ ''_'' @ f_Shape fam @ ''_shapevalidation'', j_Config = ''shapevalidation'',
          j_Image = full, j_BaseImage = base, j_Shape = f_Shape fam,
          j_Suite = ''shapevalidation'', j_Family = f_Name fam, j_Arch = f_Arch fam,
          j_CPUCost = f_CPUs fam, j_BudgetKey = f_Family fam,
          j_Series = shapeSeries (f_Shape fam), j_MaxParallel = 0, j_Networks = 0,
          j_Subnets = 0, j_Zones = zones, j_Timeout = su_Timeout svSuite,
          j_Est = su_Est svSuite, j_Quarantined = []\<rparr>)"

definition expand_families ::
  "config \<Rightarrow> job_filter \<Rightarrow> job list \<times> string list \<Rightarrow> expand_error + (job list \<times> string list)" where
  "expand_families cfg f st =
     (let sv = c_ShapeValidation cfg;
          svSuite = lookup0 (c_Suites cfg) zero_suite ''shapevalidation''
      in fold_err (\<lambda>fam.
           fold_err (\<lambda>img. add_job f (applyQuarantine cfg (family_job cfg svSuite fam img)))
             (family_images sv fam))
         (sv_Families sv) st)"

definition ExpandJobs :: "config \<Rightarrow> job_filter \<Rightarrow> expand_error + job list" where
  "ExpandJobs cfg f =
     (case expand_matrix cfg f ([], []) of
        Inl e \<Rightarrow> Inl e
      | Inr st \<Rightarrow>
          if sv_Families (c_ShapeValidation cfg) \<noteq> []
             \<and> \<not> has_key (c_Suites cfg) ''shapevalidation'' \<and> \<not> tier_active (fl_Tier f)
          then Inl NoShapeValidationSuite
          else if tier_active (fl_Tier f) then Inr (fst st)
          else (case expand_families cfg f st of Inl e \<Rightarrow> Inl e | Inr st' \<Rightarrow> Inr (fst st')))"

subsection \<open>The flat list of candidates\<close>

text \<open>
  The reference: every job the loops offer to \<open>add\<close>, in order, whatever the filter.
\<close>

definition variants :: "matrix_config \<Rightarrow> job \<Rightarrow> job list" where
  "variants m j = (if m_EachZone m then map (zoned_job j) (j_Zones j) else [j])"

definition cell_jobs :: "config \<Rightarrow> string \<Rightarrow> matrix_config \<Rightarrow> string \<Rightarrow> string \<Rightarrow> string \<Rightarrow> job list" where
  "cell_jobs cfg tier m shapeName img suiteName =
     (case tierZones cfg tier shapeName of
        None \<Rightarrow> []
      | Some tz \<Rightarrow>
          (case keepJob cfg (matrix_job cfg m shapeName img suiteName) of
             None \<Rightarrow> []
           | Some j0 \<Rightarrow>
               map (applyQuarantine cfg) (variants m (tiered tz j0))))"

definition matrix_jobs :: "config \<Rightarrow> string \<Rightarrow> job list" where
  "matrix_jobs cfg tier =
     concat (map (\<lambda>m. concat (map (\<lambda>sh. concat (map (\<lambda>img.
       concat (map (cell_jobs cfg tier m sh img) (m_Suites m))) (m_Images m))) (m_Shapes m)))
     (c_Matrix cfg))"

definition family_jobs :: "config \<Rightarrow> job list" where
  "family_jobs cfg =
     concat (map (\<lambda>fam.
       map (\<lambda>img. applyQuarantine cfg
              (family_job cfg (lookup0 (c_Suites cfg) zero_suite ''shapevalidation'') fam img))
         (family_images (c_ShapeValidation cfg) fam))
     (sv_Families (c_ShapeValidation cfg)))"

definition candidate_jobs :: "config \<Rightarrow> string \<Rightarrow> job list" where
  "candidate_jobs cfg tier =
     matrix_jobs cfg tier @ (if tier_active tier then [] else family_jobs cfg)"

lemma fold_err_map: "fold_err f (map g xs) = fold_err (\<lambda>x. f (g x)) xs"
proof
  show "fold_err f (map g xs) s = fold_err (\<lambda>x. f (g x)) xs s" for s
    by (induction xs arbitrary: s) (auto split: sum.splits)
qed

lemma fold_err_concat:
  "fold_err (\<lambda>x. fold_err f (g x)) xs = fold_err f (concat (map g xs))"
proof
  show "fold_err (\<lambda>x. fold_err f (g x)) xs s = fold_err f (concat (map g xs)) s" for s
    by (induction xs arbitrary: s) (auto simp: fold_err_append split: sum.splits)
qed

lemma expand_cell_jobs:
  "expand_cell cfg f m sh img su = fold_err (add_job f) (cell_jobs cfg (fl_Tier f) m sh img su)"
  by (auto simp: expand_cell_def cell_jobs_def variants_def fold_err_map Let_def fun_eq_iff
      split: option.splits sum.splits)

lemma expand_matrix_jobs:
  "expand_matrix cfg f st = fold_err (add_job f) (matrix_jobs cfg (fl_Tier f)) st"
  by (simp add: expand_matrix_def matrix_jobs_def expand_cell_jobs fold_err_concat)

lemma expand_families_jobs: "expand_families cfg f st = fold_err (add_job f) (family_jobs cfg) st"
  by (simp add: expand_families_def family_jobs_def Let_def fold_err_map flip: fold_err_concat)

text \<open>The loop of \<open>add\<close> over a list: the first identifier met twice, or the admitted jobs.\<close>

fun first_dup :: "string list \<Rightarrow> string list \<Rightarrow> string option" where
  "first_dup seen [] = None"
| "first_dup seen (x # xs) = (if x \<in> set seen then Some x else first_dup (x # seen) xs)"

lemma first_dup_None: "first_dup seen xs = None \<longleftrightarrow> distinct xs \<and> set xs \<inter> set seen = {}"
  by (induction xs arbitrary: seen) auto

lemma fold_add_job:
  "fold_err (add_job f) js (jobs, seen) =
     (case first_dup seen (map j_ID js) of
        Some d \<Rightarrow> Inl (DuplicateJob d)
      | None \<Rightarrow> Inr (jobs @ filter (admits f) js, rev (map j_ID js) @ seen))"
  by (induction js arbitrary: jobs seen) (auto simp: add_job_def split: option.splits)

lemma first_dup_append:
  "first_dup seen (xs @ ys) =
     (case first_dup seen xs of Some d \<Rightarrow> Some d | None \<Rightarrow> first_dup (rev xs @ seen) ys)"
  by (induction xs arbitrary: seen) (auto split: option.splits)

lemma expand_filter_only:
  "ExpandJobs cfg f =
     (case first_dup [] (map j_ID (matrix_jobs cfg (fl_Tier f))) of
        Some d \<Rightarrow> Inl (DuplicateJob d)
      | None \<Rightarrow>
          if sv_Families (c_ShapeValidation cfg) \<noteq> []
             \<and> \<not> has_key (c_Suites cfg) ''shapevalidation'' \<and> \<not> tier_active (fl_Tier f)
          then Inl NoShapeValidationSuite
          else (case first_dup [] (map j_ID (candidate_jobs cfg (fl_Tier f))) of
                  Some d \<Rightarrow> Inl (DuplicateJob d)
                | None \<Rightarrow> Inr (filter (admits f) (candidate_jobs cfg (fl_Tier f)))))"
  by (auto simp: ExpandJobs_def expand_matrix_jobs expand_families_jobs fold_add_job
      candidate_jobs_def first_dup_append split: option.splits)

lemma ExpandJobs_Inr:
  assumes "ExpandJobs cfg f = Inr jobs"
  shows "jobs = filter (admits f) (candidate_jobs cfg (fl_Tier f))"
    and "distinct (map j_ID (candidate_jobs cfg (fl_Tier f)))"
    and "distinct (map j_ID jobs)"
proof -
  show 1: "jobs = filter (admits f) (candidate_jobs cfg (fl_Tier f))"
    and 2: "distinct (map j_ID (candidate_jobs cfg (fl_Tier f)))"
    using assms by (auto simp: expand_filter_only first_dup_None split: option.splits if_splits)
  show "distinct (map j_ID jobs)" unfolding 1 using 2 by (rule distinct_map_filter)
qed

subsection \<open>Which jobs come out\<close>

lemma apply_rule_frame:
  "apply_rule cfg r j = Some j' \<Longrightarrow>
     j' = j\<lparr>j_Zones := j_Zones j', j_Timeout := j_Timeout j'\<rparr>
     \<and> (j_Zones j' = j_Zones j \<or> (\<exists>n. j_Zones j' = zone_set cfg n))"
  by (auto simp: apply_rule_def split: option.splits if_splits)

text \<open>The rules touch a job's zones and timeout only, and the zones come from a zone set.\<close>

lemma keepJob_frame:
  assumes "keepJob cfg j = Some j'"
  shows "j' = j\<lparr>j_Zones := j_Zones j', j_Timeout := j_Timeout j'\<rparr>
    \<and> (j_Zones j' = j_Zones j \<or> (\<exists>n. j_Zones j' = zone_set cfg n))"
  using assms unfolding keepJob_def
proof (rule fold_opt_inv)
  fix r t t'
  assume *: "t = j\<lparr>j_Zones := j_Zones t, j_Timeout := j_Timeout t\<rparr>
      \<and> (j_Zones t = j_Zones j \<or> (\<exists>n. j_Zones t = zone_set cfg n))"
    and "apply_rule cfg r t = Some t'"
  then have "t' = t\<lparr>j_Zones := j_Zones t', j_Timeout := j_Timeout t'\<rparr>
     \<and> (j_Zones t' = j_Zones t \<or> (\<exists>n. j_Zones t' = zone_set cfg n))"
    by (intro apply_rule_frame)
  with * show "t' = j\<lparr>j_Zones := j_Zones t', j_Timeout := j_Timeout t'\<rparr>
      \<and> (j_Zones t' = j_Zones j \<or> (\<exists>n. j_Zones t' = zone_set cfg n))"
    by (metis (no_types, lifting) job.surjective job.update_convs(15,16) job.select_convs)
qed simp

definition last_reason :: "config \<Rightarrow> job \<Rightarrow> string option" where
  "last_reason cfg j = map_option q_Reason (find (\<lambda>q. quarantine_matches q j) (rev (c_Quarantine cfg)))"

lemma quarantine_matches_update [simp]:
  "quarantine_matches q (j\<lparr>j_Quarantined := r\<rparr>) = quarantine_matches q j"
  by (simp add: quarantine_matches_def)

lemma find_append: "find P (xs @ ys) = (case find P xs of None \<Rightarrow> find P ys | Some x \<Rightarrow> Some x)"
  by (induction xs) auto

lemma applyQuarantine_last:
  "applyQuarantine cfg j =
     (case last_reason cfg j of None \<Rightarrow> j | Some r \<Rightarrow> j\<lparr>j_Quarantined := r\<rparr>)"
proof -
  have "fold (\<lambda>q j. if quarantine_matches q j then j\<lparr>j_Quarantined := q_Reason q\<rparr> else j) qs j =
      (case map_option q_Reason (find (\<lambda>q. quarantine_matches q j) (rev qs)) of
         None \<Rightarrow> j | Some r \<Rightarrow> j\<lparr>j_Quarantined := r\<rparr>)" for qs
    by (induction qs arbitrary: j) (auto simp: find_append split: option.splits)
  then show ?thesis by (simp add: applyQuarantine_def last_reason_def)
qed

lemma applyQuarantine_frame [simp]:
  "j_ID (applyQuarantine cfg j) = j_ID j" "j_Zones (applyQuarantine cfg j) = j_Zones j"
  "j_Shape (applyQuarantine cfg j) = j_Shape j" "j_CPUCost (applyQuarantine cfg j) = j_CPUCost j"
  "j_Suite (applyQuarantine cfg j) = j_Suite j" "j_MaxParallel (applyQuarantine cfg j) = j_MaxParallel j"
  "j_Networks (applyQuarantine cfg j) = j_Networks j" "j_Subnets (applyQuarantine cfg j) = j_Subnets j"
  by (simp_all add: applyQuarantine_last split: option.split)

text \<open>A candidate of the matrix loops, taken apart.\<close>

lemma cell_jobs_iff:
  "j \<in> set (cell_jobs cfg tier m sh img su) \<longleftrightarrow>
     (\<exists>tz j0. tierZones cfg tier sh = Some tz
        \<and> keepJob cfg (matrix_job cfg m sh img su) = Some j0
        \<and> j \<in> applyQuarantine cfg ` set (variants m (tiered tz j0)))"
  by (cases "tierZones cfg tier sh"; cases "keepJob cfg (matrix_job cfg m sh img su)")
     (simp_all add: cell_jobs_def)

lemma matrix_jobs_iff:
  "j \<in> set (matrix_jobs cfg tier) \<longleftrightarrow>
     (\<exists>m \<in> set (c_Matrix cfg). \<exists>sh \<in> set (m_Shapes m). \<exists>img \<in> set (m_Images m).
        \<exists>su \<in> set (m_Suites m). j \<in> set (cell_jobs cfg tier m sh img su))"
  by (auto simp: matrix_jobs_def)

lemma matrix_job_sel [simp]:
  "j_Shape (matrix_job cfg m sh img su) = sh"
  "j_Suite (matrix_job cfg m sh img su) = su"
  "j_MaxParallel (matrix_job cfg m sh img su) = sh_MaxParallel (lookup0 (c_Shapes cfg) zero_shape sh)"
  "j_Zones (matrix_job cfg m sh img su) = zone_set cfg (sh_ZoneSet (lookup0 (c_Shapes cfg) zero_shape sh))"
  by (simp_all add: matrix_job_def Let_def split: prod.split)

lemma keepJob_sel:
  assumes "keepJob cfg j = Some j'"
  shows "j_Shape j' = j_Shape j" "j_Suite j' = j_Suite j" "j_CPUCost j' = j_CPUCost j"
    "j_MaxParallel j' = j_MaxParallel j"
proof -
  obtain zs t where "j' = j\<lparr>j_Zones := zs, j_Timeout := t\<rparr>" using keepJob_frame [OF assms] by blast
  then show "j_Shape j' = j_Shape j" "j_Suite j' = j_Suite j" "j_CPUCost j' = j_CPUCost j"
    "j_MaxParallel j' = j_MaxParallel j" by simp_all
qed

lemma variants_sel:
  assumes "v \<in> set (variants m (tiered tz j))"
  shows "j_Shape v = j_Shape j" "j_Suite v = j_Suite j" "j_CPUCost v = j_CPUCost j"
    "j_MaxParallel v = j_MaxParallel j"
    "set (j_Zones v) \<subseteq> set (case tz of None \<Rightarrow> j_Zones j | Some zs \<Rightarrow> zs)"
    "m_EachZone m \<Longrightarrow> length (j_Zones v) = 1"
  using assms
  by (auto simp: variants_def tiered_def zoned_job_def split: option.splits if_splits)

lemma tierZones_entry:
  assumes "tierZones cfg tier sh = Some tz" and "tier_active tier"
  shows "\<exists>es e. (tier, es) \<in> set (c_Tiers cfg) \<and> e \<in> set es \<and> te_Shape e = sh
    \<and> tz = (if te_Zones e = [] then None else Some (te_Zones e))"
proof -
  from assms obtain e where e: "find (\<lambda>e. te_Shape e = sh) (lookup0 (c_Tiers cfg) [] tier) = Some e"
    and tz: "tz = (if te_Zones e = [] then None else Some (te_Zones e))"
    by (auto simp: tierZones_def split: option.splits)
  from e have "e \<in> set (lookup0 (c_Tiers cfg) [] tier)" "te_Shape e = sh"
    by (auto simp: find_Some_iff)
  moreover from this(1) obtain es where "map_of (c_Tiers cfg) tier = Some es" "e \<in> set es"
    by (cases "map_of (c_Tiers cfg) tier") (auto simp: lookup0_def)
  ultimately show ?thesis using tz by (blast dest: map_of_SomeD)
qed

lemma tierZones_inactive: "\<not> tier_active tier \<Longrightarrow> tierZones cfg tier sh = Some None"
  by (simp add: tierZones_def)

text \<open>Every zone a matrix job may run in belongs to a tier, or to a zone set.\<close>

lemma matrix_job_zones:
  assumes "j \<in> set (matrix_jobs cfg tier)" and "z \<in> set (j_Zones j)"
  shows "(\<exists>n. z \<in> set (zone_set cfg n))
    \<or> (\<exists>es e. (tier, es) \<in> set (c_Tiers cfg) \<and> e \<in> set es \<and> z \<in> set (te_Zones e))"
proof -
  from assms(1) obtain m sh img su tz j0 v where
    tz: "tierZones cfg tier sh = Some tz" and k: "keepJob cfg (matrix_job cfg m sh img su) = Some j0"
    and v: "v \<in> set (variants m (tiered tz j0))" "j = applyQuarantine cfg v"
    by (auto simp: matrix_jobs_iff cell_jobs_iff)
  have z: "z \<in> set (case tz of None \<Rightarrow> j_Zones j0 | Some zs \<Rightarrow> zs)"
    using variants_sel(5) [OF v(1)] v(2) assms(2) by auto
  show ?thesis
  proof (cases tz)
    case None
    with z keepJob_frame [OF k] show ?thesis by auto
  next
    case (Some zs)
    then have "tier_active tier" using tz tierZones_inactive [of tier] by fastforce
    then show ?thesis using tierZones_entry [OF tz] Some z by (auto split: if_splits)
  qed
qed

lemma family_job_zones:
  assumes "j \<in> set (family_jobs cfg)"
  shows "\<exists>fam \<in> set (sv_Families (c_ShapeValidation cfg)).
    j_Zones j = (if f_PinnedZone fam = [] then zone_set cfg (f_ZoneSet fam) else [f_PinnedZone fam])"
  using assms by (auto simp: family_jobs_def family_job_def Let_def split: prod.splits)

lemma candidate_zones_budgeted:
  assumes "valid_config cfg" and "j \<in> set (candidate_jobs cfg tier)" and "z \<in> set (j_Zones j)"
  shows "region_known cfg (zoneRegion z)"
proof -
  from assms(2) consider "j \<in> set (matrix_jobs cfg tier)" | "j \<in> set (family_jobs cfg)"
    by (auto simp: candidate_jobs_def split: if_splits)
  then show ?thesis
  proof cases
    case 1
    from matrix_job_zones [OF this assms(3)] show ?thesis
    proof (elim disjE exE conjE)
      fix n assume "z \<in> set (zone_set cfg n)"
      with assms(1) show ?thesis by (rule valid_config_zone_set)
    next
      fix es e assume e: "(tier, es) \<in> set (c_Tiers cfg)" "e \<in> set es" "z \<in> set (te_Zones e)"
      then have "valid_tier cfg es" using assms(1) by (force simp: valid_config_def)
      with e show ?thesis by (auto simp: valid_tier_def zones_budgeted_def)
    qed
  next
    case 2
    from family_job_zones [OF this] obtain fam where
      fam: "fam \<in> set (sv_Families (c_ShapeValidation cfg))"
        "j_Zones j = (if f_PinnedZone fam = [] then zone_set cfg (f_ZoneSet fam) else [f_PinnedZone fam])"
      by blast
    then have "valid_family cfg fam" using assms(1) by (simp add: valid_config_def)
    with fam assms(1,3) show ?thesis
      by (auto simp: valid_family_def intro: valid_config_zone_set split: if_splits)
  qed
qed

lemma candidate_tier:
  assumes "j \<in> set (candidate_jobs cfg tier)" and "tier_active tier" and "valid_config cfg"
  shows "\<exists>es e. (tier, es) \<in> set (c_Tiers cfg) \<and> e \<in> set es \<and> te_Shape e = j_Shape j
    \<and> set (j_Zones j) \<subseteq> set (te_Zones e)"
proof -
  from assms(1,2) have "j \<in> set (matrix_jobs cfg tier)" by (simp add: candidate_jobs_def)
  then obtain m sh img su tz j0 v where
    tz: "tierZones cfg tier sh = Some tz" and k: "keepJob cfg (matrix_job cfg m sh img su) = Some j0"
    and v: "v \<in> set (variants m (tiered tz j0))" "j = applyQuarantine cfg v"
    by (auto simp: matrix_jobs_iff cell_jobs_iff)
  from tierZones_entry [OF tz assms(2)] obtain es e where
    e: "(tier, es) \<in> set (c_Tiers cfg)" "e \<in> set es" "te_Shape e = sh"
      "tz = (if te_Zones e = [] then None else Some (te_Zones e))" by blast
  then have "valid_tier cfg es" using assms(3) by (force simp: valid_config_def)
  then have "tz = Some (te_Zones e)" using e by (simp add: valid_tier_def)
  moreover have "j_Shape j = sh" using variants_sel(1) [OF v(1)] keepJob_sel(1) [OF k] v(2) by simp
  ultimately show ?thesis using variants_sel(5) [OF v(1)] v(2) e by auto
qed

lemma matrix_job_cost_pos:
  assumes "j \<in> set (matrix_jobs cfg tier)" and "valid_config cfg"
  shows "0 < j_CPUCost j"
proof -
  from assms(1) obtain m sh img su tz j0 v where
    m: "m \<in> set (c_Matrix cfg)" "sh \<in> set (m_Shapes m)"
    and k: "keepJob cfg (matrix_job cfg m sh img su) = Some j0"
    and v: "v \<in> set (variants m (tiered tz j0))" "j = applyQuarantine cfg v"
    by (auto simp: matrix_jobs_iff cell_jobs_iff)
  have "valid_matrix_entry cfg m" using assms(2) m(1) by (simp add: valid_config_def)
  then obtain s where s: "map_of (c_Shapes cfg) sh = Some s"
    using m(2) by (auto simp: valid_matrix_entry_def)
  then have "0 < sh_CPUs s"
    using assms(2) by (force simp: valid_config_def valid_shapes_def dest: map_of_SomeD)
  then have "0 < j_CPUCost (matrix_job cfg m sh img su)"
    using s by (auto simp: matrix_job_def Let_def lookup0_def split: prod.splits)
  then show ?thesis using keepJob_sel(3) [OF k] variants_sel(3) [OF v(1)] v(2) by simp
qed

subsection \<open>Properties\<close>

definition no_filter :: job_filter where
  "no_filter = \<lparr>fl_Configs = [], fl_Images = [], fl_Shapes = [], fl_Suites = [], fl_Tier = []\<rparr>"

text \<open>C22: \<open>ExpandJobs\<close> computes the admitted jobs of the flat list of candidates, in order: a filter
  only selects, and the errors (a duplicate identifier, a missing shape-validation suite) do not
  depend on the job filter's globs.\<close>

theorem expansion_is_filtered_candidates:
  assumes "ExpandJobs cfg f = Inr jobs"
  shows "jobs = filter (admits f) (candidate_jobs cfg (fl_Tier f))
    \<and> distinct (map j_ID jobs)
    \<and> ExpandJobs cfg (f\<lparr>fl_Configs := [], fl_Images := [], fl_Shapes := [], fl_Suites := []\<rparr>)
        = Inr (candidate_jobs cfg (fl_Tier f))"
proof -
  note r = ExpandJobs_Inr [OF assms]
  have "admits (f\<lparr>fl_Configs := [], fl_Images := [], fl_Shapes := [], fl_Suites := []\<rparr>) = (\<lambda>_. True)"
    by (simp add: admits_def fun_eq_iff)
  then show ?thesis using assms r by (auto simp: expand_filter_only split: option.splits if_splits)
qed

theorem expansion_is_filtered_candidates_witness:
  "(case ExpandJobs example_config (no_filter\<lparr>fl_Images := [''debian-*'']\<rparr>) of
      Inl e \<Rightarrow> False
    | Inr jobs \<Rightarrow> map j_ID jobs = [''debian-12_n2-4_disk'']
        \<and> jobs = filter (admits (no_filter\<lparr>fl_Images := [''debian-*'']\<rparr>)) (candidate_jobs example_config []))"
proof -
  have "(case ExpandJobs example_config (no_filter\<lparr>fl_Images := [''debian-*'']\<rparr>) of
      Inl e \<Rightarrow> False | Inr jobs \<Rightarrow> map j_ID jobs = [''debian-12_n2-4_disk''])"
    by code_simp
  then obtain jobs where j: "ExpandJobs example_config (no_filter\<lparr>fl_Images := [''debian-*'']\<rparr>) = Inr jobs"
    "map j_ID jobs = [''debian-12_n2-4_disk'']"
    by (auto split: sum.splits)
  from expansion_is_filtered_candidates [OF j(1)] j show ?thesis by (simp add: no_filter_def)
qed

lemma apply_rule_drop_cong:
  assumes "j_Shape j' = j_Shape j" "j_Suite j' = j_Suite j" "j_BaseImage j' = j_BaseImage j"
  shows "apply_rule cfg r j' = None \<longleftrightarrow> apply_rule cfg r j = None"
  using assms by (simp add: apply_rule_def drop_matches_def split: option.split)

lemma fold_rules_None:
  "fold_opt (apply_rule cfg) rs j = None \<longleftrightarrow> (\<exists>r \<in> set rs. apply_rule cfg r j = None)"
proof (induction rs arbitrary: j)
  case (Cons r rs)
  show ?case
  proof (cases "apply_rule cfg r j")
    case (Some j')
    obtain zs t where "j' = j\<lparr>j_Zones := zs, j_Timeout := t\<rparr>"
      using apply_rule_frame [OF Some] by blast
    then have "apply_rule cfg x j' = None \<longleftrightarrow> apply_rule cfg x j = None" for x
      by (intro apply_rule_drop_cong) simp_all
    then show ?thesis using Some Cons.IH by simp
  qed simp
qed simp

text \<open>The rules drop a job exactly when one of them, taken alone, drops it; a job they keep has
  everything as before but its zones, which come from a zone set, and its timeout.\<close>

theorem rules_drop_independently:
  "(keepJob cfg j = None \<longleftrightarrow> (\<exists>r \<in> set (c_Rules cfg). apply_rule cfg r j = None))
   \<and> (case keepJob cfg j of
        None \<Rightarrow> True
      | Some j' \<Rightarrow> j' = j\<lparr>j_Zones := j_Zones j', j_Timeout := j_Timeout j'\<rparr>
          \<and> (j_Zones j' = j_Zones j \<or> (\<exists>n. j_Zones j' = zone_set cfg n)))"
  using keepJob_frame [of cfg j] fold_rules_None [of cfg "c_Rules cfg" j]
  by (simp add: keepJob_def split: option.split)

text \<open>The quarantine entry that decides is the last one that matches: its reason is the job's,
  and without a match the job is unchanged.\<close>

theorem quarantine_last_match:
  "applyQuarantine cfg j =
     (case find (\<lambda>q. quarantine_matches q j) (rev (c_Quarantine cfg)) of
        None \<Rightarrow> j
      | Some q \<Rightarrow> j\<lparr>j_Quarantined := q_Reason q\<rparr>)"
  by (simp add: applyQuarantine_last last_reason_def split: option.split)

text \<open>Every zone of an expanded job lies in a region that has budgets, and under an active tier
  the zones are among those the tier lists for the job's shape.\<close>

theorem expanded_zones:
  assumes "Validate cfg = None" and "ExpandJobs cfg f = Inr jobs" and "j \<in> set jobs"
  shows "(\<forall>z \<in> set (j_Zones j). region_known cfg (zoneRegion z))
    \<and> (tier_active (fl_Tier f) \<longrightarrow>
         (\<exists>es e. (fl_Tier f, es) \<in> set (c_Tiers cfg) \<and> e \<in> set es \<and> te_Shape e = j_Shape j
            \<and> set (j_Zones j) \<subseteq> set (te_Zones e)))"
proof -
  have v: "valid_config cfg" using assms(1) by (simp add: Validate_None)
  have c: "j \<in> set (candidate_jobs cfg (fl_Tier f))"
    using assms(3) ExpandJobs_Inr(1) [OF assms(2)] by simp
  show ?thesis using candidate_zones_budgeted [OF v c] candidate_tier [OF c _ v] by blast
qed

theorem expanded_zones_witness:
  "\<exists>jobs j. ExpandJobs example_config (no_filter\<lparr>fl_Tier := ''1''\<rparr>) = Inr jobs \<and> j \<in> set jobs
     \<and> j_Zones j = [''us-east1-c''] \<and> region_known example_config (zoneRegion ''us-east1-c'')"
proof -
  have "(case ExpandJobs example_config (no_filter\<lparr>fl_Tier := ''1''\<rparr>) of
      Inl e \<Rightarrow> False | Inr jobs \<Rightarrow> map j_Zones jobs = [[''us-east1-c''], [''us-east1-c'']])"
    by code_simp
  then obtain jobs where j: "ExpandJobs example_config (no_filter\<lparr>fl_Tier := ''1''\<rparr>) = Inr jobs"
    "map j_Zones jobs = [[''us-east1-c''], [''us-east1-c'']]"
    by (auto split: sum.splits)
  then obtain a r where "jobs = a # r" "j_Zones a = [''us-east1-c'']" by (cases jobs) auto
  then have a: "a \<in> set jobs" "j_Zones a = [''us-east1-c'']" by simp_all
  from expanded_zones [OF example_valid j(1) a(1)] a j(1) show ?thesis by auto
qed

end
