(* ===== verification/Citrun_State.thy ===== *)
theory Citrun_State
  imports Citrun_Matrix
begin

text \<open>
  \<open>cmd/citrun/state.go\<close>: the record of a run and its files.  The wall-clock seconds of an attempt
  are kept as the duration they are computed from.  The JSON codec of the standard library is
  taken to restore what it wrote, so a file holds a value, or nothing readable.
\<close>

datatype job_status =
    StatusQueued | StatusRunning | StatusPassed | StatusFailedReal | StatusFailedInfra
  | StatusQuarantined

record attempt =
  a_Zone :: string
  a_Start :: time
  a_End :: time
  a_Wall :: duration
  a_Result :: string
  a_Detail :: string

record job_record =
  jr_Job :: job
  jr_Status :: job_status
  jr_Attempts :: "attempt list"
  jr_StockoutZones :: "string set"
  jr_StockoutRounds :: nat

record run_state =
  rs_RunID :: string
  rs_Started :: time
  rs_Order :: "string list"
  rs_Jobs :: "string \<rightharpoonup> job_record"
  rs_Cooldowns :: "string \<rightharpoonup> time"

definition new_record :: "job \<Rightarrow> job_record" where
  "new_record j = \<lparr>jr_Job = j,
     jr_Status = (if j_Quarantined j \<noteq> [] then StatusQuarantined else StatusQueued),
     jr_Attempts = [], jr_StockoutZones = {}, jr_StockoutRounds = 0\<rparr>"

definition add_record :: "job \<Rightarrow> run_state \<Rightarrow> run_state" where
  "add_record j st = st\<lparr>rs_Order := rs_Order st @ [j_ID j],
                       rs_Jobs := (rs_Jobs st)(j_ID j \<mapsto> new_record j)\<rparr>"

definition NewRunState :: "string \<Rightarrow> time \<Rightarrow> job list \<Rightarrow> run_state" where
  "NewRunState runID now jobs =
     fold add_record
       jobs \<lparr>rs_RunID = runID, rs_Started = now, rs_Order = [], rs_Jobs = Map.empty,
             rs_Cooldowns = Map.empty\<rparr>"

record event =
  ev_TS :: time
  ev_Job :: string
  ev_Type :: string
  ev_Zone :: string
  ev_Attempt :: int
  ev_Detail :: string

subsection \<open>The files of a run directory\<close>

datatype 'a content = Missing | Partial | Full 'a

record run_files =
  rf_State :: "run_state content"  \<comment> \<open>state.json\<close>
  rf_Tmp :: "run_state content"    \<comment> \<open>state.json.tmp\<close>
  rf_Events :: "event list"     \<comment> \<open>events.jsonl\<close>

text \<open>
  How far a save gets: the write of the temporary file fails (or the process dies in it), the
  rename fails, or both succeed.  The boolean is the absence of an error.
\<close>

datatype io_outcome = WriteFails | RenameFails | IoOk

definition SaveState :: "io_outcome \<Rightarrow> run_state \<Rightarrow> run_files \<Rightarrow> bool \<times> run_files" where
  "SaveState io st f =
     (case io of
        WriteFails \<Rightarrow> (False, f\<lparr>rf_Tmp := Partial\<rparr>)
      | RenameFails \<Rightarrow> (False, f\<lparr>rf_Tmp := Full st\<rparr>)
      | IoOk \<Rightarrow> (True, f\<lparr>rf_Tmp := Missing, rf_State := Full st\<rparr>))"

datatype state_error = NoStateFile | BadStateFile

definition LoadState :: "run_files \<Rightarrow> state_error + run_state" where
  "LoadState f =
     (case rf_State f of
        Missing \<Rightarrow> Inl NoStateFile
      | Partial \<Rightarrow> Inl BadStateFile
      | Full st \<Rightarrow> Inr st)"

definition AppendEvent :: "bool \<Rightarrow> event \<Rightarrow> run_files \<Rightarrow> bool \<times> run_files" where
  "AppendEvent ok ev f = (if ok then (True, f\<lparr>rf_Events := rf_Events f @ [ev]\<rparr>) else (False, f))"

subsection \<open>Properties of the record\<close>

lemma add_record_sel [simp]:
  "rs_Order (add_record j st) = rs_Order st @ [j_ID j]"
  "rs_Jobs (add_record j st) = (rs_Jobs st)(j_ID j \<mapsto> new_record j)"
  "rs_Cooldowns (add_record j st) = rs_Cooldowns st"
  "rs_RunID (add_record j st) = rs_RunID st"
  by (simp_all add: add_record_def)

lemma fold_add_record_sel:
  "rs_Order (fold add_record jobs st) = rs_Order st @ map j_ID jobs"
  "rs_Cooldowns (fold add_record jobs st) = rs_Cooldowns st"
  "k \<notin> j_ID ` set jobs \<Longrightarrow> rs_Jobs (fold add_record jobs st) k = rs_Jobs st k"
  by (induction jobs arbitrary: st) simp_all

lemma fold_add_record_job:
  "distinct (map j_ID jobs) \<Longrightarrow> j \<in> set jobs \<Longrightarrow>
     rs_Jobs (fold add_record jobs st) (j_ID j) = Some (new_record j)"
proof (induction jobs arbitrary: st)
  case (Cons x xs)
  then show ?case by (cases "j \<in> set xs") (auto simp: fold_add_record_sel)
qed simp

lemma NewRunState_sel [simp]:
  "rs_Order (NewRunState r n jobs) = map j_ID jobs"
  "rs_Cooldowns (NewRunState r n jobs) = Map.empty"
  by (simp_all add: NewRunState_def fold_add_record_sel)

lemma NewRunState_Jobs:
  "distinct (map j_ID jobs) \<Longrightarrow> j \<in> set jobs \<Longrightarrow>
     rs_Jobs (NewRunState r n jobs) (j_ID j) = Some (new_record j)"
  by (simp add: NewRunState_def fold_add_record_job)

lemma NewRunState_None: "k \<notin> j_ID ` set jobs \<Longrightarrow> rs_Jobs (NewRunState r n jobs) k = None"
  by (simp add: NewRunState_def fold_add_record_sel)

subsection \<open>A contract for persistent stores, and state.json as its provider\<close>

text \<open>
  The interface that a resumed run relies on: an attempt to save either takes effect as a whole
  or leaves what is read unchanged, and a save reported as successful took effect.
\<close>

locale atomic_store =
  fixes save :: "'o \<Rightarrow> 'v \<Rightarrow> 'f \<Rightarrow> bool \<times> 'f"
    and load :: "'f \<Rightarrow> 'e + 'v"
  assumes save_ok: "fst (save io v f) \<Longrightarrow> load (snd (save io v f)) = Inr v"
    and save_failed: "\<not> fst (save io v f) \<Longrightarrow> load (snd (save io v f)) = load f"
begin

fun saves :: "('o \<times> 'v) list \<Rightarrow> 'f \<Rightarrow> 'f" where
  "saves [] f = f"
| "saves ((io, v) # xs) f = saves xs (snd (save io v f))"

fun last_saved :: "('o \<times> 'v) list \<Rightarrow> 'f \<Rightarrow> 'e + 'v \<Rightarrow> 'e + 'v" where
  "last_saved [] f r = r"
| "last_saved ((io, v) # xs) f r =
     last_saved xs (snd (save io v f)) (if fst (save io v f) then Inr v else r)"

lemma load_saves: "load f = r \<Longrightarrow> load (saves xs f) = last_saved xs f r"
proof (induction xs arbitrary: f r)
  case (Cons x xs)
  obtain io v where x: "x = (io, v)" by fastforce
  have "load (snd (save io v f)) = (if fst (save io v f) then Inr v else r)"
    using save_ok save_failed Cons.prems by simp
  then show ?case using Cons.IH x by simp
qed simp

lemma load_never_worse: "load f = Inr v0 \<Longrightarrow> \<exists>v. load (saves xs f) = Inr v \<and> v \<in> insert v0 (snd ` set xs)"
proof (induction xs arbitrary: f v0)
  case (Cons x xs)
  obtain io v where x: "x = (io, v)" by fastforce
  have "load (snd (save io v f)) = Inr (if fst (save io v f) then v else v0)"
    using save_ok save_failed Cons.prems by simp
  from Cons.IH [OF this] show ?case using x by (auto split: if_splits)
qed simp

end

interpretation state_json: atomic_store SaveState LoadState
  by unfold_locales (auto simp: SaveState_def LoadState_def split: io_outcome.splits)

subsection \<open>Properties\<close>

text \<open>C31: Whatever happens to a sequence of saves (a failed write, a failed rename, a crash between
  the two), what a resume reads afterwards is the state of the last save that reported success,
  or the state before the sequence; it is never a torn file.\<close>

theorem state_survives_crashes:
  assumes "LoadState f = Inr st0"
  shows "LoadState (state_json.saves xs f) = state_json.last_saved xs f (Inr st0)
    \<and> (\<exists>st. LoadState (state_json.saves xs f) = Inr st \<and> st \<in> insert st0 (snd ` set xs))"
  using state_json.load_saves [OF assms] state_json.load_never_worse [OF assms] by blast

definition example_files :: "run_state \<Rightarrow> run_files" where
  "example_files st = \<lparr>rf_State = Full st, rf_Tmp = Missing, rf_Events = []\<rparr>"

theorem state_survives_crashes_witness:
  "LoadState (state_json.saves [(IoOk, NewRunState ''b'' 1 []), (RenameFails, NewRunState ''c'' 2 [])]
     (example_files (NewRunState ''a'' 0 []))) = Inr (NewRunState ''b'' 1 [])"
  using state_survives_crashes [of "example_files (NewRunState ''a'' 0 [])" "NewRunState ''a'' 0 []"
    "[(IoOk, NewRunState ''b'' 1 []), (RenameFails, NewRunState ''c'' 2 [])]"]
  by (simp add: example_files_def LoadState_def SaveState_def)

end
