(* ===== verification/Citrun_Placement.thy ===== *)
theory Citrun_Placement
  imports Citrun_State "HOL-Library.Product_Lexorder"
begin

text \<open>
  \<open>cmd/citrun/placement.go\<close>: which placements the configured budgets can ever admit.  The functions
  mirror the scheduler's own tests with the run-time penalties left out; the lemmas make the
  correspondence exact.
\<close>

definition CPUS :: string where
  "CPUS = ''CPUS''"

definition budgetKeysFor :: "config \<Rightarrow> job \<Rightarrow> string \<Rightarrow> string list" where
  "budgetKeysFor cfg j r =
     CPUS # (if j_BudgetKey j \<noteq> CPUS \<and> has_key (region_budgets cfg r) (j_BudgetKey j)
             then [j_BudgetKey j] else [])"

text \<open>The usable budget of one key: \<open>int(float64(limit) * SafetyFactor)\<close>.\<close>

definition usable_budget :: "config \<Rightarrow> string \<Rightarrow> string \<Rightarrow> int" where
  "usable_budget cfg r k = scale_int (region_limit cfg r k) (c_SafetyFactor cfg)"

definition regionUsable :: "config \<Rightarrow> job \<Rightarrow> string \<Rightarrow> int" where
  "regionUsable cfg j r =
     fold (\<lambda>k usable. let u = usable_budget cfg r k
                      in if usable = -1 \<or> u < usable then u else usable)
       (budgetKeysFor cfg j r) (-1)"

fun dedup_regions :: "string set \<Rightarrow> string list \<Rightarrow> string list" where
  "dedup_regions seen [] = []"
| "dedup_regions seen (z # zs) =
     (let r = zoneRegion z
      in if r \<in> seen then dedup_regions seen zs else r # dedup_regions (insert r seen) zs)"

definition eligibleRegions :: "job \<Rightarrow> string list" where
  "eligibleRegions j = sort (dedup_regions {} (j_Zones j))"

record excluded_zone =
  ez_Shape :: string
  ez_BudgetKey :: string
  ez_CPUCost :: int
  ez_Zone :: string
  ez_Region :: string
  ez_Usable :: "(string \<times> int) list"
  ez_Missing :: string

definition exclusion :: "config \<Rightarrow> job \<Rightarrow> string \<Rightarrow> excluded_zone" where
  "exclusion cfg j z =
     (let r = zoneRegion z
      in \<lparr>ez_Shape = j_Shape j, ez_BudgetKey = j_BudgetKey j, ez_CPUCost = j_CPUCost j,
          ez_Zone = z, ez_Region = r,
          ez_Usable = map (\<lambda>k. (k, usable_budget cfg r k)) (budgetKeysFor cfg j r),
          ez_Missing = (if \<not> has_key (region_budgets cfg r) (j_BudgetKey j)
                           \<and> j_BudgetKey j \<noteq> CPUS then j_BudgetKey j else [])\<rparr>)"

text \<open>The loop over one job's zones: the zones found infeasible, those seen, the feasible count.\<close>

fun scan_zones ::
  "config \<Rightarrow> job \<Rightarrow> string list \<Rightarrow> excluded_zone list \<times> string set \<times> nat
     \<Rightarrow> excluded_zone list \<times> string set \<times> nat" where
  "scan_zones cfg j [] st = st"
| "scan_zones cfg j (z # zs) (excl, seen, feasible) =
     (if j_CPUCost j \<le> regionUsable cfg j (zoneRegion z)
      then scan_zones cfg j zs (excl, seen, Suc feasible)
      else (let key = j_Shape j @ ''|'' @ z
            in if key \<in> seen then scan_zones cfg j zs (excl, seen, feasible)
               else scan_zones cfg j zs
                      (excl @ [exclusion cfg j z], insert key seen, feasible)))"

fun scan_jobs ::
  "config \<Rightarrow> run_state \<Rightarrow> string list \<Rightarrow> excluded_zone list \<times> string set \<times> nat
     \<Rightarrow> excluded_zone list \<times> string set \<times> nat" where
  "scan_jobs cfg st [] acc = acc"
| "scan_jobs cfg st (i # is) (excl, seen, zeroFit) =
     (case rs_Jobs st i of
        None \<Rightarrow> scan_jobs cfg st is (excl, seen, zeroFit)
      | Some rec \<Rightarrow>
          if j_Quarantined (jr_Job rec) \<noteq> [] then scan_jobs cfg st is (excl, seen, zeroFit)
          else (case scan_zones cfg (jr_Job rec) (j_Zones (jr_Job rec)) (excl, seen, 0) of
                  (excl', seen', feasible) \<Rightarrow>
                    scan_jobs cfg st is
                      (excl', seen',
                       if j_Zones (jr_Job rec) \<noteq> [] \<and> feasible = 0 then Suc zeroFit else zeroFit)))"

definition excludedZones :: "config \<Rightarrow> run_state \<Rightarrow> excluded_zone list \<times> nat" where
  "excludedZones cfg st =
     (case scan_jobs cfg st (rs_Order st) ([], {}, 0) of
        (excl, _, zeroFit) \<Rightarrow> (sort_key (\<lambda>e. (ez_Shape e, ez_Zone e)) excl, zeroFit))"

text \<open>\<open>validatePlaceable\<close>: the jobs no eligible region can take, then the error text.\<close>

record unplaceable =
  up_Job :: job
  up_Usable :: "(string \<times> int) list"  \<comment> \<open>per eligible region, in order\<close>

definition unplaceable_jobs :: "config \<Rightarrow> job list \<Rightarrow> unplaceable list" where
  "unplaceable_jobs cfg jobs =
     map (\<lambda>j. \<lparr>up_Job = j, up_Usable = map (\<lambda>r. (r, regionUsable cfg j r)) (eligibleRegions j)\<rparr>)
       (filter (\<lambda>j. j_Quarantined j = []
                    \<and> \<not> list_ex (\<lambda>r. j_CPUCost j \<le> regionUsable cfg j r) (eligibleRegions j)) jobs)"

definition newline :: string where
  "newline = [CHR 0x0A]"

definition unplaceable_line :: "unplaceable \<Rightarrow> string" where
  "unplaceable_line b =
     (let mins = map (\<lambda>(r, u). r @ ''='' @ itoa u) (up_Usable b);
          mins' = (if mins = [] then [''(no eligible regions)''] else mins)
      in ''  '' @ j_ID (up_Job b) @ '': CPUCost='' @ itoa (j_CPUCost (up_Job b))
         @ '', usable minimums: '' @ Join '', '' mins' @ newline)"

definition validatePlaceable :: "config \<Rightarrow> job list \<Rightarrow> string option" where
  "validatePlaceable cfg jobs =
     (let bad = unplaceable_jobs cfg jobs; shown = 5
      in if bad = [] then None
         else Some (itoa (int (length bad))
           @ '' job(s) can never be placed (CPUCost exceeds every eligible region's usable budget):''
           @ newline @ concat (map unplaceable_line (take shown bad))
           @ (if shown < length bad
              then ''...and '' @ itoa (int (length bad - shown)) @ '' more'' @ newline else [])))"

subsection \<open>Feasibility\<close>

text \<open>
  A placement is feasible when every budget key of the job has room for it.  The sentinel \<open>-1\<close>
  of \<open>regionUsable\<close> is harmless as long as no scaled budget is \<open>-1\<close> itself.
\<close>

definition feasible :: "config \<Rightarrow> job \<Rightarrow> string \<Rightarrow> bool" where
  "feasible cfg j r = (\<forall>k \<in> set (budgetKeysFor cfg j r). j_CPUCost j \<le> usable_budget cfg r k)"

lemma budgetKeysFor_CPUS: "CPUS \<in> set (budgetKeysFor cfg j r)"
  by (simp add: budgetKeysFor_def)

lemma distinct_budgetKeysFor: "distinct (budgetKeysFor cfg j r)"
  by (simp add: budgetKeysFor_def)

lemma regionUsable_feasible:
  assumes "usable_budget cfg r CPUS \<noteq> -1"
  shows "j_CPUCost j \<le> regionUsable cfg j r \<longleftrightarrow> feasible cfg j r"
  using assms by (auto simp: regionUsable_def feasible_def budgetKeysFor_def Let_def)

definition nonneg_budgets :: "config \<Rightarrow> bool" where
  "nonneg_budgets cfg \<longleftrightarrow>
     (\<forall>row \<in> snd ` set (b_Regions (c_Budgets cfg)). \<forall>l \<in> snd ` set row. 0 \<le> l \<and> l < 2 ^ 53)"

lemma lookup0_in: "lookup0 m z k = z \<or> lookup0 m z k \<in> snd ` set m"
  by (cases "map_of m k") (force simp: lookup0_def dest: map_of_SomeD)+

lemma region_limit_bounds: "nonneg_budgets cfg \<Longrightarrow> 0 \<le> region_limit cfg r k \<and> region_limit cfg r k < 2 ^ 53"
proof -
  assume nn: "nonneg_budgets cfg"
  have "region_limit cfg r k = 0 \<or> region_limit cfg r k \<in> snd ` set (region_budgets cfg r)"
    unfolding region_limit_def by (rule lookup0_in)
  moreover have "region_budgets cfg r = []
      \<or> region_budgets cfg r \<in> snd ` set (b_Regions (c_Budgets cfg))"
    unfolding region_budgets_def by (rule lookup0_in)
  ultimately show ?thesis using nn by (fastforce simp: nonneg_budgets_def)
qed

lemma usable_budget_bounds:
  assumes "nonneg_budgets cfg" and "valid_config cfg" and "c_SafetyFactor cfg \<noteq> NaN"
  shows "0 \<le> usable_budget cfg r k \<and> usable_budget cfg r k \<le> region_limit cfg r k"
  unfolding usable_budget_def
  using assms region_limit_bounds [OF assms(1)]
  by (intro scale_int_bounds) (simp_all add: valid_config_def)

lemma dedup_regions_set: "set (dedup_regions seen zs) = zoneRegion ` set zs - seen"
  by (induction zs arbitrary: seen) (auto simp: Let_def)

lemma set_eligibleRegions [simp]: "set (eligibleRegions j) = zoneRegion ` set (j_Zones j)"
  by (simp add: eligibleRegions_def dedup_regions_set)

lemma distinct_dedup: "distinct (dedup_regions seen zs)"
  by (induction zs arbitrary: seen) (auto simp: Let_def dedup_regions_set)

lemma unplaceable_iff:
  "validatePlaceable cfg jobs = None \<longleftrightarrow>
     (\<forall>j \<in> set jobs. j_Quarantined j = [] \<longrightarrow>
        (\<exists>z \<in> set (j_Zones j). j_CPUCost j \<le> regionUsable cfg j (zoneRegion z)))"
  by (auto simp: validatePlaceable_def unplaceable_jobs_def Let_def list_ex_iff filter_empty_conv)

lemma scan_zones_set:
  "scan_zones cfg j zs (excl, seen, n) = (excl', seen', n') \<Longrightarrow>
     n' = n + length (filter (\<lambda>z. j_CPUCost j \<le> regionUsable cfg j (zoneRegion z)) zs)
     \<and> set excl' \<subseteq> set excl \<union> {exclusion cfg j z | z. z \<in> set zs
          \<and> regionUsable cfg j (zoneRegion z) < j_CPUCost j}"
proof (induction zs arbitrary: excl seen n)
  case (Cons z zs)
  then show ?case by (fastforce simp: Let_def split: if_splits)
qed simp

lemma scan_zones_listed:
  assumes "scan_zones cfg j zs (excl, seen, n) = (excl', seen', n')"
    and "seen = (\<lambda>e. ez_Shape e @ ''|'' @ ez_Zone e) ` set excl"
  shows "seen' = (\<lambda>e. ez_Shape e @ ''|'' @ ez_Zone e) ` set excl'
    \<and> seen' = seen \<union> {j_Shape j @ ''|'' @ z | z. z \<in> set zs
         \<and> regionUsable cfg j (zoneRegion z) < j_CPUCost j}"
  using assms
proof (induction zs arbitrary: excl seen n)
  case (Cons z zs)
  consider (fit) "j_CPUCost j \<le> regionUsable cfg j (zoneRegion z)"
    | (old) "regionUsable cfg j (zoneRegion z) < j_CPUCost j" "j_Shape j @ ''|'' @ z \<in> seen"
    | (new) "regionUsable cfg j (zoneRegion z) < j_CPUCost j" "j_Shape j @ ''|'' @ z \<notin> seen"
    by linarith
  then show ?case
  proof cases
    case fit
    with Cons.prems have "scan_zones cfg j zs (excl, seen, Suc n) = (excl', seen', n')" by simp
    from Cons.IH [OF this Cons.prems(2)] fit show ?thesis by auto
  next
    case old
    with Cons.prems have "scan_zones cfg j zs (excl, seen, n) = (excl', seen', n')"
      by (simp add: Let_def)
    from Cons.IH [OF this Cons.prems(2)] old show ?thesis by auto
  next
    case new
    with Cons.prems have s: "scan_zones cfg j zs (excl @ [exclusion cfg j z],
        insert (j_Shape j @ ''|'' @ z) seen, n) = (excl', seen', n')"
      by (simp add: Let_def)
    have "insert (j_Shape j @ ''|'' @ z) seen =
        (\<lambda>e. ez_Shape e @ ''|'' @ ez_Zone e) ` set (excl @ [exclusion cfg j z])"
      using Cons.prems(2) by (simp add: exclusion_def Let_def)
    from Cons.IH [OF s this] new show ?thesis by auto
  qed
qed simp

subsection \<open>Properties\<close>

text \<open>With limits that are not negative and below $2^{53}$, the usable part of a budget, computed
  in floating point, is between 0 and the limit: rounding never grants more than is configured.\<close>

theorem usable_within_limit:
  assumes "nonneg_budgets cfg" and "Validate cfg = None" and "c_SafetyFactor cfg \<noteq> NaN"
  shows "0 \<le> usable_budget cfg r k \<and> usable_budget cfg r k \<le> region_limit cfg r k"
  using usable_budget_bounds [OF assms(1) _ assms(3)] assms(2) by (simp add: Validate_None)

lemma example_nonneg: "nonneg_budgets example_config"
  by (simp add: nonneg_budgets_def example_config_def)

theorem usable_within_limit_witness:
  "usable_budget example_config ''us-east1'' ''CPUS'' = 8
   \<and> 0 \<le> usable_budget example_config ''us-east1'' ''CPUS''
   \<and> usable_budget example_config ''us-east1'' ''CPUS'' \<le> region_limit example_config ''us-east1'' ''CPUS''"
proof -
  have "usable_budget example_config ''us-east1'' ''CPUS'' = 8" by code_simp
  moreover have "c_SafetyFactor example_config \<noteq> NaN" by (simp add: example_config_def)
  ultimately show ?thesis
    using usable_within_limit [OF example_nonneg example_valid, of "''us-east1''" "''CPUS''"] by simp
qed

text \<open>C33: \<open>validatePlaceable\<close> accepts a list of jobs exactly when every job that is not quarantined
  has a zone in whose region each of the job's budget keys, taken with the safety factor, covers
  the job's cost.\<close>

theorem placeable_iff_feasible:
  assumes "nonneg_budgets cfg" and "Validate cfg = None" and "c_SafetyFactor cfg \<noteq> NaN"
  shows "validatePlaceable cfg jobs = None \<longleftrightarrow>
    (\<forall>j \<in> set jobs. j_Quarantined j = [] \<longrightarrow>
       (\<exists>z \<in> set (j_Zones j). \<forall>k \<in> set (budgetKeysFor cfg j (zoneRegion z)).
          j_CPUCost j \<le> usable_budget cfg (zoneRegion z) k))"
proof -
  have "usable_budget cfg r CPUS \<noteq> -1" for r
    using usable_budget_bounds [OF assms(1) _ assms(3), of r CPUS] assms(2) by (auto simp: Validate_None)
  then show ?thesis by (simp add: unplaceable_iff regionUsable_feasible feasible_def)
qed

definition example_job :: job where
  "example_job = matrix_job example_config (hd (c_Matrix example_config)) ''n2-4'' ''debian-12'' ''disk''"

lemma example_zone: "''us-east1-b'' \<in> set (j_Zones example_job)"
  by code_simp

lemma example_budgets:
  "zoneRegion ''us-east1-b'' = ''us-east1''"
  "budgetKeysFor example_config example_job ''us-east1'' = [''CPUS'', ''N2_CPUS'']"
  "j_CPUCost example_job = 4"
  "usable_budget example_config ''us-east1'' ''CPUS'' = 8"
  "usable_budget example_config ''us-east1'' ''N2_CPUS'' = 4"
proof -
  show "zoneRegion ''us-east1-b'' = ''us-east1''" by code_simp
  show "budgetKeysFor example_config example_job ''us-east1'' = [''CPUS'', ''N2_CPUS'']" by code_simp
  show "j_CPUCost example_job = 4" by code_simp
  show "usable_budget example_config ''us-east1'' ''CPUS'' = 8" by code_simp
  show "usable_budget example_config ''us-east1'' ''N2_CPUS'' = 4" by code_simp
qed

lemma example_usable:
  "j_CPUCost example_job \<le> regionUsable example_config example_job (zoneRegion ''us-east1-b'')"
  unfolding regionUsable_def by (simp add: example_budgets)

lemma example_placeable: "validatePlaceable example_config [example_job] = None"
  using example_zone example_usable by (auto simp: unplaceable_iff)

theorem placeable_iff_feasible_witness:
  "validatePlaceable example_config [example_job] = None
   \<and> (\<exists>z \<in> set (j_Zones example_job). \<forall>k \<in> set (budgetKeysFor example_config example_job (zoneRegion z)).
        j_CPUCost example_job \<le> usable_budget example_config (zoneRegion z) k)"
proof -
  have q: "j_Quarantined example_job = []" by code_simp
  have "c_SafetyFactor example_config \<noteq> NaN" by (simp add: example_config_def)
  then show ?thesis
    using placeable_iff_feasible [OF example_nonneg example_valid, of "[example_job]"] q example_placeable
    by simp
qed

text \<open>The audit over the jobs in order, with the keys it has listed.\<close>

definition infeasible_keys :: "config \<Rightarrow> run_state \<Rightarrow> string list \<Rightarrow> string set" where
  "infeasible_keys cfg st is =
     {j_Shape (jr_Job rec) @ ''|'' @ z | i rec z. i \<in> set is \<and> rs_Jobs st i = Some rec
        \<and> j_Quarantined (jr_Job rec) = [] \<and> z \<in> set (j_Zones (jr_Job rec))
        \<and> regionUsable cfg (jr_Job rec) (zoneRegion z) < j_CPUCost (jr_Job rec)}"

lemma scan_jobs_listed:
  assumes "scan_jobs cfg st is (excl, seen, n) = (excl', seen', n')"
    and "seen = (\<lambda>e. ez_Shape e @ ''|'' @ ez_Zone e) ` set excl"
  shows "seen' = (\<lambda>e. ez_Shape e @ ''|'' @ ez_Zone e) ` set excl'
    \<and> seen' = seen \<union> infeasible_keys cfg st is"
  using assms
proof (induction "is" arbitrary: excl seen n)
  case (Cons i "is")
  consider (skip) "scan_jobs cfg st is (excl, seen, n) = (excl', seen', n')"
      "infeasible_keys cfg st (i # is) = infeasible_keys cfg st is"
    | (scan) rec where "rs_Jobs st i = Some rec" "j_Quarantined (jr_Job rec) = []"
    using Cons.prems(1)
    by (cases "rs_Jobs st i") (force simp: infeasible_keys_def split: if_splits)+
  then show ?case
  proof cases
    case skip
    then show ?thesis using Cons.IH [OF skip(1) Cons.prems(2)] by metis
  next
    case scan
    define j where "j = jr_Job rec"
    obtain e1 s1 m where sz: "scan_zones cfg j (j_Zones j) (excl, seen, 0) = (e1, s1, m)"
      by (metis prod_cases3)
    obtain n1 where rest: "scan_jobs cfg st is (e1, s1, n1) = (excl', seen', n')"
      using Cons.prems(1) scan sz by (auto simp: j_def)
    note L = scan_zones_listed [OF sz Cons.prems(2)]
    have keys: "infeasible_keys cfg st (i # is) =
        {j_Shape j @ ''|'' @ z | z. z \<in> set (j_Zones j) \<and> regionUsable cfg j (zoneRegion z) < j_CPUCost j}
        \<union> infeasible_keys cfg st is"
      using scan by (auto simp: infeasible_keys_def j_def)
    have "s1 = (\<lambda>e. ez_Shape e @ ''|'' @ ez_Zone e) ` set e1" using L by blast
    note IH = Cons.IH [OF rest this]
    have "seen' = s1 \<union> infeasible_keys cfg st is" by (rule IH [THEN conjunct2])
    also have "\<dots> = seen \<union> infeasible_keys cfg st (i # is)"
      unfolding keys L [THEN conjunct2] by (rule sup_assoc)
    finally show ?thesis using IH [THEN conjunct1] by (rule conjI [rotated])
  qed
qed (simp add: infeasible_keys_def)

text \<open>The audit of \<open>excludedZones\<close> lists a shape and zone pair exactly when some job of that
  shape that is not quarantined names the zone and can never fit its region's budgets.\<close>

theorem audit_lists_infeasible:
  "(\<lambda>e. ez_Shape e @ ''|'' @ ez_Zone e) ` set (fst (excludedZones cfg st)) =
     infeasible_keys cfg st (rs_Order st)"
proof -
  obtain e s n where "scan_jobs cfg st (rs_Order st) ([], {}, 0) = (e, s, n)" by (metis prod_cases3)
  with scan_jobs_listed [OF this] show ?thesis by (auto simp: excludedZones_def)
qed

end
