(* ===== verification/Citrun_Scheduler.thy ===== *)
theory Citrun_Scheduler
  imports Citrun_Placement
begin

text \<open>
  \<open>cmd/citrun/scheduler.go\<close>: the scheduler's state and operations.  Each operation takes the
  configuration and an environment: the clock's reading, and how far the writes to the run
  directory get for each job.  A pass over the queue reads the clock once.  The goroutines that
  \<open>launch\<close> starts are the list \<open>sc_inflight\<close>: each will deliver one completion.
\<close>

definition ClassPass :: string where "ClassPass = ''pass''"
definition ClassFail :: string where "ClassFail = ''fail''"
definition ClassStockout :: string where "ClassStockout = ''stockout''"
definition ClassQuota :: string where "ClassQuota = ''quota''"
definition ClassTimeout :: string where "ClassTimeout = ''timeout''"
definition ClassError :: string where "ClassError = ''error''"
definition ClassInfra :: string where "ClassInfra = ''infra''"

lemmas class_defs = ClassPass_def ClassFail_def ClassStockout_def ClassQuota_def ClassTimeout_def
  ClassError_def ClassInfra_def

definition quotaPenaltyDur :: duration where
  "quotaPenaltyDur = 10 * minute"

record result =
  Classification :: string
  Detail :: string

record flight =
  fl_Job :: job
  fl_Zone :: string
  fl_Start :: time

record completion =
  co_jobID :: string
  co_zone :: string
  co_start :: time
  co_end :: time
  co_res :: result

record env =
  e_now :: time
  e_io :: "string \<Rightarrow> io_outcome \<times> bool"

record scheduler =
  sc_st :: run_state
  sc_running :: int
  sc_runningPerShape :: "string \<Rightarrow> int"
  sc_usedCPU :: "string \<Rightarrow> string \<Rightarrow> int"
  sc_usedNets :: int
  sc_usedSubnets :: int
  sc_cooldownHits :: "string \<Rightarrow> int"
  sc_quotaPenalty :: "string \<rightharpoonup> time"
  sc_zoneRR :: "string \<Rightarrow> nat"
  sc_files :: run_files
  sc_inflight :: "flight list"

subsection \<open>Construction\<close>

definition stockout_key :: "string \<Rightarrow> string" where
  "stockout_key i = ''stockout|'' @ i"

definition quota_key :: "string \<Rightarrow> string \<Rightarrow> string" where
  "quota_key budgetKey region = ''quota|'' @ budgetKey @ ''|'' @ region"

definition penalty_key :: "string \<Rightarrow> string \<Rightarrow> string" where
  "penalty_key key region = key @ ''|'' @ region"

definition scheduler_key :: "string \<Rightarrow> bool" where
  "scheduler_key k = (HasPrefix k ''quota|'' \<or> HasPrefix k ''stockout|'')"

text \<open>
  The migration of old cooldowns.  \<open>keys\<close> is the order in which the cooldowns are visited and
  \<open>ids\<close> the order of the jobs, both of which Go leaves open.
\<close>

definition legacy_hit :: "time \<Rightarrow> string \<Rightarrow> job_record \<Rightarrow> attempt \<Rightarrow> bool" where
  "legacy_hit now key rec a =
     (a_Result a = ClassQuota
      \<and> j_Series (jr_Job rec) @ ''|'' @ zoneRegion (a_Zone a) = key
      \<and> now - 64 * minute < a_End a)"

definition raise_cooldown :: "string \<Rightarrow> time \<Rightarrow> (string \<rightharpoonup> time) \<Rightarrow> (string \<rightharpoonup> time)" where
  "raise_cooldown k until cds = (if get_time cds k < until then cds(k \<mapsto> until) else cds)"

definition migrate_record ::
  "time \<Rightarrow> string \<Rightarrow> time \<Rightarrow> job_record \<Rightarrow> (string \<rightharpoonup> time) \<Rightarrow> (string \<rightharpoonup> time)" where
  "migrate_record now key until rec cds =
     fold (\<lambda>a cds. if legacy_hit now key rec a
                   then raise_cooldown (quota_key (j_BudgetKey (jr_Job rec)) (zoneRegion (a_Zone a)))
                          until cds
                   else cds)
       (jr_Attempts rec) cds"

definition migrate_key ::
  "time \<Rightarrow> run_state \<Rightarrow> string list \<Rightarrow> string \<Rightarrow> (string \<rightharpoonup> time) \<Rightarrow> (string \<rightharpoonup> time)" where
  "migrate_key now st ids key cds =
     (if scheduler_key key then cds
      else (let until = get_time cds key;
                cds' = (if now < until
                        then fold (\<lambda>i cds. case rs_Jobs st i of
                                             None \<Rightarrow> cds
                                           | Some rec \<Rightarrow> migrate_record now key until rec cds)
                               ids cds
                        else cds)
            in cds'(key := None)))"

definition NewScheduler ::
  "time \<Rightarrow> string list \<Rightarrow> string list \<Rightarrow> run_state \<Rightarrow> run_files \<Rightarrow> scheduler" where
  "NewScheduler now keys ids st files =
     \<lparr>sc_st = st\<lparr>rs_Cooldowns := fold (migrate_key now st ids) keys (rs_Cooldowns st)\<rparr>,
      sc_running = 0, sc_runningPerShape = (\<lambda>_. 0), sc_usedCPU = (\<lambda>_ _. 0), sc_usedNets = 0,
      sc_usedSubnets = 0, sc_cooldownHits = (\<lambda>_. 0), sc_quotaPenalty = Map.empty,
      sc_zoneRR = (\<lambda>_. 0), sc_files = files, sc_inflight = []\<rparr>"

subsection \<open>Budgets\<close>

definition queuedRemaining :: "run_state \<Rightarrow> nat option" where
  "queuedRemaining st =
     fold_opt (\<lambda>i n. case rs_Jobs st i of
                       None \<Rightarrow> None
                     | Some rec \<Rightarrow> Some (if jr_Status rec = StatusQueued then Suc n else n))
       (rs_Order st) 0"

definition budgetKeys :: "config \<Rightarrow> job \<Rightarrow> string \<Rightarrow> string list" where
  "budgetKeys cfg j region =
     (let keys = [CPUS]
      in if j_BudgetKey j \<noteq> CPUS then
           (if has_key (region_budgets cfg region) (j_BudgetKey j)
            then keys @ [j_BudgetKey j] else keys)
         else keys)"

definition allowed :: "config \<Rightarrow> time \<Rightarrow> scheduler \<Rightarrow> string \<Rightarrow> string \<Rightarrow> int" where
  "allowed cfg now s region key =
     (let a = usable_budget cfg region key
      in case sc_quotaPenalty s (penalty_key key region) of
           Some until \<Rightarrow> if now < until then go_div a 2 else a
         | None \<Rightarrow> a)"

definition headroom :: "config \<Rightarrow> time \<Rightarrow> scheduler \<Rightarrow> job \<Rightarrow> string \<Rightarrow> int" where
  "headroom cfg now s j region =
     fold (\<lambda>key h. let free = allowed cfg now s region key - sc_usedCPU s region key
                   in if free < h then free else h)
       (budgetKeys cfg j region) (2 ^ 30)"

definition avoidZone :: "job_record \<Rightarrow> string" where
  "avoidZone rec =
     (if jr_Attempts rec = [] then []
      else let l = last (jr_Attempts rec)
           in if a_Result l = ClassStockout \<or> a_Result l = ClassQuota then a_Zone l else [])"

definition fitsConfiguredBudget :: "config \<Rightarrow> job \<Rightarrow> string \<Rightarrow> bool" where
  "fitsConfiguredBudget cfg j region =
     (\<not> list_ex (\<lambda>key. usable_budget cfg region key < j_CPUCost j) (budgetKeys cfg j region))"

subsection \<open>Choosing a zone\<close>

definition set_job :: "string \<Rightarrow> job_record \<Rightarrow> run_state \<Rightarrow> run_state" where
  "set_job i rec st = st\<lparr>rs_Jobs := (rs_Jobs st)(i \<mapsto> rec)\<rparr>"

text \<open>An expired sweep cooldown: forget it and the zones the sweep failed in.\<close>

definition clear_sweep :: "job \<Rightarrow> scheduler \<Rightarrow> scheduler" where
  "clear_sweep j s =
     (let st = sc_st s;
          st1 = st\<lparr>rs_Cooldowns := (rs_Cooldowns st)(stockout_key (j_ID j) := None)\<rparr>
      in s\<lparr>sc_st := (case rs_Jobs st (j_ID j) of
                       None \<Rightarrow> st1
                     | Some rec \<Rightarrow> set_job (j_ID j) (rec\<lparr>jr_StockoutZones := {}\<rparr>) st1)\<rparr>)"

definition stockout_zones :: "scheduler \<Rightarrow> job \<Rightarrow> string set" where
  "stockout_zones s j =
     (case rs_Jobs (sc_st s) (j_ID j) of None \<Rightarrow> {} | Some rec \<Rightarrow> jr_StockoutZones rec)"

definition zone_open :: "time \<Rightarrow> scheduler \<Rightarrow> job \<Rightarrow> string \<Rightarrow> bool \<Rightarrow> string \<Rightarrow> bool" where
  "zone_open now s j avoid skipLast z =
     (\<not> (skipLast \<and> z = avoid)
      \<and> z \<notin> stockout_zones s j
      \<and> \<not> now < get_time (rs_Cooldowns (sc_st s)) (quota_key (j_BudgetKey j) (zoneRegion z)))"

definition best_region :: "config \<Rightarrow> time \<Rightarrow> scheduler \<Rightarrow> job \<Rightarrow> string list \<Rightarrow> string \<times> int" where
  "best_region cfg now s j order =
     fold (\<lambda>r (best, bestFree).
             let free = headroom cfg now s j r
             in if j_CPUCost j \<le> free \<and> bestFree < free then (r, free) else (best, bestFree))
       order ([], -1)"

fun pick_pass ::
  "config \<Rightarrow> time \<Rightarrow> job \<Rightarrow> string \<Rightarrow> bool list \<Rightarrow> scheduler \<Rightarrow> string \<times> scheduler" where
  "pick_pass cfg now j avoid [] s = ([], s)"
| "pick_pass cfg now j avoid (skipLast # rest) s =
     (let cands = filter (zone_open now s j avoid skipLast) (j_Zones j);
          order = sort (dedup_regions {} cands);
          best = fst (best_region cfg now s j order)
      in if best \<noteq> [] then
           let zones = filter (\<lambda>z. zoneRegion z = best) cands;
               z = zones ! (sc_zoneRR s best mod length zones)
           in (z, s\<lparr>sc_zoneRR := (sc_zoneRR s)(best := sc_zoneRR s best + 1)\<rparr>)
         else pick_pass cfg now j avoid rest s)"

definition pickZone :: "config \<Rightarrow> time \<Rightarrow> job \<Rightarrow> string \<Rightarrow> scheduler \<Rightarrow> string \<times> scheduler" where
  "pickZone cfg now j avoid s =
     (case rs_Cooldowns (sc_st s) (stockout_key (j_ID j)) of
        Some until \<Rightarrow>
          if now < until then ([], s)
          else pick_pass cfg now j avoid [True, False] (clear_sweep j s)
      | None \<Rightarrow> pick_pass cfg now j avoid [True, False] s)"

subsection \<open>Stockouts and cooldowns\<close>

text \<open>\<open>1 << n\<close> on a 64-bit signed integer.\<close>

definition shl1 :: "nat \<Rightarrow> int" where
  "shl1 n = (if n < 64 then wrap64 (2 ^ n) else 0)"

text \<open>
  \<open>recordStockout\<close> on the job's record and the cooldown map; the key is the record's own job.
\<close>

definition recordStockout ::
  "config \<Rightarrow> time \<Rightarrow> job_record \<Rightarrow> string \<Rightarrow> (string \<rightharpoonup> time) \<Rightarrow> job_record \<times> (string \<rightharpoonup> time)" where
  "recordStockout cfg now rec zone cds =
     (let rec1 = rec\<lparr>jr_StockoutZones := insert zone (jr_StockoutZones rec),
                     jr_Status := StatusQueued\<rparr>
      in if list_ex (\<lambda>z. fitsConfiguredBudget cfg (jr_Job rec) (zoneRegion z)
                         \<and> z \<notin> jr_StockoutZones rec1) (j_Zones (jr_Job rec))
         then (rec1, cds)
         else let rounds = Suc (jr_StockoutRounds rec); rec2 = rec1\<lparr>jr_StockoutRounds := rounds\<rparr>
              in if rt_Stockout (c_Retries cfg) \<le> int rounds
                 then (rec2\<lparr>jr_Status := StatusFailedInfra\<rparr>, cds)
                 else (rec2, cds(stockout_key (j_ID (jr_Job rec)) \<mapsto>
                         now + wrap64 (rt_CooldownBase (c_Retries cfg) * shl1 (rounds - 1)))))"

definition bumpCooldown :: "config \<Rightarrow> time \<Rightarrow> string \<Rightarrow> scheduler \<Rightarrow> scheduler" where
  "bumpCooldown cfg now key s =
     (if now < get_time (rs_Cooldowns (sc_st s)) key then s
      else let hits = sc_cooldownHits s key + 1;
               h = (if 6 < hits then 6 else hits);
               d = wrap64 (rt_CooldownBase (c_Retries cfg) * shl1 (nat (h - 1)))
           in s\<lparr>sc_cooldownHits := (sc_cooldownHits s)(key := hits),
                sc_st := (sc_st s)\<lparr>rs_Cooldowns := (rs_Cooldowns (sc_st s))(key \<mapsto> now + d)\<rparr>\<rparr>)"

subsection \<open>Charging, launching, admission\<close>

definition charge :: "config \<Rightarrow> job \<Rightarrow> string \<Rightarrow> int \<Rightarrow> scheduler \<Rightarrow> scheduler" where
  "charge cfg j region sign s =
     s\<lparr>sc_usedCPU := (sc_usedCPU s)(region :=
         fold (\<lambda>key row. row(key := row key + sign * j_CPUCost j)) (budgetKeys cfg j region)
           (sc_usedCPU s region)),
       sc_usedNets := sc_usedNets s + sign * j_Networks j,
       sc_usedSubnets := sc_usedSubnets s + sign * j_Subnets j,
       sc_running := sc_running s + sign,
       sc_runningPerShape := (sc_runningPerShape s)(j_Shape j :=
         sc_runningPerShape s (j_Shape j) + sign)\<rparr>"

text \<open>Failures of the two writes are logged and ignored.\<close>

definition persist ::
  "env \<Rightarrow> string \<Rightarrow> string \<Rightarrow> string \<Rightarrow> int \<Rightarrow> string \<Rightarrow> scheduler \<Rightarrow> scheduler" where
  "persist e jobID evType zone n detail s =
     (let f1 = snd (SaveState (fst (e_io e jobID)) (sc_st s) (sc_files s));
          ev = \<lparr>ev_TS = e_now e, ev_Job = jobID, ev_Type = evType, ev_Zone = zone,
                ev_Attempt = n, ev_Detail = detail\<rparr>
      in s\<lparr>sc_files := snd (AppendEvent (snd (e_io e jobID)) ev f1)\<rparr>)"

definition new_attempt :: "string \<Rightarrow> time \<Rightarrow> attempt" where
  "new_attempt zone start = \<lparr>a_Zone = zone, a_Start = start, a_End = 0, a_Wall = 0,
     a_Result = ''running'', a_Detail = []\<rparr>"

definition launch :: "config \<Rightarrow> env \<Rightarrow> job \<Rightarrow> string \<Rightarrow> scheduler \<Rightarrow> scheduler option" where
  "launch cfg e j zone s =
     (case rs_Jobs (sc_st s) (j_ID j) of
        None \<Rightarrow> None
      | Some rec \<Rightarrow>
          let start = e_now e;
              rec1 = rec\<lparr>jr_Status := StatusRunning,
                         jr_Attempts := jr_Attempts rec @ [new_attempt zone start]\<rparr>;
              s1 = charge cfg j (zoneRegion zone) 1 s;
              s2 = s1\<lparr>sc_st := set_job (j_ID j) rec1 (sc_st s1)\<rparr>;
              s3 = persist e (j_ID j) ''launched'' zone (int (length (jr_Attempts rec1))) [] s2
          in Some (s3\<lparr>sc_inflight := sc_inflight s3 @
                       [\<lparr>fl_Job = j, fl_Zone = zone, fl_Start = start\<rparr>]\<rparr>))"

fun admit_loop :: "config \<Rightarrow> env \<Rightarrow> string list \<Rightarrow> scheduler \<Rightarrow> scheduler option" where
  "admit_loop cfg e [] s = Some s"
| "admit_loop cfg e (i # is) s =
     (case rs_Jobs (sc_st s) i of
        None \<Rightarrow> None
      | Some rec \<Rightarrow>
          if jr_Status rec \<noteq> StatusQueued then admit_loop cfg e is s
          else if c_ContainerCap cfg \<le> sc_running s then Some s
          else
            let j = jr_Job rec
            in if 0 < j_MaxParallel j \<and> j_MaxParallel j \<le> sc_runningPerShape s (j_Shape j)
               then admit_loop cfg e is s
               else if b_Networks (c_Budgets cfg) < sc_usedNets s + j_Networks j
                       \<or> b_Subnetworks (c_Budgets cfg) < sc_usedSubnets s + j_Subnets j
               then admit_loop cfg e is s
               else (case pickZone cfg (e_now e) j (avoidZone rec) s of (zone, s1) \<Rightarrow>
                       if zone = [] then admit_loop cfg e is s1
                       else (case launch cfg e j zone s1 of
                               None \<Rightarrow> None
                             | Some s2 \<Rightarrow> admit_loop cfg e is s2)))"

definition admit :: "config \<Rightarrow> env \<Rightarrow> bool \<Rightarrow> scheduler \<Rightarrow> scheduler option" where
  "admit cfg e stopped s =
     (if stopped then Some s else admit_loop cfg e (rs_Order (sc_st s)) s)"

subsection \<open>Completions\<close>

definition countClass :: "attempt list \<Rightarrow> string \<Rightarrow> int" where
  "countClass attempts cl = int (length (filter (\<lambda>a. a_Result a = cl) attempts))"

definition set_last :: "('a \<Rightarrow> 'a) \<Rightarrow> 'a list \<Rightarrow> 'a list" where
  "set_last f xs = (if xs = [] then [] else butlast xs @ [f (last xs)])"

definition requeueOr :: "job_record \<Rightarrow> string \<Rightarrow> int \<Rightarrow> job_status" where
  "requeueOr rec cl limit =
     (if limit \<le> countClass (jr_Attempts rec) cl then StatusFailedInfra else StatusQueued)"

definition close_attempt :: "completion \<Rightarrow> attempt \<Rightarrow> attempt" where
  "close_attempt c a = a\<lparr>a_End := co_end c, a_Wall := co_end c - co_start c,
     a_Result := Classification (co_res c), a_Detail := Detail (co_res c)\<rparr>"

text \<open>The verdict of a completion: the record's new status, and the cooldowns it sets.\<close>

definition classify_completion ::
  "config \<Rightarrow> time \<Rightarrow> completion \<Rightarrow> job_record \<Rightarrow> scheduler \<Rightarrow> job_record \<times> scheduler" where
  "classify_completion cfg now c rec s =
     (let cl = Classification (co_res c); rt = c_Retries cfg; region = zoneRegion (co_zone c);
          bk = j_BudgetKey (jr_Job rec)
      in if cl = ClassPass then (rec\<lparr>jr_Status := StatusPassed\<rparr>, s)
         else if cl = ClassFail then
           (rec\<lparr>jr_Status := (if countClass (jr_Attempts rec) ClassFail < rt_Failure rt + 1
                              then StatusQueued else StatusFailedReal)\<rparr>, s)
         else if cl = ClassStockout then
           (case recordStockout cfg now rec (co_zone c) (rs_Cooldowns (sc_st s)) of (rec', cds) \<Rightarrow>
              (rec', s\<lparr>sc_st := (sc_st s)\<lparr>rs_Cooldowns := cds\<rparr>\<rparr>))
         else if cl = ClassQuota then
           (let s1 = bumpCooldown cfg now (quota_key bk region) s;
                s2 = s1\<lparr>sc_quotaPenalty := (sc_quotaPenalty s1)(penalty_key bk region \<mapsto>
                          now + quotaPenaltyDur)\<rparr>
            in (rec\<lparr>jr_Status := requeueOr rec ClassQuota (rt_Quota rt)\<rparr>, s2))
         else if cl = ClassTimeout then
           (rec\<lparr>jr_Status := requeueOr rec ClassTimeout (rt_Timeout rt)\<rparr>, s)
         else if cl = ClassInfra then
           (rec\<lparr>jr_Status := requeueOr rec ClassInfra (rt_Infra rt)\<rparr>, s)
         else (rec\<lparr>jr_Status := requeueOr rec ClassError (rt_Error rt)\<rparr>, s))"

definition handleCompletion ::
  "config \<Rightarrow> env \<Rightarrow> bool \<Rightarrow> completion \<Rightarrow> scheduler \<Rightarrow> scheduler option" where
  "handleCompletion cfg e killed c s =
     (case rs_Jobs (sc_st s) (co_jobID c) of
        None \<Rightarrow> None
      | Some rec \<Rightarrow>
          if jr_Attempts rec = [] then None
          else
            let s1 = charge cfg (jr_Job rec) (zoneRegion (co_zone c)) (-1) s;
                rec1 = rec\<lparr>jr_Attempts := set_last (close_attempt c) (jr_Attempts rec)\<rparr>;
                n = int (length (jr_Attempts rec1))
            in if killed then
                 let rec2 = rec1\<lparr>jr_Attempts :=
                              set_last (\<lambda>a. a\<lparr>a_Result := ''aborted''\<rparr>) (jr_Attempts rec1),
                              jr_Status := StatusQueued\<rparr>;
                     s2 = s1\<lparr>sc_st := set_job (co_jobID c) rec2 (sc_st s1)\<rparr>
                 in Some (persist e (co_jobID c) ''aborted'' (co_zone c) n (Detail (co_res c)) s2)
               else
                 (case classify_completion cfg (e_now e) c rec1 s1 of (rec2, s2) \<Rightarrow>
                    Some (persist e (co_jobID c) ''completed'' (co_zone c) n
                      (Classification (co_res c) @ '' '' @ Detail (co_res c))
                      (s2\<lparr>sc_st := set_job (co_jobID c) rec2 (sc_st s2)\<rparr>))))"

end
