(* ===== verification/Citrun_Ledger.thy ===== *)
theory Citrun_Ledger
  imports Citrun_Scheduler
begin

text \<open>
  The abstract specification of the scheduler's admission control: a ledger of leases on
  resources with a limit each.  The locale states it for any cost function; the interpretation
  reads a running attempt as a lease on a container slot, networks, subnetworks, the regional CPU
  budgets and the per-shape slots, and the lemmas show that the scheduler's counters are the
  amounts its in-flight attempts use.
\<close>

subsection \<open>Ledgers\<close>

locale ledger =
  fixes cost :: "'l \<Rightarrow> 'k \<Rightarrow> int"
    and ok :: "'l \<Rightarrow> bool"
  assumes cost_nonneg: "ok x \<Longrightarrow> 0 \<le> cost x k"
begin

definition used :: "'l list \<Rightarrow> 'k \<Rightarrow> int" where
  "used L k = sum_list (map (\<lambda>x. cost x k) L)"

lemma used_Nil: "used [] k = 0"
  by (simp add: used_def)

lemma used_snoc: "used (L @ [x]) k = used L k + cost x k"
  by (simp add: used_def)

lemma used_remove1: "x \<in> set L \<Longrightarrow> used (remove1 x L) k = used L k - cost x k"
  by (induction L) (auto simp: used_def)

lemma used_nonneg: "\<forall>x \<in> set L. ok x \<Longrightarrow> 0 \<le> used L k"
  by (induction L) (auto simp: used_def intro!: add_nonneg_nonneg cost_nonneg)

lemma grant_within: "used L k + cost x k \<le> lim \<Longrightarrow> used (L @ [x]) k \<le> lim"
  by (simp add: used_snoc)

lemma release_within:
  "used L k \<le> lim \<Longrightarrow> x \<in> set L \<Longrightarrow> ok x \<Longrightarrow> used (remove1 x L) k \<le> lim"
  using cost_nonneg [of x k] by (simp add: used_remove1)

end

subsection \<open>The scheduler's resources\<close>

datatype pool =
    Containers | Networks | Subnets | Cpus string string | Slots string

fun lease_cost :: "config \<Rightarrow> flight \<Rightarrow> pool \<Rightarrow> int" where
  "lease_cost cfg x Containers = 1"
| "lease_cost cfg x Networks = j_Networks (fl_Job x)"
| "lease_cost cfg x Subnets = j_Subnets (fl_Job x)"
| "lease_cost cfg x (Cpus r k) =
     (if r = zoneRegion (fl_Zone x) \<and> k \<in> set (budgetKeys cfg (fl_Job x) r)
      then j_CPUCost (fl_Job x) else 0)"
| "lease_cost cfg x (Slots sh) = (if sh = j_Shape (fl_Job x) then 1 else 0)"

definition job_ok :: "job \<Rightarrow> bool" where
  "job_ok j \<longleftrightarrow> 0 \<le> j_CPUCost j \<and> 0 \<le> j_Networks j \<and> 0 \<le> j_Subnets j"

definition lease_ok :: "flight \<Rightarrow> bool" where
  "lease_ok x = job_ok (fl_Job x)"

interpretation lg: ledger "lease_cost cfg" lease_ok for cfg
proof unfold_locales
  show "0 \<le> lease_cost cfg x k" if "lease_ok x" for x k
    using that by (cases k) (auto simp: lease_ok_def job_ok_def)
qed

text \<open>What the scheduler's counters say is in use.\<close>

fun in_use :: "scheduler \<Rightarrow> pool \<Rightarrow> int" where
  "in_use s Containers = sc_running s"
| "in_use s Networks = sc_usedNets s"
| "in_use s Subnets = sc_usedSubnets s"
| "in_use s (Cpus r k) = sc_usedCPU s r k"
| "in_use s (Slots sh) = sc_runningPerShape s sh"

definition accounted :: "config \<Rightarrow> scheduler \<Rightarrow> bool" where
  "accounted cfg s \<longleftrightarrow> (\<forall>k. in_use s k = lg.used cfg (sc_inflight s) k)"

lemma budgetKeys_eq: "budgetKeys cfg j r = budgetKeysFor cfg j r"
  by (simp add: budgetKeys_def budgetKeysFor_def Let_def)

lemma fold_add_row:
  "distinct ks \<Longrightarrow>
     fold (\<lambda>key row. row(key := row key + c)) ks row k = (row k + (if k \<in> set ks then c else 0) :: int)"
  by (induction ks arbitrary: row) auto

lemma charge_in_use:
  "in_use (charge cfg (fl_Job x) (zoneRegion (fl_Zone x)) sign s) k =
     in_use s k + sign * lease_cost cfg x k"
  by (cases k)
     (auto simp: charge_def fold_add_row [unfolded fun_upd_def] fold_add_row budgetKeys_eq
       distinct_budgetKeysFor)

lemma charge_sel [simp]:
  "sc_st (charge cfg j r n s) = sc_st s"
  "sc_inflight (charge cfg j r n s) = sc_inflight s"
  "sc_cooldownHits (charge cfg j r n s) = sc_cooldownHits s"
  "sc_quotaPenalty (charge cfg j r n s) = sc_quotaPenalty s"
  "sc_zoneRR (charge cfg j r n s) = sc_zoneRR s"
  "sc_files (charge cfg j r n s) = sc_files s"
  by (simp_all add: charge_def)

lemma persist_sel [simp]:
  "sc_st (persist e i t z n d s) = sc_st s"
  "sc_inflight (persist e i t z n d s) = sc_inflight s"
  "sc_quotaPenalty (persist e i t z n d s) = sc_quotaPenalty s"
  "sc_cooldownHits (persist e i t z n d s) = sc_cooldownHits s"
  "sc_zoneRR (persist e i t z n d s) = sc_zoneRR s"
  "in_use (persist e i t z n d s) k = in_use s k"
  by (simp_all add: persist_def Let_def) (cases k; simp)

text \<open>The counters do not depend on the fields that the other operations write.\<close>

lemma in_use_frame [simp]:
  "in_use (s\<lparr>sc_st := st\<rparr>) k = in_use s k"
  "in_use (s\<lparr>sc_inflight := fs\<rparr>) k = in_use s k"
  "in_use (s\<lparr>sc_cooldownHits := h\<rparr>) k = in_use s k"
  "in_use (s\<lparr>sc_quotaPenalty := q\<rparr>) k = in_use s k"
  "in_use (s\<lparr>sc_zoneRR := rr\<rparr>) k = in_use s k"
  "in_use (s\<lparr>sc_files := f\<rparr>) k = in_use s k"
  by (cases k; simp)+

subsection \<open>Zone choice\<close>

lemma headroom_le:
  "k \<in> set (budgetKeys cfg j r) \<Longrightarrow> headroom cfg now s j r \<le> allowed cfg now s r k - sc_usedCPU s r k"
  by (auto simp: headroom_def budgetKeys_def Let_def split: if_splits)

lemma headroom_eq:
  "headroom cfg now s j r =
     Min (insert (2 ^ 30) ((\<lambda>k. allowed cfg now s r k - sc_usedCPU s r k) ` set (budgetKeys cfg j r)))"
  by (auto simp: headroom_def budgetKeys_def Let_def min_def)

lemma allowed_le:
  "0 \<le> usable_budget cfg r k \<Longrightarrow> allowed cfg now s r k \<le> usable_budget cfg r k"
  by (auto simp: allowed_def Let_def go_div_nonneg split: option.splits)

lemma best_region_sound:
  assumes "best_region cfg now s j order = (best, free)" and "best \<noteq> []"
  shows "best \<in> set order \<and> free = headroom cfg now s j best \<and> j_CPUCost j \<le> free"
proof -
  have "fst bf = [] \<or> (fst bf \<in> S \<and> snd bf = headroom cfg now s j (fst bf) \<and> j_CPUCost j \<le> snd bf)
      \<Longrightarrow> set rs \<subseteq> S \<Longrightarrow>
      (let r = fold (\<lambda>r (best, bestFree). let free = headroom cfg now s j r
             in if j_CPUCost j \<le> free \<and> bestFree < free then (r, free) else (best, bestFree)) rs bf
       in fst r = [] \<or> (fst r \<in> S \<and> snd r = headroom cfg now s j (fst r) \<and> j_CPUCost j \<le> snd r))"
    for rs bf S
    by (induction rs arbitrary: bf) (auto simp: Let_def split: prod.splits)
  from this [of "([], -1)" "set order" order] show ?thesis
    using assms by (simp add: best_region_def)
qed

lemma pick_pass_sound:
  assumes "pick_pass cfg now j avoid ps s = (z, s')" and "z \<noteq> []"
  shows "z \<in> set (j_Zones j) \<and> z \<notin> stockout_zones s j
    \<and> \<not> now < get_time (rs_Cooldowns (sc_st s)) (quota_key (j_BudgetKey j) (zoneRegion z))
    \<and> j_CPUCost j \<le> headroom cfg now s j (zoneRegion z)"
  using assms
proof (induction ps)
  case (Cons p ps)
  define cands where "cands = filter (zone_open now s j avoid p) (j_Zones j)"
  define best where "best = fst (best_region cfg now s j (sort (dedup_regions {} cands)))"
  show ?case
  proof (cases "best = []")
    case True
    with Cons show ?thesis by (simp add: Let_def cands_def best_def)
  next
    case False
    define zs where "zs = filter (\<lambda>z. zoneRegion z = best) cands"
    obtain free where bf: "best_region cfg now s j (sort (dedup_regions {} cands)) = (best, free)"
      by (metis best_def prod.collapse)
    from best_region_sound [OF bf False] have b: "best \<in> set (dedup_regions {} cands)"
      and h: "j_CPUCost j \<le> headroom cfg now s j best" by auto
    from b have "zs \<noteq> []" by (auto simp: dedup_regions_set zs_def filter_empty_conv)
    moreover have "z = zs ! (sc_zoneRR s best mod length zs)"
      using Cons.prems(1) False by (simp add: Let_def cands_def best_def zs_def)
    ultimately have "z \<in> set zs" by simp
    then show ?thesis using h by (auto simp: zs_def cands_def zone_open_def)
  qed
qed simp

lemma pick_pass_frame:
  "pick_pass cfg now j avoid ps s = (z, s') \<Longrightarrow> s' = s\<lparr>sc_zoneRR := sc_zoneRR s'\<rparr>"
  by (induction ps) (auto simp: Let_def split: if_splits)

declare pick_pass.simps [simp del]

lemma clear_sweep_sel [simp]:
  "sc_inflight (clear_sweep j s) = sc_inflight s"
  "sc_quotaPenalty (clear_sweep j s) = sc_quotaPenalty s"
  "sc_cooldownHits (clear_sweep j s) = sc_cooldownHits s"
  "sc_usedCPU (clear_sweep j s) = sc_usedCPU s"
  "sc_files (clear_sweep j s) = sc_files s"
  "in_use (clear_sweep j s) k = in_use s k"
  "rs_Order (sc_st (clear_sweep j s)) = rs_Order (sc_st s)"
  "rs_Cooldowns (sc_st (clear_sweep j s)) = (rs_Cooldowns (sc_st s))(stockout_key (j_ID j) := None)"
  by (simp_all add: clear_sweep_def Let_def set_job_def split: option.splits)

lemma clear_sweep_Jobs:
  "rs_Jobs (sc_st (clear_sweep j s)) =
     (case rs_Jobs (sc_st s) (j_ID j) of
        None \<Rightarrow> rs_Jobs (sc_st s)
      | Some rec \<Rightarrow> (rs_Jobs (sc_st s))(j_ID j \<mapsto> rec\<lparr>jr_StockoutZones := {}\<rparr>))"
  by (simp add: clear_sweep_def Let_def set_job_def split: option.splits)

lemma headroom_cong:
  "sc_usedCPU s = sc_usedCPU s' \<Longrightarrow> sc_quotaPenalty s = sc_quotaPenalty s' \<Longrightarrow>
     headroom cfg now s j r = headroom cfg now s' j r"
  by (simp add: headroom_def allowed_def)

text \<open>The state a pass of \<open>pickZone\<close> works on.\<close>

definition pick_base :: "time \<Rightarrow> job \<Rightarrow> scheduler \<Rightarrow> scheduler" where
  "pick_base now j s =
     (case rs_Cooldowns (sc_st s) (stockout_key (j_ID j)) of
        Some until \<Rightarrow> if now < until then s else clear_sweep j s
      | None \<Rightarrow> s)"

lemma pick_base_sel [simp]:
  "sc_inflight (pick_base now j s) = sc_inflight s"
  "sc_quotaPenalty (pick_base now j s) = sc_quotaPenalty s"
  "sc_cooldownHits (pick_base now j s) = sc_cooldownHits s"
  "sc_usedCPU (pick_base now j s) = sc_usedCPU s"
  "sc_files (pick_base now j s) = sc_files s"
  "in_use (pick_base now j s) k = in_use s k"
  "rs_Order (sc_st (pick_base now j s)) = rs_Order (sc_st s)"
  by (simp_all add: pick_base_def split: option.splits)

lemma pickZone_frame:
  "pickZone cfg now j avoid s = (z, s') \<Longrightarrow> s' = (pick_base now j s)\<lparr>sc_zoneRR := sc_zoneRR s'\<rparr>"
  by (auto simp: pickZone_def pick_base_def dest: pick_pass_frame split: option.splits if_splits)

lemma pickZone_sound:
  assumes "pickZone cfg now j avoid s = (z, s')" and "z \<noteq> []"
  shows "z \<in> set (j_Zones j)" and "z \<notin> stockout_zones s' j"
    and "\<not> now < get_time (rs_Cooldowns (sc_st s)) (quota_key (j_BudgetKey j) (zoneRegion z))"
    and "j_CPUCost j \<le> headroom cfg now s j (zoneRegion z)"
    and "rs_Cooldowns (sc_st s') (stockout_key (j_ID j)) = None"
proof -
  have p: "pick_pass cfg now j avoid [True, False] (pick_base now j s) = (z, s')"
    and c: "rs_Cooldowns (sc_st (pick_base now j s)) (stockout_key (j_ID j)) = None"
    using assms by (auto simp: pickZone_def pick_base_def split: option.splits if_splits)
  note sound = pick_pass_sound [OF p assms(2)]
  have fr: "s' = (pick_base now j s)\<lparr>sc_zoneRR := sc_zoneRR s'\<rparr>"
    by (rule pick_pass_frame [OF p])
  have st: "sc_st s' = sc_st (pick_base now j s)" by (subst fr) simp
  have "quota_key b r \<noteq> stockout_key i" for b r i by (simp add: quota_key_def stockout_key_def)
  then have q: "get_time (rs_Cooldowns (sc_st (pick_base now j s))) (quota_key b r)
      = get_time (rs_Cooldowns (sc_st s)) (quota_key b r)" for b r
    by (auto simp: pick_base_def get_time_def split: option.splits)
  show "z \<in> set (j_Zones j)" using sound by simp
  show "z \<notin> stockout_zones s' j" using sound st by (simp add: stockout_zones_def)
  show "\<not> now < get_time (rs_Cooldowns (sc_st s)) (quota_key (j_BudgetKey j) (zoneRegion z))"
    using sound q by simp
  show "j_CPUCost j \<le> headroom cfg now s j (zoneRegion z)"
    using sound headroom_cong [of "pick_base now j s" s] by simp
  show "rs_Cooldowns (sc_st s') (stockout_key (j_ID j)) = None" using c st by simp
qed

end
