(* ===== verification/Citrun_Admission.thy ===== *)
theory Citrun_Admission
  imports Citrun_Ledger
begin

text \<open>
  The scheduler's state invariant and its preservation by \<open>launch\<close>, \<open>admit\<close> and
  \<open>handleCompletion\<close>: the jobs and the in-flight attempts agree, the counters are the ledger's
  amounts, and no operation panics.
\<close>

definition wf_run :: "run_state \<Rightarrow> bool" where
  "wf_run st \<longleftrightarrow> distinct (rs_Order st) \<and> dom (rs_Jobs st) = set (rs_Order st)
     \<and> (\<forall>i rec. rs_Jobs st i = Some rec \<longrightarrow> j_ID (jr_Job rec) = i)"

definition flight_ok :: "run_state \<Rightarrow> flight \<Rightarrow> bool" where
  "flight_ok st x \<longleftrightarrow>
     (\<exists>rec. rs_Jobs st (j_ID (fl_Job x)) = Some rec \<and> jr_Job rec = fl_Job x
        \<and> jr_Status rec = StatusRunning \<and> jr_Attempts rec \<noteq> []
        \<and> last (jr_Attempts rec) = new_attempt (fl_Zone x) (fl_Start x))"

definition flights_ok :: "scheduler \<Rightarrow> bool" where
  "flights_ok s \<longleftrightarrow> distinct (map (\<lambda>x. j_ID (fl_Job x)) (sc_inflight s))
     \<and> (\<forall>x \<in> set (sc_inflight s). flight_ok (sc_st s) x)
     \<and> (\<forall>i rec. rs_Jobs (sc_st s) i = Some rec \<longrightarrow> jr_Status rec = StatusRunning \<longrightarrow>
          i \<in> (\<lambda>x. j_ID (fl_Job x)) ` set (sc_inflight s))"

definition jobs_ok :: "run_state \<Rightarrow> bool" where
  "jobs_ok st \<longleftrightarrow> (\<forall>rec \<in> ran (rs_Jobs st). job_ok (jr_Job rec))"

definition sched_inv :: "config \<Rightarrow> scheduler \<Rightarrow> bool" where
  "sched_inv cfg s \<longleftrightarrow> wf_run (sc_st s) \<and> jobs_ok (sc_st s) \<and> flights_ok s \<and> accounted cfg s"

lemma sched_invD:
  assumes "sched_inv cfg s"
  shows "wf_run (sc_st s)" "jobs_ok (sc_st s)" "flights_ok s" "accounted cfg s"
  using assms by (simp_all add: sched_inv_def)

lemma wf_run_lookup: "wf_run st \<Longrightarrow> i \<in> set (rs_Order st) \<Longrightarrow> \<exists>rec. rs_Jobs st i = Some rec"
  by (auto simp: wf_run_def)

lemma wf_run_ID: "wf_run st \<Longrightarrow> rs_Jobs st i = Some rec \<Longrightarrow> j_ID (jr_Job rec) = i"
  by (simp add: wf_run_def)

lemma jobs_okD: "jobs_ok st \<Longrightarrow> rs_Jobs st i = Some rec \<Longrightarrow> job_ok (jr_Job rec)"
  by (auto simp: jobs_ok_def intro: ranI)

text \<open>Replacing a record by one of the same job, and the cooldowns by any others.\<close>

lemma wf_run_set_job:
  "wf_run st \<Longrightarrow> rs_Jobs st i = Some rec \<Longrightarrow> jr_Job rec' = jr_Job rec \<Longrightarrow> wf_run (set_job i rec' st)"
  by (auto simp: wf_run_def set_job_def dom_def)

lemma jobs_ok_set_job:
  "jobs_ok st \<Longrightarrow> rs_Jobs st i = Some rec \<Longrightarrow> jr_Job rec' = jr_Job rec \<Longrightarrow> jobs_ok (set_job i rec' st)"
  by (auto simp: jobs_ok_def set_job_def ran_def)

lemma wf_run_cooldowns [simp]: "wf_run (st\<lparr>rs_Cooldowns := c\<rparr>) = wf_run st"
  and jobs_ok_cooldowns [simp]: "jobs_ok (st\<lparr>rs_Cooldowns := c\<rparr>) = jobs_ok st"
  by (simp_all add: wf_run_def jobs_ok_def)

lemma flights_okD:
  assumes "flights_ok s" and "x \<in> set (sc_inflight s)"
  obtains rec where "rs_Jobs (sc_st s) (j_ID (fl_Job x)) = Some rec" "jr_Job rec = fl_Job x"
    "jr_Status rec = StatusRunning" "jr_Attempts rec \<noteq> []"
    "last (jr_Attempts rec) = new_attempt (fl_Zone x) (fl_Start x)"
  using assms by (auto simp: flights_ok_def flight_ok_def)

lemma inflight_ok: "flights_ok s \<Longrightarrow> jobs_ok (sc_st s) \<Longrightarrow> \<forall>x \<in> set (sc_inflight s). lease_ok x"
  by (metis flights_okD jobs_okD lease_ok_def)

subsection \<open>Choosing a zone keeps the invariant\<close>

lemma flights_ok_clear:
  assumes "flights_ok s" and "\<And>rec. rs_Jobs (sc_st s) (j_ID j) = Some rec \<Longrightarrow> jr_Status rec \<noteq> StatusRunning"
  shows "flights_ok (clear_sweep j s)"
proof -
  have "flight_ok (sc_st (clear_sweep j s)) x" if "x \<in> set (sc_inflight s)" for x
  proof -
    from flights_okD [OF assms(1) that] obtain rec where
      r: "rs_Jobs (sc_st s) (j_ID (fl_Job x)) = Some rec" "jr_Job rec = fl_Job x"
        "jr_Status rec = StatusRunning" "jr_Attempts rec \<noteq> []"
        "last (jr_Attempts rec) = new_attempt (fl_Zone x) (fl_Start x)" .
    then have "j_ID (fl_Job x) \<noteq> j_ID j" using assms(2) by fastforce
    with r show ?thesis by (auto simp: flight_ok_def clear_sweep_Jobs split: option.splits)
  qed
  moreover have "i \<in> (\<lambda>x. j_ID (fl_Job x)) ` set (sc_inflight s)"
    if "rs_Jobs (sc_st (clear_sweep j s)) i = Some rec" "jr_Status rec = StatusRunning" for i rec
    using that assms by (auto simp: clear_sweep_Jobs flights_ok_def split: option.splits if_splits)
  ultimately show ?thesis using assms(1) by (simp add: flights_ok_def)
qed

lemma wf_run_clear: "wf_run (sc_st s) \<Longrightarrow> wf_run (sc_st (clear_sweep j s))"
  by (auto simp: clear_sweep_def Let_def intro!: wf_run_set_job split: option.splits)

lemma jobs_ok_clear: "jobs_ok (sc_st s) \<Longrightarrow> jobs_ok (sc_st (clear_sweep j s))"
  by (auto simp: clear_sweep_def Let_def intro!: jobs_ok_set_job split: option.splits)

lemma sched_inv_zoneRR [simp]: "sched_inv cfg (s\<lparr>sc_zoneRR := rr\<rparr>) = sched_inv cfg s"
  by (simp add: sched_inv_def flights_ok_def accounted_def)

lemma pick_base_inv:
  assumes "sched_inv cfg s" and "\<And>rec. rs_Jobs (sc_st s) (j_ID j) = Some rec \<Longrightarrow> jr_Status rec \<noteq> StatusRunning"
  shows "sched_inv cfg (pick_base now j s)"
  using assms
  by (auto simp: pick_base_def sched_inv_def accounted_def wf_run_clear jobs_ok_clear flights_ok_clear
      split: option.splits)

lemma pick_base_Jobs:
  assumes "rs_Jobs (sc_st s) (j_ID j) = Some rec"
  shows "\<exists>zs. rs_Jobs (sc_st (pick_base now j s)) =
    (rs_Jobs (sc_st s))(j_ID j \<mapsto> rec\<lparr>jr_StockoutZones := zs\<rparr>)"
proof -
  have "rs_Jobs (sc_st s) = (rs_Jobs (sc_st s))(j_ID j \<mapsto> rec\<lparr>jr_StockoutZones := jr_StockoutZones rec\<rparr>)"
    using assms by auto
  then have "\<exists>zs. rs_Jobs (sc_st s) = (rs_Jobs (sc_st s))(j_ID j \<mapsto> rec\<lparr>jr_StockoutZones := zs\<rparr>)" ..
  moreover have "pick_base now j s = s \<or> pick_base now j s = clear_sweep j s"
    by (simp add: pick_base_def split: option.splits)
  ultimately show ?thesis using assms by (auto simp: clear_sweep_Jobs)
qed

subsection \<open>Launching\<close>

lemma launch_result:
  assumes "rs_Jobs (sc_st s) (j_ID j) = Some rec"
  obtains s' where "launch cfg e j zone s = Some s'"
    "sc_st s' = set_job (j_ID j) (rec\<lparr>jr_Status := StatusRunning,
       jr_Attempts := jr_Attempts rec @ [new_attempt zone (e_now e)]\<rparr>) (sc_st s)"
    "sc_inflight s' = sc_inflight s @ [\<lparr>fl_Job = j, fl_Zone = zone, fl_Start = e_now e\<rparr>]"
    "\<And>k. in_use s' k = in_use s k
       + lease_cost cfg \<lparr>fl_Job = j, fl_Zone = zone, fl_Start = e_now e\<rparr> k"
    "sc_quotaPenalty s' = sc_quotaPenalty s"
  using assms charge_in_use [of cfg "\<lparr>fl_Job = j, fl_Zone = zone, fl_Start = e_now e\<rparr>" 1 s]
  by (auto simp: launch_def Let_def)

lemma launch_inv:
  assumes inv: "sched_inv cfg s" and rec: "rs_Jobs (sc_st s) (j_ID j) = Some rec"
    and job: "jr_Job rec = j" "jr_Status rec = StatusQueued"
    and launch: "launch cfg e j zone s = Some s'"
  shows "sched_inv cfg s'"
proof -
  define x where "x = \<lparr>fl_Job = j, fl_Zone = zone, fl_Start = e_now e\<rparr>"
  define rec' where "rec' = rec\<lparr>jr_Status := StatusRunning,
    jr_Attempts := jr_Attempts rec @ [new_attempt zone (e_now e)]\<rparr>"
  have st: "sc_st s' = set_job (j_ID j) rec' (sc_st s)"
    and fl: "sc_inflight s' = sc_inflight s @ [x]"
    and iu: "in_use s' k = in_use s k + lease_cost cfg x k" for k
    by (rule launch_result [OF rec, of cfg e zone]; use launch in \<open>simp add: x_def rec'_def\<close>)+
  note inv' = sched_invD [OF inv]
  have fresh: "j_ID j \<notin> (\<lambda>x. j_ID (fl_Job x)) ` set (sc_inflight s)"
  proof
    assume "j_ID j \<in> (\<lambda>x. j_ID (fl_Job x)) ` set (sc_inflight s)"
    then obtain y where "y \<in> set (sc_inflight s)" "j_ID (fl_Job y) = j_ID j" by force
    with flights_okD [OF inv'(3)] rec job(2) show False by (metis job_status.distinct(1) option.inject)
  qed
  have "flight_ok (sc_st s') y" if y: "y \<in> set (sc_inflight s')" for y
  proof (cases "y = x")
    case True
    then show ?thesis by (simp add: flight_ok_def st set_job_def x_def rec'_def job(1))
  next
    case False
    with y fl have y': "y \<in> set (sc_inflight s)" by simp
    then have "j_ID (fl_Job y) \<noteq> j_ID j" using fresh by force
    with y' inv'(3) show ?thesis by (simp add: flights_ok_def flight_ok_def st set_job_def)
  qed
  moreover have "distinct (map (\<lambda>x. j_ID (fl_Job x)) (sc_inflight s'))"
    using inv'(3) fresh by (simp add: fl flights_ok_def x_def)
  moreover have "i \<in> (\<lambda>x. j_ID (fl_Job x)) ` set (sc_inflight s')"
    if "rs_Jobs (sc_st s') i = Some r" "jr_Status r = StatusRunning" for i r
    using that inv'(3) by (auto simp: fl st set_job_def flights_ok_def x_def split: if_splits)
  ultimately have "flights_ok s'" by (auto simp: flights_ok_def)
  moreover have "accounted cfg s'"
    using inv'(4) by (simp add: accounted_def iu fl lg.used_snoc)
  moreover have "wf_run (sc_st s')" "jobs_ok (sc_st s')"
    using wf_run_set_job [OF inv'(1) rec, of rec'] jobs_ok_set_job [OF inv'(2) rec, of rec']
    by (simp_all add: st rec'_def)
  ultimately show ?thesis by (simp add: sched_inv_def)
qed

subsection \<open>One pass over the queue\<close>

text \<open>
  What a launch in a pass may rely on: the guards of the loop and the zone choice held in the
  state it starts from.
\<close>

definition may_launch :: "config \<Rightarrow> time \<Rightarrow> scheduler \<Rightarrow> job \<Rightarrow> string \<Rightarrow> bool" where
  "may_launch cfg now s j zone \<longleftrightarrow>
     sc_running s < c_ContainerCap cfg
     \<and> (0 < j_MaxParallel j \<longrightarrow> sc_runningPerShape s (j_Shape j) < j_MaxParallel j)
     \<and> sc_usedNets s + j_Networks j \<le> b_Networks (c_Budgets cfg)
     \<and> sc_usedSubnets s + j_Subnets j \<le> b_Subnetworks (c_Budgets cfg)
     \<and> zone \<in> set (j_Zones j) \<and> zone \<notin> stockout_zones s j
     \<and> rs_Cooldowns (sc_st s) (stockout_key (j_ID j)) = None
     \<and> j_CPUCost j \<le> headroom cfg now s j (zoneRegion zone)"

lemma counters_cong:
  assumes "\<And>k. in_use s' k = in_use s k"
  shows "sc_running s' = sc_running s" "sc_runningPerShape s' = sc_runningPerShape s"
    "sc_usedNets s' = sc_usedNets s" "sc_usedSubnets s' = sc_usedSubnets s"
    "sc_usedCPU s' = sc_usedCPU s"
  using assms [of Containers] assms [of Networks] assms [of Subnets] assms [of "Slots _"]
    assms [of "Cpus _ _"]
  by (simp_all add: fun_eq_iff)

text \<open>
  The rule for passes: a predicate that holds with the invariant, is kept by zone choice for a
  queued job and by every launch the guards allow, is kept by the pass; and the pass returns.
\<close>

lemma admit_loop_rule:
  assumes inv: "sched_inv cfg s" and P: "P s" and ids: "set is \<subseteq> set (rs_Order (sc_st s))"
    and pick: "\<And>s j rec rr. sched_inv cfg s \<Longrightarrow> P s \<Longrightarrow> rs_Jobs (sc_st s) (j_ID j) = Some rec \<Longrightarrow>
      jr_Job rec = j \<Longrightarrow> jr_Status rec = StatusQueued \<Longrightarrow>
      P ((pick_base (e_now e) j s)\<lparr>sc_zoneRR := rr\<rparr>)"
    and step: "\<And>s s' j rec zone. sched_inv cfg s \<Longrightarrow> P s \<Longrightarrow> rs_Jobs (sc_st s) (j_ID j) = Some rec \<Longrightarrow>
      jr_Job rec = j \<Longrightarrow> jr_Status rec = StatusQueued \<Longrightarrow> may_launch cfg (e_now e) s j zone \<Longrightarrow>
      launch cfg e j zone s = Some s' \<Longrightarrow> P s'"
  shows "\<exists>s'. admit_loop cfg e is s = Some s' \<and> sched_inv cfg s' \<and> P s'
    \<and> rs_Order (sc_st s') = rs_Order (sc_st s)"
  using inv P ids
proof (induction "is" arbitrary: s)
  case (Cons i "is" s)
  then obtain rec where rec: "rs_Jobs (sc_st s) i = Some rec"
    using wf_run_lookup [OF sched_invD(1)] by (metis list.set_intros(1) subsetD)
  define j where "j = jr_Job rec"
  have id: "j_ID j = i" unfolding j_def by (rule wf_run_ID [OF sched_invD(1) [OF Cons.prems(1)] rec])
  have tail: "set is \<subseteq> set (rs_Order (sc_st s))" using Cons.prems(3) by simp
  note skip = Cons.IH [OF Cons.prems(1,2) tail]
  show ?case
  proof (cases "jr_Status rec = StatusQueued \<and> sc_running s < c_ContainerCap cfg
      \<and> \<not> (0 < j_MaxParallel j \<and> j_MaxParallel j \<le> sc_runningPerShape s (j_Shape j))
      \<and> \<not> (b_Networks (c_Budgets cfg) < sc_usedNets s + j_Networks j
           \<or> b_Subnetworks (c_Budgets cfg) < sc_usedSubnets s + j_Subnets j)")
    case False
    then have "admit_loop cfg e (i # is) s = admit_loop cfg e is s
        \<or> admit_loop cfg e (i # is) s = Some s"
      using rec by (auto simp: j_def Let_def)
    then show ?thesis using skip Cons.prems(1,2) by auto
  next
    case True
    obtain z s1 where pz: "pickZone cfg (e_now e) j (avoidZone rec) s = (z, s1)" by fastforce
    have s1: "s1 = (pick_base (e_now e) j s)\<lparr>sc_zoneRR := sc_zoneRR s1\<rparr>"
      by (rule pickZone_frame [OF pz])
    have "sched_inv cfg (pick_base (e_now e) j s)"
      by (rule pick_base_inv [OF Cons.prems(1)]) (use True rec id in simp)
    then have inv1: "sched_inv cfg s1" by (subst s1) simp
    have P1: "P s1"
      by (subst s1) (rule pick [of s j rec, OF Cons.prems(1,2)], use rec id True j_def in auto)
    have ord: "rs_Order (sc_st s1) = rs_Order (sc_st s)" by (subst s1) simp
    show ?thesis
    proof (cases "z = []")
      case True
      note IH = Cons.IH [OF inv1 P1, unfolded ord, OF tail]
      with True \<open>jr_Status rec = _ \<and> _\<close> pz rec show ?thesis by (auto simp: j_def)
    next
      case False
      obtain zs where "rs_Jobs (sc_st (pick_base (e_now e) j s)) =
          (rs_Jobs (sc_st s))(j_ID j \<mapsto> rec\<lparr>jr_StockoutZones := zs\<rparr>)"
        using pick_base_Jobs [of s j rec "e_now e"] rec id by auto
      then have rec1: "rs_Jobs (sc_st s1) (j_ID j) = Some (rec\<lparr>jr_StockoutZones := zs\<rparr>)"
        by (subst s1) simp
      have cc: "in_use s1 k = in_use s k" for k by (subst s1) simp
      have qp: "sc_quotaPenalty s1 = sc_quotaPenalty s" by (subst s1) simp
      have ml: "may_launch cfg (e_now e) s1 j z"
        using True pickZone_sound [OF pz False] counters_cong [OF cc] headroom_cong [of s1 s] qp
        by (auto simp: may_launch_def)
      obtain s2 where l: "launch cfg e j z s1 = Some s2"
        and o2: "rs_Order (sc_st s2) = rs_Order (sc_st s1)"
        by (rule launch_result [OF rec1, of cfg e z]) (simp add: set_job_def)
      have inv2: "sched_inv cfg s2"
        by (rule launch_inv [OF inv1 rec1 _ _ l]) (use True j_def in simp_all)
      have P2: "P s2"
        by (rule step [OF inv1 P1 rec1 _ _ ml l]) (use True j_def in simp_all)
      note IH = Cons.IH [OF inv2 P2, unfolded o2 ord, OF tail]
      with True False pz l rec show ?thesis by (auto simp: j_def)
    qed
  qed
qed simp

subsection \<open>Completions\<close>

text \<open>The goroutine of a flight delivers its completion: it leaves the pool, the handler runs.\<close>

definition flight_completion :: "flight \<Rightarrow> time \<Rightarrow> result \<Rightarrow> completion" where
  "flight_completion x t res = \<lparr>co_jobID = j_ID (fl_Job x), co_zone = fl_Zone x,
     co_start = fl_Start x, co_end = t, co_res = res\<rparr>"

definition deliver ::
  "config \<Rightarrow> env \<Rightarrow> bool \<Rightarrow> flight \<Rightarrow> time \<Rightarrow> result \<Rightarrow> scheduler \<Rightarrow> scheduler option" where
  "deliver cfg e killed x t res s =
     handleCompletion cfg e killed (flight_completion x t res)
       (s\<lparr>sc_inflight := remove1 x (sc_inflight s)\<rparr>)"

lemma recordStockout_frame:
  "recordStockout cfg now rec zone cds = (rec', cds') \<Longrightarrow>
     jr_Job rec' = jr_Job rec \<and> jr_Attempts rec' = jr_Attempts rec \<and> jr_Status rec' \<noteq> StatusRunning"
  by (auto simp: recordStockout_def Let_def split: if_splits)

lemma bumpCooldown_sel [simp]:
  "sc_inflight (bumpCooldown cfg now k s) = sc_inflight s"
  "sc_quotaPenalty (bumpCooldown cfg now k s) = sc_quotaPenalty s"
  "in_use (bumpCooldown cfg now k s) r = in_use s r"
  "rs_Jobs (sc_st (bumpCooldown cfg now k s)) = rs_Jobs (sc_st s)"
  "rs_Order (sc_st (bumpCooldown cfg now k s)) = rs_Order (sc_st s)"
  by (simp_all add: bumpCooldown_def Let_def)

lemma classify_frame:
  assumes "classify_completion cfg now c rec s = (rec', s')"
  shows "jr_Job rec' = jr_Job rec" "jr_Attempts rec' = jr_Attempts rec"
    "jr_Status rec' \<noteq> StatusRunning"
    "sc_inflight s' = sc_inflight s" "in_use s' k = in_use s k"
    "rs_Jobs (sc_st s') = rs_Jobs (sc_st s)" "rs_Order (sc_st s') = rs_Order (sc_st s)"
proof -
  have "jr_Job rec' = jr_Job rec \<and> jr_Attempts rec' = jr_Attempts rec
      \<and> jr_Status rec' \<noteq> StatusRunning \<and> sc_inflight s' = sc_inflight s
      \<and> in_use s' k = in_use s k
      \<and> rs_Jobs (sc_st s') = rs_Jobs (sc_st s) \<and> rs_Order (sc_st s') = rs_Order (sc_st s)"
    using assms
    by (auto simp: classify_completion_def requeueOr_def Let_def dest: recordStockout_frame
        split: if_splits prod.splits)
  then show "jr_Job rec' = jr_Job rec" "jr_Attempts rec' = jr_Attempts rec"
    "jr_Status rec' \<noteq> StatusRunning" "sc_inflight s' = sc_inflight s" "in_use s' k = in_use s k"
    "rs_Jobs (sc_st s') = rs_Jobs (sc_st s)" "rs_Order (sc_st s') = rs_Order (sc_st s)"
    by simp_all
qed

lemma set_last_snoc [simp]: "set_last f (xs @ [x]) = xs @ [f x]"
  by (simp add: set_last_def)

lemma length_set_last [simp]: "length (set_last f xs) = length xs"
  by (simp add: set_last_def)

lemma deliver_result:
  assumes "rs_Jobs (sc_st s) (j_ID (fl_Job x)) = Some rec" and "jr_Job rec = fl_Job x"
    and "jr_Attempts rec \<noteq> []"
  obtains rec' cds s' where "deliver cfg e killed x t res s = Some s'"
    "jr_Job rec' = jr_Job rec" "jr_Status rec' \<noteq> StatusRunning"
    "length (jr_Attempts rec') = length (jr_Attempts rec)"
    "sc_st s' = set_job (j_ID (fl_Job x)) rec' ((sc_st s)\<lparr>rs_Cooldowns := cds\<rparr>)"
    "sc_inflight s' = remove1 x (sc_inflight s)"
    "\<And>k. in_use s' k = in_use s k - lease_cost cfg x k"
proof -
  define s0 where "s0 = s\<lparr>sc_inflight := remove1 x (sc_inflight s)\<rparr>"
  define c where "c = flight_completion x t res"
  define s1 where "s1 = charge cfg (jr_Job rec) (zoneRegion (fl_Zone x)) (-1) s0"
  define rec1 where "rec1 = rec\<lparr>jr_Attempts := set_last (close_attempt c) (jr_Attempts rec)\<rparr>"
  have iu: "in_use s1 k = in_use s k - lease_cost cfg x k" for k
    using charge_in_use [of cfg x "-1" s0 k] assms(2) by (simp add: s1_def s0_def)
  have st: "sc_st s1 = sc_st s" "sc_inflight s1 = remove1 x (sc_inflight s)"
    by (simp_all add: s1_def s0_def)
  have c: "co_jobID c = j_ID (fl_Job x)" "co_zone c = fl_Zone x"
    by (simp_all add: c_def flight_completion_def)
  show ?thesis
  proof (cases killed)
    case True
    define rec2 where "rec2 = rec1\<lparr>jr_Attempts := set_last (\<lambda>a. a\<lparr>a_Result := ''aborted''\<rparr>)
      (jr_Attempts rec1), jr_Status := StatusQueued\<rparr>"
    have r2: "jr_Job rec2 = jr_Job rec" "jr_Status rec2 \<noteq> StatusRunning"
      "length (jr_Attempts rec2) = length (jr_Attempts rec)" by (simp_all add: rec2_def rec1_def)
    have eq: "deliver cfg e killed x t res s =
        Some (persist e (co_jobID c) ''aborted'' (co_zone c) (int (length (jr_Attempts rec1)))
          (Detail (co_res c)) (s1\<lparr>sc_st := set_job (co_jobID c) rec2 (sc_st s1)\<rparr>))"
      using True assms(1,3) c(1)
      by (simp add: deliver_def handleCompletion_def Let_def rec2_def rec1_def s1_def c(2)
          flip: s0_def c_def) (simp add: s0_def c)
    show ?thesis
      by (rule that [OF eq r2, of "rs_Cooldowns (sc_st s)"]) (simp_all add: st c iu)
  next
    case False
    obtain rec2 s2 where cl: "classify_completion cfg (e_now e) c rec1 s1 = (rec2, s2)" by fastforce
    note fr = classify_frame [OF cl]
    have r2: "jr_Job rec2 = jr_Job rec" "jr_Status rec2 \<noteq> StatusRunning"
      "length (jr_Attempts rec2) = length (jr_Attempts rec)" by (simp_all add: fr rec1_def)
    have "sc_st s2 = (sc_st s)\<lparr>rs_Cooldowns := rs_Cooldowns (sc_st s2)\<rparr>"
      using cl st by (auto simp: classify_completion_def bumpCooldown_def Let_def split: if_splits prod.splits)
    then have set: "set_job i r (sc_st s2) = set_job i r ((sc_st s)\<lparr>rs_Cooldowns := rs_Cooldowns (sc_st s2)\<rparr>)"
      for i r by simp
    have eq: "deliver cfg e killed x t res s =
        Some (persist e (co_jobID c) ''completed'' (co_zone c) (int (length (jr_Attempts rec1)))
          (Classification (co_res c) @ '' '' @ Detail (co_res c))
          (s2\<lparr>sc_st := set_job (co_jobID c) rec2 (sc_st s2)\<rparr>))"
      using False assms(1,3) c(1) cl
      by (simp add: deliver_def handleCompletion_def Let_def rec1_def s1_def c(2)
          flip: s0_def c_def) (simp add: s0_def c)
    show ?thesis
    proof (rule that [OF eq r2])
      show "sc_st (persist e (co_jobID c) ''completed'' (co_zone c) (int (length (jr_Attempts rec1)))
          (Classification (co_res c) @ '' '' @ Detail (co_res c))
          (s2\<lparr>sc_st := set_job (co_jobID c) rec2 (sc_st s2)\<rparr>))
        = set_job (j_ID (fl_Job x)) rec2 ((sc_st s)\<lparr>rs_Cooldowns := rs_Cooldowns (sc_st s2)\<rparr>)"
        by (simp add: c set)
    qed (simp_all add: fr st iu)
  qed
qed

lemma deliver_inv:
  assumes inv: "sched_inv cfg s" and x: "x \<in> set (sc_inflight s)"
  shows "\<exists>s'. deliver cfg e killed x t res s = Some s' \<and> sched_inv cfg s'
    \<and> sc_inflight s' = remove1 x (sc_inflight s)
    \<and> rs_Order (sc_st s') = rs_Order (sc_st s)"
proof -
  note inv' = sched_invD [OF inv]
  from flights_okD [OF inv'(3) x] obtain rec where
    rec: "rs_Jobs (sc_st s) (j_ID (fl_Job x)) = Some rec" "jr_Job rec = fl_Job x"
      "jr_Attempts rec \<noteq> []" .
  obtain rec' cds s' where d: "deliver cfg e killed x t res s = Some s'"
    and r': "jr_Job rec' = jr_Job rec" "jr_Status rec' \<noteq> StatusRunning"
    and st: "sc_st s' = set_job (j_ID (fl_Job x)) rec' ((sc_st s)\<lparr>rs_Cooldowns := cds\<rparr>)"
    and fl: "sc_inflight s' = remove1 x (sc_inflight s)"
    and iu: "\<And>k. in_use s' k = in_use s k - lease_cost cfg x k"
    using deliver_result [OF rec, of cfg e killed t res] by metis
  have dist: "distinct (map (\<lambda>x. j_ID (fl_Job x)) (sc_inflight s))"
    using inv'(3) by (simp add: flights_ok_def)
  then have only: "j_ID (fl_Job y) \<noteq> j_ID (fl_Job x)" if "y \<in> set (remove1 x (sc_inflight s))" for y
    using that x by (metis distinct_map distinct_remove1 inj_onD notin_set_remove1 set_remove1_eq
        Diff_iff insertI1)
  have "flight_ok (sc_st s') y" if y: "y \<in> set (sc_inflight s')" for y
    using inv'(3) only [of y] y notin_set_remove1 [of y "sc_inflight s" x]
    by (auto simp: fl flights_ok_def flight_ok_def st set_job_def)
  moreover have "distinct (map (\<lambda>x. j_ID (fl_Job x)) (sc_inflight s'))"
    using dist by (simp add: fl distinct_map inj_on_diff)
  moreover have "i \<in> (\<lambda>x. j_ID (fl_Job x)) ` set (sc_inflight s')"
    if "rs_Jobs (sc_st s') i = Some r" "jr_Status r = StatusRunning" for i r
  proof -
    from that r'(2) have "i \<noteq> j_ID (fl_Job x)" and "rs_Jobs (sc_st s) i = Some r"
      by (auto simp: st set_job_def split: if_splits)
    with inv'(3) that(2) have "i \<in> (\<lambda>x. j_ID (fl_Job x)) ` set (sc_inflight s)"
      by (simp add: flights_ok_def)
    then obtain y where "y \<in> set (sc_inflight s)" "i = j_ID (fl_Job y)" by auto
    moreover from this \<open>i \<noteq> j_ID (fl_Job x)\<close> have "y \<noteq> x" by blast
    ultimately have "y \<in> set (sc_inflight s')" by (simp add: fl in_set_remove1)
    then show ?thesis using \<open>i = j_ID (fl_Job y)\<close> by blast
  qed
  ultimately have "flights_ok s'" by (auto simp: flights_ok_def)
  moreover have "accounted cfg s'"
    using inv'(4) by (simp add: accounted_def iu fl lg.used_remove1 [OF x])
  moreover have "wf_run (sc_st s')" "jobs_ok (sc_st s')"
    using wf_run_set_job [of "(sc_st s)\<lparr>rs_Cooldowns := cds\<rparr>" _ rec rec']
      jobs_ok_set_job [of "(sc_st s)\<lparr>rs_Cooldowns := cds\<rparr>" _ rec rec'] inv'(1,2) rec(1) r'(1)
    by (simp_all add: st)
  ultimately show ?thesis using d fl by (auto simp: sched_inv_def st set_job_def)
qed

end
