(* ===== verification/Citrun_Run_Loop.thy ===== *)
theory Citrun_Run_Loop
  imports Citrun_Admission
begin

text \<open>
  \<open>Scheduler.Run\<close> of scheduler.go as a step relation, and its safety properties.  The loop's
  \<open>select\<close> may take any ready branch, the clock advances between the steps, the pause file comes
  and goes, and the two contexts can be cancelled at any moment; the relation lets these steps
  occur in any order, so every state the loop passes through is reachable in it.
\<close>

record world =
  w_sched :: scheduler
  w_now :: time
  w_stopped :: bool   \<comment> \<open>admission cancelled\<close>
  w_killed :: bool    \<comment> \<open>jobs cancelled\<close>
  w_paused :: bool    \<comment> \<open>the pause file exists\<close>

definition blocked :: "world \<Rightarrow> bool" where
  "blocked w = (w_stopped w \<or> w_killed w \<or> w_paused w)"

inductive run_step :: "config \<Rightarrow> world \<Rightarrow> world \<Rightarrow> bool" for cfg where
  Admit: "admit cfg \<lparr>e_now = w_now w, e_io = io\<rparr> (blocked w) (w_sched w) = Some s' \<Longrightarrow>
     run_step cfg w (w\<lparr>w_sched := s'\<rparr>)"
| Receive: "x \<in> set (sc_inflight (w_sched w)) \<Longrightarrow>
     deliver cfg \<lparr>e_now = w_now w, e_io = io\<rparr> (w_killed w) x t res (w_sched w) = Some s' \<Longrightarrow>
     run_step cfg w (w\<lparr>w_sched := s'\<rparr>)"
| Tick: "w_now w \<le> t \<Longrightarrow> run_step cfg w (w\<lparr>w_now := t\<rparr>)"
| Drain: "run_step cfg w (w\<lparr>w_stopped := True\<rparr>)"
| Kill: "run_step cfg w (w\<lparr>w_killed := True\<rparr>)"
| Pause: "run_step cfg w (w\<lparr>w_paused := b\<rparr>)"

inductive_cases run_stepE: "run_step cfg w w'"

text \<open>
  A run starts with a fresh scheduler on a state that holds no running job, as \<open>run\<close> and
  \<open>resume\<close> leave it.
\<close>

definition startable :: "run_state \<Rightarrow> bool" where
  "startable st \<longleftrightarrow> wf_run st \<and> jobs_ok st
     \<and> (\<forall>rec \<in> ran (rs_Jobs st). jr_Status rec \<noteq> StatusRunning)"

definition start_world :: "time \<Rightarrow> string list \<Rightarrow> string list \<Rightarrow> run_state \<Rightarrow> run_files \<Rightarrow> world" where
  "start_world now keys ids st files =
     \<lparr>w_sched = NewScheduler now keys ids st files, w_now = now, w_stopped = False,
      w_killed = False, w_paused = False\<rparr>"

inductive run_reachable :: "config \<Rightarrow> world \<Rightarrow> world \<Rightarrow> bool" for cfg w0 where
  Start: "run_reachable cfg w0 w0"
| Step: "run_reachable cfg w0 w \<Longrightarrow> run_step cfg w w' \<Longrightarrow> run_reachable cfg w0 w'"

text \<open>When the loop returns (\<open>None\<close>: it panics while counting the queue).\<close>

definition loop_done :: "world \<Rightarrow> bool option" where
  "loop_done w =
     (case queuedRemaining (sc_st (w_sched w)) of
        None \<Rightarrow> None
      | Some n \<Rightarrow> Some (sc_running (w_sched w) = 0 \<and> (n = 0 \<or> w_stopped w \<or> w_killed w)))"

subsection \<open>The invariant holds in every reachable state\<close>

lemma startable_inv:
  assumes "startable st"
  shows "sched_inv cfg (NewScheduler now keys ids st files)"
proof -
  have "in_use (NewScheduler now keys ids st files) k = 0" for k
    by (cases k) (simp_all add: NewScheduler_def)
  then show ?thesis
    using assms
    by (auto simp: sched_inv_def startable_def NewScheduler_def flights_ok_def accounted_def
        lg.used_Nil intro: ranI)
qed

lemma admit_total:
  assumes "sched_inv cfg s"
  shows "\<exists>s'. admit cfg e b s = Some s' \<and> sched_inv cfg s'"
  using admit_loop_rule [of cfg s "\<lambda>_. True" "rs_Order (sc_st s)" e] assms
  by (auto simp: admit_def)

lemma run_step_inv: "run_step cfg w w' \<Longrightarrow> sched_inv cfg (w_sched w) \<Longrightarrow> sched_inv cfg (w_sched w')"
proof (induction rule: run_step.induct)
  case (Admit w io s')
  then show ?case
    using admit_total [of cfg "w_sched w" "\<lparr>e_now = w_now w, e_io = io\<rparr>" "blocked w"] by auto
next
  case (Receive x w io t res s')
  then show ?case
    using deliver_inv [OF Receive.prems Receive.hyps(1), of "\<lparr>e_now = w_now w, e_io = io\<rparr>"
        "w_killed w" t res] by auto
qed simp_all

lemma reachable_inv:
  "run_reachable cfg (start_world now keys ids st files) w \<Longrightarrow> startable st \<Longrightarrow>
     sched_inv cfg (w_sched w)"
proof (induction rule: run_reachable.induct)
  case Start
  then show ?case by (simp add: start_world_def startable_inv)
next
  case (Step w w')
  then show ?case by (blast intro: run_step_inv)
qed

text \<open>Invariants that every launch and every delivery keep, by the same induction.\<close>

lemma reachable_rule:
  assumes reach: "run_reachable cfg (start_world now keys ids st files) w" and st: "startable st"
    and init: "P (NewScheduler now keys ids st files)"
    and pick: "\<And>t s j rec rr. sched_inv cfg s \<Longrightarrow> P s \<Longrightarrow> rs_Jobs (sc_st s) (j_ID j) = Some rec \<Longrightarrow>
      jr_Job rec = j \<Longrightarrow> jr_Status rec = StatusQueued \<Longrightarrow>
      P ((pick_base t j s)\<lparr>sc_zoneRR := rr\<rparr>)"
    and launch: "\<And>e s s' j rec zone. sched_inv cfg s \<Longrightarrow> P s \<Longrightarrow>
      rs_Jobs (sc_st s) (j_ID j) = Some rec \<Longrightarrow> jr_Job rec = j \<Longrightarrow> jr_Status rec = StatusQueued \<Longrightarrow>
      may_launch cfg (e_now e) s j zone \<Longrightarrow> launch cfg e j zone s = Some s' \<Longrightarrow> P s'"
    and deliver: "\<And>e killed x t res s s'. sched_inv cfg s \<Longrightarrow> P s \<Longrightarrow> x \<in> set (sc_inflight s) \<Longrightarrow>
      deliver cfg e killed x t res s = Some s' \<Longrightarrow> P s'"
  shows "P (w_sched w)"
proof -
  have step: "run_step cfg w w' \<Longrightarrow> sched_inv cfg (w_sched w) \<Longrightarrow> P (w_sched w) \<Longrightarrow> P (w_sched w')"
    for w w'
  proof (induction rule: run_step.induct)
    case (Admit w io s')
    have "\<exists>s2. admit_loop cfg \<lparr>e_now = w_now w, e_io = io\<rparr> (rs_Order (sc_st (w_sched w))) (w_sched w)
        = Some s2 \<and> sched_inv cfg s2 \<and> P s2 \<and> rs_Order (sc_st s2) = rs_Order (sc_st (w_sched w))"
      by (rule admit_loop_rule [where P = P, OF Admit.prems subset_refl])
         (blast intro: pick launch)+
    with Admit show ?case by (auto simp: admit_def split: if_splits)
  next
    case (Receive x w io t res s')
    then show ?case using deliver by simp
  qed simp_all
  show ?thesis
    using reach
  proof (induction rule: run_reachable.induct)
    case Start
    then show ?case using init by (simp add: start_world_def)
  next
    case (Step w w')
    then show ?case using step reachable_inv [OF Step.hyps(1) st] by blast
  qed
qed

subsection \<open>Limits\<close>

definition within_limits :: "config \<Rightarrow> scheduler \<Rightarrow> bool" where
  "within_limits cfg s \<longleftrightarrow>
     sc_running s \<le> max 0 (c_ContainerCap cfg)
     \<and> sc_usedNets s \<le> max 0 (b_Networks (c_Budgets cfg))
     \<and> sc_usedSubnets s \<le> max 0 (b_Subnetworks (c_Budgets cfg))
     \<and> (\<forall>r k. sc_usedCPU s r k \<le> max 0 (usable_budget cfg r k))"

lemma allowed_max: "allowed cfg now s r k \<le> max 0 (usable_budget cfg r k)"
proof -
  have "go_div a 2 \<le> max 0 a" for a :: int
    by (cases "0 \<le> a") (simp_all add: go_div_nonneg, simp add: go_div_def sgn_if)
  then show ?thesis by (auto simp: allowed_def Let_def split: option.splits)
qed

lemma launch_counters:
  assumes "rs_Jobs (sc_st s) (j_ID j) = Some rec" and "launch cfg e j zone s = Some s'"
  shows "in_use s' k = in_use s k + lease_cost cfg \<lparr>fl_Job = j, fl_Zone = zone, fl_Start = e_now e\<rparr> k"
  by (rule launch_result [OF assms(1), of cfg e zone]) (use assms(2) in simp)

lemma deliver_counters:
  assumes "sched_inv cfg s" and "x \<in> set (sc_inflight s)"
    and "deliver cfg e killed x t res s = Some s'"
  shows "in_use s' k = in_use s k - lease_cost cfg x k" and "lease_ok x"
proof -
  note inv = sched_invD [OF assms(1)]
  from flights_okD [OF inv(3) assms(2)] obtain rec where
    rec: "rs_Jobs (sc_st s) (j_ID (fl_Job x)) = Some rec" "jr_Job rec = fl_Job x"
      "jr_Attempts rec \<noteq> []" .
  show "in_use s' k = in_use s k - lease_cost cfg x k"
    using deliver_result [OF rec, of cfg e killed t res] assms(3) by (metis option.inject)
  show "lease_ok x" using inflight_ok [OF inv(3,2)] assms(2) by blast
qed

lemma launch_within:
  assumes inv: "sched_inv cfg s" and P: "within_limits cfg s"
    and rec: "rs_Jobs (sc_st s) (j_ID j) = Some rec" "jr_Job rec = j"
    and ml: "may_launch cfg now s j zone" and l: "launch cfg e j zone s = Some s'"
  shows "within_limits cfg s'"
proof -
  note c = launch_counters [OF rec(1) l]
  have "sc_usedCPU s' r k \<le> max 0 (usable_budget cfg r k)" for r k
  proof (cases "r = zoneRegion zone \<and> k \<in> set (budgetKeys cfg j r)")
    case True
    then have "j_CPUCost j \<le> allowed cfg now s r k - sc_usedCPU s r k"
      using ml headroom_le [of k cfg j r now s] by (auto simp: may_launch_def)
    then show ?thesis using c [of "Cpus r k"] True allowed_max [of cfg now s r k] by auto
  next
    case False
    then have "sc_usedCPU s' r k = sc_usedCPU s r k" using c [of "Cpus r k"] by auto
    then show ?thesis using P by (simp add: within_limits_def)
  qed
  then show ?thesis
    using ml c [of Containers] c [of Networks] c [of Subnets]
    by (auto simp: within_limits_def may_launch_def)
qed

lemma deliver_within:
  assumes "sched_inv cfg s" and "within_limits cfg s" and "x \<in> set (sc_inflight s)"
    and "deliver cfg e killed x t res s = Some s'"
  shows "within_limits cfg s'"
proof -
  have le: "in_use s' k \<le> in_use s k" for k
    using deliver_counters(1) [OF assms(1,3,4), of k]
      lg.cost_nonneg [OF deliver_counters(2) [OF assms(1,3,4)], of cfg k] by simp
  show ?thesis
    using assms(2) le [of Containers] le [of Networks] le [of Subnets] le [of "Cpus _ _"]
    by (fastforce simp: within_limits_def intro: order_trans)
qed

lemma within_limits_cong:
  "(\<And>k. in_use s' k = in_use s k) \<Longrightarrow> within_limits cfg s' = within_limits cfg s"
  by (simp add: within_limits_def counters_cong [of s' s])

lemma reachable_within_limits:
  assumes "run_reachable cfg (start_world now keys ids st files) w" and "startable st"
  shows "within_limits cfg (w_sched w)"
  using assms
proof (rule reachable_rule)
  show "within_limits cfg (NewScheduler now keys ids st files)"
    by (simp add: within_limits_def NewScheduler_def)
next
  fix t s j rec rr
  assume "within_limits cfg s"
  then show "within_limits cfg ((pick_base t j s)\<lparr>sc_zoneRR := rr\<rparr>)"
    using within_limits_cong [of "(pick_base t j s)\<lparr>sc_zoneRR := rr\<rparr>" s cfg] by simp
qed (blast intro: launch_within deliver_within)+

subsection \<open>Parallelism per shape\<close>

text \<open>The jobs of a run never change; only their records do.\<close>

definition job_at :: "run_state \<Rightarrow> string \<Rightarrow> job option" where
  "job_at st i = map_option jr_Job (rs_Jobs st i)"

lemma job_at_set_job:
  "rs_Jobs st i = Some rec \<Longrightarrow> jr_Job rec' = jr_Job rec \<Longrightarrow> job_at (set_job i rec' st) = job_at st"
  by (auto simp: job_at_def set_job_def)

lemma job_at_cooldowns [simp]: "job_at (st\<lparr>rs_Cooldowns := c\<rparr>) = job_at st"
  by (simp add: job_at_def fun_eq_iff)

lemma job_at_pick_base [simp]: "job_at (sc_st (pick_base t j s)) = job_at (sc_st s)"
proof (cases "rs_Jobs (sc_st s) (j_ID j)")
  case None
  then show ?thesis
    by (auto simp: pick_base_def job_at_def fun_eq_iff clear_sweep_Jobs split: option.splits)
next
  case (Some rec)
  then show ?thesis using pick_base_Jobs [OF Some, of t] by (auto simp: job_at_def)
qed

lemma job_at_launch:
  assumes "rs_Jobs (sc_st s) (j_ID j) = Some rec" and "launch cfg e j zone s = Some s'"
  shows "job_at (sc_st s') = job_at (sc_st s)"
  by (rule launch_result [OF assms(1), of cfg e zone])
     (use assms in \<open>simp add: job_at_set_job\<close>)

lemma job_at_deliver:
  assumes "sched_inv cfg s" and "x \<in> set (sc_inflight s)"
    and "deliver cfg e killed x t res s = Some s'"
  shows "job_at (sc_st s') = job_at (sc_st s)"
proof -
  from flights_okD [OF sched_invD(3) [OF assms(1)] assms(2)] obtain rec where
    rec: "rs_Jobs (sc_st s) (j_ID (fl_Job x)) = Some rec" "jr_Job rec = fl_Job x"
      "jr_Attempts rec \<noteq> []" .
  obtain rec' cds s2 where d: "deliver cfg e killed x t res s = Some s2"
    and r': "jr_Job rec' = jr_Job rec"
    and st: "sc_st s2 = set_job (j_ID (fl_Job x)) rec' ((sc_st s)\<lparr>rs_Cooldowns := cds\<rparr>)"
    using deliver_result [OF rec, of cfg e killed t res] by metis
  have "job_at (set_job (j_ID (fl_Job x)) rec' ((sc_st s)\<lparr>rs_Cooldowns := cds\<rparr>)) =
      job_at ((sc_st s)\<lparr>rs_Cooldowns := cds\<rparr>)"
    by (rule job_at_set_job [of _ _ rec]) (simp_all add: rec(1) r')
  with d st assms(3) show ?thesis by simp
qed

text \<open>Jobs of one shape agree on its parallelism.\<close>

definition uniform_shapes :: "run_state \<Rightarrow> bool" where
  "uniform_shapes st \<longleftrightarrow>
     (\<forall>i k a b. job_at st i = Some a \<longrightarrow> job_at st k = Some b \<longrightarrow> j_Shape a = j_Shape b \<longrightarrow>
        j_MaxParallel a = j_MaxParallel b)"

definition within_slots :: "scheduler \<Rightarrow> bool" where
  "within_slots s \<longleftrightarrow>
     (\<forall>i j. job_at (sc_st s) i = Some j \<longrightarrow> 0 < j_MaxParallel j \<longrightarrow>
        sc_runningPerShape s (j_Shape j) \<le> j_MaxParallel j)"

lemma launch_slots:
  assumes u: "uniform_shapes (sc_st s)" and P: "within_slots s"
    and rec: "rs_Jobs (sc_st s) (j_ID j) = Some rec" "jr_Job rec = j"
    and ml: "may_launch cfg now s j zone" and l: "launch cfg e j zone s = Some s'"
  shows "within_slots s'"
  unfolding within_slots_def
proof (intro allI impI)
  fix i k assume k: "job_at (sc_st s') i = Some k" "0 < j_MaxParallel k"
  have jk: "job_at (sc_st s) i = Some k" using k(1) job_at_launch [OF rec(1) l] by simp
  have c: "sc_runningPerShape s' (j_Shape k) =
      sc_runningPerShape s (j_Shape k) + (if j_Shape k = j_Shape j then 1 else 0)"
    using launch_counters [OF rec(1) l, of "Slots (j_Shape k)"] by simp
  have jj: "job_at (sc_st s) (j_ID j) = Some j" using rec by (simp add: job_at_def)
  show "sc_runningPerShape s' (j_Shape k) \<le> j_MaxParallel k"
  proof (cases "j_Shape k = j_Shape j")
    case True
    then have "j_MaxParallel k = j_MaxParallel j" using u jk jj unfolding uniform_shapes_def by blast
    with True ml k(2) c show ?thesis by (simp add: may_launch_def)
  next
    case False
    with P jk k(2) c show ?thesis by (simp add: within_slots_def)
  qed
qed

lemma deliver_slots:
  assumes "sched_inv cfg s" and "within_slots s" and "x \<in> set (sc_inflight s)"
    and "deliver cfg e killed x t res s = Some s'"
  shows "within_slots s'"
proof -
  have "sc_runningPerShape s' sh \<le> sc_runningPerShape s sh" for sh
    using deliver_counters(1) [OF assms(1,3,4), of "Slots sh"] by (simp split: if_splits)
  then show ?thesis
    using assms(2) job_at_deliver [OF assms(1,3,4)] order_trans unfolding within_slots_def by fastforce
qed

lemma reachable_slots:
  assumes "run_reachable cfg (start_world now keys ids st files) w" and "startable st"
    and u: "uniform_shapes st"
  shows "within_slots (w_sched w) \<and> job_at (sc_st (w_sched w)) = job_at st"
  using assms(1,2)
proof (rule reachable_rule)
  show "within_slots (NewScheduler now keys ids st files)
      \<and> job_at (sc_st (NewScheduler now keys ids st files)) = job_at st"
    by (simp add: within_slots_def NewScheduler_def)
next
  fix t s j rec rr
  assume "within_slots s \<and> job_at (sc_st s) = job_at st"
  then show "within_slots ((pick_base t j s)\<lparr>sc_zoneRR := rr\<rparr>)
      \<and> job_at (sc_st ((pick_base t j s)\<lparr>sc_zoneRR := rr\<rparr>)) = job_at st"
    using counters_cong(2) [of "pick_base t j s" s] by (simp add: within_slots_def)
next
  fix e s s' j rec zone
  assume a: "within_slots s \<and> job_at (sc_st s) = job_at st"
    "rs_Jobs (sc_st s) (j_ID j) = Some rec" "jr_Job rec = j"
    "may_launch cfg (e_now e) s j zone" "launch cfg e j zone s = Some s'"
  have "uniform_shapes (sc_st s)" using u a(1) unfolding uniform_shapes_def by metis
  then have "within_slots s'" using launch_slots [OF _ _ a(2,3,4,5)] a(1) by blast
  then show "within_slots s' \<and> job_at (sc_st s') = job_at st"
    using job_at_launch [OF a(2,5)] a(1) by metis
next
  fix e killed x t res s s'
  assume a: "sched_inv cfg s" "within_slots s \<and> job_at (sc_st s) = job_at st"
    "x \<in> set (sc_inflight s)" "deliver cfg e killed x t res s = Some s'"
  have "within_slots s'" using deliver_slots [OF a(1) _ a(3,4)] a(2) by blast
  then show "within_slots s' \<and> job_at (sc_st s') = job_at st"
    using job_at_deliver [OF a(1,3,4)] a(2) by metis
qed

subsection \<open>A run that begins\<close>

lemma NewRunState_record:
  assumes "distinct (map j_ID jobs)" and "rs_Jobs (NewRunState r n jobs) i = Some rec"
  shows "\<exists>j \<in> set jobs. j_ID j = i \<and> rec = new_record j"
proof -
  have "i \<in> j_ID ` set jobs" using assms(2) NewRunState_None [of i jobs r n] by fastforce
  then show ?thesis using NewRunState_Jobs [OF assms(1)] assms(2) by fastforce
qed

lemma NewRunState_startable:
  assumes d: "distinct (map j_ID jobs)" and ok: "\<forall>j \<in> set jobs. job_ok j"
  shows "startable (NewRunState r n jobs)"
proof -
  have "dom (rs_Jobs (NewRunState r n jobs)) = set (map j_ID jobs)"
    using NewRunState_None [of _ jobs r n] NewRunState_Jobs [OF d, of _ r n] by fastforce
  moreover have "j_ID (jr_Job rec) = i \<and> job_ok (jr_Job rec) \<and> jr_Status rec \<noteq> StatusRunning"
    if "rs_Jobs (NewRunState r n jobs) i = Some rec" for i rec
    using NewRunState_record [OF d that] ok by (auto simp: new_record_def split: if_splits)
  ultimately show ?thesis
    using d by (fastforce simp: startable_def wf_run_def jobs_ok_def ran_def)
qed

end
