(* ===== verification/Citrun_Progress.thy ===== *)
theory Citrun_Progress
  imports Citrun_Run_Loop
begin

text \<open>
  Progress of the scheduler: zone choice is complete, so an idle scheduler with a queued job that
  the budgets can take and no cooldown holds back launches an attempt in its next pass.
\<close>

subsection \<open>Zone choice is complete\<close>

lemma best_region_complete:
  assumes "r \<in> set order" and "j_CPUCost j \<le> headroom cfg now s j r" and "0 \<le> j_CPUCost j"
    and "[] \<notin> set order"
  shows "fst (best_region cfg now s j order) \<noteq> []"
proof -
  define step where "step = (\<lambda>r (best, bestFree). let free = headroom cfg now s j r
     in if j_CPUCost j \<le> free \<and> bestFree < free then (r, free) else (best :: string, bestFree))"
  have keep: "fst bf \<noteq> [] \<Longrightarrow> [] \<notin> set rs \<Longrightarrow> fst (fold step rs bf) \<noteq> []" for rs bf
    by (induction rs arbitrary: bf) (auto simp: step_def Let_def split: prod.splits)
  have "r \<in> set rs \<Longrightarrow> [] \<notin> set rs \<Longrightarrow> fst bf \<noteq> [] \<or> snd bf = -1 \<Longrightarrow> fst (fold step rs bf) \<noteq> []"
    for rs bf
  proof (induction rs arbitrary: bf)
    case (Cons x xs)
    obtain b f where bf: "bf = (b, f)" by fastforce
    show ?case
    proof (cases "fst (step x bf) \<noteq> []")
      case True
      then show ?thesis using keep Cons.prems(2) by simp
    next
      case False
      then have "step x bf = bf" "b = []" "f = -1" "x \<noteq> r"
        using Cons.prems bf assms(2,3) by (auto simp: step_def Let_def split: if_splits)
      then show ?thesis using Cons bf by auto
    qed
  qed simp
  from this [of order "([], -1)"] assms(1,4) show ?thesis by (simp add: best_region_def step_def)
qed

definition named_zones :: "job \<Rightarrow> bool" where
  "named_zones j \<longleftrightarrow> (\<forall>z \<in> set (j_Zones j). z \<noteq> [] \<and> zoneRegion z \<noteq> [])"

lemma pick_pass_complete:
  assumes "z \<in> set (j_Zones j)" and "zone_open now s j avoid False z"
    and "j_CPUCost j \<le> headroom cfg now s j (zoneRegion z)" and "0 \<le> j_CPUCost j"
    and "named_zones j"
  shows "fst (pick_pass cfg now j avoid [True, False] s) \<noteq> []"
proof -
  have pass: "fst (pick_pass cfg now j avoid (p # ps) s) \<noteq> []"
    if "fst (best_region cfg now s j (sort (dedup_regions {}
          (filter (zone_open now s j avoid p) (j_Zones j))))) \<noteq> []" for p ps
  proof -
    define cands where "cands = filter (zone_open now s j avoid p) (j_Zones j)"
    define best where "best = fst (best_region cfg now s j (sort (dedup_regions {} cands)))"
    define zs where "zs = filter (\<lambda>z. zoneRegion z = best) cands"
    have b: "best \<noteq> []" using that by (simp add: best_def cands_def)
    then have "best \<in> set (dedup_regions {} cands)"
      using best_region_sound [of cfg now s j "sort (dedup_regions {} cands)" best
          "snd (best_region cfg now s j (sort (dedup_regions {} cands)))"]
      by (simp add: best_def)
    then have "zs \<noteq> []" by (auto simp: dedup_regions_set zs_def filter_empty_conv)
    then have "zs ! (sc_zoneRR s best mod length zs) \<in> set zs" by simp
    then have "zs ! (sc_zoneRR s best mod length zs) \<noteq> []"
      using assms(5) by (auto simp: zs_def cands_def named_zones_def)
    then show ?thesis
      using b by (simp add: pick_pass.simps Let_def best_def cands_def zs_def)
  qed
  define order where "order = sort (dedup_regions {}
    (filter (zone_open now s j avoid False) (j_Zones j)))"
  have "fst (best_region cfg now s j order) \<noteq> []"
  proof (rule best_region_complete [OF _ assms(3,4)])
    show "zoneRegion z \<in> set order" using assms(1,2) by (auto simp: order_def dedup_regions_set)
    show "[] \<notin> set order"
      using assms(5) by (auto simp: order_def dedup_regions_set named_zones_def)
  qed
  then have second: "fst (pick_pass cfg now j avoid [False] s) \<noteq> []"
    using pass by (simp add: order_def)
  show ?thesis
  proof (cases "fst (best_region cfg now s j (sort (dedup_regions {}
          (filter (zone_open now s j avoid True) (j_Zones j))))) = []")
    case True
    then show ?thesis using second by (simp add: pick_pass.simps(2) [of _ _ _ _ True] Let_def)
  next
    case False
    then show ?thesis by (rule pass)
  qed
qed

subsection \<open>A job that nothing holds back\<close>

text \<open>
  The demands of a job on an otherwise idle scheduler: its networks fit, no sweep cooldown is
  running, and some zone has neither stocked out in this sweep nor a quota cooldown, in a region
  whose allowance covers the cost.
\<close>

definition ready_zone :: "config \<Rightarrow> time \<Rightarrow> scheduler \<Rightarrow> job_record \<Rightarrow> string \<Rightarrow> bool" where
  "ready_zone cfg now s rec z \<longleftrightarrow>
     (let j = jr_Job rec; cds = rs_Cooldowns (sc_st s)
      in z \<in> set (j_Zones j)
         \<and> (cds (stockout_key (j_ID j)) = None \<longrightarrow> z \<notin> jr_StockoutZones rec)
         \<and> get_time cds (quota_key (j_BudgetKey j) (zoneRegion z)) \<le> now
         \<and> (\<forall>k \<in> set (budgetKeys cfg j (zoneRegion z)).
              j_CPUCost j \<le> allowed cfg now s (zoneRegion z) k))"

definition ready_job :: "config \<Rightarrow> time \<Rightarrow> scheduler \<Rightarrow> job_record \<Rightarrow> bool" where
  "ready_job cfg now s rec \<longleftrightarrow>
     (let j = jr_Job rec
      in jr_Status rec = StatusQueued \<and> named_zones j \<and> j_CPUCost j \<le> 2 ^ 30
         \<and> j_Networks j \<le> b_Networks (c_Budgets cfg)
         \<and> j_Subnets j \<le> b_Subnetworks (c_Budgets cfg)
         \<and> get_time (rs_Cooldowns (sc_st s)) (stockout_key (j_ID j)) \<le> now
         \<and> (\<exists>z. ready_zone cfg now s rec z))"

lemma pick_base_ready:
  assumes "rs_Jobs (sc_st s) (j_ID (jr_Job rec)) = Some rec"
    and "get_time (rs_Cooldowns (sc_st s)) (stockout_key (j_ID (jr_Job rec))) \<le> now"
    and "rs_Cooldowns (sc_st s) (stockout_key (j_ID (jr_Job rec))) = None \<longrightarrow> z \<notin> jr_StockoutZones rec"
  shows "z \<notin> stockout_zones (pick_base now (jr_Job rec) s) (jr_Job rec)"
  using assms
  by (auto simp: pick_base_def stockout_zones_def clear_sweep_Jobs get_time_def split: option.splits)

lemma pick_base_quota:
  "get_time (rs_Cooldowns (sc_st (pick_base now j s))) (quota_key b r) =
     get_time (rs_Cooldowns (sc_st s)) (quota_key b r)"
proof -
  have "quota_key b r \<noteq> stockout_key i" for i by (simp add: quota_key_def stockout_key_def)
  then show ?thesis by (auto simp: pick_base_def get_time_def split: option.splits)
qed

lemma pickZone_complete:
  assumes "ready_job cfg now s rec" and "rs_Jobs (sc_st s) (j_ID (jr_Job rec)) = Some rec"
    and "sc_usedCPU s = (\<lambda>_ _. 0)" and "0 \<le> j_CPUCost (jr_Job rec)"
  shows "fst (pickZone cfg now (jr_Job rec) avoid s) \<noteq> []"
proof -
  define j where "j = jr_Job rec"
  define s0 where "s0 = pick_base now j s"
  from assms(1) obtain z where z: "ready_zone cfg now s rec z"
    and t: "get_time (rs_Cooldowns (sc_st s)) (stockout_key (j_ID j)) \<le> now"
    and nz: "named_zones j" and c: "j_CPUCost j \<le> 2 ^ 30"
    by (auto simp: ready_job_def Let_def j_def)
  have "pickZone cfg now j avoid s = pick_pass cfg now j avoid [True, False] s0"
    using t by (auto simp: pickZone_def s0_def pick_base_def get_time_def split: option.splits)
  moreover have "fst (pick_pass cfg now j avoid [True, False] s0) \<noteq> []"
  proof (rule pick_pass_complete [OF _ _ _ _ nz])
    show "z \<in> set (j_Zones j)" using z by (simp add: ready_zone_def Let_def j_def)
    show "zone_open now s0 j avoid False z"
      using z t pick_base_ready [OF assms(2), of now z] pick_base_quota [of now j s]
      by (simp add: zone_open_def s0_def ready_zone_def Let_def j_def)
    have "\<forall>k \<in> set (budgetKeys cfg j (zoneRegion z)). j_CPUCost j \<le> allowed cfg now s (zoneRegion z) k"
      using z by (simp add: ready_zone_def Let_def j_def)
    then have "j_CPUCost j \<le> headroom cfg now s j (zoneRegion z)"
      using c by (simp add: headroom_eq assms(3))
    then show "j_CPUCost j \<le> headroom cfg now s0 j (zoneRegion z)"
      using headroom_cong [of s0 s cfg now j] by (simp add: s0_def)
    show "0 \<le> j_CPUCost j" using assms(4) by (simp add: j_def)
  qed
  ultimately show ?thesis by (simp add: j_def)
qed

subsection \<open>A pass on an idle scheduler\<close>

lemma pickZone_inflight: "pickZone cfg now j avoid s = (z, s') \<Longrightarrow> sc_inflight s' = sc_inflight s"
  by (drule pickZone_frame) (metis pick_base_sel(1) scheduler.select_convs(11) scheduler.surjective
      scheduler.update_convs(9))

lemma admit_loop_grows: "admit_loop cfg e is s = Some s' \<Longrightarrow> \<exists>L. sc_inflight s' = sc_inflight s @ L"
proof (induction "is" arbitrary: s)
  case (Cons i "is")
  have "\<exists>L. sc_inflight s2 = sc_inflight s @ L"
    if "launch cfg e j z s1 = Some s2" "pickZone cfg (e_now e) j a s = (z, s1)" for j z s1 s2 a
    using that pickZone_inflight [OF that(2)] by (auto simp: launch_def Let_def split: option.splits)
  with Cons show ?case
    by (fastforce simp: Let_def dest: pickZone_inflight split: option.splits if_splits prod.splits)
qed simp

lemma idle_unused:
  assumes "sched_inv cfg s" and "sc_inflight s = []"
  shows "in_use s k = 0"
  using sched_invD(4) [OF assms(1)] assms(2) by (simp add: accounted_def lg.used_Nil)

lemma ready_job_frame:
  assumes "ready_job cfg now s rec" and "j_ID j \<noteq> j_ID (jr_Job rec)"
  shows "ready_job cfg now ((pick_base now j s)\<lparr>sc_zoneRR := rr\<rparr>) rec"
proof -
  have "stockout_key i = stockout_key k \<longleftrightarrow> i = k" for i k by (simp add: stockout_key_def)
  then have "rs_Cooldowns (sc_st (pick_base now j s)) (stockout_key (j_ID (jr_Job rec))) =
      rs_Cooldowns (sc_st s) (stockout_key (j_ID (jr_Job rec)))"
    using assms(2) by (auto simp: pick_base_def split: option.splits)
  then show ?thesis
    using assms(1) pick_base_quota [of now j s]
    by (simp add: ready_job_def ready_zone_def Let_def allowed_def get_time_def)
qed

lemma admit_loop_launches:
  assumes "sched_inv cfg s" and "sc_inflight s = []" and "i \<in> set is"
    and "set is \<subseteq> set (rs_Order (sc_st s))"
    and "rs_Jobs (sc_st s) i = Some rec" and "ready_job cfg (e_now e) s rec"
    and "0 < c_ContainerCap cfg" and "admit_loop cfg e is s = Some s'"
  shows "sc_inflight s' \<noteq> []"
  using assms
proof (induction "is" arbitrary: s)
  case (Cons k ks)
  note inv = sched_invD [OF Cons.prems(1)]
  note idle = counters_cong [of s s, OF refl] idle_unused [OF Cons.prems(1,2)]
  have zero: "sc_running s = 0" "sc_usedNets s = 0" "sc_usedSubnets s = 0"
      "sc_runningPerShape s sh = 0" "sc_usedCPU s = (\<lambda>_ _. 0)" for sh
    using idle(6) [of Containers] idle(6) [of Networks] idle(6) [of Subnets] idle(6) [of "Slots sh"]
      idle(6) [of "Cpus _ _"] by (simp_all add: fun_eq_iff)
  obtain rk where rk: "rs_Jobs (sc_st s) k = Some rk"
    using wf_run_lookup [OF inv(1)] Cons.prems(4) by auto
  define j where "j = jr_Job rk"
  have id: "j_ID j = k" unfolding j_def by (rule wf_run_ID [OF inv(1) rk])
  obtain z s1 where pz: "pickZone cfg (e_now e) j (avoidZone rk) s = (z, s1)" by fastforce
  show ?case
  proof (cases "k = i")
    case True
    with rk Cons.prems(5) have "rk = rec" by simp
    with Cons.prems(6) have rj: "ready_job cfg (e_now e) s rk" by simp
    have "0 \<le> j_CPUCost j" using jobs_okD [OF inv(2) rk] by (simp add: job_ok_def j_def)
    with pickZone_complete [OF rj _ zero(5)] have z: "z \<noteq> []"
      using rk id pz by (simp add: j_def) (metis fst_conv)
    have "\<exists>s2. launch cfg e j z s1 = Some s2 \<and> admit_loop cfg e ks s2 = Some s'"
      using Cons.prems(8) rk rj zero(1-4) pz z Cons.prems(7)
      by (auto simp: j_def ready_job_def Let_def split: option.splits if_splits)
    then obtain s2 where "launch cfg e j z s1 = Some s2" "admit_loop cfg e ks s2 = Some s'" by blast
    then show ?thesis
      using admit_loop_grows by (fastforce simp: launch_def Let_def split: option.splits)
  next
    case False
    then have i: "i \<in> set ks" using Cons.prems(3) by simp
    have sub: "set ks \<subseteq> set (rs_Order (sc_st s))" using Cons.prems(4) by simp
    note skip = Cons.IH [OF Cons.prems(1,2) i sub Cons.prems(5,6,7)]
    have "sc_inflight s' \<noteq> []"
      if st: "jr_Status rk = StatusQueued" and z: "z = []" and l: "admit_loop cfg e ks s1 = Some s'"
    proof -
      have s1: "s1 = (pick_base (e_now e) j s)\<lparr>sc_zoneRR := sc_zoneRR s1\<rparr>"
        by (rule pickZone_frame [OF pz])
      have ni: "j_ID j \<noteq> j_ID (jr_Job rec)"
        using False id wf_run_ID [OF inv(1) Cons.prems(5)] by simp
      have a: "sched_inv cfg (pick_base (e_now e) j s)"
        by (rule pick_base_inv [OF Cons.prems(1)]) (use rk id st in simp)
      obtain zs where b: "rs_Jobs (sc_st (pick_base (e_now e) j s)) =
          (rs_Jobs (sc_st s))(j_ID j \<mapsto> rk\<lparr>jr_StockoutZones := zs\<rparr>)"
        using pick_base_Jobs [of s j rk "e_now e"] rk id by auto
      show ?thesis
      proof (rule Cons.IH [OF _ _ i _ _ _ Cons.prems(7) l])
        show "sched_inv cfg s1" by (subst s1) (simp add: a)
        show "sc_inflight s1 = []" using pickZone_inflight [OF pz] Cons.prems(2) by simp
        show "set ks \<subseteq> set (rs_Order (sc_st s1))" by (subst s1) (simp add: sub)
        show "rs_Jobs (sc_st s1) i = Some rec" by (subst s1) (use b False id Cons.prems(5) in simp)
        show "ready_job cfg (e_now e) s1 rec" by (subst s1) (rule ready_job_frame [OF Cons.prems(6) ni])
      qed
    qed
    moreover have "sc_inflight s' \<noteq> []"
      if "launch cfg e j z s1 = Some s2" "admit_loop cfg e ks s2 = Some s'" for s2
      using that admit_loop_grows by (fastforce simp: launch_def Let_def split: option.splits)
    ultimately show ?thesis
      using Cons.prems(7,8) rk skip pz zero(1)
      by (auto simp: j_def Let_def split: if_splits option.splits)
  qed
qed simp

end
