(* ===== verification/Citrun_Retries.thy ===== *)
theory Citrun_Retries
  imports Citrun_Run_Loop
begin

text \<open>
  The retry policy of \<open>handleCompletion\<close> and \<open>recordStockout\<close>: the invariant that bounds the
  attempts of a job by its retry caps, class by class.  A stockout never hits the same zone twice
  in one sweep, so a round costs at most one stockout per zone.
\<close>

subsection \<open>The invariant of one record\<close>

definition n_class :: "job_record \<Rightarrow> string \<Rightarrow> int" where
  "n_class rec cl = countClass (jr_Attempts rec) cl"

definition active :: "job_record \<Rightarrow> bool" where
  "active rec \<longleftrightarrow> jr_Status rec = StatusQueued \<or> jr_Status rec = StatusRunning"

definition caps_ok :: "retries \<Rightarrow> job_record \<Rightarrow> bool" where
  "caps_ok rt rec \<longleftrightarrow>
     (let slack = (if active rec then 1 else 0)
      in n_class rec ClassPass + slack \<le> 1
         \<and> n_class rec ClassFail + slack \<le> rt_Failure rt + 1
         \<and> n_class rec ClassQuota + slack \<le> rt_Quota rt
         \<and> n_class rec ClassTimeout + slack \<le> rt_Timeout rt
         \<and> n_class rec ClassInfra + slack \<le> rt_Infra rt
         \<and> n_class rec ClassError + slack \<le> rt_Error rt
         \<and> int (jr_StockoutRounds rec) + slack \<le> rt_Stockout rt
         \<and> n_class rec ClassStockout \<le> rt_Stockout rt * int (card (set (j_Zones (jr_Job rec)))))"

text \<open>\<open>held\<close>: the cooldown after a failed sweep is set, so the zones no longer count.\<close>

definition sweep_ok :: "bool \<Rightarrow> job_record \<Rightarrow> bool" where
  "sweep_ok held rec \<longleftrightarrow>
     jr_StockoutZones rec \<subseteq> set (j_Zones (jr_Job rec))
     \<and> n_class rec ClassStockout \<le>
         int (jr_StockoutRounds rec) * int (card (set (j_Zones (jr_Job rec))))
         + (if held then 0 else int (card (jr_StockoutZones rec)))"

definition sweep_held :: "run_state \<Rightarrow> string \<Rightarrow> bool" where
  "sweep_held st i \<longleftrightarrow> rs_Cooldowns st (stockout_key i) \<noteq> None"

definition retries_ok :: "config \<Rightarrow> run_state \<Rightarrow> bool" where
  "retries_ok cfg st \<longleftrightarrow>
     (\<forall>i rec. rs_Jobs st i = Some rec \<longrightarrow>
        caps_ok (c_Retries cfg) rec \<and> sweep_ok (sweep_held st i) rec)"

text \<open>An attempt in flight runs in a zone of its job that has not stocked out in this sweep.\<close>

definition flight_fresh :: "run_state \<Rightarrow> flight \<Rightarrow> bool" where
  "flight_fresh st x \<longleftrightarrow>
     \<not> sweep_held st (j_ID (fl_Job x)) \<and> fl_Zone x \<in> set (j_Zones (fl_Job x))
     \<and> (\<forall>rec. rs_Jobs st (j_ID (fl_Job x)) = Some rec \<longrightarrow> fl_Zone x \<notin> jr_StockoutZones rec)"

definition retry_inv :: "config \<Rightarrow> scheduler \<Rightarrow> bool" where
  "retry_inv cfg s \<longleftrightarrow> retries_ok cfg (sc_st s) \<and> (\<forall>x \<in> set (sc_inflight s). flight_fresh (sc_st s) x)"

lemma n_class_cong [simp]:
  "n_class (rec\<lparr>jr_Status := st\<rparr>) cl = n_class rec cl"
  "n_class (rec\<lparr>jr_StockoutZones := zs\<rparr>) cl = n_class rec cl"
  "n_class (rec\<lparr>jr_StockoutRounds := n\<rparr>) cl = n_class rec cl"
  by (simp_all add: n_class_def)

lemma active_cong [simp]:
  "active (rec\<lparr>jr_Status := st\<rparr>) \<longleftrightarrow> st = StatusQueued \<or> st = StatusRunning"
  "active (rec\<lparr>jr_StockoutZones := zs\<rparr>) = active rec"
  "active (rec\<lparr>jr_StockoutRounds := n\<rparr>) = active rec"
  "active (rec\<lparr>jr_Attempts := as\<rparr>) = active rec"
  by (simp_all add: active_def)

lemma countClass_snoc:
  "countClass (as @ [a]) cl = countClass as cl + (if a_Result a = cl then 1 else 0)"
  by (simp add: countClass_def)

text \<open>Closing the running attempt counts its class once.\<close>

lemma n_class_close:
  assumes "jr_Attempts rec \<noteq> []" and "a_Result (last (jr_Attempts rec)) \<noteq> cl"
  shows "n_class (rec\<lparr>jr_Attempts := set_last f (jr_Attempts rec)\<rparr>) cl =
    n_class rec cl + (if a_Result (f (last (jr_Attempts rec))) = cl then 1 else 0)"
proof -
  obtain as a where "jr_Attempts rec = as @ [a]" using assms(1) by (metis append_butlast_last_id)
  with assms(2) show ?thesis by (simp add: n_class_def countClass_snoc)
qed

subsection \<open>Completions\<close>

lemma stockout_key_inj: "stockout_key i = stockout_key k \<longleftrightarrow> i = k"
  by (simp add: stockout_key_def)

lemma quota_not_stockout: "quota_key b r \<noteq> stockout_key i"
  by (simp add: quota_key_def stockout_key_def)

lemma bumpCooldown_stockout:
  "rs_Cooldowns (sc_st (bumpCooldown cfg now (quota_key b r) s)) (stockout_key i) =
     rs_Cooldowns (sc_st s) (stockout_key i)"
  using quota_not_stockout [of b r i] by (auto simp: bumpCooldown_def Let_def)

text \<open>\<open>recordStockout\<close> in one sweep, at its end, and at the end of the last round.\<close>

lemma recordStockout_cases:
  assumes "recordStockout cfg now rec zone cds = (rec', cds')"
  obtains (more) "rec' = rec\<lparr>jr_StockoutZones := insert zone (jr_StockoutZones rec), jr_Status := StatusQueued\<rparr>"
      "cds' = cds"
  | (round) until where "rec' = rec\<lparr>jr_StockoutZones := insert zone (jr_StockoutZones rec),
        jr_Status := StatusQueued, jr_StockoutRounds := Suc (jr_StockoutRounds rec)\<rparr>"
      "int (Suc (jr_StockoutRounds rec)) < rt_Stockout (c_Retries cfg)"
      "cds' = cds(stockout_key (j_ID (jr_Job rec)) \<mapsto> until)"
  | (spent) "rec' = rec\<lparr>jr_StockoutZones := insert zone (jr_StockoutZones rec),
        jr_Status := StatusFailedInfra, jr_StockoutRounds := Suc (jr_StockoutRounds rec)\<rparr>"
      "cds' = cds"
  using assms by (auto simp: recordStockout_def Let_def split: if_splits)

text \<open>A stockout in a new zone: the sweep has room for it.\<close>

lemma sweep_room:
  assumes "n \<le> int r * int (card Z) + int (card SZ) + 1" and "SZ \<subseteq> Z" and "finite Z"
    and "zone \<in> Z" and "zone \<notin> SZ"
  shows "n \<le> int (Suc r) * int (card Z)"
proof -
  have "card (insert zone SZ) \<le> card Z" using assms(2-4) by (intro card_mono) auto
  moreover have "card (insert zone SZ) = Suc (card SZ)"
    using assms(2,3,5) finite_subset by (metis card_insert_disjoint)
  ultimately have "n \<le> int r * int (card Z) + int (card Z)" using assms(1) by linarith
  then show ?thesis by (simp add: algebra_simps)
qed

lemma recordStockout_ok:
  assumes r: "recordStockout cfg now rec zone cds = (rec', cds')"
    and n: "n_class rec ClassStockout \<le>
      int (jr_StockoutRounds rec) * int (card (set (j_Zones (jr_Job rec))))
      + int (card (jr_StockoutZones rec)) + 1"
    and sub: "jr_StockoutZones rec \<subseteq> set (j_Zones (jr_Job rec))"
    and zone: "zone \<in> set (j_Zones (jr_Job rec))" "zone \<notin> jr_StockoutZones rec"
  shows "sweep_ok (cds' (stockout_key (j_ID (jr_Job rec))) \<noteq> None) rec'
    \<or> cds (stockout_key (j_ID (jr_Job rec))) \<noteq> None"
proof -
  define Z where "Z = set (j_Zones (jr_Job rec))"
  have "finite (jr_StockoutZones rec)" using sub finite_subset by blast
  then have c: "card (insert zone (jr_StockoutZones rec)) = Suc (card (jr_StockoutZones rec))"
    using zone(2) by simp
  have full: "n_class rec ClassStockout \<le> int (Suc (jr_StockoutRounds rec)) * int (card Z)"
    using sweep_room [OF n sub _ zone] by (simp add: Z_def)
  show ?thesis
    using r
  proof (cases rule: recordStockout_cases)
    case more
    then show ?thesis using n sub zone c by (auto simp: sweep_ok_def)
  next
    case (round until)
    then show ?thesis using full sub zone by (simp add: sweep_ok_def Z_def)
  next
    case spent
    then show ?thesis using full sub zone by (auto simp: sweep_ok_def Z_def)
  qed
qed

lemma set_job_sel [simp]:
  "rs_Jobs (set_job i rec st) = (rs_Jobs st)(i \<mapsto> rec)"
  "rs_Cooldowns (set_job i rec st) = rs_Cooldowns st"
  "rs_Order (set_job i rec st) = rs_Order st"
  by (simp_all add: set_job_def)

text \<open>The caps after a verdict that is not a stockout.\<close>

lemma requeueOr_caps:
  assumes "requeueOr rec cl limit = StatusQueued"
  shows "n_class rec cl + 1 \<le> limit"
  using assms by (simp add: requeueOr_def n_class_def split: if_splits)

lemma requeueOr_cases: "requeueOr rec cl limit = StatusQueued \<or> requeueOr rec cl limit = StatusFailedInfra"
  by (simp add: requeueOr_def)

lemma verdict_caps:
  assumes cl: "classify_completion cfg now c rec1 s = (rec', s')"
    and k: "Classification (co_res c) \<noteq> ClassStockout"
    and frame: "jr_Job rec1 = jr_Job rec" "jr_StockoutRounds rec1 = jr_StockoutRounds rec"
    and caps: "caps_ok (c_Retries cfg) rec" and st: "jr_Status rec = StatusRunning"
    and n: "\<And>cl. cl \<noteq> ''running'' \<Longrightarrow>
      n_class rec1 cl = n_class rec cl + (if Classification (co_res c) = cl then 1 else 0)"
  shows "caps_ok (c_Retries cfg) rec'"
proof -
  define rt where "rt = c_Retries cfg"
  define k where "k = Classification (co_res c)"
  have counts: "n_class rec1 ''pass'' = n_class rec ''pass'' + (if k = ''pass'' then 1 else 0)"
    "n_class rec1 ''fail'' = n_class rec ''fail'' + (if k = ''fail'' then 1 else 0)"
    "n_class rec1 ''quota'' = n_class rec ''quota'' + (if k = ''quota'' then 1 else 0)"
    "n_class rec1 ''timeout'' = n_class rec ''timeout'' + (if k = ''timeout'' then 1 else 0)"
    "n_class rec1 ''infra'' = n_class rec ''infra'' + (if k = ''infra'' then 1 else 0)"
    "n_class rec1 ''error'' = n_class rec ''error'' + (if k = ''error'' then 1 else 0)"
    "n_class rec1 ''stockout'' = n_class rec ''stockout''"
    using n assms(2) by (simp_all add: k_def class_defs)
  have old: "n_class rec ''pass'' \<le> 0" "n_class rec ''fail'' \<le> rt_Failure rt"
    "n_class rec ''quota'' + 1 \<le> rt_Quota rt" "n_class rec ''timeout'' + 1 \<le> rt_Timeout rt"
    "n_class rec ''infra'' + 1 \<le> rt_Infra rt" "n_class rec ''error'' + 1 \<le> rt_Error rt"
    "int (jr_StockoutRounds rec) + 1 \<le> rt_Stockout rt"
    "n_class rec ''stockout'' \<le> rt_Stockout rt * int (card (set (j_Zones (jr_Job rec))))"
    using caps st by (simp_all add: caps_ok_def active_def class_defs rt_def)
  have retry: "caps_ok rt (rec1\<lparr>jr_Status := requeueOr rec1 cl limit\<rparr>)"
    if l: "(cl, limit) \<in> {(''quota'', rt_Quota rt), (''timeout'', rt_Timeout rt),
        (''infra'', rt_Infra rt), (''error'', rt_Error rt)}"
      and c: "k = cl \<or> (cl = ''error'' \<and> k \<notin> {''pass'', ''fail'', ''quota'', ''timeout'', ''infra''})"
    for cl limit
  proof (cases "requeueOr rec1 cl limit = StatusQueued")
    case True
    then show ?thesis
      using requeueOr_caps [OF True] l c old
      by (elim insertE) (auto simp: caps_ok_def frame class_defs counts)
  next
    case False
    then show ?thesis
      using requeueOr_cases [of rec1 cl limit] l c old
      by (elim insertE) (auto simp: caps_ok_def frame class_defs counts)
  qed
  consider (pass) "k = ''pass''" | (failed) "k = ''fail''" | (quota) "k = ''quota''"
    | (timeout) "k = ''timeout''" | (infra) "k = ''infra''"
    | (err) "k \<notin> {''pass'', ''fail'', ''quota'', ''timeout'', ''infra''}" by blast
  then have "caps_ok rt rec'"
  proof cases
    case pass
    then have "rec' = rec1\<lparr>jr_Status := StatusPassed\<rparr>"
      using cl by (simp add: classify_completion_def Let_def class_defs flip: k_def)
    then show ?thesis using pass old by (simp add: caps_ok_def frame class_defs counts)
  next
    case failed
    then have "rec' = rec1\<lparr>jr_Status := (if n_class rec1 ''fail'' < rt_Failure rt + 1
        then StatusQueued else StatusFailedReal)\<rparr>"
      using cl by (simp add: classify_completion_def Let_def class_defs n_class_def rt_def flip: k_def)
    then show ?thesis using failed old by (simp add: caps_ok_def frame class_defs counts)
  next
    case quota
    then have "rec' = rec1\<lparr>jr_Status := requeueOr rec1 ''quota'' (rt_Quota rt)\<rparr>"
      using cl by (simp add: classify_completion_def Let_def class_defs rt_def flip: k_def)
    then show ?thesis using retry quota by simp
  next
    case timeout
    then have "rec' = rec1\<lparr>jr_Status := requeueOr rec1 ''timeout'' (rt_Timeout rt)\<rparr>"
      using cl by (simp add: classify_completion_def Let_def class_defs rt_def flip: k_def)
    then show ?thesis using retry timeout by simp
  next
    case infra
    then have "rec' = rec1\<lparr>jr_Status := requeueOr rec1 ''infra'' (rt_Infra rt)\<rparr>"
      using cl by (simp add: classify_completion_def Let_def class_defs rt_def flip: k_def)
    then show ?thesis using retry infra by simp
  next
    case err
    then have "rec' = rec1\<lparr>jr_Status := requeueOr rec1 ''error'' (rt_Error rt)\<rparr>"
      using cl assms(2) by (simp add: classify_completion_def Let_def class_defs rt_def flip: k_def)
    then show ?thesis using retry err by simp
  qed
  then show ?thesis by (simp add: rt_def)
qed

text \<open>The verdict on a closed attempt keeps the caps and the sweep bound.\<close>

lemma classify_ok:
  assumes cl: "classify_completion cfg now c rec1 s = (rec', s')"
    and rec1: "rec1 = rec\<lparr>jr_Attempts := set_last (close_attempt c) (jr_Attempts rec)\<rparr>"
    and at: "jr_Attempts rec \<noteq> []" "a_Result (last (jr_Attempts rec)) = ''running''"
    and st: "jr_Status rec = StatusRunning"
    and caps: "caps_ok (c_Retries cfg) rec"
    and sweep: "sweep_ok False rec"
    and free: "rs_Cooldowns (sc_st s) (stockout_key (j_ID (jr_Job rec))) = None"
    and zone: "co_zone c \<in> set (j_Zones (jr_Job rec))" "co_zone c \<notin> jr_StockoutZones rec"
  shows "caps_ok (c_Retries cfg) rec'"
    and "sweep_ok (rs_Cooldowns (sc_st s') (stockout_key (j_ID (jr_Job rec))) \<noteq> None) rec'"
    and "i \<noteq> j_ID (jr_Job rec) \<Longrightarrow>
      rs_Cooldowns (sc_st s') (stockout_key i) = rs_Cooldowns (sc_st s) (stockout_key i)"
proof -
  define k where "k = Classification (co_res c)"
  have n: "n_class rec1 cl = n_class rec cl + (if k = cl then 1 else 0)" if "cl \<noteq> ''running''" for cl
    using n_class_close [OF at(1), of cl "close_attempt c"] at(2) that
    by (simp add: rec1 close_attempt_def k_def)
  note counts = n [of ClassPass] n [of ClassFail] n [of ClassQuota] n [of ClassTimeout]
    n [of ClassInfra] n [of ClassError] n [of ClassStockout]
  have frame: "jr_Job rec1 = jr_Job rec" "jr_StockoutZones rec1 = jr_StockoutZones rec"
    "jr_StockoutRounds rec1 = jr_StockoutRounds rec" by (simp_all add: rec1)
  have old: "n_class rec ClassPass \<le> 0" "n_class rec ClassFail \<le> rt_Failure (c_Retries cfg)"
    "n_class rec ClassQuota + 1 \<le> rt_Quota (c_Retries cfg)"
    "n_class rec ClassTimeout + 1 \<le> rt_Timeout (c_Retries cfg)"
    "n_class rec ClassInfra + 1 \<le> rt_Infra (c_Retries cfg)"
    "n_class rec ClassError + 1 \<le> rt_Error (c_Retries cfg)"
    "int (jr_StockoutRounds rec) + 1 \<le> rt_Stockout (c_Retries cfg)"
    "n_class rec ClassStockout \<le> rt_Stockout (c_Retries cfg) * int (card (set (j_Zones (jr_Job rec))))"
    using caps st by (simp_all add: caps_ok_def active_def)
  have sw: "jr_StockoutZones rec \<subseteq> set (j_Zones (jr_Job rec))"
    "n_class rec ClassStockout \<le> int (jr_StockoutRounds rec) * int (card (set (j_Zones (jr_Job rec))))
      + int (card (jr_StockoutZones rec))"
    using sweep by (simp_all add: sweep_ok_def)
  show "caps_ok (c_Retries cfg) rec'"
    and "sweep_ok (rs_Cooldowns (sc_st s') (stockout_key (j_ID (jr_Job rec))) \<noteq> None) rec'"
    and "i \<noteq> j_ID (jr_Job rec) \<Longrightarrow>
      rs_Cooldowns (sc_st s') (stockout_key i) = rs_Cooldowns (sc_st s) (stockout_key i)"
  proof -
    have "caps_ok (c_Retries cfg) rec'
      \<and> sweep_ok (rs_Cooldowns (sc_st s') (stockout_key (j_ID (jr_Job rec))) \<noteq> None) rec'
      \<and> (i \<noteq> j_ID (jr_Job rec) \<longrightarrow>
           rs_Cooldowns (sc_st s') (stockout_key i) = rs_Cooldowns (sc_st s) (stockout_key i))"
    proof (cases "k = ClassStockout")
      case True
      obtain cds where rs: "recordStockout cfg now rec1 (co_zone c) (rs_Cooldowns (sc_st s)) = (rec', cds)"
        and s': "s' = s\<lparr>sc_st := (sc_st s)\<lparr>rs_Cooldowns := cds\<rparr>\<rparr>"
        using cl True by (auto simp: classify_completion_def Let_def k_def class_defs split: prod.splits)
      have stock: "n_class rec1 ClassStockout \<le>
          int (jr_StockoutRounds rec1) * int (card (set (j_Zones (jr_Job rec1))))
          + int (card (jr_StockoutZones rec1)) + 1"
        using counts(7) sw(2) True by (simp add: frame class_defs)
      from stock have "n_class rec1 ClassStockout \<le>
          int (Suc (jr_StockoutRounds rec)) * int (card (set (j_Zones (jr_Job rec))))"
        using sweep_room [OF _ sw(1) _ zone] by (simp add: frame)
      also have "\<dots> \<le> rt_Stockout (c_Retries cfg) * int (card (set (j_Zones (jr_Job rec))))"
        using old(7) by (intro mult_right_mono) simp_all
      finally have full: "n_class rec1 ClassStockout \<le>
        rt_Stockout (c_Retries cfg) * int (card (set (j_Zones (jr_Job rec))))" .
      from recordStockout_ok [OF rs stock]
      have "sweep_ok (cds (stockout_key (j_ID (jr_Job rec))) \<noteq> None) rec'"
        using sw(1) zone free by (simp add: frame)
      moreover from rs have "caps_ok (c_Retries cfg) rec'"
        and "i \<noteq> j_ID (jr_Job rec) \<longrightarrow> cds (stockout_key i) = rs_Cooldowns (sc_st s) (stockout_key i)"
        by (cases rule: recordStockout_cases;
            use counts old True full in \<open>simp add: caps_ok_def frame class_defs stockout_key_inj\<close>)+
      ultimately show ?thesis by (simp add: s')
    next
      case False
      have s': "rs_Cooldowns (sc_st s') (stockout_key i) = rs_Cooldowns (sc_st s) (stockout_key i)" for i
        using cl False bumpCooldown_stockout
        by (auto simp: classify_completion_def Let_def k_def split: if_splits)
      have rec': "rec' = rec1\<lparr>jr_Status := jr_Status rec'\<rparr>"
        using cl False by (auto simp: classify_completion_def Let_def k_def split: if_splits)
      have n0: "n_class rec1 ClassStockout = n_class rec ClassStockout"
        using counts(7) False by (simp add: class_defs)
      have "sweep_ok False rec'" by (subst rec') (simp add: sweep_ok_def frame sw n0)
      moreover have "caps_ok (c_Retries cfg) rec'"
        by (rule verdict_caps [OF cl False [unfolded k_def] frame(1,3) caps st n [unfolded k_def]])
      ultimately show ?thesis using s' free by simp
    qed
    then show "caps_ok (c_Retries cfg) rec'"
      and "sweep_ok (rs_Cooldowns (sc_st s') (stockout_key (j_ID (jr_Job rec))) \<noteq> None) rec'"
      and "i \<noteq> j_ID (jr_Job rec) \<Longrightarrow>
        rs_Cooldowns (sc_st s') (stockout_key i) = rs_Cooldowns (sc_st s) (stockout_key i)"
      by simp_all
  qed
qed


subsection \<open>The operations keep the invariant\<close>

text \<open>A delivery, with the record it stores.\<close>

lemma deliver_record:
  assumes rec: "rs_Jobs (sc_st s) (j_ID (fl_Job x)) = Some rec" "jr_Attempts rec \<noteq> []"
    and d: "deliver cfg e killed x t res s = Some s'"
  obtains (aborted) rec' where "killed" "rs_Cooldowns (sc_st s') = rs_Cooldowns (sc_st s)"
      "rs_Jobs (sc_st s') = (rs_Jobs (sc_st s))(j_ID (fl_Job x) \<mapsto> rec')"
      "rec' = rec\<lparr>jr_Attempts := set_last (\<lambda>a. a\<lparr>a_Result := ''aborted''\<rparr>)
         (set_last (close_attempt (flight_completion x t res)) (jr_Attempts rec)),
         jr_Status := StatusQueued\<rparr>"
  | (judged) rec1 rec' s1 s2 where "\<not> killed" "sc_st s1 = sc_st s"
      "rec1 = rec\<lparr>jr_Attempts :=
         set_last (close_attempt (flight_completion x t res)) (jr_Attempts rec)\<rparr>"
      "classify_completion cfg (e_now e) (flight_completion x t res) rec1 s1 = (rec', s2)"
      "rs_Cooldowns (sc_st s') = rs_Cooldowns (sc_st s2)"
      "rs_Jobs (sc_st s') = (rs_Jobs (sc_st s))(j_ID (fl_Job x) \<mapsto> rec')"
proof -
  define c where "c = flight_completion x t res"
  define s1 where "s1 = charge cfg (jr_Job rec) (zoneRegion (co_zone c)) (-1)
    (s\<lparr>sc_inflight := remove1 x (sc_inflight s)\<rparr>)"
  define rec1 where "rec1 = rec\<lparr>jr_Attempts := set_last (close_attempt c) (jr_Attempts rec)\<rparr>"
  have id: "co_jobID c = j_ID (fl_Job x)" by (simp add: c_def flight_completion_def)
  have st1: "sc_st s1 = sc_st s" by (simp add: s1_def)
  show ?thesis
  proof (cases killed)
    case True
    show ?thesis
      by (rule aborted [OF True])
         (use d rec True in \<open>auto simp: deliver_def handleCompletion_def Let_def id st1 rec1_def
            simp flip: c_def s1_def\<close>)
  next
    case False
    obtain rec' s2 where cl: "classify_completion cfg (e_now e) c rec1 s1 = (rec', s2)" by fastforce
    have s': "sc_st s' = set_job (j_ID (fl_Job x)) rec' (sc_st s2)"
      using d rec False cl
      by (auto simp: deliver_def handleCompletion_def Let_def id rec1_def simp flip: c_def s1_def)
    show ?thesis
      by (rule judged [OF False st1 rec1_def [unfolded c_def] cl [unfolded c_def]])
         (use s' classify_frame(6) [OF cl] st1 in simp_all)
  qed
qed

lemma retry_inv_step:
  assumes "retries_ok cfg st" and "caps_ok (c_Retries cfg) rec'" and "sweep_ok (sweep_held st' i) rec'"
    and "rs_Jobs st' = (rs_Jobs st)(i \<mapsto> rec')"
    and "\<And>k. k \<noteq> i \<Longrightarrow> sweep_held st' k = sweep_held st k"
  shows "retries_ok cfg st'"
  using assms by (auto simp: retries_ok_def)

lemma retry_inv_deliver:
  assumes inv: "sched_inv cfg s" and ri: "retry_inv cfg s" and x: "x \<in> set (sc_inflight s)"
    and d: "deliver cfg e killed x t res s = Some s'"
  shows "retry_inv cfg s'"
proof -
  note inv' = sched_invD [OF inv]
  define i where "i = j_ID (fl_Job x)"
  from flights_okD [OF inv'(3) x] obtain rec where
    rec: "rs_Jobs (sc_st s) i = Some rec" "jr_Job rec = fl_Job x" "jr_Status rec = StatusRunning"
      "jr_Attempts rec \<noteq> []" "a_Result (last (jr_Attempts rec)) = ''running''"
    by (metis attempt.select_convs(5) i_def new_attempt_def)
  have old: "caps_ok (c_Retries cfg) rec" "sweep_ok (sweep_held (sc_st s) i) rec"
    using ri rec(1) by (simp_all add: retry_inv_def retries_ok_def)
  have fr: "\<not> sweep_held (sc_st s) i" "fl_Zone x \<in> set (j_Zones (fl_Job x))"
    "fl_Zone x \<notin> jr_StockoutZones rec"
    using ri x rec(1) by (auto simp: retry_inv_def flight_fresh_def i_def)
  have fl: "sc_inflight s' = remove1 x (sc_inflight s)"
    using deliver_inv [OF inv x, of e killed t res] d by auto
  have dist: "distinct (map (\<lambda>x. j_ID (fl_Job x)) (sc_inflight s))"
    using inv'(3) by (simp add: flights_ok_def)
  have other: "j_ID (fl_Job y) \<noteq> i" "y \<in> set (sc_inflight s)" if "y \<in> set (sc_inflight s')" for y
    using that x dist unfolding fl i_def
    by (metis distinct_map distinct_remove1 inj_onD notin_set_remove1 set_remove1_eq Diff_iff insertI1,
        metis notin_set_remove1)
  have key: "\<And>k. k \<noteq> i \<Longrightarrow> sweep_held (sc_st s') k = sweep_held (sc_st s) k"
    and jobs: "\<exists>rec'. rs_Jobs (sc_st s') = (rs_Jobs (sc_st s))(i \<mapsto> rec')
      \<and> caps_ok (c_Retries cfg) rec' \<and> sweep_ok (sweep_held (sc_st s') i) rec'"
  proof -
    have "(k \<noteq> i \<longrightarrow> sweep_held (sc_st s') k = sweep_held (sc_st s) k)
      \<and> (\<exists>rec'. rs_Jobs (sc_st s') = (rs_Jobs (sc_st s))(i \<mapsto> rec')
           \<and> caps_ok (c_Retries cfg) rec' \<and> sweep_ok (sweep_held (sc_st s') i) rec')" for k
      using rec(1) [unfolded i_def] rec(4) d
    proof (cases rule: deliver_record)
      case (aborted rec')
      obtain as a where as: "jr_Attempts rec = as @ [a]" using rec(4) by (metis append_butlast_last_id)
      then have "n_class rec' cl = n_class rec cl" if "cl \<noteq> ''running''" "cl \<noteq> ''aborted''" for cl
        using aborted(4) rec(5) that by (simp add: n_class_def countClass_snoc)
      then have "caps_ok (c_Retries cfg) rec'" "sweep_ok False rec'"
        using old aborted(4) rec(3) fr(1)
        by (simp_all add: caps_ok_def sweep_ok_def active_def class_defs)
      then show ?thesis using aborted(2,3) fr(1) by (auto simp: sweep_held_def i_def)
    next
      case (judged rec1 rec' s1 s2)
      have z: "co_zone (flight_completion x t res) = fl_Zone x" by (simp add: flight_completion_def)
      note ok = classify_ok [OF judged(4,3) rec(4,5,3) old(1)]
      have "sweep_ok False rec" using old(2) fr(1) by simp
      note ok = ok [OF this, unfolded z, simplified rec(2) judged(2), OF _ fr(2,3), folded i_def]
      have "rs_Cooldowns (sc_st s) (stockout_key i) = None" using fr(1) by (simp add: sweep_held_def)
      note ok = ok [OF this]
      show ?thesis using ok judged(5,6) by (auto simp: sweep_held_def i_def)
    qed
    then show "\<And>k. k \<noteq> i \<Longrightarrow> sweep_held (sc_st s') k = sweep_held (sc_st s) k"
      and "\<exists>rec'. rs_Jobs (sc_st s') = (rs_Jobs (sc_st s))(i \<mapsto> rec')
        \<and> caps_ok (c_Retries cfg) rec' \<and> sweep_ok (sweep_held (sc_st s') i) rec'" by blast+
  qed
  from jobs obtain rec' where rec': "rs_Jobs (sc_st s') = (rs_Jobs (sc_st s))(i \<mapsto> rec')"
    "caps_ok (c_Retries cfg) rec'" "sweep_ok (sweep_held (sc_st s') i) rec'" by blast
  have "retries_ok cfg (sc_st s')"
    using retry_inv_step [OF _ rec'(2,3,1) key] ri by (simp add: retry_inv_def)
  moreover have "flight_fresh (sc_st s') y" if "y \<in> set (sc_inflight s')" for y
    using other [OF that] key ri rec'(1) by (simp add: retry_inv_def flight_fresh_def)
  ultimately show ?thesis by (simp add: retry_inv_def)
qed

lemma retry_inv_launch:
  assumes ri: "retry_inv cfg s" and rec: "rs_Jobs (sc_st s) (j_ID j) = Some rec" "jr_Job rec = j"
    and q: "jr_Status rec = StatusQueued" and ml: "may_launch cfg now s j zone"
    and l: "launch cfg e j zone s = Some s'"
  shows "retry_inv cfg s'"
proof -
  define rec' where "rec' = rec\<lparr>jr_Status := StatusRunning,
    jr_Attempts := jr_Attempts rec @ [new_attempt zone (e_now e)]\<rparr>"
  define x where "x = \<lparr>fl_Job = j, fl_Zone = zone, fl_Start = e_now e\<rparr>"
  have st: "sc_st s' = set_job (j_ID j) rec' (sc_st s)" and fl: "sc_inflight s' = sc_inflight s @ [x]"
    by (rule launch_result [OF rec(1), of cfg e zone]; use l in \<open>simp add: x_def rec'_def\<close>)+
  have held: "sweep_held (sc_st s') i = sweep_held (sc_st s) i" for i by (simp add: sweep_held_def st)
  have old: "caps_ok (c_Retries cfg) rec" "sweep_ok (sweep_held (sc_st s) (j_ID j)) rec"
    using ri rec(1) by (simp_all add: retry_inv_def retries_ok_def)
  have n: "n_class rec' cl = n_class rec cl" if "cl \<noteq> ''running''" for cl
    using that by (simp add: n_class_def rec'_def countClass_snoc new_attempt_def)
  have "jr_Job rec' = jr_Job rec" "jr_StockoutRounds rec' = jr_StockoutRounds rec" "active rec'"
    "active rec" using q by (simp_all add: rec'_def active_def)
  then have "caps_ok (c_Retries cfg) rec'"
    using old(1) n by (simp add: caps_ok_def class_defs)
  moreover have "sweep_ok (sweep_held (sc_st s) (j_ID j)) rec'"
    using old(2) n [of ClassStockout] \<open>jr_Job rec' = _\<close> \<open>jr_StockoutRounds rec' = _\<close>
    by (simp add: sweep_ok_def class_defs rec'_def split: if_splits)
  ultimately have "retries_ok cfg (sc_st s')"
    using retry_inv_step [of cfg "sc_st s" rec' "sc_st s'" "j_ID j"] ri held
    by (simp add: retry_inv_def st)
  moreover have "flight_fresh (sc_st s') x"
    using ml rec
    by (simp add: flight_fresh_def x_def sweep_held_def may_launch_def stockout_zones_def st rec'_def)
  moreover have "flight_fresh (sc_st s') y" if "y \<in> set (sc_inflight s)" for y
    using ri that rec(1) by (auto simp: retry_inv_def flight_fresh_def sweep_held_def st rec'_def)
  ultimately show ?thesis by (auto simp: retry_inv_def fl)
qed

lemma retry_inv_pick:
  assumes inv: "sched_inv cfg s" and ri: "retry_inv cfg s"
    and rec: "rs_Jobs (sc_st s) (j_ID j) = Some rec" and q: "jr_Status rec = StatusQueued"
  shows "retry_inv cfg (pick_base t j s)"
proof (cases "pick_base t j s = s")
  case False
  then have pb: "pick_base t j s = clear_sweep j s"
    and held: "sweep_held (sc_st s) (j_ID j)"
    by (auto simp: pick_base_def sweep_held_def split: option.splits if_splits)
  define rec' where "rec' = rec\<lparr>jr_StockoutZones := {}\<rparr>"
  have cds: "rs_Cooldowns (sc_st (clear_sweep j s)) = (rs_Cooldowns (sc_st s))(stockout_key (j_ID j) := None)"
    by simp
  have jobs: "rs_Jobs (sc_st (clear_sweep j s)) = (rs_Jobs (sc_st s))(j_ID j \<mapsto> rec')"
    by (simp add: clear_sweep_Jobs rec rec'_def)
  have old: "caps_ok (c_Retries cfg) rec" "sweep_ok True rec"
    using ri rec held by (auto simp: retry_inv_def retries_ok_def) (metis (full_types))
  have "retries_ok cfg (sc_st (clear_sweep j s))"
  proof (rule retry_inv_step [OF _ _ _ jobs])
    show "retries_ok cfg (sc_st s)" using ri by (simp add: retry_inv_def)
    show "caps_ok (c_Retries cfg) rec'" using old(1) by (simp add: caps_ok_def rec'_def)
    show "sweep_ok (sweep_held (sc_st (clear_sweep j s)) (j_ID j)) rec'"
      using old(2) by (simp add: sweep_ok_def rec'_def)
    show "sweep_held (sc_st (clear_sweep j s)) k = sweep_held (sc_st s) k" if "k \<noteq> j_ID j" for k
      using that by (simp add: sweep_held_def cds stockout_key_inj)
  qed
  moreover have "flight_fresh (sc_st (clear_sweep j s)) x" if "x \<in> set (sc_inflight s)" for x
  proof -
    have "j_ID (fl_Job x) \<noteq> j_ID j"
      using flights_okD [OF sched_invD(3) [OF inv] that] rec q by fastforce
    then show ?thesis
      using ri that by (simp add: retry_inv_def flight_fresh_def sweep_held_def cds jobs stockout_key_inj)
  qed
  ultimately show ?thesis by (simp add: retry_inv_def pb)
qed (use ri in simp)

lemma retry_inv_zoneRR [simp]: "retry_inv cfg (s\<lparr>sc_zoneRR := rr\<rparr>) = retry_inv cfg s"
  by (simp add: retry_inv_def)

subsection \<open>Starting a run\<close>

lemma migrate_key_stockout:
  "migrate_key now st ids key cds (stockout_key i) = cds (stockout_key i)"
proof -
  have raise: "raise_cooldown (quota_key b r) u c (stockout_key i) = c (stockout_key i)" for b r u c
    using quota_not_stockout [of b r i] by (auto simp: raise_cooldown_def)
  have rec: "migrate_record now key u rec c (stockout_key i) = c (stockout_key i)" for u rec c
  proof -
    have "fold (\<lambda>a cds. if legacy_hit now key rec a
        then raise_cooldown (quota_key (j_BudgetKey (jr_Job rec)) (zoneRegion (a_Zone a))) u cds
        else cds) as c (stockout_key i) = c (stockout_key i)" for as
      by (induction as arbitrary: c) (simp_all add: raise)
    then show ?thesis by (simp add: migrate_record_def)
  qed
  have jobs: "fold (\<lambda>i cds. case rs_Jobs st i of None \<Rightarrow> cds
      | Some rec \<Rightarrow> migrate_record now key u rec cds) js c (stockout_key i) = c (stockout_key i)"
    for u js c
  proof (induction js arbitrary: c)
    case (Cons x xs)
    then show ?case by (cases "rs_Jobs st x") (simp_all add: rec)
  qed simp
  have "key \<noteq> stockout_key i" if "\<not> scheduler_key key"
    using that by (auto simp: scheduler_key_def stockout_key_def HasPrefix_def)
  then show ?thesis by (auto simp: migrate_key_def Let_def jobs)
qed

lemma NewScheduler_stockout:
  "rs_Cooldowns (sc_st (NewScheduler now keys ids st files)) (stockout_key i) =
     rs_Cooldowns st (stockout_key i)"
proof -
  have "fold (migrate_key now st ids) keys cds (stockout_key i) = cds (stockout_key i)" for cds
    by (induction keys arbitrary: cds) (simp_all add: migrate_key_stockout)
  then show ?thesis by (simp add: NewScheduler_def)
qed

lemma retry_inv_start:
  "retries_ok cfg st \<Longrightarrow> retry_inv cfg (NewScheduler now keys ids st files)"
  using NewScheduler_stockout [of now keys ids st files]
  by (auto simp: retry_inv_def retries_ok_def sweep_held_def) (simp_all add: NewScheduler_def)

lemma reachable_retry_inv:
  assumes "run_reachable cfg (start_world now keys ids st files) w" and "startable st"
    and "retries_ok cfg st"
  shows "retry_inv cfg (w_sched w)"
  using assms(1,2)
proof (rule reachable_rule)
  show "retry_inv cfg (NewScheduler now keys ids st files)" by (rule retry_inv_start [OF assms(3)])
next
  show "retry_inv cfg ((pick_base t j s)\<lparr>sc_zoneRR := rr\<rparr>)"
    if "sched_inv cfg s" "retry_inv cfg s" "rs_Jobs (sc_st s) (j_ID j) = Some rec"
      "jr_Status rec = StatusQueued" for t s j rec rr
    using retry_inv_pick [OF that] by simp
qed (rule retry_inv_launch retry_inv_deliver; assumption)+

text \<open>A run that begins: no attempts yet, no cooldowns.\<close>

lemma retries_ok_new:
  assumes "valid_retries (c_Retries cfg)" and "\<forall>rec \<in> ran (rs_Jobs st). jr_Attempts rec = []
      \<and> jr_StockoutZones rec = {} \<and> jr_StockoutRounds rec = 0"
  shows "retries_ok cfg st"
  unfolding retries_ok_def
proof (intro allI impI)
  fix i rec assume "rs_Jobs st i = Some rec"
  then have "jr_Attempts rec = []" "jr_StockoutZones rec = {}" "jr_StockoutRounds rec = 0"
    using assms(2) by (auto intro: ranI)
  then show "caps_ok (c_Retries cfg) rec \<and> sweep_ok (sweep_held st i) rec"
    using assms(1) by (simp add: caps_ok_def sweep_ok_def n_class_def countClass_def valid_retries_def)
qed

lemma NewRunState_fresh:
  assumes "distinct (map j_ID jobs)" and "valid_retries (c_Retries cfg)"
  shows "retries_ok cfg (NewRunState r n jobs)"
proof (rule retries_ok_new [OF assms(2)], intro ballI)
  fix rec assume "rec \<in> ran (rs_Jobs (NewRunState r n jobs))"
  then obtain i where "rs_Jobs (NewRunState r n jobs) i = Some rec" by (auto simp: ran_def)
  from NewRunState_record [OF assms(1) this]
  show "jr_Attempts rec = [] \<and> jr_StockoutZones rec = {} \<and> jr_StockoutRounds rec = 0"
    by (auto simp: new_record_def)
qed

text \<open>The attempts that ended in a verdict, all classes together.\<close>

definition verdicts :: "job_record \<Rightarrow> nat" where
  "verdicts rec = length (filter (\<lambda>a. a_Result a \<in> {ClassPass, ClassFail, ClassStockout, ClassQuota,
     ClassTimeout, ClassError, ClassInfra}) (jr_Attempts rec))"

definition attempt_bound :: "retries \<Rightarrow> job \<Rightarrow> int" where
  "attempt_bound rt j = 1 + (rt_Failure rt + 1) + rt_Quota rt + rt_Timeout rt + rt_Infra rt
     + rt_Error rt + rt_Stockout rt * int (card (set (j_Zones j)))"

lemma verdicts_split:
  "int (verdicts rec) = n_class rec ClassPass + n_class rec ClassFail + n_class rec ClassStockout
     + n_class rec ClassQuota + n_class rec ClassTimeout + n_class rec ClassError
     + n_class rec ClassInfra"
proof -
  have "int (length (filter (\<lambda>a. a_Result a \<in> {ClassPass, ClassFail, ClassStockout, ClassQuota,
     ClassTimeout, ClassError, ClassInfra}) as)) = countClass as ClassPass + countClass as ClassFail
     + countClass as ClassStockout + countClass as ClassQuota + countClass as ClassTimeout
     + countClass as ClassError + countClass as ClassInfra" for as
    by (induction as) (auto simp: countClass_def class_defs)
  then show ?thesis by (simp add: verdicts_def n_class_def)
qed

lemma verdicts_bound:
  assumes "caps_ok (c_Retries cfg) rec"
  shows "int (verdicts rec) \<le> attempt_bound (c_Retries cfg) (jr_Job rec)"
  using assms
  by (auto simp: verdicts_split attempt_bound_def caps_ok_def Let_def split: if_splits)

end
