(* ===== verification/Citrun_Guarantees.thy ===== *)
theory Citrun_Guarantees
  imports Citrun_Progress Citrun_Retries
begin

text \<open>
  What the scheduler guarantees in every state its loop can reach, collected from the theories on
  its invariants, and a small run on which the guarantees are exercised.
\<close>

subsection \<open>An example\<close>

definition example_run :: run_state where
  "example_run = NewRunState ''run-1'' 0 [example_job]"

definition example_env :: env where
  "example_env = \<lparr>e_now = 0, e_io = (\<lambda>_. (IoOk, True))\<rparr>"

definition example_start :: world where
  "example_start = start_world 0 [] [] example_run (example_files example_run)"

lemma example_job_sel:
  "j_ID example_job = ''debian-12_n2-4_disk''" "j_CPUCost example_job = 4"
  "j_Networks example_job = 1" "j_Subnets example_job = 1" "j_MaxParallel example_job = 1"
  "j_Zones example_job = [''us-east1-b'', ''us-east1-c'', ''us-west1-a'']"
  "j_BudgetKey example_job = ''N2_CPUS''" "j_Quarantined example_job = []"
  by code_simp+

lemma example_job_ok: "job_ok example_job"
  by (simp add: job_ok_def example_job_sel)

lemma example_startable: "startable example_run"
  unfolding example_run_def by (rule NewRunState_startable) (simp_all add: example_job_ok)

lemma example_record: "rs_Jobs example_run (j_ID example_job) = Some (new_record example_job)"
  unfolding example_run_def by (rule NewRunState_Jobs) simp_all

lemma example_ready: "ready_job example_config 0 (w_sched example_start) (new_record example_job)"
proof -
  have st: "rs_Cooldowns (sc_st (w_sched example_start)) = Map.empty"
    "sc_quotaPenalty (w_sched example_start) = Map.empty"
    by (simp_all add: example_start_def start_world_def NewScheduler_def example_run_def)
  have n: "named_zones example_job"
    by (auto simp: named_zones_def example_job_sel zoneRegion_def Let_def)
  have k: "budgetKeys example_config example_job (zoneRegion ''us-east1-b'') = [''CPUS'', ''N2_CPUS'']"
    by code_simp
  have u: "usable_budget example_config (zoneRegion ''us-east1-b'') ''CPUS'' = 8"
    "usable_budget example_config (zoneRegion ''us-east1-b'') ''N2_CPUS'' = 4"
    by code_simp+
  have "ready_zone example_config 0 (w_sched example_start) (new_record example_job) ''us-east1-b''"
    using k u by (simp add: ready_zone_def st example_job_sel new_record_def allowed_def get_time_def Let_def)
  then show ?thesis
    using n by (auto simp: ready_job_def Let_def new_record_def example_job_sel st get_time_def
        example_config_def)
qed

definition example_world :: world where
  "example_world = example_start\<lparr>w_sched := the (admit example_config example_env
     (blocked example_start) (w_sched example_start))\<rparr>"

lemma example_admits:
  "admit example_config example_env False (w_sched example_start) = Some (w_sched example_world)"
  "sc_inflight (w_sched example_world) \<noteq> []"
proof -
  have b: "\<not> blocked example_start" by (simp add: blocked_def example_start_def start_world_def)
  have inv: "sched_inv example_config (w_sched example_start)"
    using startable_inv [OF example_startable] by (simp add: example_start_def start_world_def)
  then obtain s where s: "admit example_config example_env False (w_sched example_start) = Some s"
    using admit_total by blast
  then show 1: "admit example_config example_env False (w_sched example_start) = Some (w_sched example_world)"
    using b by (simp add: example_world_def)
  have start: "sc_inflight (w_sched example_start) = []"
      "rs_Order (sc_st (w_sched example_start)) = [j_ID example_job]"
      "rs_Jobs (sc_st (w_sched example_start)) (j_ID example_job) = Some (new_record example_job)"
    using example_record
    by (simp_all add: example_start_def start_world_def NewScheduler_def example_run_def)
  show "sc_inflight (w_sched example_world) \<noteq> []"
    using admit_loop_launches [OF inv start(1), of "j_ID example_job" "[j_ID example_job]"
        "new_record example_job" example_env "w_sched example_world"] 1 start example_ready
    by (simp add: admit_def example_env_def example_config_def)
qed

lemma example_reachable: "run_reachable example_config example_start example_world"
proof (rule Step [OF Start])
  have b: "\<not> blocked example_start" by (simp add: blocked_def example_start_def start_world_def)
  have "run_step example_config example_start (example_start\<lparr>w_sched := w_sched example_world\<rparr>)"
    by (rule Admit [where io = "\<lambda>_. (IoOk, True)"])
       (use example_admits(1) b in \<open>simp add: example_env_def example_start_def start_world_def\<close>)
  then show "run_step example_config example_start example_world" by (simp add: example_world_def)
qed

subsection \<open>Properties\<close>

text \<open>C1: In every state the scheduling loop can reach, whatever the order of admissions,
  completions, clock ticks, pauses and cancellations, the attempts in flight stay within the
  container cap, the network and subnetwork budgets and, per region and budget key, the usable
  budget.\<close>

theorem resources_within_limits:
  assumes "run_reachable cfg (start_world now keys ids st files) w" and "startable st"
  shows "int (length (sc_inflight (w_sched w))) \<le> max 0 (c_ContainerCap cfg)
    \<and> (\<Sum>x \<leftarrow> sc_inflight (w_sched w). j_Networks (fl_Job x)) \<le> max 0 (b_Networks (c_Budgets cfg))
    \<and> (\<Sum>x \<leftarrow> sc_inflight (w_sched w). j_Subnets (fl_Job x)) \<le> max 0 (b_Subnetworks (c_Budgets cfg))
    \<and> (\<forall>r k. (\<Sum>x \<leftarrow> sc_inflight (w_sched w).
         if r = zoneRegion (fl_Zone x) \<and> k \<in> set (budgetKeys cfg (fl_Job x) r)
         then j_CPUCost (fl_Job x) else 0) \<le> max 0 (usable_budget cfg r k))"
proof -
  define s where "s = w_sched w"
  have acc: "in_use s k = lg.used cfg (sc_inflight s) k" for k
    using sched_invD(4) [OF reachable_inv [OF assms]] by (simp add: accounted_def s_def)
  have lim: "within_limits cfg s" using reachable_within_limits [OF assms] by (simp add: s_def)
  show ?thesis
    using lim acc [of Containers] acc [of Networks] acc [of Subnets] acc [of "Cpus _ _"]
    by (simp add: within_limits_def lg.used_def sum_list_triv flip: s_def)
qed

theorem resources_within_limits_witness:
  "sc_inflight (w_sched example_world) \<noteq> []
   \<and> int (length (sc_inflight (w_sched example_world))) \<le> max 0 (c_ContainerCap example_config)"
  using resources_within_limits [OF example_reachable [unfolded example_start_def] example_startable]
    example_admits(2) by blast

text \<open>C9: The scheduler's counters are exact in every reachable state: each is the sum of the
  demands of the attempts in flight, the attempts in flight are those of the running jobs, one
  each, and when nothing is in flight every counter is zero.\<close>

theorem counters_exact:
  assumes "run_reachable cfg (start_world now keys ids st files) w" and "startable st"
  shows "(\<forall>k. in_use (w_sched w) k = (\<Sum>x \<leftarrow> sc_inflight (w_sched w). lease_cost cfg x k))
    \<and> distinct (map (\<lambda>x. j_ID (fl_Job x)) (sc_inflight (w_sched w)))
    \<and> (\<forall>i rec. rs_Jobs (sc_st (w_sched w)) i = Some rec \<longrightarrow>
         (jr_Status rec = StatusRunning \<longleftrightarrow> i \<in> (\<lambda>x. j_ID (fl_Job x)) ` set (sc_inflight (w_sched w))))"
proof -
  note inv = sched_invD [OF reachable_inv [OF assms]]
  have "jr_Status rec = StatusRunning"
    if "rs_Jobs (sc_st (w_sched w)) (j_ID (fl_Job x)) = Some rec" "x \<in> set (sc_inflight (w_sched w))"
    for x rec
    using flights_okD [OF inv(3) that(2)] that(1) by (metis option.inject)
  then show ?thesis using inv(3,4) by (auto simp: accounted_def lg.used_def flights_ok_def)
qed

theorem counters_exact_witness:
  "sc_running (w_sched example_world) = int (length (sc_inflight (w_sched example_world)))
   \<and> sc_inflight (w_sched example_world) \<noteq> []"
proof -
  have "in_use (w_sched example_world) Containers =
      (\<Sum>x \<leftarrow> sc_inflight (w_sched example_world). lease_cost example_config x Containers)"
    using counters_exact [OF example_reachable [unfolded example_start_def] example_startable] by blast
  then show ?thesis using example_admits(2) by (simp add: sum_list_triv)
qed

text \<open>C19: No step of the loop panics: in every reachable state an admission pass, the delivery of
  any completion of an attempt in flight, and the test for the end of the loop all return.\<close>

theorem loop_never_panics:
  assumes "run_reachable cfg (start_world now keys ids st files) w" and "startable st"
  shows "(\<forall>e. admit cfg e (blocked w) (w_sched w) \<noteq> None)
    \<and> (\<forall>x \<in> set (sc_inflight (w_sched w)). \<forall>e t res.
         handleCompletion cfg e (w_killed w) (flight_completion x t res)
           ((w_sched w)\<lparr>sc_inflight := remove1 x (sc_inflight (w_sched w))\<rparr>) \<noteq> None)
    \<and> loop_done w \<noteq> None"
proof -
  note inv = reachable_inv [OF assms]
  have "fold_opt (\<lambda>i n. case rs_Jobs (sc_st (w_sched w)) i of None \<Rightarrow> None
      | Some rec \<Rightarrow> Some (if jr_Status rec = StatusQueued then Suc n else n)) is n \<noteq> None"
    if "set is \<subseteq> set (rs_Order (sc_st (w_sched w)))" for "is" n
    using that
  proof (induction "is" arbitrary: n)
    case (Cons i "is")
    from Cons.prems have "i \<in> set (rs_Order (sc_st (w_sched w)))" by simp
    then obtain rec where "rs_Jobs (sc_st (w_sched w)) i = Some rec"
      using wf_run_lookup [OF sched_invD(1) [OF inv]] by blast
    then show ?case using Cons by simp
  qed simp
  then have "queuedRemaining (sc_st (w_sched w)) \<noteq> None" by (simp add: queuedRemaining_def)
  then have "loop_done w \<noteq> None" by (auto simp: loop_done_def)
  moreover have "deliver cfg e (w_killed w) x t res (w_sched w) \<noteq> None"
    if "x \<in> set (sc_inflight (w_sched w))" for x e t res
    using deliver_inv [OF inv that, of e "w_killed w" t res] by auto
  moreover have "admit cfg e (blocked w) (w_sched w) \<noteq> None" for e
    using admit_total [OF inv, of e "blocked w"] by auto
  ultimately show ?thesis by (simp add: deliver_def)
qed

theorem loop_never_panics_witness:
  "loop_done example_world \<noteq> None \<and> sc_inflight (w_sched example_world) \<noteq> []"
  using loop_never_panics [OF example_reachable [unfolded example_start_def] example_startable]
    example_admits(2) by blast

text \<open>When the jobs of each shape agree on its parallelism, as they do in a run without
  shape-validation jobs, no more attempts of a shape with a limit are in flight than the limit.\<close>

theorem shape_parallelism:
  assumes "run_reachable cfg (start_world now keys ids st files) w" and "startable st"
    and "uniform_shapes st" and "x \<in> set (sc_inflight (w_sched w))" and "0 < j_MaxParallel (fl_Job x)"
  shows "int (length (filter (\<lambda>y. j_Shape (fl_Job y) = j_Shape (fl_Job x)) (sc_inflight (w_sched w))))
    \<le> j_MaxParallel (fl_Job x)"
proof -
  define s where "s = w_sched w"
  note inv = sched_invD [OF reachable_inv [OF assms(1,2)], folded s_def]
  obtain rec where "rs_Jobs (sc_st s) (j_ID (fl_Job x)) = Some rec" "jr_Job rec = fl_Job x"
    using flights_okD [OF inv(3)] assms(4) unfolding s_def by metis
  then have "job_at (sc_st s) (j_ID (fl_Job x)) = Some (fl_Job x)" by (simp add: job_at_def)
  then have "sc_runningPerShape s (j_Shape (fl_Job x)) \<le> j_MaxParallel (fl_Job x)"
    using reachable_slots [OF assms(1-3)] assms(5) unfolding within_slots_def s_def by blast
  moreover have "lg.used cfg L (Slots sh) = int (length (filter (\<lambda>y. j_Shape (fl_Job y) = sh) L))" for L sh
    by (induction L) (auto simp: lg.used_def)
  then have "sc_runningPerShape s (j_Shape (fl_Job x)) =
      int (length (filter (\<lambda>y. j_Shape (fl_Job y) = j_Shape (fl_Job x)) (sc_inflight s)))"
    using inv(4) by (simp add: accounted_def) (metis in_use.simps(5))
  ultimately show ?thesis by (simp add: s_def)
qed

lemma example_uniform: "uniform_shapes example_run"
proof -
  have "job_at example_run i = Some a \<Longrightarrow> a = example_job" for i a
    using NewRunState_record [of "[example_job]" "''run-1''" 0 i]
    by (auto simp: job_at_def example_run_def new_record_def)
  then show ?thesis unfolding uniform_shapes_def by metis
qed

lemma example_flight: "\<exists>x \<in> set (sc_inflight (w_sched example_world)). fl_Job x = example_job"
proof -
  obtain x where x: "x \<in> set (sc_inflight (w_sched example_world))"
    using example_admits(2) by (meson last_in_set)
  note inv = sched_invD [OF reachable_inv [OF example_reachable [unfolded example_start_def] example_startable]]
  obtain rec where "rs_Jobs (sc_st (w_sched example_world)) (j_ID (fl_Job x)) = Some rec"
      "jr_Job rec = fl_Job x"
    using flights_okD [OF inv(3) x] by metis
  then have "job_at (sc_st (w_sched example_world)) (j_ID (fl_Job x)) = Some (fl_Job x)"
    by (simp add: job_at_def)
  then have "job_at example_run (j_ID (fl_Job x)) = Some (fl_Job x)"
    using reachable_slots [OF example_reachable [unfolded example_start_def] example_startable
        example_uniform] by simp
  then have "fl_Job x = example_job"
    using NewRunState_record [of "[example_job]" "''run-1''" 0 "j_ID (fl_Job x)"]
    by (auto simp: job_at_def example_run_def new_record_def)
  then show ?thesis using x by blast
qed

theorem shape_parallelism_witness:
  "\<exists>x \<in> set (sc_inflight (w_sched example_world)).
     int (length (filter (\<lambda>y. j_Shape (fl_Job y) = j_Shape (fl_Job x)) (sc_inflight (w_sched example_world)))) \<le> 1"
proof -
  obtain x where x: "x \<in> set (sc_inflight (w_sched example_world))" "fl_Job x = example_job"
    using example_flight by blast
  then have "int (length (filter (\<lambda>y. j_Shape (fl_Job y) = j_Shape (fl_Job x))
      (sc_inflight (w_sched example_world)))) \<le> 1"
    using shape_parallelism [OF example_reachable [unfolded example_start_def] example_startable
        example_uniform x(1)] by (simp add: example_job_sel)
  then show ?thesis using x(1) by blast
qed


lemma example_retries: "retries_ok example_config example_run"
  unfolding example_run_def by (rule NewRunState_fresh) (simp, simp add: valid_retries_def example_config_def second_def)


text \<open>C20: An idle scheduler does not stall: if nothing is in flight, admission is open and the
  container cap is positive, then a queued job whose cooldowns have passed and for which some zone
  fits the current allowances makes the next pass launch an attempt.\<close>

theorem idle_scheduler_launches:
  assumes "run_reachable cfg (start_world now keys ids st files) w" and "startable st"
    and "sc_inflight (w_sched w) = []" and "\<not> blocked w" and "0 < c_ContainerCap cfg"
    and "rs_Jobs (sc_st (w_sched w)) i = Some rec" and "ready_job cfg (e_now e) (w_sched w) rec"
  shows "\<exists>s'. admit cfg e (blocked w) (w_sched w) = Some s' \<and> sc_inflight s' \<noteq> []"
proof -
  note inv = reachable_inv [OF assms(1,2)]
  obtain s' where s': "admit cfg e False (w_sched w) = Some s'" using admit_total [OF inv] by blast
  have i: "i \<in> set (rs_Order (sc_st (w_sched w)))"
    using sched_invD(1) [OF inv] assms(6) by (auto simp: wf_run_def)
  have "admit_loop cfg e (rs_Order (sc_st (w_sched w))) (w_sched w) = Some s'"
    using s' by (simp add: admit_def)
  from admit_loop_launches [OF inv assms(3) i subset_refl assms(6,7,5) this] s' assms(4)
  show ?thesis by simp
qed

theorem idle_scheduler_launches_witness:
  "\<exists>s'. admit example_config example_env (blocked example_start) (w_sched example_start) = Some s'
     \<and> sc_inflight s' \<noteq> []"
proof (rule idle_scheduler_launches [of _ _ _ _ _ _ _ "j_ID example_job"])
  show "run_reachable example_config (start_world 0 [] [] example_run (example_files example_run)) example_start"
    unfolding example_start_def by (rule Start)
  show "rs_Jobs (sc_st (w_sched example_start)) (j_ID example_job) = Some (new_record example_job)"
    using example_record by (simp add: example_start_def start_world_def NewScheduler_def)
  show "ready_job example_config (e_now example_env) (w_sched example_start) (new_record example_job)"
    using example_ready by (simp add: example_env_def)
qed (simp_all add: example_startable, simp_all add: example_start_def start_world_def NewScheduler_def
    blocked_def example_config_def)



text \<open>A quota cooldown backs off exponentially and is capped: while it runs it is not touched;
  otherwise the new one lasts the base times $2^{\min(h, 5)}$, where h counts the earlier ones.\<close>

theorem quota_backoff_capped:
  assumes "0 < rt_CooldownBase (c_Retries cfg)" and "32 * rt_CooldownBase (c_Retries cfg) < 2 ^ 63"
    and "0 \<le> sc_cooldownHits s key"
  shows "get_time (rs_Cooldowns (sc_st (bumpCooldown cfg now key s))) key =
    (if now < get_time (rs_Cooldowns (sc_st s)) key then get_time (rs_Cooldowns (sc_st s)) key
     else now + rt_CooldownBase (c_Retries cfg) * 2 ^ nat (min (sc_cooldownHits s key) 5))"
proof -
  define b where "b = rt_CooldownBase (c_Retries cfg)"
  define h where "h = nat (min (sc_cooldownHits s key) 5)"
  have h: "h \<le> 5" by (simp add: h_def)
  then have p: "(2::int) ^ h \<le> 2 ^ 5" by (intro power_increasing) auto
  have "b * 2 ^ h \<le> b * 2 ^ 5" using p assms(1) by (intro mult_left_mono) (simp_all add: b_def)
  moreover have "0 \<le> b * 2 ^ h" using assms(1) by (simp add: b_def)
  moreover have "b * 2 ^ 5 < 2 ^ 63" using assms(2) by (simp add: b_def)
  ultimately have "wrap64 (b * 2 ^ h) = b * 2 ^ h" by (intro wrap64_id) linarith+
  moreover have "wrap64 (2 ^ h) = 2 ^ h"
  proof (rule wrap64_id)
    have "0 \<le> (2::int) ^ h" by simp
    then show "- (2 ^ 63) \<le> (2::int) ^ h" by (rule order_trans [rotated]) simp
    show "(2::int) ^ h < 2 ^ 63" using p by simp
  qed
  then have "shl1 h = 2 ^ h" using h by (simp add: shl1_def)
  moreover have "nat ((if 6 < sc_cooldownHits s key + 1 then 6 else sc_cooldownHits s key + 1) - 1) = h"
    using assms(3) by (auto simp: h_def)
  ultimately show ?thesis by (simp add: bumpCooldown_def get_time_def Let_def flip: b_def h_def)
qed

theorem quota_backoff_capped_witness:
  "get_time (rs_Cooldowns (sc_st (bumpCooldown example_config 1000 ''quota|N2_CPUS|us-east1''
     (w_sched example_start)))) ''quota|N2_CPUS|us-east1'' = 1000 + 120 * second"
  using quota_backoff_capped [of example_config "w_sched example_start" "''quota|N2_CPUS|us-east1''" 1000]
  by (simp add: example_config_def example_start_def start_world_def NewScheduler_def second_def
      example_run_def get_time_def)

text \<open>The stockout backoff is not capped: with enough rounds allowed, the product of the base and
  the power of two leaves the 64-bit range, and the ``cooldown'' of round 28 ends before it began.\<close>

theorem stockout_backoff_overflows:
  "case recordStockout (example_config\<lparr>c_Retries := (c_Retries example_config)\<lparr>rt_Stockout := 40\<rparr>\<rparr>) now
      ((new_record example_job)\<lparr>jr_StockoutRounds := 27, jr_StockoutZones := {''us-east1-b'', ''us-east1-c''}\<rparr>)
      ''us-west1-a'' Map.empty of
     (rec, cds) \<Rightarrow> jr_Status rec = StatusQueued \<and> jr_StockoutRounds rec = 28
       \<and> get_time cds (stockout_key ''debian-12_n2-4_disk'') < now"
proof -
  have s: "shl1 27 = 134217728" by (simp add: shl1_def wrap64_def)
  show ?thesis
    by (simp add: recordStockout_def Let_def new_record_def example_job_sel s get_time_def)
       (simp add: example_config_def second_def wrap64_def)
qed

end
