(* ===== verification/Citrun_Resume.thy ===== *)
theory Citrun_Resume
  imports Citrun_Guarantees
begin

text \<open>
  \<open>cmd/citrun/resume.go\<close>: what a resumed run does with the jobs of the saved state, the dry run
  that predicts it, and the order of the steps of \<open>cmdResume\<close>.  The container runtime is a
  parameter: which containers still exist, and what attaching to one reports.
\<close>

text \<open>
  \<open>ct_end\<close> and \<open>ct_now\<close> are the two readings of the clock after the container of a job has ended.
\<close>

record containers =
  ct_exists :: "string \<Rightarrow> bool"
  ct_attach :: "string \<Rightarrow> result"
  ct_end :: "string \<Rightarrow> time"
  ct_now :: "string \<Rightarrow> time"

definition attached_attempt :: "result \<Rightarrow> time \<Rightarrow> attempt \<Rightarrow> attempt" where
  "attached_attempt res t a = a\<lparr>a_Result := Classification res, a_Detail := Detail res, a_End := t,
     a_Wall := t - a_Start a\<rparr>"

text \<open>The verdict on a running job whose container was attached: its record and the cooldowns.\<close>

definition attach_job ::
  "config \<Rightarrow> containers \<Rightarrow> string \<Rightarrow> job_record \<Rightarrow> (string \<rightharpoonup> time) \<Rightarrow> job_record \<times> (string \<rightharpoonup> time)" where
  "attach_job cfg ct i rec cds =
     (let res = ct_attach ct i;
          rec1 = rec\<lparr>jr_Attempts := set_last (attached_attempt res (ct_end ct i)) (jr_Attempts rec)\<rparr>;
          cl = Classification res
      in if cl = ClassPass then (rec1\<lparr>jr_Status := StatusPassed\<rparr>, cds)
         else if cl = ClassFail then (rec1\<lparr>jr_Status := StatusFailedReal\<rparr>, cds)
         else if cl = ClassStockout then
           (if jr_Attempts rec1 = [] then (rec1\<lparr>jr_Status := StatusQueued\<rparr>, cds)
            else recordStockout cfg (ct_now ct i) rec1 (a_Zone (last (jr_Attempts rec1))) cds)
         else (rec1\<lparr>jr_Status := StatusQueued\<rparr>, cds))"

definition orphan_job :: "job_record \<Rightarrow> job_record" where
  "orphan_job rec = rec\<lparr>jr_Attempts := set_last (\<lambda>a. a\<lparr>a_Result := ''orphaned''\<rparr>) (jr_Attempts rec),
     jr_Status := StatusQueued\<rparr>"

definition resume_record ::
  "config \<Rightarrow> containers \<Rightarrow> bool \<Rightarrow> string \<Rightarrow> job_record \<Rightarrow> (string \<rightharpoonup> time) \<Rightarrow> job_record \<times> (string \<rightharpoonup> time)"
where
  "resume_record cfg ct onlyFailed i rec cds =
     (case jr_Status rec of
        StatusRunning \<Rightarrow>
          if ct_exists ct i then attach_job cfg ct i rec cds else (orphan_job rec, cds)
      | StatusFailedInfra \<Rightarrow>
          (rec\<lparr>jr_StockoutZones := {}, jr_StockoutRounds := 0, jr_Status := StatusQueued\<rparr>,
           cds(stockout_key (j_ID (jr_Job rec)) := None))
      | StatusFailedReal \<Rightarrow>
          (if onlyFailed then rec\<lparr>jr_Status := StatusQueued\<rparr> else rec, cds)
      | _ \<Rightarrow> (rec, cds))"

definition resume_step ::
  "config \<Rightarrow> containers \<Rightarrow> bool \<Rightarrow> string \<Rightarrow> nat \<times> run_state \<Rightarrow> (nat \<times> run_state) option" where
  "resume_step cfg ct onlyFailed i = (\<lambda>(n, st).
     case rs_Jobs st i of
       None \<Rightarrow> None
     | Some rec \<Rightarrow>
         (case resume_record cfg ct onlyFailed i rec (rs_Cooldowns st) of
            (rec', cds) \<Rightarrow>
              Some (if jr_Status rec' = StatusQueued then Suc n else n,
                    set_job i rec' (st\<lparr>rs_Cooldowns := cds\<rparr>))))"

definition prepareResume ::
  "config \<Rightarrow> containers \<Rightarrow> bool \<Rightarrow> run_state \<Rightarrow> (nat \<times> run_state) option" where
  "prepareResume cfg ct onlyFailed st = fold_opt (resume_step cfg ct onlyFailed) (rs_Order st) (0, st)"

subsection \<open>The dry run\<close>

record resume_plan =
  rp_requeue :: "string list"
  rp_attach :: "string list"
  rp_infra :: nat
  rp_orphans :: nat

definition plan_step :: "containers \<Rightarrow> bool \<Rightarrow> run_state \<Rightarrow> string \<Rightarrow> resume_plan \<Rightarrow> resume_plan option" where
  "plan_step ct onlyFailed st i p =
     (case rs_Jobs st i of
        None \<Rightarrow> None
      | Some rec \<Rightarrow> Some
          (case jr_Status rec of
             StatusQueued \<Rightarrow> p\<lparr>rp_requeue := rp_requeue p @ [i]\<rparr>
           | StatusRunning \<Rightarrow>
               if ct_exists ct i then p\<lparr>rp_attach := rp_attach p @ [i]\<rparr>
               else p\<lparr>rp_requeue := rp_requeue p @ [i], rp_orphans := Suc (rp_orphans p)\<rparr>
           | StatusFailedInfra \<Rightarrow>
               p\<lparr>rp_requeue := rp_requeue p @ [i], rp_infra := Suc (rp_infra p)\<rparr>
           | StatusFailedReal \<Rightarrow> if onlyFailed then p\<lparr>rp_requeue := rp_requeue p @ [i]\<rparr> else p
           | _ \<Rightarrow> p))"

definition dryRunResumePlan :: "run_state \<Rightarrow> containers \<Rightarrow> bool \<Rightarrow> resume_plan option" where
  "dryRunResumePlan st ct onlyFailed =
     fold_opt (plan_step ct onlyFailed st) (rs_Order st)
       \<lparr>rp_requeue = [], rp_attach = [], rp_infra = 0, rp_orphans = 0\<rparr>"

definition id_lines :: "string \<Rightarrow> string list \<Rightarrow> string" where
  "id_lines header xs =
     (if xs = [] then [] else header @ newline @ concat (map (\<lambda>i. ''  '' @ i @ newline) xs))"

definition printResumeDryRun :: "string \<Rightarrow> resume_plan \<Rightarrow> bool \<Rightarrow> string" where
  "printResumeDryRun dir p onlyFailed =
     (if onlyFailed then ''rerun-failed'' else ''resume'') @ '' dry-run for '' @ dir @ '': ''
       @ itoa (int (length (rp_requeue p))) @ '' jobs would run'' @ newline
     @ ''  '' @ itoa (int (rp_infra p)) @ '' failed_infra, '' @ itoa (int (rp_orphans p))
       @ '' orphaned running'' @ newline
     @ ''  '' @ itoa (int (length (rp_attach p)))
       @ '' running containers would be awaited/attached (not requeued)'' @ newline
     @ id_lines ''would requeue:'' (rp_requeue p)
     @ id_lines ''would attach (still running):'' (rp_attach p)"

subsection \<open>A resumed state can be started\<close>

lemma recordStockout_status:
  "recordStockout cfg now rec zone cds = (rec', cds') \<Longrightarrow>
     jr_Job rec' = jr_Job rec \<and> jr_Status rec' \<in> {StatusQueued, StatusFailedInfra}"
  by (auto simp: recordStockout_def Let_def split: if_splits)

lemma resume_record_frame:
  assumes "resume_record cfg ct onlyFailed i rec cds = (rec', cds')"
  shows "jr_Job rec' = jr_Job rec" "jr_Status rec' \<noteq> StatusRunning"
  using assms
  by (auto simp: resume_record_def attach_job_def orphan_job_def Let_def
      dest!: recordStockout_status split: job_status.splits if_splits)

text \<open>The loop over the order, one record at a time.\<close>

definition resumed :: "config \<Rightarrow> containers \<Rightarrow> bool \<Rightarrow> run_state \<Rightarrow> run_state \<Rightarrow> string \<Rightarrow> bool" where
  "resumed cfg ct onlyFailed st st' i \<longleftrightarrow>
     (\<exists>rec rec' cds cds'. rs_Jobs st i = Some rec
        \<and> resume_record cfg ct onlyFailed i rec cds = (rec', cds') \<and> rs_Jobs st' i = Some rec')"

definition queued_in :: "run_state \<Rightarrow> string \<Rightarrow> bool" where
  "queued_in st i \<longleftrightarrow> (\<exists>rec. rs_Jobs st i = Some rec \<and> jr_Status rec = StatusQueued)"

lemma resume_fold:
  assumes "distinct is" and "set is \<subseteq> dom (rs_Jobs st)"
  shows "\<exists>st'. fold_opt (resume_step cfg ct onlyFailed) is (n, st) =
      Some (n + length (filter (queued_in st') is), st')
    \<and> (\<forall>i \<in> set is. resumed cfg ct onlyFailed st st' i)
    \<and> (\<forall>i. i \<notin> set is \<longrightarrow> rs_Jobs st' i = rs_Jobs st i)
    \<and> rs_Order st' = rs_Order st \<and> rs_RunID st' = rs_RunID st"
  using assms
proof (induction "is" arbitrary: n st)
  case (Cons i "is")
  from Cons.prems(2) obtain rec where rec: "rs_Jobs st i = Some rec" by auto
  obtain rec' cds where r: "resume_record cfg ct onlyFailed i rec (rs_Cooldowns st) = (rec', cds)"
    by fastforce
  define st1 where "st1 = set_job i rec' (st\<lparr>rs_Cooldowns := cds\<rparr>)"
  define n1 where "n1 = (if jr_Status rec' = StatusQueued then Suc n else n)"
  have jobs1: "rs_Jobs st1 = (rs_Jobs st)(i \<mapsto> rec')" and ord1: "rs_Order st1 = rs_Order st"
    and run1: "rs_RunID st1 = rs_RunID st"
    by (simp_all add: st1_def) (simp add: set_job_def)
  have "set is \<subseteq> dom (rs_Jobs st1)" using Cons.prems(2) by (auto simp: jobs1)
  from Cons.IH [OF _ this, of n1] Cons.prems(1) obtain st' where
    f: "fold_opt (resume_step cfg ct onlyFailed) is (n1, st1) =
          Some (n1 + length (filter (queued_in st') is), st')"
    and a: "\<forall>k \<in> set is. resumed cfg ct onlyFailed st1 st' k"
    and b: "\<forall>k. k \<notin> set is \<longrightarrow> rs_Jobs st' k = rs_Jobs st1 k"
    and c: "rs_Order st' = rs_Order st1" "rs_RunID st' = rs_RunID st1"
    by auto
  have i: "rs_Jobs st' i = Some rec'" using b Cons.prems(1) jobs1 by simp
  have q: "queued_in st' i \<longleftrightarrow> jr_Status rec' = StatusQueued" by (simp add: queued_in_def i)
  have "fold_opt (resume_step cfg ct onlyFailed) (i # is) (n, st) =
      Some (n1 + length (filter (queued_in st') is), st')"
    using f rec r by (simp add: resume_step_def st1_def n1_def)
  moreover have "n1 + length (filter (queued_in st') is) = n + length (filter (queued_in st') (i # is))"
    using q by (simp add: n1_def)
  moreover have "resumed cfg ct onlyFailed st st' i"
    unfolding resumed_def using rec r i by blast
  moreover have "resumed cfg ct onlyFailed st st' k" if k: "k \<in> set is" for k
  proof -
    have "k \<noteq> i" using k Cons.prems(1) by auto
    then have "rs_Jobs st1 k = rs_Jobs st k" by (simp add: jobs1)
    with a k show ?thesis unfolding resumed_def by metis
  qed
  moreover have "rs_Jobs st' k = rs_Jobs st k" if "k \<notin> set (i # is)" for k
    using b that jobs1 by simp
  ultimately show ?case using c ord1 run1 by (metis set_ConsD)
qed simp

lemma prepareResume_result:
  assumes "wf_run st"
  obtains st' where
    "prepareResume cfg ct onlyFailed st = Some (length (filter (queued_in st') (rs_Order st)), st')"
    "\<And>i. i \<in> set (rs_Order st) \<Longrightarrow> resumed cfg ct onlyFailed st st' i"
    "\<And>i. i \<notin> set (rs_Order st) \<Longrightarrow> rs_Jobs st' i = None"
    "rs_Order st' = rs_Order st" "rs_RunID st' = rs_RunID st"
proof -
  have dom: "dom (rs_Jobs st) = set (rs_Order st)" and dist: "distinct (rs_Order st)"
    using assms by (simp_all add: wf_run_def)
  have none: "rs_Jobs st i = None" if "i \<notin> set (rs_Order st)" for i using dom that by blast
  from resume_fold [OF dist, of st cfg ct onlyFailed 0] dom obtain st' where
    "prepareResume cfg ct onlyFailed st = Some (length (filter (queued_in st') (rs_Order st)), st')"
    "\<forall>i \<in> set (rs_Order st). resumed cfg ct onlyFailed st st' i"
    "\<forall>i. i \<notin> set (rs_Order st) \<longrightarrow> rs_Jobs st' i = rs_Jobs st i"
    "rs_Order st' = rs_Order st" "rs_RunID st' = rs_RunID st"
    by (auto simp: prepareResume_def)
  then show ?thesis using that none by simp
qed

lemma resumed_startable:
  assumes "wf_run st" and "jobs_ok st" and "rs_Order st' = rs_Order st"
    and "\<And>i. i \<in> set (rs_Order st) \<Longrightarrow> resumed cfg ct onlyFailed st st' i"
    and "\<And>i. i \<notin> set (rs_Order st) \<Longrightarrow> rs_Jobs st' i = None"
  shows "startable st'"
proof -
  have r: "\<exists>rec. rs_Jobs st i = Some rec \<and> jr_Job rec' = jr_Job rec \<and> jr_Status rec' \<noteq> StatusRunning"
    if "rs_Jobs st' i = Some rec'" for i rec'
  proof -
    have "i \<in> set (rs_Order st)" using that assms(5) by fastforce
    from assms(4) [OF this] that show ?thesis
      by (auto simp: resumed_def dest: resume_record_frame)
  qed
  have "dom (rs_Jobs st') = set (rs_Order st)"
    using assms(4,5) by (fastforce simp: resumed_def)
  moreover have "j_ID (jr_Job rec') = i" if "rs_Jobs st' i = Some rec'" for i rec'
    using r [OF that] wf_run_ID [OF assms(1)] by auto
  moreover have "job_ok (jr_Job rec') \<and> jr_Status rec' \<noteq> StatusRunning" if "rec' \<in> ran (rs_Jobs st')" for rec'
    using that r jobs_okD [OF assms(2)] by (fastforce simp: ran_def)
  ultimately show ?thesis
    using assms(1,3) by (simp add: startable_def wf_run_def jobs_ok_def)
qed

subsection \<open>The dry run predicts the resume\<close>

definition has_status :: "run_state \<Rightarrow> job_status \<Rightarrow> string \<Rightarrow> bool" where
  "has_status st s i \<longleftrightarrow> (\<exists>rec. rs_Jobs st i = Some rec \<and> jr_Status rec = s)"

definition will_attach :: "containers \<Rightarrow> run_state \<Rightarrow> string \<Rightarrow> bool" where
  "will_attach ct st i \<longleftrightarrow>
     has_status st StatusRunning i \<and> ct_exists ct i"

definition will_requeue :: "containers \<Rightarrow> bool \<Rightarrow> run_state \<Rightarrow> string \<Rightarrow> bool" where
  "will_requeue ct onlyFailed st i \<longleftrightarrow>
     has_status st StatusQueued i \<or> has_status st StatusFailedInfra i
     \<or> (has_status st StatusRunning i \<and> \<not> ct_exists ct i)
     \<or> (has_status st StatusFailedReal i \<and> onlyFailed)"

lemma plan_fold:
  assumes "set is \<subseteq> dom (rs_Jobs st)"
  shows "fold_opt (plan_step ct onlyFailed st) is p = Some
    \<lparr>rp_requeue = rp_requeue p @ filter (will_requeue ct onlyFailed st) is,
     rp_attach = rp_attach p @ filter (will_attach ct st) is,
     rp_infra = rp_infra p + length (filter (has_status st StatusFailedInfra) is),
     rp_orphans = rp_orphans p
       + length (filter (\<lambda>i. has_status st StatusRunning i \<and> \<not> ct_exists ct i) is)\<rparr>"
  using assms
proof (induction "is" arbitrary: p)
  case (Cons i "is")
  from Cons.prems obtain rec where rec: "rs_Jobs st i = Some rec" by auto
  have "set is \<subseteq> dom (rs_Jobs st)" using Cons.prems by simp
  note IH = Cons.IH [OF this]
  have st: "has_status st s i \<longleftrightarrow> jr_Status rec = s" for s by (simp add: has_status_def rec)
  have wr: "will_requeue ct onlyFailed st i \<longleftrightarrow> jr_Status rec = StatusQueued
      \<or> jr_Status rec = StatusFailedInfra \<or> (jr_Status rec = StatusRunning \<and> \<not> ct_exists ct i)
      \<or> (jr_Status rec = StatusFailedReal \<and> onlyFailed)"
    and wa: "will_attach ct st i \<longleftrightarrow> jr_Status rec = StatusRunning \<and> ct_exists ct i"
    by (simp_all add: will_requeue_def will_attach_def st)
  have "\<exists>p'. plan_step ct onlyFailed st i p = Some p'
    \<and> rp_requeue p' = rp_requeue p @ filter (will_requeue ct onlyFailed st) [i]
    \<and> rp_attach p' = rp_attach p @ filter (will_attach ct st) [i]
    \<and> rp_infra p' = rp_infra p + length (filter (has_status st StatusFailedInfra) [i])
    \<and> rp_orphans p' = rp_orphans p
       + length (filter (\<lambda>i. has_status st StatusRunning i \<and> \<not> ct_exists ct i) [i])"
    by (cases "jr_Status rec") (simp_all add: plan_step_def rec wr wa st)
  then show ?case by (auto simp: IH)
qed simp

lemma will_requeue_resumed:
  assumes "resumed cfg ct onlyFailed st st' i"
  shows "will_requeue ct onlyFailed st i \<longleftrightarrow> queued_in st' i \<and> \<not> will_attach ct st i"
proof -
  from assms obtain rec rec' cds cds' where
    r: "rs_Jobs st i = Some rec" "resume_record cfg ct onlyFailed i rec cds = (rec', cds')"
      "rs_Jobs st' i = Some rec'"
    by (auto simp: resumed_def)
  then show ?thesis
    by (cases "jr_Status rec"; cases "ct_exists ct i"; cases onlyFailed)
       (auto simp: will_requeue_def will_attach_def queued_in_def has_status_def resume_record_def
         orphan_job_def)
qed

subsection \<open>Properties\<close>

definition example_containers :: containers where
  "example_containers = \<lparr>ct_exists = (\<lambda>i. i = ''debian-12_n2-4_disk''),
     ct_attach = (\<lambda>_. \<lparr>Classification = ClassPass, Detail = []\<rparr>), ct_end = (\<lambda>_. 50), ct_now = (\<lambda>_. 51)\<rparr>"

lemma example_world_ok: "wf_run (sc_st (w_sched example_world))" "jobs_ok (sc_st (w_sched example_world))"
  using sched_invD [OF reachable_inv [OF example_reachable [unfolded example_start_def] example_startable]]
  by simp_all

text \<open>C26: \<open>prepareResume\<close> returns on the state of any interrupted run, and what it leaves can be
  started: no job is running, the order and the jobs are those of the run, and the number it
  returns is the number of queued jobs.\<close>

theorem resume_leaves_startable:
  assumes "wf_run st" and "jobs_ok st"
  shows "\<exists>st'. prepareResume cfg ct onlyFailed st
        = Some (length (filter (queued_in st') (rs_Order st')), st')
      \<and> startable st' \<and> rs_Order st' = rs_Order st \<and> job_at st' = job_at st"
proof -
  obtain st' where
    r: "prepareResume cfg ct onlyFailed st = Some (length (filter (queued_in st') (rs_Order st)), st')"
    and each: "\<And>i. i \<in> set (rs_Order st) \<Longrightarrow> resumed cfg ct onlyFailed st st' i"
    and none: "\<And>i. i \<notin> set (rs_Order st) \<Longrightarrow> rs_Jobs st' i = None"
    and ord: "rs_Order st' = rs_Order st"
    using prepareResume_result [OF assms(1), of cfg ct onlyFailed] by metis
  have "job_at st' i = job_at st i" for i
  proof (cases "i \<in> set (rs_Order st)")
    case True
    from each [OF this] show ?thesis
      by (auto simp: resumed_def job_at_def dest: resume_record_frame(1))
  next
    case False
    then have "rs_Jobs st i = None" using assms(1) by (auto simp: wf_run_def)
    then show ?thesis using none [OF False] by (simp add: job_at_def)
  qed
  then show ?thesis
    using r ord resumed_startable [OF assms ord each none] by (auto simp: fun_eq_iff)
qed

theorem resume_leaves_startable_witness:
  "\<exists>n st'. prepareResume example_config example_containers False (sc_st (w_sched example_world)) = Some (n, st')
     \<and> startable st'"
  using resume_leaves_startable [OF example_world_ok, of example_config example_containers False] by blast

text \<open>The dry run predicts the resume: the jobs it announces as requeued are those that are
  queued after \<open>prepareResume\<close> and are not attached, in the order of the run, and the ones it
  announces as attached are the running jobs whose container still exists.\<close>

theorem dry_run_predicts_resume:
  assumes "wf_run st" and "prepareResume cfg ct onlyFailed st = Some (n, st')"
  shows "\<exists>p. dryRunResumePlan st ct onlyFailed = Some p
    \<and> rp_attach p = filter (will_attach ct st) (rs_Order st)
    \<and> rp_requeue p = filter (\<lambda>i. queued_in st' i \<and> i \<notin> set (rp_attach p)) (rs_Order st)"
proof -
  have "set (rs_Order st) \<subseteq> dom (rs_Jobs st)" using assms(1) by (simp add: wf_run_def)
  note p = plan_fold [OF this, of ct onlyFailed "\<lparr>rp_requeue = [], rp_attach = [], rp_infra = 0, rp_orphans = 0\<rparr>"]
  have each: "resumed cfg ct onlyFailed st st' i" if "i \<in> set (rs_Order st)" for i
    using prepareResume_result [OF assms(1), of cfg ct onlyFailed] assms(2) that by (metis option.inject prod.inject)
  have "filter (will_requeue ct onlyFailed st) (rs_Order st) =
      filter (\<lambda>i. queued_in st' i \<and> \<not> will_attach ct st i) (rs_Order st)"
    using will_requeue_resumed [OF each] by (intro filter_cong) auto
  also have "\<dots> = filter (\<lambda>i. queued_in st' i \<and> i \<notin> set (filter (will_attach ct st) (rs_Order st))) (rs_Order st)"
    by (intro filter_cong) auto
  finally show ?thesis using p by (simp add: dryRunResumePlan_def)
qed

theorem dry_run_predicts_resume_witness:
  "\<exists>p. dryRunResumePlan (sc_st (w_sched example_world)) example_containers False = Some p
    \<and> rp_attach p = filter (will_attach example_containers (sc_st (w_sched example_world)))
        (rs_Order (sc_st (w_sched example_world)))"
proof -
  obtain n st' where "prepareResume example_config example_containers False
      (sc_st (w_sched example_world)) = Some (n, st')"
    using prepareResume_result [OF example_world_ok(1)] by metis
  from dry_run_predicts_resume [OF example_world_ok(1) this] show ?thesis by blast
qed

end
