(* ===== verification/Citrun_Refresh.thy ===== *)
theory Citrun_Refresh
  imports Citrun_Resume
begin

text \<open>
  \<open>cmd/citrun/refresh.go\<close>, which replaces the placement data of the jobs still to run by that of
  an edited configuration, and \<open>cmdResume\<close> of resume.go, which calls it.  \<open>ids\<close> is the order in
  which the map of jobs is visited.
\<close>

datatype refresh_error =
    ExpandFailed expand_error
  | DuplicateExpanded string
  | JobRunning string
  | JobUnmatched string
  | NotPlaceable string
  | ReadStateFailed
  | BackupCreateFailed
  | BackupWriteFailed
  | BackupCloseFailed
  | SaveFailed

definition index_job :: "job \<Rightarrow> (string \<rightharpoonup> job) \<Rightarrow> refresh_error + (string \<rightharpoonup> job)" where
  "index_job j byID =
     (case byID (j_ID j) of
        Some _ \<Rightarrow> Inl (DuplicateExpanded (j_ID j))
      | None \<Rightarrow> Inr (byID(j_ID j \<mapsto> j)))"

definition refreshed_record :: "job \<Rightarrow> job_record \<Rightarrow> job_record" where
  "refreshed_record j rec = rec\<lparr>
     jr_Job := (jr_Job rec)\<lparr>j_Zones := j_Zones j, j_CPUCost := j_CPUCost j,
                            j_BudgetKey := j_BudgetKey j\<rparr>,
     jr_StockoutZones := {}, jr_StockoutRounds := 0\<rparr>"

definition refreshable :: "job_status \<Rightarrow> bool" where
  "refreshable s \<longleftrightarrow> s = StatusQueued \<or> s = StatusFailedInfra \<or> s = StatusFailedReal"

definition refresh_step ::
  "(string \<rightharpoonup> job) \<Rightarrow> run_state \<Rightarrow> string \<Rightarrow> run_state \<times> job list \<Rightarrow> refresh_error + (run_state \<times> job list)"
where
  "refresh_step byID st i = (\<lambda>(nxt, cands).
     case rs_Jobs st i of
       None \<Rightarrow> Inr (nxt, cands)
     | Some rec \<Rightarrow>
         if jr_Status rec = StatusRunning then Inl (JobRunning i)
         else if refreshable (jr_Status rec) then
           (case byID i of
              None \<Rightarrow> Inl (JobUnmatched i)
            | Some j \<Rightarrow>
                if j_ID (jr_Job rec) \<noteq> i then Inl (JobUnmatched i)
                else let rec' = refreshed_record j rec;
                         nxt' = nxt\<lparr>rs_Cooldowns := (rs_Cooldowns nxt)(stockout_key i := None)\<rparr>
                     in Inr (set_job i rec' nxt', cands @ [(jr_Job rec')\<lparr>j_Quarantined := []\<rparr>]))
         else Inr (set_job i rec nxt, cands))"

text \<open>Everything that is decided before a file is touched.\<close>

definition refresh_plan ::
  "config \<Rightarrow> string list \<Rightarrow> run_state \<Rightarrow> refresh_error + (run_state \<times> job list)" where
  "refresh_plan cfg ids st =
     (case ExpandJobs cfg \<lparr>fl_Configs = [], fl_Images = [], fl_Shapes = [], fl_Suites = [], fl_Tier = []\<rparr> of
        Inl e \<Rightarrow> Inl (ExpandFailed e)
      | Inr fresh \<Rightarrow>
          (case fold_err index_job fresh Map.empty of
             Inl e \<Rightarrow> Inl e
           | Inr byID \<Rightarrow>
               (case fold_err (refresh_step byID st) ids (st\<lparr>rs_Jobs := Map.empty\<rparr>, []) of
                  Inl e \<Rightarrow> Inl e
                | Inr (nxt, cands) \<Rightarrow>
                    (case validatePlaceable cfg cands of
                       Some msg \<Rightarrow> Inl (NotPlaceable msg)
                     | None \<Rightarrow> Inr (nxt, cands)))))"

text \<open>
  The file operations, each of which may fail.  The result, the state in memory, the run's files
  and the backups taken, the newest last.
\<close>

record refresh_io =
  ri_create :: bool
  ri_write :: bool
  ri_close :: bool
  ri_save :: io_outcome

type_synonym refresh_result =
  "(refresh_error + nat) \<times> run_state \<times> run_files \<times> run_state content list"

definition refreshRunConfig ::
  "refresh_io \<Rightarrow> config \<Rightarrow> string list \<Rightarrow> run_state \<Rightarrow> run_files \<Rightarrow> refresh_result" where
  "refreshRunConfig io cfg ids st f =
     (case refresh_plan cfg ids st of
        Inl e \<Rightarrow> (Inl e, st, f, [])
      | Inr (nxt, cands) \<Rightarrow>
          if cands = [] then (Inr 0, st, f, [])
          else if rf_State f = Missing then (Inl ReadStateFailed, st, f, [])
          else if \<not> ri_create io then (Inl BackupCreateFailed, st, f, [])
          else if \<not> ri_write io then (Inl BackupWriteFailed, st, f, [Partial])
          else if \<not> ri_close io then (Inl BackupCloseFailed, st, f, [rf_State f])
          else (case SaveState (ri_save io) nxt f of (ok, f') \<Rightarrow>
                  if ok then (Inr (length cands), nxt, f', [rf_State f])
                  else (Inl SaveFailed, st, f', [rf_State f])))"

subsection \<open>The resume command\<close>

datatype resume_error = NoState state_error | NoConfig load_error | RefreshFailed refresh_error
  | ResumePanic | ResumeSaveFailed

datatype resume_outcome =
    Refused resume_error                    \<comment> \<open>exit status 2\<close>
  | Planned resume_plan                     \<comment> \<open>the dry run, exit status 0\<close>
  | Started config run_state                \<comment> \<open>\<open>executeRun\<close> takes over\<close>

text \<open>
  \<open>now\<close>, \<open>keys\<close> and \<open>jobs\<close> are the clock and the map orders \<open>NewScheduler\<close> meets; \<open>save\<close> is the
  outcome of the final save.
\<close>

definition cmdResume ::
  "load_error + config \<Rightarrow> containers \<Rightarrow> refresh_io \<Rightarrow> io_outcome \<Rightarrow> time \<Rightarrow> string list \<Rightarrow> string list
     \<Rightarrow> bool \<Rightarrow> bool \<Rightarrow> bool \<Rightarrow> run_files \<Rightarrow> resume_outcome \<times> run_files" where
  "cmdResume loaded ct io save now keys ids refresh dryRun onlyFailed f =
     (case LoadState f of
        Inl e \<Rightarrow> (Refused (NoState e), f)
      | Inr st \<Rightarrow>
     (case loaded of
        Inl e \<Rightarrow> (Refused (NoConfig e), f)
      | Inr cfg \<Rightarrow>
          if dryRun then
            (case dryRunResumePlan st ct onlyFailed of
               None \<Rightarrow> (Refused ResumePanic, f)
             | Some p \<Rightarrow> (Planned p, f))
          else
            (case (if refresh then refreshRunConfig io cfg ids st f else (Inr 0, st, f, [])) of
               (Inl e, _, f1, _) \<Rightarrow> (Refused (RefreshFailed e), f1)
             | (Inr n, st1, f1, _) \<Rightarrow>
                 (case prepareResume cfg ct onlyFailed (sc_st (NewScheduler now keys ids st1 f1)) of
                    None \<Rightarrow> (Refused ResumePanic, f1)
                  | Some (_, st2) \<Rightarrow>
                      (case SaveState save st2 f1 of (ok, f2) \<Rightarrow>
                         (if ok then Started cfg st2 else Refused ResumeSaveFailed, f2))))))"

subsection \<open>A refresh happens as a whole or not at all\<close>

lemma refresh_failed:
  assumes "refreshRunConfig io cfg ids st f = (Inl e, st', f', b)"
  shows "st' = st \<and> LoadState f' = LoadState f \<and> rf_Events f' = rf_Events f"
  using assms
  by (auto simp: refreshRunConfig_def SaveState_def LoadState_def
      split: sum.splits if_splits prod.splits io_outcome.splits)

lemma refresh_done:
  assumes "refreshRunConfig io cfg ids st f = (Inr n, st', f', b)"
  obtains (nothing) "n = 0" "st' = st" "f' = f" "b = []"
  | (some) cands where "refresh_plan cfg ids st = Inr (st', cands)" "n = length cands" "cands \<noteq> []"
      "LoadState f' = Inr st'" "b = [rf_State f]" "rf_State f \<noteq> Missing"
  using assms
  by (auto simp: refreshRunConfig_def SaveState_def LoadState_def
      split: sum.splits if_splits prod.splits io_outcome.splits)

subsection \<open>What a refresh changes\<close>

lemma fold_err_ConsE:
  assumes "fold_err f (x # xs) s = Inr s'"
  obtains t where "f x s = Inr t" "fold_err f xs t = Inr s'"
  using assms by (auto split: sum.splits)

lemma index_job_Inr: "index_job x m = Inr t \<Longrightarrow> t = m(j_ID x \<mapsto> x) \<and> m (j_ID x) = None"
  by (auto simp: index_job_def split: option.splits)

lemma index_jobs:
  assumes "fold_err index_job fresh m = Inr byID" and "byID i = Some j" and "m i = None"
  shows "j \<in> set fresh \<and> j_ID j = i"
  using assms
proof (induction fresh arbitrary: m)
  case (Cons x xs)
  from fold_err_ConsE [OF Cons.prems(1)] have s: "fold_err index_job xs (m(j_ID x \<mapsto> x)) = Inr byID"
    using index_job_Inr by metis
  show ?case
  proof (cases "j_ID x = i")
    case True
    have keep: "fold_err index_job ys m' = Inr byID \<Longrightarrow> m' i = Some y \<Longrightarrow> byID i = Some y" for ys m' y
    proof (induction ys arbitrary: m')
      case (Cons a as)
      from fold_err_ConsE [OF Cons.prems(1)]
      have "fold_err index_job as (m'(j_ID a \<mapsto> a)) = Inr byID" "m' (j_ID a) = None"
        using index_job_Inr by metis+
      then show ?case using Cons.IH Cons.prems(2) by (metis fun_upd_other option.distinct(1))
    qed simp
    from keep [OF s] True Cons.prems(2) show ?thesis by simp
  next
    case False
    then show ?thesis using Cons.IH [OF s Cons.prems(2)] Cons.prems(3) by simp
  qed
qed simp

text \<open>The record a job gets: its own, or the refreshed one.\<close>

definition refreshed :: "config \<Rightarrow> job_record \<Rightarrow> job_record \<Rightarrow> bool" where
  "refreshed cfg rec rec' \<longleftrightarrow> jr_Status rec \<noteq> StatusRunning
     \<and> (if refreshable (jr_Status rec)
        then (\<exists>j. (\<exists>jobs. ExpandJobs cfg \<lparr>fl_Configs = [], fl_Images = [], fl_Shapes = [],
                     fl_Suites = [], fl_Tier = []\<rparr> = Inr jobs \<and> j \<in> set jobs)
                \<and> j_ID j = j_ID (jr_Job rec) \<and> rec' = refreshed_record j rec)
        else rec' = rec)"

lemma refresh_fold:
  assumes "fold_err (refresh_step byID st) is (nxt, cands) = Inr (nxt', cands')"
    and "distinct is"
    and "\<And>i j. byID i = Some j \<Longrightarrow> j \<in> set fresh \<and> j_ID j = i"
    and "ExpandJobs cfg \<lparr>fl_Configs = [], fl_Images = [], fl_Shapes = [], fl_Suites = [], fl_Tier = []\<rparr>
      = Inr fresh"
  shows "(\<forall>i \<in> set is. \<forall>rec. rs_Jobs st i = Some rec \<longrightarrow>
       (\<exists>rec'. rs_Jobs nxt' i = Some rec' \<and> refreshed cfg rec rec'
          \<and> (refreshable (jr_Status rec) \<longrightarrow> (jr_Job rec')\<lparr>j_Quarantined := []\<rparr> \<in> set cands')))
    \<and> (\<forall>i. i \<notin> set is \<or> rs_Jobs st i = None \<longrightarrow> rs_Jobs nxt' i = rs_Jobs nxt i)
    \<and> set cands \<subseteq> set cands' \<and> rs_Order nxt' = rs_Order nxt \<and> rs_RunID nxt' = rs_RunID nxt"
  using assms(1,2)
proof (induction "is" arbitrary: nxt cands)
  case (Cons i "is")
  show ?case
  proof (cases "rs_Jobs st i")
    case None
    then have "refresh_step byID st i (nxt, cands) = Inr (nxt, cands)" by (simp add: refresh_step_def)
    then have "fold_err (refresh_step byID st) is (nxt, cands) = Inr (nxt', cands')"
      using Cons.prems(1) by simp
    from Cons.IH [OF this] Cons.prems(2) None show ?thesis by auto
  next
    case (Some rec)
    obtain nxt1 cands1 where s: "refresh_step byID st i (nxt, cands) = Inr (nxt1, cands1)"
      and f: "fold_err (refresh_step byID st) is (nxt1, cands1) = Inr (nxt', cands')"
      using Cons.prems(1) by (auto split: sum.splits)
    have one: "\<exists>rec'. rs_Jobs nxt1 i = Some rec' \<and> refreshed cfg rec rec'
        \<and> (refreshable (jr_Status rec) \<longrightarrow> (jr_Job rec')\<lparr>j_Quarantined := []\<rparr> \<in> set cands1)
        \<and> rs_Jobs nxt1 = (rs_Jobs nxt)(i \<mapsto> rec')
        \<and> set cands \<subseteq> set cands1 \<and> rs_Order nxt1 = rs_Order nxt \<and> rs_RunID nxt1 = rs_RunID nxt"
    proof (cases "refreshable (jr_Status rec)")
      case True
      with s Some obtain j where j: "byID i = Some j" and id: "j_ID (jr_Job rec) = i"
        and run: "jr_Status rec \<noteq> StatusRunning"
        by (auto simp: refresh_step_def split: option.splits if_splits)
      have "j \<in> set fresh" "j_ID j = i" using assms(3) [OF j] by simp_all
      then show ?thesis
        using s Some True j id run assms(4)
        by (auto simp: refresh_step_def refreshed_def Let_def set_job_def)
    next
      case False
      then show ?thesis
        using s Some by (auto simp: refresh_step_def refreshed_def set_job_def split: if_splits)
    qed
    have "distinct is" "i \<notin> set is" using Cons.prems(2) by simp_all
    note IH = Cons.IH [OF f this(1)]
    from one obtain rec' where r: "rs_Jobs nxt1 i = Some rec'" "refreshed cfg rec rec'"
      "refreshable (jr_Status rec) \<longrightarrow> (jr_Job rec')\<lparr>j_Quarantined := []\<rparr> \<in> set cands1"
      "rs_Jobs nxt1 = (rs_Jobs nxt)(i \<mapsto> rec')"
      "set cands \<subseteq> set cands1" "rs_Order nxt1 = rs_Order nxt" "rs_RunID nxt1 = rs_RunID nxt" by blast
    have "rs_Jobs nxt' i = Some rec'" using IH \<open>i \<notin> set is\<close> r(1) by simp
    moreover have "refreshable (jr_Status rec) \<longrightarrow> (jr_Job rec')\<lparr>j_Quarantined := []\<rparr> \<in> set cands'"
      using IH r(3) by blast
    ultimately show ?thesis using IH r Some by auto
  qed
qed simp

lemma refresh_plan_Inr:
  assumes "refresh_plan cfg ids st = Inr (st', cands)" and "distinct ids"
    and "set ids = dom (rs_Jobs st)"
  shows "\<And>i rec. rs_Jobs st i = Some rec \<Longrightarrow> \<exists>rec'. rs_Jobs st' i = Some rec' \<and> refreshed cfg rec rec'
      \<and> (refreshable (jr_Status rec) \<longrightarrow> (jr_Job rec')\<lparr>j_Quarantined := []\<rparr> \<in> set cands)"
    and "dom (rs_Jobs st') = dom (rs_Jobs st)" and "rs_Order st' = rs_Order st"
    and "validatePlaceable cfg cands = None"
proof -
  from assms(1) obtain fresh byID where
    ex: "ExpandJobs cfg \<lparr>fl_Configs = [], fl_Images = [], fl_Shapes = [], fl_Suites = [], fl_Tier = []\<rparr>
      = Inr fresh"
    and ix: "fold_err index_job fresh Map.empty = Inr byID"
    and f: "fold_err (refresh_step byID st) ids (st\<lparr>rs_Jobs := Map.empty\<rparr>, []) = Inr (st', cands)"
    and vp: "validatePlaceable cfg cands = None"
    by (auto simp: refresh_plan_def split: sum.splits option.splits)
  note r = refresh_fold [OF f assms(2) index_jobs [OF ix] ex]
  show "validatePlaceable cfg cands = None" by (rule vp)
  show 1: "\<exists>rec'. rs_Jobs st' i = Some rec' \<and> refreshed cfg rec rec'
      \<and> (refreshable (jr_Status rec) \<longrightarrow> (jr_Job rec')\<lparr>j_Quarantined := []\<rparr> \<in> set cands)"
    if "rs_Jobs st i = Some rec" for i rec
    using r that assms(3) by auto
  show "rs_Order st' = rs_Order st" using r by simp
  have "rs_Jobs st' i = None" if "rs_Jobs st i = None" for i using r that by simp
  then show "dom (rs_Jobs st') = dom (rs_Jobs st)" using 1 by (auto simp: dom_def) (metis option.exhaust)+
qed

text \<open>A refreshed job can be placed under the edited configuration.\<close>

lemma refreshed_placeable:
  assumes "validatePlaceable cfg cands = None" and "(jr_Job rec')\<lparr>j_Quarantined := []\<rparr> \<in> set cands"
  shows "\<exists>z \<in> set (j_Zones (jr_Job rec')). j_CPUCost (jr_Job rec') \<le> regionUsable cfg (jr_Job rec') (zoneRegion z)"
proof -
  have cong: "regionUsable cfg (j\<lparr>j_Quarantined := []\<rparr>) r = regionUsable cfg j r" for j r
    by (simp add: regionUsable_def budgetKeysFor_def)
  show ?thesis using assms by (force simp: unplaceable_iff cong)
qed

subsection \<open>Properties\<close>


definition example_io :: refresh_io where
  "example_io = \<lparr>ri_create = False, ri_write = True, ri_close = True, ri_save = IoOk\<rparr>"


text \<open>A refresh that changes the state keeps the run's jobs and their order, touches only the
  zones, cost, budget key and stockout bookkeeping of jobs that are queued or have failed, takes
  them from the expansion of the edited configuration, and leaves each such job placeable.\<close>

theorem refresh_sound:
  assumes "refreshRunConfig io cfg ids st f = (Inr n, st', f', backups)" and "0 < n"
    and "distinct ids" and "set ids = dom (rs_Jobs st)" and "rs_Jobs st i = Some rec"
  shows "\<exists>rec'. rs_Jobs st' i = Some rec' \<and> refreshed cfg rec rec'
    \<and> (refreshable (jr_Status rec) \<longrightarrow>
         (\<exists>z \<in> set (j_Zones (jr_Job rec')).
            j_CPUCost (jr_Job rec') \<le> regionUsable cfg (jr_Job rec') (zoneRegion z)))
    \<and> rs_Order st' = rs_Order st"
  using assms(1)
proof (cases rule: refresh_done)
  case nothing
  then show ?thesis using assms(2) by simp
next
  case (some cands)
  note p = refresh_plan_Inr [OF some(1) assms(3,4)]
  from p(1) [OF assms(5)] obtain rec' where
    r: "rs_Jobs st' i = Some rec'" "refreshed cfg rec rec'"
      "refreshable (jr_Status rec) \<longrightarrow> (jr_Job rec')\<lparr>j_Quarantined := []\<rparr> \<in> set cands"
    by blast
  then show ?thesis using refreshed_placeable [OF p(4)] p(3) by blast
qed

definition example_ids :: "string list" where
  "example_ids = [j_ID example_job]"

lemma example_refresh:
  "\<exists>st' f' b. refreshRunConfig (example_io\<lparr>ri_create := True\<rparr>) example_config example_ids example_run
     (example_files example_run) = (Inr 1, st', f', b)"
proof -
  have v: "case ExpandJobs example_config \<lparr>fl_Configs = [], fl_Images = [], fl_Shapes = [],
      fl_Suites = [], fl_Tier = []\<rparr> of Inl e \<Rightarrow> False
      | Inr jobs \<Rightarrow> map j_ID jobs = [j_ID example_job, ''rocky-9_n2-4_disk''] \<and> hd jobs = example_job"
    by code_simp
  obtain jobs where j: "ExpandJobs example_config \<lparr>fl_Configs = [], fl_Images = [], fl_Shapes = [],
      fl_Suites = [], fl_Tier = []\<rparr> = Inr jobs"
    using v by (cases "ExpandJobs example_config \<lparr>fl_Configs = [], fl_Images = [], fl_Shapes = [],
      fl_Suites = [], fl_Tier = []\<rparr>") simp_all
  have ids: "map j_ID jobs = [j_ID example_job, ''rocky-9_n2-4_disk'']" and hd: "hd jobs = example_job"
    using v by (simp_all add: j)
  obtain b where jobs: "jobs = [example_job, b]" "j_ID b = ''rocky-9_n2-4_disk''"
  proof -
    from ids obtain a b where "jobs = [a, b]" "j_ID b = ''rocky-9_n2-4_disk''"
      by (auto simp: map_eq_Cons_conv)
    with hd that show ?thesis by simp
  qed
  have ne: "j_ID b \<noteq> j_ID example_job" by (simp add: jobs(2) example_job_sel)
  define cand where "cand = (jr_Job (refreshed_record example_job (new_record example_job)))\<lparr>j_Quarantined := []\<rparr>"
  have e: "(jr_Job (refreshed_record j (new_record j)))\<lparr>j_Quarantined := []\<rparr> = j"
    if "j_Quarantined j = []" for j
    using that by (cases j) (simp add: refreshed_record_def new_record_def)
  have "cand = example_job"
    unfolding cand_def by (rule e [OF example_job_sel(8)])
  have q: "refreshable (jr_Status (new_record example_job))" "jr_Status (new_record example_job) \<noteq> StatusRunning"
    "j_ID (jr_Job (new_record example_job)) = j_ID example_job"
    by (simp_all add: new_record_def example_job_sel refreshable_def)
  have "fold_err index_job jobs Map.empty = Inr [j_ID example_job \<mapsto> example_job, j_ID b \<mapsto> b]"
    using ne by (simp add: jobs index_job_def)
  moreover have "\<exists>nxt. fold_err (refresh_step [j_ID example_job \<mapsto> example_job, j_ID b \<mapsto> b] example_run)
      example_ids (example_run\<lparr>rs_Jobs := Map.empty\<rparr>, []) = Inr (nxt, [cand])"
    using example_record q ne by (simp add: example_ids_def refresh_step_def Let_def cand_def)
  ultimately have "\<exists>nxt. refresh_plan example_config example_ids example_run = Inr (nxt, [example_job])"
    using example_placeable \<open>cand = example_job\<close> by (auto simp: refresh_plan_def j)
  then show ?thesis
    by (auto simp: refreshRunConfig_def example_io_def SaveState_def example_files_def)
qed

theorem refresh_sound_witness:
  "\<exists>st' f' b rec'. refreshRunConfig (example_io\<lparr>ri_create := True\<rparr>) example_config example_ids example_run
     (example_files example_run) = (Inr 1, st', f', b)
   \<and> rs_Jobs st' (j_ID example_job) = Some rec' \<and> refreshed example_config (new_record example_job) rec'"
proof -
  obtain st' f' b where r: "refreshRunConfig (example_io\<lparr>ri_create := True\<rparr>) example_config example_ids
      example_run (example_files example_run) = (Inr 1, st', f', b)"
    using example_refresh by blast
  have "set example_ids = dom (rs_Jobs example_run)"
    using example_startable by (simp add: startable_def wf_run_def example_ids_def example_run_def)
  from refresh_sound [OF r _ _ this example_record] r show ?thesis
    by (simp add: example_ids_def) blast
qed

end
