(* ===== verification/Go_Time.thy ===== *)
theory Go_Time
  imports Prelude
begin

text \<open>
  Go's \<open>time.Duration.String\<close> and \<open>Round\<close>, and the width verbs of \<open>fmt\<close> that the sources use.
\<close>

text \<open>The decimal digits of \<open>v\<close>, padded to \<open>n\<close> of them; a fraction without its trailing zeros.\<close>

fun digits_n :: "nat \<Rightarrow> nat \<Rightarrow> string" where
  "digits_n 0 v = []"
| "digits_n (Suc n) v = digits_n n (v div 10) @ [digit_char (v mod 10)]"

definition fmt_frac :: "nat \<Rightarrow> nat \<Rightarrow> string" where
  "fmt_frac v prec =
     (let ds = rev (dropWhile (\<lambda>c. c = CHR ''0'') (rev (digits_n prec (v mod 10 ^ prec))))
      in if ds = [] then [] else ''.'' @ ds)"

definition micro_sign :: string where
  "micro_sign = [CHR 0xC2, CHR 0xB5]"

definition duration_abs :: "nat \<Rightarrow> string" where
  "duration_abs u =
     (if u = 0 then ''0s''
      else if u < 1000 then utoa u @ ''ns''
      else if u < 1000000 then utoa (u div 1000) @ fmt_frac u 3 @ micro_sign @ ''s''
      else if u < 1000000000 then utoa (u div 1000000) @ fmt_frac u 6 @ ''ms''
      else let s = u div 1000000000; m = s div 60; h = m div 60
           in (if 0 < h then utoa h @ ''h'' else [])
              @ (if 0 < m then utoa (m mod 60) @ ''m'' else [])
              @ utoa (s mod 60) @ fmt_frac u 9 @ ''s'')"

definition duration_String :: "duration \<Rightarrow> string" where
  "duration_String d = (if d < 0 then ''-'' @ duration_abs (nat (- d)) else duration_abs (nat d))"

text \<open>\<open>Round\<close> to a multiple of \<open>m\<close>, halves away from zero, saturating.\<close>

definition duration_Round :: "duration \<Rightarrow> duration \<Rightarrow> duration" where
  "duration_Round d m =
     (if m \<le> 0 then d
      else if d < 0 then
        let r = - go_mod d m; d1 = d - m + r
        in if 2 * r < m then d + r else if - (2 ^ 63) \<le> d1 then d1 else - (2 ^ 63)
      else let r = go_mod d m; d1 = d + m - r
           in if 2 * r < m then d - r else if d1 < 2 ^ 63 then d1 else 2 ^ 63 - 1)"

lemma duration_Round_near:
  assumes "0 \<le> d" and "d + m < 2 ^ 63" and "0 < m"
  shows "m dvd duration_Round d m \<and> 2 * \<bar>duration_Round d m - d\<bar> \<le> m"
proof -
  define r where "r = d mod m"
  have r: "0 \<le> r" "r < m" using assms(3) by (simp_all add: r_def)
  have dvd: "m dvd d - r" by (simp add: r_def)
  have "d + m - r = (d - r) + m" by simp
  then have dvd': "m dvd d + m - r" using dvd by (metis dvd_add dvd_refl)
  have "duration_Round d m = (if 2 * r < m then d - r else d + m - r)"
    using assms r by (simp add: duration_Round_def go_mod_nonneg r_def [symmetric] Let_def)
  then show ?thesis using dvd dvd' r by auto
qed

text \<open>\<open>%-16s\<close>, \<open>%5d\<close> and \<open>%02d\<close>.\<close>

definition pad_right :: "nat \<Rightarrow> string \<Rightarrow> string" where
  "pad_right n s = s @ replicate (n - length s) CHR '' ''"

definition pad_left :: "nat \<Rightarrow> string \<Rightarrow> string" where
  "pad_left n s = replicate (n - length s) CHR '' '' @ s"

definition two_digits :: "int \<Rightarrow> string" where
  "two_digits i = (let s = itoa i in if length s < 2 then ''0'' @ s else s)"

end
