(* ===== verification/Citrun_Status.thy ===== *)
theory Citrun_Status
  imports Citrun_Run_Loop Go_Time
begin

text \<open>
  \<open>cmd/citrun/status.go\<close>: the views of a run that are derived from its saved state alone.  The
  lemmas relate the occupancy they show to the counters of the scheduler that wrote the state.
\<close>

text \<open>
  The records in the order of the run; every function of the file visits all of them, and
  dereferences each, so \<open>None\<close> is their common panic.
\<close>

fun all_some :: "'a option list \<Rightarrow> 'a list option" where
  "all_some [] = Some []"
| "all_some (x # xs) =
     (case x of None \<Rightarrow> None | Some y \<Rightarrow> (case all_some xs of None \<Rightarrow> None | Some ys \<Rightarrow> Some (y # ys)))"

definition order_records :: "run_state \<Rightarrow> job_record list option" where
  "order_records st = all_some (map (rs_Jobs st) (rs_Order st))"

fun status_string :: "job_status \<Rightarrow> string" where
  "status_string StatusQueued = ''queued''"
| "status_string StatusRunning = ''running''"
| "status_string StatusPassed = ''passed''"
| "status_string StatusFailedReal = ''failed_real''"
| "status_string StatusFailedInfra = ''failed_infra''"
| "status_string StatusQuarantined = ''skipped_quarantine''"

definition statusOrder :: "job_status list" where
  "statusOrder = [StatusPassed, StatusFailedReal, StatusFailedInfra, StatusQuarantined,
     StatusRunning, StatusQueued]"

definition count_status :: "job_record list \<Rightarrow> job_status \<Rightarrow> nat" where
  "count_status recs s = length (filter (\<lambda>rec. jr_Status rec = s) recs)"

definition status_parts :: "job_record list \<Rightarrow> string list" where
  "status_parts recs =
     map (\<lambda>s. status_string s @ '' '' @ itoa (int (count_status recs s)))
       (filter (\<lambda>s. 0 < count_status recs s) statusOrder)"

definition statusCounts :: "run_state \<Rightarrow> string list option" where
  "statusCounts st = map_option status_parts (order_records st)"

subsection \<open>Occupancy\<close>

definition open_attempt :: "job_record \<Rightarrow> bool" where
  "open_attempt rec \<longleftrightarrow> jr_Attempts rec \<noteq> [] \<and> a_Result (last (jr_Attempts rec)) = ''running''"

definition open_region :: "job_record \<Rightarrow> string" where
  "open_region rec = zoneRegion (a_Zone (last (jr_Attempts rec)))"

record occupancy =
  oc_regions :: "string list"
  oc_running :: "string \<Rightarrow> int"
  oc_cpus :: "string \<Rightarrow> int"

definition occupy :: "job_record \<Rightarrow> occupancy \<Rightarrow> occupancy" where
  "occupy rec oc =
     (if \<not> open_attempt rec then oc
      else let r = open_region rec
           in \<lparr>oc_regions = (if oc_running oc r = 0 then oc_regions oc @ [r] else oc_regions oc),
               oc_running = (oc_running oc)(r := oc_running oc r + 1),
               oc_cpus = (oc_cpus oc)(r := oc_cpus oc r + j_CPUCost (jr_Job rec))\<rparr>)"

definition occupancy_of :: "job_record list \<Rightarrow> occupancy" where
  "occupancy_of recs =
     (let oc = fold occupy recs \<lparr>oc_regions = [], oc_running = (\<lambda>_. 0), oc_cpus = (\<lambda>_. 0)\<rparr>
      in oc\<lparr>oc_regions := sort (oc_regions oc)\<rparr>)"

definition regionOccupancy :: "run_state \<Rightarrow> occupancy option" where
  "regionOccupancy st = map_option occupancy_of (order_records st)"

subsection \<open>Cooldowns and the estimate\<close>

text \<open>\<open>keys\<close> is the order in which the map is visited.\<close>

definition activeCooldowns :: "string list \<Rightarrow> run_state \<Rightarrow> time \<Rightarrow> string list" where
  "activeCooldowns keys st now =
     map (\<lambda>k. k @ '' '' @ itoa (go_div (get_time (rs_Cooldowns st) k - now) second) @ ''s'')
       (filter (\<lambda>k. now < get_time (rs_Cooldowns st) k) (sort keys))"

definition eta_of :: "job_record list \<Rightarrow> duration" where
  "eta_of recs =
     (let total = fold (\<lambda>rec sum. if jr_Status rec = StatusQueued then wrap64 (sum + j_Est (jr_Job rec))
                               else sum) recs 0;
          running = int (count_status recs StatusRunning);
          running' = (if running < 1 then 1 else running)
      in duration_Round (go_div total running') second)"

definition eta :: "run_state \<Rightarrow> duration option" where
  "eta st = map_option eta_of (order_records st)"

subsection \<open>The excluded zones\<close>

definition excluded_line :: "excluded_zone \<Rightarrow> string" where
  "excluded_line e =
     (let parts = map (\<lambda>(k, u). k @ ''='' @ itoa u) (sort_key fst (ez_Usable e));
          parts' = (if ez_Missing e \<noteq> [] then parts @ [ez_Missing e @ '' missing''] else parts)
      in ''  '' @ ez_Shape e @ '' '' @ ez_Zone e @ '': needs '' @ itoa (ez_CPUCost e)
         @ '' vCPU; usable '' @ Join '', '' parts' @ newline)"

definition renderExcludedZones :: "config option \<Rightarrow> run_state \<Rightarrow> string" where
  "renderExcludedZones cfg st =
     (case cfg of
        None \<Rightarrow> []
      | Some c \<Rightarrow>
          (case excludedZones c st of (excl, zeroFit) \<Rightarrow>
             ''excluded zones (never budget-feasible; skipped by sweeps):'' @ newline
             @ (if excl = [] then ''  none'' @ newline else [])
             @ concat (map excluded_line (take 10 excl))
             @ (if 10 < length excl
                then ''  ...and '' @ itoa (int (length excl - 10)) @ '' more'' @ newline else [])
             @ (if 0 < zeroFit
                then ''  WARNING: '' @ itoa (int zeroFit)
                     @ '' job(s) have no feasible zone at all'' @ newline else [])
             @ newline))"

subsection \<open>The views\<close>

definition region_lines :: "occupancy \<Rightarrow> string" where
  "region_lines oc =
     (if oc_regions oc = [] then ''  none'' @ newline else [])
     @ concat (map (\<lambda>r. ''  '' @ r @ '': '' @ itoa (oc_running oc r) @ '' running, ''
                       @ itoa (oc_cpus oc r) @ '' cpus'' @ newline) (oc_regions oc))"

definition RenderStatus :: "config option \<Rightarrow> string list \<Rightarrow> run_state \<Rightarrow> time \<Rightarrow> string option" where
  "RenderStatus cfg keys st now =
     (case order_records st of
        None \<Rightarrow> None
      | Some recs \<Rightarrow>
          let cds = activeCooldowns keys st now
          in Some (''run '' @ rs_RunID st @ newline @ newline
               @ ''jobs: '' @ Join ''  '' (status_parts recs) @ newline @ newline
               @ ''regions:'' @ newline @ region_lines (occupancy_of recs) @ newline
               @ ''cooldowns:'' @ newline
               @ (if cds = [] then ''  none'' @ newline
                  else concat (map (\<lambda>c. ''  '' @ c @ newline) cds)) @ newline
               @ renderExcludedZones cfg st
               @ ''ETA ~'' @ duration_String (eta_of recs) @ newline))"

definition RenderTicker :: "run_state \<Rightarrow> string option" where
  "RenderTicker st =
     (case order_records st of
        None \<Rightarrow> None
      | Some recs \<Rightarrow>
          let n = (\<lambda>s. int (count_status recs s));
              pass = n StatusPassed; real = n StatusFailedReal; infra = n StatusFailedInfra
          in Some (''queued '' @ itoa (n StatusQueued) @ '' | running '' @ itoa (n StatusRunning)
               @ '' | done '' @ itoa (pass + real + infra) @ '' (pass '' @ itoa pass
               @ '' / real '' @ itoa real @ '' / infra '' @ itoa infra
               @ '') | ETA ~'' @ duration_String (eta_of recs)))"

text \<open>\<open>cmdStatus\<close> without \<open>-watch\<close>: what is printed, \<open>None\<close> for exit status 2.\<close>

definition cmdStatus ::
  "load_error + config \<Rightarrow> string list \<Rightarrow> time \<Rightarrow> run_files \<Rightarrow> state_error + string option" where
  "cmdStatus loaded keys now f =
     (let cfg = (case loaded of Inl _ \<Rightarrow> None | Inr c \<Rightarrow> Some c)
      in case LoadState f of
           Inl e \<Rightarrow> Inl e
         | Inr st \<Rightarrow> Inr (RenderStatus cfg keys st now))"

subsection \<open>The records of a well-formed run\<close>

lemma all_some_Some: "all_some xs = Some ys \<longleftrightarrow> xs = map Some ys"
proof (induction xs arbitrary: ys)
  case (Cons x xs)
  then show ?case by (cases x; cases "all_some xs") (fastforce simp: Cons_eq_map_conv)+
qed auto

lemma order_records_wf:
  assumes "wf_run st"
  shows "order_records st = Some (map (\<lambda>i. the (rs_Jobs st i)) (rs_Order st))"
proof -
  have "map (rs_Jobs st) (rs_Order st) = map Some (map (\<lambda>i. the (rs_Jobs st i)) (rs_Order st))"
    using wf_run_lookup [OF assms] by (auto intro!: map_cong)
  then show ?thesis by (simp add: order_records_def all_some_Some)
qed

text \<open>Every job is in exactly one of the counted states.\<close>

lemma count_status_total: "(\<Sum>s \<leftarrow> statusOrder. count_status recs s) = length recs"
proof (induction recs)
  case (Cons rec recs)
  have "count_status (rec # recs) s = count_status recs s + (if jr_Status rec = s then 1 else 0)" for s
    by (simp add: count_status_def)
  then show ?case using Cons.IH by (cases "jr_Status rec") (simp_all add: statusOrder_def)
qed (simp add: statusOrder_def count_status_def)

subsection \<open>Occupancy and the scheduler's counters\<close>

definition open_in :: "string \<Rightarrow> job_record \<Rightarrow> bool" where
  "open_in r rec \<longleftrightarrow> open_attempt rec \<and> open_region rec = r"

lemma fold_occupy:
  "oc_running (fold occupy recs oc) r = oc_running oc r + int (length (filter (open_in r) recs))
   \<and> oc_cpus (fold occupy recs oc) r =
       oc_cpus oc r + (\<Sum>rec \<leftarrow> filter (open_in r) recs. j_CPUCost (jr_Job rec))"
  by (induction recs arbitrary: oc) (simp_all add: occupy_def Let_def open_in_def)

lemma occupancy_of_counts:
  "oc_running (occupancy_of recs) r = int (length (filter (open_in r) recs))"
  "oc_cpus (occupancy_of recs) r = (\<Sum>rec \<leftarrow> filter (open_in r) recs. j_CPUCost (jr_Job rec))"
  using fold_occupy [of recs _ r] by (simp_all add: occupancy_of_def Let_def)

lemma fold_occupy_regions:
  "(\<forall>r. 0 \<le> oc_running oc r) \<Longrightarrow> (\<forall>r. r \<in> set (oc_regions oc) \<longleftrightarrow> oc_running oc r \<noteq> 0) \<Longrightarrow>
     distinct (oc_regions oc) \<Longrightarrow>
     (\<forall>r. r \<in> set (oc_regions (fold occupy recs oc)) \<longleftrightarrow> oc_running (fold occupy recs oc) r \<noteq> 0)
     \<and> distinct (oc_regions (fold occupy recs oc))"
proof (induction recs arbitrary: oc)
  case (Cons rec recs)
  have a: "\<forall>r. 0 \<le> oc_running (occupy rec oc) r"
    using Cons.prems(1) by (auto simp: occupy_def Let_def)
  have b: "\<forall>r. r \<in> set (oc_regions (occupy rec oc)) \<longleftrightarrow> oc_running (occupy rec oc) r \<noteq> 0"
    using Cons.prems(1,2) by (auto simp: occupy_def Let_def add_nonneg_eq_0_iff)
  have "distinct (oc_regions (occupy rec oc))"
    using Cons.prems(2,3) by (simp add: occupy_def Let_def)
  with Cons.IH [OF a b] show ?case by simp
qed simp

lemma occupancy_of_regions:
  "sorted (oc_regions (occupancy_of recs)) \<and> distinct (oc_regions (occupancy_of recs))
   \<and> set (oc_regions (occupancy_of recs)) = open_region ` {rec \<in> set recs. open_attempt rec}"
proof -
  define oc where "oc = fold occupy recs \<lparr>oc_regions = [], oc_running = (\<lambda>_. 0), oc_cpus = (\<lambda>_. 0)\<rparr>"
  have r: "r \<in> set (oc_regions oc) \<longleftrightarrow> oc_running oc r \<noteq> 0" and d: "distinct (oc_regions oc)" for r
    using fold_occupy_regions [of "\<lparr>oc_regions = [], oc_running = (\<lambda>_. 0), oc_cpus = (\<lambda>_. 0)\<rparr>" recs]
    by (simp_all add: oc_def)
  have "oc_running oc r \<noteq> 0 \<longleftrightarrow> (\<exists>rec \<in> set recs. open_in r rec)" for r
    using fold_occupy [of recs "\<lparr>oc_regions = [], oc_running = (\<lambda>_. 0), oc_cpus = (\<lambda>_. 0)\<rparr>" r]
    by (simp add: oc_def filter_empty_conv)
  with r have "set (oc_regions oc) = open_region ` {rec \<in> set recs. open_attempt rec}"
    by (auto simp: open_in_def)
  with d show ?thesis by (simp add: occupancy_of_def Let_def flip: oc_def)
qed

text \<open>The open attempts are the attempts in flight.\<close>

definition settled :: "run_state \<Rightarrow> bool" where
  "settled st \<longleftrightarrow> (\<forall>rec \<in> ran (rs_Jobs st). jr_Status rec \<noteq> StatusRunning \<longrightarrow> \<not> open_attempt rec)"

lemma inflight_records:
  assumes inv: "sched_inv cfg s" and st: "settled (sc_st s)"
  shows "(\<lambda>x. j_ID (fl_Job x)) ` {x \<in> set (sc_inflight s). zoneRegion (fl_Zone x) = r} =
      {i \<in> set (rs_Order (sc_st s)). open_in r (the (rs_Jobs (sc_st s) i))}"
    and "x \<in> set (sc_inflight s) \<Longrightarrow> jr_Job (the (rs_Jobs (sc_st s) (j_ID (fl_Job x)))) = fl_Job x"
proof -
  note inv' = sched_invD [OF inv]
  have dom: "dom (rs_Jobs (sc_st s)) = set (rs_Order (sc_st s))" using inv'(1) by (simp add: wf_run_def)
  show "jr_Job (the (rs_Jobs (sc_st s) (j_ID (fl_Job x)))) = fl_Job x" if "x \<in> set (sc_inflight s)" for x
    using flights_okD [OF inv'(3) that] by (metis option.sel)
  have up: "j_ID (fl_Job x) \<in> set (rs_Order (sc_st s))
      \<and> open_in (zoneRegion (fl_Zone x)) (the (rs_Jobs (sc_st s) (j_ID (fl_Job x))))"
    if x: "x \<in> set (sc_inflight s)" for x
  proof -
    from flights_okD [OF inv'(3) x] obtain rec where
      r: "rs_Jobs (sc_st s) (j_ID (fl_Job x)) = Some rec" "jr_Attempts rec \<noteq> []"
        "last (jr_Attempts rec) = new_attempt (fl_Zone x) (fl_Start x)" by metis
    then have "j_ID (fl_Job x) \<in> dom (rs_Jobs (sc_st s))" by blast
    with r dom show ?thesis
      by (simp add: open_in_def open_attempt_def open_region_def new_attempt_def)
  qed
  have down: "\<exists>x \<in> set (sc_inflight s). i = j_ID (fl_Job x) \<and> zoneRegion (fl_Zone x) = r"
    if i: "i \<in> set (rs_Order (sc_st s))" "open_in r (the (rs_Jobs (sc_st s) i))" for i
  proof -
    obtain rec where rec: "rs_Jobs (sc_st s) i = Some rec" using wf_run_lookup [OF inv'(1) i(1)] ..
    have o: "open_in r rec" using i(2) rec by simp
    then have "jr_Status rec = StatusRunning"
      using st rec by (auto simp: settled_def open_in_def intro: ranI)
    then obtain x where x: "x \<in> set (sc_inflight s)" "i = j_ID (fl_Job x)"
      using inv'(3) rec by (fastforce simp: flights_ok_def)
    have "last (jr_Attempts rec) = new_attempt (fl_Zone x) (fl_Start x)"
      using flights_okD [OF inv'(3) x(1)] x(2) rec by (metis option.inject)
    then show ?thesis using o x by (auto simp: open_in_def open_region_def new_attempt_def)
  qed
  show "(\<lambda>x. j_ID (fl_Job x)) ` {x \<in> set (sc_inflight s). zoneRegion (fl_Zone x) = r} =
      {i \<in> set (rs_Order (sc_st s)). open_in r (the (rs_Jobs (sc_st s) i))}"
    using up down by blast
qed

lemma occupancy_cpus:
  assumes inv: "sched_inv cfg s" and st: "settled (sc_st s)"
    and oc: "regionOccupancy (sc_st s) = Some oc"
  shows "oc_cpus oc r = sc_usedCPU s r CPUS"
proof -
  note inv' = sched_invD [OF inv]
  define J where "J = (\<lambda>i. the (rs_Jobs (sc_st s) i))"
  define F where "F = {x \<in> set (sc_inflight s). zoneRegion (fl_Zone x) = r}"
  have dist: "distinct (rs_Order (sc_st s))" using inv'(1) by (simp add: wf_run_def)
  have dfl: "distinct (map (\<lambda>x. j_ID (fl_Job x)) (sc_inflight s))"
    using inv'(3) by (simp add: flights_ok_def)
  then have inj: "inj_on (\<lambda>x. j_ID (fl_Job x)) F" and dfl': "distinct (sc_inflight s)"
    by (auto simp: distinct_map F_def inj_on_def)
  have "oc = occupancy_of (map J (rs_Order (sc_st s)))"
    using oc by (simp add: regionOccupancy_def order_records_wf [OF inv'(1)] J_def)
  then have "oc_cpus oc r = (\<Sum>i \<leftarrow> filter (\<lambda>i. open_in r (J i)) (rs_Order (sc_st s)). j_CPUCost (jr_Job (J i)))"
    by (simp add: occupancy_of_counts filter_map o_def)
  also have "\<dots> = (\<Sum>i \<in> {i \<in> set (rs_Order (sc_st s)). open_in r (J i)}. j_CPUCost (jr_Job (J i)))"
    using dist by (simp add: sum_list_distinct_conv_sum_set)
  also have "\<dots> = (\<Sum>i \<in> (\<lambda>x. j_ID (fl_Job x)) ` F. j_CPUCost (jr_Job (J i)))"
    using inflight_records(1) [OF inv st, of r] by (simp add: F_def J_def)
  also have "\<dots> = (\<Sum>x \<in> F. j_CPUCost (jr_Job (J (j_ID (fl_Job x)))))"
    using inj by (simp add: sum.reindex)
  also have "\<dots> = (\<Sum>x \<in> F. j_CPUCost (fl_Job x))"
    using inflight_records(2) [OF inv st] by (intro sum.cong) (simp_all add: F_def J_def)
  also have "\<dots> = (\<Sum>x \<in> set (sc_inflight s). lease_cost cfg x (Cpus r CPUS))"
    by (rule sum.mono_neutral_cong_left) (auto simp: F_def budgetKeys_eq budgetKeysFor_CPUS)
  also have "\<dots> = lg.used cfg (sc_inflight s) (Cpus r CPUS)"
    using dfl' by (simp add: lg.used_def sum_list_distinct_conv_sum_set)
  also have "\<dots> = sc_usedCPU s r CPUS"
    using inv'(4) by (simp add: accounted_def) (metis in_use.simps(4))
  finally show ?thesis .
qed

subsection \<open>Properties\<close>

text \<open>The status view agrees with the scheduler: in a reachable state whose finished attempts are
  closed, the CPUs per region that \<open>regionOccupancy\<close> reads off the saved state are the
  scheduler's own counters of the CPUS budget, and the regions listed are those with an open
  attempt, each once and in order.\<close>

theorem occupancy_matches_scheduler:
  assumes "run_reachable cfg (start_world now keys ids st files) w" and "startable st"
    and "settled (sc_st (w_sched w))"
  shows "\<exists>oc. regionOccupancy (sc_st (w_sched w)) = Some oc
    \<and> (\<forall>r. oc_cpus oc r = sc_usedCPU (w_sched w) r CPUS)
    \<and> sorted (oc_regions oc) \<and> distinct (oc_regions oc)"
proof -
  note inv = reachable_inv [OF assms(1,2)]
  obtain recs where recs: "order_records (sc_st (w_sched w)) = Some recs"
    using order_records_wf [OF sched_invD(1) [OF inv]] by blast
  then have oc: "regionOccupancy (sc_st (w_sched w)) = Some (occupancy_of recs)"
    by (simp add: regionOccupancy_def)
  show ?thesis
    using oc occupancy_cpus [OF inv assms(3) oc] occupancy_of_regions [of recs] by blast
qed

theorem occupancy_matches_scheduler_witness:
  "\<exists>oc. regionOccupancy (sc_st (w_sched (start_world 0 [] [] (NewRunState ''r'' 0 []) (example_files (NewRunState ''r'' 0 [])))))
     = Some oc \<and> oc_cpus oc ''us-east1'' = 0"
proof -
  define st where "st = NewRunState ''r'' 0 []"
  have s: "startable st" unfolding st_def by (rule NewRunState_startable) simp_all
  have "rs_Jobs st = Map.empty" by (simp add: st_def NewRunState_def)
  then have c: "settled (sc_st (w_sched (start_world 0 [] [] st (example_files st))))"
    by (simp add: settled_def start_world_def NewScheduler_def)
  have z: "sc_usedCPU (w_sched (start_world 0 [] [] st (example_files st))) ''us-east1'' CPUS = 0"
    by (simp add: start_world_def NewScheduler_def)
  show ?thesis
    using occupancy_matches_scheduler [OF Start [of example_config] s c] z by (auto simp: st_def)
qed

text \<open>Every job is counted under exactly one status: the counts of the six statuses add up to
  the number of jobs of the run.\<close>

theorem status_counts_total:
  assumes "order_records st = Some recs"
  shows "(\<Sum>s \<leftarrow> statusOrder. count_status recs s) = length (rs_Order st)"
proof -
  have "map (rs_Jobs st) (rs_Order st) = map Some recs"
    using assms by (simp add: order_records_def all_some_Some)
  then have "length recs = length (rs_Order st)" by (metis length_map)
  then show ?thesis by (simp add: count_status_total)
qed

theorem status_counts_total_witness:
  "(\<Sum>s \<leftarrow> statusOrder. count_status [new_record example_job] s) = 1"
proof -
  have "order_records (NewRunState ''r'' 0 [example_job]) = Some [new_record example_job]"
    by (simp add: order_records_def all_some_Some NewRunState_Jobs)
  from status_counts_total [OF this] show ?thesis by simp
qed

end
