(* ===== verification/Citrun_Report.thy ===== *)
theory Citrun_Report
  imports Citrun_Status
begin

text \<open>
  \<open>cmd/citrun/report.go\<close>: the markdown report and its CSV export.  \<open>junit\<close> is what the parser
  of a job's report yields: for each test case its name and, when it failed, the message and the
  data of the failure; \<open>None\<close> when the file is missing or malformed.  Wall-clock seconds are
  durations, and their sums are exact.  The lemmas show what each section lists, and that a CSV
  row can be read back whatever text its fields hold.
\<close>

type_synonym junit_cases = "(string \<times> (string \<times> string) option) list"

fun failed_cases :: "junit_cases \<Rightarrow> string list \<times> string \<Rightarrow> string list \<times> string" where
  "failed_cases [] acc = acc"
| "failed_cases ((name, None) # cs) acc = failed_cases cs acc"
| "failed_cases ((name, Some (message, data)) # cs) (names, detail) =
     (let d = (if detail = [] then (if TrimSpace data = [] then message else TrimSpace data)
               else detail)
      in failed_cases cs (names @ [name], d))"

definition junitFailedTests ::
  "(string \<Rightarrow> junit_cases list option) \<Rightarrow> string \<Rightarrow> string list \<times> string" where
  "junitFailedTests junit jobID =
     (case junit jobID of
        None \<Rightarrow> ([], [])
      | Some suites \<Rightarrow> failed_cases (concat suites) ([], []))"

definition attemptWallSum :: "attempt list \<Rightarrow> duration" where
  "attemptWallSum attempts = fold (\<lambda>a sum. sum + a_Wall a) attempts 0"

definition attemptZones :: "attempt list \<Rightarrow> string list" where
  "attemptZones attempts = map a_Zone attempts"

text \<open>Seconds rounded to an integer: halves to even (\<open>%.0f\<close>), halves away from zero (\<open>math.Round\<close>).\<close>

definition seconds_even :: "duration \<Rightarrow> int" where
  "seconds_even d =
     (let q = d div second; r = d mod second
      in if second < 2 * r \<or> (2 * r = second \<and> odd q) then q + 1 else q)"

definition seconds_round :: "duration \<Rightarrow> int" where
  "seconds_round d = sgn d * ((2 * \<bar>d\<bar> + second) div (2 * second))"

subsection \<open>The sections of the report\<close>

definition line :: "string \<Rightarrow> string" where
  "line s = s @ newline"

definition or_none :: "string list \<Rightarrow> string" where
  "or_none ls = (if ls = [] then line ''none'' else concat ls)"

fun dedup :: "string list \<Rightarrow> string list \<Rightarrow> string list" where
  "dedup seen [] = []"
| "dedup seen (x # xs) = (if x \<in> set seen then dedup seen xs else x # dedup (x # seen) xs)"

definition writePerConfigSummary :: "job_record list \<Rightarrow> string" where
  "writePerConfigSummary recs =
     line ''## Per-Config Summary'' @ newline
     @ concat (map (\<lambda>c. line (''- '' @ c @ '': ''
          @ Join '', '' (status_parts (filter (\<lambda>rec. j_Config (jr_Job rec) = c) recs))))
        (sort (dedup [] (map (\<lambda>rec. j_Config (jr_Job rec)) recs))))
     @ newline"

definition job_title :: "string \<Rightarrow> job_record \<Rightarrow> string" where
  "job_title i rec = ''- '' @ i @ '' ('' @ j_Config (jr_Job rec) @ ''/'' @ j_BaseImage (jr_Job rec)
     @ ''/'' @ j_Shape (jr_Job rec) @ ''/'' @ j_Suite (jr_Job rec) @ ''): ''"

definition real_failure :: "(string \<Rightarrow> junit_cases list option) \<Rightarrow> string \<times> job_record \<Rightarrow> string" where
  "real_failure junit = (\<lambda>(i, rec).
     let (names, detail) = junitFailedTests junit i;
         detail' = (if detail = [] then ''(no junit failure message found)'' else detail)
     in line (job_title i rec @ detail')
        @ (if 1 < length names then
             concat (map (\<lambda>n. line (''    '' @ n)) names)
             @ line (''    ('' @ itoa (int (length names)) @ '' failed tests)'')
           else if length names = 1 then []
           else line ''    (no junit failure details)''))"

definition writeRealFailures ::
  "(string \<Rightarrow> junit_cases list option) \<Rightarrow> (string \<times> job_record) list \<Rightarrow> string" where
  "writeRealFailures junit jobs =
     line ''## Real Failures'' @ newline
     @ or_none (map (real_failure junit)
         (filter (\<lambda>(i, rec). jr_Status rec = StatusFailedReal) jobs))
     @ newline"

definition last_attempt :: "(attempt \<Rightarrow> string) \<Rightarrow> job_record \<Rightarrow> string" where
  "last_attempt f rec = (if jr_Attempts rec = [] then [] else f (last (jr_Attempts rec)))"

definition writeInfraFailures :: "(string \<times> job_record) list \<Rightarrow> string" where
  "writeInfraFailures jobs =
     line ''## Infra Failures'' @ newline
     @ or_none (map (\<lambda>(i, rec). line (job_title i rec @ last_attempt a_Result rec @ '' ''
                                   @ last_attempt a_Detail rec))
         (filter (\<lambda>(i, rec). jr_Status rec = StatusFailedInfra) jobs))
     @ newline"

text \<open>The slowest passed jobs: a stable sort, longest first, cut to \<open>topN\<close> unless that is negative.\<close>

definition slowest :: "int \<Rightarrow> (string \<times> job_record) list \<Rightarrow> (string \<times> duration) list" where
  "slowest topN jobs =
     (let all = map (\<lambda>(i, rec). (i, attemptWallSum (jr_Attempts rec)))
                  (filter (\<lambda>(i, rec). jr_Status rec = StatusPassed) jobs);
          sorted = sort_key (\<lambda>x. - snd x) all
      in if 0 \<le> topN \<and> topN < int (length sorted) then take (nat topN) sorted else sorted)"

definition writeSlowestPassed :: "int \<Rightarrow> (string \<times> job_record) list \<Rightarrow> string" where
  "writeSlowestPassed topN jobs =
     line (''## Slowest '' @ itoa topN @ '' Passed Jobs'') @ newline
     @ or_none (map (\<lambda>(i, d). line (''- '' @ i @ '': '' @ itoa (seconds_even d) @ ''s''))
         (slowest topN jobs))
     @ newline"

definition writeFlakes :: "(string \<times> job_record) list \<Rightarrow> string" where
  "writeFlakes jobs =
     line ''## Flakes'' @ newline
     @ or_none (map (\<lambda>(i, rec). line (''- '' @ i @ '': ''
           @ Join '', '' (map (\<lambda>a. a_Zone a @ ''='' @ a_Result a) (jr_Attempts rec))))
         (filter (\<lambda>(i, rec). jr_Status rec = StatusPassed \<and> 1 < length (jr_Attempts rec)) jobs))
     @ newline"

text \<open>The keys under which the stockouts are counted, one per stockout.\<close>

definition stockout_keys :: "(job_record \<Rightarrow> attempt \<Rightarrow> string) \<Rightarrow> job_record list \<Rightarrow> string list" where
  "stockout_keys key recs =
     concat (map (\<lambda>rec. map (key rec) (filter (\<lambda>a. a_Result a = ClassStockout) (jr_Attempts rec))) recs)"

definition writeCountSection :: "string \<Rightarrow> string list \<Rightarrow> string" where
  "writeCountSection header keys =
     line header @ newline
     @ or_none (map (\<lambda>k. line (''- '' @ k @ '': '' @ itoa (int (count_list keys k))))
         (sort (dedup [] keys)))
     @ newline"

definition writeStockouts :: "job_record list \<Rightarrow> string" where
  "writeStockouts recs =
     writeCountSection ''## Stockouts by Region''
       (stockout_keys (\<lambda>rec a. zoneRegion (a_Zone a)) recs)
     @ writeCountSection ''## Stockouts by Shape''
       (stockout_keys (\<lambda>rec a. j_Shape (jr_Job rec)) recs)
     @ writeCountSection ''## Stockouts by Shape/Region''
       (stockout_keys (\<lambda>rec a. j_Shape (jr_Job rec) @ ''/'' @ zoneRegion (a_Zone a)) recs)"

subsection \<open>The CSV export\<close>

text \<open>The writer of \<open>encoding/csv\<close>: which fields it quotes, and how.\<close>

definition csv_quote :: char where "csv_quote = CHR 0x22"
definition csv_comma :: char where "csv_comma = CHR '',''"
definition csv_lf :: char where "csv_lf = CHR 0x0A"
definition csv_cr :: char where "csv_cr = CHR 0x0D"

definition fieldNeedsQuotes :: "string \<Rightarrow> bool" where
  "fieldNeedsQuotes f =
     (f \<noteq> []
      \<and> (f = [CHR 0x5C, CHR ''.'']
         \<or> csv_comma \<in> set f \<or> csv_quote \<in> set f \<or> csv_cr \<in> set f \<or> csv_lf \<in> set f
         \<or> is_space (hd f)))"

definition csv_escape :: "string \<Rightarrow> string" where
  "csv_escape f = concat (map (\<lambda>c. if c = csv_quote then [csv_quote, csv_quote] else [c]) f)"

definition csv_field :: "string \<Rightarrow> string" where
  "csv_field f = (if fieldNeedsQuotes f then csv_quote # csv_escape f @ [csv_quote] else f)"

definition csv_row :: "string list \<Rightarrow> string" where
  "csv_row cols = Join [csv_comma] (map csv_field cols) @ newline"

definition csv_reason ::
  "(string \<Rightarrow> junit_cases list option) \<Rightarrow> string \<Rightarrow> job_record \<Rightarrow> string" where
  "csv_reason junit i rec =
     (case jr_Status rec of
        StatusQuarantined \<Rightarrow> j_Quarantined (jr_Job rec)
      | StatusFailedReal \<Rightarrow>
          (case junitFailedTests junit i of
             ([], _) \<Rightarrow> last_attempt a_Detail rec
           | (n # _, detail) \<Rightarrow> if detail \<noteq> [] then n @ '': '' @ detail else n)
      | StatusFailedInfra \<Rightarrow> last_attempt a_Detail rec
      | _ \<Rightarrow> [])"

definition csv_fields ::
  "(string \<Rightarrow> junit_cases list option) \<Rightarrow> string \<times> job_record \<Rightarrow> string list" where
  "csv_fields junit = (\<lambda>(i, rec).
     [j_Config (jr_Job rec), j_BaseImage (jr_Job rec), j_Shape (jr_Job rec), j_Suite (jr_Job rec),
      status_string (jr_Status rec), itoa (int (length (jr_Attempts rec))),
      itoa (seconds_round (attemptWallSum (jr_Attempts rec))),
      Join '' '' (attemptZones (jr_Attempts rec)), csv_reason junit i rec])"

definition csv_header :: "string list" where
  "csv_header = [''config'', ''image'', ''shape'', ''suite'', ''status'', ''attempts'',
     ''wall_seconds'', ''zones'', ''reason'']"

definition buildCSV :: "(string \<Rightarrow> junit_cases list option) \<Rightarrow> (string \<times> job_record) list \<Rightarrow> string" where
  "buildCSV junit jobs = concat (map csv_row (csv_header # map (csv_fields junit) jobs))"

definition BuildReport ::
  "(string \<Rightarrow> junit_cases list option) \<Rightarrow> run_state \<Rightarrow> int \<Rightarrow> (string \<times> string) option" where
  "BuildReport junit st topN =
     (case order_records st of
        None \<Rightarrow> None
      | Some recs \<Rightarrow>
          let jobs = zip (rs_Order st) recs
          in Some (line (''# citrun report: '' @ rs_RunID st) @ newline
               @ writePerConfigSummary recs
               @ writeRealFailures junit jobs
               @ writeInfraFailures jobs
               @ writeSlowestPassed topN jobs
               @ writeFlakes jobs
               @ writeStockouts recs,
             buildCSV junit jobs))"

text \<open>
  \<open>writeReportFiles\<close>: the second file is written only when the first was; the result says which
  writes happened, and whether there was an error.
\<close>

definition writeReportFiles :: "bool \<Rightarrow> bool \<Rightarrow> string \<times> string \<Rightarrow> bool \<times> string option \<times> string option" where
  "writeReportFiles md_ok csv_ok rep =
     (if \<not> md_ok then (False, None, None)
      else (csv_ok, Some (fst rep), if csv_ok then Some (snd rep) else None))"

text \<open>
  The command: \<open>topN\<close> is the flag, the list the arguments after the flags, \<open>f\<close> the files of the run
  directory they name.  The exit status, what is printed and the two files; \<open>None\<close>: a nil record.
\<close>

definition cmdReport ::
  "int \<Rightarrow> string list \<Rightarrow> run_files \<Rightarrow> (string \<Rightarrow> junit_cases list option) \<Rightarrow> bool \<Rightarrow> bool
     \<Rightarrow> (nat \<times> string \<times> string option \<times> string option) option" where
  "cmdReport topN args f junit md_ok csv_ok =
     (if length args \<noteq> 1 then Some (2, [], None, None)
      else (case LoadState f of
              Inl _ \<Rightarrow> Some (2, [], None, None)
            | Inr st \<Rightarrow>
                (case BuildReport junit st topN of
                   None \<Rightarrow> None
                 | Some rep \<Rightarrow>
                     (case writeReportFiles md_ok csv_ok rep of
                        (ok, md, csv) \<Rightarrow> Some (if ok then 0 else 2, fst rep @ newline, md, csv)))))"

subsection \<open>A CSV row can be read back\<close>

text \<open>
  The reader of the format: a field in quotes ends at a quote that is not doubled; a bare field
  ends at a comma or at the end of the line.
\<close>

datatype csv_state = Bare string | Quoted string | After string

fun csv_read :: "csv_state \<Rightarrow> string list \<Rightarrow> string \<Rightarrow> (string list \<times> string) option" where
  "csv_read (Bare f) fs [] = None"
| "csv_read (Bare f) fs (c # s) =
     (if c = csv_comma then csv_read (Bare []) (fs @ [f]) s
      else if c = csv_lf then Some (fs @ [f], s)
      else if c = csv_quote \<and> f = [] then csv_read (Quoted []) fs s
      else csv_read (Bare (f @ [c])) fs s)"
| "csv_read (Quoted f) fs [] = None"
| "csv_read (Quoted f) fs (c # s) =
     (if c = csv_quote then csv_read (After f) fs s else csv_read (Quoted (f @ [c])) fs s)"
| "csv_read (After f) fs [] = None"
| "csv_read (After f) fs (c # s) =
     (if c = csv_quote then csv_read (Quoted (f @ [c])) fs s
      else if c = csv_comma then csv_read (Bare []) (fs @ [f]) s
      else if c = csv_lf then Some (fs @ [f], s)
      else None)"

lemmas csv_chars = csv_comma_def csv_quote_def csv_lf_def csv_cr_def

lemma csv_read_escaped:
  "csv_read (Quoted f) fs (csv_escape g @ csv_quote # s) = csv_read (After (f @ g)) fs s"
proof (induction g arbitrary: f)
  case (Cons c g)
  then show ?case by (simp add: csv_escape_def csv_chars)
qed (simp add: csv_escape_def)

definition plain :: "string \<Rightarrow> bool" where
  "plain f \<longleftrightarrow> csv_comma \<notin> set f \<and> csv_quote \<notin> set f \<and> csv_lf \<notin> set f"

lemma csv_read_plain: "plain g \<Longrightarrow> csv_read (Bare f) fs (g @ s) = csv_read (Bare (f @ g)) fs s"
  by (induction g arbitrary: f) (auto simp: plain_def)

text \<open>A field followed by a comma or the end of the line.\<close>

lemma csv_read_field:
  assumes "c = csv_comma \<or> c = csv_lf"
  shows "csv_read (Bare []) fs (csv_field f @ c # s) =
    (if c = csv_comma then csv_read (Bare []) (fs @ [f]) s else Some (fs @ [f], s))"
proof (cases "fieldNeedsQuotes f")
  case True
  have "csv_read (Bare []) fs (csv_field f @ c # s) = csv_read (After f) fs (c # s)"
    using True csv_read_escaped [of "[]" fs f "c # s"] by (simp add: csv_field_def csv_chars)
  then show ?thesis using assms by (auto simp: csv_chars)
next
  case False
  then have "plain f" by (cases f) (auto simp: fieldNeedsQuotes_def plain_def)
  then show ?thesis
    using False csv_read_plain [of f "[]" fs "c # s"] assms by (auto simp: csv_field_def csv_chars)
qed

lemma csv_read_row:
  "cols \<noteq> [] \<Longrightarrow> csv_read (Bare []) fs (csv_row cols @ s) = Some (fs @ cols, s)"
proof (induction cols arbitrary: fs)
  case (Cons f cols)
  show ?case
  proof (cases cols)
    case Nil
    then show ?thesis
      using csv_read_field [of csv_lf fs f s] by (simp add: csv_row_def newline_def csv_chars)
  next
    case (Cons g gs)
    have "csv_row (f # cols) = csv_field f @ csv_comma # csv_row cols"
      using Cons by (simp add: csv_row_def)
    then show ?thesis
      using csv_read_field [of csv_comma fs f "csv_row cols @ s"] Cons.IH [of "fs @ [f]"] Cons
      by simp
  qed
qed simp

fun csv_read_all :: "nat \<Rightarrow> string \<Rightarrow> string list list option" where
  "csv_read_all n [] = Some []"
| "csv_read_all 0 (c # s) = None"
| "csv_read_all (Suc n) (c # s) =
     (case csv_read (Bare []) [] (c # s) of
        None \<Rightarrow> None
      | Some (row, r) \<Rightarrow> map_option (\<lambda>rows. row # rows) (csv_read_all n r))"

lemma csv_read_rows:
  "\<forall>row \<in> set rows. row \<noteq> [] \<Longrightarrow> length rows \<le> n \<Longrightarrow>
     csv_read_all n (concat (map csv_row rows)) = Some rows"
proof (induction rows arbitrary: n)
  case (Cons row rows)
  then obtain m where m: "n = Suc m" "length rows \<le> m" by (cases n) auto
  obtain c s where cs: "csv_row row @ concat (map csv_row rows) = c # s"
    by (cases "csv_row row @ concat (map csv_row rows)") (auto simp: csv_row_def newline_def)
  have "csv_read (Bare []) [] (c # s) = Some (row, concat (map csv_row rows))"
    using csv_read_row [of row "[]" "concat (map csv_row rows)"] Cons.prems(1) cs by simp
  then show ?case using Cons.IH [OF _ m(2)] Cons.prems(1) cs m(1) by simp
qed (cases n; simp)

lemma buildCSV_reads:
  "csv_read_all (Suc (length jobs)) (buildCSV junit jobs) =
     Some (csv_header # map (csv_fields junit) jobs)"
  unfolding buildCSV_def
  by (rule csv_read_rows) (auto simp: csv_header_def csv_fields_def)

subsection \<open>The counts add up\<close>

lemma dedup_set: "set (dedup seen xs) = set xs - set seen \<and> distinct (dedup seen xs)"
  by (induction xs arbitrary: seen) auto

lemma count_list_sum: "(\<Sum>k \<leftarrow> dedup [] keys. count_list keys k) = length keys"
proof -
  have "(\<Sum>k \<leftarrow> dedup [] keys. count_list keys k) = (\<Sum>k \<in> set keys. count_list keys k)"
    using dedup_set [of "[]" keys] by (simp add: sum_list_distinct_conv_sum_set)
  also have "\<dots> = length keys" by (rule sum_count_set) simp_all
  finally show ?thesis .
qed

text \<open>No passed job left out of the list is slower than one in it.\<close>

lemma slowest_spec:
  assumes "jobs' = filter (\<lambda>(i, rec). jr_Status rec = StatusPassed) jobs" and "0 \<le> topN"
  shows "length (slowest topN jobs) = min (nat topN) (length jobs')"
    and "set (slowest topN jobs) \<subseteq> (\<lambda>(i, rec). (i, attemptWallSum (jr_Attempts rec))) ` set jobs'"
    and "sorted (map (\<lambda>x. - snd x) (slowest topN jobs))"
proof -
  define al where "al = map (\<lambda>(i, rec). (i, attemptWallSum (jr_Attempts rec))) jobs'"
  have s: "slowest topN jobs = take (nat topN) (sort_key (\<lambda>x. - snd x) al)"
    using assms by (simp add: slowest_def al_def Let_def)
  show "length (slowest topN jobs) = min (nat topN) (length jobs')"
    by (simp add: s al_def)
  show "set (slowest topN jobs) \<subseteq> (\<lambda>(i, rec). (i, attemptWallSum (jr_Attempts rec))) ` set jobs'"
    unfolding s by (rule subset_trans [OF set_take_subset]) (simp add: al_def)
  show "sorted (map (\<lambda>x. - snd x) (slowest topN jobs))"
    unfolding s by (simp add: sorted_wrt_take flip: take_map)
qed

subsection \<open>Properties\<close>


text \<open>The list of the slowest passed jobs has the requested length (or all passed jobs, when
  there are fewer), holds only passed jobs with their total wall time, and is in descending
  order.\<close>

theorem slowest_passed:
  assumes "0 \<le> topN"
  shows "length (slowest topN jobs)
      = min (nat topN) (length (filter (\<lambda>(i, rec). jr_Status rec = StatusPassed) jobs))
    \<and> set (slowest topN jobs) \<subseteq> (\<lambda>(i, rec). (i, attemptWallSum (jr_Attempts rec)))
        ` set (filter (\<lambda>(i, rec). jr_Status rec = StatusPassed) jobs)
    \<and> sorted (rev (map snd (slowest topN jobs)))"
proof -
  note s = slowest_spec [OF refl assms, of jobs]
  have "sorted (rev xs)" if "sorted (map (\<lambda>x. - snd x) ys)" "xs = map snd ys" for xs :: "int list" and ys :: "(string \<times> int) list"
    using that by (simp add: sorted_wrt_map sorted_wrt_rev)
  then show ?thesis using s by blast
qed

definition passed_record :: "duration \<Rightarrow> job_record" where
  "passed_record d = (new_record example_job)\<lparr>jr_Status := StatusPassed,
     jr_Attempts := [(new_attempt ''us-east1-b'' 0)\<lparr>a_Wall := d\<rparr>]\<rparr>"

theorem slowest_passed_witness:
  "length (slowest 1 [(''a'', passed_record 5), (''b'', passed_record 7)]) = 1"
  using slowest_passed [of 1 "[(''a'', passed_record 5), (''b'', passed_record 7)]"]
  by (simp add: passed_record_def)

text \<open>The stockout sections lose nothing: the counts listed in a section add up to the number of
  attempts that ended in a stockout.\<close>

theorem stockout_sections_total:
  "(\<Sum>k \<leftarrow> sort (dedup [] (stockout_keys key recs)). count_list (stockout_keys key recs) k)
     = length (filter (\<lambda>a. a_Result a = ClassStockout) (concat (map jr_Attempts recs)))"
proof -
  define ks where "ks = stockout_keys key recs"
  have "(\<Sum>k \<leftarrow> sort (dedup [] ks). count_list ks k) = (\<Sum>k \<leftarrow> dedup [] ks. count_list ks k)"
    using dedup_set [of "[]" ks] by (simp add: sum_list_distinct_conv_sum_set)
  also have "\<dots> = length ks" by (rule count_list_sum)
  also have "\<dots> = length (filter (\<lambda>a. a_Result a = ClassStockout) (concat (map jr_Attempts recs)))"
    unfolding ks_def by (induction recs) (simp_all add: stockout_keys_def)
  finally show ?thesis by (simp add: ks_def)
qed

end
