(* ===== verification/Citrun_Executor.thy ===== *)
theory Citrun_Executor
  imports Citrun_Scheduler Go_Time
begin

text \<open>
  \<open>cmd/citrun/executor.go\<close>: the command line of a job's container, the verdict on the artifacts it
  leaves, and the rewriting of a report whose failures are the infrastructure's.
\<close>

subsection \<open>The container's command line\<close>

record docker_executor =
  de_Project :: string
  de_RunID :: string
  de_CredsDir :: string
  de_Image :: string
  de_CustomStartupScript :: string

definition hardTimeoutSlack :: duration where
  "hardTimeoutSlack = 10 * minute"

text \<open>\<open>home\<close> is the home directory and \<open>exists_file\<close> the file system.\<close>

definition newDockerExecutor ::
  "string option \<Rightarrow> (string \<Rightarrow> bool) \<Rightarrow> string \<Rightarrow> string \<Rightarrow> string \<Rightarrow> string \<Rightarrow> docker_executor" where
  "newDockerExecutor home exists_file project runID img customStartup =
     (let adc_dir = (\<lambda>h. path_Join [h, ''.config'', ''gcloud'']);
          creds = (case home of
                     None \<Rightarrow> []
                   | Some h \<Rightarrow>
                       if exists_file (path_Join [adc_dir h, ''application_default_credentials.json''])
                       then adc_dir h else [])
      in \<lparr>de_Project = project, de_RunID = runID, de_CredsDir = creds, de_Image = img,
          de_CustomStartupScript = customStartup\<rparr>)"

definition containerName :: "string \<Rightarrow> string \<Rightarrow> string" where
  "containerName runID jobID = ''citrun-'' @ runID @ ''-'' @ jobID"

text \<open>\<open>absPath\<close> is \<open>filepath.Abs\<close> (\<open>None\<close>: an error), \<open>serialOnce\<close> the value of the environment variable.\<close>

definition buildDockerArgs ::
  "(string \<Rightarrow> string option) \<Rightarrow> string \<Rightarrow> docker_executor \<Rightarrow> job \<Rightarrow> string \<Rightarrow> string \<Rightarrow> string list" where
  "buildDockerArgs absPath serialOnce d j zone jobDir =
     (let dir = (case absPath jobDir of None \<Rightarrow> jobDir | Some a \<Rightarrow> a)
      in [''run'', ''--rm'', ''--name'', containerName (de_RunID d) (j_ID j),
          ''-v'', dir @ '':/curpath:z'',
          ''-e'', ''CIT_SERIAL_ONCE='' @ serialOnce,
          ''-e'', ''ARTIFACTS=/curpath'']
         @ (if de_CredsDir d \<noteq> []
            then [''-v'', de_CredsDir d @ '':/creds:z'',
                  ''-e'', ''GOOGLE_APPLICATION_CREDENTIALS=/creds/application_default_credentials.json'']
            else [''--network'', ''host''])
         @ [de_Image d,
            ''--project'', de_Project d,
            ''--filter'', ''^('' @ j_Suite j @ '')$'',
            ''--zones'', zone,
            ''--images'', j_Image j,
            ''--parallel_count'', ''1'',
            ''--out_path'', ''/curpath/junit.xml'',
            ''--timeout'', duration_String (j_Timeout j)]
         @ (if j_Suite j = ''shapevalidation''
            then [''-shapevalidation_test_filter'', ''^'' @ j_Family j @ ''$'']
            else if j_Arch j = ''arm64'' then [''-arm64_shape='' @ j_Shape j]
            else [''-x86_shape='' @ j_Shape j])
         @ (if de_CustomStartupScript d \<noteq> []
            then [''-custom_startup_script'', ''/curpath/startup.sh''] else []))"

subsection \<open>Regular expressions\<close>

text \<open>
  The three expressions are alternatives of sequences of characters, digits and optional
  arbitrary characters.  As in Go, the match is the leftmost one and, there, the first alternative
  that matches.  Bytes stand for characters; the case folding is that of ASCII.
\<close>

datatype rx_item = Lit char | Digit | OptAny

type_synonym rx = "bool \<times> rx_item list list"  \<comment> \<open>fold case; the alternatives\<close>

definition lower :: "char \<Rightarrow> char" where
  "lower c = (if CHR ''A'' \<le> c \<and> c \<le> CHR ''Z'' then char_of (of_char c + 32 :: nat) else c)"

definition is_digit :: "char \<Rightarrow> bool" where
  "is_digit c = (CHR ''0'' \<le> c \<and> c \<le> CHR ''9'')"

fun match_items :: "bool \<Rightarrow> rx_item list \<Rightarrow> string \<Rightarrow> nat option" where
  "match_items ci [] s = Some 0"
| "match_items ci (Lit x # is) [] = None"
| "match_items ci (Lit x # is) (c # s) =
     (if c = x \<or> (ci \<and> lower c = lower x) then map_option Suc (match_items ci is s) else None)"
| "match_items ci (Digit # is) [] = None"
| "match_items ci (Digit # is) (c # s) =
     (if is_digit c then map_option Suc (match_items ci is s) else None)"
| "match_items ci (OptAny # is) [] = match_items ci is []"
| "match_items ci (OptAny # is) (c # s) =
     (if c \<noteq> CHR 0x0A \<and> match_items ci is s \<noteq> None
      then map_option Suc (match_items ci is s) else match_items ci is (c # s))"

fun first_some :: "('a \<Rightarrow> 'b option) \<Rightarrow> 'a list \<Rightarrow> 'b option" where
  "first_some f [] = None"
| "first_some f (x # xs) = (case f x of None \<Rightarrow> first_some f xs | Some y \<Rightarrow> Some y)"

definition match_here :: "rx \<Rightarrow> string \<Rightarrow> nat option" where
  "match_here re s = first_some (\<lambda>alt. match_items (fst re) alt s) (snd re)"

text \<open>\<open>FindIndex\<close>: the start and the length of the leftmost match.\<close>

fun find_match :: "rx \<Rightarrow> string \<Rightarrow> (nat \<times> nat) option" where
  "find_match re [] = map_option (\<lambda>n. (0, n)) (match_here re [])"
| "find_match re (c # s) =
     (case match_here re (c # s) of
        Some n \<Rightarrow> Some (0, n)
      | None \<Rightarrow> map_option (\<lambda>(i, n). (Suc i, n)) (find_match re s))"

definition Match_re :: "rx \<Rightarrow> string \<Rightarrow> bool" where
  "Match_re re s = (find_match re s \<noteq> None)"

definition lits :: "string \<Rightarrow> rx_item list" where
  "lits s = map Lit s"

definition stockoutRe :: rx where
  "stockoutRe = (False, [lits ''ZONE_RESOURCE_POOL_EXHAUSTED'', lits ''INSUFFICIENT_CAPACITY'',
     lits ''RESOURCE_POOL_EXHAUSTED''])"

definition quotaRe :: rx where
  "quotaRe = (True, [lits ''QUOTA_EXCEEDED'', lits ''RATE'' @ OptAny # lits ''EXCEEDED'',
     lits ''RATE'' @ OptAny # lits ''LIMIT'', lits ''HTTP'' @ OptAny # lits ''429'',
     lits ''RESOURCE_EXHAUSTED''])"

definition apiErrRe :: rx where
  "apiErrRe = (False, [lits ''googleapi: Error '' @ [Digit, Digit, Digit],
     lits ''resourceInUseByAnotherResource'', lits ''HttpErrorStatusCode:'' @ [Digit, Digit, Digit],
     lits ''SERVICE UNAVAILABLE'', lits ''googleapi: got HTTP response code 5'' @ [Digit, Digit],
     lits ''http2: server sent GOAWAY''])"

definition firstMatch :: "string \<Rightarrow> rx \<Rightarrow> string" where
  "firstMatch b re =
     (case find_match re b of
        None \<Rightarrow> []
      | Some (i, n) \<Rightarrow> let e = i + n + 80; e' = (if length b < e then length b else e)
                      in take (e' - i) (drop i b))"

subsection \<open>The verdict\<close>

definition failure_tag :: string where
  "failure_tag = ''<failure''"

text \<open>\<open>bytes.Split\<close> at a non-empty separator: the pieces between its occurrences.\<close>

fun split_at :: "string \<Rightarrow> nat \<Rightarrow> string \<Rightarrow> string list" where
  "split_at sep 0 [] = [[]]"
| "split_at sep (Suc k) [] = [[]]"
| "split_at sep (Suc k) (c # s) = split_at sep k s"
| "split_at sep 0 (c # s) =
     (if HasPrefix (c # s) sep then [] # split_at sep (length sep - 1) s
      else (case split_at sep 0 s of [] \<Rightarrow> [[c]] | p # ps \<Rightarrow> (c # p) # ps))"

definition bytes_Split :: "string \<Rightarrow> string \<Rightarrow> string list" where
  "bytes_Split s sep = split_at sep 0 s"

definition allFailureBlocksMatch :: "string \<Rightarrow> rx \<Rightarrow> bool" where
  "allFailureBlocksMatch junit re =
     (let blocks = tl (bytes_Split junit failure_tag)
      in blocks \<noteq> [] \<and> \<not> list_ex (\<lambda>b. \<not> Match_re re b) blocks)"

text \<open>\<open>junit\<close> and \<open>logb\<close> are the files' contents, empty when a file cannot be read.\<close>

definition classifyResult :: "string option \<Rightarrow> string \<Rightarrow> string \<Rightarrow> bool \<Rightarrow> result" where
  "classifyResult runErr junit logb timedOut =
     (if timedOut then \<lparr>Classification = ClassTimeout, Detail = ''hard timeout backstop hit''\<rparr>
      else if junit \<noteq> [] then
        (if \<not> Contains junit failure_tag then \<lparr>Classification = ClassPass, Detail = []\<rparr>
         else if Match_re quotaRe junit then
           \<lparr>Classification = ClassQuota, Detail = firstMatch junit quotaRe\<rparr>
         else if Match_re stockoutRe junit then
           \<lparr>Classification = ClassStockout, Detail = firstMatch junit stockoutRe\<rparr>
         else if allFailureBlocksMatch junit apiErrRe then
           \<lparr>Classification = ClassInfra, Detail = firstMatch junit apiErrRe\<rparr>
         else \<lparr>Classification = ClassFail, Detail = []\<rparr>)
      else if Match_re quotaRe logb then
        \<lparr>Classification = ClassQuota, Detail = firstMatch logb quotaRe\<rparr>
      else if Match_re stockoutRe logb then
        \<lparr>Classification = ClassStockout, Detail = firstMatch logb stockoutRe\<rparr>
      else \<lparr>Classification = ClassError,
            Detail = (case runErr of
                        None \<Rightarrow> ''no junit produced''
                      | Some e \<Rightarrow> ''no junit produced: '' @ e)\<rparr>)"

subsection \<open>Rewriting a report\<close>

text \<open>The fields of the report that the code reads and writes; the rest is carried along.\<close>

record junit_result =
  ju_Message :: string
  ju_Type :: string
  ju_Data :: string

record testcase =
  tc_Failure :: "junit_result option"
  tc_Error :: "junit_result option"
  tc_Skipped :: "junit_result option"

record 'a testsuite =
  ts_Cases :: "'a testcase_scheme list"
  ts_Failures :: int
  ts_Errors :: int
  ts_Skipped :: int

record 'a testsuites =
  tss_Suites :: "'a testsuite list"
  tss_Failures :: int
  tss_Errors :: int
  tss_Skipped :: int

definition infraClasses :: "string \<Rightarrow> bool" where
  "infraClasses cl = (cl \<in> {ClassStockout, ClassQuota, ClassInfra})"

definition infra_msg :: "result \<Rightarrow> string" where
  "infra_msg res =
     ''infra ('' @ Classification res @ '')''
     @ (if Detail res \<noteq> [] then '': '' @ take 200 (Detail res) else [])"

definition skip_case :: "string \<Rightarrow> 'a testcase_scheme \<Rightarrow> 'a testcase_scheme" where
  "skip_case msg tc =
     (case tc_Failure tc of
        Some r \<Rightarrow> tc\<lparr>tc_Skipped := Some \<lparr>ju_Message = msg, ju_Type = ju_Type r, ju_Data = []\<rparr>,
                    tc_Failure := None\<rparr>
      | None \<Rightarrow>
          (case tc_Error tc of
             Some r \<Rightarrow> tc\<lparr>tc_Skipped := Some \<lparr>ju_Message = msg, ju_Type = ju_Type r, ju_Data = []\<rparr>,
                         tc_Error := None\<rparr>
           | None \<Rightarrow> tc))"

definition is_failure :: "'a testcase_scheme \<Rightarrow> bool" where
  "is_failure tc = (tc_Failure tc \<noteq> None)"

definition is_error :: "'a testcase_scheme \<Rightarrow> bool" where
  "is_error tc = (tc_Failure tc = None \<and> tc_Error tc \<noteq> None)"

definition suite_failures :: "'a testsuite \<Rightarrow> int" where
  "suite_failures s = int (length (filter is_failure (ts_Cases s)))"

definition suite_errors :: "'a testsuite \<Rightarrow> int" where
  "suite_errors s = int (length (filter is_error (ts_Cases s)))"

definition skip_suite :: "string \<Rightarrow> 'a testsuite \<Rightarrow> 'a testsuite" where
  "skip_suite msg s = s\<lparr>
     ts_Cases := map (skip_case msg) (ts_Cases s),
     ts_Failures := ts_Failures s - suite_failures s,
     ts_Errors := ts_Errors s - suite_errors s,
     ts_Skipped := ts_Skipped s + (suite_failures s + suite_errors s)\<rparr>"

definition total_failures :: "'a testsuites \<Rightarrow> int" where
  "total_failures d = sum_list (map suite_failures (tss_Suites d))"

definition total_errors :: "'a testsuites \<Rightarrow> int" where
  "total_errors d = sum_list (map suite_errors (tss_Suites d))"

definition skip_suites :: "string \<Rightarrow> 'a testsuites \<Rightarrow> 'a testsuites" where
  "skip_suites msg d = d\<lparr>
     tss_Suites := map (skip_suite msg) (tss_Suites d),
     tss_Failures := tss_Failures d - total_failures d,
     tss_Errors := tss_Errors d - total_errors d,
     tss_Skipped := tss_Skipped d + (total_failures d + total_errors d)\<rparr>"

text \<open>
  \<open>markInfraSkipped\<close>: the content of junit.xml afterwards (\<open>None\<close>: no readable file).  \<open>parse\<close> and
  \<open>marshal\<close> are the XML codec, \<open>write\<close> whether the file can be written.
\<close>

definition markInfraSkipped ::
  "(string \<Rightarrow> 'a testsuites option) \<Rightarrow> ('a testsuites \<Rightarrow> string option) \<Rightarrow> bool \<Rightarrow> result
     \<Rightarrow> string option \<Rightarrow> string option" where
  "markInfraSkipped parse marshal write res file =
     (if \<not> infraClasses (Classification res) then file
      else (case file of
              None \<Rightarrow> None
            | Some raw \<Rightarrow>
                (case parse raw of
                   None \<Rightarrow> file
                 | Some d \<Rightarrow>
                     if total_failures d + total_errors d = 0 then file
                     else (case marshal (skip_suites (infra_msg res) d) of
                             None \<Rightarrow> file
                           | Some out \<Rightarrow> if write then Some (out @ newline) else file))))"

subsection \<open>Running a job\<close>

text \<open>
  \<open>Run\<close>: the outside world is what creating the log and staging the script report, whether the
  command starts, how the wait ends, and the two artifacts.
\<close>

datatype wait_end = Exited | DeadlineExceeded | Cancelled

record job_world =
  jw_log :: "string option"       \<comment> \<open>error of creating job.log\<close>
  jw_stage :: "string option"     \<comment> \<open>error of staging the startup script\<close>
  jw_start :: "string option"     \<comment> \<open>error of starting docker\<close>
  jw_wait :: wait_end
  jw_exit :: "string option"      \<comment> \<open>error of the command\<close>
  jw_junit :: string
  jw_logb :: string

definition Run_job :: "docker_executor \<Rightarrow> job_world \<Rightarrow> result" where
  "Run_job d w =
     (case jw_log w of
        Some e \<Rightarrow> \<lparr>Classification = ClassError, Detail = e\<rparr>
      | None \<Rightarrow>
     (case (if de_CustomStartupScript d \<noteq> [] then jw_stage w else None) of
        Some e \<Rightarrow> \<lparr>Classification = ClassError, Detail = e\<rparr>
      | None \<Rightarrow>
     (case jw_start w of
        Some e \<Rightarrow> \<lparr>Classification = ClassError, Detail = ''docker start: '' @ e\<rparr>
      | None \<Rightarrow> classifyResult (jw_exit w) (jw_junit w) (jw_logb w)
                  (jw_wait w = DeadlineExceeded))))"

definition Attach :: "string \<Rightarrow> string \<Rightarrow> result" where
  "Attach junit logb = classifyResult None junit logb False"

text \<open>\<open>ContainerExists\<close>: the output of \<open>docker ps\<close>, \<open>None\<close> when it fails.\<close>

definition ContainerExists :: "string option \<Rightarrow> bool" where
  "ContainerExists ps = (case ps of None \<Rightarrow> False | Some outp \<Rightarrow> TrimSpace outp \<noteq> [])"

subsection \<open>Properties\<close>

definition verdict_classes :: "string set" where
  "verdict_classes = {ClassPass, ClassFail, ClassStockout, ClassQuota, ClassTimeout, ClassError,
     ClassInfra}"

lemma classifyResult_class: "Classification (classifyResult e junit logb t) \<in> verdict_classes"
  by (simp add: classifyResult_def verdict_classes_def)

lemma Run_job_class: "Classification (Run_job d w) \<in> verdict_classes"
  using classifyResult_class by (simp add: Run_job_def verdict_classes_def split: option.splits)

lemma classify_pass_iff:
  "Classification (classifyResult e junit logb t) = ClassPass \<longleftrightarrow>
     \<not> t \<and> junit \<noteq> [] \<and> \<not> Contains junit failure_tag"
  by (auto simp: classifyResult_def class_defs)

lemma split_at_pieces: "split_at sep k s \<noteq> []"
  by (induction sep k s rule: split_at.induct) (auto split: list.splits)

text \<open>Splitting at the tag: more than one piece exactly when it occurs.\<close>

lemma split_at_single:
  assumes "sep \<noteq> []"
  shows "tl (split_at sep 0 s) = [] \<longleftrightarrow> \<not> Contains s sep"
proof (induction s)
  case (Cons c s)
  obtain p ps where ps: "split_at sep 0 s = p # ps"
    using split_at_pieces by (cases "split_at sep 0 s") auto
  then show ?case using Cons.IH split_at_pieces by simp
qed (use assms in simp)

lemma blocks_iff: "tl (bytes_Split junit failure_tag) = [] \<longleftrightarrow> \<not> Contains junit failure_tag"
  unfolding bytes_Split_def by (rule split_at_single) (simp add: failure_tag_def)

lemma classify_infra_iff:
  "Classification (classifyResult e junit logb t) = ClassInfra \<longleftrightarrow>
     \<not> t \<and> Contains junit failure_tag \<and> \<not> Match_re quotaRe junit \<and> \<not> Match_re stockoutRe junit
     \<and> (\<forall>b \<in> set (tl (bytes_Split junit failure_tag)). Match_re apiErrRe b)"
proof -
  have "Contains junit failure_tag \<Longrightarrow> junit \<noteq> []" by (cases junit) (auto simp: failure_tag_def)
  moreover have "allFailureBlocksMatch junit apiErrRe \<longleftrightarrow> Contains junit failure_tag
      \<and> (\<forall>b \<in> set (tl (bytes_Split junit failure_tag)). Match_re apiErrRe b)"
    by (simp add: allFailureBlocksMatch_def Let_def blocks_iff list_ex_iff)
  ultimately show ?thesis
    unfolding classifyResult_def class_defs by auto
qed

lemma skip_case_clean:
  "tc_Failure (skip_case msg tc) = None"
  "tc_Error tc = None \<or> tc_Failure tc = None \<Longrightarrow> tc_Error (skip_case msg tc) = None"
  by (auto simp: skip_case_def split: option.splits)

lemma suite_failures_skip [simp]: "suite_failures (skip_suite msg s) = 0"
  by (simp add: suite_failures_def skip_suite_def filter_map o_def is_failure_def skip_case_clean)

text \<open>The counts of a suite are those of its cases.\<close>

definition counted :: "'a testsuite \<Rightarrow> bool" where
  "counted s \<longleftrightarrow> ts_Failures s = suite_failures s \<and> ts_Errors s = suite_errors s
     \<and> (\<forall>tc \<in> set (ts_Cases s). tc_Error tc = None \<or> tc_Failure tc = None)"

lemma counted_skip:
  assumes "counted s"
  shows "counted (skip_suite msg s) \<and> ts_Failures (skip_suite msg s) = 0
    \<and> ts_Errors (skip_suite msg s) = 0
    \<and> ts_Skipped (skip_suite msg s) = ts_Skipped s + ts_Failures s + ts_Errors s"
proof -
  have clean: "\<not> is_error (skip_case msg tc)" if "tc \<in> set (ts_Cases s)" for tc
  proof -
    have "tc_Error tc = None \<or> tc_Failure tc = None" using assms that by (simp add: counted_def)
    then show ?thesis by (simp add: is_error_def skip_case_clean(2))
  qed
  then have e: "suite_errors (skip_suite msg s) = 0"
    by (simp add: suite_errors_def skip_suite_def filter_map o_def filter_empty_conv)
  have "\<forall>tc \<in> set (ts_Cases (skip_suite msg s)). tc_Error tc = None \<or> tc_Failure tc = None"
    by (simp add: skip_suite_def skip_case_clean)
  with e show ?thesis using assms by (simp add: counted_def) (simp add: skip_suite_def)
qed

text \<open>C28: The verdict on a finished job: it always is one of the seven classes; it is a pass exactly
  when there was no timeout and the report is there and has no failure; and it is an
  infrastructure failure exactly when every failure of the report is an API error and no quota or
  stockout code occurs, so that one genuine failure keeps the job a real failure.\<close>

theorem verdict_exact:
  "Classification (classifyResult e junit logb t) \<in> verdict_classes
   \<and> (Classification (classifyResult e junit logb t) = ClassPass \<longleftrightarrow>
        \<not> t \<and> junit \<noteq> [] \<and> \<not> Contains junit failure_tag)
   \<and> (Classification (classifyResult e junit logb t) = ClassInfra \<longleftrightarrow>
        \<not> t \<and> Contains junit failure_tag \<and> \<not> Match_re quotaRe junit \<and> \<not> Match_re stockoutRe junit
        \<and> (\<forall>b \<in> set (tl (bytes_Split junit failure_tag)). Match_re apiErrRe b))"
  by (intro conjI classifyResult_class classify_pass_iff classify_infra_iff)

lemma api_report:
  "Contains ''<failure>googleapi: Error 503</failure>'' failure_tag"
  "\<not> Match_re quotaRe ''<failure>googleapi: Error 503</failure>''"
  "\<not> Match_re stockoutRe ''<failure>googleapi: Error 503</failure>''"
  "list_all (Match_re apiErrRe) (tl (bytes_Split ''<failure>googleapi: Error 503</failure>'' failure_tag))"
  by code_simp+

theorem verdict_exact_witness:
  "Classification (classifyResult None ''<failure>googleapi: Error 503</failure>'' [] False) = ClassInfra"
  using verdict_exact [of None "''<failure>googleapi: Error 503</failure>''" "[]" False] api_report
  by (simp only: list_all_iff simp_thms)
text \<open>Rewriting the report of an infrastructure failure keeps its counts right: a suite whose
  counts agree with its cases has no failures and no errors afterwards, all of them have become
  skipped, and its counts still agree with its cases.\<close>

theorem infra_rewrite_counts:
  assumes "counted s"
  shows "ts_Failures (skip_suite msg s) = 0 \<and> ts_Errors (skip_suite msg s) = 0
    \<and> ts_Skipped (skip_suite msg s) = ts_Skipped s + ts_Failures s + ts_Errors s
    \<and> length (ts_Cases (skip_suite msg s)) = length (ts_Cases s)
    \<and> counted (skip_suite msg s)"
proof -
  have "length (ts_Cases (skip_suite msg s)) = length (ts_Cases s)" by (simp add: skip_suite_def)
  with counted_skip [OF assms, of msg] show ?thesis by simp
qed

definition example_suite :: "unit testsuite" where
  "example_suite = \<lparr>ts_Cases = [\<lparr>tc_Failure = Some \<lparr>ju_Message = ''m'', ju_Type = [], ju_Data = []\<rparr>,
       tc_Error = None, tc_Skipped = None\<rparr>, \<lparr>tc_Failure = None, tc_Error = None, tc_Skipped = None\<rparr>],
     ts_Failures = 1, ts_Errors = 0, ts_Skipped = 0\<rparr>"

theorem infra_rewrite_counts_witness:
  "ts_Skipped (skip_suite ''infra (quota)'' example_suite) = 1
   \<and> ts_Failures (skip_suite ''infra (quota)'' example_suite) = 0"
proof -
  have "counted example_suite"
    by (simp add: counted_def example_suite_def suite_failures_def suite_errors_def is_failure_def is_error_def)
  from infra_rewrite_counts [OF this, of "''infra (quota)''"] show ?thesis
    by (simp add: example_suite_def)
qed

end
