(* ===== verification/Citrun_Run.thy ===== *)
theory Citrun_Run
  imports Citrun_Refresh Citrun_Report Citrun_Executor
begin

text \<open>
  \<open>cmd/citrun/run.go\<close>: the steps of \<open>citrun run\<close> up to the scheduler, the exit status after it,
  and what is printed.
\<close>

definition splitGlobs :: "string \<Rightarrow> string list" where
  "splitGlobs s = (if s = [] then [] else Split (CHR '','') s)"

record run_flags =
  rf_configs :: string
  rf_images :: string
  rf_shapes :: string
  rf_suites :: string
  rf_runDir :: string
  rf_dryRun :: bool
  rf_tier :: string

definition run_filter :: "run_flags \<Rightarrow> job_filter" where
  "run_filter fl = \<lparr>fl_Configs = splitGlobs (rf_configs fl), fl_Images = splitGlobs (rf_images fl),
     fl_Shapes = splitGlobs (rf_shapes fl), fl_Suites = splitGlobs (rf_suites fl),
     fl_Tier = (if rf_tier fl \<noteq> ''all'' then rf_tier fl else [])\<rparr>"

definition unknown_tier :: "config \<Rightarrow> string \<Rightarrow> bool" where
  "unknown_tier cfg tier = (tier \<noteq> ''all'' \<and> tier \<noteq> [] \<and> \<not> has_key (c_Tiers cfg) tier)"

subsection \<open>The plan\<close>

definition plan_line :: "string \<Rightarrow> int \<Rightarrow> int \<Rightarrow> string" where
  "plan_line name n q = pad_right 16 name @ '' '' @ pad_left 5 (itoa n) @ '' jobs  ('' @ itoa q
     @ '' quarantined)'' @ newline"

definition plan_counts :: "job list \<Rightarrow> string \<Rightarrow> int \<times> int" where
  "plan_counts jobs c =
     (int (length (filter (\<lambda>j. j_Config j = c) jobs)),
      int (length (filter (\<lambda>j. j_Config j = c \<and> j_Quarantined j \<noteq> []) jobs)))"

definition plan_order :: "job list \<Rightarrow> string list" where
  "plan_order jobs = dedup [] (map j_Config jobs)"

definition printPlan :: "job list \<Rightarrow> string" where
  "printPlan jobs =
     (let rows = map (plan_counts jobs) (plan_order jobs)
      in concat (map (\<lambda>c. plan_line c (fst (plan_counts jobs c)) (snd (plan_counts jobs c)))
           (plan_order jobs))
         @ plan_line ''TOTAL'' (sum_list (map fst rows)) (sum_list (map snd rows)))"

subsection \<open>The command\<close>

datatype run_error =
    ConfigError load_error
  | UnknownTier string
  | ExpandError expand_error
  | Unplaceable_jobs string
  | RunDirUsed
  | RunDirFailed      \<comment> \<open>the jobs directory, or the copy of the configuration\<close>
  | FirstSaveFailed

datatype run_outcome =
    RunRefused run_error
  | RunPlanned string
  | RunStarted config run_state

text \<open>
  \<open>dir_ok\<close> tells whether creating the directories and copying the configuration works, \<open>stamp\<close>
  is the directory name made from the clock; the files are those of the chosen directory.
\<close>

definition runDirFresh :: "run_files \<Rightarrow> bool" where
  "runDirFresh f = (rf_State f = Missing)"

definition cmdRun ::
  "load_error + config \<Rightarrow> run_flags \<Rightarrow> string \<Rightarrow> bool \<Rightarrow> io_outcome \<Rightarrow> time \<Rightarrow> run_files
     \<Rightarrow> run_outcome \<times> run_files" where
  "cmdRun loaded fl stamp dir_ok save now f =
     (case loaded of
        Inl e \<Rightarrow> (RunRefused (ConfigError e), f)
      | Inr cfg \<Rightarrow>
          if unknown_tier cfg (rf_tier fl) then (RunRefused (UnknownTier (rf_tier fl)), f)
          else (case ExpandJobs cfg (run_filter fl) of
                  Inl e \<Rightarrow> (RunRefused (ExpandError e), f)
                | Inr jobs \<Rightarrow>
                    (case validatePlaceable cfg jobs of
                       Some msg \<Rightarrow> (RunRefused (Unplaceable_jobs msg), f)
                     | None \<Rightarrow>
                         if rf_dryRun fl then (RunPlanned (printPlan jobs), f)
                         else
                           let dir = (if rf_runDir fl = [] then path_Join [''runs'', stamp]
                                      else rf_runDir fl)
                           in if \<not> runDirFresh f then (RunRefused RunDirUsed, f)
                              else if \<not> dir_ok then (RunRefused RunDirFailed, f)
                              else let st = NewRunState (path_Base dir) now jobs
                                   in (case SaveState save st f of (ok, f') \<Rightarrow>
                                         (if ok then RunStarted cfg st
                                          else RunRefused FirstSaveFailed, f')))))"

text \<open>
  The exit status once the scheduler has returned: from the state in the file, whose jobs are
  visited in the order \<open>ids\<close>.
\<close>

definition exit_status :: "string list \<Rightarrow> run_files \<Rightarrow> (string \<Rightarrow> junit_cases list option) \<Rightarrow> int option" where
  "exit_status ids f junit =
     (case LoadState f of
        Inl _ \<Rightarrow> Some 2
      | Inr st \<Rightarrow>
          (case BuildReport junit st 15 of
             None \<Rightarrow> None
           | Some _ \<Rightarrow>
               Some (if list_ex (\<lambda>i. case rs_Jobs st i of
                                       None \<Rightarrow> False
                                     | Some rec \<Rightarrow> jr_Status rec = StatusFailedReal
                                                   \<or> jr_Status rec = StatusFailedInfra)
                          ids
                     then 1 else 0)))"

definition formatTotalTime :: "duration \<Rightarrow> string" where
  "formatTotalTime d0 =
     (let d = duration_Round d0 second
      in if d < minute then duration_String d
         else itoa (go_div d minute) @ ''m '' @ two_digits (go_mod (go_div d second) 60) @ ''s'')"

text \<open>\<open>main\<close>: the subcommand that gets the remaining arguments; \<open>None\<close> is the usage and exit status 2.\<close>

datatype subcommand = CmdRun | CmdResume bool | CmdReport | CmdStatus

definition main_command :: "string list \<Rightarrow> (subcommand \<times> string list) option" where
  "main_command args =
     (case args of
        _ # cmd # rest \<Rightarrow>
          map_option (\<lambda>c. (c, rest))
            (map_of [(''run'', CmdRun), (''resume'', CmdResume False), (''rerun-failed'', CmdResume True),
                     (''report'', CmdReport), (''status'', CmdStatus)] cmd)
      | _ \<Rightarrow> None)"

subsection \<open>The jobs of a started run\<close>

text \<open>Resource demands that are not negative; the validation of the configuration asks for less.\<close>

definition nonneg_demands :: "config \<Rightarrow> bool" where
  "nonneg_demands cfg \<longleftrightarrow>
     (\<forall>su \<in> snd ` set (c_Suites cfg). 0 \<le> su_Networks su \<and> 0 \<le> su_Subnets su)
     \<and> (\<forall>fam \<in> set (sv_Families (c_ShapeValidation cfg)). 0 \<le> f_CPUs fam)"

lemma lookup_suite_nonneg:
  assumes "nonneg_demands cfg"
  shows "0 \<le> su_Networks (lookup0 (c_Suites cfg) zero_suite n)
    \<and> 0 \<le> su_Subnets (lookup0 (c_Suites cfg) zero_suite n)"
proof -
  have "lookup0 (c_Suites cfg) zero_suite n = zero_suite
      \<or> lookup0 (c_Suites cfg) zero_suite n \<in> snd ` set (c_Suites cfg)"
    by (rule lookup0_in)
  then show ?thesis using assms by (auto simp: nonneg_demands_def zero_suite_def)
qed

lemma candidate_job_ok:
  assumes v: "valid_config cfg" and nn: "nonneg_demands cfg"
    and j: "j \<in> set (candidate_jobs cfg tier)"
  shows "job_ok j"
proof -
  from j consider "j \<in> set (matrix_jobs cfg tier)" | "j \<in> set (family_jobs cfg)"
    by (auto simp: candidate_jobs_def split: if_splits)
  then show ?thesis
  proof cases
    case 1
    then obtain m sh img su tz j0 v where
      k: "keepJob cfg (matrix_job cfg m sh img su) = Some j0"
      and v': "v \<in> set (variants m (tiered tz j0))" "j = applyQuarantine cfg v"
      by (auto simp: matrix_jobs_iff cell_jobs_iff)
    obtain zs t where j0: "j0 = (matrix_job cfg m sh img su)\<lparr>j_Zones := zs, j_Timeout := t\<rparr>"
      using keepJob_frame [OF k] by blast
    have "j_Networks v = j_Networks j0 \<and> j_Subnets v = j_Subnets j0"
      using v'(1) by (auto simp: variants_def tiered_def zoned_job_def split: option.splits if_splits)
    then have "0 \<le> j_Networks j \<and> 0 \<le> j_Subnets j"
      using lookup_suite_nonneg [OF nn, of su]
      by (simp add: v'(2) j0 matrix_job_def Let_def split: prod.splits)
    then show ?thesis using matrix_job_cost_pos [OF 1 v] by (simp add: job_ok_def)
  next
    case 2
    then show ?thesis
      using nn by (auto simp: family_jobs_def family_job_def Let_def job_ok_def nonneg_demands_def
          split: prod.splits)
  qed
qed

text \<open>A run limited to a tier has no shape-validation jobs, so its shapes are uniform.\<close>

lemma tier_uniform:
  assumes "ExpandJobs cfg f = Inr jobs" and "tier_active (fl_Tier f)"
  shows "uniform_shapes (NewRunState r n jobs)"
proof -
  note jobs = ExpandJobs_Inr [OF assms(1)]
  have mp: "j_MaxParallel j = sh_MaxParallel (lookup0 (c_Shapes cfg) zero_shape (j_Shape j))"
    if "j \<in> set jobs" for j
  proof -
    have "j \<in> set (matrix_jobs cfg (fl_Tier f))"
      using that assms(2) by (simp add: jobs(1) candidate_jobs_def)
    then obtain m sh img su tz j0 v where
      k: "keepJob cfg (matrix_job cfg m sh img su) = Some j0"
      and v: "v \<in> set (variants m (tiered tz j0))" "j = applyQuarantine cfg v"
      by (auto simp: matrix_jobs_iff cell_jobs_iff)
    then show ?thesis using variants_sel [OF v(1)] keepJob_sel [OF k] by simp
  qed
  have "\<exists>j \<in> set jobs. a = j" if "job_at (NewRunState r n jobs) i = Some a" for i a
    using that NewRunState_record [OF jobs(3), of r n i] by (fastforce simp: job_at_def new_record_def)
  then show ?thesis using mp unfolding uniform_shapes_def by metis
qed

text \<open>What \<open>citrun run\<close> hands to the scheduler.\<close>

lemma cmdRun_started:
  assumes "cmdRun loaded fl stamp dir_ok save now f = (RunStarted cfg st, f')"
  obtains jobs where "loaded = Inr cfg" "ExpandJobs cfg (run_filter fl) = Inr jobs"
    "validatePlaceable cfg jobs = None" "runDirFresh f"
    "st = NewRunState (path_Base (if rf_runDir fl = [] then path_Join [''runs'', stamp]
       else rf_runDir fl)) now jobs"
    "LoadState f' = Inr st" "\<not> rf_dryRun fl" "\<not> unknown_tier cfg (rf_tier fl)"
  using assms
  by (auto simp: cmdRun_def Let_def SaveState_def LoadState_def
      split: sum.splits if_splits option.splits prod.splits io_outcome.splits)

lemma int_sum: "(\<Sum>x \<leftarrow> xs. int (g x)) = int (\<Sum>x \<leftarrow> xs. g x)"
  by (induction xs) simp_all

lemma plan_total:
  "sum_list (map fst (map (plan_counts jobs) (plan_order jobs))) = int (length jobs)"
proof -
  define ks where "ks = map j_Config jobs"
  have "fst (plan_counts jobs c) = int (count_list ks c)" for c
    by (simp add: plan_counts_def ks_def count_list_eq_length_filter filter_map o_def eq_commute)
  then have "sum_list (map fst (map (plan_counts jobs) (plan_order jobs))) =
      (\<Sum>c \<leftarrow> dedup [] ks. int (count_list ks c))"
    by (simp add: plan_order_def ks_def o_def)
  also have "\<dots> = int (\<Sum>c \<leftarrow> dedup [] ks. count_list ks c)"
    by (rule int_sum)
  also have "\<dots> = int (length jobs)" by (simp add: count_list_sum) (simp add: ks_def)
  finally show ?thesis .
qed

subsection \<open>The exit status\<close>

lemma queued_none:
  assumes "queuedRemaining st = Some 0" and "i \<in> set (rs_Order st)" and "rs_Jobs st i = Some rec"
  shows "jr_Status rec \<noteq> StatusQueued"
proof -
  have "(\<forall>i \<in> set is. \<forall>rec. rs_Jobs st i = Some rec \<longrightarrow> jr_Status rec \<noteq> StatusQueued) \<and> n = 0"
    if "fold_opt (\<lambda>i n. case rs_Jobs st i of None \<Rightarrow> None
      | Some rec \<Rightarrow> Some (if jr_Status rec = StatusQueued then Suc n else n)) is n = Some 0" for "is" n
    using that by (induction "is" arbitrary: n) (fastforce split: option.splits if_splits)+
  then show ?thesis using assms unfolding queuedRemaining_def by blast
qed

lemma finished_statuses:
  assumes "run_reachable cfg (start_world now keys ids st files) w" and "startable st"
    and "loop_done w = Some True" and "\<not> w_stopped w" and "\<not> w_killed w"
    and "rs_Jobs (sc_st (w_sched w)) i = Some rec"
  shows "jr_Status rec \<noteq> StatusQueued \<and> jr_Status rec \<noteq> StatusRunning"
proof -
  note inv = sched_invD [OF reachable_inv [OF assms(1,2)]]
  have q: "queuedRemaining (sc_st (w_sched w)) = Some 0" "sc_running (w_sched w) = 0"
    using assms(3-5) by (auto simp: loop_done_def split: option.splits)
  have "in_use (w_sched w) Containers = (\<Sum>x \<leftarrow> sc_inflight (w_sched w). lease_cost cfg x Containers)"
    using inv(4) unfolding accounted_def lg.used_def by blast
  then have "sc_inflight (w_sched w) = []" using q(2) by (simp add: sum_list_triv)
  then have "jr_Status rec \<noteq> StatusRunning"
    using inv(3) assms(6) by (auto simp: flights_ok_def)
  moreover have "i \<in> set (rs_Order (sc_st (w_sched w)))"
    using inv(1) assms(6) by (auto simp: wf_run_def)
  ultimately show ?thesis using queued_none [OF q(1) _ assms(6)] by blast
qed

text \<open>C34: When the loop ends without a drain or a kill, every job has reached a final status, and the exit
  status computed from the saved state is 0 exactly when every job passed or is quarantined and 1
  otherwise.\<close>

theorem finished_exit_status:
  assumes "run_reachable cfg (start_world now keys ids st files) w" and "startable st"
    and "loop_done w = Some True" and "\<not> w_stopped w" and "\<not> w_killed w"
    and "LoadState f = Inr (sc_st (w_sched w))" and "set js = dom (rs_Jobs (sc_st (w_sched w)))"
  shows "exit_status js f junit =
    Some (if \<forall>rec \<in> ran (rs_Jobs (sc_st (w_sched w))). jr_Status rec = StatusPassed
            \<or> jr_Status rec = StatusQuarantined then 0 else 1)"
proof -
  define st' where "st' = sc_st (w_sched w)"
  have "wf_run st'" using sched_invD(1) [OF reachable_inv [OF assms(1,2)]] by (simp add: st'_def)
  then obtain recs where recs: "order_records st' = Some recs" using order_records_wf by blast
  have s: "jr_Status rec \<noteq> StatusQueued \<and> jr_Status rec \<noteq> StatusRunning" if "rec \<in> ran (rs_Jobs st')" for rec
    using that finished_statuses [OF assms(1-5)] by (auto simp: ran_def st'_def)
  have "list_ex (\<lambda>i. case rs_Jobs st' i of None \<Rightarrow> False | Some rec \<Rightarrow> jr_Status rec = StatusFailedReal
      \<or> jr_Status rec = StatusFailedInfra) js
    \<longleftrightarrow> (\<exists>rec \<in> ran (rs_Jobs st'). jr_Status rec = StatusFailedReal \<or> jr_Status rec = StatusFailedInfra)"
    using assms(7) by (auto simp: list_ex_iff ran_def st'_def split: option.splits)
  also have "\<dots> \<longleftrightarrow> \<not> (\<forall>rec \<in> ran (rs_Jobs st'). jr_Status rec = StatusPassed \<or> jr_Status rec = StatusQuarantined)"
    using s by (metis job_status.exhaust job_status.distinct)
  finally show ?thesis
    using assms(6) recs by (simp add: exit_status_def BuildReport_def Let_def flip: st'_def)
qed


theorem finished_exit_status_witness:
  "exit_status [] (example_files (NewRunState ''r'' 0 [])) (\<lambda>_. None) = Some 0"
proof -
  define st where "st = NewRunState ''r'' 0 []"
  define w where "w = start_world 0 [] [] st (example_files st)"
  have s: "startable st" unfolding st_def by (rule NewRunState_startable) simp_all
  have w: "sc_st (w_sched w) = st" "\<not> w_stopped w" "\<not> w_killed w" "sc_running (w_sched w) = 0"
    "rs_Jobs st = Map.empty" "rs_Order st = []"
    by (simp_all add: w_def start_world_def NewScheduler_def st_def NewRunState_def)
  have d: "loop_done w = Some True" by (simp add: loop_done_def queuedRemaining_def w)
  have l: "LoadState (example_files st) = Inr (sc_st (w_sched w))"
    by (simp add: LoadState_def example_files_def w)
  show ?thesis
    using finished_exit_status [OF Start [of example_config] s d [unfolded w_def] _ _ l [unfolded w_def],
        of "[]" "\<lambda>_. None"] w by (simp add: w_def st_def)
qed

definition stopped_start :: world where
  "stopped_start = example_start\<lparr>w_stopped := True\<rparr>"

text \<open>Exit status 0 does not mean that the jobs passed: a run drained before it launched anything is
  over, its job is still queued, and the exit status is 0.\<close>

theorem drained_run_exits_zero:
  "run_reachable example_config example_start stopped_start
   \<and> loop_done stopped_start = Some True
   \<and> exit_status [j_ID example_job] (example_files (sc_st (w_sched stopped_start))) (\<lambda>_. None) = Some 0
   \<and> rs_Jobs (sc_st (w_sched stopped_start)) (j_ID example_job) = Some (new_record example_job)
   \<and> jr_Status (new_record example_job) = StatusQueued"
proof (intro conjI)
  have st: "sc_st (w_sched stopped_start) = example_run"
    by (simp add: stopped_start_def example_start_def start_world_def NewScheduler_def)
  have q: "jr_Status (new_record example_job) = StatusQueued"
    by (simp add: new_record_def example_job_sel)
  have o: "rs_Order example_run = [j_ID example_job]" by (simp add: example_run_def)
  show "run_reachable example_config example_start stopped_start"
    unfolding stopped_start_def by (rule Step [OF Start Drain])
  have "queuedRemaining example_run = Some 1"
    using example_record q by (simp add: queuedRemaining_def o)
  then show "loop_done stopped_start = Some True"
    by (simp add: loop_done_def st) (simp add: stopped_start_def example_start_def start_world_def NewScheduler_def)
  show "rs_Jobs (sc_st (w_sched stopped_start)) (j_ID example_job) = Some (new_record example_job)"
    using example_record by (simp add: st)
  show "exit_status [j_ID example_job] (example_files (sc_st (w_sched stopped_start))) (\<lambda>_. None) = Some 0"
    using example_record q
    by (simp add: st exit_status_def LoadState_def example_files_def BuildReport_def order_records_def o Let_def)
qed (simp add: new_record_def example_job_sel)

end
