(* ===== verification/Go_Strconv.thy ===== *)
theory Go_Strconv
  imports Prelude
begin

text \<open>
  \<open>strconv.Atoi\<close>: an optional sign and at least one decimal digit, the value within 64 bits; and
  its inverse, the decimal rendering of the prelude.
\<close>

definition digit_val :: "char \<Rightarrow> int option" where
  "digit_val c = (if CHR ''0'' \<le> c \<and> c \<le> CHR ''9'' then Some (int (of_char c) - 48) else None)"

fun digits_val :: "int \<Rightarrow> string \<Rightarrow> int option" where
  "digits_val acc [] = Some acc"
| "digits_val acc (c # s) =
     (case digit_val c of None \<Rightarrow> None | Some d \<Rightarrow> digits_val (10 * acc + d) s)"

definition Atoi :: "string \<Rightarrow> int option" where
  "Atoi s =
     (let (neg, ds) = (case s of
                         [] \<Rightarrow> (False, [])
                       | c # r \<Rightarrow> if c = CHR ''-'' then (True, r)
                                  else if c = CHR ''+'' then (False, r) else (False, s))
      in if ds = [] then None
         else (case digits_val 0 ds of
                 None \<Rightarrow> None
               | Some v \<Rightarrow> let i = (if neg then - v else v)
                           in if - (2 ^ 63) \<le> i \<and> i < 2 ^ 63 then Some i else None))"

lemma digit_val_char: "d < 10 \<Longrightarrow> digit_val (digit_char d) = Some (int d)"
proof -
  assume "d < 10"
  then have "d \<in> {0, 1, 2, 3, 4, 5, 6, 7, 8, 9}" by auto
  then show ?thesis
    by (elim insertE) (simp_all add: digit_val_def digit_char_def less_eq_char_def)
qed

lemma digits_val_append:
  "digits_val acc (s @ t) = (case digits_val acc s of None \<Rightarrow> None | Some v \<Rightarrow> digits_val v t)"
  by (induction s arbitrary: acc) (auto split: option.splits)

lemma digits_val_utoa: "digits_val 0 (utoa n) = Some (int n)"
proof (induction n rule: utoa.induct)
  case (1 n)
  show ?case
  proof (cases "n < 10")
    case True
    then show ?thesis by (subst utoa.simps) (simp add: digit_val_char)
  next
    case False
    have "int (n div 10) * 10 + int (n mod 10) = int n"
      by (metis div_mult_mod_eq of_nat_add of_nat_mult of_nat_numeral)
    then show ?thesis
      using 1 False by (subst utoa.simps) (simp add: digits_val_append digit_val_char mult.commute)
  qed
qed

lemma utoa_hd: "\<exists>d r. d < 10 \<and> utoa n = digit_char d # r"
proof (induction n rule: utoa.induct)
  case (1 n)
  show ?case
  proof (cases "n < 10")
    case True
    then show ?thesis by (subst utoa.simps) auto
  next
    case False
    with 1 obtain d r where d: "d < 10" "utoa (n div 10) = digit_char d # r" by blast
    have "utoa n = digit_char d # (r @ [digit_char (n mod 10)])"
      by (subst utoa.simps) (simp add: False d(2))
    with d(1) show ?thesis by blast
  qed
qed

lemma digit_not_sign: "d < 10 \<Longrightarrow> digit_char d \<noteq> CHR ''-'' \<and> digit_char d \<noteq> CHR ''+''"
proof -
  have "digit_val CHR ''-'' = None" "digit_val CHR ''+'' = None"
    by (simp_all add: digit_val_def less_eq_char_def)
  then show "d < 10 \<Longrightarrow> ?thesis" using digit_val_char [of d] by auto
qed

lemma Atoi_itoa:
  assumes "- (2 ^ 63) \<le> i" and "i < 2 ^ 63"
  shows "Atoi (itoa i) = Some i"
proof (cases "i < 0")
  case True
  have "digits_val 0 (utoa (nat (- i))) = Some (- i)" using True by (simp add: digits_val_utoa)
  then show ?thesis using True assms utoa_nonempty [of "nat (- i)"] by (simp add: Atoi_def itoa_def)
next
  case False
  obtain d r where d: "d < 10" "utoa (nat i) = digit_char d # r" using utoa_hd by blast
  have v: "digits_val 0 (digit_char d # r) = Some i"
    using digits_val_utoa [of "nat i"] False d(2) by simp
  have "itoa i = digit_char d # r" using False d(2) by (simp add: itoa_def)
  then show ?thesis
    using v assms digit_not_sign [OF d(1)] by (simp add: Atoi_def del: digits_val.simps)
qed

end
