(* ===== verification/Cleaner_Policy.thy ===== *)
theory Cleaner_Policy
  imports Go_Strconv
begin

text \<open>
  \<open>cleanerupper/cleanerupper.go\<close>, the policies: which cloud resources may be deleted.  A resource
  has the kind that the type switches test, and the fields that the code reads; the creation time
  is the parsed timestamp, or \<open>None\<close> when it does not parse.
\<close>

datatype res_kind =
    OSPolicyAssignment | GuestPolicy | Network | MachineImage | Disk | Image | Snapshot | Instance
  | ForwardingRule | UrlMap | BackendService | TargetHttpProxy | HealthCheck
  | NetworkEndpointGroup | Route | Firewall | Subnetwork | HealthCheckLink

record resource =
  re_kind :: res_kind
  re_name :: string
  re_desc :: string
  re_labels :: "(string \<times> string) list"
  re_created :: "time option"
  re_selfLink :: string
  re_zone :: string
  re_region :: string
  re_network :: string          \<comment> \<open>the network it belongs to\<close>
  re_protected :: bool          \<comment> \<open>an instance's deletion protection\<close>
  re_deprecated :: "string option"  \<comment> \<open>an image's deprecation state\<close>
  re_healthChecks :: "string list"  \<comment> \<open>a backend service's health checks\<close>
  re_target :: string           \<comment> \<open>a URL map's service, a proxy's URL map, a route's next network\<close>
  re_autoSubnets :: bool        \<comment> \<open>a network that creates its subnetworks\<close>
  re_cidr :: string             \<comment> \<open>a subnetwork's range\<close>

subsection \<open>Ownership\<close>

definition keepLabel :: string where "keepLabel = ''do-not-delete''"
definition CITOwnershipLabel :: string where "CITOwnershipLabel = ''cloud-image-tests''"
definition CITOwnershipValue :: string where "CITOwnershipValue = ''managed''"
definition CITOwnershipMarker :: string where "CITOwnershipMarker = ''cloud-image-tests: managed''"

definition isCITResource :: "(string \<times> string) list \<Rightarrow> string \<Rightarrow> bool" where
  "isCITResource labels description =
     (lookup0 labels [] CITOwnershipLabel = CITOwnershipValue
      \<or> Contains description CITOwnershipMarker)"

definition CITDescription :: "string \<Rightarrow> string" where
  "CITDescription description =
     (if Contains description CITOwnershipMarker then description
      else if description = [] then CITOwnershipMarker
      else description @ ''; '' @ CITOwnershipMarker)"

definition CITLabels :: "(string \<times> string) list \<Rightarrow> (string \<times> string) list" where
  "CITLabels labels =
     (CITOwnershipLabel, CITOwnershipValue) # filter (\<lambda>(k, v). k \<noteq> CITOwnershipLabel) labels"

subsection \<open>The policies\<close>

type_synonym policy = "resource \<Rightarrow> bool"

text \<open>The kinds whose labels a policy reads; for the others the labels are nil.\<close>

definition labelled :: "res_kind \<Rightarrow> bool" where
  "labelled k = (k \<in> {Disk, Image, Snapshot, Instance, ForwardingRule})"

definition policy_labels :: "resource \<Rightarrow> (string \<times> string) list" where
  "policy_labels r = (if labelled (re_kind r) then re_labels r else [])"

definition age_kinds :: "res_kind \<Rightarrow> bool" where
  "age_kinds k = (k \<in> {OSPolicyAssignment, GuestPolicy, Network, MachineImage, Disk, Image, Snapshot,
     Instance, ForwardingRule, UrlMap, BackendService, TargetHttpProxy, HealthCheck,
     NetworkEndpointGroup, Route})"

text \<open>The kinds the age policy deletes without asking who owns them.\<close>

definition unowned_kinds :: "res_kind \<Rightarrow> bool" where
  "unowned_kinds k = (k \<in> {OSPolicyAssignment, GuestPolicy})"

definition AgePolicy :: "time \<Rightarrow> policy" where
  "AgePolicy t r =
     (if \<not> age_kinds (re_kind r) then False
      else if re_kind r = Network \<and> (re_name r = ''default'' \<or> Contains (re_desc r) ''delete'') then False
      else if re_kind r = Instance \<and> re_protected r then False
      else
        let labels = policy_labels r;
            owned = (if unowned_kinds (re_kind r) then True else isCITResource labels (re_desc r))
        in case re_created r of
             None \<Rightarrow> False
           | Some created \<Rightarrow>
               if \<not> owned then False
               else if has_key labels keepLabel then False
               else created < t \<and> \<not> Contains (re_desc r) keepLabel \<and> \<not> Contains (re_name r) keepLabel)"

definition workflow_kinds :: "res_kind \<Rightarrow> bool" where
  "workflow_kinds k = (age_kinds k \<and> k \<noteq> Route)"

definition WorkflowPolicy :: "string \<Rightarrow> policy" where
  "WorkflowPolicy wid r =
     (if \<not> workflow_kinds (re_kind r) then False
      else if re_kind r = Network \<and> re_name r = ''default'' then False
      else if re_kind r = Instance \<and> re_protected r then False
      else if has_key (policy_labels r) keepLabel then False
      else HasSuffix (re_name r) wid \<and> \<not> Contains (re_desc r) keepLabel)"

definition DeprecatePolicy :: policy where
  "DeprecatePolicy r =
     (if re_kind r \<noteq> Image then False
      else if re_deprecated r \<noteq> Some ''DEPRECATED'' then False
      else if has_key (re_labels r) keepLabel then False
      else \<not> Contains (re_desc r) keepLabel \<and> \<not> Contains (re_name r) keepLabel)"

subsection \<open>Safeguards\<close>

text \<open>A resource that asks to be kept, where the code looks for the request.\<close>

definition kept :: "resource \<Rightarrow> bool" where
  "kept r \<longleftrightarrow> has_key (policy_labels r) keepLabel \<or> Contains (re_desc r) keepLabel
     \<or> (re_kind r = Network \<and> re_name r = ''default'') \<or> (re_kind r = Instance \<and> re_protected r)"

lemma AgePolicy_iff:
  "AgePolicy t r \<longleftrightarrow> age_kinds (re_kind r)
     \<and> (\<exists>created. re_created r = Some created \<and> created < t)
     \<and> (unowned_kinds (re_kind r) \<or> isCITResource (policy_labels r) (re_desc r))
     \<and> \<not> kept r \<and> \<not> Contains (re_name r) keepLabel
     \<and> \<not> (re_kind r = Network \<and> Contains (re_desc r) ''delete'')"
  by (cases "re_created r") (auto simp: AgePolicy_def kept_def Let_def)

lemma WorkflowPolicy_iff:
  "WorkflowPolicy wid r \<longleftrightarrow> workflow_kinds (re_kind r) \<and> HasSuffix (re_name r) wid \<and> \<not> kept r"
  by (auto simp: WorkflowPolicy_def kept_def)

lemma DeprecatePolicy_iff:
  "DeprecatePolicy r \<longleftrightarrow> re_kind r = Image \<and> re_deprecated r = Some ''DEPRECATED'' \<and> \<not> kept r
     \<and> \<not> Contains (re_name r) keepLabel"
  by (auto simp: DeprecatePolicy_def kept_def policy_labels_def labelled_def)

lemma CITDescription_marked: "Contains (CITDescription d) CITOwnershipMarker"
proof -
  have suffix: "Contains (a @ p) p" for a p by (metis Contains_iff append_Nil2)
  show ?thesis
    using suffix [of "[]"] suffix [of "d @ ''; ''" CITOwnershipMarker] by (simp add: CITDescription_def)
qed

lemma CITLabels_marked: "isCITResource (CITLabels labels) d"
  by (simp add: isCITResource_def CITLabels_def lookup0_def)

lemma CITLabels_keeps: "k \<noteq> CITOwnershipLabel \<Longrightarrow> map_of (CITLabels labels) k = map_of labels k"
proof (induction labels)
  case (Cons x xs)
  then show ?case by (cases x) (auto simp: CITLabels_def)
qed (simp add: CITLabels_def)

lemma Contains_sep:
  assumes "c \<notin> set k" and "k \<noteq> []"
  shows "Contains (a @ c # b) k \<longleftrightarrow> Contains a k \<or> Contains b k"
proof
  assume "Contains (a @ c # b) k"
  then obtain u v where e: "a @ c # b = u @ k @ v" by (auto simp: Contains_iff)
  then consider (left) us where "u @ us = a" "us @ c # b = k @ v"
    | (right) us where "u = a @ us" "c # b = us @ k @ v"
    by (auto simp: append_eq_append_conv2)
  then show "Contains a k \<or> Contains b k"
  proof cases
    case left
    then obtain w where "(us = k @ w \<and> w @ c # b = v) \<or> (us @ w = k \<and> c # b = w @ v)"
      by (auto simp: append_eq_append_conv2)
    then show ?thesis
    proof (elim disjE conjE)
      assume "us = k @ w"
      then show ?thesis using left(1) by (auto simp: Contains_iff)
    next
      assume w: "us @ w = k" "c # b = w @ v"
      then have "w = []" using assms(1) by (cases w) auto
      then have "a = u @ k" using w(1) left(1) by simp
      then show ?thesis by (auto simp: Contains_iff intro: exI [of _ "[]"])
    qed
  next
    case right
    then show ?thesis
    proof (cases us)
      case Nil
      then show ?thesis using right(2) assms by (cases k) auto
    next
      case (Cons x xs)
      then have "b = xs @ k @ v" using right(2) by simp
      then show ?thesis by (auto simp: Contains_iff)
    qed
  qed
next
  assume "Contains a k \<or> Contains b k"
  then show "Contains (a @ c # b) k"
    by (auto simp: Contains_iff) (metis append.assoc append_Cons)+
qed

lemma CITDescription_Contains:
  assumes "k = keepLabel \<or> k = ''delete''"
  shows "Contains (CITDescription d) k \<longleftrightarrow> Contains d k"
proof -
  have m: "\<not> Contains CITOwnershipMarker k" "\<not> Contains (CHR '' '' # CITOwnershipMarker) k"
    using assms by (auto simp: CITOwnershipMarker_def keepLabel_def HasPrefix_def)
  have k: "CHR '';'' \<notin> set k" "k \<noteq> []" using assms by (auto simp: keepLabel_def)
  show ?thesis
    using m Contains_sep [OF k, of d "CHR '' '' # CITOwnershipMarker"] k
    by (auto simp: CITDescription_def)
qed

definition marked :: "resource \<Rightarrow> resource" where
  "marked r = r\<lparr>re_desc := CITDescription (re_desc r)\<rparr>"

subsection \<open>Properties\<close>

text \<open>Marking a resource with \<open>CITDescription\<close> is what makes the age policy collect it: a marked
  resource is deleted exactly when it is of a known kind, older than the cutoff and neither it nor
  its name asks to be kept, and the mark never hides such a request; an unmarked resource is deleted
  only when it would be with the mark and is CIT's by its label or description, or of the two kinds
  the policy deletes without asking for an owner.\<close>

theorem marked_is_collected:
  "(AgePolicy t (marked r) \<longleftrightarrow> age_kinds (re_kind r)
      \<and> (\<exists>created. re_created r = Some created \<and> created < t) \<and> \<not> kept r
      \<and> \<not> Contains (re_name r) keepLabel \<and> \<not> (re_kind r = Network \<and> Contains (re_desc r) ''delete''))
   \<and> (AgePolicy t r \<longleftrightarrow> AgePolicy t (marked r)
      \<and> (unowned_kinds (re_kind r) \<or> isCITResource (policy_labels r) (re_desc r)))"
proof -
  have "kept (marked r) = kept r"
    by (simp add: marked_def kept_def CITDescription_Contains policy_labels_def)
  moreover have "isCITResource (policy_labels (marked r)) (re_desc (marked r))"
    using CITDescription_marked by (simp add: marked_def isCITResource_def)
  ultimately show ?thesis
    by (auto simp: AgePolicy_iff marked_def CITDescription_Contains)
qed
end
