(* ===== verification/Cleaner.thy ===== *)
theory Cleaner
  imports Cleaner_Policy
begin

text \<open>
  \<open>cleanerupper/cleanerupper.go\<close>, the operations.  Which deletions an operation launches depends
  on the listings and on the policy, never on how earlier deletions end, so each operation is
  modelled by its plan: the deletions in the order of their launch, the waits between them and the
  listing errors.  Running a plan against any outcomes of the deletions gives the two results of
  the operation.  The goroutines between two waits may finish in any order, so the code returns
  some permutation of the lists computed here.  A listing asked twice answers the same: the code
  caches the ones that worked.
\<close>

subsection \<open>Plans\<close>

datatype call =
    DeleteInstance string string | DeleteDisk string string | DeleteImage string
  | DeleteMachineImage string | DeleteSnapshot string | DeleteForwardingRule string string
  | DeleteTargetHTTPProxy string string | DeleteURLMap string string
  | DeleteBackendService string string | DeleteHealthCheck string string
  | DeleteRegionNEG string string | DeleteZonalNEG string string | DeleteFirewallRule string
  | DeleteSubnetwork string string | DeleteRoute string | DeleteNetwork string
  | DeleteGuestPolicy string | DeleteOSPolicyAssignment string

text \<open>
  A deletion: the call, the name reported when it worked, what is put before its error, and whether
  the name is reported although the call failed.
\<close>

record task =
  tk_call :: call
  tk_partial :: string
  tk_prefix :: string
  tk_always :: bool

datatype event = Spawn task | Wait | ListErr string

text \<open>A part of a plan whose errors \<open>errors.Join\<close> makes one, and a part that reports each.\<close>

datatype segment = Plain "event list" | Joined "event list"

type_synonym plan = "segment list"

definition mk_task :: "call \<Rightarrow> string \<Rightarrow> task" where
  "mk_task c partial = \<lparr>tk_call = c, tk_partial = partial, tk_prefix = [], tk_always = False\<rparr>"

text \<open>Outcomes: the error, if any, of the deletion launched as the n-th.\<close>

fun run_events ::
  "bool \<Rightarrow> (nat \<Rightarrow> string option) \<Rightarrow> nat \<Rightarrow> event list \<Rightarrow> nat \<times> string list \<times> string list" where
  "run_events dry out n [] = (n, [], [])"
| "run_events dry out n (Wait # es) = run_events dry out n es"
| "run_events dry out n (ListErr e # es) =
     (case run_events dry out n es of (m, ds, er) \<Rightarrow> (m, ds, e # er))"
| "run_events dry out n (Spawn t # es) =
     (case run_events dry out (Suc n) es of (m, ds, er) \<Rightarrow>
        (case (if dry then None else out n) of
           None \<Rightarrow> (m, tk_partial t # ds, er)
         | Some e \<Rightarrow> (m, if tk_always t then tk_partial t # ds else ds, (tk_prefix t @ e) # er)))"

definition join_errors :: "string list \<Rightarrow> string list" where
  "join_errors er = (if er = [] then [] else [Join [CHR 0x0A] er])"

fun run_plan ::
  "bool \<Rightarrow> (nat \<Rightarrow> string option) \<Rightarrow> nat \<Rightarrow> plan \<Rightarrow> string list \<times> string list" where
  "run_plan dry out n [] = ([], [])"
| "run_plan dry out n (Plain es # segs) =
     (case run_events dry out n es of (m, ds, er) \<Rightarrow>
        (case run_plan dry out m segs of (ds', er') \<Rightarrow> (ds @ ds', er @ er')))"
| "run_plan dry out n (Joined es # segs) =
     (case run_events dry out n es of (m, ds, er) \<Rightarrow>
        (case run_plan dry out m segs of (ds', er') \<Rightarrow> (ds @ ds', join_errors er @ er')))"

fun seg_events :: "segment \<Rightarrow> event list" where
  "seg_events (Plain es) = es"
| "seg_events (Joined es) = es"

definition events :: "plan \<Rightarrow> event list" where
  "events p = concat (map seg_events p)"

fun spawned :: "event list \<Rightarrow> task list" where
  "spawned [] = []"
| "spawned (Spawn t # es) = t # spawned es"
| "spawned (Wait # es) = spawned es"
| "spawned (ListErr e # es) = spawned es"

text \<open>The delete calls a run makes: none in a dry run.\<close>

definition calls :: "bool \<Rightarrow> plan \<Rightarrow> call list" where
  "calls dry p = (if dry then [] else map tk_call (spawned (events p)))"

subsection \<open>The listings\<close>

type_synonym listing = "string + resource list"

record cloud =
  cl_instances :: listing
  cl_disks :: listing
  cl_images :: listing
  cl_machineImages :: listing
  cl_snapshots :: listing
  cl_forwardingRules :: listing          \<comment> \<open>of all regions and the global ones\<close>
  cl_regions :: "string + string list"   \<comment> \<open>the links of the regions\<close>
  cl_regionFRs :: "string \<Rightarrow> listing"
  cl_regionBSs :: "string \<Rightarrow> listing"
  cl_regionUMs :: "string \<Rightarrow> listing"
  cl_regionHPs :: "string \<Rightarrow> listing"
  cl_regionNEGs :: "string \<Rightarrow> listing"
  cl_regionZones :: "string \<Rightarrow> string + string list"  \<comment> \<open>names of a region's zones\<close>
  cl_zonalNEGs :: "string \<Rightarrow> listing"
  cl_networks :: listing
  cl_firewalls :: listing
  cl_subnetworks :: listing
  cl_routes :: listing
  cl_zones :: "string + string list"
  cl_guestPolicies :: "resource list \<times> string option"            \<comment> \<open>the iterator, and how it ends\<close>
  cl_osPolicies :: "string \<Rightarrow> resource list \<times> string option"

definition ask :: "string + 'a list \<Rightarrow> event list \<times> 'a list" where
  "ask l = (case l of Inl e \<Rightarrow> ([ListErr e], []) | Inr rs \<Rightarrow> ([], rs))"

definition spawn_each :: "(resource \<Rightarrow> task) \<Rightarrow> policy \<Rightarrow> resource list \<Rightarrow> event list" where
  "spawn_each mk delete rs = map (\<lambda>r. Spawn (mk r)) (filter delete rs)"

text \<open>The plan of the operations on one listing: a failed listing is the only error.\<close>

definition clean_listing ::
  "string \<Rightarrow> listing \<Rightarrow> (resource \<Rightarrow> task) \<Rightarrow> policy \<Rightarrow> plan" where
  "clean_listing what l mk delete =
     (case l of
        Inl e \<Rightarrow> [Plain [ListErr (what @ e)]]
      | Inr rs \<Rightarrow> [Plain (spawn_each mk delete rs @ [Wait])])"

definition list_error :: "string \<Rightarrow> string \<Rightarrow> string" where
  "list_error what project = ''error listing '' @ what @ '' in project \"'' @ project @ ''\": ''"

definition global_partial :: "string \<Rightarrow> string \<Rightarrow> string \<Rightarrow> string" where
  "global_partial project coll name = ''projects/'' @ project @ ''/global/'' @ coll @ ''/'' @ name"

definition zonal_partial :: "string \<Rightarrow> string \<Rightarrow> string \<Rightarrow> string \<Rightarrow> string" where
  "zonal_partial project zone coll name =
     ''projects/'' @ project @ ''/zones/'' @ zone @ ''/'' @ coll @ ''/'' @ name"

definition regional_partial :: "string \<Rightarrow> string \<Rightarrow> string \<Rightarrow> string \<Rightarrow> string" where
  "regional_partial project region coll name =
     ''projects/'' @ project @ ''/regions/'' @ region @ ''/'' @ coll @ ''/'' @ name"

definition CleanInstances :: "cloud \<Rightarrow> string \<Rightarrow> policy \<Rightarrow> plan" where
  "CleanInstances c project delete =
     clean_listing (list_error ''instance'' project) (cl_instances c)
       (\<lambda>i. let zone = path_Base (re_zone i); name = path_Base (re_selfLink i)
            in mk_task (DeleteInstance zone name) (zonal_partial project zone ''instances'' name))
       delete"

definition CleanDisks :: "cloud \<Rightarrow> string \<Rightarrow> policy \<Rightarrow> plan" where
  "CleanDisks c project delete =
     clean_listing (list_error ''disks'' project) (cl_disks c)
       (\<lambda>d. let zone = path_Base (re_zone d); name = path_Base (re_selfLink d)
            in mk_task (DeleteDisk zone name) (zonal_partial project zone ''disks'' name))
       delete"

definition CleanImages :: "cloud \<Rightarrow> string \<Rightarrow> policy \<Rightarrow> plan" where
  "CleanImages c project delete =
     clean_listing (list_error ''images'' project) (cl_images c)
       (\<lambda>d. let name = path_Base (re_selfLink d)
            in mk_task (DeleteImage name) (global_partial project ''images'' name))
       delete"

definition CleanMachineImages :: "cloud \<Rightarrow> string \<Rightarrow> policy \<Rightarrow> plan" where
  "CleanMachineImages c project delete =
     clean_listing (list_error ''machine images'' project) (cl_machineImages c)
       (\<lambda>d. let name = path_Base (re_selfLink d)
            in mk_task (DeleteMachineImage name) (global_partial project ''machineImages'' name))
       delete"

definition CleanSnapshots :: "cloud \<Rightarrow> string \<Rightarrow> policy \<Rightarrow> plan" where
  "CleanSnapshots c project delete =
     clean_listing (list_error ''snapshots'' project) (cl_snapshots c)
       (\<lambda>d. let name = path_Base (re_selfLink d)
            in mk_task (DeleteSnapshot name) (global_partial project ''snapshots'' name))
       delete"

subsection \<open>Network endpoint groups\<close>

text \<open>\<open>network\<close> is the link of the network they must belong to, when there is one.\<close>

definition in_network :: "string option \<Rightarrow> resource \<Rightarrow> bool" where
  "in_network network r = (case network of None \<Rightarrow> True | Some l \<Rightarrow> re_network r = l)"

definition zonal_negs ::
  "cloud \<Rightarrow> string \<Rightarrow> policy \<Rightarrow> string option \<Rightarrow> string \<Rightarrow> event list" where
  "zonal_negs c project delete network zone =
     (case ask (cl_zonalNEGs c zone) of (ev, negs) \<Rightarrow>
        ev @ spawn_each
          (\<lambda>neg. (mk_task (DeleteZonalNEG zone (re_name neg))
                   (zonal_partial project zone ''networkEndpointGroups'' (re_name neg)))
                 \<lparr>tk_always := True\<rparr>)
          delete (filter (in_network network) negs))"

definition deleteNetworkEndpointGroups ::
  "cloud \<Rightarrow> string \<Rightarrow> string \<Rightarrow> policy \<Rightarrow> string option \<Rightarrow> segment" where
  "deleteNetworkEndpointGroups c project region delete network =
     (case ask (cl_regionNEGs c region) of (ev, negs) \<Rightarrow>
        (case ask (cl_regionZones c region) of (ev', zones) \<Rightarrow>
           Joined (ev
             @ spawn_each
                 (\<lambda>neg. mk_task (DeleteRegionNEG region (re_name neg))
                          (regional_partial project region ''networkEndpointGroups'' (re_name neg)))
                 delete (filter (in_network network) negs)
             @ ev' @ concat (map (zonal_negs c project delete network) zones) @ [Wait])))"

subsection \<open>Load balancers\<close>

definition health_link :: "string \<Rightarrow> resource" where
  "health_link l = \<lparr>re_kind = HealthCheckLink, re_name = l, re_desc = [], re_labels = [],
     re_created = None, re_selfLink = l, re_zone = [], re_region = [], re_network = [],
     re_protected = False, re_deprecated = None, re_healthChecks = [], re_target = [],
     re_autoSubnets = False, re_cidr = []\<rparr>"

definition fr_task :: "string \<Rightarrow> string \<Rightarrow> resource \<Rightarrow> task" where
  "fr_task project region fr = mk_task (DeleteForwardingRule region (re_name fr))
     (regional_partial project region ''forwardingRules'' (re_name fr))"

definition hp_task :: "string \<Rightarrow> string \<Rightarrow> resource \<Rightarrow> task" where
  "hp_task project region hp = mk_task (DeleteTargetHTTPProxy region (path_Base (re_name hp)))
     (regional_partial project region ''targetHttpProxies'' (re_name hp))"

definition um_task :: "string \<Rightarrow> string \<Rightarrow> resource \<Rightarrow> task" where
  "um_task project region um = mk_task (DeleteURLMap region (path_Base (re_name um)))
     (regional_partial project region ''urlMaps'' (re_name um))"

definition bs_task :: "string \<Rightarrow> string \<Rightarrow> resource \<Rightarrow> task" where
  "bs_task project region bs = mk_task (DeleteBackendService region (re_name bs))
     (regional_partial project region ''backendServices'' (re_name bs))"

definition hc_task :: "string \<Rightarrow> string \<Rightarrow> string \<Rightarrow> task" where
  "hc_task project region hc = mk_task (DeleteHealthCheck region (path_Base hc))
     (regional_partial project region ''healthChecks'' (path_Base hc))"

text \<open>
  A backend service with what stands on it: the URL maps, each after its proxies, then the service
  alone, then its health checks.  The three predicates choose the proxies of a URL map, the URL
  maps of the service and its health checks.
\<close>

definition url_map_events ::
  "cloud \<Rightarrow> string \<Rightarrow> string \<Rightarrow> (resource \<Rightarrow> resource \<Rightarrow> bool) \<Rightarrow> resource \<Rightarrow> event list" where
  "url_map_events c project region hp_of um =
     (case ask (cl_regionHPs c region) of (ev, hps) \<Rightarrow>
        ev @ spawn_each (hp_task project region) (hp_of um) hps
        @ [Wait, Spawn (um_task project region um)])"

definition backend_events ::
  "cloud \<Rightarrow> string \<Rightarrow> string \<Rightarrow> (resource \<Rightarrow> resource \<Rightarrow> bool) \<Rightarrow> (resource \<Rightarrow> resource \<Rightarrow> bool)
     \<Rightarrow> (string \<Rightarrow> bool) \<Rightarrow> resource \<Rightarrow> event list" where
  "backend_events c project region hp_of um_of hc_ok bs =
     (case ask (cl_regionUMs c region) of (ev, ums) \<Rightarrow>
        ev @ concat (map (url_map_events c project region hp_of) (filter (um_of bs) ums))
        @ [Wait, Spawn (bs_task project region bs), Wait]
        @ map (\<lambda>hc. Spawn (hc_task project region hc)) (filter hc_ok (re_healthChecks bs)))"

definition lb_region :: "cloud \<Rightarrow> string \<Rightarrow> policy \<Rightarrow> string \<Rightarrow> plan" where
  "lb_region c project delete region =
     (case ask (cl_regionFRs c region) of (ev, frs) \<Rightarrow>
        (case ask (cl_regionBSs c region) of (ev', bss) \<Rightarrow>
           [Plain (ev @ spawn_each (fr_task project region) delete frs @ ev'
              @ concat (map (backend_events c project region (\<lambda>um. delete) (\<lambda>bs. delete)
                               (\<lambda>hc. delete (health_link hc))) (filter delete bss))
              @ [Wait]),
            deleteNetworkEndpointGroups c project region delete None]))"

definition CleanLoadBalancerResources ::
  "cloud \<Rightarrow> string \<Rightarrow> policy \<Rightarrow> string list \<Rightarrow> plan" where
  "CleanLoadBalancerResources c project delete regions =
     (case cl_forwardingRules c of
        Inl e \<Rightarrow> [Plain [ListErr (''could not list all forwarding rules: '' @ e)]]
      | Inr globals \<Rightarrow>
          (case (if regions = [] then map_sum id (map path_Base) (cl_regions c) else Inr regions) of
             Inl e \<Rightarrow> [Plain [ListErr (''could not list regions: '' @ e)]]
           | Inr regionNames \<Rightarrow>
               Plain (spawn_each (\<lambda>fr. fr_task project (re_region fr) fr) delete globals @ [Wait])
               # concat (map (lb_region c project delete) regionNames) @ [Plain [Wait]]))"

subsection \<open>Networks\<close>

text \<open>
  Whether an automatic subnetwork is left alone; \<open>None\<close>: the range has no dot, and the index
  panics.  A second component that is no number counts as 0.
\<close>

definition auto_range :: "resource \<Rightarrow> resource \<Rightarrow> bool option" where
  "auto_range n sn =
     (if \<not> re_autoSubnets n then Some False
      else (case Split (CHR ''.'') (re_cidr sn) of
              _ # x # _ \<Rightarrow> Some (128 \<le> (case Atoi x of None \<Rightarrow> 0 | Some i \<Rightarrow> i))
            | _ \<Rightarrow> None))"

definition subnet_plan :: "cloud \<Rightarrow> string \<Rightarrow> policy \<Rightarrow> resource \<Rightarrow> resource \<Rightarrow> plan" where
  "subnet_plan c project delete n sn =
     (let region = path_Base (re_region sn); mine = (\<lambda>r. re_network r = re_selfLink n)
      in case ask (cl_regionFRs c region) of (ev, frs) \<Rightarrow>
           (case ask (cl_regionBSs c region) of (ev', bss) \<Rightarrow>
              [Plain (ev @ spawn_each (fr_task project region) mine frs @ ev'
                 @ concat (map (backend_events c project region
                                  (\<lambda>um hp. re_target hp = re_selfLink um)
                                  (\<lambda>bs um. re_target um = re_selfLink bs) (\<lambda>hc. True))
                            (filter mine bss))
                 @ [Wait]),
               deleteNetworkEndpointGroups c project region delete (Some (re_selfLink n)),
               Plain [Spawn (mk_task (DeleteSubnetwork region (re_name sn))
                        (regional_partial project region ''subnetworks'' (re_name sn)))]]))"

fun subnets_plan :: "cloud \<Rightarrow> string \<Rightarrow> policy \<Rightarrow> resource \<Rightarrow> resource list \<Rightarrow> plan option" where
  "subnets_plan c project delete n [] = Some []"
| "subnets_plan c project delete n (sn # sns) =
     (if re_network sn \<noteq> re_selfLink n then subnets_plan c project delete n sns
      else (case auto_range n sn of
              None \<Rightarrow> None
            | Some True \<Rightarrow> subnets_plan c project delete n sns
            | Some False \<Rightarrow>
                map_option (\<lambda>p. subnet_plan c project delete n sn @ p)
                  (subnets_plan c project delete n sns)))"

definition firewall_task :: "string \<Rightarrow> resource \<Rightarrow> task" where
  "firewall_task project f = (let name = path_Base (re_selfLink f)
     in mk_task (DeleteFirewallRule name) (global_partial project ''firewalls'' name))"

definition route_task :: "string \<Rightarrow> resource \<Rightarrow> task" where
  "route_task project r = mk_task (DeleteRoute (re_name r))
     (global_partial project ''routes'' (re_name r))"

definition network_task :: "string \<Rightarrow> resource \<Rightarrow> task" where
  "network_task project n = (let name = path_Base (re_selfLink n)
     in mk_task (DeleteNetwork name) (global_partial project ''networks'' name))"

definition network_plan ::
  "cloud \<Rightarrow> string \<Rightarrow> policy \<Rightarrow> resource list \<Rightarrow> resource list \<Rightarrow> resource list \<Rightarrow> resource \<Rightarrow> plan option"
where
  "network_plan c project delete firewalls subnetworks routes n =
     (case subnets_plan c project delete n subnetworks of
        None \<Rightarrow> None
      | Some subs \<Rightarrow>
          Some (Plain (spawn_each (firewall_task project) (\<lambda>f. re_network f = re_selfLink n) firewalls)
            # subs
            @ [Plain (spawn_each (route_task project)
                        (\<lambda>r. re_network r = re_selfLink n \<and> re_target r = []) routes
                @ [Wait, Spawn (network_task project n), Wait])]))"

fun concat_plans :: "plan option list \<Rightarrow> plan option" where
  "concat_plans [] = Some []"
| "concat_plans (p # ps) =
     (case p of None \<Rightarrow> None | Some x \<Rightarrow> map_option (\<lambda>y. x @ y) (concat_plans ps))"

definition CleanNetworks :: "cloud \<Rightarrow> string \<Rightarrow> policy \<Rightarrow> plan option" where
  "CleanNetworks c project delete =
     (case cl_networks c of
        Inl e \<Rightarrow> Some [Plain [ListErr (list_error ''networks'' project @ e)]]
      | Inr networks \<Rightarrow>
     (case cl_firewalls c of
        Inl e \<Rightarrow> Some [Plain [ListErr (list_error ''firewalls'' project @ e)]]
      | Inr firewalls \<Rightarrow>
     (case cl_subnetworks c of
        Inl e \<Rightarrow> Some [Plain [ListErr (list_error ''subnetworks'' project @ e)]]
      | Inr subnetworks \<Rightarrow>
     (case cl_routes c of
        Inl e \<Rightarrow> Some [Plain [ListErr (list_error ''routes'' project @ e)]]
      | Inr routes \<Rightarrow>
          concat_plans (map (network_plan c project delete firewalls subnetworks routes)
            (filter delete networks))))))"

subsection \<open>OS configuration policies\<close>

definition CleanGuestPolicies :: "cloud \<Rightarrow> policy \<Rightarrow> plan" where
  "CleanGuestPolicies c delete =
     (case cl_guestPolicies c of
        (gps, Some e) \<Rightarrow> [Plain [ListErr (''Failed to list Guest Policies : '' @ e)]]
      | (gps, None) \<Rightarrow>
          [Plain (spawn_each
             (\<lambda>gp. (mk_task (DeleteGuestPolicy (re_name gp)) (re_name gp))
                   \<lparr>tk_prefix := ''Failed to delete Guest Policy '' @ re_name gp @ '': ''\<rparr>)
             delete gps @ [Wait])])"

definition os_policies_of :: "cloud \<Rightarrow> string \<Rightarrow> event list \<times> resource list" where
  "os_policies_of c zone =
     (case cl_osPolicies c zone of
        (osps, None) \<Rightarrow> ([], osps)
      | (osps, Some e) \<Rightarrow>
          ([ListErr (''Failed to list OSPolicy assignments for zone '' @ zone @ '' : '' @ e)], osps))"

definition CleanOSPolicyAssignments :: "cloud \<Rightarrow> policy \<Rightarrow> plan" where
  "CleanOSPolicyAssignments c delete =
     (case cl_zones c of
        Inl e \<Rightarrow> [Plain [ListErr (''Failed to list zones : '' @ e), Wait]]
      | Inr zones \<Rightarrow>
          [Plain (concat (map (\<lambda>z. fst (os_policies_of c z)) zones)
             @ spawn_each
                 (\<lambda>osp. (mk_task (DeleteOSPolicyAssignment (re_name osp)) (re_name osp))
                    \<lparr>tk_prefix := ''Failed to delete OSPolicy assignment '' @ re_name osp @ '': ''\<rparr>)
                 delete (concat (map (\<lambda>z. snd (os_policies_of c z)) zones))
             @ [Wait])])"

subsection \<open>What a run reports\<close>

lemma spawned_append [simp]: "spawned (es @ fs) = spawned es @ spawned fs"
  by (induction es rule: spawned.induct) simp_all

lemma spawned_concat: "spawned (concat ess) = concat (map spawned ess)"
  by (induction ess) simp_all

lemma spawned_each [simp]: "spawned (spawn_each mk delete rs) = map mk (filter delete rs)"
  by (induction rs) (simp_all add: spawn_each_def)

lemma spawned_map_Spawn [simp]: "spawned (map (\<lambda>x. Spawn (f x)) xs) = map f xs"
  by (induction xs) simp_all

lemma spawned_ask [simp]: "ask l = (ev, rs) \<Longrightarrow> spawned ev = []"
  by (auto simp: ask_def split: sum.splits)

text \<open>The names a run reports: of the deletions that worked, and of those reported anyway.\<close>

definition reported :: "bool \<Rightarrow> (nat \<Rightarrow> string option) \<Rightarrow> nat \<Rightarrow> task list \<Rightarrow> string list" where
  "reported dry out n ts =
     map (\<lambda>(i, t). tk_partial t)
       (filter (\<lambda>(i, t). dry \<or> out i = None \<or> tk_always t) (enumerate n ts))"

definition failed :: "bool \<Rightarrow> (nat \<Rightarrow> string option) \<Rightarrow> nat \<Rightarrow> task list \<Rightarrow> nat" where
  "failed dry out n ts = length (filter (\<lambda>(i, t). \<not> dry \<and> out i \<noteq> None) (enumerate n ts))"

fun list_errors :: "event list \<Rightarrow> nat" where
  "list_errors [] = 0"
| "list_errors (ListErr e # es) = Suc (list_errors es)"
| "list_errors (x # es) = list_errors es"

lemma reported_Cons:
  "reported dry out n (t # ts) =
     (if dry \<or> out n = None \<or> tk_always t then [tk_partial t] else []) @ reported dry out (Suc n) ts"
  by (simp add: reported_def)

lemma failed_Cons:
  "failed dry out n (t # ts) = (if \<not> dry \<and> out n \<noteq> None then 1 else 0) + failed dry out (Suc n) ts"
  by (simp add: failed_def)

lemma run_events_reports:
  "\<exists>er. run_events dry out n es = (n + length (spawned es), reported dry out n (spawned es), er)
     \<and> length er = failed dry out n (spawned es) + list_errors es"
proof (induction es arbitrary: n)
  case Nil
  show ?case by (simp add: reported_def failed_def)
next
  case (Cons e es)
  show ?case
  proof (cases e)
    case (Spawn t)
    obtain er where "run_events dry out (Suc n) es =
        (Suc n + length (spawned es), reported dry out (Suc n) (spawned es), er)"
      "length er = failed dry out (Suc n) (spawned es) + list_errors es"
      using Cons.IH by blast
    then show ?thesis using Spawn by (auto simp: reported_Cons failed_Cons split: option.splits)
  next
    case Wait
    then show ?thesis using Cons.IH [of n] by simp
  next
    case (ListErr x)
    then show ?thesis using Cons.IH [of n] by auto
  qed
qed

lemma enumerate_append: "enumerate n (xs @ ys) = enumerate n xs @ enumerate (n + length xs) ys"
  by (induction xs arbitrary: n) simp_all

lemma reported_append:
  "reported dry out n (ts @ us) = reported dry out n ts @ reported dry out (n + length ts) us"
  by (simp add: reported_def enumerate_append)

lemma events_Cons: "events (seg # p) = seg_events seg @ events p"
  by (simp add: events_def)

lemma run_plan_reports: "fst (run_plan dry out n p) = reported dry out n (spawned (events p))"
proof (induction p arbitrary: n)
  case (Cons seg p)
  obtain es where es: "seg = Plain es \<or> seg = Joined es" by (cases seg) auto
  obtain er where "run_events dry out n es = (n + length (spawned es), reported dry out n (spawned es), er)"
    using run_events_reports by blast
  then show ?case
    using es Cons.IH [of "n + length (spawned es)"]
    by (auto simp: events_Cons reported_append split: prod.splits)
qed (simp add: events_def reported_def)

lemma reported_dry: "reported True out n ts = map tk_partial ts"
  by (induction ts arbitrary: n) (simp_all add: reported_def)

lemma reported_in: "x \<in> set (reported dry out n ts) \<Longrightarrow> \<exists>t \<in> set ts. x = tk_partial t"
proof (induction ts arbitrary: n)
  case (Cons t ts)
  then show ?case using Cons.IH [of "Suc n"] by (auto simp: reported_Cons split: if_splits)
qed (simp add: reported_def)

lemma reported_strict:
  "\<forall>t \<in> set ts. \<not> tk_always t \<Longrightarrow>
     length (reported dry out n ts) + failed dry out n ts = length ts"
  by (induction ts arbitrary: n) (auto simp: reported_def failed_def)

subsection \<open>The deletions that must be alone\<close>

text \<open>
  A URL map goes after its proxies, a backend service after its URL maps and a network after
  everything in it: when one of these is launched, no other deletion of the operation is running.
\<close>

fun critical :: "call \<Rightarrow> bool" where
  "critical (DeleteURLMap r n) = True"
| "critical (DeleteBackendService r n) = True"
| "critical (DeleteNetwork n) = True"
| "critical _ = False"

fun alone :: "nat \<Rightarrow> event list \<Rightarrow> bool" where
  "alone n [] = True"
| "alone n (Wait # es) = alone 0 es"
| "alone n (ListErr e # es) = alone n es"
| "alone n (Spawn t # es) = ((critical (tk_call t) \<longrightarrow> n = 0) \<and> alone (Suc n) es)"

fun running :: "nat \<Rightarrow> event list \<Rightarrow> nat" where
  "running n [] = n"
| "running n (Wait # es) = running 0 es"
| "running n (ListErr e # es) = running n es"
| "running n (Spawn t # es) = running (Suc n) es"

lemma alone_append: "alone n (es @ fs) \<longleftrightarrow> alone n es \<and> alone (running n es) fs"
  by (induction n es rule: alone.induct) auto

definition always_alone :: "event list \<Rightarrow> bool" where
  "always_alone es \<longleftrightarrow> (\<forall>n. alone n es)"

lemma always_alone_append: "always_alone es \<Longrightarrow> always_alone fs \<Longrightarrow> always_alone (es @ fs)"
  by (simp add: always_alone_def alone_append)

lemma always_alone_concat: "(\<And>es. es \<in> set ess \<Longrightarrow> always_alone es) \<Longrightarrow> always_alone (concat ess)"
  by (induction ess) (auto simp: always_alone_append, simp add: always_alone_def)

lemma always_alone_simple:
  "(\<And>t. t \<in> set (spawned es) \<Longrightarrow> \<not> critical (tk_call t)) \<Longrightarrow> always_alone es"
proof -
  have "(\<forall>t \<in> set (spawned es). \<not> critical (tk_call t)) \<Longrightarrow> alone n es" for n
    by (induction n es rule: alone.induct) auto
  then show "(\<And>t. t \<in> set (spawned es) \<Longrightarrow> \<not> critical (tk_call t)) \<Longrightarrow> always_alone es"
    by (simp add: always_alone_def)
qed

lemma always_alone_wait: "always_alone [Wait]" "always_alone [Wait, Spawn t]"
    "always_alone [Wait, Spawn t, Wait]"
    "always_alone es \<Longrightarrow> always_alone (Wait # Spawn t # Wait # es)"
  by (simp_all add: always_alone_def)

lemma always_alone_Wait_Cons: "always_alone es \<Longrightarrow> always_alone (Wait # es)"
  by (simp add: always_alone_def)

lemma always_alone_each:
  "(\<And>r. \<not> critical (tk_call (mk r))) \<Longrightarrow> always_alone (spawn_each mk delete rs)"
  "(\<And>x. \<not> critical (tk_call (f x))) \<Longrightarrow> always_alone (map (\<lambda>x. Spawn (f x)) xs)"
  by (rule always_alone_simple; auto)+

lemma always_alone_ask: "ask l = (ev, rs) \<Longrightarrow> always_alone ev"
  by (rule always_alone_simple) simp

lemma critical_tasks [simp]:
  "\<not> critical (tk_call (fr_task p r x))" "\<not> critical (tk_call (hp_task p r x))"
  "\<not> critical (tk_call (hc_task p r l))" "\<not> critical (tk_call (firewall_task p x))"
  "\<not> critical (tk_call (route_task p x))"
  by (simp_all add: fr_task_def hp_task_def hc_task_def firewall_task_def route_task_def mk_task_def
      Let_def)

lemmas alone_intros = always_alone_append always_alone_wait always_alone_each

lemma alone_url_map: "always_alone (url_map_events c project region hp_of um)"
  by (auto simp: url_map_events_def dest!: always_alone_ask split: prod.split intro!: alone_intros)

lemma alone_backend: "always_alone (backend_events c project region hp_of um_of hc_ok bs)"
  by (auto simp: backend_events_def dest!: always_alone_ask split: prod.split
      intro!: alone_intros always_alone_concat alone_url_map)

lemma alone_zonal: "always_alone (zonal_negs c project delete network zone)"
  by (auto simp: zonal_negs_def mk_task_def dest!: always_alone_ask split: prod.split intro!: alone_intros)

lemma alone_negs: "always_alone (seg_events (deleteNetworkEndpointGroups c project region delete network))"
  by (auto simp: deleteNetworkEndpointGroups_def mk_task_def dest!: always_alone_ask split: prod.split
      intro!: alone_intros always_alone_concat alone_zonal)

lemma alone_lb_region: "always_alone (events (lb_region c project delete region))"
  by (auto simp: lb_region_def events_def dest!: always_alone_ask split: prod.split
      intro!: alone_intros always_alone_concat alone_backend alone_negs always_alone_Wait_Cons)

lemma events_concat: "events (concat ps) = concat (map events ps)"
  by (induction ps) (simp_all add: events_def)

lemma events_append [simp]: "events (p @ q) = events p @ events q"
  by (simp add: events_def)

lemma alone_lb: "always_alone (events (CleanLoadBalancerResources c project delete regions))"
proof -
  have s: "always_alone (seg_events (Plain [ListErr e]))" "always_alone (events [])"
      "always_alone (seg_events (Plain [Wait]))" for e
    by (simp_all add: events_def always_alone_def)
  have seg: "always_alone (seg_events (Plain (spawn_each (\<lambda>fr. fr_task project (re_region fr) fr) delete fs @ [Wait])))"
    for fs by (auto intro!: alone_intros)
  have "always_alone (events (concat (map (lb_region c project delete) rs)))" for rs
    by (auto simp: events_concat intro!: always_alone_concat alone_lb_region)
  then show ?thesis
    by (simp add: CleanLoadBalancerResources_def s seg events_Cons always_alone_append
        del: seg_events.simps split: sum.split)
qed

lemma alone_subnet: "always_alone (events (subnet_plan c project delete n sn))"
proof -
  have "always_alone [Spawn (mk_task (DeleteSubnetwork r x) y)]" for r x y
    by (simp add: always_alone_def mk_task_def)
  then show ?thesis
    by (auto simp: subnet_plan_def Let_def events_def dest!: always_alone_ask split: prod.split
        intro!: alone_intros always_alone_concat alone_backend alone_negs always_alone_Wait_Cons)
qed

lemma alone_subnets:
  "subnets_plan c project delete n sns = Some p \<Longrightarrow> always_alone (events p)"
proof (induction sns arbitrary: p)
  case (Cons sn sns)
  then show ?case
    by (auto intro!: always_alone_append alone_subnet split: if_splits option.splits bool.splits)
qed (simp add: events_def always_alone_def)

lemma alone_network:
  assumes "network_plan c project delete fws subs rts n = Some p"
  shows "always_alone (events p)"
proof -
  from assms obtain sp where sp: "subnets_plan c project delete n subs = Some sp"
    and p: "p = Plain (spawn_each (firewall_task project) (\<lambda>f. re_network f = re_selfLink n) fws)
       # sp @ [Plain (spawn_each (route_task project)
               (\<lambda>r. re_network r = re_selfLink n \<and> re_target r = []) rts
             @ [Wait, Spawn (network_task project n), Wait])]"
    by (auto simp: network_plan_def split: option.splits)
  have "always_alone (events [Plain (spawn_each (route_task project)
      (\<lambda>r. re_network r = re_selfLink n \<and> re_target r = []) rts
      @ [Wait, Spawn (network_task project n), Wait])])"
    by (auto simp: events_def intro!: alone_intros)
  then show ?thesis
    using alone_subnets [OF sp]
    by (auto simp: p events_Cons intro!: alone_intros)
qed

lemma concat_plans_Some:
  "concat_plans ps = Some p \<Longrightarrow> \<exists>qs. ps = map Some qs \<and> p = concat qs"
proof (induction ps arbitrary: p)
  case (Cons x xs)
  then obtain a q where "x = Some a" "concat_plans xs = Some q" "p = a @ q"
    by (auto split: option.splits)
  with Cons.IH [of q] obtain qs where "xs = map Some qs" "q = concat qs" by blast
  then have "x # xs = map Some (a # qs) \<and> p = concat (a # qs)"
    using \<open>x = Some a\<close> \<open>p = a @ q\<close> by simp
  then show ?case by (rule exI)
qed auto

lemma CleanNetworks_plans:
  assumes "CleanNetworks c project delete = Some p"
  obtains (listing) e where "p = [Plain [ListErr e]]"
  | (plans) networks fws subs rts qs where "cl_networks c = Inr networks"
      "map (network_plan c project delete fws subs rts) (filter delete networks) = map Some qs"
      "p = concat qs"
  using assms
  by (fastforce simp: CleanNetworks_def dest: concat_plans_Some split: sum.splits)

lemma alone_networks:
  assumes "CleanNetworks c project delete = Some p"
  shows "always_alone (events p)"
  using assms
proof (cases rule: CleanNetworks_plans)
  case (plans networks fws subs rts qs)
  have "always_alone (events q)" if "q \<in> set qs" for q
  proof -
    have "Some q \<in> set (map (network_plan c project delete fws subs rts) (filter delete networks))"
      using that plans(2) by simp
    then show ?thesis by (auto intro: alone_network simp: eq_commute [of "Some _"])
  qed
  then have "always_alone (concat (map events qs))" by (intro always_alone_concat) auto
  then show ?thesis by (simp add: plans(3) events_concat)
qed (simp add: events_def always_alone_def)

end
