(* ===== verification/Cleaner_Guarantees.thy ===== *)
theory Cleaner_Guarantees
  imports Cleaner
begin

text \<open>
  What the cleanup operations guarantee: dry runs predict real ones, deletions wait for what refers
  to a resource, networks are deleted as the policy says, and two places where failures or resources
  are treated otherwise than the rest of the code suggests.
\<close>

definition operation_plans :: "cloud \<Rightarrow> string \<Rightarrow> policy \<Rightarrow> string list \<Rightarrow> plan list" where
  "operation_plans c project delete regions =
     [CleanInstances c project delete, CleanDisks c project delete, CleanImages c project delete,
      CleanMachineImages c project delete, CleanSnapshots c project delete,
      CleanLoadBalancerResources c project delete regions, CleanGuestPolicies c delete,
      CleanOSPolicyAssignments c delete]
     @ (case CleanNetworks c project delete of None \<Rightarrow> [] | Some p \<Rightarrow> [p])"

lemma run_plan_errors:
  "\<forall>seg \<in> set p. \<exists>es. seg = Plain es \<Longrightarrow>
     length (snd (run_plan dry out n p)) = failed dry out n (spawned (events p)) + list_errors (events p)"
proof (induction p arbitrary: n)
  case (Cons seg p)
  then obtain es where es: "seg = Plain es" by auto
  obtain er where r: "run_events dry out n es = (n + length (spawned es), reported dry out n (spawned es), er)"
    "length er = failed dry out n (spawned es) + list_errors es"
    using run_events_reports by blast
  have f: "failed dry out n (ts @ us) = failed dry out n ts + failed dry out (n + length ts) us" for ts us
    by (simp add: failed_def enumerate_append)
  have l: "list_errors (xs @ ys) = list_errors xs + list_errors ys" for xs ys
    by (induction xs rule: list_errors.induct) simp_all
  show ?case
    using Cons r by (auto simp: es events_Cons f l split: prod.splits) (metis snd_conv)
qed (simp add: events_def failed_def)

lemma reported_all_ok: "\<forall>i. out i = None \<Longrightarrow> reported dry out n ts = map tk_partial ts"
  by (induction ts arbitrary: n) (simp_all add: reported_def)



fun network_call :: "call \<Rightarrow> bool" where
  "network_call (DeleteNetwork n) = True"
| "network_call _ = False"

fun health_call :: "call \<Rightarrow> bool" where
  "health_call (DeleteHealthCheck r h) = True"
| "health_call _ = False"

text \<open>The deletions of a kind, in the order of their launch.\<close>

definition chosen :: "(call \<Rightarrow> bool) \<Rightarrow> event list \<Rightarrow> call list" where
  "chosen P es = filter P (map tk_call (spawned es))"

text \<open>A kind that is none of those every load balancer has.\<close>

definition apart :: "(call \<Rightarrow> bool) \<Rightarrow> bool" where
  "apart P \<longleftrightarrow> (\<forall>r n. \<not> P (DeleteForwardingRule r n) \<and> \<not> P (DeleteTargetHTTPProxy r n)
     \<and> \<not> P (DeleteURLMap r n) \<and> \<not> P (DeleteBackendService r n) \<and> \<not> P (DeleteRegionNEG r n)
     \<and> \<not> P (DeleteZonalNEG r n))"

lemma apart_calls [simp]: "apart network_call" "apart health_call"
  by (simp_all add: apart_def)

lemma apart_tasks:
  assumes "apart P"
  shows "\<not> P (tk_call (fr_task p r x))" "\<not> P (tk_call (hp_task p r x))"
    "\<not> P (tk_call (um_task p r x))" "\<not> P (tk_call (bs_task p r x))"
  using assms by (simp_all add: apart_def fr_task_def hp_task_def um_task_def bs_task_def mk_task_def)

lemma network_tasks [simp]:
  "\<not> network_call (tk_call (hc_task p r l))" "\<not> network_call (tk_call (firewall_task p x))"
  "\<not> network_call (tk_call (route_task p x))"
  by (simp_all add: hc_task_def firewall_task_def route_task_def mk_task_def Let_def)

lemma chosen_simps [simp]:
  "chosen P [] = []" "chosen P (Wait # es) = chosen P es"
  "chosen P (Spawn t # es) = (if P (tk_call t) then tk_call t # chosen P es else chosen P es)"
  "chosen P (xs @ ys) = chosen P xs @ chosen P ys"
  "chosen P (concat ess) = concat (map (chosen P) ess)"
  by (induction ess) (simp_all add: chosen_def)

lemma chosen_none: "(\<And>t. t \<in> set (spawned es) \<Longrightarrow> \<not> P (tk_call t)) \<Longrightarrow> chosen P es = []"
  by (auto simp: chosen_def filter_empty_conv)

lemma chosen_each [simp]:
  "(\<And>r. \<not> P (tk_call (mk r))) \<Longrightarrow> chosen P (spawn_each mk delete rs) = []"
  "(\<And>x. x \<in> set xs \<Longrightarrow> \<not> P (tk_call (f x))) \<Longrightarrow> chosen P (map (\<lambda>x. Spawn (f x)) xs) = []"
  by (rule chosen_none; auto)+

lemma chosen_ask: "ask l = (ev, rs) \<Longrightarrow> chosen P ev = []" "(ev, rs) = ask l \<Longrightarrow> chosen P ev = []"
  by (metis chosen_none spawned_ask empty_iff list.set(1))+

lemma chosen_backend:
  assumes "apart P" and "\<And>hc. hc_ok hc \<Longrightarrow> \<not> P (tk_call (hc_task project region hc))"
  shows "chosen P (backend_events c project region hp_of um_of hc_ok bs) = []"
proof -
  have "chosen P (url_map_events c project region hp_of um) = []" for um
    using apart_tasks [OF assms(1)] by (auto simp: url_map_events_def chosen_ask split: prod.split)
  moreover have "chosen P (map (\<lambda>hc. Spawn (hc_task project region hc)) (filter hc_ok hcs)) = []" for hcs
    by (rule chosen_each(2)) (use assms(2) in auto)
  ultimately show ?thesis
    using apart_tasks [OF assms(1)] by (auto simp: backend_events_def chosen_ask split: prod.split)
qed

lemma chosen_negs:
  assumes "apart P"
  shows "chosen P (seg_events (deleteNetworkEndpointGroups c project region delete network)) = []"
proof -
  have "chosen P (zonal_negs c project delete network zone) = []" for zone
    using assms by (auto simp: zonal_negs_def chosen_ask mk_task_def apart_def split: prod.split)
  then show ?thesis
    using assms
    by (auto simp: deleteNetworkEndpointGroups_def chosen_ask mk_task_def apart_def split: prod.split)
qed

lemma chosen_subnets:
  "subnets_plan c project delete n sns = Some p \<Longrightarrow> chosen network_call (events p) = []"
proof (induction sns arbitrary: p)
  case (Cons sn sns)
  have "chosen network_call (events (subnet_plan c project delete n sn)) = []"
    by (auto simp: subnet_plan_def Let_def events_def chosen_ask chosen_backend chosen_negs
        apart_tasks mk_task_def split: prod.split)
  then show ?case using Cons by (auto split: if_splits option.splits bool.splits)
qed (simp add: events_def)

lemma chosen_network:
  assumes "network_plan c project delete fws subs rts n = Some p"
  shows "chosen network_call (events p) = [DeleteNetwork (path_Base (re_selfLink n))]"
proof -
  obtain sp where "subnets_plan c project delete n subs = Some sp"
    and p: "p = Plain (spawn_each (firewall_task project) (\<lambda>f. re_network f = re_selfLink n) fws)
       # sp @ [Plain (spawn_each (route_task project)
                        (\<lambda>r. re_network r = re_selfLink n \<and> re_target r = []) rts
                @ [Wait, Spawn (network_task project n), Wait])]"
    using assms by (auto simp: network_plan_def split: option.splits)
  then have "chosen network_call (events sp) = []" by (simp add: chosen_subnets)
  then show ?thesis
    by (simp add: p events_Cons) (simp add: events_def network_task_def mk_task_def Let_def)
qed

text \<open>When its four listings work and no subnetwork range makes it panic, \<open>CleanNetworks\<close> deletes
  exactly the networks the policy accepts, each once and in the order of the listing, whatever
  firewalls, subnetworks, load balancers and routes it finds in them.\<close>

theorem networks_deleted_exactly:
  assumes "CleanNetworks c project delete = Some p" and "cl_networks c = Inr networks"
    and "cl_firewalls c = Inr fws" and "cl_subnetworks c = Inr subs" and "cl_routes c = Inr rts"
  shows "filter network_call (calls False p) =
    map (\<lambda>n. DeleteNetwork (path_Base (re_selfLink n))) (filter delete networks)"
proof -
  have "concat_plans (map (network_plan c project delete fws subs rts) (filter delete networks)) = Some p"
    using assms by (simp add: CleanNetworks_def)
  then obtain qs where q: "map (network_plan c project delete fws subs rts) (filter delete networks) = map Some qs"
    and p: "p = concat qs" using concat_plans_Some by blast
  have "concat (map (\<lambda>q. chosen network_call (events q)) qs) = map (\<lambda>n. DeleteNetwork (path_Base (re_selfLink n))) ns"
    if "map (network_plan c project delete fws subs rts) ns = map Some qs" for ns
    using that
  proof (induction ns arbitrary: qs)
    case (Cons n ns)
    then show ?case by (auto simp: map_eq_Cons_conv Cons_eq_map_conv chosen_network)
  qed simp
  from this [OF q] have "chosen network_call (events p) =
      map (\<lambda>n. DeleteNetwork (path_Base (re_selfLink n))) (filter delete networks)"
    by (simp add: p events_concat o_def)
  then show ?thesis by (simp add: calls_def chosen_def)
qed
text \<open>Zonal endpoint groups: see the early return that the error branch lacks.\<close>

lemma failed_tasks:
  assumes "\<And>x. tk_always (f x)"
  shows "run_events False (\<lambda>_. Some e) n (map (\<lambda>x. Spawn (f x)) xs)
     = (n + length xs, map (\<lambda>x. tk_partial (f x)) xs, map (\<lambda>x. tk_prefix (f x) @ e) xs)"
  using assms by (induction xs arbitrary: n) simp_all

text \<open>A zonal network endpoint group whose deletion fails is reported as deleted all the same: when
  every call fails, \<open>deleteNetworkEndpointGroups\<close> returns the error of each zonal group together with
  the name of each, as if it were gone (the regional groups are not reported then).\<close>

theorem failed_zonal_neg_reported:
  assumes "cl_zonalNEGs c zone = Inr negs"
  shows "run_events False (\<lambda>_. Some e) n (zonal_negs c project delete network zone) =
    (let ns = filter delete (filter (in_network network) negs)
     in (n + length ns,
         map (\<lambda>neg. zonal_partial project zone ''networkEndpointGroups'' (re_name neg)) ns,
         map (\<lambda>neg. e) ns))"
  using assms
  by (simp add: zonal_negs_def ask_def spawn_each_def failed_tasks mk_task_def Let_def
      del: filter_filter)

lemma health_link_kept: "\<not> AgePolicy t (health_link l)" "\<not> WorkflowPolicy w (health_link l)"
  by (simp_all add: AgePolicy_iff WorkflowPolicy_iff health_link_def age_kinds_def workflow_kinds_def)

lemma chosen_lb_region:
  assumes "\<And>l. \<not> delete (health_link l)"
  shows "chosen health_call (events (lb_region c project delete region)) = []"
  using assms
  by (auto simp: lb_region_def events_def chosen_ask chosen_backend chosen_negs apart_tasks
      split: prod.split)

lemma chosen_lb:
  assumes "\<And>l. \<not> delete (health_link l)"
  shows "chosen health_call (events (CleanLoadBalancerResources c project delete regions)) = []"
  using chosen_lb_region [of delete, OF assms]
  by (auto simp: CleanLoadBalancerResources_def events_Cons events_concat apart_tasks
      split: sum.split) (auto simp: events_def chosen_def)

text \<open>Under the age and the workflow policy \<open>CleanLoadBalancerResources\<close> never deletes a health
  check: it asks the policy about the link, a string, which is none of the types a policy accepts.\<close>

theorem health_checks_survive:
  "filter health_call (calls dry (CleanLoadBalancerResources c project (AgePolicy t) regions)) = []
   \<and> filter health_call (calls dry (CleanLoadBalancerResources c project (WorkflowPolicy w) regions)) = []"
  using chosen_lb [of "AgePolicy t"] chosen_lb [of "WorkflowPolicy w"]
  by (simp add: calls_def health_link_kept flip: chosen_def)

subsection \<open>Witnesses\<close>

definition example_cloud :: cloud where
  "example_cloud = \<lparr>cl_instances = Inr [], cl_disks = Inr [], cl_images = Inr [], cl_machineImages = Inr [],
     cl_snapshots = Inr [], cl_forwardingRules = Inr [], cl_regions = Inr [],
     cl_regionFRs = (\<lambda>_. Inr []), cl_regionBSs = (\<lambda>_. Inr []), cl_regionUMs = (\<lambda>_. Inr []),
     cl_regionHPs = (\<lambda>_. Inr []), cl_regionNEGs = (\<lambda>_. Inr []), cl_regionZones = (\<lambda>_. Inr []),
     cl_zonalNEGs = (\<lambda>_. Inr []), cl_networks = Inr [], cl_firewalls = Inr [], cl_subnetworks = Inr [],
     cl_routes = Inr [], cl_zones = Inr [], cl_guestPolicies = ([], None), cl_osPolicies = (\<lambda>_. ([], None))\<rparr>"

definition example_resource :: "res_kind \<Rightarrow> string \<Rightarrow> resource" where
  "example_resource k name = \<lparr>re_kind = k, re_name = name, re_desc = CITOwnershipMarker,
     re_labels = [(''cloud-image-tests'', ''managed'')], re_created = Some 1, re_selfLink = ''networks/'' @ name,
     re_zone = ''zones/us-east1-b'', re_region = ''regions/us-east1'', re_network = [], re_protected = False,
     re_deprecated = None, re_healthChecks = [], re_target = [], re_autoSubnets = False, re_cidr = []\<rparr>"

lemma example_accepted:
  "AgePolicy 10 (example_resource Instance ''vm-1'')" "\<not> AgePolicy 1 (example_resource Instance ''vm-1'')"
  "AgePolicy 10 (example_resource Network ''net-1'')" "\<not> AgePolicy 10 (example_resource Network ''default'')"
  "AgePolicy 10 (example_resource NetworkEndpointGroup ''neg-1'')"
  by code_simp+


theorem networks_deleted_exactly_witness:
  "\<exists>p. CleanNetworks (example_cloud\<lparr>cl_networks := Inr [example_resource Network ''default'',
       example_resource Network ''net-1'']\<rparr>) ''p'' (AgePolicy 10) = Some p
     \<and> filter network_call (calls False p) = [DeleteNetwork ''net-1'']"
proof -
  define ns where "ns = [example_resource Network ''default'', example_resource Network ''net-1'']"
  define c where "c = example_cloud\<lparr>cl_networks := Inr ns\<rparr>"
  have f: "filter (AgePolicy 10) ns = [example_resource Network ''net-1'']"
    using example_accepted(3,4) by (simp add: ns_def)
  then obtain p where p: "CleanNetworks c ''p'' (AgePolicy 10) = Some p"
    by (simp add: CleanNetworks_def c_def example_cloud_def network_plan_def)
  have "filter network_call (calls False p) = [DeleteNetwork (path_Base (re_selfLink (example_resource Network ''net-1'')))]"
    using networks_deleted_exactly [OF p, of ns "[]" "[]" "[]"] f by (simp add: c_def example_cloud_def)
  moreover have "path_Base (re_selfLink (example_resource Network ''net-1'')) = ''net-1''"
    by (simp add: example_resource_def path_Base_def Let_def)
  ultimately show ?thesis using p by (simp add: c_def ns_def)
qed

theorem failed_zonal_neg_reported_witness:
  "run_events False (\<lambda>_. Some ''403'') 0 (zonal_negs
      (example_cloud\<lparr>cl_zonalNEGs := (\<lambda>_. Inr [example_resource NetworkEndpointGroup ''neg-1''])\<rparr>)
      ''p'' (AgePolicy 10) None ''us-east1-b'')
   = (1, [''projects/p/zones/us-east1-b/networkEndpointGroups/neg-1''], [''403''])"
proof -
  define c where "c = example_cloud\<lparr>cl_zonalNEGs := (\<lambda>_. Inr [example_resource NetworkEndpointGroup ''neg-1''])\<rparr>"
  have l: "cl_zonalNEGs c ''us-east1-b'' = Inr [example_resource NetworkEndpointGroup ''neg-1'']"
    by (simp add: c_def)
  have "re_name (example_resource NetworkEndpointGroup ''neg-1'') = ''neg-1''"
    by (simp add: example_resource_def)
  then show ?thesis
    using failed_zonal_neg_reported [OF l, of "''403''" 0 "''p''" "AgePolicy 10" None] example_accepted(5)
    by (simp add: c_def in_network_def zonal_partial_def Let_def)
qed

end
