(* ===== verification/Go_Regexp.thy ===== *)
theory Go_Regexp
  imports Prelude
begin

text \<open>
  The part of package \<open>regexp\<close> the sources use: the syntax tree of an expression, matching anywhere
  in a text by derivatives, as \<open>MatchString\<close> does, and what matching means in terms of languages.
\<close>

subsection \<open>Regular expressions\<close>

datatype rexp = Void | Eps | AnyChar | Ch char | NotCh char | Range char char
  | Seq rexp rexp | Alt rexp rexp | Star rexp

fun nullable :: "rexp \<Rightarrow> bool" where
  "nullable Void = False"
| "nullable Eps = True"
| "nullable AnyChar = False"
| "nullable (Ch c) = False"
| "nullable (NotCh c) = False"
| "nullable (Range a b) = False"
| "nullable (Seq r s) = (nullable r \<and> nullable s)"
| "nullable (Alt r s) = (nullable r \<or> nullable s)"
| "nullable (Star r) = True"

fun deriv :: "char \<Rightarrow> rexp \<Rightarrow> rexp" where
  "deriv x Void = Void"
| "deriv x Eps = Void"
| "deriv x AnyChar = (if x \<noteq> CHR 0x0A then Eps else Void)"
| "deriv x (Ch c) = (if x = c then Eps else Void)"
| "deriv x (NotCh c) = (if x \<noteq> c then Eps else Void)"
| "deriv x (Range a b) = (if a \<le> x \<and> x \<le> b then Eps else Void)"
| "deriv x (Seq r s) =
     (if nullable r then Alt (Seq (deriv x r) s) (deriv x s) else Seq (deriv x r) s)"
| "deriv x (Alt r s) = Alt (deriv x r) (deriv x s)"
| "deriv x (Star r) = Seq (deriv x r) (Star r)"

fun match_prefix :: "rexp \<Rightarrow> string \<Rightarrow> bool" where
  "match_prefix r [] = nullable r"
| "match_prefix r (c # s) = (nullable r \<or> match_prefix (deriv c r) s)"

fun MatchString :: "rexp \<Rightarrow> string \<Rightarrow> bool" where
  "MatchString r [] = match_prefix r []"
| "MatchString r (c # s) = (match_prefix r (c # s) \<or> MatchString r s)"

fun word :: "string \<Rightarrow> rexp" where
  "word [] = Eps"
| "word (c # s) = Seq (Ch c) (word s)"

fun alts :: "rexp list \<Rightarrow> rexp" where
  "alts [] = Void"
| "alts [r] = r"
| "alts (r # s # rs) = Alt r (alts (s # rs))"

definition anything :: rexp where
  "anything = Star AnyChar"

text \<open>\<open>.*w.*\<close> and \<open>.*v.*w.*\<close>\<close>

definition around :: "string \<Rightarrow> rexp" where
  "around w = Seq anything (Seq (word w) anything)"

definition around2 :: "string \<Rightarrow> string \<Rightarrow> rexp" where
  "around2 v w = Seq anything (Seq (word v) (Seq anything (Seq (word w) anything)))"
subsection \<open>What matching means\<close>

fun lang :: "rexp \<Rightarrow> string \<Rightarrow> bool" where
  "lang r [] = nullable r"
| "lang r (c # s) = lang (deriv c r) s"

lemma match_prefix_lang: "match_prefix r s \<longleftrightarrow> (\<exists>a b. s = a @ b \<and> lang r a)"
proof (induction s arbitrary: r)
  case (Cons c s)
  show ?case
  proof
    assume "match_prefix r (c # s)"
    then consider "nullable r" | "match_prefix (deriv c r) s" by auto
    then show "\<exists>a b. c # s = a @ b \<and> lang r a"
    proof cases
      case 1
      then show ?thesis by (metis append_Nil lang.simps(1))
    next
      case 2
      with Cons.IH obtain a b where "s = a @ b" "lang (deriv c r) a" by blast
      then have "c # s = (c # a) @ b \<and> lang r (c # a)" by simp
      then show ?thesis by blast
    qed
  next
    assume "\<exists>a b. c # s = a @ b \<and> lang r a"
    then obtain a b where ab: "c # s = a @ b" "lang r a" by blast
    show "match_prefix r (c # s)"
    proof (cases a)
      case Nil
      with ab have "nullable r" by simp
      then show ?thesis by simp
    next
      case (Cons x xs)
      with ab have "s = xs @ b" "lang (deriv c r) xs" by simp_all
      then show ?thesis using Cons.IH by auto
    qed
  qed
qed simp

lemma MatchString_lang: "MatchString r s \<longleftrightarrow> (\<exists>a b c. s = a @ b @ c \<and> lang r b)"
proof (induction s)
  case (Cons x s)
  have "MatchString r (x # s) \<longleftrightarrow> (\<exists>b c. x # s = b @ c \<and> lang r b) \<or> (\<exists>a b c. s = a @ b @ c \<and> lang r b)"
    using Cons.IH by (simp add: match_prefix_lang del: match_prefix.simps)
  also have "\<dots> \<longleftrightarrow> (\<exists>a b c. x # s = a @ b @ c \<and> lang r b)" (is "?L \<longleftrightarrow> ?R")
  proof
    assume ?L
    then show ?R by (metis append_Cons append_Nil)
  next
    assume ?R
    then obtain a b c where "x # s = a @ b @ c" "lang r b" by blast
    then show ?L by (cases a) auto
  qed
  finally show ?case .
qed simp

lemma lang_Void [simp]: "\<not> lang Void s"
  by (induction s) simp_all

lemma lang_Eps [simp]: "lang Eps s \<longleftrightarrow> s = []"
  by (cases s) simp_all

lemma lang_Alt [simp]: "lang (Alt r t) s \<longleftrightarrow> lang r s \<or> lang t s"
  by (induction s arbitrary: r t) simp_all

lemma lang_Seq: "lang (Seq r t) s \<longleftrightarrow> (\<exists>a b. s = a @ b \<and> lang r a \<and> lang t b)"
proof (induction s arbitrary: r)
  case (Cons c s)
  have "(\<exists>a b. c # s = a @ b \<and> lang r a \<and> lang t b) \<longleftrightarrow>
      (nullable r \<and> lang t (c # s)) \<or> (\<exists>a b. s = a @ b \<and> lang (deriv c r) a \<and> lang t b)"
    (is "?L \<longleftrightarrow> ?R")
  proof
    assume ?L
    then obtain a b where "c # s = a @ b" "lang r a" "lang t b" by blast
    then show ?R by (cases a) auto
  next
    assume ?R
    then show ?L by (metis append_Cons append_Nil lang.simps)
  qed
  then show ?case using Cons.IH by auto
qed simp

lemma lang_Ch: "lang (Ch c) s \<longleftrightarrow> s = [c]"
  by (cases s) simp_all

lemma lang_word: "lang (word w) s \<longleftrightarrow> s = w"
  by (induction w arbitrary: s) (auto simp: lang_Seq lang_Ch)

lemma lang_anything: "lang anything []"
  by (simp add: anything_def)

text \<open>A word between two \<open>.*\<close>, searched anywhere: the text contains the word.\<close>

lemma around_Contains: "MatchString (around w) s \<longleftrightarrow> Contains s w"
proof
  assume "MatchString (around w) s"
  then show "Contains s w"
    by (auto simp: MatchString_lang around_def lang_Seq lang_word Contains_iff)
       (metis append.assoc)
next
  assume "Contains s w"
  then obtain a b where "s = a @ w @ b" by (auto simp: Contains_iff)
  moreover have "lang (around w) w"
    using lang_anything by (auto simp: around_def lang_Seq lang_word intro: exI [of _ "[]"])
  ultimately show "MatchString (around w) s" by (auto simp: MatchString_lang)
qed

lemma MatchString_Alt: "MatchString (Alt r t) s \<longleftrightarrow> MatchString r s \<or> MatchString t s"
  unfolding MatchString_lang lang_Alt by blast

lemma around2_Contains: "MatchString (around2 v w) s \<Longrightarrow> Contains s v"
  by (auto simp: MatchString_lang around2_def lang_Seq lang_word Contains_iff) (metis append.assoc)

end
