(* ===== verification/Machine_Types.thy ===== *)
theory Machine_Types
  imports Go_Regexp
begin

text \<open>
  The rules of \<open>fixtures.go\<close> that depend on the name of a machine type alone: metal machines, the
  disk type a machine needs and its maintenance policy.
\<close>

definition JumboFramesMTU :: int where "JumboFramesMTU = 8896"
definition DefaultMTU :: int where "DefaultMTU = 1460"

definition PdBalanced :: string where "PdBalanced = ''pd-balanced''"
definition HyperdiskBalanced :: string where "HyperdiskBalanced = ''hyperdisk-balanced''"

definition IsMetal :: "string \<Rightarrow> bool" where
  "IsMetal machineType = HasSuffix machineType ''-metal''"

definition DiskTypeNeeded :: "string \<Rightarrow> string" where
  "DiskTypeNeeded machineType =
     (if IsMetal machineType \<or> HasPrefix machineType ''a3-ultra'' then HyperdiskBalanced
      else if list_ex (HasPrefix machineType)
        [''a2'', ''a3'', ''c2'', ''c3'', ''e2'', ''h3'', ''m1'', ''m2'', ''m3'', ''n1'', ''n2'', ''t2'', ''z3'']
      then PdBalanced
      else HyperdiskBalanced)"

subsection \<open>The maintenance policy\<close>

definition digits1 :: rexp where
  "digits1 = Seq (Range CHR ''0'' CHR ''9'') (Star (Range CHR ''0'' CHR ''9''))"

text \<open>The expressions all begin with \<open>^\<close> and end with \<open>.*\<close>, so that they match a prefix.\<close>

definition knownTerminateOnlyMachineRegexes :: "rexp list" where
  "knownTerminateOnlyMachineRegexes =
     [Seq (Ch CHR ''a'') (Seq digits1 (Seq (Alt Eps (Ch CHR ''x'')) (Seq (Ch CHR ''-'') anything))),
      Seq (Ch CHR ''g'') (Seq digits1 (Seq (Ch CHR ''-'') anything)),
      Seq (word ''ct'') (Seq (Range CHR ''0'' CHR ''9'') anything),
      Seq (word ''tpu'') (Seq (Range CHR ''0'' CHR ''9'') anything),
      Seq (Ch CHR ''z'') (Seq digits1 (Seq (Star (Range CHR ''a'' CHR ''z'')) (Seq (Ch CHR ''-'') anything))),
      Seq (word ''c4x-'') anything,
      Seq (word ''h4d-'') anything]"

definition migratable_z :: "string list" where
  "migratable_z =
     [''z3-highmem-14-standardlssd'', ''z3-highmem-22-standardlssd'',
      ''z3-highmem-44-standardlssd'', ''z3-highmem-88-standardlssd'',
      ''z3-highmem-8-highlssd'', ''z3-highmem-16-highlssd'',
      ''z3-highmem-22-highlssd'', ''z3-highmem-32-highlssd'', ''z3-highmem-44-highlssd'',
      ''z4d-highmem-16-standardlssd'', ''z4d-highmem-32-standardlssd'',
      ''z4d-highmem-48-standardlssd'', ''z4d-highmem-64-standardlssd'',
      ''z4d-highmem-96-standardlssd'', ''z4d-highmem-192-standardlssd'',
      ''z4d-highmem-8-highlssd'', ''z4d-highmem-16-highlssd'',
      ''z4d-highmem-32-highlssd'', ''z4d-highmem-48-highlssd'',
      ''z4d-highmem-64-highlssd'', ''z4d-highmem-96-highlssd'']"

definition MachineMaintenancePolicy :: "string \<Rightarrow> string" where
  "MachineMaintenancePolicy machineType =
     (if IsMetal machineType then ''TERMINATE''
      else if machineType \<in> set migratable_z then ''MIGRATE''
      else if list_ex (\<lambda>r. match_prefix r machineType) knownTerminateOnlyMachineRegexes then ''TERMINATE''
      else ''MIGRATE'')"

subsection \<open>The languages of the expressions\<close>

definition is_digit :: "char \<Rightarrow> bool" where
  "is_digit c \<longleftrightarrow> CHR ''0'' \<le> c \<and> c \<le> CHR ''9''"

lemma lang_Range: "lang (Range a b) s \<longleftrightarrow> (\<exists>c. s = [c] \<and> a \<le> c \<and> c \<le> b)"
  by (cases s) simp_all

lemma lang_Star_Range: "lang (Star (Range a b)) s \<longleftrightarrow> (\<forall>c \<in> set s. a \<le> c \<and> c \<le> b)"
proof (induction s)
  case (Cons c s)
  have "lang (Seq Eps r) s = lang r s" "\<not> lang (Seq Void r) s" for r
    by (auto simp: lang_Seq)
  with Cons show ?case by (cases "a \<le> c \<and> c \<le> b") auto
qed simp

lemma lang_digits1: "lang digits1 s \<longleftrightarrow> s \<noteq> [] \<and> (\<forall>c \<in> set s. is_digit c)"
  by (cases s) (auto simp: digits1_def lang_Seq lang_Range lang_Star_Range is_digit_def)

text \<open>A machine type that begins with a text of the language of \<open>r\<close>.\<close>

lemma match_prefix_Seq: "match_prefix (Seq r t) s \<longleftrightarrow> (\<exists>a b. s = a @ b \<and> lang r a \<and> match_prefix t b)"
  by (auto simp: match_prefix_lang lang_Seq) (metis append.assoc)+

lemma match_prefix_anything: "match_prefix anything s"
  using lang_anything unfolding match_prefix_lang by (metis append_Nil)

lemma match_prefix_word: "match_prefix (Seq (word w) t) s \<longleftrightarrow> (\<exists>b. s = w @ b \<and> match_prefix t b)"
  by (auto simp: match_prefix_Seq lang_word)

lemma match_prefix_Ch: "match_prefix (Seq (Ch c) t) s \<longleftrightarrow> (\<exists>b. s = c # b \<and> match_prefix t b)"
  by (auto simp: match_prefix_Seq lang_Ch)

definition digits :: "string \<Rightarrow> bool" where
  "digits ds \<longleftrightarrow> ds \<noteq> [] \<and> (\<forall>c \<in> set ds. is_digit c)"

lemma match_prefix_digits1:
  "match_prefix (Seq digits1 t) s \<longleftrightarrow> (\<exists>ds b. s = ds @ b \<and> digits ds \<and> match_prefix t b)"
  by (auto simp: match_prefix_Seq lang_digits1 digits_def)

lemma match_prefix_Alt: "match_prefix (Seq (Alt Eps r) t) s \<longleftrightarrow> match_prefix t s \<or> match_prefix (Seq r t) s"
  by (auto simp: match_prefix_Seq)

lemma match_prefix_digit:
  "match_prefix (Seq (Range CHR ''0'' CHR ''9'') t) s \<longleftrightarrow> (\<exists>d b. s = d # b \<and> is_digit d \<and> match_prefix t b)"
  unfolding match_prefix_Seq lang_Range is_digit_def by (metis append_Cons append_Nil)

lemma match_prefix_letters:
  "match_prefix (Seq (Star (Range a z)) t) s \<longleftrightarrow>
     (\<exists>l b. s = l @ b \<and> (\<forall>c \<in> set l. a \<le> c \<and> c \<le> z) \<and> match_prefix t b)"
  by (auto simp: match_prefix_Seq lang_Star_Range)

lemmas match_simps = match_prefix_word match_prefix_Ch match_prefix_digits1 match_prefix_Alt
  match_prefix_digit match_prefix_letters match_prefix_anything

definition terminate_only :: "string \<Rightarrow> bool" where
  "terminate_only m \<longleftrightarrow>
     (\<exists>ds r. digits ds \<and> (m = ''a'' @ ds @ ''-'' @ r \<or> m = ''a'' @ ds @ ''x-'' @ r \<or> m = ''g'' @ ds @ ''-'' @ r))
     \<or> (\<exists>d r. is_digit d \<and> (m = ''ct'' @ d # r \<or> m = ''tpu'' @ d # r))
     \<or> (\<exists>ds l r. digits ds \<and> (\<forall>c \<in> set l. CHR ''a'' \<le> c \<and> c \<le> CHR ''z'') \<and> m = ''z'' @ ds @ l @ ''-'' @ r)
     \<or> (\<exists>r. m = ''c4x-'' @ r) \<or> (\<exists>r. m = ''h4d-'' @ r)"

lemma regexes_match:
  "list_ex (\<lambda>r. match_prefix r m) knownTerminateOnlyMachineRegexes \<longleftrightarrow> terminate_only m"
proof -
  have "list_ex (\<lambda>r. match_prefix r m) knownTerminateOnlyMachineRegexes \<longleftrightarrow>
     (\<exists>ds r. digits ds \<and> (m = ''a'' @ ds @ ''-'' @ r \<or> m = ''a'' @ ds @ ''x-'' @ r))
     \<or> (\<exists>ds r. digits ds \<and> m = ''g'' @ ds @ ''-'' @ r)
     \<or> (\<exists>d r. is_digit d \<and> m = ''ct'' @ d # r) \<or> (\<exists>d r. is_digit d \<and> m = ''tpu'' @ d # r)
     \<or> (\<exists>ds l r. digits ds \<and> (\<forall>c \<in> set l. CHR ''a'' \<le> c \<and> c \<le> CHR ''z'') \<and> m = ''z'' @ ds @ l @ ''-'' @ r)
     \<or> (\<exists>r. m = ''c4x-'' @ r) \<or> (\<exists>r. m = ''h4d-'' @ r)"
    (is "_ \<longleftrightarrow> ?A \<or> ?B \<or> ?C \<or> ?D \<or> ?E \<or> ?F \<or> ?G")
  proof -
    have A: "match_prefix (Seq (Ch CHR ''a'') (Seq digits1 (Seq (Alt Eps (Ch CHR ''x''))
        (Seq (Ch CHR ''-'') anything)))) m \<longleftrightarrow> ?A" (is "?L \<longleftrightarrow> _")
    proof
      assume ?L
      then show ?A by (simp only: match_simps) auto
    next
      assume ?A
      then obtain ds r where ds: "digits ds" and "m = ''a'' @ ds @ ''-'' @ r \<or> m = ''a'' @ ds @ ''x-'' @ r"
        by blast
      then have "m = CHR ''a'' # ds @ CHR ''-'' # r \<or> m = CHR ''a'' # ds @ CHR ''x'' # CHR ''-'' # r"
        by simp
      then show ?L using ds by (simp only: match_simps) blast
    qed
    have B: "match_prefix (Seq (Ch CHR ''g'') (Seq digits1 (Seq (Ch CHR ''-'') anything))) m \<longleftrightarrow> ?B"
      by (simp only: match_simps) auto
    have C: "match_prefix (Seq (word ''ct'') (Seq (Range CHR ''0'' CHR ''9'') anything)) m \<longleftrightarrow> ?C"
      by (simp only: match_simps) auto
    have D: "match_prefix (Seq (word ''tpu'') (Seq (Range CHR ''0'' CHR ''9'') anything)) m \<longleftrightarrow> ?D"
      by (simp only: match_simps) auto
    have E: "match_prefix (Seq (Ch CHR ''z'') (Seq digits1 (Seq (Star (Range CHR ''a'' CHR ''z''))
        (Seq (Ch CHR ''-'') anything)))) m \<longleftrightarrow> ?E" (is "?L \<longleftrightarrow> _")
    proof
      assume ?L
      then show ?E by (simp only: match_simps) auto
    next
      assume ?E
      then obtain ds l r where d: "digits ds" "\<forall>c \<in> set l. CHR ''a'' \<le> c \<and> c \<le> CHR ''z''"
        and "m = ''z'' @ ds @ l @ ''-'' @ r" by blast
      then have "m = CHR ''z'' # ds @ l @ CHR ''-'' # r" by simp
      then show ?L using d by (simp only: match_simps) blast
    qed
    have F: "match_prefix (Seq (word ''c4x-'') anything) m \<longleftrightarrow> ?F"
      by (simp only: match_simps simp_thms)
    have G: "match_prefix (Seq (word ''h4d-'') anything) m \<longleftrightarrow> ?G"
      by (simp only: match_simps simp_thms)
    show ?thesis
      unfolding knownTerminateOnlyMachineRegexes_def
      by (simp only: list_ex_Nil_iff list_ex_Cons_iff A B C D E F G simp_thms)
  qed
  then show ?thesis unfolding terminate_only_def by blast
qed

text \<open>A machine is terminated for host maintenance exactly when its name ends in \<open>-metal\<close>, or it
  is not one of the listed local-SSD shapes and is an accelerator (\<open>a\<close> or \<open>g\<close> and a number), a TPU,
  of the z series, or a c4x or h4d; every other machine is migrated.\<close>

theorem maintenance_exact:
  "MachineMaintenancePolicy m =
     (if IsMetal m \<or> (m \<notin> set migratable_z \<and> terminate_only m) then ''TERMINATE'' else ''MIGRATE'')"
  by (simp add: MachineMaintenancePolicy_def regexes_match)

end
