(* ===== verification/Workflow_Model.thy ===== *)
theory Workflow_Model
  imports Machine_Types Cleaner_Policy "HOL-Library.AList"
begin

text \<open>
  The data of \<open>testworkflow.go\<close> and \<open>fixtures.go\<close>: machines, disks and networks, the steps of a
  workflow and the test workflow itself, with the fields the code sets or reads.

  Machines, networks and subnetworks are reached through pointers that the fixtures and the steps
  share, so they live in stores and a pointer is an index.  The Beta interface has types of its own
  with the same fields; its machines have their own list in a step and their own kind of reference.

  The workflow engine daisy is not part of the repository.  What the code calls of it is the record
  \<open>engine\<close>, an argument of the operations, and \<open>engine_ok\<close> states what daisy documents of it.  An
  operation can return, fail with an error, panic or loop for ever, and keeps the changes it has made
  before: it is a function from the test workflow to an outcome and the test workflow it leaves.
\<close>

subsection \<open>Machines, disks and networks\<close>

record disk_params =
  dp_Name :: string
  dp_Description :: string
  dp_Labels :: "(string \<times> string) list"
  dp_Type :: string
  dp_Zone :: string
  dp_SizeGb :: int

record wf_disk =
  wd_Name :: string
  wd_Description :: string
  wd_Labels :: "(string \<times> string) list"
  wd_SourceImage :: string
  wd_Type :: string
  wd_Zone :: string
  wd_SizeGb :: string

text \<open>\<open>at_InitType\<close> is the disk type of the initialization parameters, when there are some.\<close>

record attached =
  at_Source :: string
  at_AutoDelete :: bool
  at_Boot :: bool
  at_DeviceName :: string
  at_InitType :: "string option"
  at_Mode :: string
  at_Type :: string

text \<open>
  Access configurations are pairs of type and address, without their display names, alias ranges of
  range and name.
\<close>

record interface =
  if_Network :: string
  if_Subnetwork :: string
  if_StackType :: string
  if_Ipv6AccessType :: string
  if_NicType :: string
  if_NetworkIP :: string
  if_AccessConfigs :: "(string \<times> string) list option"
  if_AliasIpRanges :: "(string \<times> string) list"
  if_QueueCount :: int

record scheduling =
  sch_OnHostMaintenance :: string
  sch_ProvisioningModel :: string
  sch_Preemptible :: bool

record affinity =
  ra_Type :: string
  ra_Key :: string
  ra_Values :: "string list"

record machine =
  m_Name :: string
  m_Description :: string
  m_Labels :: "(string \<times> string) list"
  m_Scopes :: "string list"
  m_StartupScript :: string
  m_SerialPortsToLog :: "int list option"
  m_NoCleanup :: bool
  m_MachineType :: string
  m_Zone :: string
  m_Disks :: "attached list"
  m_Metadata :: "string \<rightharpoonup> string"
  m_Scheduling :: "scheduling option"
  m_ReservationAffinity :: "affinity option"
  m_Interfaces :: "interface list option"
  m_PerformanceTier :: "string option"
  m_SecureBoot :: "bool option"
  m_Confidential :: "bool option"
  m_MinCpuPlatform :: string
  m_ConfidentialType :: string
  m_GuestAccelerators :: "(int \<times> string) list"
  m_ServiceAccounts :: "(string \<times> string list) list"
  m_Tags :: "string list"
  m_WorkloadIdentity :: "(string \<times> bool) option"

record network =
  nw_Name :: string
  nw_Description :: string
  nw_Mtu :: int
  nw_Profile :: string
  nw_AutoCreate :: "bool option"
  nw_EnableUlaInternalIpv6 :: bool

record subnetwork =
  sn_Name :: string
  sn_Description :: string
  sn_Cidr :: string
  sn_Network :: string
  sn_StackType :: string
  sn_Ipv6AccessType :: string
  sn_Region :: string
  sn_Purpose :: string
  sn_Role :: string
  sn_Secondary :: "(string \<times> string) list"
  sn_NoCleanup :: bool

record firewall =
  fw_Name :: string
  fw_Description :: string
  fw_Network :: string
  fw_SourceRanges :: "string list"
  fw_Allowed :: "(string \<times> string list) list"

definition no_scheduling :: scheduling where
  "no_scheduling = \<lparr>sch_OnHostMaintenance = [], sch_ProvisioningModel = [], sch_Preemptible = False\<rparr>"

definition new_interface :: interface where
  "new_interface = \<lparr>if_Network = [], if_Subnetwork = [], if_StackType = [], if_Ipv6AccessType = [],
     if_NicType = [], if_NetworkIP = [], if_AccessConfigs = None, if_AliasIpRanges = [],
     if_QueueCount = 0\<rparr>"

definition new_machine :: machine where
  "new_machine = \<lparr>m_Name = [], m_Description = [], m_Labels = [], m_Scopes = [], m_StartupScript = [],
     m_SerialPortsToLog = None, m_NoCleanup = False, m_MachineType = [], m_Zone = [], m_Disks = [],
     m_Metadata = Map.empty, m_Scheduling = None, m_ReservationAffinity = None, m_Interfaces = None,
     m_PerformanceTier = None, m_SecureBoot = None, m_Confidential = None, m_MinCpuPlatform = [],
     m_ConfidentialType = [], m_GuestAccelerators = [], m_ServiceAccounts = [], m_Tags = [], m_WorkloadIdentity = None\<rparr>"

definition disk_named :: "string \<Rightarrow> disk_params" where
  "disk_named n = \<lparr>dp_Name = n, dp_Description = [], dp_Labels = [], dp_Type = [], dp_Zone = [], dp_SizeGb = 0\<rparr>"

subsection \<open>Steps and workflows\<close>

text \<open>What a step does is in the field that is set; a new step has none.\<close>

record signal =
  sg_Name :: string
  sg_Stopped :: bool
  sg_Status :: "string list"
  sg_Serial :: "(int \<times> string) option"
  sg_Guest :: "(string \<times> string) option"
  sg_Interval :: string

record quota =
  qa_Metric :: string
  qa_Units :: int
  qa_Region :: string

record wf_step =
  st_CreateInstances :: "(nat list \<times> nat list) option"
  st_CreateDisks :: "wf_disk list option"
  st_CreateNetworks :: "nat list option"
  st_CreateSubnetworks :: "nat list option"
  st_CreateFirewalls :: "firewall list option"
  st_DetachDisks :: "(string \<times> string) list option"
  st_Signals :: "signal list option"
  st_Stop :: "string list option"
  st_Start :: "string list option"
  st_Resize :: "(string \<times> int) list option"
  st_Quotas :: "(string \<times> quota list) option"
  st_Resume :: "string option"
  st_Copy :: "(string \<times> string) list option"

definition new_step :: wf_step where
  "new_step = \<lparr>st_CreateInstances = None, st_CreateDisks = None, st_CreateNetworks = None,
     st_CreateSubnetworks = None, st_CreateFirewalls = None, st_DetachDisks = None, st_Signals = None,
     st_Stop = None, st_Start = None, st_Resize = None, st_Quotas = None, st_Resume = None, st_Copy = None\<rparr>"

text \<open>
  The steps and their dependencies are Go maps; the order of the lists here is one of the orders in
  which the code may range over them.
\<close>

record workflow =
  wf_Name :: string
  wf_ID :: string
  wf_Project :: string
  wf_Zone :: string
  wf_ComputeEndpoint :: string
  wf_DefaultTimeout :: string
  wf_GCSPath :: string
  wf_Sources :: "string \<rightharpoonup> string"
  wf_Steps :: "(string \<times> wf_step) list"
  wf_Dependencies :: "(string \<times> string list) list"

record options =
  op_ComputeEndpointOverride :: string
  op_Name :: string
  op_Image :: string
  op_Timeout :: string
  op_Project :: string
  op_Zone :: string
  op_Zones :: "string list"
  op_ExcludeFilter :: string
  op_X86Shape :: string
  op_ARM64Shape :: string
  op_UseReservations :: bool
  op_ReservationURLs :: "string list"
  op_ReservationBound :: bool
  op_AcceleratorType :: string
  op_AcceleratorCount :: int
  op_ArgZoneOverride :: bool
  op_ExternalIP :: string
  op_Network :: string
  op_Subnet :: string
  op_CustomStartupScript :: string

record image =
  im_Name :: string
  im_Family :: string
  im_SelfLink :: string
  im_Architecture :: string
  im_Features :: "string list"

record test_workflow =
  tw_Name :: string
  tw_Image :: image
  tw_ImageURL :: string
  tw_MachineType :: "string option"
  tw_Project :: string
  tw_GCSPath :: string
  tw_skipped :: bool
  tw_skippedMessage :: string
  tw_testExcludeFilter :: string
  tw_wf :: workflow
  tw_counter :: nat
  tw_lockProject :: bool
  tw_ReservationAffinity :: "affinity option"
  tw_ReservationAffinityBeta :: "affinity option"
  tw_ReservationBound :: bool
  tw_AcceleratorType :: string
  tw_AcceleratorCount :: int
  tw_CreatesLoadBalancers :: bool
  tw_argZoneOverride :: bool
  tw_opts :: options
  tw_customStartupScriptContent :: string
  tw_testSkipReasons :: "string \<rightharpoonup> string"
  tw_machines :: "machine list"        \<comment> \<open>the stores\<close>
  tw_networks :: "network list"
  tw_subnetworks :: "subnetwork list"

definition HasFeature :: "image \<Rightarrow> string \<Rightarrow> bool" where
  "HasFeature img feature = list_ex (\<lambda>f. f = feature) (im_Features img)"

definition IsComputeStaging :: "test_workflow \<Rightarrow> bool" where
  "IsComputeStaging t = (wf_ComputeEndpoint (tw_wf t) = ''https://www.googleapis.com/compute/staging_v1/'')"

definition getTestSuiteName :: "test_workflow \<Rightarrow> string" where
  "getTestSuiteName t = tw_Name t @ ''-'' @ last (Split (CHR ''/'') (tw_ImageURL t))"

definition HasCustomStartupScript :: "test_workflow \<Rightarrow> bool" where
  "HasCustomStartupScript t = (tw_customStartupScriptContent t \<noteq> [])"

subsection \<open>The workflow engine\<close>

text \<open>
  \<open>NewStep\<close> and \<open>AddDependency\<close> are those of daisy's workflow; a step is passed as a pointer, which
  is its name or nil.  \<open>UpdateInstanceNoExternalIP\<close> acts on each machine of a step.  \<open>CIT_SERIAL_ONCE\<close>
  is the value of that environment variable.
\<close>

record engine =
  en_NewStep :: "string \<Rightarrow> workflow \<Rightarrow> string + workflow"
  en_AddDependency :: "string option \<Rightarrow> string option \<Rightarrow> workflow \<Rightarrow> string + workflow"
  en_NoExternalIP :: "machine \<Rightarrow> machine"
  en_CIT_SERIAL_ONCE :: string

definition serialOnceEnabled :: "engine \<Rightarrow> bool" where
  "serialOnceEnabled e = (en_CIT_SERIAL_ONCE e \<noteq> ''0'')"

definition disableSerialStreaming :: "engine \<Rightarrow> int list option \<Rightarrow> int list option" where
  "disableSerialStreaming e existing = (if \<not> serialOnceEnabled e then existing else Some [])"

definition step_names :: "workflow \<Rightarrow> string list" where
  "step_names w = map fst (wf_Steps w)"

definition deps_of :: "workflow \<Rightarrow> string \<Rightarrow> string list" where
  "deps_of w s = lookup0 (wf_Dependencies w) [] s"

definition with_step :: "string \<Rightarrow> workflow \<Rightarrow> workflow" where
  "with_step n w = w\<lparr>wf_Steps := wf_Steps w @ [(n, new_step)]\<rparr>"

definition with_dep :: "string \<Rightarrow> string \<Rightarrow> workflow \<Rightarrow> workflow" where
  "with_dep a b w =
     (if b \<in> set (deps_of w a) then w
      else w\<lparr>wf_Dependencies := AList.update a (deps_of w a @ [b]) (wf_Dependencies w)\<rparr>)"

text \<open>
  What daisy documents: a new step needs a name that is not taken, is added without a type and
  changes nothing else; a dependency needs two steps of the workflow, is recorded once, and changes
  nothing else.
\<close>

definition engine_ok :: "engine \<Rightarrow> bool" where
  "engine_ok e \<longleftrightarrow>
     (\<forall>n w. n \<in> set (step_names w) \<longrightarrow> (\<exists>err. en_NewStep e n w = Inl err)) \<and>
     (\<forall>n w. n \<notin> set (step_names w) \<longrightarrow> en_NewStep e n w = Inr (with_step n w)) \<and>
     (\<forall>p q w. (\<exists>a b. p = Some a \<and> q = Some b \<and> a \<in> set (step_names w) \<and> b \<in> set (step_names w)
        \<and> en_AddDependency e p q w = Inr (with_dep a b w))
      \<or> \<not> (\<exists>a b. p = Some a \<and> q = Some b \<and> a \<in> set (step_names w) \<and> b \<in> set (step_names w))
        \<and> (\<exists>err. en_AddDependency e p q w = Inl err))"

definition example_engine :: engine where
  "example_engine = \<lparr>
     en_NewStep = (\<lambda>n w. if n \<in> set (step_names w) then Inl ''step exists'' else Inr (with_step n w)),
     en_AddDependency = (\<lambda>p q w. case (p, q) of
         (Some a, Some b) \<Rightarrow>
           if a \<in> set (step_names w) \<and> b \<in> set (step_names w) then Inr (with_dep a b w)
           else Inl ''step does not belong to this workflow''
       | _ \<Rightarrow> Inl ''step does not belong to this workflow''),
     en_NoExternalIP = (\<lambda>m. m\<lparr>m_Interfaces := map_option (map (if_AccessConfigs_update (\<lambda>_. Some []))) (m_Interfaces m)\<rparr>),
     en_CIT_SERIAL_ONCE = []\<rparr>"

lemma example_engine_ok: "engine_ok example_engine"
  by (auto simp: engine_ok_def example_engine_def split: option.splits)

subsection \<open>Operations\<close>

datatype 'a outcome = Ok 'a | Fail string | Panic | Hang

type_synonym 'a operation = "test_workflow \<Rightarrow> 'a outcome \<times> test_workflow"

definition give :: "'a \<Rightarrow> 'a operation" where
  "give x t = (Ok x, t)"

definition raise :: "string \<Rightarrow> 'a operation" where
  "raise err t = (Fail err, t)"

definition panic :: "'a operation" where
  "panic t = (Panic, t)"

definition hang :: "'a operation" where
  "hang t = (Hang, t)"

definition and_then :: "'a operation \<Rightarrow> ('a \<Rightarrow> 'b operation) \<Rightarrow> 'b operation" where
  "and_then m f t = (case m t of
       (Ok x, t') \<Rightarrow> f x t'
     | (Fail err, t') \<Rightarrow> (Fail err, t')
     | (Panic, t') \<Rightarrow> (Panic, t')
     | (Hang, t') \<Rightarrow> (Hang, t'))"

definition modify :: "(test_workflow \<Rightarrow> test_workflow) \<Rightarrow> unit operation" where
  "modify f t = (Ok (), f t)"

fun for_each :: "('a \<Rightarrow> unit operation) \<Rightarrow> 'a list \<Rightarrow> unit operation" where
  "for_each f [] = give ()"
| "for_each f (x # xs) = and_then (f x) (\<lambda>_. for_each f xs)"

definition NewStep :: "engine \<Rightarrow> string \<Rightarrow> string operation" where
  "NewStep e n t = (case en_NewStep e n (tw_wf t) of
       Inl err \<Rightarrow> (Fail err, t)
     | Inr w \<Rightarrow> (Ok n, t\<lparr>tw_wf := w\<rparr>))"

definition AddDependency :: "engine \<Rightarrow> string option \<Rightarrow> string option \<Rightarrow> unit operation" where
  "AddDependency e a b t = (case en_AddDependency e a b (tw_wf t) of
       Inl err \<Rightarrow> (Fail err, t)
     | Inr w \<Rightarrow> (Ok (), t\<lparr>tw_wf := w\<rparr>))"

definition step_of :: "test_workflow \<Rightarrow> string \<Rightarrow> wf_step option" where
  "step_of t n = map_of (wf_Steps (tw_wf t)) n"

definition update_step :: "string \<Rightarrow> (wf_step \<Rightarrow> wf_step) \<Rightarrow> test_workflow \<Rightarrow> test_workflow" where
  "update_step n f t = t\<lparr>tw_wf := (tw_wf t)\<lparr>wf_Steps := AList.map_entry n f (wf_Steps (tw_wf t))\<rparr>\<rparr>"

text \<open>A new machine, network or subnetwork at the end of its store.\<close>

definition alloc_machine :: "machine \<Rightarrow> nat operation" where
  "alloc_machine m t = (Ok (length (tw_machines t)), t\<lparr>tw_machines := tw_machines t @ [m]\<rparr>)"

definition alloc_network :: "network \<Rightarrow> nat operation" where
  "alloc_network n t = (Ok (length (tw_networks t)), t\<lparr>tw_networks := tw_networks t @ [n]\<rparr>)"

definition alloc_subnetwork :: "subnetwork \<Rightarrow> nat operation" where
  "alloc_subnetwork n t = (Ok (length (tw_subnetworks t)), t\<lparr>tw_subnetworks := tw_subnetworks t @ [n]\<rparr>)"

subsection \<open>Reasoning about operations\<close>

text \<open>
  \<open>triple P m Q E\<close>: from a state in \<open>P\<close> the operation returns in \<open>Q\<close> or fails in \<open>E\<close>; it neither panics
  nor loops.  \<open>keeps I m\<close>: and it does so within \<open>I\<close>.
\<close>

fun lands :: "('a \<Rightarrow> test_workflow \<Rightarrow> bool) \<Rightarrow> (test_workflow \<Rightarrow> bool) \<Rightarrow> 'a outcome \<times> test_workflow \<Rightarrow> bool" where
  "lands Q E (Ok x, t) = Q x t"
| "lands Q E (Fail err, t) = E t"
| "lands Q E (Panic, t) = False"
| "lands Q E (Hang, t) = False"

definition triple ::
  "(test_workflow \<Rightarrow> bool) \<Rightarrow> 'a operation \<Rightarrow> ('a \<Rightarrow> test_workflow \<Rightarrow> bool) \<Rightarrow> (test_workflow \<Rightarrow> bool) \<Rightarrow> bool" where
  "triple P m Q E \<longleftrightarrow> (\<forall>t. P t \<longrightarrow> lands Q E (m t))"

definition keeps :: "(test_workflow \<Rightarrow> bool) \<Rightarrow> 'a operation \<Rightarrow> bool" where
  "keeps I m \<longleftrightarrow> triple I m (\<lambda>_. I) I"

lemma lands_weaken:
  "lands Q E r \<Longrightarrow> (\<And>x t. Q x t \<Longrightarrow> Q' x t) \<Longrightarrow> (\<And>t. E t \<Longrightarrow> E' t) \<Longrightarrow> lands Q' E' r"
  by (cases r; cases "fst r") auto

lemma lands_iff:
  "lands Q E r \<longleftrightarrow> (\<exists>x. fst r = Ok x \<and> Q x (snd r)) \<or> (\<exists>err. fst r = Fail err \<and> E (snd r))"
  by (cases r; cases "fst r") auto

lemma and_then_simps:
  "m t = (Ok x, t') \<Longrightarrow> and_then m f t = f x t'"
  "m t = (Fail err, t') \<Longrightarrow> and_then m f t = (Fail err, t')"
  "m t = (Panic, t') \<Longrightarrow> and_then m f t = (Panic, t')"
  "m t = (Hang, t') \<Longrightarrow> and_then m f t = (Hang, t')"
  by (simp_all add: and_then_def)

lemma and_then_Ok:
  "and_then m f t = (Ok y, t') \<longleftrightarrow> (\<exists>x u. m t = (Ok x, u) \<and> f x u = (Ok y, t'))"
  by (auto simp: and_then_def split: prod.splits outcome.splits)

lemma triple_and_then:
  assumes "triple P m Q E" and "\<And>x. triple (Q x) (f x) R E"
  shows "triple P (and_then m f) R E"
  unfolding triple_def
proof (intro allI impI)
  fix t assume "P t"
  then have l: "lands Q E (m t)" using assms(1) by (simp add: triple_def)
  show "lands R E (and_then m f t)"
  proof (cases "m t")
    case (Pair r u)
    then show ?thesis using l assms(2) by (cases r) (auto simp: and_then_def triple_def)
  qed
qed

lemma triple_give: "(\<And>t. P t \<Longrightarrow> Q x t) \<Longrightarrow> triple P (give x) Q E"
  by (simp add: triple_def give_def)

lemma triple_raise: "(\<And>t. P t \<Longrightarrow> E t) \<Longrightarrow> triple P (raise err) Q E"
  by (simp add: triple_def raise_def)

lemma triple_modify: "(\<And>t. P t \<Longrightarrow> Q () (f t)) \<Longrightarrow> triple P (modify f) Q E"
  by (simp add: triple_def modify_def)

lemma triple_weaken:
  assumes "triple P m Q E" and "\<And>t. P' t \<Longrightarrow> P t" and "\<And>x t. Q x t \<Longrightarrow> Q' x t" and "\<And>t. E t \<Longrightarrow> E' t"
  shows "triple P' m Q' E'"
  using assms unfolding triple_def by (blast intro: lands_weaken)

lemma triple_pre: "triple P m Q E \<Longrightarrow> (\<And>t. P' t \<Longrightarrow> P t) \<Longrightarrow> triple P' m Q E"
  by (simp add: triple_def)

text \<open>An operation that reads the state first.\<close>

lemma triple_at: "(\<And>t. P t \<Longrightarrow> lands Q E (m t)) \<Longrightarrow> triple P m Q E"
  by (simp add: triple_def)

lemma tripleD: "triple P m Q E \<Longrightarrow> P t \<Longrightarrow> lands Q E (m t)"
  by (simp add: triple_def)

lemma keeps_and_then: "keeps I m \<Longrightarrow> (\<And>x. keeps I (f x)) \<Longrightarrow> keeps I (and_then m f)"
  unfolding keeps_def by (rule triple_and_then)

lemma keeps_ends: "keeps I (give x)" "keeps I (raise err)"
  by (simp_all add: keeps_def triple_give triple_raise)

lemma keeps_modify: "(\<And>t. I t \<Longrightarrow> I (f t)) \<Longrightarrow> keeps I (modify f)"
  by (simp add: keeps_def triple_modify)

lemma keepsD: "keeps I m \<Longrightarrow> I t \<Longrightarrow> I (snd (m t))"
  unfolding keeps_def triple_def lands_iff by blast

lemma keeps_returns: "keeps I m \<Longrightarrow> I t \<Longrightarrow> fst (m t) \<noteq> Panic \<and> fst (m t) \<noteq> Hang"
  unfolding keeps_def triple_def lands_iff by fastforce

lemma keeps_for_each: "(\<And>x. x \<in> set xs \<Longrightarrow> keeps I (f x)) \<Longrightarrow> keeps I (for_each f xs)"
  by (induction xs) (auto intro: keeps_and_then keeps_ends)

end
