(* ===== verification/Workflow_Steps.thy ===== *)
theory Workflow_Steps
  imports Workflow_Model
begin

text \<open>
  The builders of steps in \<open>testworkflow.go\<close>: machines, disks, networks, the waits and the other steps
  of a machine's life, and the configuration of networks and external addresses.  A builder returns
  the name of its step and, where the code does, the pointer to what it has added.
\<close>

definition createVMsStepName :: string where "createVMsStepName = ''create-vms''"
definition createDisksStepName :: string where "createDisksStepName = ''create-disks''"
definition createNetworkStepName :: string where "createNetworkStepName = ''create-networks''"
definition createFirewallStepName :: string where "createFirewallStepName = ''create-firewalls''"
definition createSubnetworkStepName :: string where "createSubnetworkStepName = ''create-sub-networks''"
definition waitForVMQuotaStepName :: string where "waitForVMQuotaStepName = ''wait-for-vm-quota''"
definition waitForDisksQuotaStepName :: string where "waitForDisksQuotaStepName = ''wait-for-disk-quota''"
definition successMatch :: string where "successMatch = ''FINISHED-TEST''"
definition DefaultSourceRange :: string where "DefaultSourceRange = ''10.128.0.0/9''"
definition GuestAttributeTestNamespace :: string where "GuestAttributeTestNamespace = ''citTest''"
definition GuestAttributeTestKey :: string where "GuestAttributeTestKey = ''test-complete''"
definition FirstBootGAKey :: string where "FirstBootGAKey = ''first-boot-key''"

lemmas step_name_defs = createVMsStepName_def createDisksStepName_def createNetworkStepName_def
  createFirewallStepName_def createSubnetworkStepName_def waitForVMQuotaStepName_def
  waitForDisksQuotaStepName_def

subsection \<open>Machines\<close>

definition setInstanceTestMetadata :: "test_workflow \<Rightarrow> machine \<Rightarrow> string \<Rightarrow> machine" where
  "setInstanceTestMetadata t i sfx =
     i\<lparr>m_Metadata := (m_Metadata i)
        (''_test_vmname'' \<mapsto> m_Name i,
         ''_test_package_url'' \<mapsto> ''${SOURCESPATH}/testpackage'',
         ''_test_properties_url'' \<mapsto> ''${OUTSPATH}/properties/'' @ m_Name i @ ''.txt'',
         ''_test_package_name'' \<mapsto> ''image_test'' @ sfx,
         ''_test_results_url'' \<mapsto> ''${OUTSPATH}/'' @ m_Name i @ ''.txt'',
         ''_test_suite_name'' \<mapsto> getTestSuiteName t,
         ''_compute_endpoint'' \<mapsto> wf_ComputeEndpoint (tw_wf t),
         ''_cit_timeout'' \<mapsto> wf_DefaultTimeout (tw_wf t),
         ''_exclude_discrete_tests'' \<mapsto> tw_testExcludeFilter t,
         ''enable-guest-attributes'' \<mapsto> ''TRUE'')\<rparr>"

definition skipWindowsStagingKMS :: "test_workflow \<Rightarrow> bool \<Rightarrow> machine \<Rightarrow> machine" where
  "skipWindowsStagingKMS t isWindows i =
     (if isWindows \<and> IsComputeStaging t
      then i\<lparr>m_Metadata := (m_Metadata i)(''sysprep-specialize-script-ps1'' \<mapsto>
        ''New-Item -Path \"C:'' @ [CHR 0x5C] @ ''Program Files'' @ [CHR 0x5C] @ ''Google'' @ [CHR 0x5C] @
        ''Compute Engine'' @ [CHR 0x5C] @ ''sysprep'' @ [CHR 0x5C] @ ''byol_image\" -ItemType directory'')\<rparr>
      else i)"

definition matchesWorkflowMachineType :: "test_workflow \<Rightarrow> string \<Rightarrow> bool" where
  "matchesWorkflowMachineType t instanceMachineType =
     (instanceMachineType = [] \<or> tw_MachineType t = None \<or> tw_MachineType t = Some []
      \<or> tw_MachineType t = Some instanceMachineType)"

text \<open>The boot disk and the disks after it, deleted with the machine.\<close>

definition attach :: "disk_params \<Rightarrow> attached" where
  "attach d = \<lparr>at_Source = dp_Name d, at_AutoDelete = True, at_Boot = False, at_DeviceName = [],
     at_InitType = None, at_Mode = [], at_Type = []\<rparr>"

definition startup_script :: "test_workflow \<Rightarrow> bool \<Rightarrow> machine \<Rightarrow> machine" where
  "startup_script t isWindows i =
     (if HasCustomStartupScript t
      then i\<lparr>m_Metadata := (m_Metadata i)
        ((if isWindows then ''windows-startup-script-ps1'' else ''startup-script'')
           \<mapsto> tw_customStartupScriptContent t)\<rparr>
      else i)"

definition mark_machine :: "engine \<Rightarrow> string \<Rightarrow> string \<Rightarrow> machine \<Rightarrow> machine" where
  "mark_machine e sfx name i =
     i\<lparr>m_SerialPortsToLog := disableSerialStreaming e (m_SerialPortsToLog i),
       m_NoCleanup := serialOnceEnabled e,
       m_StartupScript := ''wrapper'' @ sfx,
       m_Name := name,
       m_Description := CITDescription (m_Description i),
       m_Labels := CITLabels (m_Labels i),
       m_Scopes := m_Scopes i @ [''https://www.googleapis.com/auth/devstorage.read_write'']\<rparr>"

definition add_disks :: "disk_params list \<Rightarrow> machine \<Rightarrow> machine" where
  "add_disks disks i = i\<lparr>m_Disks := m_Disks i @ map attach disks\<rparr>"

definition windows_suffix :: "test_workflow \<Rightarrow> string" where
  "windows_suffix t = (if HasFeature (tw_Image t) ''WINDOWS'' then ''.exe'' else [])"

text \<open>The two refusals with which the builders of machines begin.\<close>

definition boot_disk_error :: "disk_params list \<Rightarrow> string option" where
  "boot_disk_error disks =
     (if disks = [] \<or> dp_Name (hd disks) = [] then Some ''failed to create VM from empty boot disk'' else None)"

definition dash_error :: "string \<Rightarrow> string option" where
  "dash_error name =
     (if Contains name ''-''
      then Some (''dashes are disallowed in testworkflow vm names: '' @ name) else None)"

definition addNewVMStep :: "engine \<Rightarrow> disk_params list \<Rightarrow> machine \<Rightarrow> (string \<times> nat) operation" where
  "addNewVMStep e disks i t =
     (case boot_disk_error disks of Some err \<Rightarrow> raise err t | None \<Rightarrow>
      let name = dp_Name (hd disks); isWindows = HasFeature (tw_Image t) ''WINDOWS'';
          sfx = windows_suffix t
      in case dash_error name of Some err \<Rightarrow> raise err t | None \<Rightarrow>
      let i = skipWindowsStagingKMS t isWindows (setInstanceTestMetadata t
            (startup_script t isWindows (add_disks disks (mark_machine e sfx name i))) sfx)
      in and_then (alloc_machine i) (\<lambda>a.
         and_then (NewStep e (''create-vms-'' @ utoa (tw_counter t))) (\<lambda>step.
         and_then (modify (update_step step (st_CreateInstances_update (\<lambda>_. Some ([a], []))))) (\<lambda>_.
         give (step, a)))) t)"

definition maintenance :: "string \<Rightarrow> machine \<Rightarrow> machine" where
  "maintenance machineType i =
     (let policy = MachineMaintenancePolicy machineType
      in if policy = ''TERMINATE''
         then i\<lparr>m_Scheduling := Some ((case m_Scheduling i of None \<Rightarrow> no_scheduling | Some s \<Rightarrow> s)
                 \<lparr>sch_OnHostMaintenance := policy\<rparr>)\<rparr>
         else i)"

text \<open>\<open>affinity\<close> is the reservation affinity of the workflow for the interface in use.\<close>

definition reserve :: "test_workflow \<Rightarrow> affinity option \<Rightarrow> machine \<Rightarrow> machine" where
  "reserve t affinity i =
     (if matchesWorkflowMachineType t (m_MachineType i)
      then let i = i\<lparr>m_ReservationAffinity := affinity\<rparr>
           in case affinity of None \<Rightarrow> i
              | Some a \<Rightarrow>
                  if ra_Type a = ''SPECIFIC_RESERVATION'' \<and> tw_ReservationBound t
                  then i\<lparr>m_Scheduling := Some ((case m_Scheduling i of None \<Rightarrow> no_scheduling | Some s \<Rightarrow> s)
                         \<lparr>sch_ProvisioningModel := ''RESERVATION_BOUND''\<rparr>)\<rparr>
                  else i
      else i)"

text \<open>
  The code adds to a step if it is there and creates it otherwise.  Adding reaches into the field of
  the step and panics when it is not set.
\<close>

definition append_step ::
  "engine \<Rightarrow> string \<Rightarrow> (wf_step \<Rightarrow> wf_step option) \<Rightarrow> (wf_step \<Rightarrow> wf_step) \<Rightarrow> string operation" where
  "append_step e name add fresh t =
     (case step_of t name of
        Some s \<Rightarrow> (case add s of None \<Rightarrow> panic t
                    | Some s' \<Rightarrow> and_then (modify (update_step name (\<lambda>_. s'))) (\<lambda>_. give name) t)
      | None \<Rightarrow> and_then (NewStep e name) (\<lambda>step.
                and_then (modify (update_step step fresh)) (\<lambda>_. give step)) t)"

definition add_machine_step :: "engine \<Rightarrow> bool \<Rightarrow> nat \<Rightarrow> string operation" where
  "add_machine_step e beta a =
     (let one = (if beta then ([], [a]) else ([a], []))
      in append_step e createVMsStepName
        (\<lambda>s. case st_CreateInstances s of None \<Rightarrow> None
           | Some (gs, bs) \<Rightarrow> Some (s\<lparr>st_CreateInstances := Some (gs @ fst one, bs @ snd one)\<rparr>))
        (st_CreateInstances_update (\<lambda>_. Some one)))"

definition appendCreateVMStep :: "engine \<Rightarrow> disk_params list \<Rightarrow> machine \<Rightarrow> (string \<times> nat) operation" where
  "appendCreateVMStep e disks i t =
     (case boot_disk_error disks of Some err \<Rightarrow> raise err t | None \<Rightarrow>
      let name = dp_Name (hd disks); isWindows = HasFeature (tw_Image t) ''WINDOWS'';
          sfx = windows_suffix t
      in case dash_error name of Some err \<Rightarrow> raise err t | None \<Rightarrow>
      (case tw_MachineType t of None \<Rightarrow> panic t | Some mt \<Rightarrow>
      let i = skipWindowsStagingKMS t isWindows (setInstanceTestMetadata t
            (startup_script t isWindows (add_disks disks
              (reserve t (tw_ReservationAffinity t) (mark_machine e sfx name (maintenance mt i))))) sfx)
      in and_then (alloc_machine i) (\<lambda>a.
         and_then (add_machine_step e False a) (\<lambda>step.
         give (step, a))) t))"

definition appendCreateVMStepBeta :: "engine \<Rightarrow> disk_params list \<Rightarrow> machine \<Rightarrow> (string \<times> nat) operation" where
  "appendCreateVMStepBeta e disks i t =
     (case boot_disk_error disks of Some err \<Rightarrow> raise err t | None \<Rightarrow>
      let name = dp_Name (hd disks); isWindows = HasFeature (tw_Image t) ''WINDOWS'';
          sfx = windows_suffix t
      in (case tw_MachineType t of None \<Rightarrow> panic t | Some mt \<Rightarrow>
      let i = setInstanceTestMetadata t (startup_script t isWindows (add_disks disks
              (reserve t (tw_ReservationAffinityBeta t) (mark_machine e sfx name (maintenance mt i))))) sfx
      in and_then (alloc_machine i) (\<lambda>a.
         and_then (add_machine_step e True a) (\<lambda>step.
         give (step, a))) t))"

subsection \<open>Disks\<close>

definition add_disk_step :: "engine \<Rightarrow> wf_disk \<Rightarrow> string operation" where
  "add_disk_step e d =
     append_step e createDisksStepName
       (\<lambda>s. case st_CreateDisks s of None \<Rightarrow> None | Some ds \<Rightarrow> Some (s\<lparr>st_CreateDisks := Some (ds @ [d])\<rparr>))
       (st_CreateDisks_update (\<lambda>_. Some [d]))"

definition appendCreateDisksStep :: "engine \<Rightarrow> disk_params \<Rightarrow> string operation" where
  "appendCreateDisksStep e d t =
     (if dp_Name d = [] then raise ''failed to create disk with empty parameters'' t
      else add_disk_step e \<lparr>wd_Name = dp_Name d, wd_Description = CITDescription (dp_Description d),
             wd_Labels = CITLabels (dp_Labels d), wd_SourceImage = tw_ImageURL t, wd_Type = dp_Type d,
             wd_Zone = dp_Zone d, wd_SizeGb = itoa (dp_SizeGb d)\<rparr> t)"

definition appendCreateMountDisksStep :: "engine \<Rightarrow> disk_params \<Rightarrow> string operation" where
  "appendCreateMountDisksStep e d t =
     (if dp_Name d = [] then raise ''failed to create disk with empty parameters'' t
      else if dp_SizeGb d = 0 then raise ''failed to create mount disk with no SizeGb parameter'' t
      else add_disk_step e \<lparr>wd_Name = dp_Name d, wd_Description = CITDescription (dp_Description d),
             wd_Labels = CITLabels (dp_Labels d), wd_SourceImage = [], wd_Type = dp_Type d,
             wd_Zone = dp_Zone d, wd_SizeGb = itoa (dp_SizeGb d)\<rparr> t)"

subsection \<open>The life of a machine\<close>

definition single_step :: "engine \<Rightarrow> string \<Rightarrow> (wf_step \<Rightarrow> wf_step) \<Rightarrow> string operation" where
  "single_step e name content =
     and_then (NewStep e name) (\<lambda>step. and_then (modify (update_step step content)) (\<lambda>_. give step))"

text \<open>
  No step ever gets a list of images to create, so both branches dereference a nil one; the image is
  not looked at.
\<close>

definition appendCreateImageStep :: "engine \<Rightarrow> string \<Rightarrow> string operation" where
  "appendCreateImageStep e stepname t =
     (if step_of t stepname \<noteq> None then panic t else and_then (NewStep e stepname) (\<lambda>step. panic) t)"

definition appendDetachDiskStep :: "engine \<Rightarrow> string \<Rightarrow> string \<Rightarrow> string list \<Rightarrow> string operation" where
  "appendDetachDiskStep e stepname vmname disknames =
     single_step e stepname (st_DetachDisks_update (\<lambda>_. Some (map (\<lambda>d. (vmname, d)) disknames)))"

definition addWaitStoppedStep :: "engine \<Rightarrow> string \<Rightarrow> string \<Rightarrow> string operation" where
  "addWaitStoppedStep e stepname vmname =
     single_step e (''wait-stopped-'' @ stepname) (st_Signals_update (\<lambda>_. Some
       [\<lparr>sg_Name = vmname, sg_Stopped = True, sg_Status = [], sg_Serial = None, sg_Guest = None, sg_Interval = []\<rparr>]))"

definition test_signal :: "string \<Rightarrow> string \<Rightarrow> signal" where
  "test_signal key vmname = \<lparr>sg_Name = vmname, sg_Stopped = False, sg_Status = [],
     sg_Serial = Some (1, successMatch), sg_Guest = Some (GuestAttributeTestNamespace, key), sg_Interval = ''8s''\<rparr>"

definition addWaitStep :: "engine \<Rightarrow> string \<Rightarrow> string \<Rightarrow> string operation" where
  "addWaitStep e stepname vmname =
     single_step e (''wait-'' @ stepname) (st_Signals_update (\<lambda>_. Some [test_signal GuestAttributeTestKey vmname]))"

definition addWaitRebootGAStep :: "engine \<Rightarrow> string \<Rightarrow> string \<Rightarrow> string operation" where
  "addWaitRebootGAStep e stepname vmname =
     single_step e (''wait-'' @ stepname) (st_Signals_update (\<lambda>_. Some [test_signal FirstBootGAKey vmname]))"

definition addStopStep :: "engine \<Rightarrow> string \<Rightarrow> string \<Rightarrow> string operation" where
  "addStopStep e stepname vmname = single_step e (''stop-'' @ stepname) (st_Stop_update (\<lambda>_. Some [vmname]))"

definition addDiskResizeStep :: "engine \<Rightarrow> string \<Rightarrow> string \<Rightarrow> int \<Rightarrow> string operation" where
  "addDiskResizeStep e stepname vmname diskSize =
     single_step e (''resize-disk-'' @ stepname) (st_Resize_update (\<lambda>_. Some [(vmname, diskSize)]))"

definition addStartStep :: "engine \<Rightarrow> string \<Rightarrow> string \<Rightarrow> string operation" where
  "addStartStep e stepname vmname = single_step e (''start-'' @ stepname) (st_Start_update (\<lambda>_. Some [vmname]))"

subsection \<open>Networks\<close>

definition add_network_step :: "engine \<Rightarrow> nat \<Rightarrow> string operation" where
  "add_network_step e a =
     append_step e createNetworkStepName
       (\<lambda>s. case st_CreateNetworks s of None \<Rightarrow> None | Some ns \<Rightarrow> Some (s\<lparr>st_CreateNetworks := Some (ns @ [a])\<rparr>))
       (st_CreateNetworks_update (\<lambda>_. Some [a]))"

definition appendCreateNetworkStep :: "engine \<Rightarrow> network \<Rightarrow> (string \<times> nat) operation" where
  "appendCreateNetworkStep e n =
     and_then (alloc_network (n\<lparr>nw_Description := CITDescription (nw_Description n)\<rparr>)) (\<lambda>a.
     and_then (add_network_step e a) (\<lambda>step. give (step, a)))"

definition appendCreateSubnetworksStep :: "engine \<Rightarrow> subnetwork \<Rightarrow> (string \<times> nat) operation" where
  "appendCreateSubnetworksStep e s =
     and_then (alloc_subnetwork (s\<lparr>sn_Description := CITDescription (sn_Description s)\<rparr>)) (\<lambda>a.
     and_then (append_step e createSubnetworkStepName
         (\<lambda>s. case st_CreateSubnetworks s of None \<Rightarrow> None
            | Some ns \<Rightarrow> Some (s\<lparr>st_CreateSubnetworks := Some (ns @ [a])\<rparr>))
         (st_CreateSubnetworks_update (\<lambda>_. Some [a]))) (\<lambda>step. give (step, a)))"

definition appendCreateFirewallStep ::
  "engine \<Rightarrow> string \<Rightarrow> string \<Rightarrow> string \<Rightarrow> string list \<Rightarrow> string list option \<Rightarrow> string operation" where
  "appendCreateFirewallStep e firewallName networkName protocol ports ranges =
     (let f = \<lparr>fw_Name = firewallName, fw_Description = CITDescription [], fw_Network = networkName,
               fw_SourceRanges = (case ranges of None \<Rightarrow> [DefaultSourceRange] | Some rs \<Rightarrow> rs),
               fw_Allowed = [(protocol, ports)]\<rparr>
      in append_step e createFirewallStepName
         (\<lambda>s. case st_CreateFirewalls s of None \<Rightarrow> None
            | Some fs \<Rightarrow> Some (s\<lparr>st_CreateFirewalls := Some (fs @ [f])\<rparr>))
         (st_CreateFirewalls_update (\<lambda>_. Some [f])))"

subsection \<open>Interfaces of the machines of a step\<close>

definition update_machine :: "nat \<Rightarrow> (machine \<Rightarrow> machine) \<Rightarrow> test_workflow \<Rightarrow> test_workflow" where
  "update_machine a f t = t\<lparr>tw_machines := (tw_machines t)[a := f (tw_machines t ! a)]\<rparr>"

definition step_machines :: "wf_step \<Rightarrow> nat list" where
  "step_machines s = (case st_CreateInstances s of None \<Rightarrow> [] | Some (gs, bs) \<Rightarrow> gs @ bs)"

definition default_network :: "options \<Rightarrow> machine \<Rightarrow> machine" where
  "default_network opts i =
     (if m_Interfaces i = None \<or> m_Interfaces i = Some []
      then i\<lparr>m_Interfaces := Some [new_interface\<lparr>if_Network := op_Network opts, if_Subnetwork := op_Subnet opts\<rparr>]\<rparr>
      else i)"

definition configureNetwork :: "wf_step \<Rightarrow> test_workflow \<Rightarrow> test_workflow" where
  "configureNetwork s t =
     (if op_Network (tw_opts t) = [] \<and> op_Subnet (tw_opts t) = [] then t
      else fold (\<lambda>a. update_machine a (default_network (tw_opts t))) (step_machines s) t)"

definition some_interface :: "machine \<Rightarrow> machine" where
  "some_interface i =
     (if m_Interfaces i = None \<or> m_Interfaces i = Some [] then i\<lparr>m_Interfaces := Some [new_interface]\<rparr> else i)"

definition ephemeral_ip :: "interface \<Rightarrow> interface" where
  "ephemeral_ip n =
     (let acs = (case if_AccessConfigs n of None \<Rightarrow> [(''ONE_TO_ONE_NAT'', [])] | Some acs \<Rightarrow> acs)
      in n\<lparr>if_AccessConfigs := Some (case acs of [] \<Rightarrow> [] | (ty, ip) # rest \<Rightarrow> (ty, []) # rest)\<rparr>)"

text \<open>\<open>strings.EqualFold\<close> on ASCII letters, all that can equal ``none''.\<close>

definition EqualFold :: "string \<Rightarrow> string \<Rightarrow> bool" where
  "EqualFold a b = (map ascii_lower a = map ascii_lower b)"

definition configureExternalIP :: "engine \<Rightarrow> wf_step \<Rightarrow> test_workflow \<Rightarrow> test_workflow" where
  "configureExternalIP e s t =
     (if st_CreateInstances s = None \<or> op_ExternalIP (tw_opts t) = [] then t
      else let t = fold (\<lambda>a. update_machine a some_interface) (step_machines s) t
           in if EqualFold (op_ExternalIP (tw_opts t)) ''none''
              then fold (\<lambda>a. update_machine a (en_NoExternalIP e)) (step_machines s) t
              else fold (\<lambda>a. update_machine a (\<lambda>i. i\<lparr>m_Interfaces := map_option (map ephemeral_ip) (m_Interfaces i)\<rparr>))
                     (step_machines s) t)"

end
