(* ===== verification/Fixtures.thy ===== *)
theory Fixtures
  imports Workflow_Steps
begin

text \<open>
  \<open>fixtures.go\<close>: what the test suites build their workflows with.  A test machine is its name and
  the pointer to the underlying machine, of either interface; networks and subnetworks are handles of
  the same kind.  Creating machines, rebooting and resuming them, resizing disks and waiting for
  quota add steps and dependencies; the rest sets options of machines and networks.
\<close>

datatype machine_ref = GA nat | Beta nat

fun ref_addr :: "machine_ref \<Rightarrow> nat" where
  "ref_addr (GA a) = a"
| "ref_addr (Beta a) = a"

record test_vm =
  vm_name :: string
  vm_ref :: machine_ref

record network_handle =
  nh_name :: string
  nh_ref :: nat

record subnetwork_handle =
  sh_name :: string
  sh_ref :: nat
  sh_network :: network_handle

definition machine_of :: "test_vm \<Rightarrow> test_workflow \<Rightarrow> machine" where
  "machine_of vm t = tw_machines t ! ref_addr (vm_ref vm)"

definition update_vm :: "test_vm \<Rightarrow> (machine \<Rightarrow> machine) \<Rightarrow> test_workflow \<Rightarrow> test_workflow" where
  "update_vm vm f = update_machine (ref_addr (vm_ref vm)) f"

subsection \<open>The workflow\<close>

definition Skip :: "string \<Rightarrow> test_workflow \<Rightarrow> test_workflow" where
  "Skip message t = t\<lparr>tw_skipped := True, tw_skippedMessage := message\<rparr>"

definition SkippedMessage :: "test_workflow \<Rightarrow> string" where
  "SkippedMessage t = tw_skippedMessage t"

definition LockProject :: "test_workflow \<Rightarrow> test_workflow" where
  "LockProject t = t\<lparr>tw_lockProject := True\<rparr>"

text \<open>The field that suites with load balancers set.\<close>

definition creates_load_balancers :: "test_workflow \<Rightarrow> test_workflow" where
  "creates_load_balancers t = t\<lparr>tw_CreatesLoadBalancers := True\<rparr>"

definition SkipTests :: "string \<Rightarrow> string list \<Rightarrow> test_workflow \<Rightarrow> test_workflow" where
  "SkipTests reason tests t =
     t\<lparr>tw_testSkipReasons := fold (\<lambda>test m. m(test \<mapsto> reason)) tests (tw_testSkipReasons t)\<rparr>"

text \<open>\<open>compile\<close> is \<open>regexp.Compile\<close> followed by \<open>MatchString\<close>; \<open>None\<close> for an expression that does not compile.\<close>

definition TestsExcluded ::
  "(string \<Rightarrow> (string \<Rightarrow> bool) option) \<Rightarrow> string list \<Rightarrow> test_workflow \<Rightarrow> bool" where
  "TestsExcluded compile tests t =
     (if tw_testExcludeFilter t = [] then False
      else (case compile (tw_testExcludeFilter t) of None \<Rightarrow> False | Some r \<Rightarrow> list_all r tests))"

definition ShouldRunTests ::
  "(string \<Rightarrow> (string \<Rightarrow> bool) option) \<Rightarrow> string \<Rightarrow> test_workflow \<Rightarrow> bool" where
  "ShouldRunTests compile tests t =
     (if tw_testExcludeFilter t = [] \<or> Contains (tw_testExcludeFilter t) ''/'' then True
      else (case compile (tw_testExcludeFilter t) of
              None \<Rightarrow> True
            | Some r \<Rightarrow> list_ex (\<lambda>test. \<not> r test) (Split (CHR ''|'') tests)))"

subsection \<open>Quota\<close>

fun add_quota :: "quota \<Rightarrow> quota list \<Rightarrow> quota list" where
  "add_quota qa [] = [qa]"
| "add_quota qa (q # qs) =
     (if qa_Metric q = qa_Metric qa \<and> qa_Region q = qa_Region qa
      then q\<lparr>qa_Units := qa_Units q + qa_Units qa\<rparr> # qs
      else q # add_quota qa qs)"

definition waitForQuotaStep :: "engine \<Rightarrow> quota \<Rightarrow> string \<Rightarrow> unit operation" where
  "waitForQuotaStep e qa stepname =
     and_then (\<lambda>t. case step_of t stepname of
         Some _ \<Rightarrow> give () t
       | None \<Rightarrow> and_then (single_step e stepname (st_Quotas_update (\<lambda>_. Some (''90s'', [])))) (\<lambda>_. give ()) t)
     (\<lambda>_ t. case step_of t stepname of
         None \<Rightarrow> panic t
       | Some s \<Rightarrow> (case st_Quotas s of
             None \<Rightarrow> panic t
           | Some (interval, qs) \<Rightarrow>
               modify (update_step stepname (st_Quotas_update (\<lambda>_. Some (interval, add_quota qa qs)))) t))"

definition WaitForVMQuota :: "engine \<Rightarrow> quota \<Rightarrow> unit operation" where
  "WaitForVMQuota e qa = waitForQuotaStep e qa waitForVMQuotaStepName"

definition WaitForDisksQuota :: "engine \<Rightarrow> quota \<Rightarrow> unit operation" where
  "WaitForDisksQuota e qa = waitForQuotaStep e qa waitForDisksQuotaStepName"

subsection \<open>Creating machines\<close>

text \<open>The part of a name before the first dot, with dashes for underscores.\<close>

definition vmname_of :: "string \<Rightarrow> string" where
  "vmname_of name = map (\<lambda>c. if c = CHR ''_'' then CHR ''-'' else c) (hd (Split (CHR ''.'') name))"

text \<open>A dependency on a step that need not be there.\<close>

definition depend_if_there :: "engine \<Rightarrow> string \<Rightarrow> string \<Rightarrow> unit operation" where
  "depend_if_there e a b t =
     (if step_of t b = None then give () t else AddDependency e (Some a) (Some b) t)"

text \<open>How the creation of a machine ends: the wait for its tests, the networks before it.\<close>

definition connect_machine :: "engine \<Rightarrow> string \<Rightarrow> string operation \<Rightarrow> unit operation" where
  "connect_machine e createVMStep wait =
     and_then wait (\<lambda>waitStep.
     and_then (AddDependency e (Some waitStep) (Some createVMStep)) (\<lambda>_.
     and_then (depend_if_there e createVMStep createSubnetworkStepName) (\<lambda>_.
     depend_if_there e createVMStep createNetworkStepName)))"

definition CreateTestVM :: "engine \<Rightarrow> string \<Rightarrow> test_vm operation" where
  "CreateTestVM e name =
     (let vmname = vmname_of name; bootDisk = disk_named vmname
      in and_then (appendCreateDisksStep e bootDisk) (\<lambda>createDisksStep.
         and_then (appendCreateVMStep e [bootDisk] new_machine) (\<lambda>(createVMStep, a).
         and_then (AddDependency e (Some createVMStep) (Some createDisksStep)) (\<lambda>_.
         and_then (connect_machine e createVMStep (addWaitStep e vmname vmname)) (\<lambda>_.
         give \<lparr>vm_name = vmname, vm_ref = GA a\<rparr>)))))"

definition CreateTestVMBeta :: "engine \<Rightarrow> string \<Rightarrow> test_vm operation" where
  "CreateTestVMBeta e name =
     (let vmname = vmname_of name; bootDisk = disk_named vmname
      in and_then (appendCreateDisksStep e bootDisk) (\<lambda>createDisksStep.
         and_then (appendCreateVMStepBeta e [bootDisk] new_machine) (\<lambda>(createVMStep, a).
         and_then (AddDependency e (Some createVMStep) (Some createDisksStep)) (\<lambda>_.
         and_then (connect_machine e createVMStep (addWaitStep e vmname vmname)) (\<lambda>_.
         give \<lparr>vm_name = vmname, vm_ref = Beta a\<rparr>)))))"

text \<open>The first disk is the boot disk, the others are mounted; the steps that create them.\<close>

fun mount_disks :: "engine \<Rightarrow> disk_params list \<Rightarrow> string list operation" where
  "mount_disks e [] = give []"
| "mount_disks e (d # ds) =
     and_then (appendCreateMountDisksStep e d) (\<lambda>s. and_then (mount_disks e ds) (\<lambda>ss. give (s # ss)))"

fun create_disks :: "engine \<Rightarrow> disk_params list \<Rightarrow> string list operation" where
  "create_disks e [] = give []"
| "create_disks e (d # ds) =
     and_then (appendCreateDisksStep e d) (\<lambda>s. and_then (mount_disks e ds) (\<lambda>ss. give (s # ss)))"

definition ShouldRebootDuringTest :: string where
  "ShouldRebootDuringTest = ''shouldRebootDuringTest''"

definition wait_for_tests :: "engine \<Rightarrow> string \<Rightarrow> nat \<Rightarrow> string operation" where
  "wait_for_tests e vmname a t =
     (if m_Metadata (tw_machines t ! a) ShouldRebootDuringTest \<noteq> None
      then addWaitRebootGAStep e vmname vmname t else addWaitStep e vmname vmname t)"

definition CreateTestVMMultipleDisks ::
  "engine \<Rightarrow> disk_params list \<Rightarrow> machine option \<Rightarrow> test_vm operation" where
  "CreateTestVMMultipleDisks e disks instanceParams t =
     (if disks = [] \<or> dp_Name (hd disks) = []
      then raise ''failed to create multiple disk VM with empty boot disk'' t
      else let vmname = vmname_of (dp_Name (hd disks));
               i = (case instanceParams of None \<Rightarrow> new_machine | Some i \<Rightarrow> i)
           in and_then (create_disks e disks) (\<lambda>createDisksSteps.
              and_then (appendCreateVMStep e disks i) (\<lambda>(createVMStep, a).
              and_then (for_each (\<lambda>s. AddDependency e (Some createVMStep) (Some s)) createDisksSteps) (\<lambda>_.
              and_then (connect_machine e createVMStep (wait_for_tests e vmname a)) (\<lambda>_.
              give \<lparr>vm_name = vmname, vm_ref = GA a\<rparr>)))) t)"

definition CreateTestVMFromInstanceBeta ::
  "engine \<Rightarrow> machine \<Rightarrow> disk_params list \<Rightarrow> test_vm operation" where
  "CreateTestVMFromInstanceBeta e i disks t =
     (if disks = [] \<or> dp_Name (hd disks) = []
      then raise ''failed to create multiple disk VM with empty boot disk'' t
      else let vmname = vmname_of (dp_Name (hd disks))
           in and_then (create_disks e disks) (\<lambda>createDisksSteps.
              and_then (appendCreateVMStepBeta e disks i) (\<lambda>(createVMStep, a).
              and_then (for_each (\<lambda>s. AddDependency e (Some createVMStep) (Some s)) createDisksSteps) (\<lambda>_.
              and_then (connect_machine e createVMStep (wait_for_tests e vmname a)) (\<lambda>_.
              give \<lparr>vm_name = vmname, vm_ref = Beta a\<rparr>)))) t)"

subsection \<open>The last step of a machine\<close>

text \<open>The steps that depend on a step, once per mention.\<close>

definition rdeps :: "(string \<times> string list) list \<Rightarrow> string \<Rightarrow> string list" where
  "rdeps deps s = concat (map (\<lambda>(d, ds). map (\<lambda>_. d) (filter (\<lambda>x. x = s) ds)) deps)"

text \<open>
  The loop of \<open>getLastStepForVM\<close>: \<open>None\<close> when it does not end, \<open>Some None\<close> when two steps depend on
  the same one.
\<close>

partial_function (option) follow ::
  "(string \<times> string list) list \<Rightarrow> string \<Rightarrow> string option option" where
  "follow deps s =
     (case rdeps deps s of
        [] \<Rightarrow> Some (Some s)
      | [d] \<Rightarrow> follow deps d
      | _ \<Rightarrow> Some None)"

declare follow.simps [code]

text \<open>The step found may be missing from the map, which gives the nil pointer without an error.\<close>

definition getLastStepForVM :: "test_workflow \<Rightarrow> string \<Rightarrow> string option operation" where
  "getLastStepForVM t0 vmname t =
     (let step = ''wait-'' @ vmname
      in if step_of t0 step = None then raise (''no step '' @ step) t
         else (case follow (wf_Dependencies (tw_wf t0)) step of
                 None \<Rightarrow> hang t
               | Some None \<Rightarrow> raise ''workflow has non-linear dependencies'' t
               | Some (Some s) \<Rightarrow> give (if step_of t0 s = None then None else Some s) t))"

text \<open>With the error its callers give in its place.\<close>

definition last_step :: "string \<Rightarrow> string \<Rightarrow> string option operation" where
  "last_step err vmname t = (case getLastStepForVM t vmname t of
       (Fail _, t') \<Rightarrow> (Fail err, t') | r \<Rightarrow> r)"

definition next_suffix :: "test_vm \<Rightarrow> string operation" where
  "next_suffix vm t =
     (let t = t\<lparr>tw_counter := Suc (tw_counter t)\<rparr> in give (vm_name vm @ ''-'' @ utoa (tw_counter t)) t)"

subsection \<open>Stopping, starting and copying machines\<close>

text \<open>A new step after another one.\<close>

definition after :: "engine \<Rightarrow> string option \<Rightarrow> string operation \<Rightarrow> string operation" where
  "after e previous step =
     and_then step (\<lambda>s. and_then (AddDependency e (Some s) previous) (\<lambda>_. give s))"

definition CreateDerivativeVM :: "engine \<Rightarrow> test_vm \<Rightarrow> string \<Rightarrow> test_vm operation" where
  "CreateDerivativeVM e vm name =
     (let n = vm_name vm; vmname = ''derivative-'' @ name
      in and_then (next_suffix vm) (\<lambda>sfx.
         and_then (last_step ''failed to resolve last step'' n) (\<lambda>lastStep.
         and_then (after e lastStep (addStopStep e sfx n)) (\<lambda>stopStep.
         and_then (after e (Some stopStep) (addWaitStoppedStep e (''stopped-'' @ sfx) n)) (\<lambda>waitStopStep.
         and_then (after e (Some waitStopStep) (appendDetachDiskStep e (''detach-disk-'' @ sfx) n [n])) (\<lambda>detachDiskStep.
         and_then (addNewVMStep e [disk_named n] new_machine) (\<lambda>(createVMStep, a).
         and_then (AddDependency e (Some createVMStep) (Some detachDiskStep)) (\<lambda>_.
         and_then (modify (update_machine a (m_Name_update (\<lambda>_. vmname)))) (\<lambda>_.
         and_then (after e (Some createVMStep) (addWaitStep e vmname vmname)) (\<lambda>_.
         give \<lparr>vm_name = vmname, vm_ref = GA a\<rparr>))))))))))"

definition Reboot :: "engine \<Rightarrow> test_vm \<Rightarrow> unit operation" where
  "Reboot e vm =
     (let n = vm_name vm
      in and_then (next_suffix vm) (\<lambda>sfx.
         and_then (last_step ''failed resolve last step'' n) (\<lambda>lastStep.
         and_then (after e lastStep (addStopStep e sfx n)) (\<lambda>stopInstancesStep.
         and_then (after e (Some stopInstancesStep) (addWaitStoppedStep e (''stopped-'' @ sfx) n)) (\<lambda>waitStopStep.
         and_then (after e (Some waitStopStep) (addStartStep e sfx n)) (\<lambda>startInstancesStep.
         and_then (after e (Some startInstancesStep) (addWaitStep e (''started-'' @ sfx) n)) (\<lambda>_.
         give ())))))))"

definition suspended_signal :: "string \<Rightarrow> signal" where
  "suspended_signal n = \<lparr>sg_Name = n, sg_Stopped = False, sg_Status = [''SUSPENDED''],
     sg_Serial = None, sg_Guest = None, sg_Interval = []\<rparr>"

definition Resume :: "engine \<Rightarrow> test_vm \<Rightarrow> unit operation" where
  "Resume e vm =
     (let n = vm_name vm
      in and_then (next_suffix vm) (\<lambda>sfx.
         and_then (last_step ''failed resolve last step'' n) (\<lambda>lastStep.
         and_then (single_step e (''wait-suspended-'' @ sfx)
             (st_Signals_update (\<lambda>_. Some [suspended_signal n]))) (\<lambda>waitSuspended.
         and_then (\<lambda>t. AddDependency e (Some waitSuspended)
             (if step_of t createVMsStepName = None then None else Some createVMsStepName) t) (\<lambda>_.
         and_then (single_step e (''resume-'' @ sfx) (st_Resume_update (\<lambda>_. Some n))) (\<lambda>resume.
         and_then (AddDependency e (Some resume) (Some waitSuspended)) (\<lambda>_.
         AddDependency e lastStep (Some resume))))))))"

definition ResizeDiskAndReboot :: "engine \<Rightarrow> test_vm \<Rightarrow> int \<Rightarrow> unit operation" where
  "ResizeDiskAndReboot e vm diskSize =
     (let n = vm_name vm
      in and_then (next_suffix vm) (\<lambda>sfx.
         and_then (last_step ''failed resolve last step'' n) (\<lambda>lastStep.
         and_then (after e lastStep (addDiskResizeStep e sfx n diskSize)) (\<lambda>_.
         Reboot e vm))))"

end
