(* ===== verification/Fixture_Options.thy ===== *)
theory Fixture_Options
  imports Fixtures
begin

text \<open>
  The rest of \<open>fixtures.go\<close>: the options of test machines, and networks with their subnetworks and
  firewall rules.  The options reach the machine through the pointer of the test machine, so that the
  step that creates the machine sees them.
\<close>

subsection \<open>Metadata and scripts\<close>

definition AddMetadata :: "test_vm \<Rightarrow> string \<Rightarrow> string \<Rightarrow> test_workflow \<Rightarrow> test_workflow" where
  "AddMetadata vm key val = update_vm vm (\<lambda>i. i\<lparr>m_Metadata := (m_Metadata i)(key \<mapsto> val)\<rparr>)"

definition getMetadata :: "test_vm \<Rightarrow> string \<Rightarrow> test_workflow \<Rightarrow> string" where
  "getMetadata vm key t = (case m_Metadata (machine_of vm t) key of None \<Rightarrow> [] | Some v \<Rightarrow> v)"

definition newline :: string where "newline = [CHR 0x0A]"

definition AddUser :: "test_vm \<Rightarrow> string \<Rightarrow> string \<Rightarrow> test_workflow \<Rightarrow> test_workflow" where
  "AddUser vm user publicKey t =
     (let keyline = user @ '':'' @ publicKey;
          keyline = (case m_Metadata (machine_of vm t) ''ssh-keys'' of
              None \<Rightarrow> keyline | Some keys \<Rightarrow> keys @ newline @ keyline)
      in AddMetadata vm ''ssh-keys'' keyline t)"

text \<open>A script goes after one that is already there.\<close>

definition set_script :: "string \<Rightarrow> test_vm \<Rightarrow> string \<Rightarrow> test_workflow \<Rightarrow> test_workflow" where
  "set_script key vm script t =
     (let existing = getMetadata vm key t
      in AddMetadata vm key (if existing \<noteq> [] then existing @ newline @ script else script) t)"

definition SetShutdownScript :: "test_vm \<Rightarrow> string \<Rightarrow> test_workflow \<Rightarrow> test_workflow" where
  "SetShutdownScript = set_script ''shutdown-script''"

definition SetWindowsShutdownScript :: "test_vm \<Rightarrow> string \<Rightarrow> test_workflow \<Rightarrow> test_workflow" where
  "SetWindowsShutdownScript = set_script ''windows-shutdown-script-ps1''"

definition SetStartupScript :: "test_vm \<Rightarrow> string \<Rightarrow> test_workflow \<Rightarrow> test_workflow" where
  "SetStartupScript = set_script ''startup-script''"

definition SetWindowsStartupScript :: "test_vm \<Rightarrow> string \<Rightarrow> test_workflow \<Rightarrow> test_workflow" where
  "SetWindowsStartupScript = set_script ''windows-startup-script-ps1''"

text \<open>
  A script by file: \<open>file\<close> is the name with a fresh identifier in it and \<open>write\<close> the error of writing
  it, if there is one.
\<close>

definition script_file ::
  "string \<Rightarrow> string \<Rightarrow> string \<Rightarrow> string option \<Rightarrow> test_vm \<Rightarrow> unit operation" where
  "script_file src key file write vm t =
     (case write of
        Some err \<Rightarrow> raise err t
      | None \<Rightarrow> modify (\<lambda>t. AddMetadata vm key (''${SOURCESPATH}/'' @ src)
          (t\<lparr>tw_wf := (tw_wf t)\<lparr>wf_Sources := (wf_Sources (tw_wf t))(src \<mapsto> file)\<rparr>\<rparr>)) t)"

definition SetShutdownScriptURL :: "string \<Rightarrow> string option \<Rightarrow> test_vm \<Rightarrow> unit operation" where
  "SetShutdownScriptURL = script_file ''shutdown-script'' ''shutdown-script-url''"

definition SetWindowsShutdownScriptURL :: "string \<Rightarrow> string option \<Rightarrow> test_vm \<Rightarrow> unit operation" where
  "SetWindowsShutdownScriptURL = script_file ''shutdown-script.ps1'' ''windows-shutdown-script-url''"

definition SetWindowsSysprepScriptURL :: "string \<Rightarrow> string option \<Rightarrow> test_vm \<Rightarrow> unit operation" where
  "SetWindowsSysprepScriptURL = script_file ''sysprep-script.ps1'' ''sysprep-specialize-script-url''"

definition RunTests :: "test_vm \<Rightarrow> string \<Rightarrow> test_workflow \<Rightarrow> test_workflow" where
  "RunTests vm runtest = AddMetadata vm ''_test_run'' runtest"

subsection \<open>The machine\<close>

definition AddScope :: "test_vm \<Rightarrow> string \<Rightarrow> test_workflow \<Rightarrow> test_workflow" where
  "AddScope vm scope = update_vm vm (\<lambda>i. i\<lparr>m_Scopes := m_Scopes i @ [scope]\<rparr>)"

definition AddDisk :: "test_vm \<Rightarrow> string \<Rightarrow> string option \<Rightarrow> unit operation" where
  "AddDisk vm diskType initType t =
     (if diskType \<noteq> ''SCRATCH'' \<and> diskType \<noteq> ''PERSISTENT'' \<and> diskType \<noteq> []
      then raise (''disk type '' @ diskType @ '' not one of SCRATCH or PERSISTENT'') t
      else (case vm_ref vm of
          Beta _ \<Rightarrow> panic t
        | GA _ \<Rightarrow> modify (update_vm vm (\<lambda>i. i\<lparr>m_Disks := m_Disks i @
            [\<lparr>at_Source = [], at_AutoDelete = True, at_Boot = False,
              at_DeviceName = ''custom-disk-'' @ utoa (length (m_Disks i)), at_InitType = initType,
              at_Mode = ''READ_WRITE'', at_Type = diskType\<rparr>]\<rparr>)) t))"

definition SetNetworkPerformanceTier :: "test_vm \<Rightarrow> string \<Rightarrow> unit operation" where
  "SetNetworkPerformanceTier vm tier t =
     (if tier \<noteq> ''DEFAULT'' \<and> tier \<noteq> ''TIER_1''
      then raise (''Error: '' @ tier @ '' not one of DEFAULT or TIER_1'') t
      else modify (update_vm vm (\<lambda>i. i\<lparr>m_PerformanceTier := Some tier\<rparr>)) t)"

definition ForceMachineType :: "test_vm \<Rightarrow> string \<Rightarrow> test_workflow \<Rightarrow> test_workflow" where
  "ForceMachineType vm machinetype = update_vm vm (\<lambda>i. i\<lparr>m_MachineType := machinetype\<rparr>)"

definition ForceZone :: "test_vm \<Rightarrow> string \<Rightarrow> test_workflow \<Rightarrow> test_workflow" where
  "ForceZone vm z = update_vm vm (\<lambda>i. i\<lparr>m_Zone := z\<rparr>)"

definition EnableSecureBoot :: "test_vm \<Rightarrow> test_workflow \<Rightarrow> test_workflow" where
  "EnableSecureBoot vm = update_vm vm (\<lambda>i. i\<lparr>m_SecureBoot := Some True\<rparr>)"

definition EnableConfidentialInstance :: "test_vm \<Rightarrow> test_workflow \<Rightarrow> test_workflow" where
  "EnableConfidentialInstance vm = update_vm vm (\<lambda>i. i\<lparr>m_Confidential := Some True,
     m_Scheduling := Some ((case m_Scheduling i of None \<Rightarrow> no_scheduling | Some s \<Rightarrow> s)
       \<lparr>sch_OnHostMaintenance := ''TERMINATE''\<rparr>)\<rparr>)"

definition SetMinCPUPlatform :: "test_vm \<Rightarrow> string \<Rightarrow> test_workflow \<Rightarrow> test_workflow" where
  "SetMinCPUPlatform vm minCPUPlatform = update_vm vm (\<lambda>i. i\<lparr>m_MinCpuPlatform := minCPUPlatform\<rparr>)"

definition UseGVNIC :: "test_vm \<Rightarrow> unit operation" where
  "UseGVNIC vm t =
     (case m_Interfaces (machine_of vm t) of
        None \<Rightarrow> modify (update_vm vm (\<lambda>i. i\<lparr>m_Interfaces := Some [new_interface\<lparr>if_NicType := ''GVNIC''\<rparr>]\<rparr>)) t
      | Some [] \<Rightarrow> panic t
      | Some (n # ns) \<Rightarrow> modify (update_vm vm (\<lambda>i. i\<lparr>m_Interfaces := Some (n\<lparr>if_NicType := ''GVNIC''\<rparr> # ns)\<rparr>)) t)"

subsection \<open>Networks\<close>

definition CreateNetworkFromDaisyNetwork :: "engine \<Rightarrow> network \<Rightarrow> network_handle operation" where
  "CreateNetworkFromDaisyNetwork e net =
     and_then (appendCreateNetworkStep e net) (\<lambda>(createNetworkStep, a).
     and_then (\<lambda>t. if step_of t createVMsStepName = None then give () t
                  else AddDependency e (Some createVMsStepName) (Some createNetworkStep) t) (\<lambda>_.
     give \<lparr>nh_name = nw_Name net, nh_ref = a\<rparr>))"

definition CreateNetwork :: "engine \<Rightarrow> string \<Rightarrow> bool \<Rightarrow> network_handle operation" where
  "CreateNetwork e networkName autoCreateSubnetworks =
     (let net = \<lparr>nw_Name = networkName, nw_Description = [], nw_Mtu = DefaultMTU,
                 nw_Profile = [], nw_AutoCreate = Some autoCreateSubnetworks,
                 nw_EnableUlaInternalIpv6 = False\<rparr>
      in and_then (appendCreateNetworkStep e net) (\<lambda>(createNetworkStep, a).
         and_then (\<lambda>t. if step_of t createVMsStepName = None then give () t
                      else AddDependency e (Some createVMsStepName) (Some createNetworkStep) t) (\<lambda>_.
         give \<lparr>nh_name = networkName, nh_ref = a\<rparr>)))"

definition update_network :: "network_handle \<Rightarrow> (network \<Rightarrow> network) \<Rightarrow> test_workflow \<Rightarrow> test_workflow" where
  "update_network n f t = t\<lparr>tw_networks := (tw_networks t)[nh_ref n := f (tw_networks t ! nh_ref n)]\<rparr>"

definition SetMTU :: "network_handle \<Rightarrow> int \<Rightarrow> test_workflow \<Rightarrow> test_workflow" where
  "SetMTU n mtu t =
     (if DefaultMTU \<le> mtu \<and> mtu \<le> JumboFramesMTU then update_network n (\<lambda>w. w\<lparr>nw_Mtu := mtu\<rparr>) t else t)"

definition CreateSubnetworkFromDaisySubnetwork ::
  "engine \<Rightarrow> network_handle \<Rightarrow> subnetwork \<Rightarrow> subnetwork_handle operation" where
  "CreateSubnetworkFromDaisySubnetwork e n s =
     and_then (appendCreateSubnetworksStep e (s\<lparr>sn_Network := nh_name n\<rparr>)) (\<lambda>(createSubnetworksStep, a).
     and_then (\<lambda>t. if step_of t createNetworkStepName = None then raise ''create-network step missing'' t
                  else AddDependency e (Some createSubnetworksStep) (Some createNetworkStepName) t) (\<lambda>_.
     give \<lparr>sh_name = sn_Name s, sh_ref = a, sh_network = n\<rparr>))"

definition CreateSubnetwork ::
  "engine \<Rightarrow> network_handle \<Rightarrow> string \<Rightarrow> string \<Rightarrow> subnetwork_handle operation" where
  "CreateSubnetwork e n name ipRange =
     CreateSubnetworkFromDaisySubnetwork e n
       \<lparr>sn_Name = name, sn_Description = [], sn_Cidr = ipRange, sn_Network = nh_name n,
        sn_StackType = ''IPV4_ONLY'', sn_Ipv6AccessType = [], sn_Region = [], sn_Purpose = [],
        sn_Role = [], sn_Secondary = [], sn_NoCleanup = False\<rparr>"

definition update_subnetwork ::
  "subnetwork_handle \<Rightarrow> (subnetwork \<Rightarrow> subnetwork) \<Rightarrow> test_workflow \<Rightarrow> test_workflow" where
  "update_subnetwork s f t =
     t\<lparr>tw_subnetworks := (tw_subnetworks t)[sh_ref s := f (tw_subnetworks t ! sh_ref s)]\<rparr>"

definition SetRegion :: "subnetwork_handle \<Rightarrow> string \<Rightarrow> test_workflow \<Rightarrow> test_workflow" where
  "SetRegion s region = update_subnetwork s (\<lambda>w. w\<lparr>sn_Region := region\<rparr>)"

definition SetPurpose :: "subnetwork_handle \<Rightarrow> string \<Rightarrow> test_workflow \<Rightarrow> test_workflow" where
  "SetPurpose s purpose = update_subnetwork s (\<lambda>w. w\<lparr>sn_Purpose := purpose\<rparr>)"

definition SetRole :: "subnetwork_handle \<Rightarrow> string \<Rightarrow> test_workflow \<Rightarrow> test_workflow" where
  "SetRole s role = update_subnetwork s (\<lambda>w. w\<lparr>sn_Role := role\<rparr>)"

definition AddSecondaryRange :: "subnetwork_handle \<Rightarrow> string \<Rightarrow> string \<Rightarrow> test_workflow \<Rightarrow> test_workflow" where
  "AddSecondaryRange s rangeName ipRange =
     update_subnetwork s (\<lambda>w. w\<lparr>sn_Secondary := sn_Secondary w @ [(ipRange, rangeName)]\<rparr>)"

definition CreateFirewallRule ::
  "engine \<Rightarrow> network_handle \<Rightarrow> string \<Rightarrow> string \<Rightarrow> string list \<Rightarrow> string list option \<Rightarrow> unit operation" where
  "CreateFirewallRule e n firewallName protocol ports ranges =
     and_then (appendCreateFirewallStep e firewallName (nh_name n) protocol ports ranges) (\<lambda>createFirewallStep.
     and_then (depend_if_there e createFirewallStep createNetworkStepName) (\<lambda>_ t.
     if step_of t createVMsStepName = None then give () t
     else AddDependency e (Some createVMsStepName) (Some createFirewallStep) t))"

text \<open>
  The key pair is made by \<open>ssh-keygen\<close>: \<open>made\<close> is its error or the public key, \<open>file\<close> the name of the
  key file with a fresh identifier in it.
\<close>

definition AddSSHKey :: "string \<Rightarrow> string + string \<Rightarrow> string \<Rightarrow> string operation" where
  "AddSSHKey file made user t =
     (case made of
        Inl err \<Rightarrow> raise err t
      | Inr publicKey \<Rightarrow> and_then (modify (\<lambda>t. t\<lparr>tw_wf := (tw_wf t)\<lparr>wf_Sources :=
            (wf_Sources (tw_wf t))(user @ ''-ssh-key'' \<mapsto> file)\<rparr>\<rparr>)) (\<lambda>_. give publicKey) t)"

subsection \<open>Interfaces\<close>

datatype stack_error = NoStackType | BadStackType string | BadAccessType string | NeedsSubnet string

text \<open>The checks of \<open>AddCustomNetworkWithStackType\<close> on its types: an error or the access type to use.\<close>

definition ipv6_access :: "string \<Rightarrow> string \<Rightarrow> stack_error + string" where
  "ipv6_access stackType ipv6AccessType =
     (if stackType = [] then Inl NoStackType
      else if stackType \<noteq> ''IPV4_ONLY'' \<and> stackType \<noteq> ''IPV4_IPV6'' \<and> stackType \<noteq> ''IPV6_ONLY''
      then Inl (BadStackType stackType)
      else let access = (if Contains stackType ''IPV6'' \<and> ipv6AccessType = [] then ''EXTERNAL''
                         else if \<not> Contains stackType ''IPV6'' then [] else ipv6AccessType)
           in if access \<noteq> [] \<and> access \<noteq> ''INTERNAL'' \<and> access \<noteq> ''EXTERNAL'' then Inl (BadAccessType access)
              else Inr access)"

fun stack_message :: "stack_error \<Rightarrow> string" where
  "stack_message NoStackType = ''stack type is required''"
| "stack_message (BadStackType s) = ''stack type '' @ s @ '' is not supported''"
| "stack_message (BadAccessType s) = ''ipv6 access type \"'' @ s @ ''\" is not supported''"
| "stack_message (NeedsSubnet n) = ''network '' @ n @ '' is not auto mode, subnet is required''"

definition add_interface :: "interface \<Rightarrow> machine \<Rightarrow> machine" where
  "add_interface n i =
     i\<lparr>m_Interfaces := Some (case m_Interfaces i of None \<Rightarrow> [n] | Some ns \<Rightarrow> ns @ [n])\<rparr>"

definition AddCustomNetworkWithStackType ::
  "test_vm \<Rightarrow> network_handle \<Rightarrow> subnetwork_handle option \<Rightarrow> string \<Rightarrow> string \<Rightarrow> unit operation" where
  "AddCustomNetworkWithStackType vm n sub stackType ipv6AccessType t =
     (case ipv6_access stackType ipv6AccessType of
        Inl err \<Rightarrow> raise (stack_message err) t
      | Inr access \<Rightarrow>
          let attach_to = (\<lambda>subnetworkName. modify (update_vm vm (add_interface (new_interface
                \<lparr>if_Network := nh_name n, if_Subnetwork := subnetworkName, if_StackType := stackType,
                 if_Ipv6AccessType := access\<rparr>))))
          in (case sub of
                Some s \<Rightarrow> attach_to (sh_name s) t
              | None \<Rightarrow> (case nw_AutoCreate (tw_networks t ! nh_ref n) of
                    None \<Rightarrow> panic t
                  | Some False \<Rightarrow> raise (stack_message (NeedsSubnet (nh_name n))) t
                  | Some True \<Rightarrow> attach_to [] t)))"

definition AddCustomNetwork ::
  "test_vm \<Rightarrow> network_handle \<Rightarrow> subnetwork_handle option \<Rightarrow> unit operation" where
  "AddCustomNetwork vm n sub = AddCustomNetworkWithStackType vm n sub ''IPV4_ONLY'' []"

definition AddAliasIPRanges :: "test_vm \<Rightarrow> string \<Rightarrow> string \<Rightarrow> unit operation" where
  "AddAliasIPRanges vm aliasIPRange rangeName t =
     (case m_Interfaces (machine_of vm t) of
        None \<Rightarrow> raise ''must call AddCustomNetwork prior to AddAliasIPRanges'' t
      | Some [] \<Rightarrow> panic t
      | Some (n # ns) \<Rightarrow> modify (update_vm vm (\<lambda>i. i\<lparr>m_Interfaces :=
          Some (n\<lparr>if_AliasIpRanges := if_AliasIpRanges n @ [(aliasIPRange, rangeName)]\<rparr> # ns)\<rparr>)) t)"

fun set_ip :: "string \<Rightarrow> string \<Rightarrow> interface list \<Rightarrow> interface list option" where
  "set_ip name ip [] = None"
| "set_ip name ip (n # ns) =
     (if if_Network n = name then Some (n\<lparr>if_NetworkIP := ip\<rparr> # ns)
      else map_option (\<lambda>ns'. n # ns') (set_ip name ip ns))"

definition SetPrivateIP :: "test_vm \<Rightarrow> network_handle \<Rightarrow> string \<Rightarrow> unit operation" where
  "SetPrivateIP vm n networkIP t =
     (case m_Interfaces (machine_of vm t) of
        None \<Rightarrow> raise ''must call AddCustomNetwork prior to AddPrivateIP'' t
      | Some ns \<Rightarrow> (case set_ip (nh_name n) networkIP ns of
            None \<Rightarrow> raise (''not found network interface '' @ nh_name n) t
          | Some ns' \<Rightarrow> modify (update_vm vm (\<lambda>i. i\<lparr>m_Interfaces := Some ns'\<rparr>)) t))"

end
