(* ===== verification/Fixtures_Graph.thy ===== *)
theory Fixtures_Graph
  imports Fixture_Options
begin

text \<open>
  The graph of steps that the fixtures build.  Its invariant: dependencies join steps of the workflow,
  the steps that create resources are layered, nothing depends on a wait for quota yet, and there is
  no cycle; each shared step has the field that the builders reach into.  Then how a step and a
  dependency change the graph, and where \<open>getLastStepForVM\<close> ends.
\<close>

subsection \<open>The invariant\<close>

definition depends :: "workflow \<Rightarrow> (string \<times> string) set" where
  "depends w = {(a, b). b \<in> set (deps_of w a)}"

text \<open>The order in which resources are created; all other steps come after the machines.\<close>

definition level :: "string \<Rightarrow> nat" where
  "level s =
     (if s = createNetworkStepName then 0
      else if s = waitForDisksQuotaStepName then 1
      else if s = createDisksStepName \<or> s = createSubnetworkStepName \<or> s = createFirewallStepName then 2
      else if s = waitForVMQuotaStepName then 3
      else if s = createVMsStepName then 4
      else 5)"

definition quota_step :: "string \<Rightarrow> bool" where
  "quota_step s \<longleftrightarrow> s = waitForVMQuotaStepName \<or> s = waitForDisksQuotaStepName"

definition sound_graph :: "workflow \<Rightarrow> bool" where
  "sound_graph w \<longleftrightarrow> distinct (step_names w) \<and> distinct (map fst (wf_Dependencies w))
     \<and> (\<forall>(a, b) \<in> depends w. a \<in> set (step_names w) \<and> b \<in> set (step_names w)
          \<and> (level a < 5 \<longrightarrow> level b < level a))
     \<and> acyclic (depends w)"

definition fits :: "string \<Rightarrow> wf_step \<Rightarrow> bool" where
  "fits n s \<longleftrightarrow> (n = createVMsStepName \<longrightarrow> st_CreateInstances s \<noteq> None)
     \<and> (n = createDisksStepName \<longrightarrow> st_CreateDisks s \<noteq> None)
     \<and> (n = createNetworkStepName \<longrightarrow> st_CreateNetworks s \<noteq> None)
     \<and> (n = createSubnetworkStepName \<longrightarrow> st_CreateSubnetworks s \<noteq> None)
     \<and> (n = createFirewallStepName \<longrightarrow> st_CreateFirewalls s \<noteq> None)
     \<and> (quota_step n \<longrightarrow> st_Quotas s \<noteq> None)"

definition built :: "test_workflow \<Rightarrow> bool" where
  "built t \<longleftrightarrow> sound_graph (tw_wf t) \<and> (\<forall>(a, b) \<in> depends (tw_wf t). \<not> quota_step b)
     \<and> (\<forall>(n, s) \<in> set (wf_Steps (tw_wf t)). fits n s
          \<and> (\<forall>a \<in> set (step_machines s). a < length (tw_machines t)))
     \<and> tw_MachineType t \<noteq> None"

abbreviation has_step :: "test_workflow \<Rightarrow> string \<Rightarrow> bool" where
  "has_step t n \<equiv> n \<in> set (step_names (tw_wf t))"

text \<open>No step depends on it or it on another.\<close>

definition unlinked :: "workflow \<Rightarrow> string \<Rightarrow> bool" where
  "unlinked w n \<longleftrightarrow> (\<forall>x. (x, n) \<notin> depends w \<and> (n, x) \<notin> depends w)"

lemma level_cases: "level s = 0 \<or> level s = 1 \<or> level s = 2 \<or> level s = 3 \<or> level s = 4 \<or> level s = 5"
  by (simp add: level_def)

lemma level_le: "level s \<le> 5"
  using level_cases [of s] by auto

lemma quota_level: "quota_step s \<Longrightarrow> level s < 5"
  by (auto simp: quota_step_def level_def step_name_defs)

lemma levels:
  "level createNetworkStepName = 0" "level createDisksStepName = 2" "level createSubnetworkStepName = 2"
  "level createFirewallStepName = 2" "level createVMsStepName = 4"
  by (simp_all add: level_def step_name_defs)

lemma not_quota:
  "\<not> quota_step createNetworkStepName" "\<not> quota_step createDisksStepName"
  "\<not> quota_step createSubnetworkStepName" "\<not> quota_step createFirewallStepName"
  "\<not> quota_step createVMsStepName"
  by (simp_all add: quota_step_def step_name_defs)

lemma step_of_has: "step_of t n \<noteq> None \<longleftrightarrow> has_step t n"
  by (simp add: step_of_def step_names_def map_of_eq_None_iff)

lemma step_of_mem: "step_of t n = Some s \<Longrightarrow> (n, s) \<in> set (wf_Steps (tw_wf t))"
  by (simp add: step_of_def map_of_SomeD)

subsection \<open>Adding a step\<close>

lemma deps_of_with_step [simp]: "deps_of (with_step n w) = deps_of w"
  by (rule ext) (simp add: with_step_def deps_of_def)

lemma depends_with_step [simp]: "depends (with_step n w) = depends w"
  by (simp add: depends_def)

lemma step_names_with_step [simp]: "step_names (with_step n w) = step_names w @ [n]"
  by (simp add: with_step_def step_names_def)

lemma with_step_Dependencies [simp]: "wf_Dependencies (with_step n w) = wf_Dependencies w"
  by (simp add: with_step_def)

lemma map_entry_fst [simp]: "map fst (AList.map_entry n f xs) = map fst xs"
  by (induction xs) auto

lemma map_entry_append:
  "n \<notin> fst ` set xs \<Longrightarrow> AList.map_entry n f (xs @ [(n, s)]) = xs @ [(n, f s)]"
  by (induction xs) auto

lemma map_entry_set:
  "distinct (map fst xs) \<Longrightarrow> set (AList.map_entry n f xs)
     = {(m, s) \<in> set xs. m \<noteq> n} \<union> {(n, f s) | s. (n, s) \<in> set xs}"
proof (induction xs)
  case (Cons x xs)
  then show ?case by (cases x) (auto simp: image_iff)
qed simp

lemma update_step_names [simp]: "step_names (tw_wf (update_step n f t)) = step_names (tw_wf t)"
  by (simp add: update_step_def step_names_def)

lemma update_step_deps [simp]: "depends (tw_wf (update_step n f t)) = depends (tw_wf t)"
  by (simp add: update_step_def depends_def deps_of_def)

lemma sound_update_step [simp]: "sound_graph (tw_wf (update_step n f t)) = sound_graph (tw_wf t)"
  by (simp add: sound_graph_def) (simp add: update_step_def)

lemma update_step_sel [simp]:
  "tw_machines (update_step n f t) = tw_machines t" "tw_MachineType (update_step n f t) = tw_MachineType t"
  "tw_counter (update_step n f t) = tw_counter t"
  by (simp_all add: update_step_def)

lemma built_update_step:
  assumes "built t" and "\<And>s. step_of t n = Some s \<Longrightarrow> fits n (f s) \<and> (\<forall>a \<in> set (step_machines (f s)). a < length (tw_machines t))"
  shows "built (update_step n f t)"
proof -
  have d: "distinct (map fst (wf_Steps (tw_wf t)))"
    using assms(1) by (simp add: built_def sound_graph_def step_names_def)
  have "fits m s' \<and> (\<forall>a \<in> set (step_machines s'). a < length (tw_machines t))"
    if "(m, s') \<in> set (wf_Steps (tw_wf (update_step n f t)))" for m s'
  proof -
    have "(m, s') \<in> {(m, s) \<in> set (wf_Steps (tw_wf t)). m \<noteq> n} \<union> {(n, f s) | s. (n, s) \<in> set (wf_Steps (tw_wf t))}"
      using that by (simp add: update_step_def map_entry_set [OF d])
    moreover have "step_of t n = Some s" if "(n, s) \<in> set (wf_Steps (tw_wf t))" for s
      using that d by (simp add: step_of_def)
    ultimately show ?thesis using assms by (auto simp: built_def)
  qed
  then show ?thesis using assms(1) by (auto simp: built_def)
qed

lemma sound_with_step: "sound_graph w \<Longrightarrow> n \<notin> set (step_names w) \<Longrightarrow> sound_graph (with_step n w)"
  unfolding sound_graph_def by auto

text \<open>The state after a new step with its content.\<close>

definition stepped :: "string \<Rightarrow> (wf_step \<Rightarrow> wf_step) \<Rightarrow> test_workflow \<Rightarrow> test_workflow" where
  "stepped n f t = update_step n f (t\<lparr>tw_wf := with_step n (tw_wf t)\<rparr>)"

lemma stepped_sel [simp]:
  "step_names (tw_wf (stepped n f t)) = step_names (tw_wf t) @ [n]"
  "depends (tw_wf (stepped n f t)) = depends (tw_wf t)"
  "tw_machines (stepped n f t) = tw_machines t"
  by (simp_all add: stepped_def)

lemma stepped_steps:
  "\<not> has_step t n \<Longrightarrow> wf_Steps (tw_wf (stepped n f t)) = wf_Steps (tw_wf t) @ [(n, f new_step)]"
  by (simp add: stepped_def update_step_def with_step_def step_names_def map_entry_append)

lemma built_stepped:
  assumes "built t" and "\<not> has_step t n" and "fits n (f new_step)"
    and "\<forall>a \<in> set (step_machines (f new_step)). a < length (tw_machines t)"
  shows "built (stepped n f t)"
proof -
  have "sound_graph (tw_wf (stepped n f t))"
    using assms(1,2) sound_with_step by (simp add: stepped_def built_def)
  moreover have "tw_MachineType (stepped n f t) = tw_MachineType t" by (simp add: stepped_def)
  ultimately show ?thesis using assms by (auto simp: built_def stepped_steps)
qed

lemma unlinked_new: "sound_graph w \<Longrightarrow> n \<notin> set (step_names w) \<Longrightarrow> unlinked w n"
  by (auto simp: sound_graph_def unlinked_def)

lemma NewStep_cases:
  assumes "engine_ok e"
  shows "(\<exists>err. NewStep e n t = (Fail err, t) \<and> has_step t n)
    \<or> NewStep e n t = (Ok n, t\<lparr>tw_wf := with_step n (tw_wf t)\<rparr>) \<and> \<not> has_step t n"
proof (cases "has_step t n")
  case True
  then obtain err where "en_NewStep e n (tw_wf t) = Inl err" using assms unfolding engine_ok_def by blast
  with True show ?thesis by (simp add: NewStep_def)
next
  case False
  then have "en_NewStep e n (tw_wf t) = Inr (with_step n (tw_wf t))" using assms by (simp add: engine_ok_def)
  with False show ?thesis by (simp add: NewStep_def)
qed

lemma single_step_cases:
  assumes "engine_ok e"
  shows "(\<exists>err. single_step e n f t = (Fail err, t) \<and> has_step t n)
    \<or> single_step e n f t = (Ok n, stepped n f t) \<and> \<not> has_step t n"
  using NewStep_cases [OF assms, of n t]
  by (auto simp: single_step_def and_then_def modify_def give_def stepped_def)

subsection \<open>Adding a dependency\<close>

lemma deps_of_with_dep: "set (deps_of (with_dep a b w) x) = set (deps_of w x) \<union> (if x = a then {b} else {})"
proof (cases "b \<in> set (deps_of w a)")
  case False
  then have "deps_of (with_dep a b w) x = (if x = a then deps_of w a @ [b] else deps_of w x)"
    unfolding with_dep_def using False by (simp add: deps_of_def [of "w\<lparr>wf_Dependencies := _\<rparr>"] lookup0_def update_conv')
      (simp add: deps_of_def lookup0_def)
  then show ?thesis by auto
qed (auto simp: with_dep_def)

lemma depends_with_dep [simp]: "depends (with_dep a b w) = insert (a, b) (depends w)"
  by (auto simp: depends_def deps_of_with_dep split: if_splits)

lemma step_names_with_dep [simp]: "step_names (with_dep a b w) = step_names w"
  by (simp add: with_dep_def step_names_def)

lemma with_dep_sel [simp]: "wf_Steps (with_dep a b w) = wf_Steps w"
  by (simp add: with_dep_def)

lemma distinct_with_dep:
  "distinct (map fst (wf_Dependencies w)) \<Longrightarrow> distinct (map fst (wf_Dependencies (with_dep a b w)))"
  by (simp add: with_dep_def distinct_update)

text \<open>Below the machines a path leads to lower levels only.\<close>

lemma path_level:
  assumes "sound_graph w" and "(b, x) \<in> (depends w)\<^sup>*" and "level b < 5"
  shows "level x \<le> level b"
  using assms(2)
proof (induction rule: rtrancl_induct)
  case (step y z)
  then have "level y < 5" using assms(3) by simp
  then have "level z < level y" using step.hyps(2) assms(1) by (auto simp: sound_graph_def)
  then show ?case using step.IH by simp
qed simp

lemma sound_with_dep:
  assumes "sound_graph w" and "a \<in> set (step_names w)" and "b \<in> set (step_names w)"
    and "level a < 5 \<Longrightarrow> level b < level a" and "(b, a) \<notin> (depends w)\<^sup>*"
  shows "sound_graph (with_dep a b w)"
  using assms distinct_with_dep [of w a b]
  by (auto simp: sound_graph_def acyclic_insert)

lemma lower_no_path:
  assumes "sound_graph w" and "level b < level a"
  shows "(b, a) \<notin> (depends w)\<^sup>*"
  using path_level [OF assms(1), of b a] assms(2) level_le [of a] by auto

lemma unlinked_no_path:
  assumes "unlinked w n" and "b \<noteq> n"
  shows "(b, n) \<notin> (depends w)\<^sup>*"
  using assms unfolding unlinked_def by (metis rtranclE)

lemma built_with_dep:
  assumes "built t" and "has_step t a" and "has_step t b" and "\<not> quota_step b"
    and "level b < level a \<or> level a = 5 \<and> (b, a) \<notin> (depends (tw_wf t))\<^sup>*"
  shows "built (t\<lparr>tw_wf := with_dep a b (tw_wf t)\<rparr>)"
proof -
  have s: "sound_graph (tw_wf t)" using assms(1) by (simp add: built_def)
  have "(b, a) \<notin> (depends (tw_wf t))\<^sup>*" "level a < 5 \<Longrightarrow> level b < level a"
    using assms(5) lower_no_path [OF s] by auto
  then have "sound_graph (with_dep a b (tw_wf t))" using sound_with_dep [OF s assms(2,3)] by simp
  then show ?thesis using assms(1,4) by (auto simp: built_def)
qed

lemma AddDependency_cases:
  assumes "engine_ok e"
  shows "(\<exists>err. AddDependency e p q t = (Fail err, t))
    \<or> (\<exists>a b. p = Some a \<and> q = Some b \<and> has_step t a \<and> has_step t b
         \<and> AddDependency e p q t = (Ok (), t\<lparr>tw_wf := with_dep a b (tw_wf t)\<rparr>))"
proof -
  consider a b where "p = Some a" "q = Some b" "has_step t a" "has_step t b"
      "en_AddDependency e p q (tw_wf t) = Inr (with_dep a b (tw_wf t))"
    | err where "en_AddDependency e p q (tw_wf t) = Inl err"
    using assms unfolding engine_ok_def by meson
  then show ?thesis
    by cases (auto simp: AddDependency_def)
qed

subsection \<open>The last step\<close>

lemma rdeps_mem: "d \<in> set (rdeps deps s) \<longleftrightarrow> (\<exists>ds. (d, ds) \<in> set deps \<and> s \<in> set ds)"
  by (auto simp: rdeps_def)

lemma rdeps_depends:
  assumes "sound_graph w"
  shows "d \<in> set (rdeps (wf_Dependencies w) s) \<longleftrightarrow> (d, s) \<in> depends w"
proof -
  have "(d, ds) \<in> set (wf_Dependencies w) \<longleftrightarrow> map_of (wf_Dependencies w) d = Some ds" for ds
    using assms by (auto simp: sound_graph_def)
  then show ?thesis
    by (cases "map_of (wf_Dependencies w) d") (simp_all add: rdeps_mem depends_def deps_of_def lookup0_def)
qed

lemma finite_depends: "finite (depends w)"
proof -
  have "depends w \<subseteq> (\<Union>(a, bs) \<in> set (wf_Dependencies w). {a} \<times> set bs)"
  proof (rule subrelI)
    fix a b assume "(a, b) \<in> depends w"
    then obtain bs where "map_of (wf_Dependencies w) a = Some bs" "b \<in> set bs"
      by (cases "map_of (wf_Dependencies w) a") (auto simp: depends_def deps_of_def lookup0_def)
    then show "(a, b) \<in> (\<Union>(a, bs) \<in> set (wf_Dependencies w). {a} \<times> set bs)"
      using map_of_SomeD by fastforce
  qed
  then show ?thesis by (rule finite_subset) auto
qed

text \<open>Without a cycle the loop ends, at a step that depends on the first and on which none depends.\<close>

lemma follow_ends:
  assumes "sound_graph w"
  shows "\<exists>r. follow (wf_Dependencies w) s = Some r
    \<and> (\<forall>l. r = Some l \<longrightarrow> (l, s) \<in> (depends w)\<^sup>* \<and> (\<forall>x. (x, l) \<notin> depends w))"
proof -
  have "wf (depends w)"
    using assms finite_depends finite_acyclic_wf by (auto simp: sound_graph_def)
  then show ?thesis
  proof (induction s rule: wf_induct_rule)
    case (less s)
    note r = rdeps_depends [OF assms]
    show ?case
    proof (cases "rdeps (wf_Dependencies w) s")
      case Nil
      then have "\<forall>x. (x, s) \<notin> depends w" by (simp add: r [symmetric])
      with Nil show ?thesis by (subst follow.simps) simp
    next
      case (Cons d ds)
      then have e: "(d, s) \<in> depends w" by (simp add: r [symmetric])
      show ?thesis
      proof (cases ds)
        case Nil
        obtain r where "follow (wf_Dependencies w) d = Some r"
          "\<forall>l. r = Some l \<longrightarrow> (l, d) \<in> (depends w)\<^sup>* \<and> (\<forall>x. (x, l) \<notin> depends w)"
          using less [of d] e by auto
        then show ?thesis using e Cons Nil
          by (subst follow.simps) (auto intro: rtrancl_into_rtrancl)
      next
        case (Cons d' ds')
        then show ?thesis using \<open>rdeps (wf_Dependencies w) s = d # ds\<close> by (subst follow.simps) simp
      qed
    qed
  qed
qed

lemma above_level5:
  assumes "sound_graph w" and "(l, s) \<in> (depends w)\<^sup>*" and "level s = 5"
  shows "level l = 5"
  using assms(2)
proof (induction rule: converse_rtrancl_induct)
  case (step y z)
  then have "level y < 5 \<longrightarrow> level z < level y" using assms(1) by (auto simp: sound_graph_def)
  then show ?case using step.IH level_le [of y] by force
qed (rule assms(3))

lemma above_has_step:
  assumes "sound_graph w" and "(l, s) \<in> (depends w)\<^sup>*" and "s \<in> set (step_names w)"
  shows "l \<in> set (step_names w)"
  using assms(2)
  by (cases rule: converse_rtranclE) (use assms(1,3) in \<open>auto simp: sound_graph_def\<close>)

definition is_last :: "test_workflow \<Rightarrow> string \<Rightarrow> string \<Rightarrow> bool" where
  "is_last t n l \<longleftrightarrow> (l, ''wait-'' @ n) \<in> (depends (tw_wf t))\<^sup>* \<and> has_step t l
     \<and> (\<forall>x. (x, l) \<notin> depends (tw_wf t))"

lemma getLastStepForVM_cases:
  assumes "sound_graph (tw_wf t)"
  shows "(\<exists>err. getLastStepForVM t n t = (Fail err, t))
    \<or> (\<exists>l. getLastStepForVM t n t = (Ok (Some l), t) \<and> is_last t n l)"
proof (cases "has_step t (''wait-'' @ n)")
  case False
  then have "step_of t (''wait-'' @ n) = None" using step_of_has by blast
  then show ?thesis by (simp add: getLastStepForVM_def raise_def)
next
  case True
  obtain r where r: "follow (wf_Dependencies (tw_wf t)) (''wait-'' @ n) = Some r"
      "\<forall>l. r = Some l \<longrightarrow> (l, ''wait-'' @ n) \<in> (depends (tw_wf t))\<^sup>* \<and> (\<forall>x. (x, l) \<notin> depends (tw_wf t))"
    using follow_ends [OF assms] by blast
  have w: "step_of t (''wait-'' @ n) \<noteq> None" using True step_of_has by blast
  show ?thesis
  proof (cases r)
    case None
    then show ?thesis using r w by (simp add: getLastStepForVM_def Let_def raise_def)
  next
    case (Some l)
    then have "is_last t n l"
      using r(2) above_has_step [OF assms _ True] by (auto simp: is_last_def)
    moreover then have "step_of t l \<noteq> None" using step_of_has by (auto simp: is_last_def)
    ultimately show ?thesis using r Some w by (auto simp: getLastStepForVM_def Let_def give_def)
  qed
qed

text \<open>A name whose wait step is not one of the waits for quota.\<close>

definition plain :: "string \<Rightarrow> bool" where
  "plain n \<longleftrightarrow> level (''wait-'' @ n) = 5"

lemma plain_iff: "plain n \<longleftrightarrow> n \<noteq> ''for-vm-quota'' \<and> n \<noteq> ''for-disk-quota''"
  by (auto simp: plain_def level_def step_name_defs)

lemma last_step_cases:
  assumes "built t" and "plain n"
  shows "last_step err n t = (Fail err, t)
    \<or> (\<exists>l. last_step err n t = (Ok (Some l), t) \<and> is_last t n l \<and> level l = 5)"
proof -
  have s: "sound_graph (tw_wf t)" using assms(1) by (simp add: built_def)
  then have "level l = 5" if "is_last t n l" for l
    using that above_level5 [OF s] assms(2) by (auto simp: is_last_def plain_def)
  then show ?thesis
    using getLastStepForVM_cases [OF s, of n] by (auto simp: last_step_def)
qed

end
