(* ===== verification/Fixtures_Builders.thy ===== *)
theory Fixtures_Builders
  imports Fixtures_Graph
begin

text \<open>
  Every operation of the fixtures keeps the invariant of the graph and neither panics nor loops: first
  the builders of steps, then the operations composed of them.
\<close>

subsection \<open>The builders of steps\<close>

lemma fits_free: "level n = 5 \<Longrightarrow> fits n s"
  using quota_level by (fastforce simp: fits_def levels)

lemma built_alloc: "built t \<Longrightarrow> built (t\<lparr>tw_machines := tw_machines t @ ms\<rparr>)"
  by (fastforce simp: built_def)

lemma built_irrelevant [simp]:
  "built (t\<lparr>tw_networks := ns\<rparr>) = built t" "built (t\<lparr>tw_subnetworks := ss\<rparr>) = built t"
  "built (t\<lparr>tw_counter := c\<rparr>) = built t"
  by (simp_all add: built_def)

text \<open>Adding to a shared step always succeeds.\<close>

lemma append_step_ok:
  assumes e: "engine_ok e" and b: "built t"
    and more: "\<And>s. step_of t n = Some s \<Longrightarrow>
      \<exists>s'. add s = Some s' \<and> fits n s' \<and> (\<forall>a \<in> set (step_machines s'). a < length (tw_machines t))"
    and fresh: "fits n (fresh new_step)" "\<forall>a \<in> set (step_machines (fresh new_step)). a < length (tw_machines t)"
  shows "\<exists>t'. append_step e n add fresh t = (Ok n, t') \<and> built t' \<and> has_step t' n"
proof (cases "step_of t n")
  case None
  then have no: "\<not> has_step t n" using step_of_has by blast
  then have "append_step e n add fresh t = (Ok n, stepped n fresh t)"
    using None NewStep_cases [OF e, of n t]
    by (auto simp: append_step_def and_then_def modify_def give_def stepped_def)
  then show ?thesis by (simp add: built_stepped b no fresh)
next
  case (Some s)
  obtain s' where s': "add s = Some s'" "fits n s'" "\<forall>a \<in> set (step_machines s'). a < length (tw_machines t)"
    using more [OF Some] by blast
  have "append_step e n add fresh t = (Ok n, update_step n (\<lambda>_. s') t)"
    using Some s'(1) by (simp add: append_step_def and_then_def modify_def give_def)
  moreover have "built (update_step n (\<lambda>_. s') t)" using built_update_step [OF b] s' by simp
  moreover have "has_step t n" using Some step_of_has by fastforce
  ultimately show ?thesis by simp
qed

lemmas fits_simps = fits_def step_machines_def step_name_defs quota_step_def new_step_def

lemma built_fits: "built t \<Longrightarrow> step_of t n = Some s \<Longrightarrow> fits n s \<and> (\<forall>a \<in> set (step_machines s). a < length (tw_machines t))"
  using step_of_mem by (fastforce simp: built_def)

lemma add_machine_step_ok:
  assumes "engine_ok e" and b: "built t" and a: "a < length (tw_machines t)"
  shows "\<exists>t'. add_machine_step e beta a t = (Ok createVMsStepName, t') \<and> built t' \<and> has_step t' createVMsStepName"
  unfolding add_machine_step_def Let_def
proof (rule append_step_ok [OF assms(1) b])
  fix s assume "step_of t createVMsStepName = Some s"
  from built_fits [OF b this] obtain gs bs where "st_CreateInstances s = Some (gs, bs)"
    and "\<forall>a \<in> set (gs @ bs). a < length (tw_machines t)"
    by (auto simp: fits_def step_machines_def)
  then show "\<exists>s'. (case st_CreateInstances s of None \<Rightarrow> None | Some (gs, bs) \<Rightarrow>
        Some (s\<lparr>st_CreateInstances := Some (gs @ fst (if beta then ([], [a]) else ([a], [])),
                bs @ snd (if beta then ([], [a]) else ([a], [])))\<rparr>)) = Some s'
      \<and> fits createVMsStepName s' \<and> (\<forall>a \<in> set (step_machines s'). a < length (tw_machines t))"
    using a by (auto simp: fits_simps)
qed (use a in \<open>auto simp: fits_simps\<close>)

lemma add_disk_step_ok:
  assumes "engine_ok e" and b: "built t"
  shows "\<exists>t'. add_disk_step e d t = (Ok createDisksStepName, t') \<and> built t' \<and> has_step t' createDisksStepName"
  unfolding add_disk_step_def
proof (rule append_step_ok [OF assms(1) b])
  fix s assume "step_of t createDisksStepName = Some s"
  from built_fits [OF b this] show "\<exists>s'. (case st_CreateDisks s of None \<Rightarrow> None
        | Some ds \<Rightarrow> Some (s\<lparr>st_CreateDisks := Some (ds @ [d])\<rparr>)) = Some s'
      \<and> fits createDisksStepName s' \<and> (\<forall>a \<in> set (step_machines s'). a < length (tw_machines t))"
    by (auto simp: fits_simps)
qed (auto simp: fits_simps)

lemma add_network_step_ok:
  assumes "engine_ok e" and b: "built t"
  shows "\<exists>t'. add_network_step e a t = (Ok createNetworkStepName, t') \<and> built t' \<and> has_step t' createNetworkStepName"
  unfolding add_network_step_def
proof (rule append_step_ok [OF assms(1) b])
  fix s assume "step_of t createNetworkStepName = Some s"
  from built_fits [OF b this] show "\<exists>s'. (case st_CreateNetworks s of None \<Rightarrow> None
        | Some ns \<Rightarrow> Some (s\<lparr>st_CreateNetworks := Some (ns @ [a])\<rparr>)) = Some s'
      \<and> fits createNetworkStepName s' \<and> (\<forall>a \<in> set (step_machines s'). a < length (tw_machines t))"
    by (auto simp: fits_simps)
qed (auto simp: fits_simps)

text \<open>What the builders of machines leave.\<close>

abbreviation machine_step :: "string \<times> nat \<Rightarrow> test_workflow \<Rightarrow> bool" where
  "machine_step r t \<equiv> built t \<and> fst r = createVMsStepName \<and> has_step t (fst r) \<and> snd r < length (tw_machines t)"

lemma machines_grow: "append_step e n add fresh t = (Ok s, t') \<Longrightarrow> tw_machines t' = tw_machines t"
  by (auto simp: append_step_def and_then_def modify_def give_def raise_def panic_def NewStep_def
      split: option.splits sum.splits)

lemma machine_added:
  assumes e: "engine_ok e" and b: "built t"
  shows "lands machine_step built
    (and_then (alloc_machine j) (\<lambda>a. and_then (add_machine_step e beta a) (\<lambda>step. give (step, a))) t)"
proof -
  let ?t = "t\<lparr>tw_machines := tw_machines t @ [j]\<rparr>"
  have "built ?t" by (rule built_alloc [OF b])
  then obtain t' where t': "add_machine_step e beta (length (tw_machines t)) ?t = (Ok createVMsStepName, t')"
      "built t'" "has_step t' createVMsStepName"
    using add_machine_step_ok [OF e, of ?t "length (tw_machines t)" beta] by auto
  have "tw_machines t' = tw_machines ?t"
    using machines_grow t'(1) unfolding add_machine_step_def Let_def by blast
  then show ?thesis using t' by (simp add: and_then_def alloc_machine_def give_def)
qed

lemma appendCreateVMStep_triple:
  assumes "engine_ok e"
  shows "triple built (appendCreateVMStep e disks i) machine_step built"
proof (rule triple_at)
  fix t assume b: "built t"
  then obtain mt where "tw_MachineType t = Some mt" by (auto simp: built_def)
  then show "lands machine_step built (appendCreateVMStep e disks i t)"
    using machine_added [OF assms b] b
    by (simp add: appendCreateVMStep_def Let_def raise_def split: option.splits)
qed

lemma appendCreateVMStepBeta_triple:
  assumes "engine_ok e"
  shows "triple built (appendCreateVMStepBeta e disks i) machine_step built"
proof (rule triple_at)
  fix t assume b: "built t"
  then obtain mt where "tw_MachineType t = Some mt" by (auto simp: built_def)
  then show "lands machine_step built (appendCreateVMStepBeta e disks i t)"
    using machine_added [OF assms b] b
    by (simp add: appendCreateVMStepBeta_def Let_def raise_def split: option.splits)
qed

lemma disk_steps_triple:
  assumes "engine_ok e"
  shows "triple built (appendCreateDisksStep e d) (\<lambda>s t. built t \<and> s = createDisksStepName) built"
    and "triple built (appendCreateMountDisksStep e d) (\<lambda>s t. built t \<and> s = createDisksStepName) built"
proof -
  have "triple built (add_disk_step e w) (\<lambda>s t. built t \<and> s = createDisksStepName) built" for w
  proof (rule triple_at)
    fix t assume "built t"
    from add_disk_step_ok [OF assms this, of w]
    show "lands (\<lambda>s t. built t \<and> s = createDisksStepName) built (add_disk_step e w t)" by auto
  qed
  then show "triple built (appendCreateDisksStep e d) (\<lambda>s t. built t \<and> s = createDisksStepName) built"
    and "triple built (appendCreateMountDisksStep e d) (\<lambda>s t. built t \<and> s = createDisksStepName) built"
    by (simp_all add: appendCreateDisksStep_def appendCreateMountDisksStep_def triple_def raise_def)
qed

abbreviation disk_steps :: "string list \<Rightarrow> test_workflow \<Rightarrow> bool" where
  "disk_steps ss t \<equiv> built t \<and> set ss \<subseteq> {createDisksStepName}"

lemma one_more_disk:
  assumes "triple built m (\<lambda>s t. built t \<and> s = createDisksStepName) built"
    and "triple built rest disk_steps built"
  shows "triple built (and_then m (\<lambda>s. and_then rest (\<lambda>ss. give (s # ss)))) disk_steps built"
proof (rule triple_and_then [OF assms(1)])
  fix s
  have "triple (\<lambda>t. built t \<and> s = createDisksStepName) rest
      (\<lambda>ss t. disk_steps ss t \<and> s = createDisksStepName) built"
    using assms(2) by (auto simp: triple_def elim: lands_weaken)
  then show "triple (\<lambda>t. built t \<and> s = createDisksStepName)
      (and_then rest (\<lambda>ss. give (s # ss))) disk_steps built"
    by (rule triple_and_then) (rule triple_give, simp)
qed

lemma create_disks_triple:
  assumes "engine_ok e"
  shows "triple built (create_disks e ds) disk_steps built"
proof -
  have "triple built (mount_disks e ds) disk_steps built" for ds
    by (induction ds) (simp_all add: triple_give one_more_disk disk_steps_triple [OF assms])
  then show ?thesis
    by (cases ds) (simp_all add: triple_give one_more_disk disk_steps_triple [OF assms])
qed

subsection \<open>Dependencies of the builders\<close>

lemma lower_dependency:
  assumes e: "engine_ok e" and l: "level b < level a" and q: "\<not> quota_step b"
  shows "keeps built (AddDependency e (Some a) (Some b))"
  unfolding keeps_def
proof (rule triple_at)
  fix t assume b: "built t"
  show "lands (\<lambda>_. built) built (AddDependency e (Some a) (Some b) t)"
    using AddDependency_cases [OF e, of "Some a" "Some b" t] built_with_dep [OF b _ _ q] l b by auto
qed

lemma lower_depend_if_there:
  assumes "engine_ok e" and "level b < level a" and "\<not> quota_step b"
  shows "keeps built (depend_if_there e a b)"
  using lower_dependency [OF assms]
  by (auto simp: keeps_def triple_def depend_if_there_def give_def)

lemma free_step_triple:
  assumes e: "engine_ok e" and n: "level n = 5" and f: "step_machines (f new_step) = []"
  shows "triple built (single_step e n f) (\<lambda>s t. built t \<and> s = n) built"
proof (rule triple_at)
  fix t assume "built t"
  then show "lands (\<lambda>s t. built t \<and> s = n) built (single_step e n f t)"
    using single_step_cases [OF e, of n f t] built_stepped [of t n f] fits_free [OF n] f by auto
qed

lemma connect_machine_keeps:
  assumes e: "engine_ok e" and w: "triple built wait (\<lambda>s t. built t \<and> level s = 5) built"
  shows "keeps built (connect_machine e createVMsStepName wait)"
  unfolding connect_machine_def keeps_def
proof (rule triple_and_then [OF w])
  fix s
  have d: "triple (\<lambda>t. built t \<and> level s = 5) (AddDependency e (Some s) (Some createVMsStepName)) (\<lambda>_. built) built"
    using lower_dependency [OF e, of createVMsStepName s]
    by (auto simp: triple_def keeps_def levels not_quota)
  show "triple (\<lambda>t. built t \<and> level s = 5) (and_then (AddDependency e (Some s) (Some createVMsStepName)) (\<lambda>_.
      and_then (depend_if_there e createVMsStepName createSubnetworkStepName) (\<lambda>_.
      depend_if_there e createVMsStepName createNetworkStepName))) (\<lambda>_. built) built"
    using lower_depend_if_there [OF e, of createSubnetworkStepName createVMsStepName]
      lower_depend_if_there [OF e, of createNetworkStepName createVMsStepName]
    by (intro triple_and_then [OF d]) (auto simp: levels not_quota keeps_def intro: triple_and_then)
qed

subsection \<open>Creating machines\<close>

lemma wait_steps_triple:
  assumes "engine_ok e" and "level (''wait-'' @ n) = 5"
  shows "triple built (addWaitStep e n vm) (\<lambda>s t. built t \<and> s = ''wait-'' @ n) built"
    and "triple built (addWaitRebootGAStep e n vm) (\<lambda>s t. built t \<and> s = ''wait-'' @ n) built"
  unfolding addWaitStep_def addWaitRebootGAStep_def
  by (rule free_step_triple [OF assms]; simp add: new_step_def step_machines_def)+

lemma wait_level:
  assumes "triple built wait (\<lambda>s t. built t \<and> s = n) built" and "level n = 5"
  shows "triple built wait (\<lambda>s t. built t \<and> level s = 5) built"
  using assms(1) by (rule triple_weaken) (use assms(2) in auto)

lemma wait_for_tests_triple:
  assumes e: "engine_ok e" and "plain n"
  shows "triple built (wait_for_tests e n a) (\<lambda>s t. built t \<and> level s = 5) built"
proof -
  have n: "level (''wait-'' @ n) = 5" using assms(2) by (simp add: plain_def)
  show ?thesis
    using wait_level [OF wait_steps_triple(1) [OF e n] n] wait_level [OF wait_steps_triple(2) [OF e n] n]
    by (auto simp: triple_def wait_for_tests_def)
qed

text \<open>The part the four ways of creating a machine have in common.\<close>

lemma create_machine_keeps:
  assumes e: "engine_ok e" and app: "triple built app machine_step built"
    and deps: "keeps built (deps createVMsStepName)"
    and wait: "\<And>a. triple built (wait a) (\<lambda>s t. built t \<and> level s = 5) built"
  shows "keeps built (and_then app (\<lambda>(cv, a). and_then (deps cv) (\<lambda>_.
    and_then (connect_machine e cv (wait a)) (\<lambda>_. give (h a)))))"
  unfolding keeps_def
proof (rule triple_and_then [OF app])
  fix r
  show "triple (machine_step r) (case r of (cv, a) \<Rightarrow> and_then (deps cv) (\<lambda>_.
      and_then (connect_machine e cv (wait a)) (\<lambda>_. give (h a)))) (\<lambda>_. built) built"
  proof (cases "fst r = createVMsStepName")
    case True
    have "keeps built (and_then (deps createVMsStepName) (\<lambda>_.
        and_then (connect_machine e createVMsStepName (wait (snd r))) (\<lambda>_. give (h (snd r)))))"
      by (intro keeps_and_then deps connect_machine_keeps [OF e wait] keeps_ends)
    with True show ?thesis by (cases r) (auto simp: triple_def keeps_def)
  qed (simp add: triple_def)
qed

lemma disk_dependency:
  assumes "engine_ok e"
  shows "keeps built (AddDependency e (Some createVMsStepName) (Some createDisksStepName))"
  by (rule lower_dependency [OF assms]) (simp_all add: levels not_quota)

lemma disk_dependencies:
  assumes "engine_ok e" and "set ss \<subseteq> {createDisksStepName}"
  shows "keeps built (for_each (\<lambda>s. AddDependency e (Some createVMsStepName) (Some s)) ss)"
  using assms(2) disk_dependency [OF assms(1)] by (intro keeps_for_each) auto

lemma triple_const: "(C \<Longrightarrow> triple P m Q E) \<Longrightarrow> triple (\<lambda>t. P t \<and> C) m Q E"
  by (auto simp: triple_def)

lemma CreateTestVM_keeps:
  assumes e: "engine_ok e" and "plain (vmname_of name)"
  shows "keeps built (CreateTestVM e name)" and "keeps built (CreateTestVMBeta e name)"
proof -
  let ?n = "vmname_of name"
  have n: "level (''wait-'' @ ?n) = 5" using assms(2) by (simp add: plain_def)
  have c: "keeps built (and_then (appendCreateDisksStep e d) (\<lambda>s. and_then app (\<lambda>(cv, a).
      and_then (AddDependency e (Some cv) (Some s)) (\<lambda>_.
      and_then (connect_machine e cv (addWaitStep e ?n ?n)) (\<lambda>_. give (h a))))))"
    if "triple built app machine_step built" for app h d
    unfolding keeps_def
  proof (rule triple_and_then [OF disk_steps_triple(1) [OF e]], rule triple_const)
    fix s assume "s = createDisksStepName"
    with disk_dependency [OF e] have "keeps built (AddDependency e (Some createVMsStepName) (Some s))" by simp
    from create_machine_keeps [OF e that, where deps = "\<lambda>cv. AddDependency e (Some cv) (Some s)"
        and wait = "\<lambda>_. addWaitStep e ?n ?n", OF this wait_level [OF wait_steps_triple(1) [OF e n] n]]
    show "triple built (and_then app (\<lambda>(cv, a). and_then (AddDependency e (Some cv) (Some s)) (\<lambda>_.
        and_then (connect_machine e cv (addWaitStep e ?n ?n)) (\<lambda>_. give (h a))))) (\<lambda>_. built) built"
      by (simp add: keeps_def)
  qed
  show "keeps built (CreateTestVM e name)" and "keeps built (CreateTestVMBeta e name)"
    unfolding CreateTestVM_def CreateTestVMBeta_def Let_def
    by (rule c, rule appendCreateVMStep_triple [OF e]) (rule c, rule appendCreateVMStepBeta_triple [OF e])
qed

lemma CreateTestVMMultipleDisks_keeps:
  assumes e: "engine_ok e" and p: "plain (vmname_of (dp_Name (hd disks)))"
  shows "keeps built (CreateTestVMMultipleDisks e disks i)" and "keeps built (CreateTestVMFromInstanceBeta e j disks)"
proof -
  let ?w = "wait_for_tests e (vmname_of (dp_Name (hd disks)))"
  have c: "keeps built (and_then (create_disks e disks) (\<lambda>ss. and_then app (\<lambda>(cv, a).
      and_then (for_each (\<lambda>s. AddDependency e (Some cv) (Some s)) ss) (\<lambda>_.
      and_then (connect_machine e cv (?w a)) (\<lambda>_. give (h a))))))"
    if "triple built app machine_step built" for app h
    unfolding keeps_def
  proof (rule triple_and_then [OF create_disks_triple [OF e]], rule triple_const)
    fix ss assume "set ss \<subseteq> {createDisksStepName}"
    from create_machine_keeps [OF e that, where deps = "\<lambda>cv. for_each (\<lambda>s. AddDependency e (Some cv) (Some s)) ss"
        and wait = ?w, OF disk_dependencies [OF e this] wait_for_tests_triple [OF e p]]
    show "triple built (and_then app (\<lambda>(cv, a). and_then (for_each (\<lambda>s. AddDependency e (Some cv) (Some s)) ss) (\<lambda>_.
        and_then (connect_machine e cv (?w a)) (\<lambda>_. give (h a))))) (\<lambda>_. built) built"
      by (simp add: keeps_def)
  qed
  have g: "keeps built m" if "keeps built m'" and "m = (\<lambda>t. if disks = [] \<or> dp_Name (hd disks) = []
      then raise err t else m' t)" for m m' :: "test_vm operation" and err
    using that by (simp add: keeps_def triple_def raise_def)
  show "keeps built (CreateTestVMMultipleDisks e disks i)"
    by (rule g [OF c [OF appendCreateVMStep_triple [OF e]]], rule ext,
        unfold CreateTestVMMultipleDisks_def Let_def, rule refl)
  show "keeps built (CreateTestVMFromInstanceBeta e j disks)"
    by (rule g [OF c [OF appendCreateVMStepBeta_triple [OF e]]], rule ext,
        unfold CreateTestVMFromInstanceBeta_def Let_def, rule refl)
qed

subsection \<open>Chains of steps after the last one\<close>

abbreviation ready :: "string \<Rightarrow> test_workflow \<Rightarrow> bool" where
  "ready p t \<equiv> built t \<and> has_step t p \<and> level p = 5"

lemma after_stepped:
  assumes b: "built t" and n: "level n = 5" "\<not> has_step t n" and p: "has_step t p" "level p = 5"
    and f: "step_machines (f new_step) = []"
  shows "ready n ((stepped n f t)\<lparr>tw_wf := with_dep n p (tw_wf (stepped n f t))\<rparr>)"
proof -
  have "unlinked (tw_wf t) n" using b n(2) unlinked_new by (simp add: built_def)
  then have "(p, n) \<notin> (depends (tw_wf t))\<^sup>*" using unlinked_no_path n(2) p(1) by metis
  moreover have "built (stepped n f t)" using b n f by (intro built_stepped fits_free) auto
  moreover have "\<not> quota_step p" using p(2) quota_level by fastforce
  ultimately show ?thesis using n p by (simp add: built_with_dep)
qed

lemma after_triple:
  assumes e: "engine_ok e" and n: "level n = 5" and f: "step_machines (f new_step) = []"
  shows "triple (\<lambda>t. \<exists>p. previous = Some p \<and> ready p t) (after e previous (single_step e n f)) ready built"
proof (rule triple_at)
  fix t assume "\<exists>p. previous = Some p \<and> ready p t"
  then obtain p where p: "previous = Some p" "ready p t" by blast
  from single_step_cases [OF e, of n f t]
  show "lands ready built (after e previous (single_step e n f) t)"
  proof
    assume "\<exists>err. single_step e n f t = (Fail err, t) \<and> has_step t n"
    then show ?thesis using p by (auto simp: after_def and_then_def)
  next
    assume new: "single_step e n f t = (Ok n, stepped n f t) \<and> \<not> has_step t n"
    then have "built (stepped n f t)" "ready n ((stepped n f t)\<lparr>tw_wf := with_dep n p (tw_wf (stepped n f t))\<rparr>)"
      using p(2) n f after_stepped [of t n p f] built_stepped [of t n f] fits_free [OF n] by auto
    then show ?thesis
      using new AddDependency_cases [OF e, of "Some n" previous "stepped n f t"] p(1)
      by (auto simp: after_def and_then_def give_def)
  qed
qed

lemma after_ready:
  assumes "engine_ok e" and "level n = 5" and "step_machines (f new_step) = []"
  shows "triple (ready p) (after e (Some p) (single_step e n f)) ready built"
  using after_triple [where e = e and n = n and f = f and previous = "Some p"] assms
  by (simp add: triple_def)

lemma next_suffix_triple: "triple built (next_suffix vm) (\<lambda>_. built) built"
  by (simp add: triple_def next_suffix_def give_def Let_def)

lemma last_step_triple:
  assumes "plain n"
  shows "triple built (last_step err n) (\<lambda>l t. \<exists>p. l = Some p \<and> ready p t) built"
proof (rule triple_at)
  fix t assume "built t"
  then show "lands (\<lambda>l t. \<exists>p. l = Some p \<and> ready p t) built (last_step err n t)"
    using last_step_cases [OF _ assms, of t err] by (auto simp: is_last_def)
qed

lemma no_machines [simp]:
  "step_machines (st_Signals_update f new_step) = []" "step_machines (st_Stop_update g new_step) = []"
  "step_machines (st_Start_update g new_step) = []" "step_machines (st_Resize_update h new_step) = []"
  "step_machines (st_DetachDisks_update k new_step) = []" "step_machines (st_Resume_update r new_step) = []"
  "step_machines (st_Quotas_update q new_step) = []"
  by (simp_all add: step_machines_def new_step_def)

lemma Reboot_keeps:
  assumes e: "engine_ok e" and "plain (vm_name vm)"
  shows "keeps built (Reboot e vm)"
  unfolding Reboot_def Let_def keeps_def addStopStep_def addWaitStoppedStep_def addStartStep_def addWaitStep_def
  by (intro triple_and_then [OF next_suffix_triple] triple_and_then [OF last_step_triple [OF assms(2)]]
      triple_and_then [OF after_triple [OF e]] triple_and_then [OF after_ready [OF e]] triple_give)
    (simp_all add: level_def step_name_defs)

lemma ResizeDiskAndReboot_keeps:
  assumes e: "engine_ok e" and p: "plain (vm_name vm)"
  shows "keeps built (ResizeDiskAndReboot e vm n)"
  unfolding ResizeDiskAndReboot_def Let_def keeps_def addDiskResizeStep_def
  by (intro triple_and_then [OF next_suffix_triple] triple_and_then [OF last_step_triple [OF p]]
      triple_and_then [OF after_triple [OF e]] triple_pre [OF Reboot_keeps [OF e p, unfolded keeps_def]])
    (simp_all add: level_def step_name_defs)

subsection \<open>Resuming\<close>

text \<open>The new steps of \<open>Resume\<close> lead back to the creation of the machines only.\<close>

definition below :: "string \<Rightarrow> string \<Rightarrow> test_workflow \<Rightarrow> bool" where
  "below l n t \<longleftrightarrow> n \<noteq> l \<and> has_step t n \<and> level n = 5 \<and> (\<forall>x. (n, x) \<in> depends (tw_wf t) \<longrightarrow> level x < 5)"

definition behind :: "string \<Rightarrow> string \<Rightarrow> string \<Rightarrow> test_workflow \<Rightarrow> bool" where
  "behind l n m t \<longleftrightarrow> m \<noteq> l \<and> has_step t m \<and> level m = 5 \<and> (\<forall>x. (m, x) \<in> depends (tw_wf t) \<longrightarrow> x = n)"

lemma below_no_path:
  assumes "sound_graph (tw_wf t)" and "below l n t" and "level l = 5"
  shows "(n, l) \<notin> (depends (tw_wf t))\<^sup>*"
proof
  assume "(n, l) \<in> (depends (tw_wf t))\<^sup>*"
  then obtain x where "(n, x) \<in> depends (tw_wf t)" "(x, l) \<in> (depends (tw_wf t))\<^sup>*"
    using assms(2) by (auto simp: below_def elim: converse_rtranclE)
  then show False
    using assms path_level [OF assms(1), of x l] by (auto simp: below_def)
qed

lemma behind_no_path:
  assumes "sound_graph (tw_wf t)" and "below l n t" and "behind l n m t" and "level l = 5"
  shows "(m, l) \<notin> (depends (tw_wf t))\<^sup>*"
proof
  assume "(m, l) \<in> (depends (tw_wf t))\<^sup>*"
  then obtain x where "(m, x) \<in> depends (tw_wf t)" "(x, l) \<in> (depends (tw_wf t))\<^sup>*"
    using assms(3) by (auto simp: behind_def elim: converse_rtranclE)
  then show False
    using below_no_path [OF assms(1,2,4)] assms(3) by (auto simp: behind_def)
qed

lemma stepped_below:
  assumes "ready l t" and "level n = 5" and "\<not> has_step t n" and "step_machines (f new_step) = []"
  shows "ready l (stepped n f t)" and "below l n (stepped n f t)"
    and "below l k t \<Longrightarrow> below l k (stepped n f t)" and "behind l k n (stepped n f t)"
proof -
  have "unlinked (tw_wf t) n" using assms unlinked_new by (simp add: built_def)
  then show "ready l (stepped n f t)" and "below l n (stepped n f t)"
    and "below l k t \<Longrightarrow> below l k (stepped n f t)" and "behind l k n (stepped n f t)"
    using assms built_stepped [of t n f] fits_free [OF assms(2)]
    by (auto simp: below_def behind_def unlinked_def)
qed

lemma first_step:
  assumes e: "engine_ok e" and n: "level n = 5" "step_machines (f new_step) = []"
  shows "triple (ready l) (single_step e n f) (\<lambda>s t. s = n \<and> ready l t \<and> below l n t) built"
proof (rule triple_at)
  fix t assume "ready l t"
  then show "lands (\<lambda>s t. s = n \<and> ready l t \<and> below l n t) built (single_step e n f t)"
    using single_step_cases [OF e, of n f t] stepped_below(1,2) [where l = l and t = t and n = n and f = f] n by auto
qed

lemma second_step:
  assumes e: "engine_ok e" and n: "level m = 5" "step_machines (f new_step) = []"
  shows "triple (\<lambda>t. ready l t \<and> below l n t) (single_step e m f)
    (\<lambda>s t. s = m \<and> ready l t \<and> below l n t \<and> behind l n m t) built"
proof (rule triple_at)
  fix t assume "ready l t \<and> below l n t"
  then show "lands (\<lambda>s t. s = m \<and> ready l t \<and> below l n t \<and> behind l n m t) built (single_step e m f t)"
    using single_step_cases [OF e, of m f t] stepped_below(1) [where l = l and t = t and n = m and f = f] stepped_below(3,4) [where l = l and t = t and n = m and f = f and k = n] n by auto
qed

lemma first_dependency:
  assumes e: "engine_ok e"
  shows "triple (\<lambda>t. ready l t \<and> below l n t) (\<lambda>t. AddDependency e (Some n)
      (if step_of t createVMsStepName = None then None else Some createVMsStepName) t)
    (\<lambda>_ t. ready l t \<and> below l n t) built"
proof (rule triple_at)
  fix t assume t: "ready l t \<and> below l n t"
  let ?c = "if step_of t createVMsStepName = None then None else Some createVMsStepName"
  have "ready l (t\<lparr>tw_wf := with_dep n createVMsStepName (tw_wf t)\<rparr>)
      \<and> below l n (t\<lparr>tw_wf := with_dep n createVMsStepName (tw_wf t)\<rparr>)" if "has_step t createVMsStepName"
    using t that built_with_dep [of t n createVMsStepName] by (auto simp: below_def levels not_quota)
  then show "lands (\<lambda>_ t. ready l t \<and> below l n t) built (AddDependency e (Some n) ?c t)"
    using AddDependency_cases [OF e, of "Some n" ?c t] t by (auto split: if_splits)
qed

lemma second_dependency:
  assumes e: "engine_ok e"
  shows "triple (\<lambda>t. ready l t \<and> below l n t \<and> behind l n m t \<and> n \<noteq> m) (AddDependency e (Some m) (Some n))
    (\<lambda>_ t. ready l t \<and> below l n t \<and> behind l n m t \<and> n \<noteq> m) built"
proof (rule triple_at)
  fix t assume t: "ready l t \<and> below l n t \<and> behind l n m t \<and> n \<noteq> m"
  let ?t = "t\<lparr>tw_wf := with_dep m n (tw_wf t)\<rparr>"
  have s: "sound_graph (tw_wf t)" using t by (simp add: built_def)
  have "(n, m) \<notin> (depends (tw_wf t))\<^sup>*"
    using t below_no_path [OF s, of m n] by (auto simp: below_def behind_def)
  moreover have "\<not> quota_step n" using t quota_level by (fastforce simp: below_def)
  ultimately have "built ?t" using t built_with_dep [of t m n] by (auto simp: below_def behind_def)
  then have "ready l ?t \<and> below l n ?t \<and> behind l n m ?t \<and> n \<noteq> m"
    using t by (auto simp: below_def behind_def)
  then show "lands (\<lambda>_ t. ready l t \<and> below l n t \<and> behind l n m t \<and> n \<noteq> m) built (AddDependency e (Some m) (Some n) t)"
    using AddDependency_cases [OF e, of "Some m" "Some n" t] t by auto
qed

lemma last_dependency:
  assumes e: "engine_ok e"
  shows "triple (\<lambda>t. ready l t \<and> below l n t \<and> behind l n m t) (AddDependency e (Some l) (Some m)) (\<lambda>_. built) built"
proof (rule triple_at)
  fix t assume t: "ready l t \<and> below l n t \<and> behind l n m t"
  have s: "sound_graph (tw_wf t)" using t by (simp add: built_def)
  have "(m, l) \<notin> (depends (tw_wf t))\<^sup>*" using behind_no_path [OF s] t by blast
  moreover have "\<not> quota_step m" using t quota_level by (fastforce simp: behind_def)
  ultimately have "built (t\<lparr>tw_wf := with_dep l m (tw_wf t)\<rparr>)" if "has_step t m"
    using t that built_with_dep [of t l m] by auto
  then show "lands (\<lambda>_. built) built (AddDependency e (Some l) (Some m) t)"
    using AddDependency_cases [OF e, of "Some l" "Some m" t] t by auto
qed

lemma Resume_keeps:
  assumes e: "engine_ok e" and p: "plain (vm_name vm)"
  shows "keeps built (Resume e vm)"
  unfolding Resume_def Let_def keeps_def
proof (rule triple_and_then [OF next_suffix_triple], rule triple_and_then [OF last_step_triple [OF p]], goal_cases)
  case (1 sfx lastStep)
  let ?n = "''wait-suspended-'' @ sfx" and ?m = "''resume-'' @ sfx"
  let ?f = "st_Signals_update (\<lambda>_. Some [suspended_signal (vm_name vm)])"
    and ?g = "st_Resume_update (\<lambda>_. Some (vm_name vm))"
  have l: "level ?n = 5" "level ?m = 5" "?n \<noteq> ?m" by (simp_all add: level_def step_name_defs)
  show ?case
  proof (cases lastStep)
    case (Some q)
    have "triple (ready q) (and_then (single_step e ?n ?f) (\<lambda>w.
        and_then (\<lambda>t. AddDependency e (Some w) (if step_of t createVMsStepName = None then None else Some createVMsStepName) t) (\<lambda>_.
        and_then (single_step e ?m ?g) (\<lambda>r. and_then (AddDependency e (Some r) (Some w)) (\<lambda>_.
        AddDependency e (Some q) (Some r)))))) (\<lambda>_. built) built"
    proof (rule triple_and_then [OF first_step [OF e l(1)]], goal_cases)
      case (2 w)
      show ?case
      proof (cases "w = ?n")
        case True
        have "triple (\<lambda>t. ready q t \<and> below q ?n t)
           (and_then (\<lambda>t. AddDependency e (Some ?n) (if step_of t createVMsStepName = None then None else Some createVMsStepName) t) (\<lambda>_.
            and_then (single_step e ?m ?g) (\<lambda>r. and_then (AddDependency e (Some r) (Some ?n)) (\<lambda>_.
            AddDependency e (Some q) (Some r))))) (\<lambda>_. built) built"
        proof (rule triple_and_then [OF first_dependency [OF e]], rule triple_and_then [OF second_step [OF e l(2)]], goal_cases)
          case (2 u r)
          show ?case
          proof (cases "r = ?m")
            case True
            show ?thesis unfolding True
              by (rule triple_pre [OF triple_and_then [OF second_dependency [OF e] triple_pre [OF last_dependency [OF e]]]])
                (use l in auto)
          qed (simp add: triple_def)
        qed simp
        with True show ?thesis by (simp add: triple_def)
      qed (simp add: triple_def)
    qed simp
    with Some show ?thesis by (auto simp: triple_def)
  qed (simp add: triple_def)
qed

subsection \<open>Copying a machine\<close>

lemma built_update_machine: "built (update_machine a f t) = built t"
  by (simp add: built_def update_machine_def)

lemma update_machine_wf: "tw_wf (update_machine a f t) = tw_wf t"
  by (simp add: update_machine_def)

lemma addNewVMStep_triple:
  assumes e: "engine_ok e"
  shows "triple (ready d) (addNewVMStep e disks i)
    (\<lambda>r t. ready d t \<and> fst r \<noteq> d \<and> level (fst r) = 5 \<and> unlinked (tw_wf t) (fst r)) built"
    (is "triple _ _ ?Q _")
proof (rule triple_at)
  fix t assume d: "ready d t"
  let ?n = "''create-vms-'' @ utoa (tw_counter t)"
  have "lands ?Q built (and_then (alloc_machine j) (\<lambda>a. and_then (NewStep e ?n) (\<lambda>step.
      and_then (modify (update_step step (st_CreateInstances_update (\<lambda>_. Some ([a], []))))) (\<lambda>_. give (step, a)))) t)" for j
  proof -
    let ?a = "length (tw_machines t)" and ?t = "t\<lparr>tw_machines := tw_machines t @ [j]\<rparr>"
    let ?f = "st_CreateInstances_update (\<lambda>_. Some ([?a], []))"
    have b: "built ?t" using built_alloc d by blast
    from NewStep_cases [OF e, of ?n ?t] show ?thesis
    proof
      assume "\<exists>err. NewStep e ?n ?t = (Fail err, ?t) \<and> has_step ?t ?n"
      then show ?thesis using b by (auto simp: and_then_def alloc_machine_def)
    next
      assume new: "NewStep e ?n ?t = (Ok ?n, ?t\<lparr>tw_wf := with_step ?n (tw_wf ?t)\<rparr>) \<and> \<not> has_step ?t ?n"
      have l: "level ?n = 5" by (simp add: level_def step_name_defs)
      have no: "\<not> has_step ?t ?n" using new by (rule conjunct2)
      have "built (stepped ?n ?f ?t)"
        by (rule built_stepped [OF b no fits_free [OF l]]) (simp add: step_machines_def new_step_def)
      moreover have "unlinked (tw_wf ?t) ?n" using b no unlinked_new unfolding built_def by blast
      moreover have "d \<noteq> ?n" using d no by auto
      ultimately have "?Q (?n, ?a) (stepped ?n ?f ?t)" using d l by (auto simp: unlinked_def)
      moreover have "and_then (alloc_machine j) (\<lambda>a. and_then (NewStep e ?n) (\<lambda>step.
          and_then (modify (update_step step (st_CreateInstances_update (\<lambda>_. Some ([a], []))))) (\<lambda>_. give (step, a)))) t
        = (Ok (?n, ?a), stepped ?n ?f ?t)"
        using conjunct1 [OF new] by (simp add: and_then_def alloc_machine_def modify_def give_def stepped_def)
      ultimately show ?thesis by simp
    qed
  qed
  then show "lands ?Q built (addNewVMStep e disks i t)"
    using d by (simp add: addNewVMStep_def Let_def raise_def split: option.splits)
qed

lemma copy_dependency:
  assumes e: "engine_ok e"
  shows "triple (\<lambda>t. ready d t \<and> s \<noteq> d \<and> level s = 5 \<and> unlinked (tw_wf t) s)
    (AddDependency e (Some s) (Some d)) (\<lambda>_. ready s) built"
proof (rule triple_at)
  fix t assume t: "ready d t \<and> s \<noteq> d \<and> level s = 5 \<and> unlinked (tw_wf t) s"
  then have "(d, s) \<notin> (depends (tw_wf t))\<^sup>*" using unlinked_no_path by metis
  moreover have "\<not> quota_step d" using t quota_level by fastforce
  ultimately have "ready s (t\<lparr>tw_wf := with_dep s d (tw_wf t)\<rparr>)" if "has_step t s"
    using t that built_with_dep [of t s d] by auto
  then show "lands (\<lambda>_. ready s) built (AddDependency e (Some s) (Some d) t)"
    using AddDependency_cases [OF e, of "Some s" "Some d" t] t by auto
qed

lemma CreateDerivativeVM_keeps:
  assumes e: "engine_ok e" and p: "plain (vm_name vm)"
  shows "keeps built (CreateDerivativeVM e vm name)"
proof -
  let ?n = "vm_name vm" and ?v = "''derivative-'' @ name"
  have tail: "triple (ready d) (and_then (addNewVMStep e [disk_named ?n] new_machine) (\<lambda>(cv, a).
      and_then (AddDependency e (Some cv) (Some d)) (\<lambda>_.
      and_then (modify (update_machine a (m_Name_update (\<lambda>_. ?v)))) (\<lambda>_.
      and_then (after e (Some cv) (addWaitStep e ?v ?v)) (\<lambda>_. give \<lparr>vm_name = ?v, vm_ref = GA a\<rparr>))))) (\<lambda>_. built) built"
    for d
  proof (rule triple_and_then [OF addNewVMStep_triple [OF e]], goal_cases)
    case (1 r)
    have m: "triple (ready s) (modify (update_machine a (m_Name_update (\<lambda>_. ?v)))) (\<lambda>_. ready s) built" for s a
      by (rule triple_modify) (simp only: built_update_machine update_machine_wf)
    have "triple (ready s) (after e (Some s) (addWaitStep e ?v ?v)) ready built" for s
      unfolding addWaitStep_def by (rule after_ready [OF e]) (simp_all add: level_def step_name_defs)
    then have "triple (\<lambda>t. ready d t \<and> fst r \<noteq> d \<and> level (fst r) = 5 \<and> unlinked (tw_wf t) (fst r))
        (and_then (AddDependency e (Some (fst r)) (Some d)) (\<lambda>_.
         and_then (modify (update_machine (snd r) (m_Name_update (\<lambda>_. ?v)))) (\<lambda>_.
         and_then (after e (Some (fst r)) (addWaitStep e ?v ?v)) (\<lambda>_. give \<lparr>vm_name = ?v, vm_ref = GA (snd r)\<rparr>))))
        (\<lambda>_. built) built"
      by (intro triple_and_then [OF copy_dependency [OF e]] triple_and_then [OF m]) (rule triple_and_then, blast, rule triple_give, simp)
    then show ?case by (cases r) simp
  qed
  show ?thesis
    unfolding CreateDerivativeVM_def Let_def keeps_def addStopStep_def addWaitStoppedStep_def appendDetachDiskStep_def
    by (intro triple_and_then [OF next_suffix_triple] triple_and_then [OF last_step_triple [OF p]]
        triple_and_then [OF after_triple [OF e]] triple_and_then [OF after_ready [OF e]] tail)
      (simp_all add: level_def step_name_defs)
qed

subsection \<open>Networks and quota\<close>

lemma appendCreateNetworkStep_triple:
  assumes e: "engine_ok e"
  shows "triple built (appendCreateNetworkStep e n) (\<lambda>r t. built t \<and> fst r = createNetworkStepName) built"
proof (rule triple_at)
  fix t assume "built t"
  then have "built (t\<lparr>tw_networks := tw_networks t @ [n\<lparr>nw_Description := CITDescription (nw_Description n)\<rparr>]\<rparr>)"
    by simp
  from add_network_step_ok [OF e this, of "length (tw_networks t)"]
  show "lands (\<lambda>r t. built t \<and> fst r = createNetworkStepName) built (appendCreateNetworkStep e n t)"
    by (auto simp: appendCreateNetworkStep_def and_then_def alloc_network_def give_def)
qed

lemma appendCreateSubnetworksStep_triple:
  assumes e: "engine_ok e"
  shows "triple built (appendCreateSubnetworksStep e n) (\<lambda>r t. built t \<and> fst r = createSubnetworkStepName) built"
proof (rule triple_at)
  fix t assume "built t"
  let ?t = "t\<lparr>tw_subnetworks := tw_subnetworks t @ [n\<lparr>sn_Description := CITDescription (sn_Description n)\<rparr>]\<rparr>"
  let ?a = "length (tw_subnetworks t)"
  have b: "built ?t" using \<open>built t\<close> by simp
  have "\<exists>t'. append_step e createSubnetworkStepName
         (\<lambda>s. case st_CreateSubnetworks s of None \<Rightarrow> None
            | Some ns \<Rightarrow> Some (s\<lparr>st_CreateSubnetworks := Some (ns @ [?a])\<rparr>))
         (st_CreateSubnetworks_update (\<lambda>_. Some [?a])) ?t = (Ok createSubnetworkStepName, t')
      \<and> built t' \<and> has_step t' createSubnetworkStepName"
  proof (rule append_step_ok [OF e b])
    fix s assume "step_of ?t createSubnetworkStepName = Some s"
    from built_fits [OF b this] show "\<exists>s'. (case st_CreateSubnetworks s of None \<Rightarrow> None
            | Some ns \<Rightarrow> Some (s\<lparr>st_CreateSubnetworks := Some (ns @ [?a])\<rparr>)) = Some s'
        \<and> fits createSubnetworkStepName s' \<and> (\<forall>a \<in> set (step_machines s'). a < length (tw_machines ?t))"
      by (auto simp: fits_simps)
  qed (auto simp: fits_simps)
  then show "lands (\<lambda>r t. built t \<and> fst r = createSubnetworkStepName) built (appendCreateSubnetworksStep e n t)"
    by (auto simp: appendCreateSubnetworksStep_def and_then_def alloc_subnetwork_def give_def)
qed

lemma appendCreateFirewallStep_triple:
  assumes e: "engine_ok e"
  shows "triple built (appendCreateFirewallStep e fn nn pr ports ranges) (\<lambda>s t. built t \<and> s = createFirewallStepName) built"
proof (rule triple_at)
  fix t assume b: "built t"
  have "\<exists>t'. append_step e createFirewallStepName
         (\<lambda>s. case st_CreateFirewalls s of None \<Rightarrow> None
            | Some fs \<Rightarrow> Some (s\<lparr>st_CreateFirewalls := Some (fs @ [f])\<rparr>))
         (st_CreateFirewalls_update (\<lambda>_. Some [f])) t = (Ok createFirewallStepName, t')
      \<and> built t' \<and> has_step t' createFirewallStepName" for f
  proof (rule append_step_ok [OF e b])
    fix s assume "step_of t createFirewallStepName = Some s"
    from built_fits [OF b this] show "\<exists>s'. (case st_CreateFirewalls s of None \<Rightarrow> None
            | Some fs \<Rightarrow> Some (s\<lparr>st_CreateFirewalls := Some (fs @ [f])\<rparr>)) = Some s'
        \<and> fits createFirewallStepName s' \<and> (\<forall>a \<in> set (step_machines s'). a < length (tw_machines t))"
      by (auto simp: fits_simps)
  qed (auto simp: fits_simps)
  from this [of "\<lparr>fw_Name = fn, fw_Description = CITDescription [], fw_Network = nn,
      fw_SourceRanges = (case ranges of None \<Rightarrow> [DefaultSourceRange] | Some rs \<Rightarrow> rs), fw_Allowed = [(pr, ports)]\<rparr>"]
  show "lands (\<lambda>s t. built t \<and> s = createFirewallStepName) built (appendCreateFirewallStep e fn nn pr ports ranges t)"
    unfolding appendCreateFirewallStep_def Let_def by auto
qed

text \<open>The machines after a step that creates what they use.\<close>

lemma machines_after:
  assumes "engine_ok e" and "level s < 4" and "\<not> quota_step s"
  shows "keeps built (\<lambda>t. if step_of t createVMsStepName = None then give () t
           else AddDependency e (Some createVMsStepName) (Some s) t)"
  using lower_dependency [OF assms(1), of s createVMsStepName] assms(2,3)
  by (auto simp: keeps_def triple_def give_def levels)

lemma CreateNetwork_keeps:
  assumes e: "engine_ok e"
  shows "keeps built (CreateNetworkFromDaisyNetwork e n)" and "keeps built (CreateNetwork e name auto)"
proof -
  have c: "keeps built (and_then (appendCreateNetworkStep e m) (\<lambda>(cs, a).
      and_then (\<lambda>t. if step_of t createVMsStepName = None then give () t
                  else AddDependency e (Some createVMsStepName) (Some cs) t) (\<lambda>_. give (h a))))" for m h
    unfolding keeps_def
  proof (rule triple_and_then [OF appendCreateNetworkStep_triple [OF e]], goal_cases)
    case (1 r)
    have "keeps built (and_then (\<lambda>t. if step_of t createVMsStepName = None then give () t
        else AddDependency e (Some createVMsStepName) (Some createNetworkStepName) t) (\<lambda>_. give (h (snd r))))"
      by (intro keeps_and_then machines_after [OF e] keeps_ends) (simp_all add: levels not_quota)
    then show ?case by (cases r) (auto simp: keeps_def triple_def)
  qed
  show "keeps built (CreateNetworkFromDaisyNetwork e n)" and "keeps built (CreateNetwork e name auto)"
    unfolding CreateNetworkFromDaisyNetwork_def CreateNetwork_def Let_def by (rule c)+
qed

lemma CreateSubnetwork_keeps:
  assumes e: "engine_ok e"
  shows "keeps built (CreateSubnetworkFromDaisySubnetwork e n s)" and "keeps built (CreateSubnetwork e n name rng)"
proof -
  show k: "keeps built (CreateSubnetworkFromDaisySubnetwork e n s)" for s
    unfolding CreateSubnetworkFromDaisySubnetwork_def keeps_def
  proof (rule triple_and_then [OF appendCreateSubnetworksStep_triple [OF e]], goal_cases)
    case (1 r)
    have "keeps built (AddDependency e (Some createSubnetworkStepName) (Some createNetworkStepName))"
      by (rule lower_dependency [OF e]) (simp_all add: levels not_quota)
    then have "keeps built (\<lambda>t. if step_of t createNetworkStepName = None then raise ''create-network step missing'' t
        else AddDependency e (Some createSubnetworkStepName) (Some createNetworkStepName) t)"
      by (simp add: keeps_def triple_def raise_def)
    from keeps_and_then [OF this keeps_ends(1)]
    show ?case by (cases r) (auto simp: keeps_def triple_def)
  qed
  show "keeps built (CreateSubnetwork e n name rng)" unfolding CreateSubnetwork_def by (rule k)
qed

lemma CreateFirewallRule_keeps:
  assumes e: "engine_ok e"
  shows "keeps built (CreateFirewallRule e n fn pr ports ranges)"
  unfolding CreateFirewallRule_def keeps_def
proof (rule triple_and_then [OF appendCreateFirewallStep_triple [OF e]], goal_cases)
  case (1 s)
  have "keeps built (and_then (depend_if_there e createFirewallStepName createNetworkStepName) (\<lambda>_ t.
      if step_of t createVMsStepName = None then give () t
      else AddDependency e (Some createVMsStepName) (Some createFirewallStepName) t))"
    by (intro keeps_and_then lower_depend_if_there [OF e] machines_after [OF e]) (simp_all add: levels not_quota)
  then show ?case by (auto simp: keeps_def triple_def)
qed

lemma waitForQuotaStep_keeps:
  assumes e: "engine_ok e" and q: "quota_step n"
  shows "keeps built (waitForQuotaStep e qa n)"
  unfolding keeps_def
proof (rule triple_at)
  fix t assume b: "built t"
  have up: "lands (\<lambda>_. built) built (case step_of t n of None \<Rightarrow> panic t
      | Some s \<Rightarrow> (case st_Quotas s of None \<Rightarrow> panic t
          | Some (interval, qs) \<Rightarrow> modify (update_step n (st_Quotas_update (\<lambda>_. Some (interval, add_quota qa qs)))) t))"
    if b: "built t" and h: "step_of t n = Some s" for t s
  proof -
    obtain i qs where s: "st_Quotas s = Some (i, qs)"
      using built_fits [OF b h] q by (auto simp: fits_def)
    have "built (update_step n (st_Quotas_update (\<lambda>_. Some (i, add_quota qa qs))) t)"
      using built_fits [OF b] q
      by (intro built_update_step [OF b]) (auto simp: fits_def step_machines_def)
    then show ?thesis using h s by (simp add: modify_def)
  qed
  show "lands (\<lambda>_. built) built (waitForQuotaStep e qa n t)"
  proof (cases "step_of t n")
    case (Some s)
    then show ?thesis using up [OF b Some] by (simp add: waitForQuotaStep_def and_then_def give_def)
  next
    case None
    let ?f = "st_Quotas_update (\<lambda>_. Some (''90s'', []))"
    have no: "\<not> has_step t n" using None step_of_has by blast
    then have new: "single_step e n ?f t = (Ok n, stepped n ?f t)" using single_step_cases [OF e, of n ?f t] by blast
    have f: "fits n (?f new_step)" using q by (auto simp: fits_simps)
    have b': "built (stepped n ?f t)" by (simp add: built_stepped b no f)
    have h: "step_of (stepped n ?f t) n \<noteq> None" using step_of_has by simp
    then obtain s where "step_of (stepped n ?f t) n = Some s" by blast
    from up [OF b' this] show ?thesis
      using None new by (simp add: waitForQuotaStep_def and_then_def give_def)
  qed
qed

lemma wait_quota_keeps:
  assumes "engine_ok e"
  shows "keeps built (WaitForVMQuota e qa)" and "keeps built (WaitForDisksQuota e qa)"
  unfolding WaitForVMQuota_def WaitForDisksQuota_def
  by (rule waitForQuotaStep_keeps [OF assms], simp add: quota_step_def)+

end
