(* ===== verification/Fixtures_Chains.thy ===== *)
theory Fixtures_Chains
  imports Fixtures_Builders
begin

text \<open>
  What two of the operations do to the graph in full: where a reboot goes, and what the creation of a
  machine leaves.
\<close>

subsection \<open>Inside a reboot\<close>

text \<open>
  A chain: the step at its end is the only one that depends on the one before.  \<open>Reboot\<close> puts four
  new steps behind the last step of the machine.
\<close>

lemma rdeps_update:
  assumes "lookup0 deps [] a = []"
  shows "x \<noteq> b \<Longrightarrow> rdeps (AList.update a [b] deps) x = rdeps deps x"
    and "rdeps deps b = [] \<Longrightarrow> rdeps (AList.update a [b] deps) b = [a]"
proof -
  have "rdeps (AList.update a [b] deps) x = rdeps deps x" if "x \<noteq> b"
    using assms that by (induction deps) (auto simp: rdeps_def lookup0_def)
  moreover have "rdeps (AList.update a [b] deps) b = [a]" if "rdeps deps b = []"
    using assms that by (induction deps) (auto simp: rdeps_def lookup0_def)
  ultimately show "x \<noteq> b \<Longrightarrow> rdeps (AList.update a [b] deps) x = rdeps deps x"
    and "rdeps deps b = [] \<Longrightarrow> rdeps (AList.update a [b] deps) b = [a]" by blast+
qed

lemma rdeps_with_dep:
  assumes "deps_of w a = []"
  shows "x \<noteq> b \<Longrightarrow> rdeps (wf_Dependencies (with_dep a b w)) x = rdeps (wf_Dependencies w) x"
    and "rdeps (wf_Dependencies w) b = [] \<Longrightarrow> rdeps (wf_Dependencies (with_dep a b w)) b = [a]"
  using rdeps_update [of "wf_Dependencies w" a] assms by (simp_all add: with_dep_def deps_of_def)

text \<open>Where the walk has a way, it goes the same way when only its end is extended.\<close>

lemma follow_extend:
  assumes "follow deps s = Some (Some l)" and "\<And>x. rdeps deps x \<noteq> [] \<Longrightarrow> rdeps deps' x = rdeps deps x"
  shows "follow deps' s = follow deps' l"
proof -
  have "(\<forall>x. rdeps deps x \<noteq> [] \<longrightarrow> rdeps deps' x = rdeps deps x) \<longrightarrow> (\<forall>l. r = Some l \<longrightarrow> follow deps' s = follow deps' l)"
    if "follow deps s = Some r" for r
  proof (rule follow.raw_induct [OF _ that, where P = "\<lambda>deps s r.
      (\<forall>x. rdeps deps x \<noteq> [] \<longrightarrow> rdeps deps' x = rdeps deps x) \<longrightarrow> (\<forall>l. r = Some l \<longrightarrow> follow deps' s = follow deps' l)"],
      intro impI)
    fix f deps s r
    assume IH: "\<And>s b y. f s b = Some y \<Longrightarrow> (\<forall>x. rdeps s x \<noteq> [] \<longrightarrow> rdeps deps' x = rdeps s x)
        \<longrightarrow> (\<forall>l. y = Some l \<longrightarrow> follow deps' b = follow deps' l)"
      and r: "(case rdeps deps s of [] \<Rightarrow> Some (Some s) | [d] \<Rightarrow> f deps d | d # aa # lista \<Rightarrow> Some None) = Some r"
      and same: "\<forall>x. rdeps deps x \<noteq> [] \<longrightarrow> rdeps deps' x = rdeps deps x"
    show "\<forall>l. r = Some l \<longrightarrow> follow deps' s = follow deps' l"
    proof (cases "rdeps deps s")
      case Nil
      then show ?thesis using r by auto
    next
      case (Cons d ds)
      then have "rdeps deps' s = d # ds" using same by simp
      then have "follow deps' s = (case ds of [] \<Rightarrow> follow deps' d | _ \<Rightarrow> Some None)"
        by (subst follow.simps) simp
      then show ?thesis using r Cons IH [of deps d r] same by (cases ds) auto
    qed
  qed
  then show ?thesis using assms by blast
qed

text \<open>A new step behind the end of a chain becomes its end.\<close>

lemma follow_after:
  assumes s: "sound_graph (tw_wf t)" and "follow (wf_Dependencies (tw_wf t)) x = Some (Some l)"
    and ln: "l \<noteq> n" and new: "\<not> has_step t n"
  shows "follow (wf_Dependencies (with_dep n l (tw_wf (stepped n f t)))) x = Some (Some n)"
proof -
  let ?d = "wf_Dependencies (tw_wf t)" and ?d' = "wf_Dependencies (with_dep n l (tw_wf (stepped n f t)))"
  have sd: "wf_Dependencies (tw_wf (stepped n f t)) = ?d" by (simp add: stepped_def update_step_def)
  have u: "unlinked (tw_wf t) n" using unlinked_new [OF s new] .
  have "deps_of (tw_wf (stepped n f t)) n = deps_of (tw_wf t) n" by (simp add: deps_of_def sd)
  also have "\<dots> = []"
    using u by (cases "deps_of (tw_wf t) n") (auto simp: unlinked_def depends_def)
  finally have e: "deps_of (tw_wf (stepped n f t)) n = []" .
  have "\<forall>y. (y, l) \<notin> depends (tw_wf t)" using assms(2) follow_ends [OF s, of x] by auto
  then have l: "rdeps ?d l = []"
    using rdeps_depends [OF s, of _ l] by (metis list.set_intros(1) neq_Nil_conv)
  have n: "rdeps ?d n = []"
    using u rdeps_depends [OF s, of _ n] unfolding unlinked_def by (metis list.set_intros(1) neq_Nil_conv)
  have dy: "rdeps ?d' y = rdeps ?d y" if "y \<noteq> l" for y
    using rdeps_with_dep(1) [OF e that] by (simp add: sd)
  have dl: "rdeps ?d' l = [n]" using rdeps_with_dep(2) [OF e] l by (simp add: sd)
  have d': "rdeps ?d y \<noteq> [] \<Longrightarrow> rdeps ?d' y = rdeps ?d y" for y
    using dy l by (cases "y = l") simp_all
  have "follow ?d' x = follow ?d' l" by (rule follow_extend [OF assms(2) d'])
  also have "\<dots> = follow ?d' n" using dl by (subst follow.simps) simp
  also have "\<dots> = Some (Some n)" using dy [OF ln [symmetric]] n by (subst follow.simps) simp
  finally show ?thesis .
qed

lemma after_Ok:
  assumes e: "engine_ok e" and r: "after e (Some p) (single_step e n f) t = (Ok s, t')"
  shows "s = n \<and> \<not> has_step t n \<and> t' = (stepped n f t)\<lparr>tw_wf := with_dep n p (tw_wf (stepped n f t))\<rparr>"
  using single_step_cases [OF e, of n f t] AddDependency_cases [OF e, of "Some n" "Some p" "stepped n f t"] r
  by (auto simp: after_def and_then_def give_def)

text \<open>The walk from the wait step of a machine ends at \<open>l\<close>.\<close>

definition ends_at :: "test_workflow \<Rightarrow> string \<Rightarrow> string \<Rightarrow> bool" where
  "ends_at t x l \<longleftrightarrow> follow (wf_Dependencies (tw_wf t)) x = Some (Some l) \<and> has_step t x"

lemma after_ends_at:
  assumes e: "engine_ok e" and n: "level n = 5" "step_machines (f new_step) = []"
    and r: "after e (Some p) (single_step e n f) t = (Ok s, t')" and t: "ready p t" "ends_at t x p"
  shows "ready s t' \<and> ends_at t' x s \<and> s = n \<and> depends (tw_wf t') = insert (n, p) (depends (tw_wf t))"
proof -
  note o = after_Ok [OF e r]
  have b: "sound_graph (tw_wf t)" using t(1) by (simp add: built_def)
  have "ready n t'" using o after_stepped [of t n p f] n t(1) by simp
  moreover have "ends_at t' x n"
    using follow_after [OF b, of x p n f] t o by (auto simp: ends_at_def)
  ultimately show ?thesis using o by simp
qed

lemma last_step_ends_at:
  assumes "last_step err n t = (Ok r, t')" and "built t" and "plain n"
  shows "\<exists>l. r = Some l \<and> t' = t \<and> ready l t \<and> ends_at t (''wait-'' @ n) l"
proof -
  have s: "sound_graph (tw_wf t)" using assms(2) by (simp add: built_def)
  obtain l where l: "r = Some l" "t' = t" "is_last t n l" "level l = 5"
    using last_step_cases [OF assms(2,3), of err] assms(1) by auto
  have "getLastStepForVM t n t = (Ok (Some l), t)"
    using assms(1) l by (auto simp: last_step_def split: prod.splits outcome.splits)
  then have "ends_at t (''wait-'' @ n) l"
    using step_of_has [of t "''wait-'' @ n"]
    by (auto simp: getLastStepForVM_def Let_def raise_def hang_def give_def ends_at_def
        split: if_splits option.splits)
  then show ?thesis using l assms(2) by (auto simp: is_last_def)
qed

lemma Reboot_chain:
  assumes e: "engine_ok e" and b: "built t" and p: "plain (vm_name vm)" and r: "Reboot e vm t = (Ok u, t')"
    and sfx: "sfx = vm_name vm @ ''-'' @ utoa (Suc (tw_counter t))"
  shows "\<exists>l. ends_at t (''wait-'' @ vm_name vm) l \<and> built t' \<and> ends_at t' (''wait-'' @ vm_name vm) (''wait-started-'' @ sfx)
    \<and> depends (tw_wf t') = depends (tw_wf t) \<union> {(''stop-'' @ sfx, l), (''wait-stopped-stopped-'' @ sfx, ''stop-'' @ sfx),
        (''start-'' @ sfx, ''wait-stopped-stopped-'' @ sfx), (''wait-started-'' @ sfx, ''start-'' @ sfx)}"
proof -
  let ?x = "''wait-'' @ vm_name vm" and ?t = "t\<lparr>tw_counter := Suc (tw_counter t)\<rparr>"
  have sx: "next_suffix vm t = (Ok sfx, ?t)" by (simp add: next_suffix_def give_def Let_def sfx)
  obtain q s1 s2 s3 s4 t0 t1 t2 t3 where
      a0: "last_step ''failed resolve last step'' (vm_name vm) ?t = (Ok q, t0)" and
      a1: "after e q (addStopStep e sfx (vm_name vm)) t0 = (Ok s1, t1)" and
      a2: "after e (Some s1) (addWaitStoppedStep e (''stopped-'' @ sfx) (vm_name vm)) t1 = (Ok s2, t2)" and
      a3: "after e (Some s2) (addStartStep e sfx (vm_name vm)) t2 = (Ok s3, t3)" and
      a4: "after e (Some s3) (addWaitStep e (''started-'' @ sfx) (vm_name vm)) t3 = (Ok s4, t')"
    using r unfolding Reboot_def Let_def and_then_Ok sx give_def by blast
  obtain l where l: "q = Some l" "t0 = ?t" "ready l ?t" "ends_at ?t ?x l"
    using last_step_ends_at [OF a0 _ p] b by auto
  have lv: "level (''stop-'' @ sfx) = 5" "level (''wait-stopped-'' @ ''stopped-'' @ sfx) = 5"
      "level (''start-'' @ sfx) = 5" "level (''wait-'' @ ''started-'' @ sfx) = 5"
    by (simp_all add: level_def step_name_defs)
  note c1 = after_ends_at [OF e lv(1) no_machines(2) a1 [unfolded addStopStep_def l(1,2)] l(3,4)]
  note c2 = after_ends_at [OF e lv(2) no_machines(1) a2 [unfolded addWaitStoppedStep_def]
      c1 [THEN conjunct1] c1 [THEN conjunct2, THEN conjunct1]]
  note c3 = after_ends_at [OF e lv(3) no_machines(3) a3 [unfolded addStartStep_def]
      c2 [THEN conjunct1] c2 [THEN conjunct2, THEN conjunct1]]
  note c4 = after_ends_at [OF e lv(4) no_machines(1) a4 [unfolded addWaitStep_def]
      c3 [THEN conjunct1] c3 [THEN conjunct2, THEN conjunct1]]
  have n: "s1 = ''stop-'' @ sfx" "s2 = ''wait-stopped-stopped-'' @ sfx" "s3 = ''start-'' @ sfx" "s4 = ''wait-started-'' @ sfx"
    using c1 c2 c3 c4 by simp_all
  have d: "depends (tw_wf t1) = insert (s1, l) (depends (tw_wf t))" "depends (tw_wf t2) = insert (s2, s1) (depends (tw_wf t1))"
      "depends (tw_wf t3) = insert (s3, s2) (depends (tw_wf t2))" "depends (tw_wf t') = insert (s4, s3) (depends (tw_wf t3))"
    using c1 c2 c3 c4 by simp_all
  have "ends_at t ?x l" using l(4) by (simp add: ends_at_def)
  moreover have "depends (tw_wf t') = depends (tw_wf t) \<union> {(s1, l), (s2, s1), (s3, s2), (s4, s3)}"
    unfolding d by blast
  ultimately show ?thesis using c4 unfolding n by blast
qed

subsection \<open>Inside the creation of a machine\<close>

text \<open>Nothing that was there is changed, apart from the step \<open>n\<close>.\<close>

definition grows :: "string option \<Rightarrow> test_workflow \<Rightarrow> test_workflow \<Rightarrow> bool" where
  "grows n t t' \<longleftrightarrow> (\<forall>k s. Some k \<noteq> n \<longrightarrow> step_of t k = Some s \<longrightarrow> step_of t' k = Some s)
     \<and> (\<exists>ms. tw_machines t' = tw_machines t @ ms) \<and> depends (tw_wf t) \<subseteq> depends (tw_wf t')"

lemma grows_trans: "grows n t u \<Longrightarrow> grows n u v \<Longrightarrow> grows n t v"
  unfolding grows_def by (metis (no_types, lifting) append.assoc subset_trans)

lemma grows_any: "grows None t u \<Longrightarrow> grows n t u"
  by (auto simp: grows_def)

lemma step_of_update: "step_of (update_step n f t) k = (if k = n then map_option f (step_of t n) else step_of t k)"
  by (simp add: step_of_def update_step_def map_of_map_entry split: option.split)

lemma step_of_stepped:
  assumes "\<not> has_step t n"
  shows "step_of (stepped n f t) k = (if k = n then Some (f new_step) else step_of t k)"
  using assms step_of_has [of t n]
  by (auto simp: step_of_def stepped_steps map_add_def split: option.splits)

lemma single_step_grows:
  assumes "engine_ok e" and "single_step e n f t = (Ok s, t')"
  shows "s = n \<and> grows None t t' \<and> step_of t' n = Some (f new_step)"
  using single_step_cases [OF assms(1), of n f t] assms(2) step_of_has [of t]
  by (auto simp: grows_def step_of_stepped)

lemma AddDependency_grows:
  assumes "engine_ok e" and "AddDependency e (Some a) (Some b) t = (Ok u, t')"
  shows "grows None t t' \<and> (a, b) \<in> depends (tw_wf t')"
  using AddDependency_cases [OF assms(1), of "Some a" "Some b" t] assms(2)
  by (auto simp: grows_def step_of_def)

lemma depend_if_there_grows:
  assumes "engine_ok e" and "depend_if_there e a b t = (Ok u, t')"
  shows "grows None t t' \<and> (step_of t b \<noteq> None \<longrightarrow> (a, b) \<in> depends (tw_wf t'))"
  using AddDependency_grows [OF assms(1), of a b t u t'] assms(2)
  by (auto simp: depend_if_there_def give_def grows_def split: if_splits)

lemma append_step_grows:
  assumes e: "engine_ok e" and r: "append_step e n add fresh t = (Ok s, t')"
  shows "s = n \<and> grows (Some n) t t' \<and> (case step_of t n of
      None \<Rightarrow> step_of t' n = Some (fresh new_step) | Some c \<Rightarrow> add c = step_of t' n \<and> step_of t' n \<noteq> None)"
proof (cases "step_of t n")
  case None
  then have "\<not> has_step t n" using step_of_has by blast
  then have "s = n \<and> t' = stepped n fresh t" using r None NewStep_cases [OF e, of n t]
    by (auto simp: append_step_def and_then_def modify_def give_def stepped_def)
  with None \<open>\<not> has_step t n\<close> show ?thesis by (auto simp: step_of_stepped grows_def)
next
  case (Some c)
  then show ?thesis using r
    by (auto simp: append_step_def and_then_def modify_def give_def panic_def step_of_update grows_def
        split: option.splits)
qed

lemma add_machine_step_grows:
  assumes "engine_ok e" and "add_machine_step e beta a t = (Ok s, t')"
  shows "s = createVMsStepName \<and> grows (Some createVMsStepName) t t'
    \<and> (\<exists>c. step_of t' createVMsStepName = Some c \<and> a \<in> set (step_machines c))"
proof -
  note g = append_step_grows [OF assms(1) assms(2) [unfolded add_machine_step_def Let_def]]
  show ?thesis
  proof (cases "step_of t createVMsStepName")
    case None
    then show ?thesis using g by (auto simp: step_machines_def)
  next
    case (Some c)
    then show ?thesis using g
      by (cases "st_CreateInstances c") (auto simp: step_machines_def)
  qed
qed

lemma add_disk_step_grows:
  assumes "engine_ok e" and "add_disk_step e d t = (Ok s, t')"
  shows "s = createDisksStepName \<and> grows (Some createDisksStepName) t t'
    \<and> (\<exists>c ds. step_of t' createDisksStepName = Some c \<and> st_CreateDisks c = Some ds \<and> d \<in> set ds)"
proof -
  note g = append_step_grows [OF assms(1) assms(2) [unfolded add_disk_step_def]]
  show ?thesis
  proof (cases "step_of t createDisksStepName")
    case (Some c)
    then show ?thesis using g by (cases "st_CreateDisks c") auto
  qed (use g in auto)
qed

definition fresh_machine :: "test_workflow \<Rightarrow> engine \<Rightarrow> string \<Rightarrow> string \<Rightarrow> machine" where
  "fresh_machine t e mt v =
     skipWindowsStagingKMS t (HasFeature (tw_Image t) ''WINDOWS'') (setInstanceTestMetadata t
       (startup_script t (HasFeature (tw_Image t) ''WINDOWS'') (add_disks [disk_named v]
         (reserve t (tw_ReservationAffinity t) (mark_machine e (windows_suffix t) v (maintenance mt new_machine)))))
       (windows_suffix t))"

lemma startup_script_sel [simp]:
  "m_Name (startup_script t w i) = m_Name i" "m_Labels (startup_script t w i) = m_Labels i"
  "m_Description (startup_script t w i) = m_Description i" "m_Disks (startup_script t w i) = m_Disks i"
  by (simp_all add: startup_script_def)

lemma reserve_sel [simp]:
  "m_Name (reserve t a i) = m_Name i" "m_Labels (reserve t a i) = m_Labels i"
  "m_Description (reserve t a i) = m_Description i" "m_Disks (reserve t a i) = m_Disks i"
  by (simp_all add: reserve_def Let_def split: option.split)

lemma maintenance_sel [simp]:
  "m_Labels (maintenance mt i) = m_Labels i" "m_Description (maintenance mt i) = m_Description i"
  "m_Disks (maintenance mt i) = m_Disks i"
  by (simp_all add: maintenance_def Let_def)

lemma skip_kms_sel [simp]:
  "m_Name (skipWindowsStagingKMS t w i) = m_Name i" "m_Labels (skipWindowsStagingKMS t w i) = m_Labels i"
  "m_Description (skipWindowsStagingKMS t w i) = m_Description i"
  "m_Disks (skipWindowsStagingKMS t w i) = m_Disks i"
  by (simp_all add: skipWindowsStagingKMS_def)

lemma skip_kms_metadata:
  "k \<noteq> ''sysprep-specialize-script-ps1'' \<Longrightarrow> m_Metadata (skipWindowsStagingKMS t w i) k = m_Metadata i k"
  by (simp add: skipWindowsStagingKMS_def)

lemma test_metadata_sel [simp]:
  "m_Name (setInstanceTestMetadata t i x) = m_Name i" "m_Labels (setInstanceTestMetadata t i x) = m_Labels i"
  "m_Description (setInstanceTestMetadata t i x) = m_Description i"
  "m_Disks (setInstanceTestMetadata t i x) = m_Disks i"
  by (simp_all add: setInstanceTestMetadata_def)

lemma add_disks_sel [simp]:
  "m_Name (add_disks ds i) = m_Name i" "m_Labels (add_disks ds i) = m_Labels i"
  "m_Description (add_disks ds i) = m_Description i" "m_Disks (add_disks ds i) = m_Disks i @ map attach ds"
  by (simp_all add: add_disks_def)

lemma mark_machine_sel [simp]:
  "m_Name (mark_machine e x v i) = v" "m_Labels (mark_machine e x v i) = CITLabels (m_Labels i)"
  "m_Description (mark_machine e x v i) = CITDescription (m_Description i)"
  "m_Disks (mark_machine e x v i) = m_Disks i"
  by (simp_all add: mark_machine_def)

lemma fresh_machine_props:
  "m_Name (fresh_machine t e mt v) = v"
  "isCITResource (m_Labels (fresh_machine t e mt v)) (m_Description (fresh_machine t e mt v))"
  "map at_Source (m_Disks (fresh_machine t e mt v)) = [v]"
  "m_Metadata (fresh_machine t e mt v) ''_test_vmname'' = Some v"
  "m_Metadata (fresh_machine t e mt v) ''_test_results_url'' = Some (''${OUTSPATH}/'' @ v @ ''.txt'')"
  by (simp_all add: fresh_machine_def CITLabels_marked disk_named_def attach_def new_machine_def skip_kms_metadata)
    (simp_all add: setInstanceTestMetadata_def)

lemma appendCreateVMStep_Ok:
  assumes "appendCreateVMStep e [disk_named v] new_machine t = (Ok (s, a), t')"
  shows "v \<noteq> [] \<and> \<not> Contains v ''-'' \<and> a = length (tw_machines t) \<and> (\<exists>mt. add_machine_step e False a
    (t\<lparr>tw_machines := tw_machines t @ [fresh_machine t e mt v]\<rparr>) = (Ok s, t'))"
  using assms
  by (auto simp: appendCreateVMStep_def Let_def raise_def panic_def and_then_Ok alloc_machine_def give_def
      boot_disk_error_def dash_error_def disk_named_def fresh_machine_def split: option.splits if_splits)

text \<open>What a machine that has been created is, in the workflow and in the graph of its steps.\<close>

definition machine_built :: "test_workflow \<Rightarrow> test_vm \<Rightarrow> test_workflow \<Rightarrow> bool" where
  "machine_built t vm t' \<longleftrightarrow>
     (let a = ref_addr (vm_ref vm); v = vm_name vm; m = machine_of vm t'
      in a = length (tw_machines t) \<and> a < length (tw_machines t')
         \<and> m_Name m = v \<and> isCITResource (m_Labels m) (m_Description m) \<and> map at_Source (m_Disks m) = [v]
         \<and> m_Metadata m ''_test_vmname'' = Some v
         \<and> m_Metadata m ''_test_results_url'' = Some (''${OUTSPATH}/'' @ v @ ''.txt'')
         \<and> (\<exists>c. step_of t' createVMsStepName = Some c \<and> a \<in> set (step_machines c))
         \<and> (\<exists>c ds. step_of t' createDisksStepName = Some c \<and> st_CreateDisks c = Some ds
              \<and> (\<exists>d \<in> set ds. wd_Name d = v \<and> wd_SourceImage d = tw_ImageURL t))
         \<and> step_of t' (''wait-'' @ v) = Some (new_step\<lparr>st_Signals := Some [test_signal GuestAttributeTestKey v]\<rparr>)
         \<and> {(''wait-'' @ v, createVMsStepName), (createVMsStepName, createDisksStepName)} \<subseteq> depends (tw_wf t')
         \<and> (\<forall>s \<in> {createNetworkStepName, createSubnetworkStepName}. has_step t s \<longrightarrow> (createVMsStepName, s) \<in> depends (tw_wf t')))"

lemma disk_step_names:
  "createVMsStepName \<noteq> createDisksStepName" "''wait-'' @ v \<noteq> createVMsStepName"
  "''wait-'' @ v \<noteq> createDisksStepName" "createNetworkStepName \<noteq> createVMsStepName"
  "createSubnetworkStepName \<noteq> createVMsStepName" "createNetworkStepName \<noteq> createDisksStepName"
  "createSubnetworkStepName \<noteq> createDisksStepName"
  by (simp_all add: step_name_defs)

lemma grows_nth:
  assumes "grows n t t'" and "a < length (tw_machines t)"
  shows "a < length (tw_machines t') \<and> tw_machines t' ! a = tw_machines t ! a"
  using assms by (auto simp: grows_def nth_append)

lemma grows_step: "grows n t t' \<Longrightarrow> Some k \<noteq> n \<Longrightarrow> step_of t k = Some s \<Longrightarrow> step_of t' k = Some s"
  by (simp add: grows_def)

lemma grows_some: "grows n t t' \<Longrightarrow> Some k \<noteq> n \<Longrightarrow> step_of t k \<noteq> None \<Longrightarrow> step_of t' k \<noteq> None"
  by (auto simp: grows_def)

lemma appendCreateDisksStep_grows:
  assumes "engine_ok e" and "appendCreateDisksStep e (disk_named v) t = (Ok s, t')"
  shows "s = createDisksStepName \<and> grows (Some createDisksStepName) t t' \<and> tw_machines t' = tw_machines t
    \<and> (\<exists>c ds. step_of t' createDisksStepName = Some c \<and> st_CreateDisks c = Some ds
         \<and> (\<exists>d \<in> set ds. wd_Name d = v \<and> wd_SourceImage d = tw_ImageURL t))"
proof -
  let ?d = "\<lparr>wd_Name = v, wd_Description = CITDescription [], wd_Labels = CITLabels [],
      wd_SourceImage = tw_ImageURL t, wd_Type = [], wd_Zone = [], wd_SizeGb = itoa 0\<rparr>"
  have r: "add_disk_step e ?d t = (Ok s, t')"
    using assms(2) by (simp add: appendCreateDisksStep_def disk_named_def raise_def split: if_splits)
  obtain c ds where c: "step_of t' createDisksStepName = Some c" "st_CreateDisks c = Some ds" "?d \<in> set ds"
    using add_disk_step_grows [OF assms(1) r] by blast
  have "\<exists>d \<in> set ds. wd_Name d = v \<and> wd_SourceImage d = tw_ImageURL t"
    using c(3) by (intro bexI [of _ ?d]) simp_all
  moreover have "tw_machines t' = tw_machines t" using r machines_grow unfolding add_disk_step_def by blast
  ultimately show ?thesis using add_disk_step_grows [OF assms(1) r] c(1,2) by blast
qed

lemma appendCreateVMStep_grows:
  assumes "engine_ok e" and "appendCreateVMStep e [disk_named v] new_machine t = (Ok (s, a), t')"
  shows "v \<noteq> [] \<and> \<not> Contains v ''-'' \<and> s = createVMsStepName \<and> a = length (tw_machines t)
    \<and> grows (Some createVMsStepName) t t' \<and> a < length (tw_machines t')
    \<and> (\<exists>mt. tw_machines t' ! a = fresh_machine t e mt v)
    \<and> (\<exists>c. step_of t' createVMsStepName = Some c \<and> a \<in> set (step_machines c))"
proof -
  obtain mt where v: "v \<noteq> []" "\<not> Contains v ''-''" "a = length (tw_machines t)"
    and r: "add_machine_step e False a (t\<lparr>tw_machines := tw_machines t @ [fresh_machine t e mt v]\<rparr>) = (Ok s, t')"
    using appendCreateVMStep_Ok [OF assms(2)] by blast
  let ?t = "t\<lparr>tw_machines := tw_machines t @ [fresh_machine t e mt v]\<rparr>"
  note g = add_machine_step_grows [OF assms(1) r]
  have "grows (Some createVMsStepName) t ?t" by (simp add: grows_def step_of_def)
  then have "grows (Some createVMsStepName) t t'" using g grows_trans by blast
  moreover have "a < length (tw_machines t') \<and> tw_machines t' ! a = fresh_machine t e mt v"
    using g grows_nth [of _ ?t t' a] v(3) by auto
  ultimately show ?thesis using g v by blast
qed

lemma connect_machine_grows:
  assumes e: "engine_ok e" and r: "connect_machine e cv (addWaitStep e v v) t = (Ok u, t')"
  shows "grows None t t' \<and> (''wait-'' @ v, cv) \<in> depends (tw_wf t')
    \<and> step_of t' (''wait-'' @ v) = Some (new_step\<lparr>st_Signals := Some [test_signal GuestAttributeTestKey v]\<rparr>)
    \<and> (\<forall>s \<in> {createNetworkStepName, createSubnetworkStepName}. step_of t s \<noteq> None \<longrightarrow> (cv, s) \<in> depends (tw_wf t'))"
proof -
  obtain ws t1 t2 t3 where
      a1: "addWaitStep e v v t = (Ok ws, t1)" and
      a2: "AddDependency e (Some ws) (Some cv) t1 = (Ok (), t2)" and
      a3: "depend_if_there e cv createSubnetworkStepName t2 = (Ok (), t3)" and
      a4: "depend_if_there e cv createNetworkStepName t3 = (Ok (), t')"
    using r by (auto simp: connect_machine_def and_then_Ok)
  note g = single_step_grows [OF e a1 [unfolded addWaitStep_def]] AddDependency_grows [OF e a2]
    depend_if_there_grows [OF e a3] depend_if_there_grows [OF e a4]
  have g2': "grows None t2 t'" and g1': "grows None t1 t'" and g': "grows None t t'"
    using g grows_trans by blast+
  have "(cv, s) \<in> depends (tw_wf t')"
    if s: "s \<in> {createNetworkStepName, createSubnetworkStepName}" and n: "step_of t s \<noteq> None" for s
  proof -
    have "grows None t t2" "grows None t t3" using g grows_trans by blast+
    then have "step_of t2 s \<noteq> None" "step_of t3 s \<noteq> None" using grows_some n by blast+
    then have "(cv, s) \<in> depends (tw_wf t3) \<or> (cv, s) \<in> depends (tw_wf t')" using s g by blast
    then show ?thesis using g by (auto simp: grows_def)
  qed
  moreover have "(''wait-'' @ v, cv) \<in> depends (tw_wf t')" using g g2' by (auto simp: grows_def)
  moreover have "step_of t' (''wait-'' @ v) = Some (new_step\<lparr>st_Signals := Some [test_signal GuestAttributeTestKey v]\<rparr>)"
    using g(1) grows_step [OF g1'] by simp
  ultimately show ?thesis using g' by blast
qed

lemma CreateTestVM_built:
  assumes e: "engine_ok e" and r: "CreateTestVM e name t = (Ok vm, t')"
  shows "vm_name vm = vmname_of name \<and> \<not> Contains (vm_name vm) ''-'' \<and> machine_built t vm t'"
proof -
  let ?v = "vmname_of name"
  obtain ds t1 cs a t2 t3 where
      a1: "appendCreateDisksStep e (disk_named ?v) t = (Ok ds, t1)" and
      a2: "appendCreateVMStep e [disk_named ?v] new_machine t1 = (Ok (cs, a), t2)" and
      a3: "AddDependency e (Some cs) (Some ds) t2 = (Ok (), t3)" and
      a4: "connect_machine e cs (addWaitStep e ?v ?v) t3 = (Ok (), t')" and
      vm: "vm = \<lparr>vm_name = ?v, vm_ref = GA a\<rparr>"
    using r by (auto simp: CreateTestVM_def Let_def and_then_Ok give_def)
  note g1 = appendCreateDisksStep_grows [OF e a1] and g2 = appendCreateVMStep_grows [OF e a2]
    and g3 = AddDependency_grows [OF e a3] and g4 = connect_machine_grows [OF e a4]
  have g: "grows None t2 t'" "grows None t3 t'" using g3 g4 grows_trans by blast+
  then have g12: "grows (Some createVMsStepName) t1 t'" using g2 grows_any grows_trans by blast
  have vs: "vm_name vm = ?v" "ref_addr (vm_ref vm) = a" "a = length (tw_machines t)"
    using vm g1 g2 by simp_all
  obtain mt where m: "machine_of vm t' = fresh_machine t1 e mt ?v"
    using g2 grows_nth [OF g(1), of a] vs(2) by (auto simp: machine_of_def)
  have net: "\<forall>s \<in> {createNetworkStepName, createSubnetworkStepName}. has_step t s \<longrightarrow> (createVMsStepName, s) \<in> depends (tw_wf t')"
  proof (intro ballI impI)
    fix s assume s: "s \<in> {createNetworkStepName, createSubnetworkStepName}" and h: "has_step t s"
    have n: "Some s \<noteq> Some createDisksStepName" "Some s \<noteq> Some createVMsStepName"
      using s disk_step_names by auto
    have "step_of t s \<noteq> None" using h step_of_has by blast
    then have "step_of t1 s \<noteq> None" using g1 n(1) grows_some by blast
    then have "step_of t2 s \<noteq> None" using g2 n(2) grows_some by blast
    then have "step_of t3 s \<noteq> None" using g3 grows_some by blast
    then show "(createVMsStepName, s) \<in> depends (tw_wf t')" using g2 g4 s by blast
  qed
  have "machine_built t vm t'"
    unfolding machine_built_def Let_def vs(1,2) m
  proof (intro conjI fresh_machine_props net vs(3))
    show "a < length (tw_machines t')" using g2 grows_nth [OF g(1)] by blast
    show "\<exists>c. step_of t' createVMsStepName = Some c \<and> a \<in> set (step_machines c)"
      using g2 grows_step [OF g(1)] by blast
    show "\<exists>c ds. step_of t' createDisksStepName = Some c \<and> st_CreateDisks c = Some ds
        \<and> (\<exists>d \<in> set ds. wd_Name d = ?v \<and> wd_SourceImage d = tw_ImageURL t)"
      using g1 grows_step [OF g12] disk_step_names(1) by (metis option.inject)
    show "step_of t' (''wait-'' @ ?v) = Some (new_step\<lparr>st_Signals := Some [test_signal GuestAttributeTestKey ?v]\<rparr>)"
      using g4 by blast
    show "{(''wait-'' @ ?v, createVMsStepName), (createVMsStepName, createDisksStepName)} \<subseteq> depends (tw_wf t')"
      using g1 g2 g3 g4 g by (intro insert_subsetI empty_subsetI) (auto simp: grows_def)
  qed
  then show ?thesis using g2 vs by simp
qed

end
