(* ===== verification/Fixtures_Guarantees.thy ===== *)
theory Fixtures_Guarantees
  imports Fixtures_Chains
begin

text \<open>
  What holds of a workflow after any sequence of calls of the fixtures, also of calls that failed: the
  graph of its steps, the marks of its resources, the order in which a machine is created and the
  place of a reboot.
\<close>

subsection \<open>Sequences of calls\<close>

text \<open>The effect of a call on the workflow, whatever its outcome.\<close>

inductive fixture_call :: "engine \<Rightarrow> (test_workflow \<Rightarrow> test_workflow) \<Rightarrow> bool" for e where
  vm: "plain (vmname_of name) \<Longrightarrow> fixture_call e (\<lambda>t. snd (CreateTestVM e name t))"
| vm_beta: "plain (vmname_of name) \<Longrightarrow> fixture_call e (\<lambda>t. snd (CreateTestVMBeta e name t))"
| vm_disks: "plain (vmname_of (dp_Name (hd disks))) \<Longrightarrow>
    fixture_call e (\<lambda>t. snd (CreateTestVMMultipleDisks e disks i t))"
| vm_disks_beta: "plain (vmname_of (dp_Name (hd disks))) \<Longrightarrow>
    fixture_call e (\<lambda>t. snd (CreateTestVMFromInstanceBeta e m disks t))"
| derivative: "plain (vm_name vm) \<Longrightarrow> fixture_call e (\<lambda>t. snd (CreateDerivativeVM e vm name t))"
| reboot: "plain (vm_name vm) \<Longrightarrow> fixture_call e (\<lambda>t. snd (Reboot e vm t))"
| resume: "plain (vm_name vm) \<Longrightarrow> fixture_call e (\<lambda>t. snd (Resume e vm t))"
| resize: "plain (vm_name vm) \<Longrightarrow> fixture_call e (\<lambda>t. snd (ResizeDiskAndReboot e vm diskSize t))"
| vm_quota: "fixture_call e (\<lambda>t. snd (WaitForVMQuota e qa t))"
| disk_quota: "fixture_call e (\<lambda>t. snd (WaitForDisksQuota e qa t))"
| daisy_network: "fixture_call e (\<lambda>t. snd (CreateNetworkFromDaisyNetwork e net t))"
| network: "fixture_call e (\<lambda>t. snd (CreateNetwork e name auto t))"
| daisy_subnetwork: "fixture_call e (\<lambda>t. snd (CreateSubnetworkFromDaisySubnetwork e n sub t))"
| subnetwork: "fixture_call e (\<lambda>t. snd (CreateSubnetwork e n name ipRange t))"
| firewall: "fixture_call e (\<lambda>t. snd (CreateFirewallRule e n name protocol ports ranges t))"
| skip: "fixture_call e (Skip message)"
| lock: "fixture_call e LockProject"
| load_balancers: "fixture_call e creates_load_balancers"
| skip_tests: "fixture_call e (SkipTests reason tests)"
| metadata: "fixture_call e (AddMetadata vm key val)"
| user: "fixture_call e (AddUser vm user key)"
| scripts: "fixture_call e (set_script key vm script)"
| script_files: "fixture_call e (\<lambda>t. snd (script_file src key file write vm t))"
| tests: "fixture_call e (RunTests vm runtest)"
| scope: "fixture_call e (AddScope vm scope)"
| disk: "fixture_call e (\<lambda>t. snd (AddDisk vm diskType initType t))"
| tier: "fixture_call e (\<lambda>t. snd (SetNetworkPerformanceTier vm tier t))"
| machine_type: "fixture_call e (ForceMachineType vm mt)"
| zone: "fixture_call e (ForceZone vm z)"
| secure_boot: "fixture_call e (EnableSecureBoot vm)"
| confidential: "fixture_call e (EnableConfidentialInstance vm)"
| min_cpu: "fixture_call e (SetMinCPUPlatform vm p)"
| gvnic: "fixture_call e (\<lambda>t. snd (UseGVNIC vm t))"
| mtu: "fixture_call e (SetMTU n mtu)"
| region: "fixture_call e (SetRegion sh region)"
| purpose: "fixture_call e (SetPurpose sh purpose)"
| role: "fixture_call e (SetRole sh role)"
| secondary: "fixture_call e (AddSecondaryRange sh rangeName ipRange)"
| stack: "fixture_call e (\<lambda>t. snd (AddCustomNetworkWithStackType vm n s stackType access t))"
| alias_ips: "fixture_call e (\<lambda>t. snd (AddAliasIPRanges vm aliasIPRange rangeName t))"
| private_ip: "fixture_call e (\<lambda>t. snd (SetPrivateIP vm n ip t))"
| ssh_key: "fixture_call e (\<lambda>t. snd (AddSSHKey file made user t))"

text \<open>A workflow before its setup: without steps, its machine type known.\<close>

definition fresh_workflow :: "test_workflow \<Rightarrow> bool" where
  "fresh_workflow t \<longleftrightarrow> wf_Steps (tw_wf t) = [] \<and> wf_Dependencies (tw_wf t) = []
     \<and> tw_MachineType t \<noteq> None \<and> tw_machines t = [] \<and> tw_networks t = [] \<and> tw_subnetworks t = []"

inductive built_by :: "engine \<Rightarrow> test_workflow \<Rightarrow> bool" for e where
  start: "fresh_workflow t \<Longrightarrow> built_by e t"
| call: "built_by e t \<Longrightarrow> fixture_call e f \<Longrightarrow> built_by e (f t)"

subsection \<open>The invariant holds\<close>

lemma fresh_built: "fresh_workflow t \<Longrightarrow> built t"
  by (auto simp: fresh_workflow_def built_def sound_graph_def step_names_def depends_def deps_of_def
      lookup0_def acyclic_def)

text \<open>The options do not touch the graph.\<close>

lemma same_graph:
  assumes "tw_wf t' = tw_wf t \<or> (\<exists>src. tw_wf t' = (tw_wf t)\<lparr>wf_Sources := src\<rparr>)"
    and "tw_MachineType t' = tw_MachineType t" and "length (tw_machines t') = length (tw_machines t)"
  shows "built t' = built t"
proof -
  have "wf_Steps (tw_wf t') = wf_Steps (tw_wf t)" "wf_Dependencies (tw_wf t') = wf_Dependencies (tw_wf t)"
    using assms(1) by auto
  then show ?thesis
    using assms(2,3) by (simp add: built_def sound_graph_def depends_def deps_of_def step_names_def)
qed

lemma built_machines: "length ms = length (tw_machines t) \<Longrightarrow> built (t\<lparr>tw_machines := ms\<rparr>) = built t"
  by (intro same_graph) auto

lemma built_sources: "built (t\<lparr>tw_wf := (tw_wf t)\<lparr>wf_Sources := src\<rparr>\<rparr>) = built t"
  by (intro same_graph) auto

lemmas outcome_defs = raise_def panic_def give_def modify_def and_then_def

lemma option_built:
  "built (update_vm vm g t) = built t" "built (update_network n h t) = built t"
  "built (update_subnetwork sh k t) = built t" "built (Skip message t) = built t"
  "built (LockProject t) = built t" "built (SkipTests reason tests t) = built t"
  "built (creates_load_balancers t) = built t"
  by (simp_all add: built_def update_vm_def update_machine_def update_network_def update_subnetwork_def
      Skip_def LockProject_def SkipTests_def creates_load_balancers_def)

lemmas plain_option_defs = AddMetadata_def AddUser_def set_script_def RunTests_def AddScope_def
  ForceMachineType_def ForceZone_def EnableSecureBoot_def EnableConfidentialInstance_def
  SetMinCPUPlatform_def SetMTU_def SetRegion_def SetPurpose_def SetRole_def AddSecondaryRange_def

lemma option_built_plain:
  "built (AddMetadata vm key val t) = built t" "built (AddUser vm user k t) = built t"
  "built (set_script key vm script t) = built t" "built (RunTests vm runtest t) = built t"
  "built (AddScope vm sc t) = built t" "built (ForceMachineType vm mt t) = built t"
  "built (ForceZone vm z t) = built t" "built (EnableSecureBoot vm t) = built t"
  "built (EnableConfidentialInstance vm t) = built t" "built (SetMinCPUPlatform vm cpu t) = built t"
  "built (SetMTU n mtu t) = built t" "built (SetRegion sh r t) = built t" "built (SetPurpose sh r t) = built t"
  "built (SetRole sh r t) = built t" "built (AddSecondaryRange sh rn ip t) = built t"
  by (simp_all add: plain_option_defs option_built Let_def)

lemmas failing_option_defs = AddDisk_def SetNetworkPerformanceTier_def UseGVNIC_def
  AddCustomNetworkWithStackType_def AddAliasIPRanges_def SetPrivateIP_def script_file_def AddSSHKey_def

lemma option_built_failing:
  "built (snd (AddDisk vm ty init t)) = built t" "built (snd (SetNetworkPerformanceTier vm tier t)) = built t"
  "built (snd (UseGVNIC vm t)) = built t" "built (snd (AddCustomNetworkWithStackType vm n s st acc t)) = built t"
  "built (snd (AddAliasIPRanges vm ip rn t)) = built t" "built (snd (SetPrivateIP vm n ip t)) = built t"
  "built (snd (script_file src key path err vm t)) = built t" "built (snd (AddSSHKey path made user t)) = built t"
  by (simp_all add: failing_option_defs outcome_defs option_built option_built_plain built_sources Let_def
      split: machine_ref.split option.split list.split sum.split bool.split)

lemma call_keeps_built:
  assumes e: "engine_ok e" and "fixture_call e f" and b: "built t"
  shows "built (f t)"
proof -
  note builders = CreateTestVM_keeps [OF e] CreateTestVMMultipleDisks_keeps [OF e] CreateDerivativeVM_keeps [OF e]
    Reboot_keeps [OF e] Resume_keeps [OF e] ResizeDiskAndReboot_keeps [OF e] wait_quota_keeps [OF e]
    CreateNetwork_keeps [OF e] CreateSubnetwork_keeps [OF e] CreateFirewallRule_keeps [OF e]
  show ?thesis
    using assms(2)
    by cases (simp_all add: b builders [THEN keepsD] option_built option_built_plain option_built_failing)
qed

lemma built_by_built:
  assumes "engine_ok e" and "built_by e t"
  shows "built t"
  using assms(2) by induction (simp_all add: fresh_built call_keeps_built [OF assms(1)])

subsection \<open>Properties\<close>

text \<open>C3: Whatever the setup of a test suite calls, in any order and whichever calls fail, the workflow it
  leaves can be scheduled: its dependencies join steps of the workflow and have no cycle, the creation
  of the machines depends only on disks, networks, subnetworks and firewall rules, and these depend on
  nothing that comes after the machines.\<close>

theorem workflow_graph:
  assumes "engine_ok e" and "built_by e t"
  shows "acyclic (depends (tw_wf t)) \<and> distinct (step_names (tw_wf t))
    \<and> (\<forall>(a, b) \<in> depends (tw_wf t). has_step t a \<and> has_step t b)
    \<and> (\<forall>b. (createVMsStepName, b) \<in> depends (tw_wf t) \<longrightarrow>
         b \<in> {createDisksStepName, createNetworkStepName, createSubnetworkStepName, createFirewallStepName})
    \<and> (\<forall>(a, b) \<in> depends (tw_wf t). a \<in> {createDisksStepName, createSubnetworkStepName, createFirewallStepName}
         \<longrightarrow> b = createNetworkStepName)
    \<and> (\<forall>b. (createNetworkStepName, b) \<notin> depends (tw_wf t))"
proof -
  note b = built_by_built [OF assms]
  have l: "level b < level a" if "(a, b) \<in> depends (tw_wf t)" "level a < 5" for a b
    using b that by (auto simp: built_def sound_graph_def)
  have q: "\<not> quota_step b" if "(a, b) \<in> depends (tw_wf t)" for a b
    using b that by (auto simp: built_def)
  have n0: "b = createNetworkStepName" if "level b < 2" "\<not> quota_step b" for b
    using that by (auto simp: level_def quota_step_def split: if_splits)
  have n4: "b \<in> {createDisksStepName, createNetworkStepName, createSubnetworkStepName, createFirewallStepName}"
    if "level b < 4" "\<not> quota_step b" for b
    using that by (auto simp: level_def quota_step_def split: if_splits)
  have "\<forall>b. (createVMsStepName, b) \<in> depends (tw_wf t) \<longrightarrow>
      b \<in> {createDisksStepName, createNetworkStepName, createSubnetworkStepName, createFirewallStepName}"
    using l [of createVMsStepName] q n4 unfolding levels by simp
  moreover have "\<forall>(a, b) \<in> depends (tw_wf t). a \<in> {createDisksStepName, createSubnetworkStepName, createFirewallStepName}
      \<longrightarrow> b = createNetworkStepName"
    using l q n0 levels by fastforce
  moreover have "\<forall>b. (createNetworkStepName, b) \<notin> depends (tw_wf t)"
    using l [of createNetworkStepName] levels by fastforce
  ultimately show ?thesis using b by (auto simp: built_def sound_graph_def)
qed


text \<open>C38: A reboot goes behind everything the machine was to do: when it succeeds, the machine is stopped
  after its last step, waited for, started and waited for again, in this order; the second wait is the
  new last step, and no other dependency changes.\<close>

theorem reboot_at_end:
  assumes "engine_ok e" and "built_by e t" and "plain (vm_name vm)" and "Reboot e vm t = (Ok u, t')"
    and "sfx = vm_name vm @ ''-'' @ utoa (Suc (tw_counter t))"
  shows "\<exists>l. ends_at t (''wait-'' @ vm_name vm) l
    \<and> ends_at t' (''wait-'' @ vm_name vm) (''wait-started-'' @ sfx)
    \<and> depends (tw_wf t') = depends (tw_wf t) \<union> {(''stop-'' @ sfx, l), (''wait-stopped-stopped-'' @ sfx, ''stop-'' @ sfx),
        (''start-'' @ sfx, ''wait-stopped-stopped-'' @ sfx), (''wait-started-'' @ sfx, ''start-'' @ sfx)}"
  using Reboot_chain [OF assms(1) built_by_built [OF assms(1,2)] assms(3-5)] by blast

text \<open>A machine that \<open>CreateTestVM\<close> returns is complete: it is new, named, marked as CIT's, told
  its name and where its results go, boots from the disk of its name that is made from the image under
  test, and is created after that disk and after every network and subnetwork of the workflow; the
  wait for its tests comes after its creation.\<close>

theorem machine_created:
  assumes "engine_ok e" and "CreateTestVM e name t = (Ok vm, t')"
  shows "vm_name vm = vmname_of name \<and> machine_built t vm t'"
  using CreateTestVM_built [OF assms] by blast

text \<open>A name with an underscore before its first dot is never accepted: the underscore becomes a dash,
  and dashes are refused.\<close>

theorem underscore_refused:
  assumes "engine_ok e" and "built_by e t" and "CHR ''_'' \<in> set (hd (Split (CHR ''.'') name))"
  shows "\<exists>err. fst (CreateTestVM e name t) = Fail err"
proof -
  let ?v = "vmname_of name"
  have "CHR ''-'' \<in> set ?v" using assms(3) by (force simp: vmname_of_def)
  then obtain p q where "?v = p @ ''-'' @ q" by (metis append_Cons append_Nil split_list)
  then have "Contains ?v ''-''" unfolding Contains_iff by blast
  then have dash: "\<exists>err. dash_error ?v = Some err" by (simp add: dash_error_def)
  have step: "\<exists>err. fst (appendCreateVMStep e [disk_named ?v] new_machine t') = Fail err" for t'
    using dash by (auto simp: appendCreateVMStep_def disk_named_def raise_def Let_def split: option.split)
  note disk = tripleD [OF disk_steps_triple(1) [OF assms(1)] built_by_built [OF assms(1,2)], of "disk_named ?v"]
  show ?thesis
  proof (cases "fst (appendCreateDisksStep e (disk_named ?v) t)")
    case (Ok s)
    then show ?thesis using step [of "snd (appendCreateDisksStep e (disk_named ?v) t)"]
      by (auto simp: CreateTestVM_def Let_def and_then_def split: prod.splits outcome.splits)
  qed (use disk in \<open>auto simp: CreateTestVM_def Let_def and_then_def lands_iff split: prod.splits\<close>)
qed

subsection \<open>An example\<close>

definition example_workflow :: test_workflow where
  "example_workflow = \<lparr>tw_Name = ''disk'',
     tw_Image = \<lparr>im_Name = ''debian-12'', im_Family = ''debian'', im_SelfLink = [], im_Architecture = ''X86_64'',
       im_Features = [''UEFI_COMPATIBLE'']\<rparr>,
     tw_ImageURL = ''projects/p/global/images/debian-12'', tw_MachineType = Some ''n1-standard-1'',
     tw_Project = ''p'', tw_GCSPath = [], tw_skipped = False, tw_skippedMessage = [], tw_testExcludeFilter = [],
     tw_wf = \<lparr>wf_Name = ''disk'', wf_ID = ''abc12'', wf_Project = ''p'', wf_Zone = ''us-west1-a'',
       wf_ComputeEndpoint = [], wf_DefaultTimeout = ''45m'', wf_GCSPath = [], wf_Sources = Map.empty,
       wf_Steps = [], wf_Dependencies = []\<rparr>,
     tw_counter = 0, tw_lockProject = False, tw_ReservationAffinity = None, tw_ReservationAffinityBeta = None,
     tw_ReservationBound = False, tw_AcceleratorType = [], tw_AcceleratorCount = 0,
     tw_CreatesLoadBalancers = False, tw_argZoneOverride = False,
     tw_opts = \<lparr>op_ComputeEndpointOverride = [], op_Name = ''disk'', op_Image = ''projects/p/global/images/debian-12'',
       op_Timeout = ''45m'', op_Project = ''p'', op_Zone = ''us-west1-a'', op_Zones = [''us-west1-a'', ''us-west1-b''],
       op_ExcludeFilter = [], op_X86Shape = ''n1-standard-1'', op_ARM64Shape = ''t2a-standard-1'',
       op_UseReservations = False, op_ReservationURLs = [], op_ReservationBound = False,
       op_AcceleratorType = [], op_AcceleratorCount = 0, op_ArgZoneOverride = False, op_ExternalIP = [],
       op_Network = [], op_Subnet = [], op_CustomStartupScript = []\<rparr>,
     tw_customStartupScriptContent = [], tw_testSkipReasons = Map.empty,
     tw_machines = [], tw_networks = [], tw_subnetworks = []\<rparr>"

definition example_vm :: test_vm where
  "example_vm = \<lparr>vm_name = ''vm'', vm_ref = GA 0\<rparr>"

definition example_created :: test_workflow where
  "example_created = snd (CreateTestVM example_engine ''vm'' (snd (CreateNetwork example_engine ''net'' True example_workflow)))"

definition example_rebooted :: test_workflow where
  "example_rebooted = snd (Reboot example_engine example_vm example_created)"

lemma example_runs:
  "fst (CreateTestVM example_engine ''vm'' (snd (CreateNetwork example_engine ''net'' True example_workflow))) = Ok example_vm"
  "fst (Reboot example_engine example_vm example_created) = Ok ()"
  by code_simp+

lemma example_plain: "vmname_of ''vm'' = ''vm''" "plain ''vm''" "vm_name example_vm = ''vm''"
  by (simp_all add: vmname_of_def plain_iff example_vm_def)

lemma example_built:
  "built_by example_engine example_workflow" "built_by example_engine example_created"
  "built_by example_engine example_rebooted"
proof -
  show w: "built_by example_engine example_workflow"
    by (rule built_by.start) (simp add: fresh_workflow_def example_workflow_def)
  have "built_by example_engine (snd (CreateNetwork example_engine ''net'' True example_workflow))"
    by (rule built_by.call [OF w fixture_call.network])
  then show c: "built_by example_engine example_created"
    unfolding example_created_def by (rule built_by.call) (rule fixture_call.vm, simp add: example_plain)
  show "built_by example_engine example_rebooted"
    unfolding example_rebooted_def
    by (rule built_by.call [OF c]) (rule fixture_call.reboot, simp add: example_plain)
qed

theorem workflow_graph_witness:
  "acyclic (depends (tw_wf example_rebooted)) \<and> has_step example_rebooted ''wait-started-vm-1''"
proof
  show "acyclic (depends (tw_wf example_rebooted))"
    using workflow_graph [OF example_engine_ok example_built(3)] by blast
  show "has_step example_rebooted ''wait-started-vm-1''" by code_simp
qed


theorem reboot_at_end_witness:
  "ends_at example_rebooted ''wait-vm'' ''wait-started-vm-1''
   \<and> (''stop-vm-1'', ''wait-vm'') \<in> depends (tw_wf example_rebooted)"
proof -
  have r: "Reboot example_engine example_vm example_created = (Ok (), example_rebooted)"
    using example_runs(2) by (simp add: example_rebooted_def prod_eq_iff)
  have l: "ends_at example_created ''wait-vm'' ''wait-vm''" unfolding ends_at_def by code_simp
  have p: "plain (vm_name example_vm)" by (simp add: example_plain)
  have sfx: "''vm-1'' = vm_name example_vm @ ''-'' @ utoa (Suc (tw_counter example_created))" by code_simp
  obtain k where k: "ends_at example_created (''wait-'' @ vm_name example_vm) k"
      "ends_at example_rebooted (''wait-'' @ vm_name example_vm) (''wait-started-'' @ ''vm-1'')"
      "(''stop-'' @ ''vm-1'', k) \<in> depends (tw_wf example_rebooted)"
    using reboot_at_end [OF example_engine_ok example_built(2) p r sfx] by blast
  have "k = ''wait-vm''" using k(1) l by (simp add: ends_at_def example_plain)
  then show ?thesis using k(2,3) by (simp add: example_plain)
qed

theorem machine_created_witness:
  "machine_built (snd (CreateNetwork example_engine ''net'' True example_workflow)) example_vm example_created"
proof -
  have "CreateTestVM example_engine ''vm'' (snd (CreateNetwork example_engine ''net'' True example_workflow))
      = (Ok example_vm, example_created)"
    using example_runs(1) by (simp add: example_created_def prod_eq_iff)
  from machine_created [OF example_engine_ok this] show ?thesis by blast
qed

theorem underscore_refused_witness:
  "\<exists>err. fst (CreateTestVM example_engine ''my_vm'' example_workflow) = Fail err"
  by (rule underscore_refused [OF example_engine_ok example_built(1)]) simp

end
