(* ===== verification/Workflow_Finalize.thy ===== *)
theory Workflow_Finalize
  imports Fixtures_Guarantees
begin

text \<open>
  \<open>finalizeWorkflows\<close> of \<open>testworkflow.go\<close>: what is added to the workflow of a suite after its setup so
  that it can run.  Quotas get their region and are waited for before what needs them is created,
  machines get their networks, types, zones and disk types, the test binaries become sources, and a
  last step copies the results after every wait.  Then what the finished graph guarantees.
\<close>

subsection \<open>Quotas\<close>

text \<open>\<open>None\<close>: there is no dash in the zone, and the slice up to it panics.\<close>

definition region_guess :: "string \<Rightarrow> string option" where
  "region_guess zone =
     (let i = LastIndex (CHR ''-'') zone in if i < 0 then None else Some (take (nat i) zone))"

fun fill_regions :: "string \<Rightarrow> quota list \<Rightarrow> quota list option" where
  "fill_regions zone [] = Some []"
| "fill_regions zone (q # qs) =
     (case (if qa_Region q = [] then map_option (\<lambda>r. q\<lparr>qa_Region := r\<rparr>) (region_guess zone) else Some q) of
        None \<Rightarrow> None
      | Some q' \<Rightarrow> map_option (\<lambda>qs'. q' # qs') (fill_regions zone qs))"

text \<open>The quota step takes over a dependency of the step it comes before.\<close>

definition inherit :: "engine \<Rightarrow> string \<Rightarrow> string \<Rightarrow> unit operation" where
  "inherit e quotaStep dep t =
     (if step_of t dep = None then give () t else AddDependency e (Some quotaStep) (Some dep) t)"

definition process_quota :: "engine \<Rightarrow> string \<times> string \<Rightarrow> unit operation" where
  "process_quota e names t =
     (let (quotaStepName, createStepName) = names
      in case step_of t quotaStepName of None \<Rightarrow> give () t | Some s \<Rightarrow>
      (case st_Quotas s of None \<Rightarrow> panic t | Some (interval, qs) \<Rightarrow>
      (case fill_regions (wf_Zone (tw_wf t)) qs of None \<Rightarrow> panic t | Some qs' \<Rightarrow>
      and_then (modify (update_step quotaStepName (st_Quotas_update (\<lambda>_. Some (interval, qs'))))) (\<lambda>_ t.
        if step_of t createStepName = None then give () t
        else and_then (for_each (inherit e quotaStepName) (deps_of (tw_wf t) createStepName)) (\<lambda>_.
             AddDependency e (Some createStepName) (Some quotaStepName)) t) t)))"

definition quota_pairs :: "(string \<times> string) list" where
  "quota_pairs = [(waitForVMQuotaStepName, createVMsStepName), (waitForDisksQuotaStepName, createDisksStepName)]"

subsection \<open>Machines\<close>

definition configure_steps :: "engine \<Rightarrow> test_workflow \<Rightarrow> test_workflow" where
  "configure_steps e t =
     fold (\<lambda>(n, s) t. if st_CreateInstances s = None then t else configureExternalIP e s (configureNetwork s t))
       (wf_Steps (tw_wf t)) t"

definition specific :: "affinity option \<Rightarrow> bool" where
  "specific a = (case a of None \<Rightarrow> False | Some r \<Rightarrow> ra_Type r = ''SPECIFIC_RESERVATION'')"

text \<open>A machine of another type gives up the reservation.\<close>

definition release :: "machine \<Rightarrow> machine" where
  "release i = i\<lparr>m_ReservationAffinity := None,
     m_Scheduling := map_option (\<lambda>s. if sch_ProvisioningModel s = ''RESERVATION_BOUND''
       then s\<lparr>sch_ProvisioningModel := []\<rparr> else s) (m_Scheduling i)\<rparr>"

definition set_type :: "bool \<Rightarrow> nat \<Rightarrow> unit operation" where
  "set_type reserved a t =
     (let mt = m_MachineType (tw_machines t ! a)
      in if mt \<noteq> []
         then (if \<not> matchesWorkflowMachineType t mt \<and> reserved then modify (update_machine a release) t
               else give () t)
         else (case tw_MachineType t of
                 None \<Rightarrow> panic t
               | Some w \<Rightarrow> modify (update_machine a (m_MachineType_update (\<lambda>_. w))) t))"

text \<open>A zone that the suite gives a machine moves the whole workflow.\<close>

definition take_zone :: "nat \<Rightarrow> test_workflow \<Rightarrow> test_workflow" where
  "take_zone a t =
     (let z = m_Zone (tw_machines t ! a)
      in if z \<noteq> [] \<and> z \<noteq> wf_Zone (tw_wf t) \<and> \<not> tw_argZoneOverride t
         then t\<lparr>tw_wf := (tw_wf t)\<lparr>wf_Zone := z\<rparr>\<rparr> else t)"

definition untyped :: "machine \<Rightarrow> wf_disk \<Rightarrow> bool" where
  "untyped i d = (wd_Type d = [] \<and> list_ex (\<lambda>att. at_Source att = wd_Name d) (m_Disks i))"

definition type_disks :: "nat \<Rightarrow> unit operation" where
  "type_disks a t =
     (let i = tw_machines t ! a
      in case step_of t createDisksStepName of None \<Rightarrow> give () t | Some s \<Rightarrow>
         if m_Disks i = [] then give () t
         else (case st_CreateDisks s of None \<Rightarrow> panic t | Some ds \<Rightarrow>
           if \<not> list_ex (untyped i) ds then give () t
           else (case tw_MachineType t of None \<Rightarrow> panic t | Some mt \<Rightarrow>
             modify (update_step createDisksStepName (st_CreateDisks_update (\<lambda>_. Some
               (map (\<lambda>d. if untyped i d then d\<lparr>wd_Type := DiskTypeNeeded mt\<rparr> else d) ds)))) t)))"

definition qualify :: "string \<Rightarrow> attached \<Rightarrow> attached" where
  "qualify zone att =
     (case at_InitType att of
        None \<Rightarrow> att
      | Some ty \<Rightarrow> if ty \<noteq> [] \<and> \<not> HasPrefix ty ''zones/''
                  then att\<lparr>at_InitType := Some (''zones/'' @ zone @ ''/diskTypes/'' @ ty)\<rparr> else att)"

definition finalize_vm :: "nat \<Rightarrow> unit operation" where
  "finalize_vm a t =
     and_then (set_type (specific (tw_ReservationAffinity t)) a) (\<lambda>_.
     and_then (modify (take_zone a)) (\<lambda>_.
     and_then (type_disks a) (\<lambda>_.
     modify (update_machine a (\<lambda>i. i\<lparr>m_Disks := map (qualify (m_Zone i)) (m_Disks i)\<rparr>))))) t"

definition finalize_beta :: "nat \<Rightarrow> unit operation" where
  "finalize_beta a t =
     set_type (specific (tw_ReservationAffinityBeta t) \<or> specific (tw_ReservationAffinity t)) a t"

definition finalize_machines :: "unit operation" where
  "finalize_machines t =
     (case step_of t createVMsStepName of None \<Rightarrow> give () t | Some s \<Rightarrow>
     (case st_CreateInstances s of None \<Rightarrow> panic t | Some (gs, bs) \<Rightarrow>
        and_then (for_each finalize_vm gs) (\<lambda>_. for_each finalize_beta bs) t))"

subsection \<open>Sources and results\<close>

definition testWrapperPath :: string where "testWrapperPath = ''/wrapper''"
definition testWrapperPathWindows :: string where "testWrapperPathWindows = ''/wrapp''"

definition test_sources :: "string \<Rightarrow> test_workflow \<Rightarrow> test_workflow" where
  "test_sources localPath t =
     (let arch = (if im_Architecture (tw_Image t) = ''ARM64'' then ''arm64'' else ''amd64'');
          bits = (if Contains (tw_ImageURL t) ''x86'' then ''32'' else ''64'');
          src = (if HasFeature (tw_Image t) ''WINDOWS''
                 then [(''testpackage'', localPath @ ''/'' @ tw_Name t @ bits @ ''.exe''),
                       (''wrapper.exe'', localPath @ ''/'' @ testWrapperPathWindows @ bits @ ''.exe'')]
                 else [(''testpackage'', localPath @ ''/'' @ tw_Name t @ ''.'' @ arch @ ''.test''),
                       (''wrapper'', localPath @ testWrapperPath @ ''.'' @ arch)])
      in t\<lparr>tw_wf := (tw_wf t)\<lparr>wf_Sources := wf_Sources (tw_wf t) ++ map_of src\<rparr>\<rparr>)"

text \<open>An operation whose error is wrapped.\<close>

definition wrapped :: "string \<Rightarrow> 'a operation \<Rightarrow> 'a operation" where
  "wrapped prefx m t = (case m t of (Fail err, t') \<Rightarrow> (Fail (prefx @ err), t') | r \<Rightarrow> r)"

definition copy_objects :: "engine \<Rightarrow> unit operation" where
  "copy_objects e t =
     and_then (wrapped (''failed to add copy-objects step to workflow '' @ tw_Name t @ '': '')
        (single_step e ''copy-objects'' (st_Copy_update (\<lambda>_. Some [(''${OUTSPATH}/'', tw_GCSPath t @ ''/outs'')])))) (\<lambda>copyStep t.
     for_each (\<lambda>n. wrapped ''failed to add copy-objects step: '' (AddDependency e (Some copyStep) (Some n)))
       (filter (\<lambda>n. HasPrefix n ''wait-'') (step_names (tw_wf t))) t) t"

text \<open>
  One workflow.  The code ranges over the quota steps as a map: \<open>order\<close> is the order it takes, one of
  the orders of \<open>quota_pairs\<close>.
\<close>

definition finalize :: "engine \<Rightarrow> string \<Rightarrow> string \<Rightarrow> (string \<times> string) list \<Rightarrow> unit operation" where
  "finalize e gcsPrefix localPath order =
     and_then (modify (\<lambda>t. let p = gcsPrefix @ ''/'' @ tw_Name t @ ''/'' @ im_Name (tw_Image t)
       in t\<lparr>tw_GCSPath := p, tw_wf := (tw_wf t)\<lparr>wf_GCSPath := p\<rparr>\<rparr>)) (\<lambda>_.
     and_then (for_each (process_quota e) order) (\<lambda>_.
     and_then (modify (configure_steps e)) (\<lambda>_.
     and_then finalize_machines (\<lambda>_.
     and_then (modify (test_sources localPath)) (\<lambda>_.
     copy_objects e)))))"

text \<open>The workflows of a run, each with its order, up to the first that fails.\<close>

fun finalizeWorkflows ::
  "engine \<Rightarrow> string \<Rightarrow> string \<Rightarrow> (test_workflow \<times> (string \<times> string) list) list
     \<Rightarrow> unit outcome \<times> test_workflow list" where
  "finalizeWorkflows e gcsPrefix localPath [] = (Ok (), [])"
| "finalizeWorkflows e gcsPrefix localPath ((t, order) # ts) =
     (case finalize e gcsPrefix localPath order t of
        (Ok _, t') \<Rightarrow> (case finalizeWorkflows e gcsPrefix localPath ts of (r, ts') \<Rightarrow> (r, t' # ts'))
      | (r, t') \<Rightarrow> (r, t' # map fst ts))"

end
