(* ===== verification/Fixtures_Marks.thy ===== *)
theory Fixtures_Marks
  imports Fixtures_Guarantees
begin

text \<open>
  What no fixture touches.  The locale \<open>kept\<close> states what a predicate on test workflows has to survive,
  the primitive changes that the fixtures are composed of, and proves that it then survives every
  fixture, also one that fails half way.  Its interpretations are the marks of ownership, which every
  resource carries that the fixtures create, and the identity of the workflow.
\<close>

definition marked_step :: "wf_step \<Rightarrow> bool" where
  "marked_step s \<longleftrightarrow>
     (\<forall>ds. st_CreateDisks s = Some ds \<longrightarrow> (\<forall>d \<in> set ds. isCITResource (wd_Labels d) (wd_Description d)))
     \<and> (\<forall>fs. st_CreateFirewalls s = Some fs \<longrightarrow> (\<forall>f \<in> set fs. isCITResource [] (fw_Description f)))"

definition owned :: "test_workflow \<Rightarrow> bool" where
  "owned t \<longleftrightarrow>
     (\<forall>m \<in> set (tw_machines t). isCITResource (m_Labels m) (m_Description m))
     \<and> (\<forall>n \<in> set (tw_networks t). isCITResource [] (nw_Description n))
     \<and> (\<forall>n \<in> set (tw_subnetworks t). isCITResource [] (sn_Description n))
     \<and> (\<forall>(n, s) \<in> set (wf_Steps (tw_wf t)). marked_step s)"

definition stays :: "(test_workflow \<Rightarrow> bool) \<Rightarrow> 'a operation \<Rightarrow> bool" where
  "stays I m \<longleftrightarrow> (\<forall>t. I t \<longrightarrow> I (snd (m t)))"

named_theorems staying \<open>operations that keep the marks\<close>

lemma stays_and_then [staying]: "stays I m \<Longrightarrow> (\<And>x. stays I (f x)) \<Longrightarrow> stays I (and_then m f)"
  unfolding stays_def and_then_def by (fastforce split: prod.splits outcome.splits)

lemma stays_ends [staying]:
  "stays I (give x)" "stays I (raise err)" "stays I panic" "stays I hang"
  by (simp_all add: stays_def give_def raise_def panic_def hang_def)

lemma stays_if [staying]:
  "stays I m \<Longrightarrow> stays I k \<Longrightarrow> stays I (\<lambda>t. if c t then m t else k t)"
  by (simp add: stays_def)

lemma stays_pair [staying]: "(\<And>a b. stays I (f a b)) \<Longrightarrow> stays I (case p of (a, b) \<Rightarrow> f a b)"
  by (cases p) simp

lemma stays_for_each [staying]: "(\<And>x. stays I (f x)) \<Longrightarrow> stays I (for_each f xs)"
  by (induction xs) (simp_all add: stays_ends stays_and_then)

lemma staysD: "stays I m \<Longrightarrow> I t \<Longrightarrow> I (snd (m t))"
  by (simp add: stays_def)

lemma stays_at: "(\<And>t. I t \<Longrightarrow> I (snd (m t))) \<Longrightarrow> stays I m"
  by (simp add: stays_def)

lemma marked_new: "marked_step new_step"
  by (simp add: marked_step_def new_step_def)

lemma CITDescription_owned: "isCITResource ls (CITDescription d)"
  using CITDescription_marked by (simp add: isCITResource_def)

lemma owned_update_step:
  assumes "owned t" and "\<And>s. marked_step s \<Longrightarrow> marked_step (f s)"
  shows "owned (update_step n f t)"
proof -
  have "marked_step s" if "(k, s) \<in> set (AList.map_entry n f xs)" "\<forall>(n, s) \<in> set xs. marked_step s" for k s xs
    using that assms(2) by (induction xs) (auto split: if_splits)
  then show ?thesis using assms(1) by (fastforce simp: owned_def update_step_def)
qed

subsection \<open>Predicates that survive the primitives\<close>

locale kept =
  fixes I :: "test_workflow \<Rightarrow> bool"
  assumes kept_owned: "I t \<Longrightarrow> owned t"
    and kept_new_step: "I t \<Longrightarrow> I (t\<lparr>tw_wf := with_step n (tw_wf t)\<rparr>)"
    and kept_dependency: "I t \<Longrightarrow> I (t\<lparr>tw_wf := with_dep a b (tw_wf t)\<rparr>)"
    and kept_update_step: "I t \<Longrightarrow> (\<And>s. marked_step s \<Longrightarrow> marked_step (f s)) \<Longrightarrow> I (update_step n f t)"
    and kept_machine: "I t \<Longrightarrow> isCITResource (m_Labels i) (m_Description i) \<Longrightarrow> I (t\<lparr>tw_machines := tw_machines t @ [i]\<rparr>)"
    and kept_network: "I t \<Longrightarrow> isCITResource [] (nw_Description w) \<Longrightarrow> I (t\<lparr>tw_networks := tw_networks t @ [w]\<rparr>)"
    and kept_subnetwork: "I t \<Longrightarrow> isCITResource [] (sn_Description x) \<Longrightarrow> I (t\<lparr>tw_subnetworks := tw_subnetworks t @ [x]\<rparr>)"
    and kept_update_machine: "I t \<Longrightarrow> (\<And>i. m_Labels (g i) = m_Labels i \<and> m_Description (g i) = m_Description i)
      \<Longrightarrow> I (update_machine k g t)"
    and kept_update_network: "I t \<Longrightarrow> (\<And>w. nw_Description (h w) = nw_Description w) \<Longrightarrow> I (update_network nh h t)"
    and kept_update_subnetwork: "I t \<Longrightarrow> (\<And>x. sn_Description (j x) = sn_Description x) \<Longrightarrow> I (update_subnetwork sh j t)"
    and kept_rest: "I t \<Longrightarrow> I (t\<lparr>tw_counter := c\<rparr>)" "I t \<Longrightarrow> I (t\<lparr>tw_wf := (tw_wf t)\<lparr>wf_Sources := src\<rparr>\<rparr>)"
      "I t \<Longrightarrow> I (Skip message t)" "I t \<Longrightarrow> I (LockProject t)" "I t \<Longrightarrow> I (creates_load_balancers t)" "I t \<Longrightarrow> I (SkipTests reason tests t)"
begin

lemma NewStep_stays [staying]: "engine_ok e \<Longrightarrow> stays I (NewStep e n)"
  using NewStep_cases [of e n] kept_new_step unfolding stays_def by (metis snd_conv)

lemma AddDependency_stays [staying]: "engine_ok e \<Longrightarrow> stays I (AddDependency e a b)"
  using AddDependency_cases [of e a b] kept_dependency unfolding stays_def by (metis snd_conv)

lemma modify_step_stays:
  "(\<And>s. marked_step s \<Longrightarrow> marked_step (f s)) \<Longrightarrow> stays I (modify (update_step n f))"
  by (simp add: stays_def modify_def kept_update_step)

lemma single_step_stays:
  "engine_ok e \<Longrightarrow> (\<And>s. marked_step s \<Longrightarrow> marked_step (f s)) \<Longrightarrow> stays I (single_step e n f)"
  unfolding single_step_def by (intro staying modify_step_stays)

lemma append_step_stays:
  assumes "engine_ok e" and "\<And>s s'. marked_step s \<Longrightarrow> add s = Some s' \<Longrightarrow> marked_step s'"
    and "\<And>s. marked_step s \<Longrightarrow> marked_step (fresh s)"
  shows "stays I (append_step e n add fresh)"
  unfolding stays_def
proof (intro allI impI)
  fix t assume o: "I t"
  show "I (snd (append_step e n add fresh t))"
  proof (cases "step_of t n")
    case None
    have "stays I (and_then (NewStep e n) (\<lambda>step. and_then (modify (update_step step fresh)) (\<lambda>_. give step)))"
      by (intro staying modify_step_stays assms(1) assms(3))
    then show ?thesis using None o by (simp add: append_step_def stays_def)
  next
    case (Some s)
    then have s: "marked_step s" using kept_owned [OF o] step_of_mem [OF Some] unfolding owned_def by blast
    show ?thesis
    proof (cases "add s")
      case None
      then show ?thesis using Some o by (simp add: append_step_def panic_def)
    next
      case (Some s')
      then have "marked_step s'" using assms(2) s by blast
      then have "stays I (and_then (modify (update_step n (\<lambda>_. s'))) (\<lambda>_. give n))"
        by (intro staying modify_step_stays)
      then show ?thesis using Some \<open>step_of t n = Some s\<close> o by (simp add: append_step_def stays_def)
    qed
  qed
qed

lemma alloc_stays:
  "isCITResource (m_Labels i) (m_Description i) \<Longrightarrow> stays I (alloc_machine i)"
  "isCITResource [] (nw_Description n) \<Longrightarrow> stays I (alloc_network n)"
  "isCITResource [] (sn_Description s) \<Longrightarrow> stays I (alloc_subnetwork s)"
  by (simp_all add: stays_def alloc_machine_def alloc_network_def alloc_subnetwork_def
      kept_machine kept_network kept_subnetwork)

lemma add_machine_step_stays [staying]: "engine_ok e \<Longrightarrow> stays I (add_machine_step e beta a)"
  unfolding add_machine_step_def Let_def
  by (rule append_step_stays) (auto simp: marked_step_def split: option.splits)

lemma add_disk_step_stays:
  assumes "engine_ok e" and "isCITResource (wd_Labels d) (wd_Description d)"
  shows "stays I (add_disk_step e d)"
  unfolding add_disk_step_def
  by (rule append_step_stays [OF assms(1)]) (use assms(2) in \<open>auto simp: marked_step_def split: option.splits\<close>)

lemma disk_steps_stay [staying]:
  assumes "engine_ok e"
  shows "stays I (appendCreateDisksStep e d)" and "stays I (appendCreateMountDisksStep e d)"
proof -
  have "stays I (add_disk_step e w)" if "wd_Labels w = CITLabels ls" for w ls
    by (rule add_disk_step_stays [OF assms]) (simp add: that CITLabels_marked)
  then show "stays I (appendCreateDisksStep e d)" and "stays I (appendCreateMountDisksStep e d)"
    by (simp_all add: appendCreateDisksStep_def appendCreateMountDisksStep_def stays_def raise_def)
qed

lemma mount_disks_stays [staying]: "engine_ok e \<Longrightarrow> stays I (mount_disks e ds)"
  by (induction ds) (auto intro!: staying)

lemma create_disks_stays [staying]: "engine_ok e \<Longrightarrow> stays I (create_disks e ds)"
  by (cases ds) (auto intro!: staying)

lemma machine_steps_stay [staying]:
  assumes "engine_ok e"
  shows "stays I (appendCreateVMStep e ds i)" and "stays I (appendCreateVMStepBeta e ds i)"
    and "stays I (addNewVMStep e ds i)"
proof -
  have new: "stays I (and_then (alloc_machine m) (\<lambda>a. and_then (add_machine_step e beta a) (\<lambda>s. give (s, a))))"
    if "isCITResource (m_Labels m) (m_Description m)" for m beta
    by (intro staying alloc_stays that assms)
  note new' = new [THEN staysD]
  show "stays I (appendCreateVMStep e ds i)" "stays I (appendCreateVMStepBeta e ds i)"
    unfolding appendCreateVMStep_def appendCreateVMStepBeta_def Let_def
    by (auto intro!: stays_at new' simp: CITLabels_marked raise_def panic_def split: option.splits)
  have sep: "stays I (and_then (alloc_machine m) (\<lambda>a. and_then (NewStep e n) (\<lambda>step.
      and_then (modify (update_step step (st_CreateInstances_update (\<lambda>_. Some ([a], []))))) (\<lambda>_. give (step, a)))))"
    if "isCITResource (m_Labels m) (m_Description m)" for m n
    by (intro staying alloc_stays modify_step_stays that assms) (simp add: marked_step_def)
  show "stays I (addNewVMStep e ds i)"
    unfolding addNewVMStep_def Let_def
    by (auto intro!: stays_at sep [THEN staysD] simp: CITLabels_marked raise_def split: option.splits)
qed


lemma single_steps_stay [staying]:
  assumes "engine_ok e"
  shows "stays I (appendDetachDiskStep e sn vmn ds)" "stays I (addWaitStoppedStep e sn vmn)"
    "stays I (addWaitStep e sn vmn)" "stays I (addWaitRebootGAStep e sn vmn)"
    "stays I (addStopStep e sn vmn)" "stays I (addDiskResizeStep e sn vmn gb)"
    "stays I (addStartStep e sn vmn)"
    "stays I (single_step e sn (st_Signals_update g))" "stays I (single_step e sn (st_Resume_update h))"
    "stays I (single_step e sn (st_Quotas_update q))"
  unfolding appendDetachDiskStep_def addWaitStoppedStep_def addWaitStep_def addWaitRebootGAStep_def
    addStopStep_def addDiskResizeStep_def addStartStep_def
  by (rule single_step_stays [OF assms]; simp add: marked_step_def)+

lemma next_suffix_stays [staying]: "stays I (next_suffix vm)"
  by (simp add: stays_def next_suffix_def give_def Let_def kept_rest)

lemma last_step_stays [staying]: "stays I (last_step err n)"
  by (auto simp: stays_def last_step_def getLastStepForVM_def raise_def hang_def give_def Let_def
      split: option.split)

lemma helpers_stay [staying]:
  assumes "engine_ok e"
  shows "stays I (depend_if_there e a b)" and "stays I (wait_for_tests e vmn k)"
  unfolding depend_if_there_def wait_for_tests_def by (intro staying assms)+

lemma connect_stays [staying]:
  "engine_ok e \<Longrightarrow> stays I w \<Longrightarrow> stays I (connect_machine e cv w)"
  unfolding connect_machine_def by (intro staying)

lemma after_stays [staying]: "engine_ok e \<Longrightarrow> stays I s \<Longrightarrow> stays I (after e p s)"
  unfolding after_def by (intro staying)

lemma rename_stays [staying]: "stays I (modify (update_machine a (m_Name_update f)))"
  by (simp add: stays_def modify_def kept_update_machine)

lemma fixtures_stay:
  assumes "engine_ok e"
  shows "stays I (CreateTestVM e name)" "stays I (CreateTestVMBeta e name)"
    "stays I (CreateTestVMMultipleDisks e disks j)" "stays I (CreateTestVMFromInstanceBeta e i disks)"
    "stays I (CreateDerivativeVM e vm name)" "stays I (Reboot e vm)" "stays I (Resume e vm)"
    "stays I (ResizeDiskAndReboot e vm gb)"
proof -
  show r: "stays I (Reboot e vm)"
    unfolding Reboot_def Let_def by (intro staying assms)
  show "stays I (CreateTestVM e name)" "stays I (CreateTestVMBeta e name)"
    unfolding CreateTestVM_def CreateTestVMBeta_def Let_def by (intro staying assms)+
  show "stays I (CreateTestVMMultipleDisks e disks j)" "stays I (CreateTestVMFromInstanceBeta e i disks)"
    unfolding CreateTestVMMultipleDisks_def CreateTestVMFromInstanceBeta_def Let_def
    by (intro staying assms)+
  show "stays I (CreateDerivativeVM e vm name)" "stays I (ResizeDiskAndReboot e vm gb)"
    unfolding CreateDerivativeVM_def ResizeDiskAndReboot_def Let_def by (intro staying assms r)+
  show "stays I (Resume e vm)"
    unfolding Resume_def Let_def
    by (intro staying assms) (auto intro!: stays_at AddDependency_stays [OF assms, THEN staysD])
qed

lemma network_fixtures_stay:
  assumes "engine_ok e"
  shows "stays I (CreateNetworkFromDaisyNetwork e net)" and "stays I (CreateNetwork e name auto)"
    and "stays I (CreateSubnetworkFromDaisySubnetwork e n sub)"
    and "stays I (CreateSubnetwork e n sname rng)"
    and "stays I (CreateFirewallRule e n fname protocol ports ranges)"
    and "stays I (WaitForVMQuota e qa)" and "stays I (WaitForDisksQuota e qa)"
proof -
  have net: "stays I (appendCreateNetworkStep e m)" for m
    unfolding appendCreateNetworkStep_def add_network_step_def
    by (intro staying alloc_stays append_step_stays assms)
       (auto simp: CITDescription_owned marked_step_def split: option.splits)
  show "stays I (CreateNetworkFromDaisyNetwork e net)" "stays I (CreateNetwork e name auto)"
    unfolding CreateNetworkFromDaisyNetwork_def CreateNetwork_def Let_def by (intro staying net assms)+
  have sub: "stays I (appendCreateSubnetworksStep e m)" for m
    unfolding appendCreateSubnetworksStep_def
    by (intro staying alloc_stays append_step_stays assms)
       (auto simp: CITDescription_owned marked_step_def split: option.splits)
  show s: "stays I (CreateSubnetworkFromDaisySubnetwork e n sub)" for sub
    unfolding CreateSubnetworkFromDaisySubnetwork_def by (intro staying sub assms)
  show "stays I (CreateSubnetwork e n sname rng)"
    unfolding CreateSubnetwork_def by (rule s)
  have fw: "stays I (appendCreateFirewallStep e fname nn protocol ports ranges)" for nn
    unfolding appendCreateFirewallStep_def Let_def
    by (intro append_step_stays assms)
       (auto simp: CITDescription_owned marked_step_def split: option.splits)
  show "stays I (CreateFirewallRule e n fname protocol ports ranges)"
    unfolding CreateFirewallRule_def by (intro staying fw assms)
  have q: "stays I (waitForQuotaStep e qa step)" for step
  proof -
    have "stays I (\<lambda>t. case step_of t step of None \<Rightarrow> panic t
        | Some s \<Rightarrow> (case st_Quotas s of None \<Rightarrow> panic t
            | Some (i, qs) \<Rightarrow> modify (update_step step (st_Quotas_update (\<lambda>_. Some (i, add_quota qa qs)))) t))"
      by (rule stays_at)
         (auto simp: panic_def modify_def marked_step_def intro!: kept_update_step split: option.split)
    moreover have "stays I (\<lambda>t. case step_of t step of Some _ \<Rightarrow> give () t
        | None \<Rightarrow> and_then (single_step e step (st_Quotas_update (\<lambda>_. Some (''90s'', [])))) (\<lambda>_. give ()) t)"
      (is "stays I ?m")
    proof (rule stays_at)
      fix t assume o: "I t"
      have "stays I (and_then (single_step e step (st_Quotas_update (\<lambda>_. Some (''90s'', [])))) (\<lambda>_. give ()))"
        by (intro staying assms)
      from staysD [OF this o] show "I (snd (?m t))"
        using o by (simp add: give_def split: option.split)
    qed
    ultimately show ?thesis unfolding waitForQuotaStep_def by (intro stays_and_then)
  qed
  show "stays I (WaitForVMQuota e qa)" "stays I (WaitForDisksQuota e qa)"
    by (simp_all add: WaitForVMQuota_def WaitForDisksQuota_def q)
qed

text \<open>The options.\<close>

lemma kept_update_vm:
  "I t \<Longrightarrow> (\<And>i. m_Labels (g i) = m_Labels i \<and> m_Description (g i) = m_Description i) \<Longrightarrow> I (update_vm vm g t)"
  unfolding update_vm_def by (rule kept_update_machine)

lemma options_kept:
  assumes "I t"
  shows "I (AddMetadata vm key val t)" "I (AddUser vm user k t)" "I (set_script key vm script t)"
    "I (RunTests vm runtest t)" "I (AddScope vm sc t)" "I (ForceMachineType vm mt t)"
    "I (ForceZone vm z t)" "I (EnableSecureBoot vm t)" "I (EnableConfidentialInstance vm t)"
    "I (SetMinCPUPlatform vm cpu t)" "I (SetMTU n mtu t)" "I (SetRegion sh r t)"
    "I (SetPurpose sh r t)" "I (SetRole sh r t)" "I (AddSecondaryRange sh rn ip t)"
  unfolding plain_option_defs
  by (auto simp: Let_def intro!: kept_update_vm kept_update_network kept_update_subnetwork assms)

lemma failing_options_kept:
  assumes "I t"
  shows "I (snd (AddDisk vm ty init t))" "I (snd (SetNetworkPerformanceTier vm tier t))"
    "I (snd (UseGVNIC vm t))" "I (snd (AddCustomNetworkWithStackType vm n s st acc t))"
    "I (snd (AddAliasIPRanges vm ip rn t))" "I (snd (SetPrivateIP vm n ip t))"
    "I (snd (script_file src key path err vm t))" "I (snd (AddSSHKey path made user t))"
  using assms
  by (auto simp: failing_option_defs outcome_defs Let_def add_interface_def kept_rest
      split: machine_ref.split option.split list.split sum.split bool.split
      intro!: kept_update_vm options_kept(1))

lemma call_stays:
  assumes e: "engine_ok e" and "fixture_call e f" and o: "I t"
  shows "I (f t)"
  using assms(2)
  by cases (simp_all add: o fixtures_stay [OF e, THEN staysD] network_fixtures_stay [OF e, THEN staysD]
      options_kept failing_options_kept kept_rest)

end

subsection \<open>The marks of ownership\<close>

lemma owned_new_step: "owned t \<Longrightarrow> owned (t\<lparr>tw_wf := with_step n (tw_wf t)\<rparr>)"
  using marked_new by (auto simp: owned_def with_step_def)

lemma owned_list_update:
  assumes "\<forall>x \<in> set xs. P x" and "\<And>x. P x \<Longrightarrow> P (f x)"
  shows "\<forall>x \<in> set (xs[k := f (xs ! k)]). P x"
proof (cases "k < length xs")
  case True
  then show ?thesis using assms by (auto dest!: subsetD [OF set_update_subset_insert])
qed (use assms(1) in \<open>simp add: list_update_beyond\<close>)

interpretation marks: kept owned
proof
  show "owned (update_machine k g t)"
    if "owned t" "\<And>i. m_Labels (g i) = m_Labels i \<and> m_Description (g i) = m_Description i" for k g t
    using that owned_list_update [of "tw_machines t" "\<lambda>m. isCITResource (m_Labels m) (m_Description m)" g k]
    by (simp add: owned_def update_machine_def)
  show "owned (update_network nh h t)" if "owned t" "\<And>w. nw_Description (h w) = nw_Description w" for nh h t
    using that owned_list_update [of "tw_networks t" "\<lambda>n. isCITResource [] (nw_Description n)" h "nh_ref nh"]
    by (simp add: owned_def update_network_def)
  show "owned (update_subnetwork sh j t)" if "owned t" "\<And>x. sn_Description (j x) = sn_Description x" for sh j t
    using that owned_list_update [of "tw_subnetworks t" "\<lambda>n. isCITResource [] (sn_Description n)" j "sh_ref sh"]
    by (simp add: owned_def update_subnetwork_def)
  show "owned (update_step n f t)" if "owned t" "\<And>s. marked_step s \<Longrightarrow> marked_step (f s)" for n f t
    by (rule owned_update_step [OF that])
  show "owned (t\<lparr>tw_wf := with_step n (tw_wf t)\<rparr>)" if "owned t" for n t
    by (rule owned_new_step [OF that])
qed (auto simp: owned_def Skip_def LockProject_def SkipTests_def creates_load_balancers_def)

text \<open>What the fixtures never change: the suite, its image and options, the workflow's own data.\<close>

definition identity :: "test_workflow \<Rightarrow> string \<times> image \<times> string \<times> options \<times> string \<times> string \<times> string" where
  "identity t = (tw_Name t, tw_Image t, tw_ImageURL t, tw_opts t, wf_ID (tw_wf t), wf_Project (tw_wf t), wf_Zone (tw_wf t))"

interpretation same: kept "\<lambda>t. owned t \<and> identity t = i"
  by unfold_locales
     (auto simp: marks.kept_new_step marks.kept_dependency marks.kept_update_step marks.kept_machine
        marks.kept_network marks.kept_subnetwork marks.kept_update_machine marks.kept_update_network
        marks.kept_update_subnetwork marks.kept_rest,
      auto simp: identity_def with_step_def with_dep_def update_step_def update_machine_def
        update_network_def update_subnetwork_def Skip_def LockProject_def SkipTests_def creates_load_balancers_def)

lemma built_by_owned:
  assumes "engine_ok e" and "built_by e t"
  shows "owned t"
  using assms(2)
proof induction
  case (start t)
  then show ?case by (simp add: fresh_workflow_def owned_def)
qed (simp add: marks.call_stays [OF assms(1)])

text \<open>C23: Nothing that the fixtures create escapes the cleanup: whatever the setup of a test suite calls, in any
  order and whichever calls fail, every machine, disk, network, subnetwork and firewall rule of the
  workflow carries the label or the description that the policies recognize the resources of CIT by,
  also when the test brings its own machine, disk or network.\<close>

theorem resources_are_owned:
  assumes "engine_ok e" and "built_by e t"
  shows "owned t"
  by (rule built_by_owned [OF assms])

theorem resources_are_owned_witness:
  "owned example_rebooted \<and> tw_machines example_rebooted \<noteq> [] \<and> tw_networks example_rebooted \<noteq> []"
proof (intro conjI)
  show "owned example_rebooted" by (rule resources_are_owned [OF example_engine_ok example_built(3)])
  have "length (tw_machines example_rebooted) = 1 \<and> length (tw_networks example_rebooted) = 1" by code_simp
  then show "tw_machines example_rebooted \<noteq> []" "tw_networks example_rebooted \<noteq> []" by auto
qed

end
