(* ===== verification/Workflow_Ready.thy ===== *)
theory Workflow_Ready
  imports Workflow_Finalize Fixtures_Marks
begin

text \<open>
  The graph of a finalized workflow: it is still free of cycles, what needs quota is created after the
  wait for it, and the results are copied after every wait.
\<close>

subsection \<open>The invariant\<close>

text \<open>
  \<open>scheduled\<close> is the invariant of the fixtures without its promise that nothing depends on a quota
  step.  \<open>within S N Q\<close> adds what the loop over the quota steps has reached: the dependencies \<open>S\<close>,
  the step names \<open>N\<close> and the steps \<open>Q\<close> on which nothing depends yet.
\<close>

definition scheduled :: "test_workflow \<Rightarrow> bool" where
  "scheduled t \<longleftrightarrow> sound_graph (tw_wf t)
     \<and> (\<forall>(n, s) \<in> set (wf_Steps (tw_wf t)). fits n s
          \<and> (\<forall>a \<in> set (step_machines s). a < length (tw_machines t)))
     \<and> tw_MachineType t \<noteq> None"

definition within ::
  "(string \<times> string) set \<Rightarrow> string set \<Rightarrow> string set \<Rightarrow> test_workflow \<Rightarrow> bool" where
  "within S N Q t \<longleftrightarrow> scheduled t \<and> S \<subseteq> depends (tw_wf t) \<and> set (step_names (tw_wf t)) = N
     \<and> (\<forall>(a, b) \<in> depends (tw_wf t). b \<notin> Q)"

lemma built_scheduled: "built t \<Longrightarrow> scheduled t"
  by (simp add: built_def scheduled_def)

lemma built_within:
  "built t \<Longrightarrow> within (depends (tw_wf t)) (set (step_names (tw_wf t))) {n. quota_step n} t"
  by (auto simp: within_def built_scheduled built_def)

lemma scheduled_fits:
  "scheduled t \<Longrightarrow> step_of t n = Some s \<Longrightarrow> fits n s \<and> (\<forall>a \<in> set (step_machines s). a < length (tw_machines t))"
  using step_of_mem unfolding scheduled_def by fastforce

text \<open>Changes that leave the steps, the dependencies and the number of machines alone.\<close>

lemma within_same:
  assumes "wf_Steps (tw_wf t') = wf_Steps (tw_wf t)" and "wf_Dependencies (tw_wf t') = wf_Dependencies (tw_wf t)"
    and "length (tw_machines t') = length (tw_machines t)" and "tw_MachineType t' = tw_MachineType t"
  shows "within S N Q t' = within S N Q t"
  using assms by (simp add: within_def scheduled_def sound_graph_def depends_def deps_of_def step_names_def)

lemma within_update_step:
  assumes "within S N Q t"
    and "\<And>s. step_of t n = Some s \<Longrightarrow> fits n (f s) \<and> (\<forall>a \<in> set (step_machines (f s)). a < length (tw_machines t))"
  shows "within S N Q (update_step n f t)"
proof -
  have d: "distinct (map fst (wf_Steps (tw_wf t)))"
    using assms(1) by (simp add: within_def scheduled_def sound_graph_def step_names_def)
  have "fits m s \<and> (\<forall>a \<in> set (step_machines s). a < length (tw_machines t))"
    if m: "(m, s) \<in> set (AList.map_entry n f (wf_Steps (tw_wf t)))" for m s
  proof (cases "m = n")
    case True
    then obtain s0 where "(n, s0) \<in> set (wf_Steps (tw_wf t))" "s = f s0"
      using m unfolding map_entry_set [OF d] by auto
    then show ?thesis using assms(2) d True by (auto simp: step_of_def)
  next
    case False
    then show ?thesis using m assms(1) unfolding map_entry_set [OF d]
      by (auto simp: within_def scheduled_def)
  qed
  then show ?thesis
    using assms(1) by (auto simp: within_def scheduled_def) (auto simp: update_step_def)
qed

lemma within_with_dep:
  assumes "within S N Q t" and "has_step t a" and "has_step t b" and "b \<notin> Q"
    and "level a < 5 \<Longrightarrow> level b < level a" and "(b, a) \<notin> (depends (tw_wf t))\<^sup>*"
  shows "within (insert (a, b) S) N Q (t\<lparr>tw_wf := with_dep a b (tw_wf t)\<rparr>)"
  using assms sound_with_dep [of "tw_wf t" a b] by (auto simp: within_def scheduled_def)

lemma dependency_within:
  assumes e: "engine_ok e" and w: "within S N Q t" and "b \<notin> Q"
    and "level a < 5 \<Longrightarrow> level b < level a" and "(b, a) \<notin> (depends (tw_wf t))\<^sup>*"
  shows "lands (\<lambda>_. within (insert (a, b) S) N Q) (within S N Q) (AddDependency e (Some a) (Some b) t)"
  using AddDependency_cases [OF e, of "Some a" "Some b" t] w within_with_dep [OF w _ _ assms(3-5)]
  by (auto simp: lands_iff)

lemma lower_within:
  assumes "engine_ok e" and "within S N Q t" and "b \<notin> Q" and "level b < level a"
  shows "lands (\<lambda>_. within (insert (a, b) S) N Q) (within S N Q) (AddDependency e (Some a) (Some b) t)"
  using assms lower_no_path [of "tw_wf t" b a]
  by (intro dependency_within) (auto simp: within_def scheduled_def)

subsection \<open>Quotas\<close>

lemma pair_levels:
  assumes "(q, c) \<in> set quota_pairs"
  shows "level q < level c" and "quota_step q" and "\<not> quota_step c"
    and "level b < level c \<Longrightarrow> b \<noteq> q \<Longrightarrow> level b < level q"
proof -
  have "(q = waitForVMQuotaStepName \<and> c = createVMsStepName) \<or> (q = waitForDisksQuotaStepName \<and> c = createDisksStepName)"
    using assms by (auto simp: quota_pairs_def)
  then show "level q < level c" "quota_step q" "\<not> quota_step c"
    "level b < level c \<Longrightarrow> b \<noteq> q \<Longrightarrow> level b < level q"
    by (auto simp: level_def quota_step_def step_name_defs split: if_splits)
qed

lemma within_less: "within S' N Q t \<Longrightarrow> S \<subseteq> S' \<Longrightarrow> within S N Q t"
  by (auto simp: within_def)

lemma inherit_all_within:
  assumes e: "engine_ok e" and "\<forall>b \<in> set bs. b \<notin> Q \<and> level b < level q \<and> b \<in> N"
  shows "triple (within S N Q) (for_each (inherit e q) bs)
    (\<lambda>_. within (S \<union> {(q, b) | b. b \<in> set bs}) N Q) (within S N Q)"
  using assms(2)
proof (induction bs arbitrary: S)
  case Nil
  then show ?case by (simp add: triple_give)
next
  case (Cons b bs)
  have one: "triple (within S N Q) (inherit e q b) (\<lambda>_. within (insert (q, b) S) N Q) (within S N Q)"
  proof (rule triple_at)
    fix t assume w: "within S N Q t"
    then have "has_step t b" using Cons.prems by (simp add: within_def)
    then obtain sb where "step_of t b = Some sb" using step_of_has [of t b] by blast
    then show "lands (\<lambda>_. within (insert (q, b) S) N Q) (within S N Q) (inherit e q b t)"
      using lower_within [OF e w, of b q] Cons.prems by (simp add: inherit_def)
  qed
  have eq: "insert (q, b) S \<union> {(q, b') | b'. b' \<in> set bs} = S \<union> {(q, b') | b'. b' \<in> set (b # bs)}" by auto
  have rest: "triple (within (insert (q, b) S) N Q) (for_each (inherit e q) bs)
      (\<lambda>_. within (S \<union> {(q, b') | b'. b' \<in> set (b # bs)}) N Q) (within S N Q)"
    using Cons.prems unfolding eq [symmetric]
    by (intro triple_weaken [OF Cons.IH [of "insert (q, b) S"]]) (auto intro: within_less)
  show ?case unfolding for_each.simps by (rule triple_and_then [OF one rest])
qed

text \<open>Processing a quota step: then it is between the step that needs it and what that step needs.\<close>

definition quota_deps :: "(string \<times> string) set \<Rightarrow> string set \<Rightarrow> string \<times> string \<Rightarrow> (string \<times> string) set" where
  "quota_deps S N p = (case p of (q, c) \<Rightarrow>
     if q \<in> N \<and> c \<in> N then insert (c, q) {(q, b) | b. (c, b) \<in> S} else {})"

lemma fill_regions_total: "region_guess z \<noteq> None \<Longrightarrow> fill_regions z qs \<noteq> None"
  by (induction qs) (auto split: option.splits)

lemma inherited:
  assumes w: "within S N Q t" and p: "(q, c) \<in> set quota_pairs" and q: "q \<in> Q"
  shows "\<forall>b \<in> set (deps_of (tw_wf t) c). b \<notin> Q \<and> level b < level q \<and> b \<in> N"
proof
  fix b assume "b \<in> set (deps_of (tw_wf t) c)"
  then have d: "(c, b) \<in> depends (tw_wf t)" by (simp add: depends_def)
  have "level c < 5" using p by (auto simp: quota_pairs_def levels)
  then have "level b < level c" "b \<in> N" "b \<notin> Q"
    using w d by (auto simp: within_def scheduled_def sound_graph_def)
  then show "b \<notin> Q \<and> level b < level q \<and> b \<in> N" using pair_levels(4) [OF p] q by blast
qed

abbreviation zoned :: "test_workflow \<Rightarrow> bool" where
  "zoned t \<equiv> region_guess (wf_Zone (tw_wf t)) \<noteq> None"

lemma process_quota_within:
  assumes e: "engine_ok e" and w: "within S N Q t" and z: "zoned t"
    and p: "(q, c) \<in> set quota_pairs" and q: "q \<in> Q"
  shows "lands (\<lambda>_. within (S \<union> quota_deps S N (q, c)) N (Q - {q})) (within S N (Q - {q})) (process_quota e (q, c) t)"
proof -
  have less: "within S N (Q - {q}) u" if "within S N Q u" for u using that by (auto simp: within_def)
  show ?thesis
  proof (cases "step_of t q")
    case None
    then have "q \<notin> N" using step_of_has [of t q] w by (simp add: within_def)
    then show ?thesis using None less [OF w] by (simp add: process_quota_def give_def quota_deps_def)
  next
    case (Some s)
    have sched: "scheduled t" and qN: "q \<in> N"
      using w Some step_of_has [of t q] by (auto simp: within_def)
    obtain iv qs where qs: "st_Quotas s = Some (iv, qs)"
      using scheduled_fits [OF sched Some] pair_levels(2) [OF p] by (auto simp: fits_def)
    obtain qs' where qs': "fill_regions (wf_Zone (tw_wf t)) qs = Some qs'"
      using fill_regions_total [OF z] by blast
    let ?u = "update_step q (st_Quotas_update (\<lambda>_. Some (iv, qs'))) t"
    have u: "within S N Q ?u"
      using scheduled_fits [OF sched] by (intro within_update_step [OF w]) (auto simp: fits_def step_machines_def)
    show ?thesis
    proof (cases "c \<in> N")
      case False
      then have "step_of ?u c = None" using u step_of_has [of ?u c] by (auto simp: within_def)
      then show ?thesis using Some qs qs' less [OF u] False
        by (simp add: process_quota_def and_then_def modify_def give_def quota_deps_def)
    next
      case True
      obtain sc where c: "step_of ?u c = Some sc"
        using u True step_of_has [of ?u c] unfolding within_def by blast
      let ?bs = "deps_of (tw_wf ?u) c"
      let ?S = "S \<union> {(q, b) | b. b \<in> set ?bs}"
      have S: "S \<union> quota_deps S N (q, c) \<subseteq> insert (c, q) ?S"
        using u qN True by (auto simp: quota_deps_def within_def depends_def)
      have last: "triple (within ?S N Q) (AddDependency e (Some c) (Some q))
          (\<lambda>_. within (S \<union> quota_deps S N (q, c)) N (Q - {q})) (within S N (Q - {q}))"
      proof (rule triple_at)
        fix v assume "within ?S N Q v"
        then have v: "within ?S N (Q - {q}) v" by (auto simp: within_def)
        show "lands (\<lambda>_. within (S \<union> quota_deps S N (q, c)) N (Q - {q})) (within S N (Q - {q}))
            (AddDependency e (Some c) (Some q) v)"
          by (rule lands_weaken [OF lower_within [OF e v _ pair_levels(1) [OF p]]])
             (use S in \<open>auto intro: within_less\<close>)
      qed
      have all: "triple (within S N Q) (for_each (inherit e q) ?bs) (\<lambda>_. within ?S N Q) (within S N (Q - {q}))"
        by (rule triple_weaken [OF inherit_all_within [OF e inherited [OF u p q]]]) (auto intro: less)
      from tripleD [OF triple_and_then [OF all last] u] Some qs qs' c show ?thesis
        by (simp add: process_quota_def and_then_simps(1) [of "modify _"] modify_def)
    qed
  qed
qed

subsection \<open>Machines, sources and results\<close>

lemma set_type_within: "keeps (within S N Q) (set_type reserved a)"
  unfolding keeps_def
proof (rule triple_at)
  fix t assume w: "within S N Q t"
  then obtain mt where "tw_MachineType t = Some mt" by (auto simp: within_def scheduled_def)
  moreover have "within S N Q (update_machine a f t) = within S N Q t" for f
    by (rule within_same) (simp_all add: update_machine_def)
  ultimately show "lands (\<lambda>_. within S N Q) (within S N Q) (set_type reserved a t)"
    using w by (simp add: set_type_def Let_def modify_def give_def)
qed

lemma type_disks_within: "keeps (within S N Q) (type_disks a)"
  unfolding keeps_def
proof (rule triple_at)
  fix t assume w: "within S N Q t"
  show "lands (\<lambda>_. within S N Q) (within S N Q) (type_disks a t)"
  proof (cases "step_of t createDisksStepName")
    case None
    then show ?thesis using w by (simp add: type_disks_def give_def)
  next
    case (Some s)
    have s: "scheduled t" using w by (simp add: within_def)
    obtain mt where mt: "tw_MachineType t = Some mt" using s by (auto simp: scheduled_def)
    obtain ds where ds: "st_CreateDisks s = Some ds"
      using scheduled_fits [OF s Some] by (auto simp: fits_def)
    have "within S N Q (update_step createDisksStepName (st_CreateDisks_update (\<lambda>_. Some x)) t)" for x
      using scheduled_fits [OF s] by (intro within_update_step [OF w]) (auto simp: fits_def step_machines_def)
    then show ?thesis using w Some mt ds by (simp add: type_disks_def Let_def modify_def give_def)
  qed
qed

lemma finalize_vm_within: "keeps (within S N Q) (finalize_vm a)" "keeps (within S N Q) (finalize_beta a)"
proof -
  have zone: "within S N Q (take_zone a t) = within S N Q t" for t
    by (rule within_same) (simp_all add: take_zone_def Let_def)
  have disks: "within S N Q (update_machine a f t) = within S N Q t" for f t
    by (rule within_same) (simp_all add: update_machine_def)
  have "keeps (within S N Q) (and_then (set_type r a) (\<lambda>_. and_then (modify (take_zone a)) (\<lambda>_.
      and_then (type_disks a) (\<lambda>_. modify (update_machine a f)))))" for r f
    by (intro keeps_and_then keeps_modify set_type_within type_disks_within) (simp_all add: zone disks)
  then show "keeps (within S N Q) (finalize_vm a)"
    unfolding keeps_def by (intro triple_at) (unfold finalize_vm_def, blast intro: tripleD)
  show "keeps (within S N Q) (finalize_beta a)"
    using set_type_within unfolding keeps_def
    by (intro triple_at) (unfold finalize_beta_def, blast intro: tripleD)
qed

lemma finalize_machines_within: "keeps (within S N Q) finalize_machines"
  unfolding keeps_def
proof (rule triple_at)
  fix t assume w: "within S N Q t"
  show "lands (\<lambda>_. within S N Q) (within S N Q) (finalize_machines t)"
  proof (cases "step_of t createVMsStepName")
    case None
    then show ?thesis using w by (simp add: finalize_machines_def give_def)
  next
    case (Some s)
    obtain gs bs where c: "st_CreateInstances s = Some (gs, bs)"
      using w scheduled_fits [OF _ Some] by (auto simp: within_def fits_def)
    have "keeps (within S N Q) (and_then (for_each finalize_vm gs) (\<lambda>_. for_each finalize_beta bs))"
      by (intro keeps_and_then keeps_for_each finalize_vm_within)
    then show ?thesis using w Some c by (simp add: finalize_machines_def keeps_def tripleD)
  qed
qed

text \<open>Nothing but the machines changes, and none is added.\<close>

definition same_but_machines :: "test_workflow \<Rightarrow> test_workflow \<Rightarrow> bool" where
  "same_but_machines t u \<longleftrightarrow> (\<exists>ms. length ms = length (tw_machines t) \<and> u = t\<lparr>tw_machines := ms\<rparr>)"

lemma same_but_machines_refl: "same_but_machines t t"
  unfolding same_but_machines_def by (rule exI [of _ "tw_machines t"]) simp

lemma same_but_machines_trans: "same_but_machines t u \<Longrightarrow> same_but_machines u v \<Longrightarrow> same_but_machines t v"
  by (auto simp: same_but_machines_def)

lemma same_but_machines_fold:
  "(\<And>x t. same_but_machines t (f x t)) \<Longrightarrow> same_but_machines t (fold f xs t)"
  by (induction xs arbitrary: t) (auto intro: same_but_machines_refl same_but_machines_trans)

lemma update_machines_frame: "same_but_machines t (fold (\<lambda>a. update_machine a f) as t)"
proof (rule same_but_machines_fold)
  show "same_but_machines t (update_machine a f t)" for a t
    unfolding same_but_machines_def update_machine_def
    by (rule exI [of _ "(tw_machines t)[a := f (tw_machines t ! a)]"]) simp
qed

lemma configure_frames: "same_but_machines t (configure_steps e t)"
  unfolding configure_steps_def
proof (rule same_but_machines_fold, clarsimp simp: same_but_machines_refl)
  fix s t
  have "same_but_machines t (configureNetwork s t)" for t
    by (simp add: configureNetwork_def Let_def same_but_machines_refl update_machines_frame)
  moreover have "same_but_machines t (configureExternalIP e s t)" for t
    by (auto simp: configureExternalIP_def Let_def same_but_machines_refl
        intro: same_but_machines_trans update_machines_frame)
  ultimately show "same_but_machines t (configureExternalIP e s (configureNetwork s t))"
    by (blast intro: same_but_machines_trans)
qed

lemma configure_frame:
  "tw_wf (configure_steps e t) = tw_wf t \<and> length (tw_machines (configure_steps e t)) = length (tw_machines t)
   \<and> tw_MachineType (configure_steps e t) = tw_MachineType t \<and> tw_opts (configure_steps e t) = tw_opts t
   \<and> tw_Name (configure_steps e t) = tw_Name t \<and> tw_ImageURL (configure_steps e t) = tw_ImageURL t"
  using configure_frames [of t e] by (auto simp: same_but_machines_def)

lemma configure_within: "within S N Q (configure_steps e t) = within S N Q t"
  by (rule within_same) (simp_all add: configure_frame)

lemma sources_within: "within S N Q (test_sources localPath t) = within S N Q t"
  by (rule within_same) (simp_all add: test_sources_def Let_def)

lemma lands_wrapped: "lands Q E (m t) \<Longrightarrow> lands Q E (wrapped p m t)"
  by (auto simp: wrapped_def lands_iff split: prod.splits outcome.splits)

text \<open>The last step waits for every wait.\<close>

abbreviation copy_step :: string where
  "copy_step \<equiv> ''copy-objects''"

definition waits :: "string list \<Rightarrow> string list" where
  "waits ns = filter (\<lambda>n. HasPrefix n ''wait-'') ns"

lemma copy_step_within:
  assumes e: "engine_ok e" and w: "within S N Q t"
  shows "lands (\<lambda>n u. n = copy_step \<and> within S (insert copy_step N) {copy_step} u
      \<and> step_names (tw_wf u) = step_names (tw_wf t) @ [copy_step])
    (within S N Q) (single_step e copy_step (st_Copy_update f) t)"
proof -
  have s: "sound_graph (tw_wf t)" using w by (simp add: within_def scheduled_def)
  have l: "level copy_step = 5" by (simp add: level_def step_name_defs)
  have "within S (insert copy_step N) {copy_step} (stepped copy_step (st_Copy_update f) t)"
    if no: "\<not> has_step t copy_step"
  proof -
    have "sound_graph (tw_wf (stepped copy_step (st_Copy_update f) t))"
      using sound_with_step [OF s no] by (simp add: stepped_def)
    moreover have "fits copy_step (st_Copy_update f new_step)" by (rule fits_free [OF l])
    moreover have "step_machines (st_Copy_update f new_step) = []"
      by (simp add: step_machines_def new_step_def)
    moreover have "\<forall>(a, b) \<in> depends (tw_wf t). b \<noteq> copy_step"
      using s no by (auto simp: sound_graph_def)
    moreover have "tw_MachineType (stepped copy_step (st_Copy_update f) t) = tw_MachineType t"
      by (simp add: stepped_def)
    ultimately show ?thesis
      using w no by (auto simp: within_def scheduled_def stepped_steps)
  qed
  then show ?thesis using single_step_cases [OF e, of copy_step "st_Copy_update f" t] w by auto
qed

lemma wait_dependencies:
  assumes e: "engine_ok e" and "\<forall>n \<in> set ns. n \<noteq> copy_step"
  shows "triple (within S N {copy_step})
    (for_each (\<lambda>n. wrapped p (AddDependency e (Some copy_step) (Some n))) ns)
    (\<lambda>_. within (S \<union> {(copy_step, n) | n. n \<in> set ns}) N {copy_step}) (within S N {copy_step})"
  using assms(2)
proof (induction ns arbitrary: S)
  case Nil
  then show ?case by (simp add: triple_give)
next
  case (Cons n ns)
  let ?I = "\<lambda>S. within S N {copy_step}"
  have one: "triple (?I S) (wrapped p (AddDependency e (Some copy_step) (Some n)))
      (\<lambda>_. ?I (insert (copy_step, n) S)) (?I S)"
  proof (rule triple_at)
    fix t assume w: "?I S t"
    then have "(n, copy_step) \<notin> (depends (tw_wf t))\<^sup>*"
      using Cons.prems unfolding within_def by (auto elim: rtranclE)
    moreover have "level copy_step = 5" by (simp add: level_def step_name_defs)
    ultimately show "lands (\<lambda>_. ?I (insert (copy_step, n) S)) (?I S)
        (wrapped p (AddDependency e (Some copy_step) (Some n)) t)"
      using Cons.prems by (intro lands_wrapped dependency_within [OF e w]) auto
  qed
  have eq: "insert (copy_step, n) S \<union> {(copy_step, m) | m. m \<in> set ns} = S \<union> {(copy_step, m) | m. m \<in> set (n # ns)}"
    by auto
  have rest: "triple (?I (insert (copy_step, n) S))
      (for_each (\<lambda>n. wrapped p (AddDependency e (Some copy_step) (Some n))) ns)
      (\<lambda>_. ?I (S \<union> {(copy_step, m) | m. m \<in> set (n # ns)})) (?I S)"
    using Cons.prems unfolding eq [symmetric]
    by (intro triple_weaken [OF Cons.IH [of "insert (copy_step, n) S"]]) (auto intro: within_less)
  show ?case unfolding for_each.simps by (rule triple_and_then [OF one rest])
qed

lemma copy_objects_within:
  assumes e: "engine_ok e" and w: "within S N Q t"
  shows "lands (\<lambda>_. within (S \<union> {(copy_step, n) | n. n \<in> N \<and> HasPrefix n ''wait-''}) (insert copy_step N) {copy_step})
    (\<lambda>_. True) (copy_objects e t)"
proof -
  define f where "f = (\<lambda>_ :: (string \<times> string) list option. Some [(''${OUTSPATH}/'', tw_GCSPath t @ ''/outs'')])"
  define m1 where "m1 = wrapped (''failed to add copy-objects step to workflow '' @ tw_Name t @ '': '')
    (single_step e copy_step (st_Copy_update f))"
  define m2 where "m2 = (\<lambda>c u. for_each (\<lambda>n. wrapped ''failed to add copy-objects step: ''
    (AddDependency e (Some c) (Some n))) (waits (step_names (tw_wf u))) u)"
  have c: "copy_objects e t = and_then m1 m2 t"
    by (simp add: copy_objects_def m1_def m2_def f_def waits_def)
  have no: "\<not> HasPrefix copy_step ''wait-''" by (simp add: HasPrefix_def)
  have m1: "lands (\<lambda>n u. n = copy_step \<and> within S (insert copy_step N) {copy_step} u) (\<lambda>_. True) (m1 t)"
    unfolding m1_def
    by (intro lands_wrapped lands_weaken [OF copy_step_within [OF e w]]) auto
  have m2: "triple (\<lambda>u. n = copy_step \<and> within S (insert copy_step N) {copy_step} u) (m2 n)
      (\<lambda>_. within (S \<union> {(copy_step, n) | n. n \<in> N \<and> HasPrefix n ''wait-''}) (insert copy_step N) {copy_step})
      (\<lambda>_. True)" for n
  proof (rule triple_at, elim conjE)
    fix u assume n: "n = copy_step" and u: "within S (insert copy_step N) {copy_step} u"
    have ws: "set (waits (step_names (tw_wf u))) = {n \<in> N. HasPrefix n ''wait-''}"
      using u no by (auto simp: within_def waits_def)
    have ne: "\<forall>n \<in> set (waits (step_names (tw_wf u))). n \<noteq> copy_step" using no by (auto simp: waits_def)
    show "lands (\<lambda>_. within (S \<union> {(copy_step, n) | n. n \<in> N \<and> HasPrefix n ''wait-''})
        (insert copy_step N) {copy_step}) (\<lambda>_. True) (m2 n u)"
      unfolding m2_def n
      by (rule lands_weaken [OF tripleD [OF wait_dependencies [OF e ne] u]]) (simp_all add: ws)
  qed
  have "triple (\<lambda>u. u = t) (and_then m1 m2)
      (\<lambda>_. within (S \<union> {(copy_step, n) | n. n \<in> N \<and> HasPrefix n ''wait-''}) (insert copy_step N) {copy_step})
      (\<lambda>_. True)"
    by (rule triple_and_then [OF _ m2]) (simp add: triple_def m1)
  then show ?thesis by (simp add: c triple_def)
qed

subsection \<open>The finished workflow\<close>

text \<open>What the loop over the quota steps adds, in either order.\<close>

definition quota_added :: "(string \<times> string) set \<Rightarrow> string set \<Rightarrow> (string \<times> string) set" where
  "quota_added S N = (\<Union>p \<in> set quota_pairs. quota_deps S N p)"

lemma dependency_zone: "engine_ok e \<Longrightarrow> stays (\<lambda>t. wf_Zone (tw_wf t) = z) (AddDependency e a b)"
  unfolding stays_def
proof (intro allI impI)
  fix t :: test_workflow assume "engine_ok e" "wf_Zone (tw_wf t) = z"
  then show "wf_Zone (tw_wf (snd (AddDependency e a b t))) = z"
    using AddDependency_cases [of e a b t] by (auto simp: with_dep_def)
qed

lemma process_quota_stays:
  assumes dep: "\<And>a b. stays I (AddDependency e a b)" and upd: "\<And>n f. stays I (modify (update_step n f))"
  shows "stays I (process_quota e p)"
proof -
  have inh: "stays I (inherit e q b)" for q b
    unfolding inherit_def by (intro staying dep)
  have rest: "stays I (\<lambda>t. if step_of t c = None then give () t
      else and_then (for_each (inherit e q) (deps_of (tw_wf t) c)) (\<lambda>_. AddDependency e (Some c) (Some q)) t)" for q c
  proof (rule stays_at)
    fix t assume i: "I t"
    have "stays I (and_then (for_each (inherit e q) bs) (\<lambda>_. AddDependency e (Some c) (Some q)))" for bs
      by (intro staying inh dep)
    from staysD [OF this, of t] i show "I (snd (if step_of t c = None then give () t
        else and_then (for_each (inherit e q) (deps_of (tw_wf t) c)) (\<lambda>_. AddDependency e (Some c) (Some q)) t))"
      by (simp add: give_def)
  qed
  show ?thesis
  proof (rule stays_at)
    fix t assume i: "I t"
    note all = staysD [OF stays_and_then [OF upd rest], of t] i
    show "I (snd (process_quota e p t))"
      by (cases p) (simp add: process_quota_def give_def panic_def all split: option.split prod.split)
  qed
qed

lemma process_quota_zone:
  assumes "engine_ok e"
  shows "stays (\<lambda>t. wf_Zone (tw_wf t) = z) (process_quota e p)"
  by (rule process_quota_stays [OF dependency_zone [OF assms]]) (simp add: stays_def modify_def update_step_def)

lemma process_quota_step:
  assumes e: "engine_ok e" and p: "(q, c) \<in> set quota_pairs" and q: "q \<in> Q"
  shows "triple (\<lambda>t. within S N Q t \<and> zoned t) (process_quota e (q, c))
    (\<lambda>_ t. within (S \<union> quota_deps S N (q, c)) N (Q - {q}) t \<and> zoned t) (\<lambda>_. True)"
proof (rule triple_at, elim conjE)
  fix t assume w: "within S N Q t" and z: "zoned t"
  have "zoned (snd (process_quota e (q, c) t))"
    using staysD [OF process_quota_zone [OF e, of "wf_Zone (tw_wf t)" "(q, c)"], of t] z by simp
  then show "lands (\<lambda>_ t. within (S \<union> quota_deps S N (q, c)) N (Q - {q}) t \<and> zoned t) (\<lambda>_. True)
      (process_quota e (q, c) t)"
    using process_quota_within [OF e w z p q] by (auto simp: lands_iff)
qed

lemma quota_loop_within:
  assumes e: "engine_ok e" and order: "order = quota_pairs \<or> order = rev quota_pairs"
  shows "triple (\<lambda>t. within S N {n. quota_step n} t \<and> zoned t) (for_each (process_quota e) order)
    (\<lambda>_. within (S \<union> quota_added S N) N {}) (\<lambda>_. True)"
proof -
  obtain q c q' c' where o: "order = [(q, c), (q', c')]" and d: "q \<noteq> q'"
    and p: "set quota_pairs = {(q, c), (q', c')}" and qs: "{n. quota_step n} = {q, q'}"
    using order by (auto simp: quota_pairs_def quota_step_def step_name_defs)
  let ?S = "S \<union> quota_deps S N (q, c)"
  have one: "triple (\<lambda>t. within S N {q, q'} t \<and> zoned t) (process_quota e (q, c))
      (\<lambda>_ t. within ?S N {q'} t \<and> zoned t) (\<lambda>_. True)"
    using process_quota_step [OF e, of q c "{q, q'}" S N] p d by (simp add: insert_Diff_if)
  have two: "triple (\<lambda>t. within ?S N {q'} t \<and> zoned t) (process_quota e (q', c'))
      (\<lambda>_ t. within (?S \<union> quota_deps ?S N (q', c')) N {} t \<and> zoned t) (\<lambda>_. True)"
    using process_quota_step [OF e, of q' c' "{q'}" ?S N] p by simp
  have less: "S \<union> quota_added S N \<subseteq> ?S \<union> quota_deps ?S N (q', c')"
    by (auto simp: quota_added_def p quota_deps_def)
  have three: "triple (\<lambda>t. within (?S \<union> quota_deps ?S N (q', c')) N {} t \<and> zoned t) (give ())
      (\<lambda>_. within (S \<union> quota_added S N) N {}) (\<lambda>_. True)"
    using less by (intro triple_give) (blast intro: within_less)
  show ?thesis
    unfolding o qs for_each.simps
    by (rule triple_and_then [OF one triple_and_then [OF two three]])
qed

text \<open>What survives finalizing: a predicate that survives each of its changes.\<close>

lemma finalize_stays:
  assumes dep: "\<And>a b. stays I (AddDependency e a b)" and new: "\<And>n. stays I (NewStep e n)"
    and upd: "\<And>n f. stays I (modify (update_step n f))" and mach: "\<And>a f. stays I (modify (update_machine a f))"
    and zone: "\<And>a. stays I (modify (take_zone a))" and conf: "stays I (modify (configure_steps e))"
    and src: "stays I (modify (test_sources localPath))"
    and path: "\<And>t p. I t \<Longrightarrow> I (t\<lparr>tw_GCSPath := p, tw_wf := (tw_wf t)\<lparr>wf_GCSPath := p\<rparr>\<rparr>)"
  shows "stays I (finalize e gcsPrefix localPath order)"
proof -
  have ty: "stays I (set_type r a)" for r a
    by (rule stays_at) (auto simp: set_type_def Let_def give_def panic_def split: option.split intro: staysD [OF mach])
  have disks: "stays I (type_disks a)" for a
    by (rule stays_at) (auto simp: type_disks_def Let_def give_def panic_def split: option.split intro: staysD [OF upd])
  have ga: "stays I (finalize_vm a)" for a
  proof (rule stays_at)
    fix t assume i: "I t"
    have "stays I (and_then (set_type r a) (\<lambda>_. and_then (modify (take_zone a)) (\<lambda>_.
        and_then (type_disks a) (\<lambda>_. modify (update_machine a f)))))" for r f
      by (intro staying ty zone disks mach)
    from staysD [OF this i] show "I (snd (finalize_vm a t))" unfolding finalize_vm_def .
  qed
  have beta: "stays I (finalize_beta a)" for a
    by (rule stays_at) (simp add: finalize_beta_def staysD [OF ty])
  have machines: "stays I finalize_machines"
  proof (rule stays_at)
    fix t assume i: "I t"
    have "stays I (and_then (for_each finalize_vm gs) (\<lambda>_. for_each finalize_beta bs))" for gs bs
      by (intro staying ga beta)
    note all = staysD [OF this i]
    show "I (snd (finalize_machines t))"
      using i by (simp add: finalize_machines_def give_def panic_def all split: option.split prod.split)
  qed
  have wrap: "stays I (wrapped p m)" if "stays I m" for p and m :: "'b operation"
    using that by (auto simp: stays_def wrapped_def split: prod.splits outcome.splits)
  have copy: "stays I (copy_objects e)"
  proof (rule stays_at)
    fix t assume i: "I t"
    have each: "stays I (for_each (\<lambda>n. wrapped p (AddDependency e (Some c) (Some n))) ns)" for p c ns
      by (intro staying wrap dep)
    have "stays I (\<lambda>t. for_each (\<lambda>n. wrapped p (AddDependency e (Some c) (Some n))) (f t) t)" for p c f
      by (rule stays_at) (rule staysD [OF each])
    moreover have "stays I (single_step e n f)" for n f
      unfolding single_step_def by (intro staying new upd)
    ultimately have "stays I (and_then (wrapped p (single_step e n f)) (\<lambda>c t.
        for_each (\<lambda>n. wrapped q (AddDependency e (Some c) (Some n))) (g t) t))" for p n f q g
      by (intro stays_and_then wrap)
    from staysD [OF this i] show "I (snd (copy_objects e t))" unfolding copy_objects_def .
  qed
  have "stays I (modify (\<lambda>t. let p = gcsPrefix @ ''/'' @ tw_Name t @ ''/'' @ im_Name (tw_Image t)
      in t\<lparr>tw_GCSPath := p, tw_wf := (tw_wf t)\<lparr>wf_GCSPath := p\<rparr>\<rparr>))"
    by (simp add: stays_def modify_def Let_def path)
  then show ?thesis
    unfolding finalize_def by (intro staying process_quota_stays [OF dep upd] conf machines src copy)
qed

definition finished :: "workflow \<Rightarrow> (string \<times> string) set" where
  "finished w = depends w \<union> quota_added (depends w) (set (step_names w))
     \<union> {(copy_step, n) | n. n \<in> set (step_names w) \<and> HasPrefix n ''wait-''}"

lemma finalize_within:
  assumes "engine_ok e" and "built t" and "zoned t"
    and "order = quota_pairs \<or> order = rev quota_pairs"
  shows "lands (\<lambda>_. within (finished (tw_wf t)) (insert copy_step (set (step_names (tw_wf t)))) {copy_step})
    (\<lambda>_. True) (finalize e gcsPrefix localPath order t)"
proof -
  note e = assms(1)
  let ?S = "depends (tw_wf t)" and ?N = "set (step_names (tw_wf t))"
  let ?I = "within (?S \<union> quota_added ?S ?N) ?N {}"
  let ?F = "finished (tw_wf t)"
  have b: "within ?S ?N {n. quota_step n} t" by (rule built_within [OF assms(2)])
  have start: "triple (\<lambda>u. u = t) (modify (\<lambda>t. let p = gcsPrefix @ ''/'' @ tw_Name t @ ''/'' @ im_Name (tw_Image t)
      in t\<lparr>tw_GCSPath := p, tw_wf := (tw_wf t)\<lparr>wf_GCSPath := p\<rparr>\<rparr>))
      (\<lambda>_ u. within ?S ?N {n. quota_step n} u \<and> zoned u) (\<lambda>_. True)"
  proof (rule triple_modify)
    fix u assume u: "u = t"
    have "within ?S ?N {n. quota_step n} (let p = gcsPrefix @ ''/'' @ tw_Name u @ ''/'' @ im_Name (tw_Image u)
        in u\<lparr>tw_GCSPath := p, tw_wf := (tw_wf u)\<lparr>wf_GCSPath := p\<rparr>\<rparr>) = within ?S ?N {n. quota_step n} u"
      by (rule within_same) (simp_all add: Let_def)
    then show "within ?S ?N {n. quota_step n} (let p = gcsPrefix @ ''/'' @ tw_Name u @ ''/'' @ im_Name (tw_Image u)
        in u\<lparr>tw_GCSPath := p, tw_wf := (tw_wf u)\<lparr>wf_GCSPath := p\<rparr>\<rparr>)
      \<and> zoned (let p = gcsPrefix @ ''/'' @ tw_Name u @ ''/'' @ im_Name (tw_Image u)
        in u\<lparr>tw_GCSPath := p, tw_wf := (tw_wf u)\<lparr>wf_GCSPath := p\<rparr>\<rparr>)"
      using b assms(3) u by (simp add: Let_def)
  qed
  have conf: "triple ?I (modify (configure_steps e)) (\<lambda>_. ?I) (\<lambda>_. True)"
    by (rule triple_modify) (simp add: configure_within)
  have machines: "triple ?I finalize_machines (\<lambda>_. ?I) (\<lambda>_. True)"
    using finalize_machines_within by (auto simp: keeps_def intro: triple_weaken)
  have sources: "triple ?I (modify (test_sources localPath)) (\<lambda>_. ?I) (\<lambda>_. True)"
    by (rule triple_modify) (simp add: sources_within)
  have copy: "triple ?I (copy_objects e) (\<lambda>_. within ?F (insert copy_step ?N) {copy_step}) (\<lambda>_. True)"
    unfolding finished_def by (rule triple_at, rule copy_objects_within [OF e])
  have "triple (\<lambda>u. u = t) (finalize e gcsPrefix localPath order)
      (\<lambda>_. within ?F (insert copy_step ?N) {copy_step}) (\<lambda>_. True)"
    unfolding finalize_def
    by (rule triple_and_then [OF start triple_and_then [OF quota_loop_within [OF e assms(4)]
        triple_and_then [OF conf triple_and_then [OF machines triple_and_then [OF sources copy]]]]])
  from tripleD [OF this refl] show ?thesis .
qed

text \<open>C10: A workflow that was finalized can run, whatever fixtures built it: finalizing neither panics nor loops
  when the zone has a region, and when it succeeds the dependencies still join steps of the workflow
  without a cycle, none of the earlier ones is lost, what needs quota is created after the wait for
  the quota, that wait comes after everything the creation was waiting for, and the results are copied
  after every wait step.\<close>

theorem finalized_graph:
  assumes "engine_ok e" and "built_by e t" and "region_guess (wf_Zone (tw_wf t)) \<noteq> None"
    and "order = quota_pairs \<or> order = rev quota_pairs" and "finalize e gcsPrefix localPath order t = (r, t')"
  shows "r \<notin> {Panic, Hang} \<and> (r = Ok () \<longrightarrow>
      acyclic (depends (tw_wf t')) \<and> (\<forall>(a, b) \<in> depends (tw_wf t'). has_step t' a \<and> has_step t' b)
    \<and> depends (tw_wf t) \<subseteq> depends (tw_wf t')
    \<and> (\<forall>(q, c) \<in> set quota_pairs. has_step t q \<longrightarrow> has_step t c \<longrightarrow> (c, q) \<in> depends (tw_wf t')
         \<and> (\<forall>b. (c, b) \<in> depends (tw_wf t) \<longrightarrow> (q, b) \<in> depends (tw_wf t')))
    \<and> (\<forall>n. has_step t n \<longrightarrow> HasPrefix n ''wait-'' \<longrightarrow> (''copy-objects'', n) \<in> depends (tw_wf t')))"
proof -
  let ?S = "depends (tw_wf t)" and ?F = "finished (tw_wf t)"
  have l: "lands (\<lambda>_. within ?F (insert copy_step (set (step_names (tw_wf t)))) {copy_step}) (\<lambda>_. True) (r, t')"
    using finalize_within [OF assms(1) built_by_built [OF assms(1,2)] assms(3,4)] unfolding assms(5) [symmetric] .
  have "acyclic (depends (tw_wf t')) \<and> (\<forall>(a, b) \<in> depends (tw_wf t'). has_step t' a \<and> has_step t' b)
      \<and> ?F \<subseteq> depends (tw_wf t')" if "r = Ok ()"
    using l that by (auto simp: within_def scheduled_def sound_graph_def)
  moreover have "?S \<subseteq> ?F" by (auto simp: finished_def)
  moreover have "(c, q) \<in> ?F \<and> (\<forall>b. (c, b) \<in> ?S \<longrightarrow> (q, b) \<in> ?F)"
    if "(q, c) \<in> set quota_pairs" "has_step t q" "has_step t c" for q c
    using that by (force simp: finished_def quota_added_def quota_deps_def)
  moreover have "(copy_step, n) \<in> ?F" if "has_step t n" "HasPrefix n ''wait-''" for n
    using that by (simp add: finished_def)
  moreover have "r \<notin> {Panic, Hang}" using l by (cases r) auto
  ultimately show ?thesis by blast
qed

definition example_quota :: test_workflow where
  "example_quota = snd (WaitForVMQuota example_engine \<lparr>qa_Metric = ''CPUS'', qa_Units = 8, qa_Region = []\<rparr> example_rebooted)"

theorem finalized_graph_witness:
  "\<exists>t'. finalize example_engine ''gs://b'' ''/tests'' quota_pairs example_quota = (Ok (), t')
     \<and> (createVMsStepName, waitForVMQuotaStepName) \<in> depends (tw_wf t')
     \<and> (''copy-objects'', ''wait-started-vm-1'') \<in> depends (tw_wf t')"
proof -
  obtain r t' where r: "finalize example_engine ''gs://b'' ''/tests'' quota_pairs example_quota = (r, t')"
    by (cases "finalize example_engine ''gs://b'' ''/tests'' quota_pairs example_quota")
  have "fst (finalize example_engine ''gs://b'' ''/tests'' quota_pairs example_quota) = Ok ()" by code_simp
  then have ok: "r = Ok ()" using r by simp
  have b: "built_by example_engine example_quota"
    unfolding example_quota_def by (rule built_by.call [OF example_built(3) fixture_call.vm_quota])
  have z: "region_guess (wf_Zone (tw_wf example_quota)) \<noteq> None" by code_simp
  have n: "list_all (\<lambda>n. has_step example_quota n) [waitForVMQuotaStepName, createVMsStepName, ''wait-started-vm-1'']"
    by code_simp
  have p: "(waitForVMQuotaStepName, createVMsStepName) \<in> set quota_pairs" "HasPrefix ''wait-started-vm-1'' ''wait-''"
    by (simp_all add: quota_pairs_def HasPrefix_def)
  from finalized_graph [OF example_engine_ok b z disjI1 [OF refl] r] n p ok show ?thesis
    using r by fastforce
qed

end
