(* ===== verification/Workflow_Run.thy ===== *)
theory Workflow_Run
  imports Workflow_Ready Cleaner_Guarantees
begin

text \<open>
  Running a test workflow in \<open>testworkflow.go\<close>: its creation from the options, the run with retries in
  other zones after stockouts, the cleanup and the collection of results.  The cloud, the engine's
  run, the test suite's setup and the storage of results are parameters.
\<close>

subsection \<open>Creating a test workflow\<close>

text \<open>What the code asks the compute service for; images are those of the regular and the beta interface.\<close>

record client =
  ct_GetProject :: "string \<Rightarrow> string + string"
  ct_GetZone :: "string \<Rightarrow> string \<Rightarrow> string + string"
  ct_GetImage :: "string \<Rightarrow> string \<Rightarrow> string + image"
  ct_GetImageFromFamily :: "string \<Rightarrow> string \<Rightarrow> string + image"
  ct_GetImageBeta :: "string \<Rightarrow> string \<Rightarrow> string + image"
  ct_GetImageFromFamilyBeta :: "string \<Rightarrow> string \<Rightarrow> string + image"
  ct_GetMachineType :: "string \<Rightarrow> string \<Rightarrow> string \<Rightarrow> string + string"
  ct_ReadFile :: "string \<Rightarrow> string + string"

definition reservation :: "options \<Rightarrow> affinity option" where
  "reservation opts =
     (if op_UseReservations opts
      then Some (if op_ReservationURLs opts = []
           then \<lparr>ra_Type = ''ANY_RESERVATION'', ra_Key = [], ra_Values = op_ReservationURLs opts\<rparr>
           else \<lparr>ra_Type = ''SPECIFIC_RESERVATION'', ra_Key = ''compute.googleapis.com/reservation-name'',
                 ra_Values = op_ReservationURLs opts\<rparr>)
      else None)"

text \<open>
  The images.  The error of the first lookup is overwritten by that of the second, so a first lookup
  that failed leaves a nil image behind, which the code dereferences next: a panic.
\<close>

definition find_image :: "client \<Rightarrow> string \<Rightarrow> image outcome" where
  "find_image c img =
     (case Split (CHR ''/'') img of
        _ # p # rest \<Rightarrow>
          (let name = last (p # rest); family = Contains img ''family'';
               ga = (if family then ct_GetImageFromFamily c p name else ct_GetImage c p name);
               beta = (if family then ct_GetImageFromFamilyBeta c p name else ct_GetImageBeta c p name)
           in case beta of Inl err \<Rightarrow> Fail err
              | Inr _ \<Rightarrow> (case ga of Inl _ \<Rightarrow> Panic | Inr i \<Rightarrow> Ok i))
      | _ \<Rightarrow> Panic)"

text \<open>The custom startup script, empty when none is asked for.\<close>

definition read_script :: "client \<Rightarrow> options \<Rightarrow> string + string" where
  "read_script c opts =
     (if op_CustomStartupScript opts = [] then Inr []
      else (case ct_ReadFile c (op_CustomStartupScript opts) of
              Inl err \<Rightarrow> Inl (''failed to read custom startup script file '' @ op_CustomStartupScript opts @ '': '' @ err)
            | Inr content \<Rightarrow> Inr content))"

definition with_zones :: "options \<Rightarrow> options" where
  "with_zones opts = (if op_Zones opts = [] \<and> op_Zone opts \<noteq> [] then opts\<lparr>op_Zones := [op_Zone opts]\<rparr> else opts)"

text \<open>\<open>new\<close> is the workflow that daisy creates.\<close>

definition configured_workflow :: "workflow \<Rightarrow> options \<Rightarrow> workflow" where
  "configured_workflow new opts =
     (if op_ComputeEndpointOverride opts \<noteq> [] then new\<lparr>wf_ComputeEndpoint := op_ComputeEndpointOverride opts\<rparr> else new)
       \<lparr>wf_Name := map (\<lambda>c. if c = CHR ''_'' then CHR ''-'' else c) (op_Name opts),
        wf_DefaultTimeout := op_Timeout opts, wf_Zone := op_Zone opts\<rparr>"

definition assemble :: "workflow \<Rightarrow> options \<Rightarrow> string \<Rightarrow> image \<Rightarrow> string \<Rightarrow> string \<Rightarrow> test_workflow" where
  "assemble new opts project img machineType script =
     \<lparr>tw_Name = op_Name opts, tw_Image = img, tw_ImageURL = op_Image opts, tw_MachineType = Some machineType,
      tw_Project = project, tw_GCSPath = [], tw_skipped = False, tw_skippedMessage = [],
      tw_testExcludeFilter = op_ExcludeFilter opts, tw_wf = configured_workflow new opts, tw_counter = 0,
      tw_lockProject = False, tw_ReservationAffinity = reservation opts,
      tw_ReservationAffinityBeta = reservation opts, tw_ReservationBound = op_ReservationBound opts,
      tw_AcceleratorType = op_AcceleratorType opts, tw_AcceleratorCount = op_AcceleratorCount opts,
      tw_CreatesLoadBalancers = False, tw_argZoneOverride = op_ArgZoneOverride opts, tw_opts = opts,
      tw_customStartupScriptContent = script, tw_testSkipReasons = Map.empty,
      tw_machines = [], tw_networks = [], tw_subnetworks = []\<rparr>"

definition NewTestWorkflow :: "client \<Rightarrow> workflow \<Rightarrow> options \<Rightarrow> test_workflow outcome" where
  "NewTestWorkflow c new opts0 =
     (let opts = with_zones opts0
      in case ct_GetProject c (op_Project opts) of Inl err \<Rightarrow> Fail err | Inr project \<Rightarrow>
      (case ct_GetZone c project (op_Zone opts) of Inl err \<Rightarrow> Fail err | Inr zone \<Rightarrow>
      (case find_image c (op_Image opts) of Fail err \<Rightarrow> Fail err | Panic \<Rightarrow> Panic | Hang \<Rightarrow> Hang | Ok img \<Rightarrow>
      (case ct_GetMachineType c project zone
          (if im_Architecture img = ''ARM64'' then op_ARM64Shape opts else op_X86Shape opts) of
         Inl err \<Rightarrow> Fail err
       | Inr mt \<Rightarrow> (case read_script c opts of
             Inl err \<Rightarrow> Fail err
           | Inr script \<Rightarrow> Ok (assemble new opts project img mt script))))))"

subsection \<open>Cleaning up after a workflow\<close>

text \<open>The region of a zone, empty when there is none; a zone may also be a path or a URL.\<close>

definition regionFromZone :: "string \<Rightarrow> string" where
  "regionFromZone zone =
     (let z = path_Base zone; i = LastIndex (CHR ''-'') z in if i \<le> 0 then [] else take (nat i) z)"

definition workflow_zones :: "test_workflow \<Rightarrow> string list" where
  "workflow_zones t =
     wf_Zone (tw_wf t) # concat (map (\<lambda>(n, s). map (\<lambda>a. m_Zone (tw_machines t ! a)) (step_machines s))
       (wf_Steps (tw_wf t)))"

text \<open>Strings are sorted by bytes; the list is empty where the code returns nil, which asks for all regions.\<close>

definition workflowRegions :: "test_workflow \<Rightarrow> string list" where
  "workflowRegions t =
     sort (remdups (filter (\<lambda>r. r \<noteq> []) (map regionFromZone (workflow_zones t))))"

text \<open>
  The plans of the cleanup: the cloud is listed anew by each, \<open>None\<close> is the panic of \<open>CleanNetworks\<close>.
\<close>

definition clean_plans :: "(nat \<Rightarrow> cloud) \<Rightarrow> test_workflow \<Rightarrow> plan option list" where
  "clean_plans clouds t =
     (let project = wf_Project (tw_wf t); mine = WorkflowPolicy (wf_ID (tw_wf t))
      in [Some (CleanInstances (clouds 0) project mine), Some (CleanDisks (clouds 1) project mine)]
         @ (if tw_CreatesLoadBalancers t
            then [Some (CleanLoadBalancerResources (clouds 2) project mine (workflowRegions t))] else [])
         @ [CleanNetworks (clouds 3) project mine])"

text \<open>What was cleaned and the errors; \<open>outs\<close> are the outcomes of the deletions of each plan.\<close>

definition cleanTestWorkflow ::
  "(nat \<Rightarrow> cloud) \<Rightarrow> (nat \<Rightarrow> nat \<Rightarrow> string option) \<Rightarrow> test_workflow \<Rightarrow> (string list \<times> string list) option" where
  "cleanTestWorkflow clouds outs t =
     (let ps = clean_plans clouds t
      in if None \<in> set ps then None
         else let rs = map (\<lambda>(i, p). run_plan False (outs i) 0 (the p)) (enumerate 0 ps)
              in Some (concat (map fst rs), concat (map snd rs)))"

subsection \<open>Serial logs\<close>

definition workflowInstances :: "test_workflow \<Rightarrow> nat list" where
  "workflowInstances t =
     concat (map (\<lambda>(n, s). case st_CreateInstances s of None \<Rightarrow> [] | Some (gs, bs) \<Rightarrow> gs) (wf_Steps (tw_wf t)))"

text \<open>
  The machines whose serial output is captured and which are then deleted, as pairs of zone and name;
  \<open>clients\<close> tells whether the run got as far as to create the clients.  What is fetched, the copies and
  all errors are only logged.
\<close>

definition dumpSerialLogs :: "engine \<Rightarrow> bool \<Rightarrow> test_workflow \<Rightarrow> (string \<times> string) list" where
  "dumpSerialLogs e clients t =
     (if \<not> serialOnceEnabled e \<or> \<not> clients then []
      else filter (\<lambda>(zone, name). name \<noteq> [] \<and> zone \<noteq> [])
        (map (\<lambda>a. (path_Base (m_Zone (tw_machines t ! a)), m_Name (tw_machines t ! a))) (workflowInstances t)))"

subsection \<open>Retrying in other zones\<close>

definition isStockoutOrQuotaError :: "string option \<Rightarrow> bool" where
  "isStockoutOrQuotaError err =
     (case err of
        None \<Rightarrow> False
      | Some e \<Rightarrow> Contains e ''ZONE_RESOURCE_POOL_EXHAUSTED'' \<or> Contains e ''INSUFFICIENT_CAPACITY''
                  \<or> Contains e ''QUOTA_EXCEEDED'')"

text \<open>
  What a run depends on: the engine, the compute service, the setup of the suite, and by the index of
  the zone the workflow daisy creates, the order in which finalizing ranges over the quota steps and
  the error of the run; and the results that can be downloaded.
\<close>

record world =
  ww_engine :: engine
  ww_client :: client
  ww_setup :: "unit operation option"
  ww_new :: "nat \<Rightarrow> workflow"
  ww_order :: "nat \<Rightarrow> (string \<times> string) list"
  ww_run :: "nat \<Rightarrow> test_workflow \<Rightarrow> string option"
  ww_download :: "string \<Rightarrow> string + string"
  ww_gcsPrefix :: string
  ww_localPath :: string

definition recreateTestWorkflow :: "world \<Rightarrow> nat \<Rightarrow> test_workflow \<Rightarrow> string \<Rightarrow> test_workflow outcome" where
  "recreateTestWorkflow w i old zone =
     (case NewTestWorkflow (ww_client w) (ww_new w i) ((tw_opts old)\<lparr>op_Zone := zone\<rparr>) of
        Fail err \<Rightarrow> Fail err | Panic \<Rightarrow> Panic | Hang \<Rightarrow> Hang
      | Ok t \<Rightarrow>
          let t = t\<lparr>tw_wf := (tw_wf t)\<lparr>wf_Project := wf_Project (tw_wf old)\<rparr>\<rparr>
          in case ww_setup w of
               None \<Rightarrow> Ok t
             | Some su \<Rightarrow> (case su t of
                   (Ok _, t') \<Rightarrow> Ok t' | (Fail err, _) \<Rightarrow> Fail err | (Panic, _) \<Rightarrow> Panic | (Hang, _) \<Rightarrow> Hang))"

text \<open>
  What happens to the outside: a workflow runs, its serial logs are captured, what it left is cleaned.
  A run of the code ends with an error or none, or crashes.
\<close>

datatype run_event = Runs test_workflow | Dumps test_workflow | Cleans test_workflow

datatype status = Returned "string option" | Crashed

text \<open>Before the run in a zone: nothing for the first, for the others a new workflow.\<close>

definition prepare_zone ::
  "world \<Rightarrow> nat \<Rightarrow> string \<Rightarrow> test_workflow \<Rightarrow> run_event list \<times> test_workflow \<times> status option" where
  "prepare_zone w i zone t =
     (if i = 0 then ([], t, None)
      else ([Cleans t],
        (case recreateTestWorkflow w i t zone of
           Fail err \<Rightarrow> (t, Some (Returned (Some (''failed to recreate workflow for retry: '' @ err))))
         | Panic \<Rightarrow> (t, Some Crashed) | Hang \<Rightarrow> (t, Some Crashed)
         | Ok n \<Rightarrow>
             (case finalize (ww_engine w) (ww_gcsPrefix w) (ww_localPath w) (ww_order w i) n of
                (Ok _, n') \<Rightarrow> (n', None)
              | (Fail err, n') \<Rightarrow> (n', Some (Returned (Some (''failed to finalize workflow for retry: '' @ err))))
              | (Panic, _) \<Rightarrow> (t, Some Crashed) | (Hang, _) \<Rightarrow> (t, Some Crashed)))))"

fun retry_zones ::
  "world \<Rightarrow> nat \<Rightarrow> string list \<Rightarrow> test_workflow \<Rightarrow> string option \<Rightarrow> run_event list \<times> test_workflow \<times> status" where
  "retry_zones w i [] t err = ([], t, Returned err)"
| "retry_zones w i (zone # zones) t err =
     (case prepare_zone w i zone t of
        (ev, t', Some st) \<Rightarrow> (ev, t', st)
      | (ev, t', None) \<Rightarrow>
          (case ww_run w i t' of
             None \<Rightarrow> (ev @ [Runs t'], t', Returned None)
           | Some e \<Rightarrow>
               if \<not> isStockoutOrQuotaError (Some e) then (ev @ [Runs t', Dumps t'], t', Returned (Some e))
               else (case retry_zones w (Suc i) zones t' (Some e) of
                       (ev', t'', st) \<Rightarrow> (ev @ [Runs t', Dumps t'] @ ev', t'', st))))"

definition runTestWorkflowWithRetries :: "world \<Rightarrow> test_workflow \<Rightarrow> run_event list \<times> test_workflow \<times> status" where
  "runTestWorkflowWithRetries w t = retry_zones w 0 (op_Zones (tw_opts t)) t None"

subsection \<open>Running a test\<close>

text \<open>The progress of all tests.\<close>

record metrics =
  mt_total :: int
  mt_running :: int
  mt_finished :: int

definition newTestMetrics :: "int \<Rightarrow> metrics" where
  "newTestMetrics n = \<lparr>mt_total = n, mt_running = 0, mt_finished = 0\<rparr>"

definition started :: "metrics \<Rightarrow> metrics" where
  "started m = m\<lparr>mt_running := mt_running m + 1\<rparr>"

definition test_done :: "metrics \<Rightarrow> metrics" where
  "test_done m = m\<lparr>mt_running := mt_running m - 1, mt_finished := mt_finished m + 1\<rparr>"

definition progress :: "metrics \<Rightarrow> string" where
  "progress m = ''total: '' @ itoa (mt_total m) @ '', running: '' @ itoa (mt_running m)
     @ '', finished: '' @ itoa (mt_finished m) @ '', delta: '' @ itoa (mt_total m - mt_finished m)"

record test_result =
  tr_testWorkflow :: test_workflow
  tr_skipped :: bool
  tr_workflowSuccess :: bool
  tr_err :: "string option"
  tr_results :: "string list"

text \<open>The results of the machines in the order of their creation.\<close>

fun download_all :: "(string \<Rightarrow> string + string) \<Rightarrow> string \<Rightarrow> machine list \<Rightarrow> string + string list" where
  "download_all get name [] = Inr []"
| "download_all get name (m # ms) =
     (case get (case m_Metadata m ''_test_results_url'' of None \<Rightarrow> [] | Some url \<Rightarrow> url) of
        Inl err \<Rightarrow> Inl (''failed to get results for test '' @ name @ '' vm '' @ m_Name m @ '': '' @ err)
      | Inr out \<Rightarrow> map_sum id (\<lambda>outs. out # outs) (download_all get name ms))"

definition getTestResults :: "(string \<Rightarrow> string + string) \<Rightarrow> test_workflow \<Rightarrow> (string + string list) option" where
  "getTestResults get t =
     (case step_of t createVMsStepName of
        None \<Rightarrow> Some (Inr [])
      | Some s \<Rightarrow> (case st_CreateInstances s of
            None \<Rightarrow> None
          | Some (gs, bs) \<Rightarrow> Some (download_all get (tw_Name t) (map (\<lambda>a. tw_machines t ! a) (gs @ bs)))))"

text \<open>
  The cleanup is deferred: it runs however the function ends, on the workflow that the result holds
  then, which after a crash is the one it began with.
\<close>

definition new_result :: "test_workflow \<Rightarrow> test_result" where
  "new_result t = \<lparr>tr_testWorkflow = t, tr_skipped = False, tr_workflowSuccess = False, tr_err = None, tr_results = []\<rparr>"

definition runTestWorkflow ::
  "world \<Rightarrow> metrics \<Rightarrow> test_workflow \<Rightarrow> run_event list \<times> test_result option \<times> metrics" where
  "runTestWorkflow w m t =
     (let m = started m
      in if tw_skipped t
         then ([], Some ((new_result t)\<lparr>tr_skipped := True,
           tr_err := Some (''test suite was skipped with message: \"'' @ SkippedMessage t @ ''\"'')\<rparr>), m)
         else (case runTestWorkflowWithRetries w t of
             (ev, _, Crashed) \<Rightarrow> (ev @ [Cleans t], None, test_done m)
           | (ev, t', Returned (Some err)) \<Rightarrow>
               (ev @ [Dumps t', Cleans t'], Some ((new_result t')\<lparr>tr_err := Some err\<rparr>), test_done m)
           | (ev, t', Returned None) \<Rightarrow>
               (case getTestResults (ww_download w) t' of
                  None \<Rightarrow> (ev @ [Cleans t'], None, test_done m)
                | Some (Inl err) \<Rightarrow>
                    (ev @ [Dumps t', Cleans t'], Some ((new_result t')\<lparr>tr_err := Some err\<rparr>), test_done m)
                | Some (Inr results) \<Rightarrow>
                    (ev @ [Dumps t', Cleans t'],
                     Some ((new_result t')\<lparr>tr_results := results, tr_workflowSuccess := True\<rparr>), test_done m))))"

end
