(* ===== verification/Cleanup_Command.thy ===== *)
theory Cleanup_Command
  imports Cleaner_Guarantees Workflow_Run
begin

text \<open>
  \<open>cmd/cleanup/main.go\<close>: the command that cleans a project by age or by workflow identifiers.  Then
  what it shares with the cleanup after a test workflow: which machines and disks are deleted.
\<close>

subsection \<open>The policy\<close>

text \<open>\<open>^[bdghjlmnpqrstvwxyz0-9]{5}$\<close>\<close>

definition workflowIDPattern :: "string \<Rightarrow> bool" where
  "workflowIDPattern s \<longleftrightarrow> length s = 5 \<and> list_all (\<lambda>c. c \<in> set ''bdghjlmnpqrstvwxyz0123456789'') s"

fun collect_ids :: "string list \<Rightarrow> string list \<Rightarrow> string + string list" where
  "collect_ids ids [] = Inr ids"
| "collect_ids ids (raw # raws) =
     (let id = TrimSpace raw
      in if \<not> workflowIDPattern id
         then Inl (''invalid Daisy workflow ID \"'' @ id @ ''\" (want 5 lowercase Daisy ID characters)'')
         else collect_ids (if id \<in> set ids then ids else ids @ [id]) raws)"

definition cleanupPolicy :: "string \<Rightarrow> time \<Rightarrow> string + policy \<times> string list" where
  "cleanupPolicy workflowIDsCSV cutoff =
     (if TrimSpace workflowIDsCSV = [] then Inr (AgePolicy cutoff, [])
      else map_sum id (\<lambda>ids. (\<lambda>r. list_ex (\<lambda>i. WorkflowPolicy i r) ids, ids))
             (collect_ids [] (Split (CHR '','') workflowIDsCSV)))"

subsection \<open>The command\<close>

record cleanup_flags =
  cf_project :: string
  cf_olderThan :: duration
  cf_workflowIDs :: string
  cf_regions :: string
  cf_noDryRun :: bool

definition default_cleanup_flags :: cleanup_flags where
  "default_cleanup_flags = \<lparr>cf_project = [], cf_olderThan = 2 * 60 * minute, cf_workflowIDs = [],
     cf_regions = ''europe-west1'', cf_noDryRun = False\<rparr>"

text \<open>The plans in their order; the cloud is listed anew by each, \<open>None\<close> is the panic of \<open>CleanNetworks\<close>.\<close>

definition cleanup_plans :: "(nat \<Rightarrow> cloud) \<Rightarrow> string \<Rightarrow> policy \<Rightarrow> string list \<Rightarrow> (string \<times> plan option) list" where
  "cleanup_plans clouds project policy regions =
     [(''instances'', Some (CleanInstances (clouds 0) project policy)),
      (''disks'', Some (CleanDisks (clouds 1) project policy)),
      (''loadbalancer'', Some (CleanLoadBalancerResources (clouds 2) project policy regions)),
      (''networks'', CleanNetworks (clouds 3) project policy)]"

definition report_lines :: "string \<Rightarrow> string \<Rightarrow> string list \<times> string list \<Rightarrow> string list" where
  "report_lines verb kind res =
     (case res of (cleaned, errs) \<Rightarrow>
        map (\<lambda>n. ''  ['' @ kind @ ''] '' @ n) cleaned @ map (\<lambda>e. ''  ['' @ kind @ ''] error: '' @ e) errs
        @ [kind @ '': '' @ verb @ '' '' @ itoa (int (length cleaned)) @ '' resource(s)''])"

text \<open>
  What the command does: it refuses to run, or it executes the plans up to the first that panics.  Its
  effect is the deletions of the executed plans, its output the lines that report them.
\<close>

datatype cleanup_end = Refused string | Crashes | Finished

record cleanup_effect =
  ce_end :: cleanup_end
  ce_calls :: "call list"
  ce_lines :: "string list"

fun execute_plans ::
  "bool \<Rightarrow> string \<Rightarrow> (nat \<Rightarrow> nat \<Rightarrow> string option) \<Rightarrow> nat \<Rightarrow> (string \<times> plan option) list \<Rightarrow> cleanup_effect" where
  "execute_plans dry verb outs i [] = \<lparr>ce_end = Finished, ce_calls = [], ce_lines = []\<rparr>"
| "execute_plans dry verb outs i ((kind, p) # ps) =
     (case p of
        None \<Rightarrow> \<lparr>ce_end = Crashes, ce_calls = [], ce_lines = []\<rparr>
      | Some q \<Rightarrow>
          let e = execute_plans dry verb outs (Suc i) ps
          in e\<lparr>ce_calls := calls dry q @ ce_calls e,
               ce_lines := report_lines verb kind (run_plan dry (outs i) 0 q) @ ce_lines e\<rparr>)"

text \<open>\<open>clients\<close> is the error of the cloud clients.  The line that announces the mode is left out.\<close>

definition cleanup_main ::
  "(nat \<Rightarrow> cloud) \<Rightarrow> (nat \<Rightarrow> nat \<Rightarrow> string option) \<Rightarrow> string option \<Rightarrow> time \<Rightarrow> cleanup_flags \<Rightarrow> cleanup_effect" where
  "cleanup_main clouds outs clients now fl =
     (let refuse = (\<lambda>msg. \<lparr>ce_end = Refused msg, ce_calls = [], ce_lines = []\<rparr>)
      in if cf_project fl = [] then refuse ''must provide -project''
         else (case clients of Some err \<Rightarrow> refuse (''failed to build GCP clients (is ADC set? run: gcloud auth application-default login): '' @ err) | None \<Rightarrow>
           (case cleanupPolicy (cf_workflowIDs fl) (now - cf_olderThan fl) of Inl err \<Rightarrow> refuse err
            | Inr (policy, ids) \<Rightarrow>
                let dry = \<not> cf_noDryRun fl
                in execute_plans dry (if dry then ''would delete'' else ''deleted'') outs 0
                     (cleanup_plans clouds (cf_project fl) policy (Split (CHR '','') (cf_regions fl))))))"

subsection \<open>Machines and disks\<close>

fun guest_call :: "call \<Rightarrow> bool" where
  "guest_call (DeleteInstance z n) = True"
| "guest_call (DeleteDisk z n) = True"
| "guest_call _ = False"

lemma apart_guest [simp]: "apart guest_call"
  by (simp add: apart_def)

lemma guest_tasks [simp]:
  "\<not> guest_call (tk_call (hc_task p r l))" "\<not> guest_call (tk_call (firewall_task p x))"
  "\<not> guest_call (tk_call (route_task p x))" "\<not> guest_call (tk_call (network_task p x))"
  by (simp_all add: hc_task_def firewall_task_def route_task_def network_task_def mk_task_def Let_def)

lemma no_guests_lb: "chosen guest_call (events (CleanLoadBalancerResources c project delete regions)) = []"
proof -
  have "chosen guest_call (events (lb_region c project delete region)) = []" for region
    by (auto simp: lb_region_def events_def chosen_ask chosen_backend chosen_negs apart_tasks split: prod.split)
  then show ?thesis
    by (auto simp: CleanLoadBalancerResources_def events_Cons events_concat apart_tasks split: sum.split)
      (auto simp: events_def chosen_def)
qed

lemma no_guests_subnets: "subnets_plan c project delete n sns = Some p \<Longrightarrow> chosen guest_call (events p) = []"
proof (induction sns arbitrary: p)
  case (Cons sn sns)
  have "chosen guest_call (events (subnet_plan c project delete n sn)) = []"
    by (auto simp: subnet_plan_def Let_def events_def chosen_ask chosen_backend chosen_negs
        apart_tasks mk_task_def split: prod.split)
  then show ?case using Cons by (auto split: if_splits option.splits bool.splits)
qed (simp add: events_def)

lemma no_guests_network: "network_plan c project delete fws subs rts n = Some p \<Longrightarrow> chosen guest_call (events p) = []"
  by (auto simp: network_plan_def events_Cons no_guests_subnets split: option.splits) (simp add: events_def)

lemma no_guests_plans:
  "concat_plans (map (network_plan c project delete fws subs rts) ns) = Some q \<Longrightarrow> chosen guest_call (events q) = []"
proof (induction ns arbitrary: q)
  case (Cons n ns)
  then obtain p1 p2 where "network_plan c project delete fws subs rts n = Some p1" "q = p1 @ p2"
    "concat_plans (map (network_plan c project delete fws subs rts) ns) = Some p2" by (auto split: option.splits)
  moreover have "events (p1 @ p2) = events p1 @ events p2" by (simp add: events_def)
  ultimately show ?case using Cons.IH no_guests_network by simp
qed (simp add: events_def)

lemma no_guests_networks: "CleanNetworks c project delete = Some p \<Longrightarrow> chosen guest_call (events p) = []"
  using no_guests_plans by (auto simp: CleanNetworks_def split: sum.splits) (auto simp: events_def chosen_def)

text \<open>The deletion of a machine and of a disk of a listing.\<close>

definition delete_instance :: "resource \<Rightarrow> call" where
  "delete_instance r = DeleteInstance (path_Base (re_zone r)) (path_Base (re_selfLink r))"

definition delete_disk :: "resource \<Rightarrow> call" where
  "delete_disk r = DeleteDisk (path_Base (re_zone r)) (path_Base (re_selfLink r))"

definition listed :: "listing \<Rightarrow> resource list" where
  "listed l = (case l of Inl e \<Rightarrow> [] | Inr rs \<Rightarrow> rs)"

lemma guests_instances:
  "chosen guest_call (events (CleanInstances c project delete)) = map delete_instance (filter delete (listed (cl_instances c)))"
  by (auto simp: CleanInstances_def clean_listing_def events_def listed_def spawn_each_def chosen_def
      delete_instance_def mk_task_def Let_def o_def split: sum.split)

lemma guests_disks:
  "chosen guest_call (events (CleanDisks c project delete)) = map delete_disk (filter delete (listed (cl_disks c)))"
  by (auto simp: CleanDisks_def clean_listing_def events_def listed_def spawn_each_def chosen_def
      delete_disk_def mk_task_def Let_def o_def split: sum.split)

lemma execute_calls:
  assumes "execute_plans dry verb outs i ps = e" and "ce_end e = Finished"
  shows "list_all (\<lambda>(kind, p). p \<noteq> None) ps \<and> ce_calls e = concat (map (\<lambda>(kind, p). calls dry (the p)) ps)"
  using assms by (induction ps arbitrary: i e) (auto simp: Let_def split: option.splits)

lemma execute_dry: "ce_calls (execute_plans True verb outs i ps) = []"
  by (induction ps arbitrary: i) (auto simp: calls_def Let_def split: option.splits)

lemma guests_cleaned:
  assumes "CleanNetworks (clouds 3) project policy = Some nets"
  shows "filter guest_call (calls False (CleanInstances (clouds (0 :: nat)) project policy)
      @ calls False (CleanDisks (clouds 1) project policy)
      @ calls False (CleanLoadBalancerResources (clouds 2) project policy regions) @ calls False nets)
    = map delete_instance (filter policy (listed (cl_instances (clouds 0))))
      @ map delete_disk (filter policy (listed (cl_disks (clouds 1))))"
  using guests_instances guests_disks no_guests_lb no_guests_networks [OF assms]
  by (simp add: calls_def flip: chosen_def)

lemma collect_ids_Inr:
  "collect_ids ids raws = Inr js \<Longrightarrow> distinct ids \<Longrightarrow>
     distinct js \<and> set js = set ids \<union> TrimSpace ` set raws \<and> list_all workflowIDPattern (map TrimSpace raws)"
proof (induction raws arbitrary: ids)
  case (Cons raw raws)
  then have "workflowIDPattern (TrimSpace raw)"
    and "collect_ids (if TrimSpace raw \<in> set ids then ids else ids @ [TrimSpace raw]) raws = Inr js"
    by (auto simp: Let_def split: if_splits)
  with Cons.IH [OF this(2)] Cons.prems(2) show ?case by (auto split: if_splits)
qed simp

text \<open>What the flags ask for: the resources of some workflow, or old ones.\<close>

definition selected :: "cleanup_flags \<Rightarrow> time \<Rightarrow> policy" where
  "selected fl now r =
     (if TrimSpace (cf_workflowIDs fl) = [] then AgePolicy (now - cf_olderThan fl) r
      else \<exists>raw \<in> set (Split (CHR '','') (cf_workflowIDs fl)). WorkflowPolicy (TrimSpace raw) r)"

lemma cleanupPolicy_selected:
  assumes "cleanupPolicy (cf_workflowIDs fl) (now - cf_olderThan fl) = Inr (policy, ids)"
  shows "policy = selected fl now"
proof
  fix r
  show "policy r = selected fl now r"
  proof (cases "TrimSpace (cf_workflowIDs fl) = []")
    case False
    then obtain js where "collect_ids [] (Split (CHR '','') (cf_workflowIDs fl)) = Inr js"
      and "policy = (\<lambda>r. list_ex (\<lambda>i. WorkflowPolicy i r) js)"
      using assms by (cases "collect_ids [] (Split (CHR '','') (cf_workflowIDs fl))") (auto simp: cleanupPolicy_def)
    with collect_ids_Inr [OF this(1)] False show ?thesis by (auto simp: selected_def list_ex_iff)
  qed (use assms in \<open>auto simp: cleanupPolicy_def selected_def\<close>)
qed

text \<open>C14: The cleanup command is as careful as it says: by default it deletes nothing at all; with
  \<open>-no-dry-run\<close> it deletes, of machines and disks, exactly the listed ones that its flags select, each
  once, the machines first; and it only starts when every workflow identifier on its command line
  has the form of one.\<close>

theorem cleanup_command_scoped:
  assumes "cleanup_main clouds outs clients now fl = e" and "ce_end e = Finished"
  shows "(\<not> cf_noDryRun fl \<longrightarrow> ce_calls e = [])
    \<and> (cf_noDryRun fl \<longrightarrow> filter guest_call (ce_calls e)
          = map delete_instance (filter (selected fl now) (listed (cl_instances (clouds 0))))
            @ map delete_disk (filter (selected fl now) (listed (cl_disks (clouds 1)))))
    \<and> (TrimSpace (cf_workflowIDs fl) \<noteq> [] \<longrightarrow>
         (\<forall>raw \<in> set (Split (CHR '','') (cf_workflowIDs fl)). workflowIDPattern (TrimSpace raw)))"
proof -
  obtain policy ids where p: "cleanupPolicy (cf_workflowIDs fl) (now - cf_olderThan fl) = Inr (policy, ids)"
    and e: "e = execute_plans (\<not> cf_noDryRun fl) (if \<not> cf_noDryRun fl then ''would delete'' else ''deleted'') outs 0
        (cleanup_plans clouds (cf_project fl) policy (Split (CHR '','') (cf_regions fl)))"
    using assms by (auto simp: cleanup_main_def Let_def split: if_splits option.splits sum.splits)
  note x = execute_calls [OF e [symmetric] assms(2)]
  obtain nets where nets: "CleanNetworks (clouds 3) (cf_project fl) policy = Some nets"
    using x by (auto simp: cleanup_plans_def)
  have "cf_noDryRun fl \<Longrightarrow> ce_calls e = calls False (CleanInstances (clouds 0) (cf_project fl) policy)
      @ calls False (CleanDisks (clouds 1) (cf_project fl) policy)
      @ calls False (CleanLoadBalancerResources (clouds 2) (cf_project fl) policy (Split (CHR '','') (cf_regions fl))) @ calls False nets"
    using x nets by (simp add: cleanup_plans_def)
  then have "cf_noDryRun fl \<longrightarrow> filter guest_call (ce_calls e)
      = map delete_instance (filter policy (listed (cl_instances (clouds 0)))) @ map delete_disk (filter policy (listed (cl_disks (clouds 1))))"
    using guests_cleaned [of clouds, OF nets] by simp
  moreover have "\<not> cf_noDryRun fl \<longrightarrow> ce_calls e = []" using execute_dry e by auto
  moreover have "TrimSpace (cf_workflowIDs fl) \<noteq> [] \<longrightarrow>
      (\<forall>raw \<in> set (Split (CHR '','') (cf_workflowIDs fl)). workflowIDPattern (TrimSpace raw))"
    using p by (cases "collect_ids [] (Split (CHR '','') (cf_workflowIDs fl))")
      (auto simp: cleanupPolicy_def list_all_iff dest: collect_ids_Inr)
  ultimately show ?thesis unfolding cleanupPolicy_selected [OF p] by blast
qed

subsection \<open>The cleanup after a test workflow\<close>

text \<open>The deletions of the cleanup.\<close>

definition workflow_calls :: "(nat \<Rightarrow> cloud) \<Rightarrow> test_workflow \<Rightarrow> call list" where
  "workflow_calls clouds t = concat (map (\<lambda>p. calls False (the p)) (clean_plans clouds t))"

text \<open>The cleanup after a test workflow deletes, of machines and disks, exactly those whose name ends in the
  identifier of the workflow and that do not ask to be kept: no machine or disk of another test, and
  none that the workflow left behind is missed.\<close>

theorem workflow_cleanup_exact:
  assumes "cleanTestWorkflow clouds outs t = Some res"
  shows "filter guest_call (workflow_calls clouds t)
    = map delete_instance (filter (\<lambda>r. workflow_kinds (re_kind r) \<and> HasSuffix (re_name r) (wf_ID (tw_wf t)) \<and> \<not> Cleaner_Policy.kept r)
        (listed (cl_instances (clouds 0))))
      @ map delete_disk (filter (\<lambda>r. workflow_kinds (re_kind r) \<and> HasSuffix (re_name r) (wf_ID (tw_wf t)) \<and> \<not> Cleaner_Policy.kept r)
        (listed (cl_disks (clouds 1))))"
proof -
  let ?p = "WorkflowPolicy (wf_ID (tw_wf t))" and ?project = "wf_Project (tw_wf t)"
  have eq: "?p = (\<lambda>r. workflow_kinds (re_kind r) \<and> HasSuffix (re_name r) (wf_ID (tw_wf t)) \<and> \<not> Cleaner_Policy.kept r)"
    by (rule ext) (rule WorkflowPolicy_iff)
  have "None \<notin> set (clean_plans clouds t)" using assms by (auto simp: cleanTestWorkflow_def Let_def split: if_splits)
  moreover have "CleanNetworks (clouds 3) ?project ?p \<in> set (clean_plans clouds t)"
    by (simp add: clean_plans_def Let_def)
  ultimately obtain nets where nets: "CleanNetworks (clouds 3) ?project ?p = Some nets" by (metis option.exhaust)
  show ?thesis
    using guests_cleaned [of clouds, OF nets, of "workflowRegions t"] no_guests_networks [OF nets] guests_instances guests_disks
    unfolding eq [symmetric]
    by (cases "tw_CreatesLoadBalancers t") (simp_all add: workflow_calls_def clean_plans_def Let_def nets calls_def flip: chosen_def)
qed

subsection \<open>Examples\<close>

definition example_leftovers :: "nat \<Rightarrow> cloud" where
  "example_leftovers i = example_cloud\<lparr>cl_instances := Inr [example_resource Instance ''vm-bdg12'',
     example_resource Instance ''vm-xyz99''], cl_disks := Inr [example_resource Disk ''d-bdg12'']\<rparr>"

definition example_cleanup :: cleanup_flags where
  "example_cleanup = default_cleanup_flags\<lparr>cf_project := ''p'', cf_workflowIDs := ''bdg12'', cf_noDryRun := True\<rparr>"

theorem cleanup_command_scoped_witness:
  "filter guest_call (ce_calls (cleanup_main example_leftovers (\<lambda>i n. None) None 100 example_cleanup))
     = [DeleteInstance ''us-east1-b'' ''vm-bdg12'', DeleteDisk ''us-east1-b'' ''d-bdg12'']"
proof -
  let ?e = "cleanup_main example_leftovers (\<lambda>i n. None) None 100 example_cleanup"
  have "(case ce_end ?e of Finished \<Rightarrow> True | _ \<Rightarrow> False)" by code_simp
  then have "ce_end ?e = Finished" by (simp split: cleanup_end.splits)
  moreover have "cf_noDryRun example_cleanup" by (simp add: example_cleanup_def)
  moreover have "map delete_instance (filter (selected example_cleanup 100) (listed (cl_instances (example_leftovers 0))))
      @ map delete_disk (filter (selected example_cleanup 100) (listed (cl_disks (example_leftovers 1))))
      = [DeleteInstance ''us-east1-b'' ''vm-bdg12'', DeleteDisk ''us-east1-b'' ''d-bdg12'']" by code_simp
  ultimately show ?thesis using cleanup_command_scoped [OF refl, of example_leftovers "\<lambda>i n. None" None 100 example_cleanup] by simp
qed

theorem workflow_cleanup_exact_witness:
  "filter guest_call (workflow_calls example_leftovers (example_workflow\<lparr>tw_wf := (tw_wf example_workflow)\<lparr>wf_ID := ''bdg12''\<rparr>\<rparr>))
     = [DeleteInstance ''us-east1-b'' ''vm-bdg12'', DeleteDisk ''us-east1-b'' ''d-bdg12'']"
proof -
  let ?t = "example_workflow\<lparr>tw_wf := (tw_wf example_workflow)\<lparr>wf_ID := ''bdg12''\<rparr>\<rparr>"
  have "cleanTestWorkflow example_leftovers (\<lambda>i n. None) ?t \<noteq> None" by code_simp
  then obtain res where r: "cleanTestWorkflow example_leftovers (\<lambda>i n. None) ?t = Some res" by blast
  have "map delete_instance (filter (\<lambda>r. workflow_kinds (re_kind r) \<and> HasSuffix (re_name r) (wf_ID (tw_wf ?t)) \<and> \<not> Cleaner_Policy.kept r)
        (listed (cl_instances (example_leftovers 0))))
      @ map delete_disk (filter (\<lambda>r. workflow_kinds (re_kind r) \<and> HasSuffix (re_name r) (wf_ID (tw_wf ?t)) \<and> \<not> Cleaner_Policy.kept r)
        (listed (cl_disks (example_leftovers 1))))
      = [DeleteInstance ''us-east1-b'' ''vm-bdg12'', DeleteDisk ''us-east1-b'' ''d-bdg12'']" by code_simp
  then show ?thesis using workflow_cleanup_exact [OF r] by simp
qed

end
