(* ===== verification/Go_Decimal.thy ===== *)
theory Go_Decimal
  imports Go_Float Go_Strconv
begin

text \<open>
  Sums of seconds in reports: \<open>strconv.ParseFloat\<close> of decimal numbers, the addition of \<open>float64\<close>
  values and the format \<open>%.3f\<close>.  Exponents, hexadecimal digits and the names of special values are
  not read, as no formatted time has them; overflow and subnormal results are left out, as in
  \<open>Go_Float\<close>.
\<close>

lemma bitlen_numeral [simp]:
  "bitlen 0 = 0" "bitlen (Suc 0) = 1" "bitlen (numeral n) = Suc (bitlen (numeral n div 2))"
  by (simp_all add: bitlen.simps)

definition signed :: "int \<Rightarrow> nat \<Rightarrow> int" where
  "signed s n = (if s < 0 then - int n else int n)"

text \<open>
  The float nearest to \<open>p / q\<close>.  At least 55 bits of the quotient are computed, and one more that tells
  whether anything is left, so the rounding to 53 bits is that of the exact quotient.
\<close>

definition quotient53 :: "int \<Rightarrow> nat \<Rightarrow> float64" where
  "quotient53 p q =
     (let s = 55 + bitlen q; a = nat \<bar>p\<bar> * 2 ^ s; n = a div q
      in Fin (signed p (round53 (2 * n + (if a mod q = 0 then 0 else 1)))) (Suc s))"

text \<open>Digits with a point among them, as a number over a power of ten.\<close>

definition parse_decimal :: "string \<Rightarrow> (int \<times> nat) option" where
  "parse_decimal s =
     (case Split (CHR ''.'') s of
        [a] \<Rightarrow> if a = [] then None else map_option (\<lambda>m. (m, 1)) (digits_val 0 a)
      | [a, b] \<Rightarrow> if a @ b = [] then None else map_option (\<lambda>m. (m, 10 ^ length b)) (digits_val 0 (a @ b))
      | _ \<Rightarrow> None)"

definition ParseFloat :: "string \<Rightarrow> float64 option" where
  "ParseFloat s =
     (case s of
        [] \<Rightarrow> None
      | c # r \<Rightarrow>
          map_option (\<lambda>(m, q). quotient53 (if c = CHR ''-'' then - m else m) q)
            (parse_decimal (if c = CHR ''-'' \<or> c = CHR ''+'' then r else s)))"

fun f64_add :: "float64 \<Rightarrow> float64 \<Rightarrow> float64" where
  "f64_add (Fin a j) (Fin b k) =
     (let m = max j k; n = a * 2 ^ (m - j) + b * 2 ^ (m - k) in Fin (signed n (round53 (nat \<bar>n\<bar>))) m)"
| "f64_add (Inf p) (Inf q) = (if p = q then Inf p else NaN)"
| "f64_add (Inf p) (Fin b k) = Inf p"
| "f64_add (Fin a j) (Inf q) = Inf q"
| "f64_add NaN y = NaN"
| "f64_add x NaN = NaN"

text \<open>\<open>%.3f\<close>: the nearest number of thousandths, the even one of two.\<close>

definition thousandths :: "nat \<Rightarrow> nat \<Rightarrow> nat" where
  "thousandths m k =
     (let q = m * 1000 div 2 ^ k; r = m * 1000 mod 2 ^ k
      in if 2 ^ k < 2 * r \<or> (2 * r = 2 ^ k \<and> odd q) then q + 1 else q)"

definition three_digits :: "nat \<Rightarrow> string" where
  "three_digits n = [digit_char (n div 100), digit_char (n div 10 mod 10), digit_char (n mod 10)]"

fun format3 :: "float64 \<Rightarrow> string" where
  "format3 (Fin m k) =
     (let n = thousandths (nat \<bar>m\<bar>) k
      in (if m < 0 then ''-'' else []) @ utoa (n div 1000) @ ''.'' @ three_digits (n mod 1000))"
| "format3 (Inf pos) = (if pos then ''+Inf'' else ''-Inf'')"
| "format3 NaN = ''NaN''"

text \<open>Adding up the times that can be read, as the code does from 0.\<close>

definition add_time :: "float64 \<Rightarrow> string \<Rightarrow> float64" where
  "add_time r s = (case ParseFloat s of None \<Rightarrow> r | Some x \<Rightarrow> f64_add r x)"

definition total_time :: "string list \<Rightarrow> string" where
  "total_time ts = format3 (foldl add_time (Fin 0 0) ts)"

end
