(* ===== verification/Workflow_Results.thy ===== *)
theory Workflow_Results
  imports Workflow_Run Citrun_Executor Go_Decimal
begin

text \<open>
  Reports in \<open>junit.go\<close> and \<open>testworkflow.go\<close>: the outputs of \<open>go test\<close> that the machines wrote become
  test cases, and the result of a workflow becomes a suite in which every test of the package has its
  case.  The parser of the outputs is a library's, and a parameter.
\<close>

text \<open>A test case and a suite of the report, as far as the manager fills them in.\<close>

record report_case = testcase +
  tc_Name :: string
  tc_Classname :: string
  tc_Time :: string

record report_suite = "unit report_case_ext testsuite" +
  ts_Name :: string
  ts_Tests :: int
  ts_Disabled :: int
  ts_Time :: string
  ts_Properties :: "(string \<times> string) list"

definition empty_suite :: report_suite where
  "empty_suite = \<lparr>ts_Cases = [], ts_Failures = 0, ts_Errors = 0, ts_Skipped = 0, ts_Name = [], ts_Tests = 0,
     ts_Disabled = 0, ts_Time = [], ts_Properties = []\<rparr>"

definition new_case :: "string \<Rightarrow> string \<Rightarrow> report_case" where
  "new_case name test = \<lparr>tc_Failure = None, tc_Error = None, tc_Skipped = None, tc_Name = test,
     tc_Classname = name, tc_Time = []\<rparr>"

definition result_data :: "string \<Rightarrow> string \<Rightarrow> junit_result" where
  "result_data ty data = \<lparr>ju_Message = [], ju_Type = ty, ju_Data = data\<rparr>"

subsection \<open>Outputs of tests\<close>

text \<open>\<open>report\<close> is what the library makes of an output: an error, or the cases of each suite it finds.\<close>

type_synonym reporter = "string \<Rightarrow> string + report_case list list"

definition convertToTestCase :: "reporter \<Rightarrow> string \<Rightarrow> string + report_case list" where
  "convertToTestCase report out =
     (case report out of
        Inl err \<Rightarrow> Inl err
      | Inr [] \<Rightarrow> Inl ''empty test suite''
      | Inr (tcs # _) \<Rightarrow> Inr tcs)"

definition count_case :: "report_case \<Rightarrow> report_suite \<Rightarrow> report_suite" where
  "count_case tc ts = ts\<lparr>ts_Tests := ts_Tests ts + 1,
     ts_Skipped := ts_Skipped ts + (if tc_Skipped tc \<noteq> None then 1 else 0),
     ts_Failures := ts_Failures ts + (if tc_Failure tc \<noteq> None then 1 else 0)\<rparr>"

definition add_output :: "reporter \<Rightarrow> string \<Rightarrow> report_suite \<Rightarrow> string \<Rightarrow> report_suite" where
  "add_output report classname ts out =
     (case convertToTestCase report out of
        Inl err \<Rightarrow> ts
      | Inr cs \<Rightarrow>
          let tcs = map (\<lambda>tc. tc\<lparr>tc_Classname := classname\<rparr>) cs
          in (fold count_case tcs ts)\<lparr>ts_Cases := ts_Cases ts @ tcs\<rparr>)"

text \<open>The times of the cases are added up in the order of the cases.\<close>

definition convertToTestSuite :: "reporter \<Rightarrow> string list \<Rightarrow> string \<Rightarrow> report_suite" where
  "convertToTestSuite report results classname =
     (let ts = foldl (add_output report classname) empty_suite results
      in ts\<lparr>ts_Time := total_time (map tc_Time (ts_Cases ts))\<rparr>)"

subsection \<open>The suite of a workflow\<close>

text \<open>\<open>files\<close> is the file system; \<open>None\<close>: the list of tests cannot be read, and the program ends.\<close>

definition getTestsBySuiteName :: "(string \<Rightarrow> string + string) \<Rightarrow> string \<Rightarrow> string \<Rightarrow> string list option" where
  "getTestsBySuiteName files name localPath =
     (case files (localPath @ ''/'' @ name @ ''_tests.txt'') of
        Inl err \<Rightarrow> None
      | Inr b \<Rightarrow> Some (filter (\<lambda>test. HasPrefix test ''Test'') (Split (CHR 0x0A) b)))"

definition add_skipped :: "string \<Rightarrow> string \<Rightarrow> string \<Rightarrow> report_suite \<Rightarrow> report_suite" where
  "add_skipped name test msg ts = ts\<lparr>
     ts_Cases := ts_Cases ts @ [(new_case name test)\<lparr>tc_Skipped := Some (result_data [] msg)\<rparr>],
     ts_Tests := ts_Tests ts + 1, ts_Skipped := ts_Skipped ts + 1\<rparr>"

definition add_failed :: "string \<Rightarrow> string \<Rightarrow> string \<Rightarrow> report_suite \<Rightarrow> report_suite" where
  "add_failed name test msg ts = ts\<lparr>
     ts_Cases := ts_Cases ts @ [(new_case name test)\<lparr>tc_Failure := Some (result_data ''Failure'' msg)\<rparr>],
     ts_Tests := ts_Tests ts + 1, ts_Failures := ts_Failures ts + 1\<rparr>"

definition skip_message :: "test_workflow \<Rightarrow> string \<Rightarrow> string" where
  "skip_message t test =
     (case tw_testSkipReasons t test of
        None \<Rightarrow> test @ '' disabled on '' @ tw_ImageURL t
      | Some reason \<Rightarrow> test @ '' skipped on '' @ tw_ImageURL t @ '': '' @ reason)"

definition add_missing :: "test_workflow \<Rightarrow> string \<Rightarrow> string \<Rightarrow> report_suite \<Rightarrow> report_suite" where
  "add_missing t name test ts =
     (if list_ex (\<lambda>tc. tc_Name tc = test) (ts_Cases ts) then ts
      else add_skipped name test (skip_message t test) ts)"

definition named_suite :: "string \<Rightarrow> report_suite \<Rightarrow> report_suite" where
  "named_suite name ts = ts\<lparr>ts_Name := name, ts_Time := (if ts_Time ts = [] then ''0.000'' else ts_Time ts)\<rparr>"

definition parseResult ::
  "reporter \<Rightarrow> (string \<Rightarrow> string + string) \<Rightarrow> string \<Rightarrow> test_result \<Rightarrow> report_suite option" where
  "parseResult report files localPath res =
     (let t = tr_testWorkflow res; name = getTestSuiteName t
      in case getTestsBySuiteName files (tw_Name t) localPath of
           None \<Rightarrow> None
         | Some tests \<Rightarrow> Some (named_suite name
             (if tr_skipped res then fold (\<lambda>test. add_skipped name test (SkippedMessage t)) tests empty_suite
              else if tr_workflowSuccess res
              then (fold (add_missing t name) tests (convertToTestSuite report (tr_results res) name))
                \<lparr>ts_Properties := [(''image_family'', im_Family (tw_Image t)),
                   (''image'', im_SelfLink (tw_Image t)), (''project'', tw_Project t)]\<rparr>
              else fold (\<lambda>test. add_failed name test
                (case tr_err res of Some err \<Rightarrow> err | None \<Rightarrow> ''Unknown status'')) tests empty_suite)))"

subsection \<open>The report of a run\<close>

record report =
  rs_Suites :: "report_suite list"
  rs_Errors :: int
  rs_Failures :: int
  rs_Tests :: int
  rs_Disabled :: int
  rs_Skipped :: int
  rs_Time :: string

text \<open>\<open>collect\<close> is the end of \<open>RunTests\<close>: the results in the order in which the tests finished.\<close>

definition collect ::
  "reporter \<Rightarrow> (string \<Rightarrow> string + string) \<Rightarrow> string \<Rightarrow> test_result list \<Rightarrow> report option" where
  "collect report files localPath results =
     (let suites = map (parseResult report files localPath) results
      in if None \<in> set suites then None
         else let ss = map the suites
              in Some \<lparr>rs_Suites = ss, rs_Errors = sum_list (map ts_Errors ss),
                   rs_Failures = sum_list (map ts_Failures ss), rs_Tests = sum_list (map ts_Tests ss),
                   rs_Disabled = sum_list (map ts_Disabled ss), rs_Skipped = sum_list (map ts_Skipped ss),
                   rs_Time = total_time (map ts_Time ss)\<rparr>)"

text \<open>The manager's exit status: failing when the report counts an error or a failure, unless told not to.\<close>

definition exit_failing :: "bool \<Rightarrow> report \<Rightarrow> bool" where
  "exit_failing setExitStatus r = (setExitStatus \<and> (rs_Errors r \<noteq> 0 \<or> rs_Failures r \<noteq> 0))"

subsection \<open>What a suite reports\<close>

text \<open>The counts of a suite are those of its cases, and no errors are ever counted.\<close>

definition tallied :: "report_suite \<Rightarrow> bool" where
  "tallied ts \<longleftrightarrow> ts_Tests ts = int (length (ts_Cases ts))
     \<and> ts_Failures ts = int (length (filter is_failure (ts_Cases ts)))
     \<and> ts_Skipped ts = int (length (filter (\<lambda>tc. tc_Skipped tc \<noteq> None) (ts_Cases ts)))
     \<and> ts_Errors ts = 0 \<and> ts_Disabled ts = 0"

definition classed :: "string \<Rightarrow> report_suite \<Rightarrow> bool" where
  "classed name ts \<longleftrightarrow> tallied ts \<and> (\<forall>tc \<in> set (ts_Cases ts). tc_Classname tc = name)"

lemma classed_empty: "classed name empty_suite"
  by (simp add: classed_def tallied_def empty_suite_def)

lemma classed_added:
  "classed name ts \<Longrightarrow> classed name (add_skipped name test msg ts)"
  "classed name ts \<Longrightarrow> classed name (add_failed name test msg ts)"
  "classed name ts \<Longrightarrow> classed name (add_missing t name test ts)"
  by (auto simp: classed_def tallied_def add_skipped_def add_failed_def add_missing_def new_case_def is_failure_def)

lemma count_cases:
  "fold count_case tcs ts = ts\<lparr>ts_Tests := ts_Tests ts + int (length tcs),
     ts_Skipped := ts_Skipped ts + int (length (filter (\<lambda>tc. tc_Skipped tc \<noteq> None) tcs)),
     ts_Failures := ts_Failures ts + int (length (filter is_failure tcs))\<rparr>"
  by (induction tcs arbitrary: ts) (simp_all add: count_case_def is_failure_def)

lemma classed_output: "classed name ts \<Longrightarrow> classed name (add_output report name ts out)"
  by (auto simp: add_output_def classed_def tallied_def count_cases Let_def split: sum.split)

lemma classed_outputs: "classed name ts \<Longrightarrow> classed name (foldl (add_output report name) ts outs)"
  by (induction outs arbitrary: ts) (simp_all add: classed_output)

lemma classed_suite: "classed name (convertToTestSuite report outs name)"
  using classed_outputs [OF classed_empty, of name report outs]
  by (simp add: convertToTestSuite_def Let_def classed_def tallied_def)

lemma classed_fold:
  assumes "\<And>test ts. classed name ts \<Longrightarrow> classed name (f test ts)"
  shows "classed name ts \<Longrightarrow> classed name (fold f tests ts)"
  using assms by (induction tests arbitrary: ts) simp_all

text \<open>The names a suite has cases for.\<close>

definition reported_tests :: "report_suite \<Rightarrow> string set" where
  "reported_tests ts = tc_Name ` set (ts_Cases ts)"

lemma reported_fold:
  assumes "\<And>test ts. reported_tests (f test ts) = insert test (reported_tests ts)"
  shows "reported_tests (fold f tests ts) = set tests \<union> reported_tests ts"
  using assms by (induction tests arbitrary: ts) simp_all

lemma reported_added:
  "reported_tests (add_skipped name test msg ts) = insert test (reported_tests ts)"
  "reported_tests (add_failed name test msg ts) = insert test (reported_tests ts)"
  "reported_tests (add_missing t name test ts) = insert test (reported_tests ts)"
  by (auto simp: reported_tests_def add_skipped_def add_failed_def add_missing_def new_case_def list_ex_iff)

lemma all_added:
  assumes "\<And>test ts. set (ts_Cases (f test ts)) \<subseteq> insert (c test) (set (ts_Cases ts))" and "\<And>test. P (c test)"
  shows "\<forall>tc \<in> set (ts_Cases ts). P tc \<Longrightarrow> \<forall>tc \<in> set (ts_Cases (fold f tests ts)). P tc"
proof (induction tests arbitrary: ts)
  case (Cons test tests)
  have "\<forall>tc \<in> set (ts_Cases (f test ts)). P tc" using assms(1) [of test ts] assms(2) Cons.prems by blast
  then show ?case using Cons.IH by simp
qed simp

lemma classed_named: "classed name (named_suite n ts) = classed name ts" "ts_Cases (named_suite n ts) = ts_Cases ts"
  "ts_Name (named_suite n ts) = n"
  by (simp_all add: classed_def tallied_def named_suite_def)

lemma classed_properties: "classed name (ts\<lparr>ts_Properties := ps\<rparr>) = classed name ts"
  by (simp add: classed_def tallied_def)

text \<open>The three kinds of results.\<close>

lemma parse_classed:
  assumes "parseResult report files localPath res = Some ts"
  shows "classed (getTestSuiteName (tr_testWorkflow res)) ts"
proof -
  let ?n = "getTestSuiteName (tr_testWorkflow res)"
  have "classed ?n (fold (\<lambda>test. add_skipped ?n test msg) tests empty_suite)"
    "classed ?n (fold (\<lambda>test. add_failed ?n test msg) tests empty_suite)"
    "classed ?n (fold (add_missing (tr_testWorkflow res) ?n) tests (convertToTestSuite report outs ?n))" for msg tests outs
    by (rule classed_fold [OF _ classed_empty] classed_fold [OF _ classed_suite], erule classed_added)+
  then show ?thesis
    using assms by (simp add: parseResult_def Let_def split: option.splits if_splits)
      (auto simp: classed_named classed_properties)
qed

lemma skipped_cases: "\<forall>tc \<in> set (ts_Cases (fold (\<lambda>test. add_skipped name test msg) tests empty_suite)).
    tc_Skipped tc = Some (result_data [] msg)"
  by (rule all_added [where c = "\<lambda>test. (new_case name test)\<lparr>tc_Skipped := Some (result_data [] msg)\<rparr>"])
    (auto simp: add_skipped_def empty_suite_def)

lemma failed_cases: "\<forall>tc \<in> set (ts_Cases (fold (\<lambda>test. add_failed name test msg) tests empty_suite)).
    tc_Failure tc = Some (result_data ''Failure'' msg)"
  by (rule all_added [where c = "\<lambda>test. (new_case name test)\<lparr>tc_Failure := Some (result_data ''Failure'' msg)\<rparr>"])
    (auto simp: add_failed_def empty_suite_def)

text \<open>C17: No test gets lost in the report: whatever the machines wrote, the suite of a workflow has a case
  for every test of the package, under the name of the suite, and its counts are those of its cases;
  when the workflow did not succeed every test of the package has failed with its error, and when the
  workflow was skipped every test is skipped with the message of the suite.\<close>

theorem every_test_reported:
  assumes "parseResult report files localPath res = Some ts"
    and "getTestsBySuiteName files (tw_Name (tr_testWorkflow res)) localPath = Some tests"
  shows "set tests \<subseteq> reported_tests ts \<and> classed (ts_Name ts) ts
    \<and> (\<not> tr_skipped res \<and> \<not> tr_workflowSuccess res \<longrightarrow> reported_tests ts = set tests
         \<and> (\<forall>tc \<in> set (ts_Cases ts). tc_Failure tc = Some (result_data ''Failure''
              (case tr_err res of Some err \<Rightarrow> err | None \<Rightarrow> ''Unknown status''))))
    \<and> (tr_skipped res \<longrightarrow> reported_tests ts = set tests
         \<and> (\<forall>tc \<in> set (ts_Cases ts). tc_Skipped tc = Some (result_data [] (SkippedMessage (tr_testWorkflow res)))))"
proof -
  let ?n = "getTestSuiteName (tr_testWorkflow res)"
  have "ts_Name ts = ?n" using assms by (auto simp: parseResult_def Let_def named_suite_def)
  moreover have "reported_tests (named_suite ?n u) = reported_tests u" "reported_tests (u\<lparr>ts_Properties := ps\<rparr>) = reported_tests u"
    for u ps by (simp_all add: reported_tests_def named_suite_def)
  moreover have "reported_tests empty_suite = {}" by (simp add: reported_tests_def empty_suite_def)
  ultimately show ?thesis
    using parse_classed [OF assms(1)] assms skipped_cases [of ?n "SkippedMessage (tr_testWorkflow res)" tests] failed_cases [of ?n _ tests]
    by (auto simp: parseResult_def Let_def classed_named reported_fold reported_added split: if_splits)
qed

text \<open>The suites of a report.\<close>

lemma report_tallied:
  assumes "collect report files localPath results = Some r" and m: "s \<in> set (rs_Suites r)"
  shows "tallied s"
proof -
  have "None \<notin> parseResult report files localPath ` set results"
    "rs_Suites r = map the (map (parseResult report files localPath) results)"
    using assms(1) by (auto simp: collect_def Let_def split: if_splits)
  then obtain res where "s = the (parseResult report files localPath res)" "parseResult report files localPath res \<noteq> None"
    using m by (force simp del: not_None_eq)
  then have "parseResult report files localPath res = Some s" by simp
  then show ?thesis using parse_classed by (auto simp: classed_def)
qed

lemma report_no_errors:
  assumes "collect report files localPath results = Some r"
  shows "rs_Errors r = 0"
proof -
  have "rs_Errors r = sum_list (map ts_Errors (rs_Suites r))"
    using assms by (auto simp: collect_def Let_def split: if_splits)
  then show ?thesis
    using report_tallied [OF assms] by (simp only:, subst sum_list_nonneg_eq_0_iff) (auto simp: tallied_def)
qed

text \<open>C30: The manager's exit status ignores tests that ended in an error: a report never counts any, so the
  status depends on the failed cases alone, and a case that the parser of the outputs marks as an
  error, such as a test without a result, passes; and when \<open>citrun\<close> rewrites such a suite it takes the
  errors off a count that never had them.\<close>

theorem errors_not_counted:
  assumes "collect report files localPath results = Some r"
  shows "rs_Errors r = 0
    \<and> (exit_failing True r \<longleftrightarrow> (\<exists>s \<in> set (rs_Suites r). \<exists>tc \<in> set (ts_Cases s). tc_Failure tc \<noteq> None))
    \<and> (\<forall>s \<in> set (rs_Suites r). ts_Errors (skip_suite msg (testsuite.truncate s))
         = - int (length (filter is_error (ts_Cases s))))"
proof -
  note s = report_tallied [OF assms]
  have sums: "rs_Failures r = sum_list (map ts_Failures (rs_Suites r))"
    using assms by (auto simp: collect_def Let_def split: if_splits)
  note e = report_no_errors [OF assms]
  have "rs_Failures r = 0 \<longleftrightarrow> (\<forall>s \<in> set (rs_Suites r). ts_Failures s = 0)"
    unfolding sums using s by (subst sum_list_nonneg_eq_0_iff) (auto simp: tallied_def)
  moreover have "ts_Failures s = 0 \<longleftrightarrow> (\<forall>tc \<in> set (ts_Cases s). tc_Failure tc = None)" if "s \<in> set (rs_Suites r)" for s
    using s [OF that] by (auto simp: tallied_def filter_empty_conv is_failure_def)
  moreover have "ts_Errors (skip_suite msg (testsuite.truncate s)) = - int (length (filter is_error (ts_Cases s)))"
    if "s \<in> set (rs_Suites r)" for s
    using s [OF that] by (simp add: skip_suite_def suite_errors_def testsuite.truncate_def tallied_def)
  ultimately show ?thesis using e by (auto simp: exit_failing_def)
qed

subsection \<open>An example\<close>

text \<open>A package of three tests, of which one ran and one has no result.\<close>

definition example_listing :: "string \<Rightarrow> string + string" where
  "example_listing path = Inr (''TestA'' @ [CHR 0x0A] @ ''TestB'' @ [CHR 0x0A] @ ''TestC'' @ [CHR 0x0A])"

definition example_report :: reporter where
  "example_report out = Inr [[new_case [] ''TestA'', (new_case [] ''TestB'')\<lparr>tc_Error := Some (result_data [] [])\<rparr>]]"

definition example_result :: test_result where
  "example_result = (new_result example_workflow)\<lparr>tr_results := [''PASS''], tr_workflowSuccess := True\<rparr>"

lemma example_tests: "getTestsBySuiteName example_listing name ''/tests'' = Some [''TestA'', ''TestB'', ''TestC'']"
  by (simp add: getTestsBySuiteName_def example_listing_def HasPrefix_def)

lemma example_suite_cases:
  "fold (add_missing t name) [''TestA'', ''TestB'', ''TestC''] (convertToTestSuite example_report [''PASS''] name) = ts \<Longrightarrow>
     map tc_Name (ts_Cases ts) = [''TestA'', ''TestB'', ''TestC'']
     \<and> map (\<lambda>tc. (tc_Failure tc, tc_Error tc)) (ts_Cases ts) = [(None, None), (None, Some (result_data [] [])), (None, None)]"
  by (drule sym) (simp add: convertToTestSuite_def Let_def add_output_def convertToTestCase_def example_report_def
      count_cases empty_suite_def new_case_def add_missing_def add_skipped_def)

lemma example_parsed:
  obtains ts where "parseResult example_report example_listing ''/tests'' example_result = Some ts"
    and "map tc_Name (ts_Cases ts) = [''TestA'', ''TestB'', ''TestC'']"
    and "map (\<lambda>tc. (tc_Failure tc, tc_Error tc)) (ts_Cases ts) = [(None, None), (None, Some (result_data [] [])), (None, None)]"
proof -
  let ?n = "getTestSuiteName example_workflow"
  let ?ts = "fold (add_missing example_workflow ?n) [''TestA'', ''TestB'', ''TestC''] (convertToTestSuite example_report [''PASS''] ?n)"
  obtain ps where p: "parseResult example_report example_listing ''/tests'' example_result = Some (named_suite ?n (?ts\<lparr>ts_Properties := ps\<rparr>))"
    unfolding parseResult_def example_result_def new_result_def Let_def test_result.select_convs test_result.update_convs
      example_tests by simp
  show ?thesis by (rule that [OF p]) (use example_suite_cases [OF refl, of example_workflow ?n] in \<open>simp_all add: classed_named\<close>)
qed

theorem every_test_reported_witness:
  "\<exists>ts. parseResult example_report example_listing ''/tests'' example_result = Some ts
     \<and> {''TestA'', ''TestB'', ''TestC''} \<subseteq> reported_tests ts \<and> ts_Tests ts = 3"
proof -
  obtain ts where p: "parseResult example_report example_listing ''/tests'' example_result = Some ts"
    and n: "map tc_Name (ts_Cases ts) = [''TestA'', ''TestB'', ''TestC'']" by (rule example_parsed)
  from arg_cong [OF n, of length] have "length (ts_Cases ts) = 3" by simp
  with every_test_reported [OF p example_tests] p show ?thesis by (auto simp: classed_def tallied_def)
qed

theorem errors_not_counted_witness:
  "\<exists>r. collect example_report example_listing ''/tests'' [example_result] = Some r \<and> \<not> exit_failing True r
     \<and> (\<exists>s \<in> set (rs_Suites r). \<exists>tc \<in> set (ts_Cases s). tc_Error tc \<noteq> None)"
proof -
  obtain ts where p: "parseResult example_report example_listing ''/tests'' example_result = Some ts"
    and e: "map (\<lambda>tc. (tc_Failure tc, tc_Error tc)) (ts_Cases ts) = [(None, None), (None, Some (result_data [] [])), (None, None)]"
    by (rule example_parsed)
  have c: "\<exists>r. collect example_report example_listing ''/tests'' [example_result] = Some r \<and> rs_Suites r = [ts]"
    by (simp add: collect_def p)
  then obtain r where r: "collect example_report example_listing ''/tests'' [example_result] = Some r" "rs_Suites r = [ts]" by blast
  have "\<forall>tc \<in> set (ts_Cases ts). tc_Failure tc = None" "\<exists>tc \<in> set (ts_Cases ts). tc_Error tc \<noteq> None"
    using e by (auto simp: map_eq_Cons_conv)
  then show ?thesis using errors_not_counted [OF r(1), of "[]"] r by auto
qed

end
