(* ===== verification/Test_Wrapper.thy ===== *)
theory Test_Wrapper
  imports Workflow_Results
begin

text \<open>
  \<open>cmd/wrapper/main.go\<close>: the program that runs the tests on a machine.  It reads what to run from the
  metadata, runs it, stores the output where the manager looks for it and gives the signal the workflow
  waits for.  Metadata, storage, processes and the marshalling of the machine's description are
  parameters; the bucket and the object are parts of a URL, which the model keeps whole.
\<close>

subsection \<open>Uploads\<close>

text \<open>
  An attempt to store the data fails while copying, after it has read some of them, or when the writer
  is closed, after it has read them all.  The next attempt goes on reading where this one stopped.
\<close>

datatype attempt = CopyFails nat string | CloseFails string | Stores

fun upload_from :: "(nat \<Rightarrow> attempt) \<Rightarrow> nat \<Rightarrow> nat \<Rightarrow> string \<Rightarrow> string option \<Rightarrow> string + string" where
  "upload_from at i 0 data err = (case err of None \<Rightarrow> Inr data | Some e \<Rightarrow> Inl e)"
| "upload_from at i (Suc tries) data err =
     (case at i of
        Stores \<Rightarrow> Inr data
      | CopyFails n e \<Rightarrow> upload_from at (Suc i) tries (drop n data) (Some (''failed to write to gcs: '' @ e))
      | CloseFails e \<Rightarrow> upload_from at (Suc i) tries [] (Some (''failed to close gcs writer: '' @ e)))"

text \<open>The error, or what has been stored.\<close>

definition uploadGCSObject :: "(nat \<Rightarrow> attempt) \<Rightarrow> string \<Rightarrow> string + string" where
  "uploadGCSObject at data = upload_from at 1 5 data None"

subsection \<open>The program\<close>

text \<open>How a command ends: its output, and the error it exits with or that kept it from running.\<close>

datatype exec_end = Exits | ExitError string | NotRun string

record guest =
  gu_metadata :: "string list \<Rightarrow> string + string"
  gu_duration :: "string \<Rightarrow> string option"            \<comment> \<open>why a text is not a duration\<close>
  gu_storage :: "nat \<Rightarrow> string option"                \<comment> \<open>the errors of the two storage clients\<close>
  gu_windows :: bool
  gu_mkdir :: "string \<Rightarrow> string + string"
  gu_download :: "string \<Rightarrow> string \<Rightarrow> string option"
  gu_execute :: "string \<Rightarrow> string \<Rightarrow> string list \<Rightarrow> string \<times> exec_end"
  gu_url :: "string \<Rightarrow> string option"                 \<comment> \<open>why a text is not a URL\<close>
  gu_upload :: "string \<Rightarrow> nat \<Rightarrow> attempt"
  gu_marshal :: "string list \<Rightarrow> string + string"

datatype wrapper_event = Booted | Stored string string | Signals string | FinishedTest

text \<open>The program ends normally, or at once by \<open>log.Fatalf\<close>, which skips what is deferred.\<close>

datatype wrapper_end = Done | Dies string

definition attribute :: "string \<Rightarrow> string list" where
  "attribute key = [''instance'', ''attributes'', key]"

definition checkFirstBootSpecialGA :: "guest \<Rightarrow> bool" where
  "checkFirstBootSpecialGA g =
     (case gu_metadata g (attribute ''shouldRebootDuringTest'') of
        Inl _ \<Rightarrow> False
      | Inr _ \<Rightarrow> (case gu_metadata g [''instance'', ''guest-attributes'', GuestAttributeTestNamespace, FirstBootGAKey] of
            Inl _ \<Rightarrow> True
          | Inr _ \<Rightarrow> False))"

text \<open>The optional arguments, whose value the metadata give.\<close>

definition optional_value :: "guest \<Rightarrow> string \<Rightarrow> string" where
  "optional_value g key = (case gu_metadata g (attribute key) of Inl _ \<Rightarrow> [] | Inr v \<Rightarrow> v)"

definition optional_argument :: "guest \<Rightarrow> string \<Rightarrow> string \<Rightarrow> string list" where
  "optional_argument g flag key = (if optional_value g key = [] then [] else [flag, optional_value g key])"

definition test_arguments :: "guest \<Rightarrow> string \<Rightarrow> string list" where
  "test_arguments g testTimeout =
     [''-test.v'', ''-test.timeout'', testTimeout]
     @ optional_argument g ''-test.run'' ''_test_run''
     @ optional_argument g ''-test.skip'' ''_exclude_discrete_tests''"

text \<open>The metadata the program cannot do without, in the order it reads them, with their names in errors.\<close>

definition required :: "(string list \<times> string) list" where
  "required = [(attribute ''_test_package_url'', ''_test_package_url''), (attribute ''_test_results_url'', ''_test_results_url''),
     (attribute ''_test_properties_url'', ''_test_properties_url''), (attribute ''_test_package_name'', ''_test_package_name''),
     (attribute ''_test_suite_name'', ''_test_suite_name''), ([''instance'', ''machine-type''], ''_machine_type''),
     ([''instance'', ''zone''], ''_zone''), ([''instance'', ''id''], ''_id''), ([''instance'', ''name''], ''_name'')]"

fun read_required :: "guest \<Rightarrow> (string list \<times> string) list \<Rightarrow> string + string list" where
  "read_required g [] = Inr []"
| "read_required g ((path, name) # rest) =
     (case gu_metadata g path of
        Inl err \<Rightarrow> Inl (''failed to get metadata '' @ name @ '': '' @ err)
      | Inr v \<Rightarrow> map_sum id (\<lambda>vs. v # vs) (read_required g rest))"

text \<open>Storing something: a URL that cannot be parsed and an upload that fails five times are fatal.\<close>

definition put_object :: "guest \<Rightarrow> string \<Rightarrow> string \<Rightarrow> string \<Rightarrow> string + wrapper_event" where
  "put_object g what url data =
     (case gu_url g url of
        Some err \<Rightarrow> Inl (''failed to parse gcs url: '' @ err)
      | None \<Rightarrow> (case uploadGCSObject (gu_upload g url) data of
            Inl err \<Rightarrow> Inl (''failed to upload '' @ what @ '': '' @ err)
          | Inr stored \<Rightarrow> Inr (Stored url stored)))"

definition store_results ::
  "guest \<Rightarrow> string \<Rightarrow> string \<Rightarrow> string list \<Rightarrow> string \<Rightarrow> wrapper_event list \<times> wrapper_end" where
  "store_results g resultsURL propertiesURL info out =
     (case gu_storage g 1 of Some err \<Rightarrow> ([], Dies (''failed to create cloud storage client: '' @ err)) | None \<Rightarrow>
     (case put_object g ''test result'' resultsURL out of Inl err \<Rightarrow> ([], Dies err) | Inr stored \<Rightarrow>
     (case gu_marshal g info of Inl err \<Rightarrow> ([stored], Dies (''failed to marshal vm info proto: '' @ err)) | Inr vmInfo \<Rightarrow>
     (case put_object g ''vm info'' propertiesURL vmInfo of
        Inl err \<Rightarrow> ([stored], Dies err)
      | Inr described \<Rightarrow> ([stored, described], Done)))))"

definition run_tests :: "guest \<Rightarrow> string \<Rightarrow> wrapper_event list \<times> wrapper_end" where
  "run_tests g testTimeout =
     (case read_required g required of
        Inl err \<Rightarrow> ([], Dies err)
      | Inr [packageURL, resultsURL, propertiesURL, package, suite, machineType, zone, ident, name] \<Rightarrow>
          (case gu_mkdir g (if gu_windows g then ''C:'' @ [CHR 0x5C] else ''/etc/'') of
             Inl err \<Rightarrow> ([], Dies (''failed to create work dir: '' @ err))
           | Inr dir \<Rightarrow>
               let workDir = dir @ ''/''
               in (case gu_download g packageURL (workDir @ package) of
                     Some err \<Rightarrow> ([], Dies (''failed to download object: '' @ err))
                   | None \<Rightarrow>
                       (case gu_execute g (workDir @ package) workDir (test_arguments g testTimeout) of
                          (out, NotRun err) \<Rightarrow> ([], Dies (''failed to execute test package: '' @ err))
                        | (out, _) \<Rightarrow> store_results g resultsURL propertiesURL
                            [suite, optional_value g ''_test_run'', name, ident, zone, machineType] out)))
      | _ \<Rightarrow> ([], Done))"

definition finishedTestRetries :: nat where "finishedTestRetries = 10"

text \<open>What is deferred; the error of placing the attribute is only logged.\<close>

definition finish :: "bool \<Rightarrow> wrapper_event list" where
  "finish special =
     Signals (if special then FirstBootGAKey else GuestAttributeTestKey) # replicate finishedTestRetries FinishedTest"

definition wrapper_main :: "guest \<Rightarrow> wrapper_event list \<times> wrapper_end" where
  "wrapper_main g =
     (case gu_metadata g (attribute ''_cit_timeout'') of
        Inl err \<Rightarrow> ([], Dies (''failed to get metadata _cit_timeout: '' @ err)) | Inr testTimeout \<Rightarrow>
     (case gu_duration g testTimeout of
        Some err \<Rightarrow> ([], Dies (''_cit_timeout '' @ testTimeout @ '' is not a valid duration: '' @ err)) | None \<Rightarrow>
     (case gu_storage g 0 of
        Some err \<Rightarrow> ([], Dies (''failed to create cloud storage client: '' @ err)) | None \<Rightarrow>
          let special = checkFirstBootSpecialGA g
          in (case run_tests g testTimeout of
                (ev, Done) \<Rightarrow> (Booted # ev @ finish special, Done)
              | (ev, Dies err) \<Rightarrow> (Booted # ev, Dies err)))))"

subsection \<open>What the uploads store\<close>

lemma upload_from_suffix:
  "upload_from at i tries data err = Inr stored \<Longrightarrow> \<exists>n. stored = drop n data"
proof (induction tries arbitrary: i data err)
  case 0
  then have "stored = drop 0 data" by (simp split: option.splits)
  then show ?case ..
next
  case (Suc tries)
  show ?case
  proof (cases "at i")
    case (CopyFails n e)
    then have "\<exists>m. stored = drop m (drop n data)" using Suc.IH Suc.prems by (simp del: drop_drop)
    then obtain m where "stored = drop m (drop n data)" ..
    then have "stored = drop (m + n) data" by simp
    then show ?thesis ..
  next
    case (CloseFails e)
    then have "stored = drop (length data) data" using Suc by fastforce
    then show ?thesis ..
  next
    case Stores
    then have "stored = drop 0 data" using Suc.prems by simp
    then show ?thesis ..
  qed
qed

lemma stored_suffix: "put_object g what url data = Inr ev \<Longrightarrow> \<exists>n. ev = Stored url (drop n data)"
  using upload_from_suffix [of "gu_upload g url" 1 5 data None]
  by (auto simp: put_object_def uploadGCSObject_def split: option.splits sum.splits)

lemma upload_after_close:
  "at 1 = CloseFails err \<Longrightarrow> at 2 = Stores \<Longrightarrow> uploadGCSObject at data = Inr []"
  by (simp add: uploadGCSObject_def eval_nat_numeral)

subsection \<open>When the signal is given\<close>

definition is_signal :: "wrapper_event \<Rightarrow> bool" where
  "is_signal ev = (case ev of Signals _ \<Rightarrow> True | _ \<Rightarrow> False)"

lemma stored_no_signal: "put_object g what url data = Inr ev \<Longrightarrow> \<not> is_signal ev"
  using stored_suffix by (fastforce simp: is_signal_def)

lemma store_results_no_signal: "store_results g r p info out = (ev, e) \<Longrightarrow> \<not> list_ex is_signal ev"
  by (auto simp: store_results_def stored_no_signal split: option.splits sum.splits)

lemma run_tests_no_signal: "run_tests g d = (ev, e) \<Longrightarrow> \<not> list_ex is_signal ev"
  by (auto simp: run_tests_def Let_def dest: store_results_no_signal
      split: sum.splits list.splits prod.splits exec_end.splits option.splits)

lemma store_results_done:
  assumes "store_results g r p info out = (ev, Done)"
  shows "\<exists>n m vm. gu_marshal g info = Inr vm \<and> ev = [Stored r (drop n out), Stored p (drop m vm)]"
  using assms stored_suffix [of g "''test result''" r out] stored_suffix [of g "''vm info''" p]
  by (fastforce simp: store_results_def split: option.splits sum.splits)

lemma read_required_length: "read_required g ps = Inr vs \<Longrightarrow> map (gu_metadata g \<circ> fst) ps = map Inr vs"
  by (induction g ps arbitrary: vs rule: read_required.induct) (auto simp: map_sum_def split: sum.splits)

lemma read_required_values:
  assumes "read_required g required = Inr vs"
  obtains u r p k s m z i n where "vs = [u, r, p, k, s, m, z, i, n]"
    and "gu_metadata g (attribute ''_test_results_url'') = Inr r"
    and "gu_metadata g (attribute ''_test_properties_url'') = Inr p"
  using read_required_length [OF assms] by (auto simp: required_def Cons_eq_map_conv)

lemma run_tests_done:
  assumes "run_tests g d = (ev, Done)"
  shows "\<exists>r p cmd dir n m info vm. gu_metadata g (attribute ''_test_results_url'') = Inr r
    \<and> gu_metadata g (attribute ''_test_properties_url'') = Inr p \<and> gu_marshal g info = Inr vm
    \<and> ev = [Stored r (drop n (fst (gu_execute g cmd dir (test_arguments g d)))), Stored p (drop m vm)]"
proof (cases "read_required g required")
  case (Inl err)
  then show ?thesis using assms by (simp add: run_tests_def)
next
  case (Inr vs)
  from read_required_values [OF this] obtain u r p k s m z i nm where vs: "vs = [u, r, p, k, s, m, z, i, nm]"
    and urls: "gu_metadata g (attribute ''_test_results_url'') = Inr r"
      "gu_metadata g (attribute ''_test_properties_url'') = Inr p" by blast
  obtain cmd dir info where "store_results g r p info (fst (gu_execute g cmd dir (test_arguments g d))) = (ev, Done)"
    using assms unfolding run_tests_def Inr vs
    by (auto simp: Let_def split: sum.splits option.splits prod.splits exec_end.splits) (metis fst_conv)+
  from store_results_done [OF this] urls show ?thesis by blast
qed

lemma wrapper_main_done:
  assumes "wrapper_main g = (ev, Done)"
  shows "\<exists>d ts. gu_metadata g (attribute ''_cit_timeout'') = Inr d \<and> run_tests g d = (ts, Done)
    \<and> ev = Booted # ts @ finish (checkFirstBootSpecialGA g)"
  using assms by (auto simp: wrapper_main_def Let_def split: sum.splits option.splits prod.splits wrapper_end.splits)

lemma wrapper_main_dies:
  assumes "wrapper_main g = (ev, e)" and "e \<noteq> Done"
  shows "\<not> list_ex is_signal ev"
proof -
  have "\<not> is_signal Booted" by (simp add: is_signal_def)
  then show ?thesis
    using assms run_tests_no_signal by (fastforce simp: wrapper_main_def Let_def
      split: sum.splits option.splits prod.splits wrapper_end.splits)
qed


lemma missing_skipped:
  assumes "\<forall>tc \<in> set (ts_Cases u). tc_Skipped tc \<noteq> None"
  shows "(\<forall>tc \<in> set (ts_Cases (fold (add_missing t n) tests u)). tc_Skipped tc \<noteq> None)
    \<and> ts_Failures (fold (add_missing t n) tests u) = ts_Failures u \<and> ts_Errors (fold (add_missing t n) tests u) = ts_Errors u"
  using assms
proof (induction tests arbitrary: u)
  case (Cons test tests)
  have "\<forall>tc \<in> set (ts_Cases (add_missing t n test u)). tc_Skipped tc \<noteq> None"
    using Cons.prems by (simp add: add_missing_def add_skipped_def)
  moreover have "ts_Failures (add_missing t n test u) = ts_Failures u" "ts_Errors (add_missing t n test u) = ts_Errors u"
    by (simp_all add: add_missing_def add_skipped_def)
  ultimately show ?case using Cons.IH [of "add_missing t n test u"] by (simp del: not_None_eq)
qed simp

text \<open>C18: The results of a machine can get lost without a failure: when the first upload of the output fails
  as it is closed and the second works, the second stores nothing, since the failed one has read the
  output to its end.  The manager makes no case of an empty output, so that every test of the package
  is reported as skipped and no failure is counted, whatever the tests had found.\<close>

theorem lost_results_pass:
  assumes "gu_url g url = None" and "gu_upload g url 1 = CloseFails err" and "gu_upload g url 2 = Stores"
    and "put_object g ''test result'' url out = Inr (Stored url stored)"
    and "tr_results res = [stored]" and "tr_workflowSuccess res" and "\<not> tr_skipped res"
    and "convertToTestCase report [] = Inl e"
    and "getTestsBySuiteName files (tw_Name (tr_testWorkflow res)) localPath = Some tests"
  shows "stored = [] \<and> (\<exists>ts. parseResult report files localPath res = Some ts \<and> reported_tests ts = set tests
    \<and> (\<forall>tc \<in> set (ts_Cases ts). tc_Skipped tc \<noteq> None) \<and> ts_Failures ts = 0 \<and> ts_Errors ts = 0)"
proof -
  let ?n = "getTestSuiteName (tr_testWorkflow res)"
  let ?add = "add_missing (tr_testWorkflow res) ?n"
  have "stored = []" using assms(1-4) upload_after_close [OF assms(2,3), of out] by (simp add: put_object_def)
  moreover have none: "convertToTestSuite report [[]] ?n = empty_suite\<lparr>ts_Time := total_time []\<rparr>"
    using assms(8) by (simp add: convertToTestSuite_def Let_def add_output_def empty_suite_def)
  let ?u = "empty_suite\<lparr>ts_Time := total_time []\<rparr>"
  have "reported_tests (fold ?add tests ?u) = set tests \<union> reported_tests ?u"
    by (rule reported_fold) (rule reported_added)
  then have "reported_tests (fold ?add tests ?u) = set tests" by (simp add: reported_tests_def empty_suite_def)
  moreover have "\<forall>tc \<in> set (ts_Cases ?u). tc_Skipped tc \<noteq> None" by (simp add: empty_suite_def)
  note u = missing_skipped [OF this, of "tr_testWorkflow res" ?n tests]
  ultimately show ?thesis
    using assms(5-7,9) u none by (simp add: parseResult_def Let_def named_suite_def reported_tests_def empty_suite_def)
qed

subsection \<open>Examples\<close>

text \<open>A machine whose first upload of the results fails as it is closed.\<close>

definition example_guest :: guest where
  "example_guest = \<lparr>
     gu_metadata = (\<lambda>path. if path = [''instance'', ''attributes'', ''shouldRebootDuringTest''] then Inl ''404''
        else Inr (last path)),
     gu_duration = (\<lambda>d. None), gu_storage = (\<lambda>i. None), gu_windows = False,
     gu_mkdir = (\<lambda>path. Inr (path @ ''image_test1'')), gu_download = (\<lambda>url file. None),
     gu_execute = (\<lambda>cmd dir args. (''--- FAIL: TestA'', ExitError ''exit status 1'')),
     gu_url = (\<lambda>url. None),
     gu_upload = (\<lambda>url i. if url = ''_test_results_url'' \<and> i = 1 then CloseFails ''503'' else Stores),
     gu_marshal = (\<lambda>info. Inr ''vm'')\<rparr>"

lemma example_wrapper: "wrapper_main example_guest
    = ([Booted, Stored ''_test_results_url'' [], Stored ''_test_properties_url'' ''vm'', Signals ''test-complete'']
        @ replicate 10 FinishedTest, Done)"
  by code_simp


theorem lost_results_pass_witness:
  "\<exists>ts. parseResult (\<lambda>out. Inr []) example_listing ''/tests'' (example_result\<lparr>tr_results := [[]]\<rparr>) = Some ts
     \<and> reported_tests ts = {''TestA'', ''TestB'', ''TestC''} \<and> ts_Failures ts = 0"
proof -
  let ?res = "example_result\<lparr>tr_results := [[]]\<rparr>"
  have r: "gu_url example_guest ''_test_results_url'' = None" "gu_upload example_guest ''_test_results_url'' 1 = CloseFails ''503''"
    "gu_upload example_guest ''_test_results_url'' 2 = Stores"
    "tr_results ?res = [[]]" "tr_workflowSuccess ?res" "\<not> tr_skipped ?res"
    by (simp_all add: example_guest_def example_result_def new_result_def)
  have s: "put_object example_guest ''test result'' ''_test_results_url'' ''--- FAIL: TestA'' = Inr (Stored ''_test_results_url'' [])"
    by code_simp
  have c: "convertToTestCase (\<lambda>out. Inr []) [] = Inl ''empty test suite''" by (simp add: convertToTestCase_def)
  show ?thesis using lost_results_pass [OF r(1-3) s r(4-6) c example_tests] by auto
qed

end
