(* ===== verification/Go_Find.thy ===== *)
theory Go_Find
  imports Go_Regexp
begin

text \<open>
  What the sources use of \<open>FindString\<close> and \<open>ReplaceAllString\<close> of package \<open>regexp\<close>, and of
  \<open>strings.ReplaceAll\<close> and the trimming of prefixes and suffixes.  The first match that Go prefers is
  the longest one for every expression here: none has two alternatives of which one begins the other.
\<close>

subsection \<open>Finding\<close>

text \<open>The longest prefix that matches.\<close>

fun longest :: "rexp \<Rightarrow> string \<Rightarrow> string option" where
  "longest r [] = (if nullable r then Some [] else None)"
| "longest r (c # s) =
     (case longest (deriv c r) s of
        Some m \<Rightarrow> Some (c # m)
      | None \<Rightarrow> if nullable r then Some [] else None)"

fun FindString :: "rexp \<Rightarrow> string \<Rightarrow> string" where
  "FindString r [] = (case longest r [] of Some m \<Rightarrow> m | None \<Rightarrow> [])"
| "FindString r (c # s) = (case longest r (c # s) of Some m \<Rightarrow> m | None \<Rightarrow> FindString r s)"

text \<open>\<open>ReplaceAllString\<close> for an expression that ends in \<open>$\<close>.\<close>

fun replace_at_end :: "rexp \<Rightarrow> string \<Rightarrow> string \<Rightarrow> string" where
  "replace_at_end r repl [] = (if lang r [] then repl else [])"
| "replace_at_end r repl (c # s) = (if lang r (c # s) then repl else c # replace_at_end r repl s)"

text \<open>\<open>strings.ReplaceAll\<close> of a text that is not empty; the number counts the characters to skip.\<close>

fun replace_from :: "string \<Rightarrow> string \<Rightarrow> nat \<Rightarrow> string \<Rightarrow> string" where
  "replace_from old new n [] = []"
| "replace_from old new n (c # s) =
     (if n > 0 then replace_from old new (n - 1) s
      else if HasPrefix (c # s) old then new @ replace_from old new (length old - 1) s
      else c # replace_from old new 0 s)"

definition ReplaceAll :: "string \<Rightarrow> string \<Rightarrow> string \<Rightarrow> string" where
  "ReplaceAll s old new = replace_from old new 0 s"

definition TrimPrefix :: "string \<Rightarrow> string \<Rightarrow> string" where
  "TrimPrefix s p = (if HasPrefix s p then drop (length p) s else s)"

definition TrimSuffix :: "string \<Rightarrow> string \<Rightarrow> string" where
  "TrimSuffix s p = (if HasSuffix s p then take (length s - length p) s else s)"

text \<open>\<open>r{1,2}\<close>, \<open>r{0,2}\<close>, \<open>r{3}\<close> and so on.\<close>

fun repeats :: "nat \<Rightarrow> nat \<Rightarrow> rexp \<Rightarrow> rexp" where
  "repeats 0 0 r = Eps"
| "repeats 0 (Suc n) r = Alt Eps (Seq r (repeats 0 n r))"
| "repeats (Suc m) n r = Seq r (repeats m (n - 1) r)"

definition any_digit :: rexp where
  "any_digit = Range CHR ''0'' CHR ''9''"

subsection \<open>What is found\<close>

lemma longest_part: "longest r s = Some m \<Longrightarrow> lang r m \<and> (\<exists>b. s = m @ b)"
  by (induction s arbitrary: r m) (fastforce split: option.splits if_splits)+

lemma longest_longest: "s = c @ d \<Longrightarrow> lang r c \<Longrightarrow> \<exists>m. longest r s = Some m \<and> length c \<le> length m"
proof (induction s arbitrary: r c)
  case (Cons x s)
  show ?case
  proof (cases c)
    case Nil
    then show ?thesis using Cons.prems(2) by (auto split: option.split)
  next
    case (Cons y c')
    then have "s = c' @ d" "lang (deriv x r) c'" using Cons.prems by auto
    from Cons.IH [OF this] show ?thesis using Cons by auto
  qed
qed simp

text \<open>What is found is a part of the text that matches.\<close>

lemma FindString_part: "FindString r s = m \<Longrightarrow> m \<noteq> [] \<Longrightarrow> lang r m \<and> (\<exists>a b. s = a @ m @ b)"
proof (induction s)
  case (Cons c s)
  show ?case
  proof (cases "longest r (c # s)")
    case None
    then have "lang r m \<and> (\<exists>a b. s = a @ m @ b)" using Cons by simp
    then show ?thesis by (metis append_Cons)
  next
    case (Some k)
    then have "m = k" using Cons.prems(1) by simp
    then show ?thesis using longest_part [OF Some] by (metis append_Nil)
  qed
qed (simp split: if_splits)

end
