(* ===== verification/Workflow_Pool.thy ===== *)
theory Workflow_Pool
  imports Workflow_Results Go_Find "HOL-Library.Multiset"
begin

text \<open>
  \<open>RunTests\<close> of \<open>testworkflow.go\<close>: the workers that run the test workflows in parallel, the projects
  they draw from two channels, and the report of the run.  The workers are interleaved in any order:
  a schedule names the worker that moves next.  The delays at their start only restrict the orders.
\<close>

subsection \<open>Where results go\<close>

text \<open>What the manager asks the storage service and the clock for; an item of the listing can be an error.\<close>

record storage =
  sg_Buckets :: "(string + string) list"
  sg_Create :: "string \<Rightarrow> string option"
  sg_Now :: string

fun find_bucket :: "string \<Rightarrow> (string + string) list \<Rightarrow> string + bool" where
  "find_bucket name [] = Inr False"
| "find_bucket name (Inl err # bs) = Inl (''failed to iterate buckets: '' @ err)"
| "find_bucket name (Inr b # bs) = (if b = name then Inr True else find_bucket name bs)"

definition daisyBucket :: "storage \<Rightarrow> string \<Rightarrow> string + string" where
  "daisyBucket sg project =
     (let bucketName = map (\<lambda>c. if c = CHR '':'' then CHR ''-'' else c) project @ ''-cloud-test-outputs''
      in case find_bucket bucketName (sg_Buckets sg) of
           Inl err \<Rightarrow> Inl err
         | Inr True \<Rightarrow> Inr bucketName
         | Inr False \<Rightarrow> (case sg_Create sg bucketName of
               None \<Rightarrow> Inr bucketName
             | Some err \<Rightarrow> Inl (''failed to create bucket: '' @ err)))"

definition getGCSPrefix :: "storage \<Rightarrow> string \<Rightarrow> string \<Rightarrow> string + string" where
  "getGCSPrefix sg project gcsPath =
     map_sum id (\<lambda>p. TrimSuffix p ''/'' @ ''/'' @ sg_Now sg)
       (if gcsPath = []
        then (case daisyBucket sg project of
                Inl err \<Rightarrow> Inl (''failed to find or create daisy bucket: '' @ err)
              | Inr bucket \<Rightarrow> Inr (''gs://'' @ bucket))
        else Inr gcsPath)"

subsection \<open>The order of the projects\<close>

text \<open>\<open>rnd k n\<close> is the k-th answer of the random source when asked for a number below \<open>n\<close>.\<close>

type_synonym random = "nat \<Rightarrow> nat \<Rightarrow> nat"

definition draw :: "random \<Rightarrow> nat \<Rightarrow> string list \<Rightarrow> string \<times> string list" where
  "draw rnd k xs = (let i = rnd k (length xs) in (xs ! i, take i xs @ drop (Suc i) xs))"

fun exclusive_order :: "random \<Rightarrow> nat \<Rightarrow> nat \<Rightarrow> string list \<Rightarrow> string list" where
  "exclusive_order rnd k 0 xs = []"
| "exclusive_order rnd k (Suc n) xs = (case draw rnd k xs of (x, rest) \<Rightarrow> x # exclusive_order rnd (Suc k) n rest)"

text \<open>\<open>None\<close>: there are no projects, and the random source panics when asked for a number below 0.\<close>

fun project_order :: "random \<Rightarrow> nat \<Rightarrow> string list \<Rightarrow> nat \<Rightarrow> string list \<Rightarrow> string list option" where
  "project_order rnd k full 0 xs = Some []"
| "project_order rnd k full (Suc n) xs =
     (let next = (if xs = [] then full else xs)
      in if next = [] then None
         else (case draw rnd k next of (x, rest) \<Rightarrow> map_option (\<lambda>ps. x # ps) (project_order rnd (Suc k) full n rest)))"

subsection \<open>The workers\<close>

text \<open>
  A worker takes its next test, waits for a project of its own when the test locks it, runs the test,
  gives the project back, and is gone when there are no more tests.
\<close>

datatype worker = Idle | Waits test_workflow | Has test_workflow | Returns string | Gone

text \<open>The channels, the workers, what they have produced and whether the program has crashed.\<close>

record pool =
  po_queue :: "test_workflow list"
  po_exclusive :: "string list"
  po_projects :: "string list"
  po_workers :: "worker list"
  po_results :: "test_result list"
  po_events :: "run_event list"
  po_metrics :: metrics
  po_crashed :: bool

definition assign :: "string \<Rightarrow> test_workflow \<Rightarrow> test_workflow" where
  "assign project t = t\<lparr>tw_wf := (tw_wf t)\<lparr>wf_Project := project\<rparr>\<rparr>"

text \<open>A closed channel without elements gives the empty string.\<close>

definition start_test :: "pool \<Rightarrow> nat \<Rightarrow> pool" where
  "start_test s i =
     (case po_queue s of
        [] \<Rightarrow> s\<lparr>po_workers := (po_workers s)[i := Gone]\<rparr>
      | t # q \<Rightarrow>
          if tw_lockProject t then s\<lparr>po_queue := q, po_workers := (po_workers s)[i := Waits t]\<rparr>
          else (case po_projects s of
                  [] \<Rightarrow> s\<lparr>po_queue := q, po_workers := (po_workers s)[i := Has (assign [] t)]\<rparr>
                | p # ps \<Rightarrow> s\<lparr>po_queue := q, po_projects := ps, po_workers := (po_workers s)[i := Has (assign p t)]\<rparr>))"

definition run_test :: "world \<Rightarrow> test_workflow \<Rightarrow> pool \<Rightarrow> nat \<Rightarrow> pool" where
  "run_test w t s i =
     (case runTestWorkflow w (po_metrics s) t of
        (ev, None, m) \<Rightarrow> s\<lparr>po_workers := (po_workers s)[i := Gone], po_events := po_events s @ ev, po_metrics := m,
          po_crashed := True\<rparr>
      | (ev, Some r, m) \<Rightarrow> s\<lparr>po_results := po_results s @ [r], po_events := po_events s @ ev, po_metrics := m,
          po_workers := (po_workers s)[i := (if tw_lockProject t then Returns (wf_Project (tw_wf t)) else Idle)]\<rparr>)"

text \<open>The next move of a worker; \<open>None\<close>: it has to wait, or has none.\<close>

definition work :: "(test_workflow \<Rightarrow> world) \<Rightarrow> pool \<Rightarrow> nat \<Rightarrow> pool option" where
  "work wld s i =
     (if po_crashed s then None
      else case po_workers s ! i of
        Idle \<Rightarrow> Some (start_test s i)
      | Waits t \<Rightarrow> (case po_exclusive s of
            [] \<Rightarrow> None
          | p # ps \<Rightarrow> Some (s\<lparr>po_exclusive := ps, po_workers := (po_workers s)[i := Has (assign p t)]\<rparr>))
      | Has t \<Rightarrow> Some (run_test (wld t) t s i)
      | Returns p \<Rightarrow> Some (s\<lparr>po_exclusive := po_exclusive s @ [p], po_workers := (po_workers s)[i := Idle]\<rparr>)
      | Gone \<Rightarrow> None)"

inductive pool_step :: "(test_workflow \<Rightarrow> world) \<Rightarrow> pool \<Rightarrow> pool \<Rightarrow> bool" for wld where
  move: "i < length (po_workers s) \<Longrightarrow> work wld s i = Some s' \<Longrightarrow> pool_step wld s s'"

inductive_cases pool_stepE: "pool_step wld s s'"

definition new_pool :: "test_workflow list \<Rightarrow> string list \<Rightarrow> string list \<Rightarrow> int \<Rightarrow> pool" where
  "new_pool tests exclusive projects parallelCount =
     \<lparr>po_queue = tests, po_exclusive = exclusive, po_projects = projects,
      po_workers = replicate (nat parallelCount) Idle, po_results = [], po_events = [],
      po_metrics = newTestMetrics (int (length tests)), po_crashed = False\<rparr>"

definition follow_schedule :: "(test_workflow \<Rightarrow> world) \<Rightarrow> nat list \<Rightarrow> pool \<Rightarrow> pool" where
  "follow_schedule wld schedule s =
     fold (\<lambda>i s. if i < length (po_workers s) then (case work wld s i of None \<Rightarrow> s | Some s' \<Rightarrow> s') else s) schedule s"

subsection \<open>A run of all tests\<close>

text \<open>
  Everything a run depends on: the services, whether the stagger is a duration, the random source, the
  order of the quota steps of each workflow, the worlds of the tests, and the schedule of the workers.
\<close>

record manager_world =
  mw_engine :: engine
  mw_storage :: storage
  mw_stagger :: "string option"
  mw_random :: random
  mw_order :: "nat \<Rightarrow> (string \<times> string) list"
  mw_world :: "string \<Rightarrow> test_workflow \<Rightarrow> world"
  mw_report :: reporter
  mw_files :: "string \<Rightarrow> string + string"
  mw_schedule :: "nat list"

text \<open>
  The error of finalizing the workflows is dropped.  A schedule that leaves a result out is a run that
  never ends; when the list of tests of a package cannot be read the program ends.
\<close>

definition RunTests ::
  "manager_world \<Rightarrow> test_workflow list \<Rightarrow> string \<Rightarrow> string \<Rightarrow> string \<Rightarrow> int \<Rightarrow> string list \<Rightarrow> report outcome" where
  "RunTests mw tests project gcsPath localPath parallelCount testProjects =
     (case getGCSPrefix (mw_storage mw) project gcsPath of Inl err \<Rightarrow> Fail err | Inr prefx \<Rightarrow>
     (case mw_stagger mw of Some err \<Rightarrow> Fail err | None \<Rightarrow>
     (case finalizeWorkflows (mw_engine mw) prefx localPath (map (\<lambda>(i, t). (t, mw_order mw i)) (enumerate 0 tests)) of
        (Panic, _) \<Rightarrow> Panic
      | (Hang, _) \<Rightarrow> Hang
      | (_, tests') \<Rightarrow>
          let n = length testProjects; exclusive = exclusive_order (mw_random mw) 0 n testProjects
          in case project_order (mw_random mw) n testProjects (length tests) testProjects of
               None \<Rightarrow> Panic
             | Some projects \<Rightarrow>
                 let s = follow_schedule (mw_world mw prefx) (mw_schedule mw) (new_pool tests' exclusive projects parallelCount)
                 in if po_crashed s then Panic
                    else if length (po_results s) < length tests \<or> list_ex (\<lambda>w. case w of Gone \<Rightarrow> False | _ \<Rightarrow> True) (po_workers s) then Hang
                    else (case collect (mw_report mw) (mw_files mw) localPath (po_results s) of
                            None \<Rightarrow> Fail ''unable to parse tests list''
                          | Some r \<Rightarrow> Ok r))))"

text \<open>Printing and validating: the same preparation; \<open>validate\<close> is the check of the engine.\<close>

definition print_prepared :: "manager_world \<Rightarrow> test_workflow list \<Rightarrow> string \<Rightarrow> string \<Rightarrow> string \<Rightarrow> unit outcome \<times> test_workflow list" where
  "print_prepared mw tests project gcsPath localPath =
     finalizeWorkflows (mw_engine mw)
       (case getGCSPrefix (mw_storage mw) project gcsPath of Inl err \<Rightarrow> [] | Inr prefx \<Rightarrow> prefx) localPath
       (map (\<lambda>(i, t). (t, mw_order mw i)) (enumerate 0 tests))"

fun validate_all :: "(test_workflow \<Rightarrow> string option) \<Rightarrow> test_workflow list \<Rightarrow> unit outcome" where
  "validate_all validate [] = Ok ()"
| "validate_all validate (t # ts) = (case validate t of Some err \<Rightarrow> Fail err | None \<Rightarrow> validate_all validate ts)"

definition ValidateTests ::
  "manager_world \<Rightarrow> (test_workflow \<Rightarrow> string option) \<Rightarrow> test_workflow list \<Rightarrow> string \<Rightarrow> string \<Rightarrow> string \<Rightarrow> unit outcome" where
  "ValidateTests mw validate tests project gcsPath localPath =
     (case getGCSPrefix (mw_storage mw) project gcsPath of Inl err \<Rightarrow> Fail err | Inr prefx \<Rightarrow>
     (case finalizeWorkflows (mw_engine mw) prefx localPath (map (\<lambda>(i, t). (t, mw_order mw i)) (enumerate 0 tests)) of
        (Ok _, tests') \<Rightarrow> validate_all validate tests'
      | (r, _) \<Rightarrow> r))"

end
