(* ===== verification/Workflow_Run_Guarantees.thy ===== *)
theory Workflow_Run_Guarantees
  imports Workflow_Run
begin

text \<open>
  What holds of the run of a test workflow: the creation of a workflow, the workflows of retries, the
  order of runs, retries and cleanups, and what the cleanup deletes.
\<close>

subsection \<open>Creation\<close>

lemma with_zones_sel [simp]:
  "op_Zone (with_zones opts) = op_Zone opts" "op_Project (with_zones opts) = op_Project opts"
  "op_Image (with_zones opts) = op_Image opts" "op_Name (with_zones opts) = op_Name opts"
  by (simp_all add: with_zones_def)

lemma NewTestWorkflow_Ok:
  assumes "NewTestWorkflow c new opts = Ok t" and "wf_Steps new = [] \<and> wf_Dependencies new = []"
  shows "fresh_workflow t \<and> tw_opts t = with_zones opts \<and> wf_ID (tw_wf t) = wf_ID new
    \<and> wf_Zone (tw_wf t) = op_Zone opts \<and> \<not> tw_skipped t \<and> tw_Name t = op_Name opts \<and> tw_ImageURL t = op_Image opts"
proof -
  obtain project img mt script where t: "t = assemble new (with_zones opts) project img mt script"
    using assms(1) by (auto simp: NewTestWorkflow_def Let_def split: sum.splits outcome.splits)
  show ?thesis
    using assms(2) by (simp add: t assemble_def configured_workflow_def fresh_workflow_def)
qed

text \<open>An image that only the beta interface finds makes the creation of a test workflow panic instead of
  fail: the error of the first lookup is overwritten by that of the second, and the nil image is used.\<close>

theorem lost_image_error_panics:
  assumes "ct_GetProject c (op_Project opts) = Inr project" and "ct_GetZone c project (op_Zone opts) = Inr zone"
    and "Split (CHR ''/'') (op_Image opts) = p0 # p # rest" and "\<not> Contains (op_Image opts) ''family''"
    and "ct_GetImage c p (last (p # rest)) = Inl err" and "ct_GetImageBeta c p (last (p # rest)) = Inr img"
  shows "NewTestWorkflow c new opts = Panic"
proof -
  have "find_image c (op_Image opts) = Panic"
    unfolding find_image_def assms(3) using assms(4-6) by (simp add: Let_def)
  then show ?thesis using assms(1,2) by (simp add: NewTestWorkflow_def Let_def)
qed

subsection \<open>The order of events\<close>

fun runs_of :: "run_event list \<Rightarrow> test_workflow list" where
  "runs_of [] = []"
| "runs_of (Runs t # ev) = t # runs_of ev"
| "runs_of (_ # ev) = runs_of ev"

lemma runs_of_append [simp]: "runs_of (xs @ ys) = runs_of xs @ runs_of ys"
  by (induction xs rule: runs_of.induct) simp_all

lemma prepare_runs: "prepare_zone w i zone t = (ev, t', st) \<Longrightarrow> runs_of ev = []"
  by (auto simp: prepare_zone_def split: if_splits)

text \<open>Each run but the last ended in a stockout; a run ends the loop when it succeeds or fails otherwise.\<close>

definition runs_ok :: "world \<Rightarrow> nat \<Rightarrow> test_workflow list \<Rightarrow> bool" where
  "runs_ok w i us \<longleftrightarrow> (\<forall>k. Suc k < length us \<longrightarrow> isStockoutOrQuotaError (ww_run w (i + k) (us ! k)))"

lemma runs_ok_Cons:
  "isStockoutOrQuotaError (ww_run w i u) \<Longrightarrow> runs_ok w (Suc i) us \<Longrightarrow> runs_ok w i (u # us)"
  unfolding runs_ok_def by (auto simp: nth_Cons split: nat.split)

lemma retry_zones_runs:
  assumes "retry_zones w i zones t err = (ev, t', st)"
  shows "length (runs_of ev) \<le> length zones \<and> runs_ok w i (runs_of ev)
    \<and> (st = Returned None \<longrightarrow> zones \<noteq> [] \<longrightarrow>
         runs_of ev \<noteq> [] \<and> last (runs_of ev) = t' \<and> ww_run w (i + length (runs_of ev) - 1) t' = None)"
  using assms
proof (induction zones arbitrary: i t err ev)
  case (Cons zone zones)
  obtain ev0 t0 st0 where p: "prepare_zone w i zone t = (ev0, t0, st0)" by (cases "prepare_zone w i zone t")
  note r0 = prepare_runs [OF p]
  have prep: "st0 = Some (Returned None) \<Longrightarrow> False"
    using p by (auto simp: prepare_zone_def split: if_splits outcome.splits prod.splits)
  show ?case
  proof (cases st0)
    case (Some s)
    then show ?thesis using Cons.prems p r0 prep by (auto simp: runs_ok_def)
  next
    case None
    show ?thesis
    proof (cases "\<exists>e. ww_run w i t0 = Some e \<and> isStockoutOrQuotaError (Some e)")
      case False
      then show ?thesis using Cons.prems p r0 None by (auto simp: runs_ok_def split: option.splits if_splits)
    next
      case True
      then obtain e where e: "ww_run w i t0 = Some e" "isStockoutOrQuotaError (Some e)" by blast
      obtain ev' where rec: "retry_zones w (Suc i) zones t0 (Some e) = (ev', t', st)"
        and ev: "ev = ev0 @ [Runs t0, Dumps t0] @ ev'"
        using Cons.prems p None e by (auto split: prod.splits)
      note ih = Cons.IH [OF rec]
      have us: "runs_of ev = t0 # runs_of ev'" by (simp add: ev r0)
      have "zones \<noteq> []" if "st = Returned None" using rec that by (cases zones) auto
      then show ?thesis
        using ih e unfolding us by (auto intro!: runs_ok_Cons)
    qed
  qed
qed (simp add: runs_ok_def)

text \<open>Each run is followed by the cleanup of its workflow, but for the last, which is left to the caller.\<close>

fun cleaned_up :: "test_workflow option \<Rightarrow> run_event list \<Rightarrow> bool" where
  "cleaned_up left [] = True"
| "cleaned_up left (Runs u # ev) = ((Cleans u \<in> set ev \<or> Some u = left) \<and> cleaned_up left ev)"
| "cleaned_up left (_ # ev) = cleaned_up left ev"

lemma cleaned_up_prefix: "runs_of ev0 = [] \<Longrightarrow> cleaned_up left (ev0 @ ev) = cleaned_up left ev"
  by (induction ev0 rule: runs_of.induct) simp_all

lemma cleaned_up_no_runs: "runs_of ev = [] \<Longrightarrow> cleaned_up left ev"
  using cleaned_up_prefix [of ev left "[]"] by simp

lemma cleaned_up_end: "cleaned_up (Some u) ev \<Longrightarrow> runs_of ev' = [] \<Longrightarrow> Cleans u \<in> set ev' \<Longrightarrow> cleaned_up None (ev @ ev')"
  by (induction "Some u" ev rule: cleaned_up.induct) (auto simp: cleaned_up_no_runs)

lemma retry_zones_cleaned:
  assumes "retry_zones w i zones t err = (ev, t', Returned res)"
  shows "cleaned_up (Some t') ev \<and> (i \<noteq> 0 \<longrightarrow> t' = t \<or> Cleans t \<in> set ev)"
  using assms
proof (induction zones arbitrary: i t err ev)
  case (Cons zone zones)
  obtain ev0 t0 st0 where p: "prepare_zone w i zone t = (ev0, t0, st0)" by (cases "prepare_zone w i zone t")
  note r0 = prepare_runs [OF p]
  have c: "i \<noteq> 0 \<longrightarrow> Cleans t \<in> set ev0" using p by (auto simp: prepare_zone_def)
  show ?case
  proof (cases st0)
    case (Some s)
    then show ?thesis using Cons.prems p r0 c by (auto simp: cleaned_up_no_runs)
  next
    case None
    show ?thesis
    proof (cases "\<exists>e. ww_run w i t0 = Some e \<and> isStockoutOrQuotaError (Some e)")
      case False
      then show ?thesis using Cons.prems p r0 c None
        by (auto simp: cleaned_up_prefix split: option.splits if_splits)
    next
      case True
      then obtain e where e: "ww_run w i t0 = Some e" "isStockoutOrQuotaError (Some e)" by blast
      obtain ev' where rec: "retry_zones w (Suc i) zones t0 (Some e) = (ev', t', Returned res)"
        and ev: "ev = ev0 @ [Runs t0, Dumps t0] @ ev'"
        using Cons.prems p None e by (auto split: prod.splits)
      from Cons.IH [OF rec] show ?thesis using c r0 by (auto simp: ev cleaned_up_prefix)
    qed
  qed
qed simp

text \<open>C4: A run of a test leaves nothing behind: unless the code crashes, every workflow that ran, also
  one that was given up for another zone, is cleaned up after its run; there are no more runs than
  zones, every run but the last ended in a stockout or for lack of quota, and a test counts as
  successful only when the workflow it reports was the last to run and its run succeeded.\<close>

theorem every_run_cleaned:
  assumes "runTestWorkflow w m t = (ev, Some res, m')"
  shows "cleaned_up None ev \<and> length (runs_of ev) \<le> length (op_Zones (tw_opts t)) \<and> runs_ok w 0 (runs_of ev)
    \<and> (tr_workflowSuccess res \<longrightarrow> op_Zones (tw_opts t) \<noteq> [] \<longrightarrow>
         runs_of ev \<noteq> [] \<and> last (runs_of ev) = tr_testWorkflow res
         \<and> ww_run w (length (runs_of ev) - 1) (tr_testWorkflow res) = None)"
proof (cases "tw_skipped t")
  case True
  then show ?thesis using assms by (auto simp: runTestWorkflow_def new_result_def runs_ok_def Let_def)
next
  case False
  obtain ev0 t' st where r: "runTestWorkflowWithRetries w t = (ev0, t', st)"
    by (cases "runTestWorkflowWithRetries w t")
  then obtain err where st: "st = Returned err"
    using assms False by (cases st) (auto simp: runTestWorkflow_def Let_def)
  note q = r [unfolded runTestWorkflowWithRetries_def]
  have ev: "ev = ev0 @ [Dumps t', Cleans t']" and res: "tr_testWorkflow res = t'"
    and ok: "tr_workflowSuccess res \<longrightarrow> err = None"
    using assms False r st
    by (auto simp: runTestWorkflow_def new_result_def Let_def split: option.splits sum.splits)
  have "cleaned_up None ev"
    unfolding ev using retry_zones_cleaned [OF q [unfolded st]] by (intro cleaned_up_end) auto
  then show ?thesis using retry_zones_runs [OF q] st ok res by (auto simp: ev)
qed

subsection \<open>The workflows of retries\<close>

text \<open>
  A setup that calls fixtures, and whatever it computes in between: its effect on the workflow is that
  of a sequence of calls.
\<close>

definition calls_fixtures :: "engine \<Rightarrow> 'a operation \<Rightarrow> bool" where
  "calls_fixtures e su \<longleftrightarrow> (\<forall>t. \<exists>fs. (\<forall>f \<in> set fs. fixture_call e f) \<and> snd (su t) = fold (\<lambda>f. f) fs t)"

lemma fold_calls:
  assumes "engine_ok e" and "\<forall>f \<in> set fs. fixture_call e f" and "built_by e t"
  shows "built_by e (fold (\<lambda>f. f) fs t) \<and> identity (fold (\<lambda>f. f) fs t) = identity t"
  using assms(2,3)
proof (induction fs arbitrary: t)
  case (Cons f fs)
  have "owned t" by (rule built_by_owned [OF assms(1) Cons.prems(2)])
  then have "identity (f t) = identity t"
    using same.call_stays [OF assms(1), of f t "identity t"] Cons.prems(1) by simp
  moreover have "built_by e (f t)" using Cons.prems by (auto intro: built_by.call)
  ultimately show ?case using Cons by simp
qed simp

text \<open>The workflow a retry runs in a zone, against the one that failed before it.\<close>

definition good_retry :: "world \<Rightarrow> nat \<Rightarrow> string \<Rightarrow> test_workflow \<Rightarrow> test_workflow \<Rightarrow> bool" where
  "good_retry w i zone old t \<longleftrightarrow> acyclic (depends (tw_wf t)) \<and> wf_ID (tw_wf t) = wf_ID (ww_new w i)
     \<and> wf_Project (tw_wf t) = wf_Project (tw_wf old) \<and> op_Zone (tw_opts t) = zone
     \<and> (\<forall>(q, c) \<in> set quota_pairs. has_step t q \<longrightarrow> has_step t c \<longrightarrow> (c, q) \<in> depends (tw_wf t))"

definition label :: "test_workflow \<Rightarrow> string \<times> string \<times> options \<times> string \<times> string" where
  "label t = (wf_ID (tw_wf t), wf_Project (tw_wf t), tw_opts t, tw_Name t, tw_ImageURL t)"

lemma finalize_label:
  assumes "engine_ok e" and "finalize e g l order t = (r, t')"
  shows "label t' = label t"
proof -
  have "stays (\<lambda>u. label u = label t) (finalize e g l order)"
  proof (rule finalize_stays)
    show "stays (\<lambda>u. label u = label t) (AddDependency e a b)" for a b
    proof (rule stays_at)
      fix u assume "label u = label t"
      then show "label (snd (AddDependency e a b u)) = label t"
        using AddDependency_cases [OF assms(1), of a b u] by (auto simp: label_def with_dep_def)
    qed
    show "stays (\<lambda>u. label u = label t) (NewStep e n)" for n
    proof (rule stays_at)
      fix u assume "label u = label t"
      then show "label (snd (NewStep e n u)) = label t"
        using NewStep_cases [OF assms(1), of n u] by (auto simp: label_def with_step_def)
    qed
  qed (auto simp: stays_def modify_def label_def update_step_def update_machine_def take_zone_def
      configure_frame test_sources_def Let_def)
  from staysD [OF this refl] show ?thesis by (simp add: assms(2))
qed

lemma recreate_Ok:
  assumes "engine_ok (ww_engine w)" and "\<forall>f. ww_setup w = Some f \<longrightarrow> calls_fixtures (ww_engine w) f"
    and "wf_Steps (ww_new w i) = [] \<and> wf_Dependencies (ww_new w i) = []"
    and "recreateTestWorkflow w i old zone = Ok t"
  shows "built_by (ww_engine w) t \<and> wf_Zone (tw_wf t) = zone
    \<and> label t = (wf_ID (ww_new w i), wf_Project (tw_wf old), with_zones ((tw_opts old)\<lparr>op_Zone := zone\<rparr>),
          op_Name (tw_opts old), op_Image (tw_opts old))"
proof -
  obtain t0 where n: "NewTestWorkflow (ww_client w) (ww_new w i) ((tw_opts old)\<lparr>op_Zone := zone\<rparr>) = Ok t0"
    using assms(4) by (auto simp: recreateTestWorkflow_def split: outcome.splits)
  define t1 where "t1 = t0\<lparr>tw_wf := (tw_wf t0)\<lparr>wf_Project := wf_Project (tw_wf old)\<rparr>\<rparr>"
  note f = NewTestWorkflow_Ok [OF n assms(3)]
  have b: "built_by (ww_engine w) t1"
    using f by (intro built_by.start) (simp add: fresh_workflow_def t1_def)
  have i: "wf_Zone (tw_wf t1) = zone" "label t1 = (wf_ID (ww_new w i), wf_Project (tw_wf old),
      with_zones ((tw_opts old)\<lparr>op_Zone := zone\<rparr>), op_Name (tw_opts old), op_Image (tw_opts old))"
    using f by (simp_all add: t1_def label_def)
  show ?thesis
  proof (cases "ww_setup w")
    case None
    then show ?thesis using assms(4) n b i by (simp add: recreateTestWorkflow_def t1_def)
  next
    case (Some su)
    then obtain u where "su t1 = (Ok u, t)"
      using assms(4) n by (auto simp: recreateTestWorkflow_def t1_def Let_def split: prod.splits outcome.splits)
    then have t: "t = snd (su t1)" by simp
    obtain fs where fs: "\<forall>f \<in> set fs. fixture_call (ww_engine w) f" "snd (su t1) = fold (\<lambda>f. f) fs t1"
      using assms(2) Some unfolding calls_fixtures_def by blast
    from fold_calls [OF assms(1) fs(1) b] have "built_by (ww_engine w) t" "identity t = identity t1"
      using fs(2) t by simp_all
    then show ?thesis using i by (simp add: identity_def label_def)
  qed
qed

lemma prepare_good:
  assumes e: "engine_ok (ww_engine w)" and "\<forall>f. ww_setup w = Some f \<longrightarrow> calls_fixtures (ww_engine w) f"
    and "\<forall>i. wf_Steps (ww_new w i) = [] \<and> wf_Dependencies (ww_new w i) = []"
    and "\<forall>i. ww_order w i = quota_pairs \<or> ww_order w i = rev quota_pairs"
    and "region_guess zone \<noteq> None" and "prepare_zone w i zone old = (ev, t, None)" and "i \<noteq> 0"
  shows "good_retry w i zone old t"
proof -
  obtain n where r: "recreateTestWorkflow w i old zone = Ok n"
    and f: "finalize (ww_engine w) (ww_gcsPrefix w) (ww_localPath w) (ww_order w i) n = (Ok (), t)"
    using assms(6,7) by (auto simp: prepare_zone_def split: outcome.splits prod.splits)
  note n = recreate_Ok [OF e assms(2) spec [OF assms(3)] r]
  have "region_guess (wf_Zone (tw_wf n)) \<noteq> None" using n assms(5) by simp
  then have "within (finished (tw_wf n)) (insert copy_step (set (step_names (tw_wf n)))) {copy_step} t"
    using finalize_within [OF e built_by_built [OF e] _ spec [OF assms(4)]] n f by (metis lands.simps(1))
  moreover have "(c, q) \<in> finished (tw_wf n)"
    if "(q, c) \<in> set quota_pairs" "q \<in> insert copy_step (set (step_names (tw_wf n)))"
      "c \<in> insert copy_step (set (step_names (tw_wf n)))" for q c
    using that by (auto simp: finished_def quota_added_def quota_deps_def quota_pairs_def step_name_defs)
  moreover have "label t = label n" by (rule finalize_label [OF e f])
  moreover have "op_Zone (tw_opts n) = zone" using n by (simp add: label_def)
  ultimately show ?thesis
    using n by (auto simp: good_retry_def label_def within_def scheduled_def sound_graph_def)
qed

lemma retry_zones_good:
  assumes "engine_ok (ww_engine w)" and "\<forall>f. ww_setup w = Some f \<longrightarrow> calls_fixtures (ww_engine w) f"
    and "\<forall>i. wf_Steps (ww_new w i) = [] \<and> wf_Dependencies (ww_new w i) = []"
    and "\<forall>i. ww_order w i = quota_pairs \<or> ww_order w i = rev quota_pairs"
    and "\<forall>z \<in> set zones. region_guess z \<noteq> None" and "retry_zones w i zones t err = (ev, t', st)"
    and "k < length (runs_of ev)" and "0 < i + k"
  shows "good_retry w (i + k) (zones ! k) t (runs_of ev ! k)"
  using assms(5-8)
proof (induction zones arbitrary: i t err ev k)
  case (Cons zone zones)
  obtain ev0 t0 st0 where p: "prepare_zone w i zone t = (ev0, t0, st0)" by (cases "prepare_zone w i zone t")
  note r0 = prepare_runs [OF p]
  have none: "st0 = None" using Cons.prems(2,3) p r0 by (cases st0) auto
  have "\<exists>ev'. runs_of ev = t0 # runs_of ev'
      \<and> (runs_of ev' \<noteq> [] \<longrightarrow> (\<exists>err'. retry_zones w (Suc i) zones t0 err' = (ev', t', st)))"
  proof (cases "\<exists>e. ww_run w i t0 = Some e \<and> isStockoutOrQuotaError (Some e)")
    case False
    then have "runs_of ev = [t0]" using Cons.prems(2) p r0 none by (auto split: option.splits if_splits)
    then show ?thesis by (intro exI [of _ "[]"]) simp
  next
    case True
    then obtain e where "ww_run w i t0 = Some e" "isStockoutOrQuotaError (Some e)" by blast
    then obtain ev' where "retry_zones w (Suc i) zones t0 (Some e) = (ev', t', st)"
      and "ev = ev0 @ [Runs t0, Dumps t0] @ ev'"
      using Cons.prems(2) p none by (auto split: prod.splits)
    then show ?thesis using r0 by (intro exI [of _ ev']) auto
  qed
  then obtain ev' where us: "runs_of ev = t0 # runs_of ev'"
    and rec: "runs_of ev' \<noteq> [] \<Longrightarrow> \<exists>err'. retry_zones w (Suc i) zones t0 err' = (ev', t', st)" by blast
  have first: "i \<noteq> 0 \<Longrightarrow> good_retry w i zone t t0"
    using prepare_good [OF assms(1-4) _ p [unfolded none]] Cons.prems(1) by simp
  have proj: "wf_Project (tw_wf t0) = wf_Project (tw_wf t)"
    using first p by (cases "i = 0") (auto simp: good_retry_def prepare_zone_def)
  show ?case
  proof (cases k)
    case 0
    then show ?thesis using first Cons.prems(4) us by simp
  next
    case (Suc j)
    then have j: "j < length (runs_of ev')" using Cons.prems(3) us by simp
    then obtain err' where r: "retry_zones w (Suc i) zones t0 err' = (ev', t', st)" using rec by fastforce
    have "good_retry w (Suc i + j) (zones ! j) t0 (runs_of ev' ! j)"
      by (rule Cons.IH [OF _ r j]) (use Cons.prems(1) in auto)
    then show ?thesis using Suc us proj by (simp add: good_retry_def)
  qed
qed simp


subsection \<open>An example\<close>

definition example_client :: client where
  "example_client = \<lparr>ct_GetProject = Inr, ct_GetZone = (\<lambda>p. Inr), ct_GetImage = (\<lambda>p n. Inr (tw_Image example_workflow)),
     ct_GetImageFromFamily = (\<lambda>p n. Inl ''no image''), ct_GetImageBeta = (\<lambda>p n. Inr (tw_Image example_workflow)),
     ct_GetImageFromFamilyBeta = (\<lambda>p n. Inl ''no image''), ct_GetMachineType = (\<lambda>p z. Inr),
     ct_ReadFile = (\<lambda>f. Inl ''no file'')\<rparr>"

text \<open>The suite creates one machine; the first zone has no quota.\<close>

definition example_setup :: "unit operation" where
  "example_setup t = (Ok (), snd (CreateTestVM example_engine ''vm'' t))"

definition example_cloud_world :: world where
  "example_cloud_world = \<lparr>ww_engine = example_engine, ww_client = example_client, ww_setup = Some example_setup,
     ww_new = (\<lambda>i. (tw_wf example_workflow)\<lparr>wf_ID := ''run-'' @ utoa i\<rparr>), ww_order = (\<lambda>i. quota_pairs),
     ww_run = (\<lambda>i t. if i = 0 then Some ''QUOTA_EXCEEDED'' else None), ww_download = (\<lambda>url. Inr ''PASS''),
     ww_gcsPrefix = ''gs://b'', ww_localPath = ''/tests''\<rparr>"

lemma example_retried:
  "length (runs_of (fst (runTestWorkflowWithRetries example_cloud_world example_workflow))) = 2"
  by code_simp

lemma example_calls: "calls_fixtures example_engine example_setup"
  unfolding calls_fixtures_def
proof
  fix t
  have "fixture_call example_engine (\<lambda>t. snd (CreateTestVM example_engine ''vm'' t))"
    by (rule fixture_call.vm) (simp add: example_plain)
  then show "\<exists>fs. (\<forall>f\<in>set fs. fixture_call example_engine f) \<and> snd (example_setup t) = fold (\<lambda>f. f) fs t"
    by (intro exI [of _ "[\<lambda>t. snd (CreateTestVM example_engine ''vm'' t)]"]) (simp add: example_setup_def)
qed


theorem every_run_cleaned_witness:
  "\<exists>ev res m'. runTestWorkflow example_cloud_world (newTestMetrics 1) example_workflow = (ev, Some res, m')
     \<and> tr_workflowSuccess res \<and> last (runs_of ev) = tr_testWorkflow res \<and> cleaned_up None ev"
proof -
  obtain ev r m' where r: "runTestWorkflow example_cloud_world (newTestMetrics 1) example_workflow = (ev, r, m')"
    by (cases "runTestWorkflow example_cloud_world (newTestMetrics 1) example_workflow")
  have "map_option tr_workflowSuccess (fst (snd (runTestWorkflow example_cloud_world (newTestMetrics 1) example_workflow))) = Some True"
    by code_simp
  then obtain res where res: "r = Some res" "tr_workflowSuccess res" using r by auto
  have "op_Zones (tw_opts example_workflow) \<noteq> []" by (simp add: example_workflow_def)
  with every_run_cleaned [OF r [unfolded res(1)]] show ?thesis using r res by auto
qed

theorem lost_image_error_panics_witness:
  "NewTestWorkflow (example_client\<lparr>ct_GetImage := (\<lambda>p n. Inl ''not found'')\<rparr>) (tw_wf example_workflow) (tw_opts example_workflow) = Panic"
proof -
  have s: "Split (CHR ''/'') (op_Image (tw_opts example_workflow)) = ''projects'' # ''p'' # [''global'', ''images'', ''debian-12'']"
    "\<not> Contains (op_Image (tw_opts example_workflow)) ''family''"
    by code_simp+
  show ?thesis
    by (rule lost_image_error_panics [OF _ _ s]) (simp_all add: example_client_def)
qed

end
