(* ===== verification/Workflow_Pool_Guarantees.thy ===== *)
theory Workflow_Pool_Guarantees
  imports Workflow_Pool Workflow_Run_Guarantees
begin

text \<open>
  What holds of a run of all tests, however the workers are interleaved: projects that are locked are
  not shared among locking tests, every test runs exactly once and the run ends, and the projects are
  used evenly.
\<close>

subsection \<open>Sums over the workers\<close>

lemma sum_update:
  fixes f :: "worker \<Rightarrow> 'a :: comm_monoid_add"
  shows "i < length ws \<Longrightarrow> sum_list (map f (ws[i := w])) + f (ws ! i) = sum_list (map f ws) + f w"
  by (induction ws arbitrary: i) (auto simp: ac_simps split: nat.split)

lemma two_in_sum:
  fixes f :: "worker \<Rightarrow> 'a multiset"
  assumes "i < length ws" "j < length ws" "i \<noteq> j" and "f Gone = {#}"
  shows "f (ws ! i) + f (ws ! j) \<subseteq># sum_list (map f ws)"
proof -
  have "sum_list (map f (ws[i := Gone, j := Gone])) + f (ws ! j) = sum_list (map f (ws[i := Gone]))"
    using sum_update [of j "ws[i := Gone]" f Gone] assms by simp
  then have "sum_list (map f (ws[i := Gone, j := Gone])) + (f (ws ! i) + f (ws ! j)) = sum_list (map f ws)"
    using sum_update [of i ws f Gone] assms by (simp add: ac_simps)
  then show ?thesis by (metis mset_subset_eq_add_right)
qed

text \<open>The moves of a worker.\<close>

lemma work_cases:
  assumes "work wld s i = Some s'"
  obtains
    (ends) "po_workers s ! i = Idle" "po_queue s = []" "s' = s\<lparr>po_workers := (po_workers s)[i := Gone]\<rparr>"
  | (waits) t q where "po_workers s ! i = Idle" "po_queue s = t # q" "tw_lockProject t"
      "s' = s\<lparr>po_queue := q, po_workers := (po_workers s)[i := Waits t]\<rparr>"
  | (starts) t q p where "po_workers s ! i = Idle" "po_queue s = t # q" "\<not> tw_lockProject t"
      "s' = s\<lparr>po_queue := q, po_projects := tl (po_projects s), po_workers := (po_workers s)[i := Has (assign p t)]\<rparr>"
  | (locks) t p ps where "po_workers s ! i = Waits t" "po_exclusive s = p # ps"
      "s' = s\<lparr>po_exclusive := ps, po_workers := (po_workers s)[i := Has (assign p t)]\<rparr>"
  | (crashes) t ev m where "po_workers s ! i = Has t" "runTestWorkflow (wld t) (po_metrics s) t = (ev, None, m)"
      "s' = s\<lparr>po_workers := (po_workers s)[i := Gone], po_events := po_events s @ ev, po_metrics := m, po_crashed := True\<rparr>"
  | (finishes) t ev r m where "po_workers s ! i = Has t" "runTestWorkflow (wld t) (po_metrics s) t = (ev, Some r, m)"
      "s' = s\<lparr>po_results := po_results s @ [r], po_events := po_events s @ ev, po_metrics := m,
         po_workers := (po_workers s)[i := (if tw_lockProject t then Returns (wf_Project (tw_wf t)) else Idle)]\<rparr>"
  | (unlocks) p where "po_workers s ! i = Returns p"
      "s' = s\<lparr>po_exclusive := po_exclusive s @ [p], po_workers := (po_workers s)[i := Idle]\<rparr>"
proof (cases "po_workers s ! i")
  case Idle
  note w = this
  then have s': "s' = start_test s i" using assms by (simp add: work_def split: if_splits)
  show thesis
  proof (cases "po_queue s")
    case Nil
    with s' w show thesis by (intro ends) (simp_all add: start_test_def)
  next
    case (Cons t q)
    show thesis
    proof (cases "tw_lockProject t")
      case True
      with s' w Cons show thesis by (intro waits) (simp_all add: start_test_def)
    next
      case False
      have "\<exists>p. s' = s\<lparr>po_queue := q, po_projects := tl (po_projects s), po_workers := (po_workers s)[i := Has (assign p t)]\<rparr>"
        using s' False Cons by (cases s; cases "po_projects s") (auto simp: start_test_def)
      with w Cons False show thesis using starts by blast
    qed
  qed
next
  case (Waits t)
  then show thesis using assms locks by (auto simp: work_def split: if_splits list.splits)
next
  case (Has t)
  obtain ev r m where r: "runTestWorkflow (wld t) (po_metrics s) t = (ev, r, m)" by (cases "runTestWorkflow (wld t) (po_metrics s) t")
  then show thesis using assms Has crashes finishes by (cases r) (auto simp: work_def run_test_def split: if_splits)
next
  case (Returns p)
  then show thesis using assms unlocks by (auto simp: work_def split: if_splits)
next
  case Gone
  then show thesis using assms by (simp add: work_def split: if_splits)
qed

subsection \<open>Locked projects\<close>

fun held :: "worker \<Rightarrow> string multiset" where
  "held (Has t) = (if tw_lockProject t then {#wf_Project (tw_wf t)#} else {#})"
| "held (Returns p) = {#p#}"
| "held _ = {#}"

lemma assign_sel [simp]: "tw_lockProject (assign p t) = tw_lockProject t" "wf_Project (tw_wf (assign p t)) = p"
  "tw_skipped (assign p t) = tw_skipped t" "assign p (assign q t) = assign p t"
  by (simp_all add: assign_def)

fun waiting_ok :: "worker \<Rightarrow> bool" where
  "waiting_ok (Waits t) = tw_lockProject t"
| "waiting_ok _ = True"

definition locks_ok :: "string multiset \<Rightarrow> pool \<Rightarrow> bool" where
  "locks_ok E s \<longleftrightarrow> list_all waiting_ok (po_workers s)
     \<and> (\<not> po_crashed s \<longrightarrow> mset (po_exclusive s) + sum_list (map held (po_workers s)) = E)"

lemma all_update: "list_all P ws \<Longrightarrow> P v \<Longrightarrow> list_all P (ws[i := v])"
  unfolding list_all_iff using set_update_subset_insert by fastforce

lemma locks_ok_step:
  assumes "locks_ok E s" and "i < length (po_workers s)" and "work wld s i = Some s'"
  shows "locks_ok E s'"
proof -
  note u = sum_update [OF assms(2), of held]
  have c: "\<not> po_crashed s" using assms(3) by (simp add: work_def split: if_splits)
  have i: "po_workers s ! i \<in> set (po_workers s)" using assms(2) by simp
  note o = assms(1) [unfolded locks_ok_def]
  have w: "list_all waiting_ok (po_workers s)" using o by blast
  have m: "mset (po_exclusive s) + sum_list (map held (po_workers s)) = E" using o c by blast
  from assms(3) show ?thesis
  proof (cases rule: work_cases)
    case ends
    then show ?thesis using m all_update [OF w] u [of Gone] by (simp add: locks_ok_def)
  next
    case (waits t q)
    then show ?thesis using m all_update [OF w] u [of "Waits t"] by (simp add: locks_ok_def)
  next
    case (starts t q p)
    then show ?thesis using m all_update [OF w] u [of "Has (assign p t)"] by (simp add: locks_ok_def)
  next
    case (locks t p ps)
    then have "tw_lockProject t" using w i unfolding list_all_iff by (metis waiting_ok.simps(1))
    then show ?thesis using locks m all_update [OF w] u [of "Has (assign p t)"] by (simp add: locks_ok_def)
  next
    case (crashes t ev m)
    then show ?thesis using all_update [OF w] by (simp add: locks_ok_def)
  next
    case (finishes t ev r mt)
    then show ?thesis using m all_update [OF w] u [of "if tw_lockProject t then Returns (wf_Project (tw_wf t)) else Idle"]
      by (simp add: locks_ok_def split: if_splits)
  next
    case (unlocks p)
    then have "sum_list (map held (po_workers s)) = add_mset p (sum_list (map held ((po_workers s)[i := Idle])))"
      using u [of Idle] by simp
    then show ?thesis using unlocks m all_update [OF w] by (simp add: locks_ok_def)
  qed
qed

lemma sum_of_zeros [simp]: "sum_list (replicate n (0 :: 'a :: comm_monoid_add)) = 0"
  by (induction n) simp_all

lemma sum_of_empties [simp]: "sum_list (replicate n {#}) = {#}"
  by (induction n) simp_all

lemma sum_empty: "(\<And>w. w \<in> set ws \<Longrightarrow> f w = {#}) \<Longrightarrow> sum_list (map f ws) = {#}"
  by (induction ws) simp_all

lemma reach_locks_ok:
  "(pool_step wld)\<^sup>*\<^sup>* (new_pool tests exclusive projects n) s \<Longrightarrow> locks_ok (mset exclusive) s"
proof (induction rule: rtranclp_induct)
  case base
  show ?case by (simp add: locks_ok_def new_pool_def list_all_iff)
next
  case (step s s')
  then show ?case by (auto elim!: pool_stepE intro: locks_ok_step)
qed

lemma draw_split: "xs \<noteq> [] \<Longrightarrow> rnd k (length xs) < length xs \<Longrightarrow> draw rnd k xs = (x, rest) \<Longrightarrow>
    mset xs = add_mset x (mset rest) \<and> length xs = Suc (length rest)"
  by (auto simp: draw_def Let_def) (metis append_take_drop_id Cons_nth_drop_Suc mset_append mset.simps(2) union_mset_add_mset_right)

lemma exclusive_order_mset:
  assumes "\<And>k n. 0 < n \<Longrightarrow> rnd k n < n"
  shows "mset (exclusive_order rnd k (length xs) xs) = mset xs"
proof (induction "length xs" arbitrary: k xs)
  case (Suc n)
  obtain x rest where d: "draw rnd k xs = (x, rest)" by (cases "draw rnd k xs")
  then have "mset xs = add_mset x (mset rest)" "length xs = Suc (length rest)"
    using draw_split [of xs rnd k x rest] assms [of "length xs" k] Suc.hyps(2)
    by (metis list.size(3) nat.distinct(1) zero_less_Suc)+
  then show ?case using Suc.hyps(1) [of rest "Suc k"] Suc.hyps(2) d by simp
qed simp

text \<open>C11: Tests that lock their project never share it among themselves: whatever the order in which the
  workers move, two of them that run locking tests, or are about to give a project back, hold
  different projects, each is one of the test projects, and none of them is free at the same time.\<close>

theorem locked_projects_disjoint:
  assumes "distinct testProjects" and "\<And>k n. 0 < n \<Longrightarrow> rnd k n < n"
    and "(pool_step wld)\<^sup>*\<^sup>* (new_pool tests (exclusive_order rnd 0 (length testProjects) testProjects) projects n) s"
    and "\<not> po_crashed s" and "i < length (po_workers s)" and "p \<in># held (po_workers s ! i)"
  shows "p \<in> set testProjects \<and> p \<notin> set (po_exclusive s)
    \<and> (\<forall>j < length (po_workers s). p \<in># held (po_workers s ! j) \<longrightarrow> j = i)"
proof -
  let ?E = "mset testProjects" and ?ws = "po_workers s"
  have m: "mset (po_exclusive s) + sum_list (map held ?ws) = ?E"
    using reach_locks_ok [OF assms(3)] assms(4) exclusive_order_mset [of rnd 0 testProjects] assms(2)
    by (simp add: locks_ok_def)
  have one: "count ?E p \<le> 1" using assms(1) by (simp add: distinct_count_atmost_1)
  have "held (?ws ! i) \<subseteq># sum_list (map held ?ws)"
    using sum_update [OF assms(5), of held Gone] by (metis add.right_neutral held.simps(5) mset_subset_eq_add_right)
  then have h: "1 \<le> count (sum_list (map held ?ws)) p"
    using assms(6) by (metis count_greater_eq_one_iff mset_subset_eqD)
  have "count (mset (po_exclusive s)) p + count (sum_list (map held ?ws)) p = count ?E p"
    using arg_cong [OF m, of "\<lambda>M. count M p"] by simp
  then have c: "count (mset (po_exclusive s)) p = 0" "count ?E p = 1" "count (sum_list (map held ?ws)) p = 1"
    using one h by linarith+
  have "j = i" if j: "j < length ?ws" "p \<in># held (?ws ! j)" for j
  proof (rule ccontr)
    assume "j \<noteq> i"
    then have "held (?ws ! i) + held (?ws ! j) \<subseteq># sum_list (map held ?ws)"
      using two_in_sum [of i ?ws j held] assms(5) j(1) by simp
    from mset_subset_eq_count [OF this, of p] show False
      using c(3) assms(6) j(2) by (simp add: count_eq_zero_iff flip: count_greater_zero_iff)
  qed
  then show ?thesis using c(1,2) by (metis count_mset_0_iff zero_neq_one)
qed

subsection \<open>Every test once\<close>

abbreviation base :: "test_workflow \<Rightarrow> test_workflow" where
  "base \<equiv> assign []"

fun busy :: "worker \<Rightarrow> test_workflow multiset" where
  "busy (Waits t) = {#base t#}"
| "busy (Has t) = {#base t#}"
| "busy _ = {#}"

text \<open>A result that a test workflow can have, and the count of those that were skipped or not.\<close>

definition result_of :: "(test_workflow \<Rightarrow> world) \<Rightarrow> test_workflow \<Rightarrow> test_result \<Rightarrow> bool" where
  "result_of wld t r \<longleftrightarrow> (\<exists>m. fst (snd (runTestWorkflow (wld t) m t)) = Some r)"

definition counts :: "test_workflow list \<Rightarrow> metrics \<Rightarrow> bool" where
  "counts ts m \<longleftrightarrow> mt_running m = int (length (filter tw_skipped ts))
     \<and> mt_finished m = int (length (filter (\<lambda>t. \<not> tw_skipped t) ts))"

lemma counts_run: "counts ts m \<Longrightarrow> runTestWorkflow w m t = (ev, r, m') \<Longrightarrow> counts (ts @ [t]) m' \<and> mt_total m' = mt_total m"
  by (auto simp: counts_def runTestWorkflow_def started_def test_done_def Let_def
      split: if_splits prod.splits status.splits option.splits sum.splits)

text \<open>\<open>us\<close> are the tests that have run, with the project each was given.\<close>

definition tests_accounted :: "(test_workflow \<Rightarrow> world) \<Rightarrow> test_workflow list \<Rightarrow> test_workflow list \<Rightarrow> pool \<Rightarrow> bool" where
  "tests_accounted wld tests us s \<longleftrightarrow>
     image_mset base (mset (po_queue s)) + sum_list (map busy (po_workers s)) + image_mset base (mset us)
       = image_mset base (mset tests)
     \<and> list_all2 (result_of wld) us (po_results s) \<and> counts us (po_metrics s)"

definition pool_ok :: "(test_workflow \<Rightarrow> world) \<Rightarrow> test_workflow list \<Rightarrow> pool \<Rightarrow> bool" where
  "pool_ok wld tests s \<longleftrightarrow> po_crashed s
     \<or> ((\<exists>us. tests_accounted wld tests us s) \<and> (Gone \<in> set (po_workers s) \<longrightarrow> po_queue s = []))"

lemma gone_update: "Gone \<in> set (ws[i := w]) \<Longrightarrow> w \<noteq> Gone \<Longrightarrow> Gone \<in> set ws"
  using set_update_subset_insert [of ws i w] by blast

lemma pool_ok_step:
  assumes "pool_ok wld tests s" and "i < length (po_workers s)" and "work wld s i = Some s'"
  shows "pool_ok wld tests s'"
proof -
  note u = sum_update [OF assms(2), of busy]
  have "\<not> po_crashed s" using assms(3) by (simp add: work_def split: if_splits)
  then obtain us where a: "tests_accounted wld tests us s" and g: "Gone \<in> set (po_workers s) \<longrightarrow> po_queue s = []"
    using assms(1) by (auto simp: pool_ok_def)
  note gu = gone_update [of "po_workers s" i]
  from assms(3) show ?thesis
  proof (cases rule: work_cases)
    case ends
    then have "tests_accounted wld tests us s'" using a u [of Gone] by (simp add: tests_accounted_def)
    then show ?thesis using ends by (auto simp: pool_ok_def)
  next
    case (waits t q)
    then have "tests_accounted wld tests us s'" using a u [of "Waits t"] by (simp add: tests_accounted_def)
    then show ?thesis using waits g gu [of "Waits t"] by (auto simp: pool_ok_def)
  next
    case (starts t q p)
    then have "tests_accounted wld tests us s'" using a u [of "Has (assign p t)"] by (simp add: tests_accounted_def)
    then show ?thesis using starts g gu [of "Has (assign p t)"] by (auto simp: pool_ok_def)
  next
    case (locks t p ps)
    then have "tests_accounted wld tests us s'" using a u [of "Has (assign p t)"] by (simp add: tests_accounted_def)
    then show ?thesis using locks g gu [of "Has (assign p t)"] by (auto simp: pool_ok_def)
  next
    case (crashes t ev m)
    then show ?thesis by (simp add: pool_ok_def)
  next
    case (finishes t ev r m)
    let ?w = "if tw_lockProject t then Returns (wf_Project (tw_wf t)) else Idle"
    have w: "busy ?w = {#}" "?w \<noteq> Gone" by simp_all
    have "result_of wld t r" unfolding result_of_def using finishes(2) by (metis fst_conv snd_conv)
    moreover have "sum_list (map busy (po_workers s)) = add_mset (base t) (sum_list (map busy (po_workers s')))"
      using u [of ?w] finishes(1,3) w(1) by simp
    ultimately have "tests_accounted wld tests (us @ [t]) s'"
      using a finishes counts_run [OF _ finishes(2)] by (simp add: tests_accounted_def list_all2_appendI)
    then show ?thesis using finishes g gu [of ?w] w(2) unfolding pool_ok_def by auto
  next
    case (unlocks p)
    then have "tests_accounted wld tests us s'" using a u [of Idle] by (simp add: tests_accounted_def)
    then show ?thesis using unlocks g gu [of Idle] by (auto simp: pool_ok_def)
  qed
qed

lemma reach_pool_ok: "(pool_step wld)\<^sup>*\<^sup>* (new_pool tests exclusive projects n) s \<Longrightarrow> pool_ok wld tests s"
proof (induction rule: rtranclp_induct)
  case base
  have "tests_accounted wld tests [] (new_pool tests exclusive projects n)"
    by (simp add: tests_accounted_def new_pool_def counts_def newTestMetrics_def)
  then show ?case by (auto simp: pool_ok_def new_pool_def)
next
  case (step s s')
  then show ?case by (auto elim!: pool_stepE intro: pool_ok_step)
qed

lemma reach_workers: "(pool_step wld)\<^sup>*\<^sup>* s s' \<Longrightarrow> length (po_workers s') = length (po_workers s)"
  by (induction rule: rtranclp_induct) (auto elim!: pool_stepE work_cases)

lemma stuck_gone:
  assumes "locks_ok E s" and "E \<noteq> {#}" and "\<not> po_crashed s" and "\<And>s'. \<not> pool_step wld s s'" and "w \<in> set (po_workers s)"
  shows "w = Gone"
proof -
  have stuck: "v = Gone \<or> (\<exists>t. v = Waits t) \<and> po_exclusive s = []" if "v \<in> set (po_workers s)" for v
  proof -
    from that obtain i where i: "i < length (po_workers s)" "v = po_workers s ! i" by (auto simp: in_set_conv_nth)
    then have "work wld s i = None" using assms(4) pool_step.move [OF i(1)] by (metis option.exhaust)
    then show ?thesis using assms(3) i by (auto simp: work_def split: worker.splits list.splits)
  qed
  show ?thesis
  proof (rule ccontr)
    assume "w \<noteq> Gone"
    then have e: "po_exclusive s = []" using stuck assms(5) by blast
    have "sum_list (map held (po_workers s)) = {#}"
    proof (rule sum_empty)
      fix v assume "v \<in> set (po_workers s)"
      from stuck [OF this] show "held v = {#}" by auto
    qed
    then show False using assms(1-3) e by (simp add: locks_ok_def)
  qed
qed

text \<open>C8: A run that has come to its end has run every test exactly once: with at least one worker and one
  test project, when no worker can move any more and the program has not crashed, no worker is left
  waiting for a project, and there is one result for each test, that of running it in some project; the
  progress still counts as running exactly the tests that were skipped, and the others as finished.\<close>

theorem every_test_runs_once:
  assumes "(pool_step wld)\<^sup>*\<^sup>* (new_pool tests exclusive projects n) s" and "0 < n" and "exclusive \<noteq> []"
    and "\<And>s'. \<not> pool_step wld s s'" and "\<not> po_crashed s"
  shows "set (po_workers s) = {Gone} \<and> (\<exists>us. image_mset base (mset us) = image_mset base (mset tests)
    \<and> list_all2 (result_of wld) us (po_results s)
    \<and> mt_running (po_metrics s) = int (length (filter tw_skipped tests))
    \<and> mt_finished (po_metrics s) = int (length tests) - int (length (filter tw_skipped tests)))"
proof -
  have "length (po_workers s) = nat n" using reach_workers [OF assms(1)] by (simp add: new_pool_def)
  then have "po_workers s \<noteq> []" using assms(2) by auto
  moreover have "w = Gone" if "w \<in> set (po_workers s)" for w
    using stuck_gone [OF reach_locks_ok [OF assms(1)] _ assms(5,4) that] assms(3) by simp
  ultimately have gone: "set (po_workers s) = {Gone}" by (metis insertCI last_in_set subsetI subset_singletonD empty_iff singletonD insert_absorb insert_iff set_empty subset_antisym)
  obtain us where a: "tests_accounted wld tests us s" and q: "po_queue s = []"
    using reach_pool_ok [OF assms(1)] assms(5) gone by (auto simp: pool_ok_def)
  have "sum_list (map busy (po_workers s)) = {#}"
    using gone by (intro sum_empty) auto
  then have m: "image_mset base (mset us) = image_mset base (mset tests)" using a q by (simp add: tests_accounted_def)
  have k: "length (filter P us) = length (filter P tests)" if "\<And>t. P (base t) = P t" for P
  proof -
    have "size (filter_mset P (image_mset base (mset ts))) = length (filter P ts)" for ts
      using that by (simp add: filter_mset_image_mset o_def flip: mset_filter size_mset)
    then show ?thesis using m by metis
  qed
  have "length (filter (\<lambda>t. \<not> tw_skipped t) tests) + length (filter tw_skipped tests) = length tests"
    using sum_length_filter_compl [of tw_skipped tests] by simp
  then have "counts us (po_metrics s) \<Longrightarrow> mt_running (po_metrics s) = int (length (filter tw_skipped tests))
      \<and> mt_finished (po_metrics s) = int (length tests) - int (length (filter tw_skipped tests))"
    using k [of tw_skipped] k [of "\<lambda>t. \<not> tw_skipped t"] by (simp add: counts_def)
  then show ?thesis using gone a m by (auto simp: tests_accounted_def)
qed

subsection \<open>The end of a run\<close>

fun weight :: "worker \<Rightarrow> nat" where
  "weight Idle = 1"
| "weight (Waits t) = 4"
| "weight (Has t) = 3"
| "weight (Returns p) = 2"
| "weight Gone = 0"

definition pool_size :: "pool \<Rightarrow> nat" where
  "pool_size s = 4 * length (po_queue s) + sum_list (map weight (po_workers s))"

lemma step_decreases:
  assumes "pool_step wld s s'"
  shows "pool_size s' < pool_size s"
proof -
  from assms obtain i where i: "i < length (po_workers s)" and w: "work wld s i = Some s'" by (auto elim: pool_stepE)
  note u = sum_update [OF i, of weight]
  from w show ?thesis
  proof (cases rule: work_cases)
    case ends
    then show ?thesis using u [of Gone] by (simp add: pool_size_def)
  next
    case (waits t q)
    then show ?thesis using u [of "Waits t"] by (simp add: pool_size_def)
  next
    case (starts t q p)
    then show ?thesis using u [of "Has (assign p t)"] by (simp add: pool_size_def)
  next
    case (locks t p ps)
    then show ?thesis using u [of "Has (assign p t)"] by (simp add: pool_size_def)
  next
    case (crashes t ev m)
    then show ?thesis using u [of Gone] by (simp add: pool_size_def)
  next
    case (finishes t ev r m)
    then show ?thesis using u [of Idle] u [of "Returns (wf_Project (tw_wf t))"] by (simp add: pool_size_def)
  next
    case (unlocks p)
    then show ?thesis using u [of Idle] by (simp add: pool_size_def)
  qed
qed

text \<open>C29: Every run ends: each worker moves at most a bounded number of times, so after at most four moves
  for each test and one for each worker nothing moves any more.\<close>

theorem run_ends:
  assumes "(pool_step wld ^^ k) (new_pool tests exclusive projects n) s"
  shows "k \<le> 4 * length tests + nat n"
proof -
  have "k + pool_size s \<le> pool_size s0" if "(pool_step wld ^^ k) s0 s" for s0 s
    using that
  proof (induction k arbitrary: s)
    case (Suc k)
    then obtain s1 where s1: "(pool_step wld ^^ k) s0 s1" "pool_step wld s1 s" by auto
    from Suc.IH [OF s1(1)] step_decreases [OF s1(2)] show ?case by simp
  qed simp
  from this [OF assms] show ?thesis
    by (simp add: pool_size_def new_pool_def sum_list_replicate)
qed

subsection \<open>The spread over the projects\<close>

lemma project_order_within:
  assumes "\<And>k n. 0 < n \<Longrightarrow> rnd k n < n"
  shows "n \<le> length xs \<Longrightarrow> \<exists>ps. project_order rnd k full n xs = Some ps \<and> mset ps \<subseteq># mset xs \<and> length ps = n"
proof (induction n arbitrary: k xs)
  case (Suc n)
  then have xs: "xs \<noteq> []" by auto
  obtain x rest where d: "draw rnd k xs = (x, rest)" by (cases "draw rnd k xs")
  from draw_split [OF xs _ d] assms [of "length xs" k] xs
  have m: "mset xs = add_mset x (mset rest)" "length xs = Suc (length rest)" by simp_all
  then obtain ps where "project_order rnd (Suc k) full n rest = Some ps" "mset ps \<subseteq># mset rest" "length ps = n"
    using Suc.IH [of rest "Suc k"] Suc.prems by auto
  then show ?case using d xs m(1) by simp
qed simp

lemma project_order_round:
  assumes "\<And>k n. 0 < n \<Longrightarrow> rnd k n < n"
  shows "\<exists>qs k'. mset qs = mset xs
    \<and> project_order rnd k full (length xs + n) xs = map_option (\<lambda>ps. qs @ ps) (project_order rnd k' full n [])"
proof (induction "length xs" arbitrary: k xs)
  case 0
  then show ?case by (intro exI [of _ "[]"] exI [of _ k]) (simp add: option.map_ident)
next
  case (Suc l)
  then have xs: "xs \<noteq> []" by auto
  obtain x rest where d: "draw rnd k xs = (x, rest)" by (cases "draw rnd k xs")
  from draw_split [OF xs _ d] assms [of "length xs" k] xs
  have m: "mset xs = add_mset x (mset rest)" "length xs = Suc (length rest)" by simp_all
  then obtain qs k' where q: "mset qs = mset rest" "project_order rnd (Suc k) full (length rest + n) rest
      = map_option (\<lambda>ps. qs @ ps) (project_order rnd k' full n [])"
    using Suc.hyps(1) [of rest "Suc k"] Suc.hyps(2) by auto
  show ?case
    by (intro exI [of _ "x # qs"] exI [of _ k']) (cases "project_order rnd k' full n []"; simp add: m q d xs)
qed

lemma project_order_reset: "project_order rnd k full n [] = project_order rnd k full n full"
  by (cases n) simp_all

text \<open>The projects are used evenly: whatever the random source answers, the tests get a project each,
  every one a test project, and with \<open>m\<close> distinct test projects and \<open>n\<close> tests each project is drawn
  \<open>n / m\<close> times, rounded down or up.\<close>

theorem projects_used_evenly:
  assumes "distinct testProjects" and "testProjects \<noteq> []" and "\<And>k n. 0 < n \<Longrightarrow> rnd k n < n"
  shows "\<exists>ps. project_order rnd k testProjects n testProjects = Some ps \<and> length ps = n \<and> set ps \<subseteq> set testProjects
    \<and> (\<forall>p \<in> set testProjects. n div length testProjects \<le> count_list ps p
         \<and> count_list ps p \<le> (n + length testProjects - 1) div length testProjects)"
proof (induction n arbitrary: k rule: less_induct)
  case (less n)
  let ?m = "length testProjects"
  have m: "0 < ?m" using assms(2) by simp
  have one: "count_list testProjects p = 1" if "p \<in> set testProjects" for p
    using assms(1) that by (simp add: distinct_count_atmost_1 flip: count_mset)
  show ?case
  proof (cases "n < ?m")
    case True
    obtain ps where p: "project_order rnd k testProjects n testProjects = Some ps"
      "mset ps \<subseteq># mset testProjects" "length ps = n"
      using project_order_within [of rnd n testProjects k testProjects] assms(3) True by auto
    have "count_list ps q \<le> (n + ?m - 1) div ?m" if q: "q \<in> set testProjects" for q
    proof (cases "n = 0")
      case True
      then show ?thesis using p(3) by simp
    next
      case False
      have "count_list ps q \<le> 1" using mset_subset_eq_count [OF p(2), of q] one [OF q] by (simp add: count_mset)
      moreover have "1 \<le> (n + ?m - 1) div ?m" using False m by (simp add: Suc_le_eq div_greater_zero_iff)
      ultimately show ?thesis by linarith
    qed
    then show ?thesis using p set_mset_mono [OF p(2)] True by auto
  next
    case False
    then obtain r where r: "n = ?m + r" by (metis le_add_diff_inverse not_less)
    obtain qs k' where q: "mset qs = mset testProjects" "project_order rnd k testProjects n testProjects
        = map_option (\<lambda>ps. qs @ ps) (project_order rnd k' testProjects r testProjects)"
      using project_order_round [of rnd testProjects k testProjects r] assms(3) by (auto simp: r project_order_reset)
    have "r < n" using r m by simp
    from less.IH [OF this, of k'] obtain ps where p: "project_order rnd k' testProjects r testProjects = Some ps"
      "length ps = r" "set ps \<subseteq> set testProjects"
      "\<forall>p \<in> set testProjects. r div ?m \<le> count_list ps p \<and> count_list ps p \<le> (r + ?m - 1) div ?m" by blast
    have q1: "count_list qs x = 1" if "x \<in> set testProjects" for x
      using one [OF that] q(1) by (metis count_mset)
    have d: "(?m + a) div ?m = Suc (a div ?m)" for a
    proof -
      have "?m \<noteq> 0" using m by simp
      from div_add_self1 [OF this, of a] show ?thesis by simp
    qed
    have e: "n + ?m - 1 = ?m + (r + ?m - 1)" using m by (simp add: r)
    moreover have "n div ?m = Suc (r div ?m)" unfolding r by (rule d)
    moreover have "(n + ?m - 1) div ?m = Suc ((r + ?m - 1) div ?m)" unfolding e by (rule d)
    ultimately have "\<forall>x \<in> set testProjects. n div ?m \<le> count_list (qs @ ps) x \<and> count_list (qs @ ps) x \<le> (n + ?m - 1) div ?m"
      using p(4) q1 by simp
    moreover have "length qs = ?m" "set qs = set testProjects" using mset_eq_length [OF q(1)] mset_eq_setD [OF q(1)] by simp_all
    ultimately show ?thesis using p(1-3) q(2) r by (intro exI [of _ "qs @ ps"]) simp
  qed
qed

subsection \<open>An example\<close>

text \<open>Two workers, one project, a test that locks it and one that does not.\<close>

definition example_pool :: pool where
  "example_pool = new_pool [LockProject example_workflow, example_workflow] (exclusive_order (\<lambda>k n. 0) 0 1 [''p''])
     (the (project_order (\<lambda>k n. 0) 1 [''p''] 2 [''p''])) 2"

lemma follow_reaches: "(pool_step wld)\<^sup>*\<^sup>* s (follow_schedule wld schedule s)"
proof (induction schedule arbitrary: s)
  case (Cons i schedule)
  let ?s = "if i < length (po_workers s) then (case work wld s i of None \<Rightarrow> s | Some s' \<Rightarrow> s') else s"
  have m: "?s = s \<or> pool_step wld s ?s"
  proof (cases "i < length (po_workers s) \<and> work wld s i \<noteq> None")
    case True
    then show ?thesis using pool_step.move [of i s wld] by auto
  next
    case False
    then show ?thesis by auto
  qed
  from m have "(pool_step wld)\<^sup>*\<^sup>* s ?s"
  proof
    assume "?s = s"
    then show ?thesis by (simp only: rtranclp.rtrancl_refl)
  qed (rule r_into_rtranclp)
  also have "(pool_step wld)\<^sup>*\<^sup>* ?s (follow_schedule wld schedule ?s)" by (rule Cons.IH)
  finally show ?case unfolding follow_schedule_def by (simp only: fold_Cons comp_apply)
qed (simp add: follow_schedule_def)

lemma gone_stuck: "(\<And>w. w \<in> set (po_workers s) \<Longrightarrow> w = Gone) \<Longrightarrow> \<not> pool_step wld s s'"
proof
  assume gone: "\<And>w. w \<in> set (po_workers s) \<Longrightarrow> w = Gone" and "pool_step wld s s'"
  then obtain i where "i < length (po_workers s)" "work wld s i = Some s'" by (auto elim: pool_stepE)
  moreover from this have "po_workers s ! i = Gone" using gone by simp
  ultimately show False by (simp add: work_def split: if_splits)
qed

lemma example_locked:
  "\<exists>s. (pool_step wld)\<^sup>*\<^sup>* example_pool s \<and> \<not> po_crashed s
     \<and> po_workers s = [Has (assign ''p'' (LockProject example_workflow)), Has (assign ''p'' example_workflow)]"
proof (intro exI conjI)
  let ?s = "follow_schedule wld [0, 0, 1] example_pool"
  show "(pool_step wld)\<^sup>*\<^sup>* example_pool ?s" by (rule follow_reaches)
  have l: "tw_lockProject (LockProject example_workflow)" "\<not> tw_lockProject example_workflow"
    by (simp_all add: LockProject_def example_workflow_def)
  have s: "?s = example_pool\<lparr>po_queue := [], po_exclusive := [], po_projects := [''p''],
      po_workers := [Has (assign ''p'' (LockProject example_workflow)), Has (assign ''p'' example_workflow)]\<rparr>"
    using l by (simp add: follow_schedule_def example_pool_def new_pool_def work_def start_test_def draw_def numeral_2_eq_2)
  show "\<not> po_crashed ?s"
    "po_workers ?s = [Has (assign ''p'' (LockProject example_workflow)), Has (assign ''p'' example_workflow)]"
    unfolding s by (simp_all add: example_pool_def new_pool_def)
qed

text \<open>Locking a project does not make its use exclusive: a test that does not lock its project can run in
  the very project that another test has locked, at the same time.\<close>

theorem lock_does_not_exclude:
  "\<exists>s t u. (pool_step wld)\<^sup>*\<^sup>* example_pool s \<and> po_workers s = [Has t, Has u]
     \<and> tw_lockProject t \<and> \<not> tw_lockProject u \<and> wf_Project (tw_wf t) = wf_Project (tw_wf u)"
proof -
  obtain s where "(pool_step wld)\<^sup>*\<^sup>* example_pool s"
    "po_workers s = [Has (assign ''p'' (LockProject example_workflow)), Has (assign ''p'' example_workflow)]"
    using example_locked by blast
  then show ?thesis by (fastforce simp: LockProject_def example_workflow_def)
qed

theorem locked_projects_disjoint_witness:
  "\<exists>s. (pool_step (\<lambda>t. example_cloud_world))\<^sup>*\<^sup>* example_pool s \<and> ''p'' \<in># held (po_workers s ! 0) \<and> ''p'' \<notin> set (po_exclusive s)"
proof -
  obtain s where s: "(pool_step (\<lambda>t. example_cloud_world))\<^sup>*\<^sup>* example_pool s" "\<not> po_crashed s"
    "po_workers s = [Has (assign ''p'' (LockProject example_workflow)), Has (assign ''p'' example_workflow)]"
    using example_locked by blast
  have h: "''p'' \<in># held (po_workers s ! 0)" "0 < length (po_workers s)" using s(3) by (simp_all add: LockProject_def)
  from s(1) have r: "(pool_step (\<lambda>t. example_cloud_world))\<^sup>*\<^sup>* (new_pool [LockProject example_workflow, example_workflow]
      (exclusive_order (\<lambda>k n. 0) 0 (length [''p'']) [''p'']) (the (project_order (\<lambda>k n. 0) 1 [''p''] 2 [''p''])) 2) s"
    by (simp add: example_pool_def)
  have "distinct [''p'']" by simp
  from locked_projects_disjoint [OF this _ r s(2) h(2) h(1)] show ?thesis using s(1) h(1) by blast
qed

theorem projects_used_evenly_witness:
  "\<exists>ps. project_order (\<lambda>k n. 0) 0 [''p'', ''q''] 5 [''p'', ''q''] = Some ps \<and> 2 \<le> count_list ps ''q'' \<and> count_list ps ''q'' \<le> 3"
proof -
  have "length [''p'', ''q''] = 2" by simp
  moreover have "5 div (2::nat) = 2" "(5 + (2::nat) - 1) div 2 = 3" by simp_all
  ultimately have l: "5 div length [''p'', ''q''] = 2" "(5 + length [''p'', ''q''] - 1) div length [''p'', ''q''] = 3"
    by (simp_all only:)
  have d: "distinct [''p'', ''q'']" "[''p'', ''q''] \<noteq> []" "''q'' \<in> set [''p'', ''q'']" by simp_all
  from projects_used_evenly [OF d(1,2), of "\<lambda>k n. 0" 0 5] show ?thesis unfolding l using d(3) by blast
qed

definition example_end :: pool where
  "example_end = follow_schedule (\<lambda>t. example_cloud_world) [0, 0, 0, 0, 0, 0, 0, 1]
     (new_pool [example_workflow\<lparr>tw_skipped := True\<rparr>, LockProject example_workflow] [''p''] [''p'', ''p''] 2)"

lemma example_ended: "list_all (\<lambda>w. case w of Gone \<Rightarrow> True | _ \<Rightarrow> False) (po_workers example_end)" "\<not> po_crashed example_end"
  by code_simp+

theorem every_test_runs_once_witness:
  "mt_running (po_metrics example_end) = 1 \<and> mt_finished (po_metrics example_end) = 1"
proof -
  let ?tests = "[example_workflow\<lparr>tw_skipped := True\<rparr>, LockProject example_workflow]"
  have r: "(pool_step (\<lambda>t. example_cloud_world))\<^sup>*\<^sup>* (new_pool ?tests [''p''] [''p'', ''p''] 2) example_end"
    unfolding example_end_def by (rule follow_reaches)
  have "\<not> pool_step (\<lambda>t. example_cloud_world) example_end s'" for s'
    by (rule gone_stuck) (use example_ended(1) in \<open>simp add: list_all_iff split: worker.splits, metis worker.exhaust\<close>)
  moreover have "tw_skipped (example_workflow\<lparr>tw_skipped := True\<rparr>)" "\<not> tw_skipped (LockProject example_workflow)"
    by (simp_all add: LockProject_def) (simp add: example_workflow_def)
  ultimately show ?thesis using every_test_runs_once [OF r _ _ _ example_ended(2)] by auto
qed

theorem run_ends_witness: "\<exists>s. (pool_step (\<lambda>t. example_cloud_world) ^^ 1) (new_pool [] [] [] 1) s \<and> 1 \<le> 4 * length [] + nat 1"
proof -
  have "pool_step (\<lambda>t. example_cloud_world) (new_pool [] [] [] 1) ((new_pool [] [] [] 1)\<lparr>po_workers := [Gone]\<rparr>)"
    by (rule pool_step.move [of 0]) (simp_all add: new_pool_def work_def start_test_def)
  then have s: "(pool_step (\<lambda>t. example_cloud_world) ^^ 1) (new_pool [] [] [] 1) ((new_pool [] [] [] 1)\<lparr>po_workers := [Gone]\<rparr>)"
    by (simp only: relpowp_1)
  from run_ends [OF s] s show ?thesis by auto
qed

end
