(* ===== verification/Test_Utils.thy ===== *)
theory Test_Utils
  imports Go_Find Go_Strconv
begin

text \<open>
  \<open>utils/test_utils.go\<close>: which family an image belongs to by its name, names of images and machines,
  host keys, the disk of a given size, processes, metadata entries and passwords.  The commands that
  are run, the metadata and the random source are parameters.
\<close>

subsection \<open>Names of images\<close>

definition IsAccelerator :: "string \<Rightarrow> bool" where "IsAccelerator img = Contains img ''nvidia''"
definition IsAlmaLinux :: "string \<Rightarrow> bool" where "IsAlmaLinux img = Contains img ''almalinux''"
definition IsBeta :: "string \<Rightarrow> bool" where "IsBeta img = Contains img ''beta''"
definition IsBYOS :: "string \<Rightarrow> bool" where "IsBYOS img = Contains img ''byos''"
definition IsCOS :: "string \<Rightarrow> bool" where "IsCOS img = Contains img ''cos''"
definition IsCentOS :: "string \<Rightarrow> bool" where "IsCentOS img = Contains img ''centos''"
definition IsDebian :: "string \<Rightarrow> bool" where "IsDebian img = Contains img ''debian''"
definition IsFedora :: "string \<Rightarrow> bool" where "IsFedora img = Contains img ''fedora''"
definition IsOpenSUSE :: "string \<Rightarrow> bool" where "IsOpenSUSE img = Contains img ''opensuse''"
definition IsOracle :: "string \<Rightarrow> bool" where "IsOracle img = Contains img ''oracle''"
definition IsRHEL :: "string \<Rightarrow> bool" where "IsRHEL img = Contains img ''rhel''"
definition IsRHELEUS :: "string \<Rightarrow> bool" where "IsRHELEUS img = Contains img ''eus''"
definition IsRHELLVM :: "string \<Rightarrow> bool" where "IsRHELLVM img = Contains img ''lvm''"
definition IsRocky :: "string \<Rightarrow> bool" where "IsRocky img = Contains img ''rocky''"
definition IsSAP :: "string \<Rightarrow> bool" where "IsSAP img = Contains img ''sap''"
definition IsSLES :: "string \<Rightarrow> bool" where "IsSLES img = Contains img ''sles''"
definition IsSUSE :: "string \<Rightarrow> bool" where "IsSUSE img = Contains img ''suse''"
definition IsUbuntu :: "string \<Rightarrow> bool" where "IsUbuntu img = Contains img ''ubuntu''"
definition IsWindowsImage :: "string \<Rightarrow> bool" where "IsWindowsImage img = Contains img ''windows''"
definition IsWindowsSQLImage :: "string \<Rightarrow> bool" where "IsWindowsSQLImage img = Contains img ''sql''"
definition Is32BitWindows :: "string \<Rightarrow> bool" where "Is32BitWindows img = Contains img ''-x86''"

definition IsEL :: "string \<Rightarrow> bool" where
  "IsEL img = (IsCentOS img \<or> IsRHEL img \<or> IsRocky img \<or> IsAlmaLinux img \<or> IsOracle img)"

definition windowsClientImagePatterns :: "string list" where
  "windowsClientImagePatterns = [''windows-7-'', ''windows-8-'', ''windows-10-'', ''windows-11-'']"

definition IsWindowsClient :: "string \<Rightarrow> bool" where
  "IsWindowsClient img = list_ex (Contains img) windowsClientImagePatterns"

text \<open>\<open>strings.SplitN\<close> for a separator of one character: the last part keeps the rest.\<close>

definition SplitN :: "char \<Rightarrow> nat \<Rightarrow> string \<Rightarrow> string list" where
  "SplitN c n s =
     (let ps = Split c s in if length ps \<le> n then ps else take (n - 1) ps @ [Join [c] (drop (n - 1) ps)])"

definition ExtractBaseImageName :: "string \<Rightarrow> string + string" where
  "ExtractBaseImageName img =
     (let splits = SplitN (CHR ''/'') 5 img
      in if length splits < 5 then Inl ''malformed image metadata''
         else let parts = Split (CHR ''-'') (splits ! 4)
              in if length parts < 2 then Inl ''malformed base image name'' else Inr (Join ''-'' (butlast parts)))"

text \<open>The metadata give the name of the machine, or an error.\<close>

definition GetInstanceName :: "string + string \<Rightarrow> string + string" where
  "GetInstanceName name = map_sum (\<lambda>err. ''failed to get instance name: '' @ err) id name"

definition GetRealVMName :: "string + string \<Rightarrow> string \<Rightarrow> string + string" where
  "GetRealVMName own name =
     (case GetInstanceName own of
        Inl err \<Rightarrow> Inl err
      | Inr instanceName \<Rightarrow> (case SplitN (CHR ''-'') 3 instanceName of
            [p0, p1, p2] \<Rightarrow> Inr (Join ''-'' [name, p1, p2])
          | _ \<Rightarrow> Inl (''instance name '' @ instanceName @ '' doesn't match scheme'')))"

text \<open>The metadata give \<open>projects/P/zones/Z\<close>; \<open>None\<close> is an index out of range.\<close>

definition GetProjectZone :: "string + string \<Rightarrow> (string + string \<times> string) option" where
  "GetProjectZone zone =
     (case zone of
        Inl err \<Rightarrow> Some (Inl (''failed to get instance zone: '' @ err))
      | Inr z \<Rightarrow> (case Split (CHR ''/'') z of
            _ # p # _ # q # _ \<Rightarrow> Some (Inr (p, q))
          | _ \<Rightarrow> None))"

subsection \<open>Host keys\<close>

definition host_key :: "string \<Rightarrow> (string \<rightharpoonup> string) \<Rightarrow> string + (string \<rightharpoonup> string)" where
  "host_key line m =
     (case Split (CHR '' '') (TrimSuffix line [CHR 0x0D]) of
        keyType # keyValue # _ \<Rightarrow> Inr (m(keyType \<mapsto> keyValue))
      | _ \<Rightarrow> Inl (''hostkey has wrong format '' @ TrimSuffix line [CHR 0x0D]))"

definition ParseHostKey :: "string \<Rightarrow> string + (string \<rightharpoonup> string)" where
  "ParseHostKey bytes = fold_err host_key (Split (CHR 0x0A) (TrimSpace bytes)) Map.empty"

subsection \<open>Disks and processes\<close>

text \<open>\<open>strings.Fields\<close>: the parts between runs of white space.\<close>

fun fields_from :: "string \<Rightarrow> string \<Rightarrow> string list" where
  "fields_from acc [] = (if acc = [] then [] else [acc])"
| "fields_from acc (c # s) =
     (if is_space c then (if acc = [] then [] else [acc]) @ fields_from [] s else fields_from (acc @ [c]) s)"

definition Fields :: "string \<Rightarrow> string list" where
  "Fields s = fields_from [] s"

text \<open>A line of \<open>lsblk\<close> that names a disk of the size.\<close>

definition disk_line :: "int \<Rightarrow> string \<Rightarrow> string option" where
  "disk_line bytes line =
     (case Fields line of
        [blkname, blksize, blktype] \<Rightarrow> if Atoi blksize = Some bytes \<and> blktype = ''disk'' then Some blkname else None
      | _ \<Rightarrow> None)"

text \<open>Devices as \<open>lsblk\<close> gives them in JSON: the name, the size if it is a whole number, the type.\<close>

fun find_device :: "int \<Rightarrow> (string \<times> int option \<times> string) list \<Rightarrow> string + string" where
  "find_device bytes [] = Inl ''disk block with size not found''"
| "find_device bytes ((blkname, sz, ty) # ds) =
     (case sz of
        None \<Rightarrow> Inl ''block dev size was not an int''
      | Some n \<Rightarrow> if map ascii_lower ty = ''disk'' \<and> n = bytes then Inr blkname else find_device bytes ds)"

text \<open>
  \<open>json\<close> and \<open>plain\<close> are what the two forms of the command give; the first is decoded, which can fail
  on its own.
\<close>

definition GetMountDiskPartition ::
  "bool \<Rightarrow> string + (string + (string \<times> int option \<times> string) list) \<Rightarrow> string + string \<Rightarrow> int \<Rightarrow> string + string" where
  "GetMountDiskPartition found json plain diskExpectedSizeGB =
     (let bytes = wrap64 (diskExpectedSizeGB * 1073741824)
      in if \<not> found then Inl ''could not find lsblk''
         else case json of
           Inl err \<Rightarrow> (case plain of
               Inl err2 \<Rightarrow> Inl (''failed to execute lsblk with and without json: '' @ err @ err2)
             | Inr out \<Rightarrow> (case find (\<lambda>l. disk_line bytes l \<noteq> None) (Split (CHR 0x0A) out) of
                   None \<Rightarrow> Inl (''failed to find disk partition with expected size '' @ itoa bytes)
                 | Some l \<Rightarrow> Inr (the (disk_line bytes l))))
         | Inr (Inl err) \<Rightarrow> Inl (''failed to unmarshal lsblk output with error: '' @ err)
         | Inr (Inr devices) \<Rightarrow> find_device bytes devices)"

text \<open>Whether a process is among those that \<open>ps\<close> lists.\<close>

definition ProcessExistsLinux :: "string + string \<Rightarrow> string \<Rightarrow> string + string \<times> bool" where
  "ProcessExistsLinux ps processName =
     (case ps of
        Inl err \<Rightarrow> Inl (''Failed to run ps command: '' @ err)
      | Inr out \<Rightarrow> Inr (out, list_ex (\<lambda>p. hd (Split (CHR '' '') (TrimSpace p)) = processName) (Split (CHR 0x0A) out)))"

subsection \<open>Interfaces and metadata\<close>

definition skipInterfaces :: "string list" where
  "skipInterfaces = [''isatap'', ''teredo'']"

text \<open>An interface is its name and whether it is the loopback.\<close>

definition FilterLoopbackTunnelingInterfaces :: "(string \<times> bool) list \<Rightarrow> (string \<times> bool) list" where
  "FilterLoopbackTunnelingInterfaces ifaces =
     filter (\<lambda>i. \<not> snd i \<and> \<not> list_ex (Contains (map ascii_lower (fst i))) skipInterfaces) ifaces"

text \<open>The first entry of the key is replaced, or a new one added.\<close>

fun upsert :: "string \<Rightarrow> string \<Rightarrow> (string \<times> string) list \<Rightarrow> (string \<times> string) list" where
  "upsert key v [] = [(key, v)]"
| "upsert key v ((k, w) # items) = (if k = key then (k, v) # items else (k, w) # upsert key v items)"

lemma upsert_map: "map_of (upsert key v items) = (map_of items)(key \<mapsto> v)"
  by (induction key v items rule: upsert.induct) auto

lemma upsert_keys: "key \<in> fst ` set items \<Longrightarrow> map fst (upsert key v items) = map fst items"
  by (induction key v items rule: upsert.induct) auto

subsection \<open>Passwords\<close>

definition pw_lower :: string where "pw_lower = ''abcdefghijklmnopqrstuvwxyz''"
definition pw_upper :: string where "pw_upper = ''ABCDEFGHIJKLMNOPQRSTUVWXYZ''"
definition pw_numbers :: string where "pw_numbers = ''0123456789''"
definition pw_special :: string where "pw_special = ''~!@#$%^&*_-+=|(){}[]:;<>,.?''"

definition pw_classes :: "string list" where
  "pw_classes = [pw_lower, pw_upper, pw_numbers, pw_special]"

definition pw_length :: "int \<Rightarrow> nat" where
  "pw_length userPwLgth = (if userPwLgth > 255 then 255 else if userPwLgth > 14 then nat userPwLgth else 14)"

definition complex_enough :: "string \<Rightarrow> bool" where
  "complex_enough b = (3 \<le> length (filter (\<lambda>cls. list_ex (\<lambda>c. c \<in> set cls) b) pw_classes))"

text \<open>
  One attempt after the other; \<open>draw\<close> answers the random choice of each attempt and place, or fails,
  which leaves a zero byte there.
\<close>

partial_function (option) password_from :: "(nat \<Rightarrow> nat \<Rightarrow> nat option) \<Rightarrow> nat \<Rightarrow> nat \<Rightarrow> string option" where
  "password_from draw len k =
     (let b = map (\<lambda>i. case draw k i of None \<Rightarrow> CHR 0x00 | Some c \<Rightarrow> concat pw_classes ! c) [0..<len]
      in if complex_enough b then Some b else password_from draw len (Suc k))"

declare password_from.simps [code]

definition ValidWindowsPassword :: "(nat \<Rightarrow> nat \<Rightarrow> nat option) \<Rightarrow> int \<Rightarrow> string option" where
  "ValidWindowsPassword draw userPwLgth = password_from draw (pw_length userPwLgth) 0"

text \<open>A password has the length asked for, within the bounds, and characters of three classes.\<close>

lemma password_from_good:
  assumes "password_from draw len k = Some b"
  shows "length b = len \<and> complex_enough b"
  by (rule password_from.raw_induct [OF _ assms, where P = "\<lambda>draw len k b. length b = len \<and> complex_enough b"])
     (auto simp: Let_def split: if_splits)

lemma password_good:
  "ValidWindowsPassword draw n = Some b \<Longrightarrow> 14 \<le> length b \<and> length b \<le> 255 \<and> complex_enough b"
  using password_from_good by (fastforce simp: ValidWindowsPassword_def pw_length_def split: if_splits)

end
