(* ===== verification/Manager.thy ===== *)
theory Manager
  imports Workflow_Pool_Guarantees Test_Utils
begin

text \<open>
  \<open>cmd/manager/main.go\<close>: the program that plans a test workflow for every package and image its flags
  ask for, runs them and writes the report.  The services, the compiler of regular expressions, the
  setups of the packages and the outside of the run are parameters.  A call of \<open>log.Fatal\<close> is \<open>Fail\<close>;
  an image in its message is not quoted.  The copies of artifacts to a local directory are left out.
\<close>

subsection \<open>Flags\<close>

record manager_flags =
  mf_zones :: "string list"
  mf_project :: string
  mf_testProjects :: string
  mf_zone :: string
  mf_print :: bool
  mf_validate :: bool
  mf_zone_override :: bool
  mf_out_path :: string
  mf_gcs_path :: string
  mf_local_path :: string
  mf_images :: string
  mf_timeout :: string
  mf_compute_endpoint_override :: string
  mf_parallel_count :: int
  mf_filter :: string
  mf_exclude :: string
  mf_exclude_discrete_tests :: string
  mf_machine_type :: string
  mf_x86_shape :: string
  mf_arm64_shape :: string
  mf_set_exit_status :: bool
  mf_use_reservations :: bool
  mf_reservation_urls :: string
  mf_reservation_bound :: bool
  mf_accelerator_type :: string
  mf_accelerator_count :: int
  mf_all_image_families :: string
  mf_architecture_type :: string
  mf_external_ip :: string
  mf_network :: string
  mf_subnet :: string
  mf_custom_startup_script :: string

definition default_manager_flags :: manager_flags where
  "default_manager_flags = \<lparr>mf_zones = [], mf_project = [], mf_testProjects = [], mf_zone = ''us-central1-a'',
     mf_print = False, mf_validate = False, mf_zone_override = True, mf_out_path = ''junit.xml'', mf_gcs_path = [],
     mf_local_path = [], mf_images = [], mf_timeout = ''30m'', mf_compute_endpoint_override = [],
     mf_parallel_count = 5, mf_filter = [], mf_exclude = [], mf_exclude_discrete_tests = [], mf_machine_type = [],
     mf_x86_shape = ''n1-standard-1'', mf_arm64_shape = ''t2a-standard-1'', mf_set_exit_status = True,
     mf_use_reservations = False, mf_reservation_urls = [], mf_reservation_bound = True, mf_accelerator_type = [],
     mf_accelerator_count = 0, mf_all_image_families = [], mf_architecture_type = [], mf_external_ip = [],
     mf_network = [], mf_subnet = [], mf_custom_startup_script = []\<rparr>"

text \<open>\<open>StringSlice\<close>, the value of the flag \<open>-zones\<close>: each use of the flag appends.\<close>

definition StringSlice_Set :: "string list \<Rightarrow> string \<Rightarrow> string list" where
  "StringSlice_Set s value = s @ Split (CHR '','') (filter (\<lambda>c. c \<noteq> CHR '' '') value)"

definition StringSlice_String :: "string list \<Rightarrow> string" where
  "StringSlice_String s = Join '','' s"

definition displayZone :: "manager_flags \<Rightarrow> string" where
  "displayZone f = (if mf_zones f \<noteq> [] then StringSlice_String (mf_zones f) else mf_zone f)"

definition check_flags :: "manager_flags \<Rightarrow> string option" where
  "check_flags f =
     (if mf_project f = [] \<or> (mf_zone f = [] \<and> mf_zones f = []) \<or> (mf_images f = [] \<and> mf_all_image_families f = [])
      then Some ''Must provide project, zone(s), and one of images or all_image_families arguments''
      else if mf_images f \<noteq> [] \<and> mf_all_image_families f \<noteq> []
      then Some ''Must provide one of images or all_image_families arguments, not both''
      else if mf_architecture_type f \<noteq> [] \<and> mf_architecture_type f \<noteq> ''x86'' \<and> mf_architecture_type f \<noteq> ''arm64''
      then Some ''architecture_type must be blank, x86, or arm64''
      else if mf_external_ip f \<noteq> [] \<and> \<not> EqualFold (mf_external_ip f) ''ephemeral'' \<and> \<not> EqualFold (mf_external_ip f) ''none''
      then Some ''external_ip must be blank, ephemeral, or none''
      else None)"

definition testProjectsReal :: "manager_flags \<Rightarrow> string list" where
  "testProjectsReal f = (if mf_testProjects f = [] then [mf_project f] else Split (CHR '','') (mf_testProjects f))"

text \<open>The legacy flag sets both shapes.\<close>

definition legacy_shapes :: "manager_flags \<Rightarrow> manager_flags" where
  "legacy_shapes f =
     (if mf_machine_type f \<noteq> [] then f\<lparr>mf_x86_shape := mf_machine_type f, mf_arm64_shape := mf_machine_type f\<rparr> else f)"

definition reservationURLSlice :: "manager_flags \<Rightarrow> string list" where
  "reservationURLSlice f = (if mf_reservation_urls f \<noteq> [] then Split (CHR '','') (mf_reservation_urls f) else [])"

subsection \<open>Zones in turn\<close>

text \<open>The zones in the order to try them, and the index after the call; it is -1 before the first.\<close>

definition rotatedZones :: "string list \<Rightarrow> string \<Rightarrow> int \<Rightarrow> string list \<times> int" where
  "rotatedZones zones zone idx =
     (if zones = [] then ([zone], idx)
      else let n = int (length zones);
               i = (if n \<le> idx + 1 then 0 else idx + 1)
           in (map (\<lambda>j. zones ! nat (go_mod (i + int j) n)) [0..<length zones], i))"

subsection \<open>Names of images\<close>

definition projectMap :: "(string \<times> string) list" where
  "projectMap =
     [(''almalinux'', ''almalinux-cloud''),
      (''centos'', ''centos-cloud''),
      (''cos'', ''cos-cloud''),
      (''debian'', ''debian-cloud''),
      (''fedora-cloud'', ''fedora-cloud''),
      (''fedora-coreos'', ''fedora-coreos-cloud''),
      (''opensuse'', ''opensuse-cloud''),
      (''oracle-linux'', ''oracle-linux-cloud''),
      (''rhel-(.*-)?byos'', ''rhel-byos-cloud''),
      (''rhel-(.*-)?eus'', ''rhel-cloud''),
      (''rhel-(.*-)?lvm'', ''rhel-cloud''),
      (''rhel-(.*-)?sap'', ''rhel-sap-cloud''),
      (''rhel'', ''rhel-cloud''),
      (''rocky-linux'', ''rocky-linux-cloud''),
      (''sles-(.*-)?sap'', ''suse-sap-cloud''),
      (''sles'', ''suse-cloud''),
      (''sql-'', ''windows-sql-cloud''),
      (''ubuntu-(.*-)?pro'', ''ubuntu-os-pro-cloud''),
      (''ubuntu-accelerator'', ''ubuntu-os-accelerator-images''),
      (''ubuntu'', ''ubuntu-os-cloud''),
      (''windows'', ''windows-cloud'')]"

text \<open>\<open>a(.*-)?b\<close>\<close>

definition dashed :: "string \<Rightarrow> string \<Rightarrow> rexp" where
  "dashed a b = Seq (word a) (Seq (Alt Eps (Seq anything (Ch CHR ''-''))) (word b))"

text \<open>The ordered keys, each with the expression it is compiled to.\<close>

definition imageKeys :: "(string \<times> rexp) list" where
  "imageKeys =
     [(''almalinux'', word ''almalinux''),
      (''centos'', word ''centos''),
      (''cos'', word ''cos''),
      (''debian'', word ''debian''),
      (''fedora-cloud'', word ''fedora-cloud''),
      (''fedora-coreos'', word ''fedora-coreos''),
      (''opensuse'', word ''opensuse''),
      (''oracle-linux'', word ''oracle-linux''),
      (''rhel-(.*-)?byos'', dashed ''rhel-'' ''byos''),
      (''rhel-(.*-)?eus'', dashed ''rhel-'' ''eus''),
      (''rhel-(.*-)?lvm'', dashed ''rhel-'' ''lvm''),
      (''rhel-(.*-)?sap'', dashed ''rhel-'' ''sap''),
      (''rhel'', word ''rhel''),
      (''rocky-linux'', word ''rocky-linux''),
      (''sles-(.*-)?sap'', dashed ''sles-'' ''sap''),
      (''sles'', word ''sles''),
      (''sql-'', word ''sql-''),
      (''ubuntu-(.*-)?pro'', dashed ''ubuntu-'' ''pro''),
      (''ubuntu-accelerator'', word ''ubuntu-accelerator''),
      (''ubuntu'', word ''ubuntu''),
      (''windows'', word ''windows'')]"

definition key_applies :: "string \<Rightarrow> string \<times> rexp \<Rightarrow> bool" where
  "key_applies img kr =
     ((IsSAP (fst kr) \<and> HasPrefix img (hd (Split (CHR ''-'') (fst kr))) \<and> IsSAP img) \<or> MatchString (snd kr) img)"

definition image_project :: "string \<Rightarrow> string" where
  "image_project img =
     (case find (key_applies img) imageKeys of None \<Rightarrow> [] | Some kr \<Rightarrow> lookup0 projectMap [] (fst kr))"

text \<open>\<open>.*v([0-9]+)\<close>, searched anywhere.\<close>

definition vRegex :: rexp where
  "vRegex = Seq anything (Seq (Ch CHR ''v'') (Seq (Range CHR ''0'' CHR ''9'') (Star (Range CHR ''0'' CHR ''9''))))"

definition formatImageName :: "string \<Rightarrow> string + string" where
  "formatImageName img =
     (if Contains img ''/'' then Inr img
      else let project = image_project img
           in if project = [] then Inl (''unknown image '' @ img)
              else if MatchString vRegex img then Inr (''projects/'' @ project @ ''/global/images/'' @ img)
              else Inr (''projects/'' @ project @ ''/global/images/family/'' @ img))"

text \<open>A path without a second component makes the code index out of range.\<close>

definition image_architecture :: "client \<Rightarrow> string \<Rightarrow> string outcome" where
  "image_architecture c fmt =
     (case Split (CHR ''/'') fmt of
        _ # p # rest \<Rightarrow>
          (case (if Contains fmt ''family'' then ct_GetImageFromFamily c p (last (p # rest)) else ct_GetImage c p (last (p # rest))) of
             Inl err \<Rightarrow> Fail (''failed to get image '' @ fmt @ '': '' @ err)
           | Inr i \<Rightarrow> Ok (im_Architecture i))
      | _ \<Rightarrow> Panic)"

definition keeps_architecture :: "string \<Rightarrow> string \<Rightarrow> bool" where
  "keeps_architecture arch a = (\<not> (arch = ''x86'' \<and> a = ''ARM64'') \<and> \<not> (arch = ''arm64'' \<and> a \<noteq> ''ARM64''))"

fun filter_images :: "client \<Rightarrow> string \<Rightarrow> string list \<Rightarrow> string list outcome" where
  "filter_images c arch [] = Ok []"
| "filter_images c arch (img # rest) =
     (if img = [] then filter_images c arch rest
      else case formatImageName img of Inl err \<Rightarrow> Fail err | Inr fmt \<Rightarrow>
        (case image_architecture c fmt of Fail err \<Rightarrow> Fail err | Panic \<Rightarrow> Panic | Hang \<Rightarrow> Hang | Ok a \<Rightarrow>
          (case filter_images c arch rest of
             Ok fs \<Rightarrow> Ok (if keeps_architecture arch a then fmt # fs else fs)
           | r \<Rightarrow> r)))"

definition filterByArchitecture :: "client \<Rightarrow> string \<Rightarrow> string \<Rightarrow> string outcome" where
  "filterByArchitecture c images arch =
     (if arch = [] then Ok images
      else (case filter_images c arch (Split (CHR '','') images) of
              Ok fs \<Rightarrow> Ok (Join '','' fs) | Fail err \<Rightarrow> Fail err | Panic \<Rightarrow> Panic | Hang \<Rightarrow> Hang))"

text \<open>The families of a project's images: an image has its family and its deprecation state, if any.\<close>

fun active_families :: "(string \<times> string option) list \<Rightarrow> string list \<Rightarrow> string list" where
  "active_families [] seen = []"
| "active_families ((family, state) # rest) seen =
     (if family \<noteq> [] \<and> family \<notin> set seen
        \<and> (state = None \<or> the state \<notin> {''DEPRECATED'', ''OBSOLETE'', ''DELETED''})
      then family # active_families rest (family # seen)
      else active_families rest seen)"

subsection \<open>Planning\<close>

definition packageNames :: "string list" where
  "packageNames =
     [''acceleratorconfig'', ''acceleratornccl'', ''acceleratorrdma'', ''acceleratorrdmabandwidth'',
      ''acceleratorrdmanetwork'', ''acceleratorrdmawriteimmediate'', ''cvm'', ''livemigrate'',
      ''suspendresume'', ''networkperf'', ''networkconfig'', ''networkinterfacenaming'',
      ''loadbalancer'', ''guestagent'', ''hostnamevalidation'', ''imageboot'', ''licensevalidation'',
      ''network'', ''security'', ''hotattach'', ''lssd'', ''u4c'', ''lvmvalidation'', ''disk'',
      ''shapevalidation'', ''packagemanager'', ''packageupgrade'', ''packagevalidation'',
      ''storageperf'', ''ssh'', ''winrm'', ''sql'', ''metadata'', ''oslogin'', ''mdsmtls'',
      ''mdsroutes'', ''windowscontainers'', ''vmspec'', ''pluginmanager'', ''rhel'', ''compatmanager'',
      ''nicsetup'', ''wsfc'']"

text \<open>A package of tests: its name and its setup.\<close>

type_synonym package = "string \<times> unit operation option"

text \<open>
  The outside of the manager, beside that of a run: the creation of the compute clients and of the
  storage client, the pages of images of a project, the workflows daisy creates, the compiler of
  expressions, the setups by the name of the package, the packages that are linked in, the engine's
  validation, the variable \<open>ARTIFACTS\<close> and the creation of the output file.
\<close>

record manager_env = manager_world +
  me_compute :: "string option"
  me_storage :: "string option"
  me_client :: client
  me_list :: "string \<Rightarrow> string + (string \<times> string option) list"
  me_new :: "nat \<Rightarrow> workflow"
  me_compile :: "string \<Rightarrow> string + (string \<Rightarrow> bool)"
  me_setup :: "string \<Rightarrow> unit operation"
  me_extra :: "package list"
  me_check :: "test_workflow \<Rightarrow> string option"
  me_artifacts :: string
  me_create :: "string \<Rightarrow> string option"

definition testPackages :: "manager_env \<Rightarrow> package list" where
  "testPackages e = map (\<lambda>n. (n, Some (me_setup e n))) packageNames @ me_extra e"

definition flag_regex :: "manager_env \<Rightarrow> string \<Rightarrow> string + (string \<Rightarrow> bool) option" where
  "flag_regex e flag = (if flag = [] then Inr None else map_sum id Some (me_compile e flag))"

definition accepts_package :: "(string \<Rightarrow> bool) option \<Rightarrow> (string \<Rightarrow> bool) option \<Rightarrow> package \<Rightarrow> bool" where
  "accepts_package filterRegex excludeRegex p =
     ((case filterRegex of None \<Rightarrow> True | Some m \<Rightarrow> m (fst p))
      \<and> (case excludeRegex of None \<Rightarrow> True | Some m \<Rightarrow> \<not> m (fst p))
      \<and> fst p \<noteq> [] \<and> snd p \<noteq> None)"

definition workflow_opts :: "manager_flags \<Rightarrow> string \<Rightarrow> string \<Rightarrow> string list \<Rightarrow> options" where
  "workflow_opts f name img rZones = \<lparr>op_ComputeEndpointOverride = mf_compute_endpoint_override f, op_Name = name,
     op_Image = img, op_Timeout = mf_timeout f, op_Project = mf_project f, op_Zone = rZones ! 0, op_Zones = rZones,
     op_ExcludeFilter = mf_exclude_discrete_tests f, op_X86Shape = mf_x86_shape f, op_ARM64Shape = mf_arm64_shape f,
     op_UseReservations = mf_use_reservations f, op_ReservationURLs = reservationURLSlice f,
     op_ReservationBound = mf_reservation_bound f, op_AcceleratorType = mf_accelerator_type f,
     op_AcceleratorCount = mf_accelerator_count f, op_ArgZoneOverride = mf_zone_override f,
     op_ExternalIP = mf_external_ip f, op_Network = mf_network f, op_Subnet = mf_subnet f,
     op_CustomStartupScript = mf_custom_startup_script f\<rparr>"

text \<open>One turn of the inner loop, for a package and an image; the state is the index of the zones and the tests.\<close>

definition add_test ::
  "manager_env \<Rightarrow> manager_flags \<Rightarrow> package \<times> string \<Rightarrow> int \<times> test_workflow list \<Rightarrow> (int \<times> test_workflow list) outcome" where
  "add_test e f pi st =
     (if snd pi = [] then Ok st
      else case formatImageName (snd pi) of Inl err \<Rightarrow> Fail err | Inr img \<Rightarrow>
        (case rotatedZones (mf_zones f) (mf_zone f) (fst st) of (rZones, idx) \<Rightarrow>
          (case NewTestWorkflow (me_client e) (me_new e (length (snd st))) (workflow_opts f (fst (fst pi)) img rZones) of
             Fail err \<Rightarrow> Fail (''Failed to create test workflow: '' @ err) | Panic \<Rightarrow> Panic | Hang \<Rightarrow> Hang
           | Ok t \<Rightarrow> (case the (snd (fst pi)) t of
                 (Ok _, t') \<Rightarrow> Ok (idx, snd st @ [t'])
               | (Fail err, _) \<Rightarrow> Fail (fst (fst pi) @ ''.TestSetup for '' @ img @ '' failed: '' @ err)
               | (Panic, _) \<Rightarrow> Panic | (Hang, _) \<Rightarrow> Hang))))"

fun add_tests ::
  "manager_env \<Rightarrow> manager_flags \<Rightarrow> (package \<times> string) list \<Rightarrow> int \<times> test_workflow list \<Rightarrow> (int \<times> test_workflow list) outcome" where
  "add_tests e f [] st = Ok st"
| "add_tests e f (pi # rest) st =
     (case add_test e f pi st of Ok st' \<Rightarrow> add_tests e f rest st' | Fail err \<Rightarrow> Fail err | Panic \<Rightarrow> Panic | Hang \<Rightarrow> Hang)"

text \<open>The images to test: those of the flag, or the families of a project, of one architecture if asked for.\<close>

definition listed_images :: "manager_env \<Rightarrow> manager_flags \<Rightarrow> string + string" where
  "listed_images e f =
     (if mf_all_image_families f = [] then Inr (mf_images f)
      else (case me_list e (mf_all_image_families f) of
              Inl err \<Rightarrow> Inl (''Failed Compute API call: '' @ err)
            | Inr items \<Rightarrow> Inr (Join '','' (map (\<lambda>family. ''projects/'' @ mf_all_image_families f @ ''/global/images/family/'' @ family)
                (active_families items [])))))"

definition choose_images :: "manager_env \<Rightarrow> manager_flags \<Rightarrow> string outcome" where
  "choose_images e f =
     (case listed_images e f of
        Inl err \<Rightarrow> Fail err
      | Inr images \<Rightarrow>
          if mf_architecture_type f = [] then Ok images
          else (case filterByArchitecture (me_client e) images (mf_architecture_type f) of
                  Fail err \<Rightarrow> Fail (''Failed to filter images by architecture: '' @ err) | r \<Rightarrow> r))"

definition pairs_to_test :: "package list \<Rightarrow> string \<Rightarrow> (package \<times> string) list" where
  "pairs_to_test packages images = concat (map (\<lambda>p. map (Pair p) (Split (CHR '','') images)) packages)"

definition plan_tests :: "manager_env \<Rightarrow> manager_flags \<Rightarrow> test_workflow list outcome" where
  "plan_tests e f0 =
     (case check_flags f0 of Some err \<Rightarrow> Fail err | None \<Rightarrow>
     (case flag_regex e (mf_filter f0) of Inl err \<Rightarrow> Fail (''-filter flag not valid:'' @ err) | Inr filterRegex \<Rightarrow>
     (case flag_regex e (mf_exclude f0) of Inl err \<Rightarrow> Fail (''-exclude flag not valid:'' @ err) | Inr excludeRegex \<Rightarrow>
     (let f = legacy_shapes f0
      in case me_compute e of Some err \<Rightarrow> Fail (''Could not create compute client:'' @ err) | None \<Rightarrow>
     (case choose_images e f of Fail err \<Rightarrow> Fail err | Panic \<Rightarrow> Panic | Hang \<Rightarrow> Hang | Ok images \<Rightarrow>
     (case add_tests e f (pairs_to_test (filter (accepts_package filterRegex excludeRegex) (testPackages e)) images) (-1, []) of
        Fail err \<Rightarrow> Fail err | Panic \<Rightarrow> Panic | Hang \<Rightarrow> Hang
      | Ok (_, tests) \<Rightarrow> if tests = [] then Fail ''No workflows to run!'' else Ok tests))))))"

subsection \<open>The program\<close>

text \<open>What the program has done when it ends without a fatal error: \<open>Reported\<close> names the file, the report and
  whether the exit status is a failure.\<close>

datatype manager_end = Printed "test_workflow list" | Validated "string option" | Reported string report bool

definition write_report :: "manager_env \<Rightarrow> manager_flags \<Rightarrow> report \<Rightarrow> manager_end outcome" where
  "write_report e f r =
     (let out = (if me_artifacts e \<noteq> [] then me_artifacts e @ ''/junit.xml'' else mf_out_path f)
      in case me_create e out of
           Some err \<Rightarrow> Fail (''failed to create output file: '' @ err)
         | None \<Rightarrow> Ok (Reported out r (exit_failing (mf_set_exit_status f) r)))"

definition manager_main :: "manager_env \<Rightarrow> manager_flags \<Rightarrow> manager_end outcome" where
  "manager_main e f =
     (case plan_tests e f of Fail err \<Rightarrow> Fail err | Panic \<Rightarrow> Panic | Hang \<Rightarrow> Hang | Ok tests \<Rightarrow>
     (case me_storage e of Some err \<Rightarrow> Fail (''failed to set up storage client: '' @ err) | None \<Rightarrow>
        let mw = manager_world.truncate e
        in if mf_print f
           then (case print_prepared mw tests (mf_project f) (mf_gcs_path f) (mf_local_path f) of
                   (Panic, _) \<Rightarrow> Panic | (Hang, _) \<Rightarrow> Hang | (_, ts) \<Rightarrow> Ok (Printed ts))
           else if mf_validate f
           then (case ValidateTests mw (me_check e) tests (mf_project f) (mf_gcs_path f) (mf_local_path f) of
                   Panic \<Rightarrow> Panic | Hang \<Rightarrow> Hang | Fail err \<Rightarrow> Ok (Validated (Some err)) | Ok _ \<Rightarrow> Ok (Validated None))
           else (case RunTests mw tests (mf_project f) (mf_gcs_path f) (mf_local_path f) (mf_parallel_count f) (testProjectsReal f) of
                   Fail err \<Rightarrow> Fail (''Failed to run tests: '' @ err) | Panic \<Rightarrow> Panic | Hang \<Rightarrow> Hang
                 | Ok r \<Rightarrow> write_report e f r)))"

end
