(* ===== verification/Manager_Guarantees.thy ===== *)
theory Manager_Guarantees
  imports Manager
begin

text \<open>
  What the manager promises: names of images, every package and image planned once with the zones in
  turn, and a report with one suite for each of them.
\<close>

subsection \<open>Zones in turn\<close>

text \<open>The zones of the k-th test, and the index before it.\<close>

definition zones_of :: "manager_flags \<Rightarrow> nat \<Rightarrow> string list" where
  "zones_of f k = (if mf_zones f = [] then [mf_zone f] else rotate k (mf_zones f))"

definition index_before :: "manager_flags \<Rightarrow> nat \<Rightarrow> int \<Rightarrow> bool" where
  "index_before f k idx \<longleftrightarrow> mf_zones f = [] \<or> (-1 \<le> idx \<and> idx < int (length (mf_zones f))
     \<and> (idx + 1) mod int (length (mf_zones f)) = int k mod int (length (mf_zones f)))"

lemma rotated_list:
  assumes "i < length zs"
  shows "map (\<lambda>j. zs ! nat (go_mod (int i + int j) (int (length zs)))) [0..<length zs] = rotate i zs"
proof (rule nth_equalityI)
  have "0 < length zs" using assms by linarith
  then have m: "nat (go_mod (int a) (int (length zs))) = a mod length zs" for a
    by (simp add: go_mod_nonneg del: length_greater_0_conv flip: zmod_int)
  show "map (\<lambda>j. zs ! nat (go_mod (int i + int j) (int (length zs)))) [0..<length zs] ! k = rotate i zs ! k"
    if "k < length (map (\<lambda>j. zs ! nat (go_mod (int i + int j) (int (length zs)))) [0..<length zs])" for k
    using that by (simp add: nth_rotate m flip: of_nat_add)
qed simp

lemma rotatedZones_turn:
  assumes "index_before f k idx" and "rotatedZones (mf_zones f) (mf_zone f) idx = (zs, idx')"
  shows "zs = zones_of f k \<and> index_before f (Suc k) idx'"
proof (cases "mf_zones f = []")
  case True
  then show ?thesis using assms by (simp add: rotatedZones_def zones_of_def index_before_def)
next
  case False
  define n where "n = length (mf_zones f)"
  have n: "0 < n" using False by (simp add: n_def)
  have i: "-1 \<le> idx" "idx < int n" "(idx + 1) mod int n = int k mod int n"
    using assms(1) False by (simp_all add: index_before_def n_def)
  have "(if int n \<le> idx + 1 then 0 else idx + 1) = (idx + 1) mod int n"
    using i(1,2) n by (cases "idx + 1 = int n") (simp_all add: mod_pos_pos_trivial)
  then have m: "(if int n \<le> idx + 1 then 0 else idx + 1) = int (k mod n)" using i(3) by (simp add: zmod_int)
  have r: "zs = rotate (k mod n) (mf_zones f)" "idx' = int (k mod n)"
    using assms(2) False m rotated_list [of "k mod n" "mf_zones f"] n
    by (auto simp: rotatedZones_def Let_def simp flip: n_def)
  have "(int (k mod n) + 1) mod int n = int (Suc k) mod int n"
    by (simp add: zmod_int mod_simps add.commute)
  then show ?thesis
    using r n rotate_conv_mod [of k "mf_zones f"] False by (simp add: zones_of_def index_before_def n_def)
qed

subsection \<open>Planning\<close>

text \<open>What is asked of the outside: the setups call fixtures, and daisy's workflows begin empty.\<close>

definition setups_ok :: "engine \<Rightarrow> manager_env \<Rightarrow> bool" where
  "setups_ok en e \<longleftrightarrow> engine_ok en \<and> (\<forall>p \<in> set (testPackages e). \<forall>su. snd p = Some su \<longrightarrow> calls_fixtures en su)
     \<and> (\<forall>i. wf_Steps (me_new e i) = [] \<and> wf_Dependencies (me_new e i) = [])"

definition named :: "test_workflow \<Rightarrow> bool" where
  "named t \<longleftrightarrow> op_Name (tw_opts t) = tw_Name t \<and> op_Image (tw_opts t) = tw_ImageURL t"

definition planned :: "engine \<Rightarrow> manager_flags \<Rightarrow> nat \<Rightarrow> package \<times> string \<Rightarrow> test_workflow \<Rightarrow> bool" where
  "planned en f k pi t \<longleftrightarrow> built_by en t \<and> named t \<and> tw_Name t = fst (fst pi)
     \<and> formatImageName (snd pi) = Inr (tw_ImageURL t) \<and> op_Zones (tw_opts t) = zones_of f k
     \<and> op_Zone (tw_opts t) = zones_of f k ! 0"

lemma zones_of_nonempty: "zones_of f k \<noteq> []"
  by (simp add: zones_of_def)

lemma add_test_planned:
  assumes "setups_ok en e" and "fst pi \<in> set (testPackages e)" and "snd (fst pi) \<noteq> None" and "snd pi \<noteq> []"
    and "index_before f (length ts) idx" and "add_test e f pi (idx, ts) = Ok (idx', ts')"
  shows "\<exists>t. ts' = ts @ [t] \<and> planned en f (length ts) pi t \<and> index_before f (Suc (length ts)) idx'"
proof -
  obtain su where su: "snd (fst pi) = Some su" using assms(3) by blast
  obtain img zs t0 u t where f: "formatImageName (snd pi) = Inr img"
      "rotatedZones (mf_zones f) (mf_zone f) idx = (zs, idx')"
      "NewTestWorkflow (me_client e) (me_new e (length ts)) (workflow_opts f (fst (fst pi)) img zs) = Ok t0"
      "su t0 = (Ok u, t)" "ts' = ts @ [t]"
    using assms(4,6) su by (auto simp: add_test_def split: sum.splits prod.splits outcome.splits)
  note z = rotatedZones_turn [OF assms(5) f(2)]
  have fresh: "wf_Steps (me_new e (length ts)) = [] \<and> wf_Dependencies (me_new e (length ts)) = []"
    and e: "engine_ok en" "calls_fixtures en su" using assms(1,2) su by (simp_all add: setups_ok_def)
  note n = NewTestWorkflow_Ok [OF f(3) fresh]
  obtain fs where fs: "\<forall>g \<in> set fs. fixture_call en g" "snd (su t0) = fold (\<lambda>g. g) fs t0"
    using e(2) unfolding calls_fixtures_def by blast
  have "built_by en t0" using n by (intro built_by.start) simp
  from fold_calls [OF e(1) fs(1) this] have "built_by en t" "identity t = identity t0" using fs(2) f(4) by simp_all
  moreover have "with_zones (workflow_opts f (fst (fst pi)) img zs) = workflow_opts f (fst (fst pi)) img zs"
    using z zones_of_nonempty by (simp add: with_zones_def workflow_opts_def)
  ultimately have "planned en f (length ts) pi t"
    using n f(1) z by (simp add: planned_def named_def identity_def workflow_opts_def)
  then show ?thesis using f(5) z by blast
qed

lemma add_tests_planned:
  assumes "setups_ok en e" and "\<forall>pi \<in> set pis. fst pi \<in> set (testPackages e) \<and> snd (fst pi) \<noteq> None"
    and "index_before f (length ts) idx" and "add_tests e f pis (idx, ts) = Ok (idx', ts')"
  shows "\<exists>us. ts' = ts @ us \<and> length us = length (filter (\<lambda>pi. snd pi \<noteq> []) pis)
    \<and> (\<forall>k < length us. planned en f (length ts + k) (filter (\<lambda>pi. snd pi \<noteq> []) pis ! k) (us ! k))"
  using assms(2-4)
proof (induction pis arbitrary: idx ts)
  case (Cons pi pis)
  obtain idx1 ts1 where a: "add_test e f pi (idx, ts) = Ok (idx1, ts1)" "add_tests e f pis (idx1, ts1) = Ok (idx', ts')"
    using Cons.prems(3) by (auto split: outcome.splits)
  show ?case
  proof (cases "snd pi = []")
    case True
    then show ?thesis using Cons a by (simp add: add_test_def)
  next
    case False
    obtain t where t: "ts1 = ts @ [t]" "planned en f (length ts) pi t" "index_before f (length ts1) idx1"
      using add_test_planned [OF assms(1) _ _ False Cons.prems(2) a(1)] Cons.prems(1) by auto
    obtain us where us: "ts' = ts1 @ us" "length us = length (filter (\<lambda>pi. snd pi \<noteq> []) pis)"
        "\<forall>k < length us. planned en f (length ts1 + k) (filter (\<lambda>pi. snd pi \<noteq> []) pis ! k) (us ! k)"
      using Cons.IH [OF _ t(3) a(2)] Cons.prems(1) by auto
    have "\<forall>k < length (t # us). planned en f (length ts + k) (filter (\<lambda>pi. snd pi \<noteq> []) (pi # pis) ! k) ((t # us) ! k)"
      using t us False by (auto simp: nth_Cons split: nat.split)
    then show ?thesis using t(1) us False by (intro exI [of _ "t # us"]) simp
  qed
qed simp

text \<open>The pairs of a package and an image that the flags ask for, in the order of the loops.\<close>

definition wanted_pairs :: "manager_env \<Rightarrow> manager_flags \<Rightarrow> (package \<times> string) list" where
  "wanted_pairs e f =
     (case (flag_regex e (mf_filter f), flag_regex e (mf_exclude f), choose_images e (legacy_shapes f)) of
        (Inr fr, Inr xr, Ok images) \<Rightarrow>
          filter (\<lambda>pi. snd pi \<noteq> []) (pairs_to_test (filter (accepts_package fr xr) (testPackages e)) images)
      | _ \<Rightarrow> [])"

lemma legacy_shapes_sel [simp]: "mf_zones (legacy_shapes f) = mf_zones f" "mf_zone (legacy_shapes f) = mf_zone f"
  by (simp_all add: legacy_shapes_def)

lemma plan_planned:
  assumes "setups_ok en e" and "plan_tests e f = Ok tests"
  shows "length tests = length (wanted_pairs e f) \<and> tests \<noteq> []
    \<and> (\<forall>k < length tests. planned en f k (wanted_pairs e f ! k) (tests ! k))"
proof -
  obtain fr xr images idx where p: "flag_regex e (mf_filter f) = Inr fr" "flag_regex e (mf_exclude f) = Inr xr"
      "choose_images e (legacy_shapes f) = Ok images" "tests \<noteq> []"
    and a: "add_tests e (legacy_shapes f) (pairs_to_test (filter (accepts_package fr xr) (testPackages e)) images) (-1, [])
      = Ok (idx, tests)"
    using assms(2) by (auto simp: plan_tests_def Let_def split: option.splits sum.splits outcome.splits if_splits)
  have w: "wanted_pairs e f = filter (\<lambda>pi. snd pi \<noteq> []) (pairs_to_test (filter (accepts_package fr xr) (testPackages e)) images)"
    using p by (simp add: wanted_pairs_def)
  have i: "index_before (legacy_shapes f) (length ([] :: test_workflow list)) (-1)" by (simp add: index_before_def)
  have ps: "\<forall>pi \<in> set (pairs_to_test (filter (accepts_package fr xr) (testPackages e)) images).
      fst pi \<in> set (testPackages e) \<and> snd (fst pi) \<noteq> None"
    by (auto simp: pairs_to_test_def accepts_package_def)
  from add_tests_planned [OF assms(1) ps i a] p(4) show ?thesis
    unfolding w [symmetric] by (auto simp: planned_def zones_of_def)
qed

text \<open>A plan covers what the flags ask for, in order and once each: when the setups only call fixtures, the
  k-th workflow of a successful plan is that of the k-th pair of a package the filters accept and an
  image that is not empty; it has the name of the package and the formatted name of the image, its
  zones are those of the flag turned by k, the first of them its own, and its graph is one that
  fixtures have built.\<close>

theorem every_pair_planned:
  assumes "setups_ok en e" and "plan_tests e f = Ok tests"
  shows "length tests = length (wanted_pairs e f) \<and> tests \<noteq> []
    \<and> (\<forall>k < length tests. planned en f k (wanted_pairs e f ! k) (tests ! k))"
  by (rule plan_planned [OF assms])

text \<open>How often a place comes first when a list is turned \<open>m\<close> times.\<close>

lemma turns:
  assumes "j < n"
  shows "length (filter (\<lambda>k. k mod n = j) [0..<m]) = m div n + (if j < m mod n then 1 else 0)"
proof (induction m)
  case (Suc m)
  have n: "0 < n" "m mod n < n" using assms by simp_all
  have "Suc m div n = (if Suc (m mod n) = n then Suc (m div n) else m div n)" by (simp add: div_Suc mod_Suc)
  moreover have "Suc m mod n = (if Suc (m mod n) = n then 0 else Suc (m mod n))" by (simp add: mod_Suc)
  ultimately show ?case using Suc n assms by auto
qed simp

text \<open>The zones share the tests evenly: with distinct zones in the flag, the number of planned tests that
  start in a zone differs from that of any other by at most one.\<close>

theorem zones_balanced:
  assumes "setups_ok en e" and "plan_tests e f = Ok tests" and "distinct (mf_zones f)" and "z \<in> set (mf_zones f)"
  shows "length tests div length (mf_zones f) \<le> length (filter (\<lambda>t. op_Zone (tw_opts t) = z) tests)
    \<and> length (filter (\<lambda>t. op_Zone (tw_opts t) = z) tests) \<le> length tests div length (mf_zones f) + 1"
proof -
  let ?n = "length (mf_zones f)"
  obtain j where j: "j < ?n" "mf_zones f ! j = z" using assms(4) by (auto simp: in_set_conv_nth)
  have "op_Zone (tw_opts (tests ! k)) = mf_zones f ! (k mod ?n)" if "k < length tests" for k
    using plan_planned [OF assms(1,2)] that j(1) by (auto simp: planned_def zones_of_def nth_rotate)
  then have "op_Zone (tw_opts (tests ! k)) = z \<longleftrightarrow> k mod ?n = j" if "k < length tests" for k
    using that j assms(3) nth_eq_iff_index_eq [OF assms(3), of "k mod ?n" j] by (metis mod_less_divisor gr_zeroI not_less0)
  then have "filter (\<lambda>k. op_Zone (tw_opts (tests ! k)) = z) [0..<length tests] = filter (\<lambda>k. k mod ?n = j) [0..<length tests]"
    by (intro filter_cong) auto
  moreover have "length (filter (\<lambda>t. op_Zone (tw_opts t) = z) tests)
      = length (filter (\<lambda>k. op_Zone (tw_opts (tests ! k)) = z) [0..<length tests])"
    by (metis (no_types, lifting) comp_apply filter_cong filter_map length_map map_nth)
  ultimately show ?thesis using turns [OF j(1), of "length tests"] by simp
qed

subsection \<open>A suite for every pair\<close>

text \<open>The worlds in which the tests run.\<close>

definition worlds_ok :: "(test_workflow \<Rightarrow> world) \<Rightarrow> bool" where
  "worlds_ok wld \<longleftrightarrow> (\<forall>t. engine_ok (ww_engine (wld t)) \<and> (\<forall>su. ww_setup (wld t) = Some su \<longrightarrow> calls_fixtures (ww_engine (wld t)) su)
     \<and> (\<forall>i. wf_Steps (ww_new (wld t) i) = [] \<and> wf_Dependencies (ww_new (wld t) i) = []))"

definition names :: "test_workflow \<Rightarrow> string \<times> string \<times> string \<times> string" where
  "names t = (tw_Name t, tw_ImageURL t, op_Name (tw_opts t), op_Image (tw_opts t))"

lemma label_names: "label t = label u \<Longrightarrow> names t = names u"
  by (simp add: label_def names_def)

lemma prepare_names:
  assumes "worlds_ok wld" and "named t" and "prepare_zone (wld u) i zone t = (ev, t', st)"
  shows "names t' = names t"
proof (cases "i = 0")
  case True
  then show ?thesis using assms(3) by (simp add: prepare_zone_def)
next
  case False
  have e: "engine_ok (ww_engine (wld u))" "\<forall>f. ww_setup (wld u) = Some f \<longrightarrow> calls_fixtures (ww_engine (wld u)) f"
    "wf_Steps (ww_new (wld u) i) = [] \<and> wf_Dependencies (ww_new (wld u) i) = []"
    using assms(1) by (auto simp: worlds_ok_def)
  show ?thesis
  proof (cases "recreateTestWorkflow (wld u) i t zone")
    case (Ok n)
    have "names n = names t"
      using recreate_Ok [OF e Ok] assms(2) by (simp add: label_def names_def named_def)
    moreover obtain r n' where f: "finalize (ww_engine (wld u)) (ww_gcsPrefix (wld u)) (ww_localPath (wld u)) (ww_order (wld u) i) n = (r, n')"
      by (cases "finalize (ww_engine (wld u)) (ww_gcsPrefix (wld u)) (ww_localPath (wld u)) (ww_order (wld u) i) n")
    moreover have "names n' = names n" by (rule label_names [OF finalize_label [OF e(1) f]])
    ultimately show ?thesis using assms(3) False Ok by (cases r) (simp_all add: prepare_zone_def)
  qed (use assms(3) False in \<open>simp_all add: prepare_zone_def\<close>)
qed

lemma retry_names:
  assumes "worlds_ok wld" and "named t" and "retry_zones (wld u) i zones t err = (ev, t', st)"
  shows "names t' = names t"
  using assms(2,3)
proof (induction zones arbitrary: i t err ev)
  case (Cons zone zones)
  obtain ev0 t0 st0 where p: "prepare_zone (wld u) i zone t = (ev0, t0, st0)" by (cases "prepare_zone (wld u) i zone t")
  have n: "names t0 = names t" by (rule prepare_names [OF assms(1) Cons.prems(1) p])
  then have "named t0" using Cons.prems(1) by (simp add: names_def named_def)
  then have "\<And>i err ev. retry_zones (wld u) i zones t0 err = (ev, t', st) \<Longrightarrow> names t' = names t" using Cons.IH n by metis
  then show ?case using Cons.prems(2) p n by (auto split: option.splits if_splits prod.splits)
qed simp

lemma result_names:
  assumes "worlds_ok wld" and "named t" and "result_of wld t r"
  shows "getTestSuiteName (tr_testWorkflow r) = getTestSuiteName t"
proof -
  obtain ev t' st where w: "runTestWorkflowWithRetries (wld t) t = (ev, t', st)"
    by (cases "runTestWorkflowWithRetries (wld t) t")
  then have "names t' = names t" using retry_names [OF assms(1,2)] by (simp add: runTestWorkflowWithRetries_def)
  moreover have "tr_testWorkflow r = t \<or> tr_testWorkflow r = t'"
    using assms(3) w by (auto simp: result_of_def runTestWorkflow_def Let_def new_result_def
        split: if_splits status.splits option.splits sum.splits)
  ultimately show ?thesis by (auto simp: names_def getTestSuiteName_def)
qed

text \<open>The pool of a finished run has a result for every test, and the report a suite for every result.\<close>

lemma finalize_all_names:
  assumes "engine_ok e" and "finalizeWorkflows e g l ts = (r, ts')"
  shows "map names ts' = map (names \<circ> fst) ts"
  using assms(2)
proof (induction ts arbitrary: r ts')
  case (Cons a ts)
  obtain t ord where a: "a = (t, ord)" by (cases a)
  obtain r0 t' where f: "finalize e g l ord t = (r0, t')" by (cases "finalize e g l ord t")
  have "names t' = names t" by (rule label_names [OF finalize_label [OF assms(1) f]])
  then show ?case using Cons f by (cases r0) (auto simp: a split: prod.splits)
qed simp

lemma finished_pool:
  assumes "(pool_step wld)\<^sup>*\<^sup>* (new_pool tests exclusive projects n) s" and "\<not> po_crashed s"
    and "length tests \<le> length (po_results s)"
  shows "\<exists>us. image_mset base (mset us) = image_mset base (mset tests) \<and> list_all2 (result_of wld) us (po_results s)"
proof -
  obtain us where "tests_accounted wld tests us s"
    using reach_pool_ok [OF assms(1)] assms(2) by (auto simp: pool_ok_def)
  then have us: "image_mset base (mset (po_queue s)) + sum_list (map busy (po_workers s)) + image_mset base (mset us)
      = image_mset base (mset tests)" "list_all2 (result_of wld) us (po_results s)"
    by (auto simp: tests_accounted_def)
  have "size (image_mset base (mset us)) = length (po_results s)" using list_all2_lengthD [OF us(2)] by simp
  then have "size (image_mset base (mset (po_queue s)) + sum_list (map busy (po_workers s))) + length (po_results s) = length tests"
    using arg_cong [OF us(1), of size] by simp
  then have "size (image_mset base (mset (po_queue s)) + sum_list (map busy (po_workers s))) = 0"
    using assms(3) by linarith
  then have "image_mset base (mset (po_queue s)) + sum_list (map busy (po_workers s)) = {#}"
    by (simp only: size_eq_0_iff_empty)
  then show ?thesis using us by (metis add.left_neutral)
qed

lemma suite_names:
  assumes "worlds_ok wld" and "\<forall>t \<in> set us. named t" and "list_all2 (result_of wld) us rs"
    and "collect report files localPath rs = Some r"
  shows "map ts_Name (rs_Suites r) = map getTestSuiteName us"
proof -
  have "None \<notin> set (map (parseResult report files localPath) rs)"
    and r: "rs_Suites r = map (the \<circ> parseResult report files localPath) rs"
    using assms(4) by (auto simp: collect_def Let_def split: if_splits)
  then have p: "\<exists>ts. parseResult report files localPath res = Some ts" if "res \<in> set rs" for res
  proof -
    have "parseResult report files localPath res \<in> set (map (parseResult report files localPath) rs)" using that by simp
    then show ?thesis using \<open>None \<notin> _\<close> by (metis not_None_eq)
  qed
  have "ts_Name (the (parseResult report files localPath res)) = getTestSuiteName (tr_testWorkflow res)" if m: "res \<in> set rs" for res
    using p [OF m] by (auto simp: parseResult_def Let_def classed_named split: option.splits)
  then have "map ts_Name (rs_Suites r) = map (getTestSuiteName \<circ> tr_testWorkflow) rs" by (simp add: r)
  also have "\<dots> = map getTestSuiteName us"
    using assms(3,2) by (induction rule: list_all2_induct) (simp_all add: result_names [OF assms(1)])
  finally show ?thesis .
qed

lemma run_suites:
  assumes "engine_ok (mw_engine mw)" and "\<forall>p. worlds_ok (mw_world mw p)" and "\<forall>t \<in> set tests. named t"
    and "RunTests mw tests project gcsPath localPath n testProjects = Ok r"
  shows "mset (map ts_Name (rs_Suites r)) = mset (map getTestSuiteName tests)
    \<and> (\<exists>results. collect (mw_report mw) (mw_files mw) localPath results = Some r)"
proof -
  obtain prefx fr tests' where f: "finalizeWorkflows (mw_engine mw) prefx localPath (map (\<lambda>(i, t). (t, mw_order mw i)) (enumerate 0 tests)) = (fr, tests')"
    and "\<exists>exclusive projects. let s = follow_schedule (mw_world mw prefx) (mw_schedule mw) (new_pool tests' exclusive projects n)
      in \<not> po_crashed s \<and> length tests \<le> length (po_results s) \<and> collect (mw_report mw) (mw_files mw) localPath (po_results s) = Some r"
    using assms(4) by (fastforce simp: RunTests_def Let_def not_less split: sum.splits option.splits prod.splits outcome.splits if_splits)
  then obtain exclusive projects s where
    s: "s = follow_schedule (mw_world mw prefx) (mw_schedule mw) (new_pool tests' exclusive projects n)"
      "\<not> po_crashed s" "length tests \<le> length (po_results s)" "collect (mw_report mw) (mw_files mw) localPath (po_results s) = Some r"
    by (auto simp: Let_def)
  have n: "map names tests' = map names tests"
  proof -
    have "map (names \<circ> snd) (enumerate 0 tests) = map names tests" by (simp flip: map_map)
    then show ?thesis using finalize_all_names [OF assms(1) f] by (simp add: o_def case_prod_beta)
  qed
  then have l: "length tests' = length tests" using map_eq_imp_length_eq by blast
  have "(pool_step (mw_world mw prefx))\<^sup>*\<^sup>* (new_pool tests' exclusive projects n) s" unfolding s(1) by (rule follow_reaches)
  from finished_pool [OF this s(2)] s(3) l obtain us where
    us: "image_mset base (mset us) = image_mset base (mset tests')" "list_all2 (result_of (mw_world mw prefx)) us (po_results s)"
    by auto
  have "names (base t) = names t" for t by (simp add: names_def assign_def)
  then have nb: "names \<circ> base = names" by (simp add: fun_eq_iff)
  have "image_mset (names \<circ> base) (mset us) = image_mset (names \<circ> base) (mset tests')"
    unfolding multiset.map_comp [symmetric] us(1) ..
  then have m: "mset (map names us) = mset (map names tests)" unfolding nb n [symmetric] by simp
  have "\<forall>t \<in> set us. named t"
  proof
    fix t assume "t \<in> set us"
    then have "names t \<in> names ` set tests" using mset_eq_setD [OF m] by auto
    then obtain t' where "t' \<in> set tests" "names t = names t'" by blast
    then show "named t" using assms(3) by (simp add: named_def names_def)
  qed
  from suite_names [OF _ this us(2) s(4)] assms(2) have "map ts_Name (rs_Suites r) = map getTestSuiteName us" by blast
  moreover have g: "getTestSuiteName = (\<lambda>(a, b, c, d). a @ ''-'' @ last (Split (CHR ''/'') b)) \<circ> names"
    by (simp add: fun_eq_iff names_def getTestSuiteName_def)
  then have "mset (map getTestSuiteName us) = image_mset (\<lambda>(a, b, c, d). a @ ''-'' @ last (Split (CHR ''/'') b)) (mset (map names us))"
    "mset (map getTestSuiteName tests) = image_mset (\<lambda>(a, b, c, d). a @ ''-'' @ last (Split (CHR ''/'') b)) (mset (map names tests))"
    by (simp_all add: multiset.map_comp g)
  ultimately show ?thesis using m s(4) by auto
qed

text \<open>The name of the suite of a pair.\<close>

definition pair_suite :: "package \<times> string \<Rightarrow> string" where
  "pair_suite pi = fst (fst pi) @ ''-''
     @ (case formatImageName (snd pi) of Inl err \<Rightarrow> [] | Inr img \<Rightarrow> last (Split (CHR ''/'') img))"

text \<open>C5: The report of the manager is complete: when the program ends with a report, there is one suite for each
  pair of a package the filters accept and an image that is not empty, under the name of the package
  and the last part of the image's path, and no other, however the tests were scheduled and retried;
  and unless told not to, the exit status is a failure exactly when a case of some suite has failed.\<close>

theorem report_covers_every_pair:
  assumes "setups_ok (mw_engine e) e" and "\<forall>p. worlds_ok (mw_world e p)"
    and "manager_main e f = Ok (Reported out r failing)"
  shows "mset (map ts_Name (rs_Suites r)) = mset (map pair_suite (wanted_pairs e f))
    \<and> (failing \<longleftrightarrow> mf_set_exit_status f \<and> rs_Failures r \<noteq> 0)"
proof -
  let ?mw = "manager_world.truncate e"
  obtain tests where p: "plan_tests e f = Ok tests"
    and run: "RunTests ?mw tests (mf_project f) (mf_gcs_path f) (mf_local_path f) (mf_parallel_count f) (testProjectsReal f) = Ok r"
    and w: "failing = exit_failing (mf_set_exit_status f) r"
    using assms(3) by (auto simp: manager_main_def write_report_def Let_def
        split: outcome.splits option.splits if_splits prod.splits)
  note pl = plan_planned [OF assms(1) p]
  have "\<forall>t \<in> set tests. named t" using pl by (auto simp: in_set_conv_nth planned_def)
  moreover have "engine_ok (mw_engine ?mw)" "\<forall>p. worlds_ok (mw_world ?mw p)"
    using assms(1,2) by (simp_all add: setups_ok_def manager_world.truncate_def)
  ultimately obtain results where s: "mset (map ts_Name (rs_Suites r)) = mset (map getTestSuiteName tests)"
      "collect (mw_report ?mw) (mw_files ?mw) (mf_local_path f) results = Some r"
    using run_suites [OF _ _ _ run] by blast
  have "getTestSuiteName (tests ! k) = pair_suite (wanted_pairs e f ! k)" if "k < length tests" for k
    using pl that by (auto simp: planned_def pair_suite_def getTestSuiteName_def)
  then have "map getTestSuiteName tests = map pair_suite (wanted_pairs e f)" using pl by (auto intro: nth_equalityI)
  moreover have "rs_Errors r = 0" using s(2) report_no_errors by blast
  ultimately show ?thesis using s(1) w by (auto simp: exit_failing_def)
qed

subsection \<open>An example\<close>

text \<open>Two packages on one image, in two zones.\<close>

definition example_manager_flags :: manager_flags where
  "example_manager_flags = default_manager_flags\<lparr>mf_project := ''p'', mf_zones := StringSlice_Set [] ''us-west1-a, us-west1-b'',
     mf_images := ''projects/p/global/images/debian-12,'', mf_filter := ''disk|ssh'', mf_local_path := ''/tests''\<rparr>"

definition example_manager_env :: manager_env where
  "example_manager_env = \<lparr>mw_engine = example_engine,
     mw_storage = \<lparr>sg_Buckets = [Inr ''p-cloud-test-outputs''], sg_Create = (\<lambda>b. None), sg_Now = ''2024''\<rparr>,
     mw_stagger = None, mw_random = (\<lambda>k n. 0), mw_order = (\<lambda>i. quota_pairs), mw_world = (\<lambda>p t. example_cloud_world\<lparr>ww_run := (\<lambda>i t. None)\<rparr>),
     mw_report = example_report, mw_files = example_listing, mw_schedule = [0, 0, 0],
     me_compute = None, me_storage = None, me_client = example_client, me_list = (\<lambda>p. Inr []),
     me_new = (\<lambda>i. (tw_wf example_workflow)\<lparr>wf_ID := ''run-'' @ utoa i\<rparr>), me_compile = (\<lambda>re. Inr (Contains re)),
     me_setup = (\<lambda>n. example_setup), me_extra = [], me_check = (\<lambda>t. None), me_artifacts = [], me_create = (\<lambda>f. None)\<rparr>"

lemma example_setups: "setups_ok example_engine example_manager_env" "\<forall>p. worlds_ok (mw_world example_manager_env p)"
  "mw_engine example_manager_env = example_engine"
  using example_engine_ok example_calls
  by (auto simp: setups_ok_def worlds_ok_def example_manager_env_def testPackages_def example_cloud_world_def example_workflow_def)

definition example_plan :: "test_workflow list" where
  "example_plan = (case plan_tests example_manager_env example_manager_flags of Ok ts \<Rightarrow> ts | _ \<Rightarrow> [])"

lemma example_planned: "plan_tests example_manager_env example_manager_flags = Ok example_plan"
proof -
  have "(case plan_tests example_manager_env example_manager_flags of Ok ts \<Rightarrow> True | _ \<Rightarrow> False)" by code_simp
  then show ?thesis by (simp add: example_plan_def split: outcome.splits)
qed

lemma example_wanted: "map pair_suite (wanted_pairs example_manager_env example_manager_flags) = [''disk-debian-12'', ''ssh-debian-12'']"
  by code_simp

theorem every_pair_planned_witness: "length example_plan = 2"
proof -
  have "length (wanted_pairs example_manager_env example_manager_flags) = 2"
    using arg_cong [OF example_wanted, of length] by simp
  then show ?thesis using every_pair_planned [OF example_setups(1) example_planned] by simp
qed

theorem zones_balanced_witness:
  "length (filter (\<lambda>t. op_Zone (tw_opts t) = ''us-west1-b'') example_plan) \<le> length example_plan div 2 + 1"
proof -
  have z: "mf_zones example_manager_flags = [''us-west1-a'', ''us-west1-b'']" by code_simp
  then have "distinct (mf_zones example_manager_flags)" "''us-west1-b'' \<in> set (mf_zones example_manager_flags)" "length (mf_zones example_manager_flags) = 2"
    by simp_all
  then show ?thesis using zones_balanced [OF example_setups(1) example_planned, of "''us-west1-b''"] by simp
qed

text \<open>One package, run by one worker.\<close>

definition example_run_flags :: manager_flags where
  "example_run_flags = example_manager_flags\<lparr>mf_filter := ''disk'', mf_parallel_count := 1\<rparr>"

text \<open>When the workers come to their end and the lists of tests can be read, there is a report.\<close>

lemma RunTests_reports:
  assumes "getGCSPrefix (mw_storage mw) project gcsPath = Inr prefx" and "mw_stagger mw = None"
    and "finalizeWorkflows (mw_engine mw) prefx localPath (map (\<lambda>(i, t). (t, mw_order mw i)) (enumerate 0 tests)) = (Ok (), tests')"
    and "project_order (mw_random mw) (length testProjects) testProjects (length tests) testProjects = Some projects"
    and "s = follow_schedule (mw_world mw prefx) (mw_schedule mw)
      (new_pool tests' (exclusive_order (mw_random mw) 0 (length testProjects) testProjects) projects n)"
    and "\<not> po_crashed s \<and> length tests \<le> length (po_results s)
      \<and> list_all (\<lambda>w. case w of Gone \<Rightarrow> True | _ \<Rightarrow> False) (po_workers s)"
    and "\<And>name. getTestsBySuiteName (mw_files mw) name localPath \<noteq> None"
  shows "\<exists>r. RunTests mw tests project gcsPath localPath n testProjects = Ok r"
proof -
  have "parseResult (mw_report mw) (mw_files mw) localPath res \<noteq> None" for res
    using assms(7) [of "tw_Name (tr_testWorkflow res)"] by (auto simp: parseResult_def Let_def)
  then have "collect (mw_report mw) (mw_files mw) localPath (po_results s) \<noteq> None"
    by (auto simp: collect_def Let_def) (metis not_None_eq)
  then obtain r where "collect (mw_report mw) (mw_files mw) localPath (po_results s) = Some r" by blast
  moreover have "\<not> list_ex (\<lambda>w. case w of Gone \<Rightarrow> False | _ \<Rightarrow> True) (po_workers s)"
    using assms(6) by (auto simp: list_ex_iff list_all_iff split: worker.splits)
  ultimately show ?thesis
    using assms(1-4,6) unfolding RunTests_def Let_def assms(5) [symmetric] by (simp add: assms(5) [symmetric])
qed

definition example_run_plan :: "test_workflow list" where
  "example_run_plan = (case plan_tests example_manager_env example_run_flags of Ok ts \<Rightarrow> ts | _ \<Rightarrow> [])"

definition example_finalized :: "unit outcome \<times> test_workflow list" where
  "example_finalized = finalizeWorkflows example_engine ''gs://p-cloud-test-outputs/2024'' ''/tests''
     (map (\<lambda>(i, t). (t, quota_pairs)) (enumerate 0 example_run_plan))"

definition example_run_end :: pool where
  "example_run_end = follow_schedule (\<lambda>t. example_cloud_world\<lparr>ww_run := (\<lambda>i t. None)\<rparr>) [0, 0, 0]
     (new_pool (snd example_finalized) [''p''] [''p''] 1)"

lemma example_run_stages:
  "case plan_tests example_manager_env example_run_flags of Ok ts \<Rightarrow> True | _ \<Rightarrow> False"
  "case fst example_finalized of Ok u \<Rightarrow> True | _ \<Rightarrow> False"
  "\<not> po_crashed example_run_end \<and> length example_run_plan \<le> length (po_results example_run_end)
     \<and> list_all (\<lambda>w. case w of Gone \<Rightarrow> True | _ \<Rightarrow> False) (po_workers example_run_end)"
  by code_simp+

lemma example_run_wanted: "map pair_suite (wanted_pairs example_manager_env example_run_flags) = [''disk-debian-12'']"
  by code_simp

lemma example_run:
  "\<exists>out r failing. manager_main example_manager_env example_run_flags = Ok (Reported out r failing)"
proof -
  let ?mw = "manager_world.truncate example_manager_env"
  have e: "mw_storage ?mw = mw_storage example_manager_env" "mw_stagger ?mw = None" "mw_engine ?mw = example_engine"
    "mw_order ?mw = (\<lambda>i. quota_pairs)" "mw_random ?mw = (\<lambda>k n. 0)" "mw_schedule ?mw = [0, 0, 0]" "mw_files ?mw = example_listing"
    "mw_world ?mw p = (\<lambda>t. example_cloud_world\<lparr>ww_run := (\<lambda>i t. None)\<rparr>)" for p
    by (simp_all add: manager_world.truncate_def example_manager_env_def)
  have f: "mf_project example_run_flags = ''p''" "mf_gcs_path example_run_flags = []" "mf_local_path example_run_flags = ''/tests''"
    "mf_parallel_count example_run_flags = 1" "testProjectsReal example_run_flags = [''p'']"
    "\<not> mf_print example_run_flags" "\<not> mf_validate example_run_flags"
    by (simp_all add: example_run_flags_def example_manager_flags_def default_manager_flags_def testProjectsReal_def)
  have p: "plan_tests example_manager_env example_run_flags = Ok example_run_plan"
    using example_run_stages(1) by (simp add: example_run_plan_def split: outcome.splits)
  have g: "getGCSPrefix (mw_storage ?mw) ''p'' [] = Inr ''gs://p-cloud-test-outputs/2024''" unfolding e by code_simp
  have "fst example_finalized = Ok ()" using example_run_stages(2) by (auto split: outcome.splits)
  then have z: "finalizeWorkflows (mw_engine ?mw) ''gs://p-cloud-test-outputs/2024'' ''/tests''
      (map (\<lambda>(i, t). (t, mw_order ?mw i)) (enumerate 0 example_run_plan)) = (Ok (), snd example_finalized)"
    by (simp only: e example_finalized_def [symmetric]) (simp add: prod_eq_iff)
  have l: "length example_run_plan = 1"
    using plan_planned [OF example_setups(1) p] arg_cong [OF example_run_wanted, of length] by simp
  have o: "project_order (mw_random ?mw) (length [''p'']) [''p''] (length example_run_plan) [''p''] = Some [''p'']"
    unfolding e l by code_simp
  have s: "example_run_end = follow_schedule (mw_world ?mw ''gs://p-cloud-test-outputs/2024'') (mw_schedule ?mw)
      (new_pool (snd example_finalized) (exclusive_order (mw_random ?mw) 0 (length [''p'']) [''p'']) [''p''] 1)"
    unfolding e example_run_end_def by (simp add: draw_def)
  have t: "getTestsBySuiteName (mw_files ?mw) name ''/tests'' \<noteq> None" for name
    unfolding e using example_tests by simp
  obtain r where "RunTests ?mw example_run_plan ''p'' [] ''/tests'' 1 [''p''] = Ok r"
    using RunTests_reports [OF g e(2) z o s example_run_stages(3) t] by blast
  moreover have "me_storage example_manager_env = None" by (simp add: example_manager_env_def)
  ultimately have "manager_main example_manager_env example_run_flags = write_report example_manager_env example_run_flags r"
    using p f by (simp add: manager_main_def Let_def)
  moreover have "me_create example_manager_env out = None" for out by (simp add: example_manager_env_def)
  ultimately show ?thesis by (simp add: write_report_def Let_def)
qed

theorem report_covers_every_pair_witness:
  "\<exists>out r failing. manager_main example_manager_env example_run_flags = Ok (Reported out r failing)
     \<and> mset (map ts_Name (rs_Suites r)) = {#''disk-debian-12''#}"
proof -
  obtain out r failing where m: "manager_main example_manager_env example_run_flags = Ok (Reported out r failing)"
    using example_run by blast
  from report_covers_every_pair [OF example_setups(1) [folded example_setups(3)] example_setups(2) m] m
  show ?thesis unfolding example_run_wanted by auto
qed

end
