(* ===== verification/Manager_Images.thy ===== *)
theory Manager_Images
  imports Manager
begin

text \<open>
  The images the manager tests: formatted names stay as they are when formatted again, and filtering by
  architecture keeps exactly the images of that architecture.
\<close>

lemma project_known: "image_project img = [] \<or> image_project img \<in> snd ` set projectMap"
  by (auto simp: image_project_def lookup0_def image_iff split: option.splits dest!: map_of_SomeD)
    (metis snd_conv)

lemma projects_plain: "p \<in> set projectMap \<Longrightarrow> CHR '','' \<notin> set (snd p)"
proof -
  have "list_all (\<lambda>p. CHR '','' \<notin> set (snd p)) projectMap" by code_simp
  then show "p \<in> set projectMap \<Longrightarrow> CHR '','' \<notin> set (snd p)" by (simp add: list_all_iff)
qed

lemma formatted_forms:
  assumes "formatImageName img = Inr fmt"
  shows "(Contains img ''/'' \<and> fmt = img)
    \<or> (\<exists>project. project \<in> snd ` set projectMap \<and> (fmt = ''projects/'' @ project @ ''/global/images/'' @ img
         \<or> fmt = ''projects/'' @ project @ ''/global/images/family/'' @ img))"
  using assms project_known [of img] by (auto simp: formatImageName_def Let_def split: if_splits)

lemma formatted_again: "formatImageName img = Inr fmt \<Longrightarrow> formatImageName fmt = Inr fmt"
proof -
  assume f: "formatImageName img = Inr fmt"
  have "Contains (''projects/'' @ x) ''/''" for x
    unfolding Contains_iff by (rule exI [of _ "''projects''"]) simp
  then have "Contains fmt ''/''" using formatted_forms [OF f] by auto
  then show ?thesis by (simp add: formatImageName_def)
qed

lemma formatted_nonempty: "formatImageName img = Inr fmt \<Longrightarrow> fmt \<noteq> []"
  using formatted_forms [of img fmt] by auto

lemma formatted_commas: "formatImageName img = Inr fmt \<Longrightarrow> CHR '','' \<notin> set img \<Longrightarrow> CHR '','' \<notin> set fmt"
  using formatted_forms [of img fmt] projects_plain by auto

text \<open>Whether an image is of the architecture asked for.\<close>

definition of_architecture :: "client \<Rightarrow> string \<Rightarrow> string \<Rightarrow> bool" where
  "of_architecture c arch fmt \<longleftrightarrow> (\<exists>a. image_architecture c fmt = Ok a \<and> keeps_architecture arch a)"

lemma filter_images_exact:
  assumes "filter_images c arch imgs = Ok fs"
  shows "fs = filter (of_architecture c arch) (map (projr \<circ> formatImageName) (filter (\<lambda>i. i \<noteq> []) imgs))
    \<and> (\<forall>fmt \<in> set fs. \<exists>img \<in> set imgs. formatImageName img = Inr fmt)"
  using assms
proof (induction imgs arbitrary: fs)
  case (Cons img imgs)
  show ?case
  proof (cases "img = []")
    case True
    then show ?thesis using Cons by auto
  next
    case False
    obtain fmt a fs' where f: "formatImageName img = Inr fmt" "image_architecture c fmt = Ok a"
        "filter_images c arch imgs = Ok fs'" "fs = (if keeps_architecture arch a then fmt # fs' else fs')"
      using Cons.prems False by (auto split: sum.splits outcome.splits)
    have "of_architecture c arch fmt = keeps_architecture arch a" using f(2) by (simp add: of_architecture_def)
    then show ?thesis using Cons.IH [OF f(3)] f(1,4) False by auto
  qed
qed simp

lemma image_error: "image_project img = [] \<longleftrightarrow> (\<forall>kr \<in> set imageKeys. \<not> key_applies img kr)"
proof -
  have "list_all (\<lambda>kr. lookup0 projectMap [] (fst kr) \<noteq> []) imageKeys" by code_simp
  then have project: "\<forall>kr \<in> set imageKeys. lookup0 projectMap [] (fst kr) \<noteq> []" by (simp add: list_all_iff)
  have applies: "kr \<in> set imageKeys \<and> key_applies img kr" if "find (key_applies img) imageKeys = Some kr" for kr
    using that unfolding find_Some_iff by (metis nth_mem)
  show ?thesis
  proof (cases "find (key_applies img) imageKeys")
    case None
    then have "\<forall>kr \<in> set imageKeys. \<not> key_applies img kr" unfolding find_None_iff by blast
    then show ?thesis by (simp add: image_project_def None)
  next
    case (Some kr)
    then have "image_project img = lookup0 projectMap [] (fst kr)" by (simp add: image_project_def)
    then show ?thesis using applies [OF Some] project by metis
  qed
qed

text \<open>The manager's names of images: one with a slash is taken as it is, any other belongs to the project of the
  first key that applies, and only when none does is it refused; a name formatted once is not changed
  again; and the filter by architecture, when it succeeds, leaves exactly the images of that
  architecture, in order and under formatted names that the planning does not change, so that x86 and
  arm64 together test each image once.\<close>

theorem architecture_filter_exact:
  assumes "filterByArchitecture c images arch = Ok out" and "arch = ''x86'' \<or> arch = ''arm64''"
  shows "filter (\<lambda>i. i \<noteq> []) (Split (CHR '','') out)
      = filter (of_architecture c arch) (map (projr \<circ> formatImageName) (filter (\<lambda>i. i \<noteq> []) (Split (CHR '','') images)))
    \<and> (\<forall>fmt \<in> set (Split (CHR '','') out). fmt \<noteq> [] \<longrightarrow> formatImageName fmt = Inr fmt)
    \<and> (\<forall>img. (\<exists>err. formatImageName img = Inl err)
         \<longleftrightarrow> \<not> Contains img ''/'' \<and> (\<forall>kr \<in> set imageKeys. \<not> key_applies img kr))
    \<and> (\<forall>fmt a. image_architecture c fmt = Ok a \<longrightarrow> of_architecture c ''x86'' fmt = (\<not> of_architecture c ''arm64'' fmt))"
proof -
  obtain fs where fs: "filter_images c arch (Split (CHR '','') images) = Ok fs" "out = Join '','' fs"
    using assms by (auto simp: filterByArchitecture_def split: outcome.splits)
  note ex = filter_images_exact [OF fs(1)]
  have good: "\<forall>fmt \<in> set fs. CHR '','' \<notin> set fmt \<and> fmt \<noteq> [] \<and> formatImageName fmt = Inr fmt"
    using ex formatted_commas Split_parts formatted_nonempty formatted_again by metis
  have split: "filter (\<lambda>i. i \<noteq> []) (Split (CHR '','') out) = fs"
  proof (cases "fs = []")
    case True
    then show ?thesis using fs(2) by simp
  next
    case False
    then have "Split (CHR '','') out = fs" using Split_Join [of fs "CHR '',''"] good fs(2) by simp
    then show ?thesis using good by (simp add: filter_id_conv)
  qed
  moreover have "formatImageName fmt = Inr fmt" if "fmt \<in> set (Split (CHR '','') out)" "fmt \<noteq> []" for fmt
  proof -
    have "fmt \<in> set fs" using that by (simp flip: split)
    then show ?thesis using good by simp
  qed
  moreover have "(\<exists>err. formatImageName img = Inl err)
      \<longleftrightarrow> \<not> Contains img ''/'' \<and> (\<forall>kr \<in> set imageKeys. \<not> key_applies img kr)" for img
    unfolding image_error [symmetric] by (auto simp: formatImageName_def Let_def)
  ultimately show ?thesis using ex by (auto simp: of_architecture_def keeps_architecture_def)
qed

theorem architecture_filter_exact_witness:
  "filter (\<lambda>i. i \<noteq> []) (Split (CHR '','') ''projects/debian-cloud/global/images/debian-12-v2024,projects/p/global/images/x'')
     = [''projects/debian-cloud/global/images/debian-12-v2024'', ''projects/p/global/images/x'']"
proof -
  have f: "filterByArchitecture example_client ''debian-12-v2024,,projects/p/global/images/x'' ''x86''
      = Ok ''projects/debian-cloud/global/images/debian-12-v2024,projects/p/global/images/x''"
    by code_simp
  have "filter (of_architecture example_client ''x86'')
      (map (projr \<circ> formatImageName) (filter (\<lambda>i. i \<noteq> []) (Split (CHR '','') ''debian-12-v2024,,projects/p/global/images/x'')))
      = [''projects/debian-cloud/global/images/debian-12-v2024'', ''projects/p/global/images/x'']"
  proof -
    have "map (projr \<circ> formatImageName) (filter (\<lambda>i. i \<noteq> []) (Split (CHR '','') ''debian-12-v2024,,projects/p/global/images/x''))
        = [''projects/debian-cloud/global/images/debian-12-v2024'', ''projects/p/global/images/x'']" by code_simp
    moreover have "image_architecture example_client ''projects/debian-cloud/global/images/debian-12-v2024'' = Ok ''X86_64''"
      "image_architecture example_client ''projects/p/global/images/x'' = Ok ''X86_64''" by code_simp+
    ultimately show ?thesis by (simp add: of_architecture_def keeps_architecture_def)
  qed
  note images = this
  have "''x86'' = ''x86'' \<or> ''x86'' = ''arm64''" by simp
  from conjunct1 [OF architecture_filter_exact [OF f this]] show ?thesis unfolding images .
qed

end
