(* ===== verification/Network_Utils.thy ===== *)
theory Network_Utils
  imports Go_Strconv Go_Float
begin

text \<open>
  \<open>utils/networkutils/networkutils.go\<close>: CPU sets in the kernel's two formats, kernel versions and
  the expansion of NIC types.
\<close>

unbundle bit_operations_syntax

subsection \<open>CPU sets\<close>

text \<open>The big integer of a \<open>Cpuset\<close>, \<open>None\<close> for the nil pointer of the empty set.\<close>

type_synonym cpuset = "int option"

datatype cpuset_error =
    BadMask | BadRange | BadStart | BadEnd | BadCpu | NonMonotonic
  | NegativeBit  \<comment> \<open>the panic of \<open>SetBit\<close>\<close>

definition hex_digit :: "char \<Rightarrow> int option" where
  "hex_digit c =
     (if CHR ''0'' \<le> c \<and> c \<le> CHR ''9'' then Some (int (of_char c) - 48)
      else if CHR ''a'' \<le> c \<and> c \<le> CHR ''f'' then Some (int (of_char c) - 87)
      else if CHR ''A'' \<le> c \<and> c \<le> CHR ''F'' then Some (int (of_char c) - 55)
      else None)"

fun hex_digits :: "int \<Rightarrow> string \<Rightarrow> int option" where
  "hex_digits acc [] = Some acc"
| "hex_digits acc (c # s) =
     (case hex_digit c of None \<Rightarrow> None | Some d \<Rightarrow> hex_digits (16 * acc + d) s)"

text \<open>\<open>big.Int.SetString\<close> with base 16: a sign is allowed, separators are not.\<close>

definition big_SetString16 :: "string \<Rightarrow> int option" where
  "big_SetString16 s =
     (let (neg, ds) = (case s of
                         [] \<Rightarrow> (False, [])
                       | c # r \<Rightarrow> if c = CHR ''-'' then (True, r)
                                  else if c = CHR ''+'' then (False, r) else (False, s))
      in if ds = [] then None
         else map_option (\<lambda>v. if neg then - v else v) (hex_digits 0 ds))"

definition ParseCpusetMask :: "string \<Rightarrow> cpuset_error + cpuset" where
  "ParseCpusetMask maskStr =
     (let m = filter (\<lambda>c. c \<noteq> CHR '','') (TrimSpace maskStr)
      in if m = [] then Inr None
         else (case big_SetString16 m of None \<Rightarrow> Inl BadMask | Some v \<Rightarrow> Inr (Some v)))"

definition parse_range :: "string \<Rightarrow> cpuset_error + int \<times> int" where
  "parse_range r =
     (if CHR ''-'' \<in> set r then
        (case Split (CHR ''-'') r of
           [a, b] \<Rightarrow>
             (case Atoi a of
                None \<Rightarrow> Inl BadStart
              | Some s \<Rightarrow> (case Atoi b of None \<Rightarrow> Inl BadEnd | Some e \<Rightarrow> Inr (s, e)))
         | _ \<Rightarrow> Inl BadRange)
      else (case Atoi r of None \<Rightarrow> Inl BadCpu | Some s \<Rightarrow> Inr (s, s)))"

definition set_cpu :: "int \<Rightarrow> int \<Rightarrow> cpuset_error + int" where
  "set_cpu cpu cpus = (if cpu < 0 then Inl NegativeBit else Inr (set_bit (nat cpu) cpus))"

definition add_range :: "string \<Rightarrow> int \<Rightarrow> cpuset_error + int" where
  "add_range cpuRange cpus =
     (let r = TrimSpace cpuRange
      in if r = [] then Inr cpus
         else (case parse_range r of
                 Inl e \<Rightarrow> Inl e
               | Inr (s, e) \<Rightarrow>
                   if e < s then Inl NonMonotonic else fold_err set_cpu [s..e] cpus))"

definition ParseCpusetList :: "string \<Rightarrow> cpuset_error + cpuset" where
  "ParseCpusetList listStr =
     (if listStr = [] then Inr None
      else map_sum id Some (fold_err add_range (Split (CHR '','') listStr) 0))"

definition BitLen :: "int \<Rightarrow> nat" where
  "BitLen x = bitlen (nat \<bar>x\<bar>)"

definition sorted_cpus :: "int \<Rightarrow> nat list" where
  "sorted_cpus x = filter (bit x) [0..<BitLen x]"

definition add_cpu :: "(nat \<times> nat) list \<Rightarrow> nat \<Rightarrow> (nat \<times> nat) list" where
  "add_cpu ranges c =
     (if c = snd (last ranges) + 1 then butlast ranges @ [(fst (last ranges), c)]
      else ranges @ [(c, c)])"

definition range_string :: "nat \<times> nat \<Rightarrow> string" where
  "range_string r =
     (if fst r = snd r then itoa (int (fst r))
      else itoa (int (fst r)) @ ''-'' @ itoa (int (snd r)))"

text \<open>\<open>None\<close>: the first of no CPUs is asked for, which panics.\<close>

definition ListString :: "cpuset \<Rightarrow> string option" where
  "ListString c =
     (case c of
        None \<Rightarrow> Some []
      | Some x \<Rightarrow>
          if BitLen x = 0 then Some []
          else (case sorted_cpus x of
                  [] \<Rightarrow> None
                | b # bs \<Rightarrow> Some (Join '','' (map range_string (foldl add_cpu [(b, b)] bs)))))"

subsection \<open>The list format can be read back\<close>

lemma TrimSpace_id: "(\<And>c. c \<in> set s \<Longrightarrow> \<not> is_space c) \<Longrightarrow> TrimSpace s = s"
  by (simp add: TrimSpace_def dropWhile_eq_self_iff)
     (metis dropWhile_eq_self_iff hd_in_set list.set_sel(1) rev_rev_ident set_rev)

definition digit :: "char \<Rightarrow> bool" where
  "digit c \<longleftrightarrow> CHR ''0'' \<le> c \<and> c \<le> CHR ''9''"

lemma digit_char_digit: "d < 10 \<Longrightarrow> digit (digit_char d)"
  using digit_val_char [of d] by (auto simp: digit_val_def digit_def split: if_splits)

lemma utoa_digits: "c \<in> set (utoa n) \<Longrightarrow> digit c"
proof (induction n rule: utoa.induct)
  case (1 n)
  then show ?case by (subst (asm) utoa.simps) (auto simp: digit_char_digit split: if_splits)
qed

lemma digit_facts: "digit c \<Longrightarrow> \<not> is_space c \<and> c \<noteq> CHR '','' \<and> c \<noteq> CHR ''-'' \<and> c \<noteq> CHR '':''"
  by (auto simp: digit_def is_space_def less_eq_char_def)

lemma itoa_nat: "itoa (int n) = utoa n"
  by (simp add: itoa_def)

lemma range_string_chars:
  assumes "c \<in> set (range_string r)"
  shows "\<not> is_space c \<and> c \<noteq> CHR '',''"
proof -
  have "digit c \<or> c = CHR ''-''"
    using assms by (auto simp: range_string_def itoa_nat dest: utoa_digits split: if_splits)
  then show ?thesis using digit_facts [of c] by (auto simp: is_space_def)
qed

lemma parse_range_string:
  assumes "fst r \<le> snd r" and "snd r < 2 ^ 63"
  shows "parse_range (range_string r) = Inr (int (fst r), int (snd r))"
proof -
  have a: "Atoi (utoa n) = Some (int n)" if "n < 2 ^ 63" for n
    using Atoi_itoa [of "int n"] that by (simp add: itoa_nat)
  have no: "CHR ''-'' \<notin> set (utoa n)" for n using utoa_digits digit_facts by blast
  have s: "Split (CHR ''-'') (utoa m @ ''-'' @ utoa n) = [utoa m, utoa n]" for m n
    using Split_Join [of "[utoa m, utoa n]" "CHR ''-''"] no by simp
  show ?thesis
    using assms s [of "fst r" "snd r"] a [of "fst r"] a [of "snd r"] no
    by (auto simp: parse_range_def range_string_def itoa_nat)
qed

lemma fold_set_cpu:
  "fold_err set_cpu [int a..int b] x = Inr (fold set_bit [a..<Suc b] x)"
proof -
  have *: "fold_err set_cpu (map int ns) x = Inr (fold set_bit ns x)" for ns
    by (induction ns arbitrary: x) (simp_all add: set_cpu_def)
  have "[int a..int b] = map int [a..<Suc b]"
    by (rule sorted_distinct_set_unique)
       (simp_all add: sorted_map distinct_map image_int_atLeastLessThan atLeastLessThanSuc_atLeastAtMost
          image_int_atLeastAtMost del: upt_Suc)
  then show ?thesis using * by metis
qed


text \<open>The ranges collected so far, read as the CPUs they stand for.\<close>

definition range_cpus :: "(nat \<times> nat) list \<Rightarrow> nat list" where
  "range_cpus rs = concat (map (\<lambda>r. [fst r..<Suc (snd r)]) rs)"

definition ranges_ok :: "(nat \<times> nat) list \<Rightarrow> bool" where
  "ranges_ok rs \<longleftrightarrow> rs \<noteq> [] \<and> (\<forall>r \<in> set rs. fst r \<le> snd r)"

lemma add_cpu_ranges:
  assumes "ranges_ok rs"
  shows "ranges_ok (add_cpu rs c) \<and> range_cpus (add_cpu rs c) = range_cpus rs @ [c]"
proof -
  obtain init a b where rs: "rs = init @ [(a, b)]"
    using assms by (cases rs rule: rev_cases) (auto simp: ranges_ok_def)
  then show ?thesis using assms
    by (auto simp: add_cpu_def ranges_ok_def range_cpus_def)
qed

lemma foldl_add_cpu:
  "ranges_ok rs \<Longrightarrow> ranges_ok (foldl add_cpu rs bs) \<and> range_cpus (foldl add_cpu rs bs) = range_cpus rs @ bs"
  by (induction bs arbitrary: rs) (simp_all add: add_cpu_ranges)

lemma fold_add_range:
  assumes "\<forall>r \<in> set rs. fst r \<le> snd r \<and> snd r < 2 ^ 63"
  shows "fold_err add_range (map range_string rs) x = Inr (fold set_bit (range_cpus rs) x)"
  using assms
proof (induction rs arbitrary: x)
  case (Cons r rs)
  have t: "TrimSpace (range_string r) = range_string r"
    by (rule TrimSpace_id) (use range_string_chars in blast)
  have n: "range_string r \<noteq> []" by (simp add: range_string_def itoa_nat utoa_nonempty)
  have p: "parse_range (range_string r) = Inr (int (fst r), int (snd r))"
    using Cons.prems by (intro parse_range_string) auto
  have "add_range (range_string r) x = Inr (fold set_bit [fst r..<Suc (snd r)] x)"
    using Cons.prems t n p by (simp add: add_range_def Let_def fold_set_cpu del: upt_Suc)
  then show ?case using Cons by (simp add: range_cpus_def del: upt_Suc)
qed (simp add: range_cpus_def)

lemma bit_fold_set_bit: "bit (fold set_bit ns x) i \<longleftrightarrow> i \<in> set ns \<or> bit x i" for x :: int
  by (induction ns arbitrary: x) (auto simp: bit_simps)

lemma less_BitLen: "n < 2 ^ bitlen n"
  by (induction n rule: bitlen.induct) (subst bitlen.simps, auto)

lemma sorted_cpus_bits:
  assumes "0 \<le> x"
  shows "set (sorted_cpus x) = {i. bit x i}"
proof -
  have "i < BitLen x" if "bit x i" for i
  proof (rule ccontr)
    assume "\<not> i < BitLen x"
    then have "(2::nat) ^ bitlen (nat x) \<le> 2 ^ i" using assms by (simp add: BitLen_def)
    then have "nat x < 2 ^ i" using less_BitLen [of "nat x"] by linarith
    then have "x < 2 ^ i" using assms by (metis nat_less_iff of_nat_numeral of_nat_power)
    then have "x div 2 ^ i = 0" using assms by simp
    then show False using that by (simp add: bit_iff_odd)
  qed
  then show ?thesis by (auto simp: sorted_cpus_def)
qed

lemma bitlen_zero: "bitlen n = 0 \<longleftrightarrow> n = 0"
  by (subst bitlen.simps) simp

text \<open>Writing a CPU set in the list format and reading it back gives the same set: \<open>ListString\<close> returns
  for every set of CPUs whose numbers fit an int, and \<open>ParseCpusetList\<close> of what it returns is the
  set again (the empty set comes back as the nil pointer).\<close>

theorem cpuset_list_roundtrip:
  assumes "0 \<le> x" and "\<forall>i. bit x i \<longrightarrow> i < 2 ^ 63"
  shows "\<exists>s. ListString (Some x) = Some s
    \<and> ParseCpusetList s = Inr (if x = 0 then None else Some x)"
proof (cases "x = 0")
  case True
  then show ?thesis by (simp add: ListString_def BitLen_def bitlen.simps [of 0] ParseCpusetList_def)
next
  case False
  have l: "BitLen x \<noteq> 0" using False by (simp add: BitLen_def bitlen_zero)
  have ne: "sorted_cpus x \<noteq> []"
  proof
    assume "sorted_cpus x = []"
    then have "\<not> bit x i" for i using sorted_cpus_bits [OF assms(1)] by auto
    then have "x = 0" by (intro bit_eqI) simp
    then show False using False by simp
  qed
  then obtain b bs where c: "sorted_cpus x = b # bs" by (cases "sorted_cpus x") auto
  define rs where "rs = foldl add_cpu [(b, b)] bs"
  have rs: "ranges_ok rs" "range_cpus rs = sorted_cpus x"
    using foldl_add_cpu [of "[(b, b)]" bs] by (simp_all add: rs_def ranges_ok_def range_cpus_def c)
  have m: "\<forall>r \<in> set rs. fst r \<le> snd r \<and> snd r < 2 ^ 63"
  proof
    fix r assume r: "r \<in> set rs"
    then have "fst r \<le> snd r" using rs(1) by (auto simp: ranges_ok_def)
    moreover from this r have "snd r \<in> set (range_cpus rs)"
      by (auto simp: range_cpus_def intro!: bexI [of _ r])
    ultimately show "fst r \<le> snd r \<and> snd r < 2 ^ 63"
      using assms rs(2) sorted_cpus_bits [OF assms(1)] by auto
  qed
  have "fold set_bit (sorted_cpus x) 0 = x"
    using sorted_cpus_bits [OF assms(1)] by (intro bit_eqI) (simp add: bit_fold_set_bit)
  then have f: "fold_err add_range (map range_string rs) 0 = Inr x"
    using fold_add_range [OF m, of 0] rs(2) by simp
  define s where "s = Join '','' (map range_string rs)"
  have sp: "Split (CHR '','') s = map range_string rs"
    unfolding s_def using rs(1) range_string_chars
    by (intro Split_Join) (auto simp: ranges_ok_def)
  have "s \<noteq> []"
  proof
    assume "s = []"
    then have "map range_string rs = [[]]" using sp by simp
    then show False by (auto simp: range_string_def itoa_nat utoa_nonempty map_eq_Cons_conv split: if_splits)
  qed
  then have "ParseCpusetList s = Inr (Some x)"
    by (simp add: ParseCpusetList_def sp f)
  moreover have "ListString (Some x) = Some s"
    using l by (simp add: ListString_def c s_def rs_def)
  ultimately show ?thesis using False by simp
qed

subsection \<open>The meaning of a list\<close>

lemma digits_val_nonneg: "digits_val acc s = Some v \<Longrightarrow> 0 \<le> acc \<Longrightarrow> 0 \<le> v"
  by (induction s arbitrary: acc) (auto simp: digit_val_def less_eq_char_def split: option.splits if_splits)

lemma Atoi_nonneg: "Atoi s = Some v \<Longrightarrow> CHR ''-'' \<notin> set s \<Longrightarrow> 0 \<le> v"
  using digits_val_nonneg [of 0]
  by (cases s) (fastforce simp: Atoi_def Let_def simp del: digits_val.simps split: if_splits option.splits)+

lemma parse_range_nonneg: "parse_range r = Inr (s, e) \<Longrightarrow> 0 \<le> s \<and> 0 \<le> e"
  using Split_parts [of _ "CHR ''-''" r]
  by (fastforce simp: parse_range_def dest: Atoi_nonneg split: if_splits list.splits option.splits)

text \<open>The CPUs an item of a list stands for.\<close>

definition item_cpus :: "string \<Rightarrow> nat set" where
  "item_cpus item =
     (case parse_range (TrimSpace item) of Inl _ \<Rightarrow> {} | Inr (s, e) \<Rightarrow> {nat s..nat e})"

lemma add_range_bits:
  assumes "add_range r x = res"
  shows "res \<noteq> Inl NegativeBit
    \<and> (\<forall>y. res = Inr y \<longrightarrow> (\<forall>i. bit y i \<longleftrightarrow> bit x i \<or> (TrimSpace r \<noteq> [] \<and> i \<in> item_cpus r)))"
proof (cases "parse_range (TrimSpace r)")
  case (Inl e)
  moreover have "e \<noteq> NegativeBit" using Inl
    by (auto simp: parse_range_def split: if_splits list.splits option.splits)
  ultimately show ?thesis
    using assms by (auto simp: add_range_def Let_def item_cpus_def split: if_splits)
next
  case (Inr se)
  obtain s e where se: "se = (s, e)" by (cases se)
  then have nn: "0 \<le> s" "0 \<le> e" using parse_range_nonneg Inr by blast+
  have f: "fold_err set_cpu [s..e] x = Inr (fold set_bit [nat s..<Suc (nat e)] x)"
    using fold_set_cpu [of "nat s" "nat e" x] nn by simp
  show ?thesis
    using assms nn f Inr
    by (auto simp: add_range_def Let_def item_cpus_def se bit_fold_set_bit simp del: upt_Suc
        split: if_splits)
qed

text \<open>A list that \<open>ParseCpusetList\<close> accepts stands for the union of its items, each a number or a
  range, and no list, however malformed, makes it set a negative bit, which would panic.\<close>

theorem cpuset_list_sound:
  assumes "ParseCpusetList l = res"
  shows "res \<noteq> Inl NegativeBit
    \<and> (\<forall>x i. res = Inr (Some x) \<longrightarrow>
         (bit x i \<longleftrightarrow> (\<exists>item \<in> set (Split (CHR '','') l). TrimSpace item \<noteq> [] \<and> i \<in> item_cpus item)))"
proof -
  have "r \<noteq> Inl NegativeBit \<and> (\<forall>y. r = Inr y \<longrightarrow>
      (\<forall>i. bit y i \<longleftrightarrow> bit x i \<or> (\<exists>item \<in> set items. TrimSpace item \<noteq> [] \<and> i \<in> item_cpus item)))"
    if "fold_err add_range items x = r" for items x r
    using that
  proof (induction items arbitrary: x)
    case (Cons item items)
    note step = add_range_bits [OF refl, of item x]
    show ?case
    proof (cases "add_range item x")
      case (Inl e)
      then show ?thesis using Cons.prems step by auto
    next
      case (Inr y)
      then have "fold_err add_range items y = r" using Cons.prems by simp
      from Cons.IH [OF this] step Inr show ?thesis by auto
    qed
  qed auto
  from this [OF refl, of "Split (CHR '','') l" 0] show ?thesis
    using assms by (cases "fold_err add_range (Split (CHR '','') l) 0")
      (auto simp: ParseCpusetList_def split: if_splits)
qed

subsection \<open>NIC types\<close>

definition NICTypeVIRTIONET :: string where "NICTypeVIRTIONET = ''VIRTIO_NET''"
definition NICTypeGVNIC :: string where "NICTypeGVNIC = ''GVNIC''"
definition NICTypeIDPF :: string where "NICTypeIDPF = ''IDPF''"
definition NICTypeIRDMA :: string where "NICTypeIRDMA = ''IRDMA''"
definition NICTypeMRDMA :: string where "NICTypeMRDMA = ''MRDMA''"

text \<open>
  The expression \<open>^(.+):([0-9]+)$\<close>: as digits are no colons, the second group is what follows the
  last colon.
\<close>

definition nic_match :: "string \<Rightarrow> (string \<times> string) option" where
  "nic_match s =
     (let i = LastIndex (CHR '':'') s
      in if i < 1 then None
         else let t = take (nat i) s; d = drop (Suc (nat i)) s
              in if CHR 0x0A \<in> set t \<or> d = [] \<or> \<not> list_all digit d then None else Some (t, d))"

datatype nic_error = BadNic string | BadCount string

definition expand_nic :: "string \<Rightarrow> string list \<Rightarrow> nic_error + string list" where
  "expand_nic item nicTypes =
     (let s = TrimSpace item
      in if s = [] then Inr nicTypes
         else (case nic_match s of
                 None \<Rightarrow> Inl (BadNic s)
               | Some (t, d) \<Rightarrow>
                   (case Atoi d of
                      None \<Rightarrow> Inl (BadCount d)
                    | Some n \<Rightarrow> Inr (nicTypes @ replicate (nat n) t))))"

definition ExpandNICTypes :: "string \<Rightarrow> nic_error + string list" where
  "ExpandNICTypes condensed =
     (case fold_err expand_nic (Split (CHR '','') condensed) [] of
        Inl e \<Rightarrow> Inl e
      | Inr ts \<Rightarrow> Inr (if ts = [] then [NICTypeGVNIC] else ts))"

definition nic_item :: "string \<times> nat \<Rightarrow> string" where
  "nic_item e = fst e @ '':'' @ utoa (snd e)"

definition nic_name :: "string \<Rightarrow> bool" where
  "nic_name t \<longleftrightarrow> t \<noteq> [] \<and> (\<forall>c \<in> set t. \<not> is_space c \<and> c \<noteq> CHR '','')"

lemma nic_match_item:
  assumes "nic_name (fst e)"
  shows "nic_match (nic_item e) = Some (fst e, utoa (snd e))"
proof -
  have "CHR '':'' \<notin> set (utoa (snd e))" using utoa_digits digit_facts by blast
  then have i: "LastIndex (CHR '':'') (nic_item e) = int (length (fst e))"
    using LastIndex_append [of "CHR '':''" "utoa (snd e)" "fst e"] by (simp add: nic_item_def)
  have "CHR 0x0A \<notin> set (fst e)" using assms by (auto simp: nic_name_def is_space_def)
  moreover have "0 < length (fst e)" using assms by (simp add: nic_name_def)
  moreover have "list_all digit (utoa (snd e))" by (simp add: list_all_iff utoa_digits)
  ultimately show ?thesis
    by (simp add: nic_match_def i Let_def) (simp add: nic_item_def utoa_nonempty)
qed

lemma nic_item_chars: "nic_name (fst e) \<Longrightarrow> c \<in> set (nic_item e) \<Longrightarrow> \<not> is_space c \<and> c \<noteq> CHR '',''"
proof -
  assume "nic_name (fst e)" and c: "c \<in> set (nic_item e)"
  moreover have "digit c \<or> c = CHR '':'' \<or> c \<in> set (fst e)"
    using c utoa_digits by (auto simp: nic_item_def)
  ultimately show ?thesis using digit_facts [of c] by (auto simp: nic_name_def is_space_def)
qed

text \<open>\<open>ExpandNICTypes\<close> of a list of types with counts is each type repeated as often as its count,
  in order, and a single GVNIC when all counts are 0.\<close>

theorem nic_types_expand:
  assumes "es \<noteq> []" and "\<forall>e \<in> set es. nic_name (fst e) \<and> snd e < 2 ^ 63"
  shows "ExpandNICTypes (Join '','' (map nic_item es)) =
    Inr (if \<forall>e \<in> set es. snd e = 0 then [NICTypeGVNIC]
         else concat (map (\<lambda>e. replicate (snd e) (fst e)) es))"
proof -
  have "Split (CHR '','') (Join '','' (map nic_item es)) = map nic_item es"
    using assms nic_item_chars by (intro Split_Join) auto
  moreover have "fold_err expand_nic (map nic_item xs) acc = Inr (acc @ concat (map (\<lambda>e. replicate (snd e) (fst e)) xs))"
    if "\<forall>e \<in> set xs. nic_name (fst e) \<and> snd e < 2 ^ 63" for xs acc
    using that
  proof (induction xs arbitrary: acc)
    case (Cons e xs)
    have t: "TrimSpace (nic_item e) = nic_item e"
      by (rule TrimSpace_id) (use nic_item_chars [of e] Cons.prems in auto)
    have n: "nic_item e \<noteq> []" by (simp add: nic_item_def)
    have "Atoi (utoa (snd e)) = Some (int (snd e))"
      using Atoi_itoa [of "int (snd e)"] Cons.prems by (simp add: itoa_nat)
    then have "expand_nic (nic_item e) acc = Inr (acc @ replicate (snd e) (fst e))"
      using t n nic_match_item Cons.prems by (simp add: expand_nic_def)
    then show ?case using Cons by simp
  qed simp
  ultimately show ?thesis
    using assms(2) by (auto simp: ExpandNICTypes_def)
qed

subsection \<open>Kernel versions\<close>

text \<open>\<open>strings.FieldsFunc\<close> at everything that is no digit: the maximal runs of digits.\<close>

fun digit_runs :: "string \<Rightarrow> string \<Rightarrow> string list" where
  "digit_runs acc [] = (if acc = [] then [] else [acc])"
| "digit_runs acc (c # s) =
     (if digit c then digit_runs (acc @ [c]) s
      else (if acc = [] then [] else [acc]) @ digit_runs [] s)"

definition ParseKernelVersion :: "string \<Rightarrow> int list" where
  "ParseKernelVersion v = List.map_filter Atoi (digit_runs [] v)"

definition part :: "int list \<Rightarrow> nat \<Rightarrow> int" where
  "part ns i = (if i < length ns then ns ! i else 0)"

fun compare_parts :: "int list \<Rightarrow> int list \<Rightarrow> nat list \<Rightarrow> int" where
  "compare_parts n1 n2 [] = 0"
| "compare_parts n1 n2 (i # is) =
     (if part n1 i < part n2 i then -1
      else if part n2 i < part n1 i then 1
      else compare_parts n1 n2 is)"

definition CompareKernelVersion :: "string \<Rightarrow> string \<Rightarrow> int" where
  "CompareKernelVersion v1 v2 =
     (let n1 = ParseKernelVersion v1; n2 = ParseKernelVersion v2;
          maxLen = (if length n1 < length n2 then length n2 else length n1)
      in compare_parts n1 n2 [0..<maxLen])"

text \<open>The order of versions: lexicographic, a missing part counting as 0.\<close>

definition version_less :: "int list \<Rightarrow> int list \<Rightarrow> bool" where
  "version_less a b \<longleftrightarrow> (\<exists>i. (\<forall>j < i. part a j = part b j) \<and> part a i < part b i)"

lemma compare_parts_upt:
  assumes "\<And>i. n \<le> i \<Longrightarrow> part a i = part b i" and "\<And>j. j < k \<Longrightarrow> part a j = part b j"
  shows "(compare_parts a b [k..<n] = -1 \<longleftrightarrow> version_less a b)
    \<and> (compare_parts a b [k..<n] = 1 \<longleftrightarrow> version_less b a)
    \<and> (compare_parts a b [k..<n] = 0 \<longleftrightarrow> (\<forall>i. part a i = part b i))"
  using assms(2)
proof (induction "n - k" arbitrary: k)
  case 0
  then have e: "part a i = part b i" for i using assms(1) [of i] by (cases "i < k") auto
  then show ?case using 0 by (simp add: version_less_def)
next
  case (Suc m)
  then have u: "[k..<n] = k # [Suc k..<n]" by (simp add: upt_conv_Cons)
  have least: "i = k" if "\<forall>j < i. part x j = part y j" "part x i \<noteq> part y i" "part x k \<noteq> part y k"
      "{x, y} = {a, b}" for i x y
    using that Suc.prems by (metis doubleton_eq_iff linorder_neqE_nat)
  consider (lt) "part a k < part b k" | (gt) "part b k < part a k" | (eq) "part a k = part b k" by linarith
  then show ?case
  proof cases
    case lt
    then have "version_less a b" using Suc.prems by (auto simp: version_less_def)
    moreover have "\<not> version_less b a"
      using least [of _ b a] lt by (fastforce simp: version_less_def doubleton_eq_iff)
    ultimately show ?thesis using lt u by (auto intro: exI [of _ k])
  next
    case gt
    then have "version_less b a" using Suc.prems by (auto simp: version_less_def intro!: exI [of _ k])
    moreover have "\<not> version_less a b"
      using least [of _ a b] gt by (fastforce simp: version_less_def)
    ultimately show ?thesis using gt u by (auto intro: exI [of _ k])
  next
    case eq
    then have "part a j = part b j" if "j < Suc k" for j using Suc.prems that by (cases "j = k") auto
    then show ?thesis using Suc.hyps(1) [of "Suc k"] Suc.hyps(2) eq u by simp
  qed
qed

text \<open>\<open>CompareKernelVersion\<close> is the lexicographic order on the numbers of the two versions, a
  missing number counting as 0: it is -1 or 1 exactly when the first or the second is the smaller in
  this order, and 0 exactly when all numbers agree.\<close>

theorem kernel_version_order:
  "(CompareKernelVersion v1 v2 = -1 \<longleftrightarrow> version_less (ParseKernelVersion v1) (ParseKernelVersion v2))
   \<and> (CompareKernelVersion v1 v2 = 1 \<longleftrightarrow> version_less (ParseKernelVersion v2) (ParseKernelVersion v1))
   \<and> (CompareKernelVersion v1 v2 = 0 \<longleftrightarrow>
        part (ParseKernelVersion v1) = part (ParseKernelVersion v2))"
proof -
  have "part a i = part b i"
    if "(if length a < length b then length b else length a) \<le> i" for a b i
    using that by (auto simp: part_def split: if_splits)
  from compare_parts_upt [OF this] show ?thesis
    by (simp add: CompareKernelVersion_def Let_def fun_eq_iff)
qed

subsection \<open>Queues\<close>

record EthtoolQueueCounts =
  MaxRXQueues :: int
  MaxTXQueues :: int
  MaxOtherQueues :: int
  MaxCombinedQueues :: int
  CurrentTXQueues :: int
  CurrentRXQueues :: int
  CurrentOtherQueues :: int
  CurrentCombinedQueues :: int

definition EffectiveCurrentRXQueues :: "EthtoolQueueCounts \<Rightarrow> int" where
  "EffectiveCurrentRXQueues q =
     (if 0 < CurrentRXQueues q then CurrentRXQueues q
      else if 0 < CurrentCombinedQueues q then CurrentCombinedQueues q else CurrentRXQueues q)"

definition EffectiveCurrentTXQueues :: "EthtoolQueueCounts \<Rightarrow> int" where
  "EffectiveCurrentTXQueues q =
     (if 0 < CurrentTXQueues q then CurrentTXQueues q
      else if 0 < CurrentCombinedQueues q then CurrentCombinedQueues q else CurrentTXQueues q)"

definition EffectiveMaxRXQueues :: "EthtoolQueueCounts \<Rightarrow> int" where
  "EffectiveMaxRXQueues q =
     (if 0 < MaxRXQueues q then MaxRXQueues q
      else if 0 < MaxCombinedQueues q then MaxCombinedQueues q else MaxRXQueues q)"

definition EffectiveMaxTXQueues :: "EthtoolQueueCounts \<Rightarrow> int" where
  "EffectiveMaxTXQueues q =
     (if 0 < MaxTXQueues q then MaxTXQueues q
      else if 0 < MaxCombinedQueues q then MaxCombinedQueues q else MaxTXQueues q)"

subsection \<open>Witnesses\<close>

theorem cpuset_list_roundtrip_witness:
  "\<exists>s. ListString (Some 0b1110101) = Some s \<and> ParseCpusetList s = Inr (Some 0b1110101)"
proof -
  have "i < 2 ^ 63" if "bit (0b1110101 :: int) i" for i
  proof (rule ccontr)
    assume "\<not> i < 2 ^ 63"
    then have "7 \<le> i" by simp
    then have "(2::int) ^ 7 \<le> 2 ^ i" by (intro power_increasing) auto
    then have "(0b1110101 :: int) div 2 ^ i = 0" by simp
    then show False using that by (simp add: bit_iff_odd)
  qed
  then show ?thesis using cpuset_list_roundtrip [of "0b1110101"] by simp
qed

theorem cpuset_list_sound_witness:
  "\<exists>x. ParseCpusetList ''0, 2-4'' = Inr (Some x) \<and> bit x 3 \<and> \<not> bit x 1"
proof -
  have r: "ParseCpusetList ''0, 2-4'' = Inr (Some 29)" by code_simp
  have i: "item_cpus ''0'' = {0}" "item_cpus '' 2-4'' = {2..4}" "Split (CHR '','') ''0, 2-4'' = [''0'', '' 2-4'']"
    by (simp_all add: item_cpus_def TrimSpace_def is_space_def parse_range_def Atoi_def digit_val_def)
  show ?thesis
    using cpuset_list_sound [OF r] r by (auto simp: i)
qed

theorem nic_types_expand_witness:
  "ExpandNICTypes ''GVNIC:2,MRDMA:1'' = Inr [''GVNIC'', ''GVNIC'', ''MRDMA'']"
proof -
  have u: "utoa 2 = ''2''" "utoa (Suc 0) = ''1''" by code_simp+
  have r: "replicate 2 x = [x, x]" for x :: string by (simp add: numeral_2_eq_2)
  show ?thesis
    using nic_types_expand [of "[(''GVNIC'', 2), (''MRDMA'', 1)]"]
    by (simp add: nic_name_def is_space_def nic_item_def u r)
qed

end
