(* ===== verification/Network_Machines.thy ===== *)
theory Network_Machines
  imports Network_Utils Fixtures_Guarantees
begin

text \<open>
  The machine with several interfaces of \<open>utils/networkutils/networkutils.go\<close>: the networks and
  subnetworks its NIC types need are registered with the test workflow by its fixtures.
\<close>

subsection \<open>Networks and subnetworks\<close>

definition new_network :: "string \<Rightarrow> string \<Rightarrow> network" where
  "new_network name profile =
     \<lparr>nw_Name = name, nw_Description = [], nw_Mtu = JumboFramesMTU, nw_Profile = profile,
      nw_AutoCreate = Some False, nw_EnableUlaInternalIpv6 = False\<rparr>"

definition daisyNetworkForGeneralPurposeNIC :: "nat \<Rightarrow> network" where
  "daisyNetworkForGeneralPurposeNIC index = new_network (''network-'' @ utoa index) []"

definition network_profile :: "string \<Rightarrow> string \<Rightarrow> string \<Rightarrow> string" where
  "network_profile project zone kind =
     ''projects/'' @ project @ ''/global/networkProfiles/'' @ zone @ kind"

definition daisyNetworkForIRDMANIC :: "nat \<Rightarrow> string \<Rightarrow> string \<Rightarrow> network" where
  "daisyNetworkForIRDMANIC index project zone =
     new_network (''irdma-network-'' @ utoa index) (network_profile project zone ''-vpc-falcon'')"

definition daisyNetworkForMRDMANIC :: "string \<Rightarrow> string \<Rightarrow> bool \<Rightarrow> network" where
  "daisyNetworkForMRDMANIC project zone isMetal =
     new_network ''mrdma-network''
       (network_profile project zone ''-vpc-roce'' @ (if isMetal then ''-metal'' else []))"

definition daisyNetworkForNIC :: "string \<Rightarrow> nat \<Rightarrow> string \<Rightarrow> string \<Rightarrow> bool \<Rightarrow> network option" where
  "daisyNetworkForNIC nicType index project zone isMetal =
     (if nicType = NICTypeVIRTIONET \<or> nicType = NICTypeGVNIC \<or> nicType = NICTypeIDPF
      then Some (daisyNetworkForGeneralPurposeNIC index)
      else if nicType = NICTypeIRDMA then Some (daisyNetworkForIRDMANIC index project zone)
      else if nicType = NICTypeMRDMA then Some (daisyNetworkForMRDMANIC project zone isMetal)
      else None)"

definition subnetPrefix :: "nat \<Rightarrow> string option" where
  "subnetPrefix index = (if 255 < index then None else Some (''10.0.'' @ utoa index @ ''.0/24''))"

definition nu_regionFromZone :: "string \<Rightarrow> string option" where
  "nu_regionFromZone zone =
     (let parts = Split (CHR ''-'') zone
      in if length parts < 2 then None else Some (Join ''-'' (take 2 parts)))"

definition subnet_name :: "nat \<Rightarrow> string" where
  "subnet_name index = ''subnet-'' @ utoa index"

definition default_name :: "string \<Rightarrow> string" where
  "default_name network = ''default-subnet-1-'' @ network"

definition new_subnetwork :: "string \<Rightarrow> string \<Rightarrow> subnetwork" where
  "new_subnetwork name region =
     \<lparr>sn_Name = name, sn_Description = [], sn_Cidr = [], sn_Network = [], sn_StackType = [],
      sn_Ipv6AccessType = [], sn_Region = region, sn_Purpose = [], sn_Role = [], sn_Secondary = [],
      sn_NoCleanup = False\<rparr>"

definition daisySubnet :: "network \<Rightarrow> nat \<Rightarrow> string \<Rightarrow> subnetwork option" where
  "daisySubnet net index zone =
     (case nu_regionFromZone zone of
        None \<Rightarrow> None
      | Some region \<Rightarrow>
          if HasSuffix (nw_Profile net) ''-metal'' then
            Some ((new_subnetwork (default_name (nw_Name net)) region)
              \<lparr>sn_StackType := ''IPV6_ONLY'', sn_Ipv6AccessType := ''INTERNAL'', sn_NoCleanup := True\<rparr>)
          else (case subnetPrefix index of
                  None \<Rightarrow> None
                | Some p \<Rightarrow> Some ((new_subnetwork (subnet_name index) region)\<lparr>sn_Cidr := p\<rparr>)))"

definition accessConfigsForNIC :: "string \<Rightarrow> (string \<times> string) list" where
  "accessConfigsForNIC nicType =
     (if nicType = NICTypeIRDMA \<or> nicType = NICTypeMRDMA then [] else [(''ONE_TO_ONE_NAT'', [])])"

subsection \<open>The machine\<close>

text \<open>The networks and subnetworks created so far and the interfaces of the machine.\<close>

record wiring =
  wi_networks :: "(string \<times> network_handle) list"
  wi_subnets :: "string list"
  wi_nics :: "interface list"

fun fold_each :: "('a \<Rightarrow> 'b \<Rightarrow> 'b operation) \<Rightarrow> 'a list \<Rightarrow> 'b \<Rightarrow> 'b operation" where
  "fold_each f [] y = give y"
| "fold_each f (x # xs) y = and_then (f x y) (fold_each f xs)"

definition or_fail :: "string \<Rightarrow> 'a option \<Rightarrow> 'a operation" where
  "or_fail err r = (case r of None \<Rightarrow> raise err | Some x \<Rightarrow> give x)"

definition need_network :: "engine \<Rightarrow> network \<Rightarrow> wiring \<Rightarrow> (network_handle \<times> wiring) operation" where
  "need_network e net w =
     (case map_of (wi_networks w) (nw_Name net) of
        Some h \<Rightarrow> give (h, w)
      | None \<Rightarrow> and_then (CreateNetworkFromDaisyNetwork e net) (\<lambda>h.
          give (h, w\<lparr>wi_networks := wi_networks w @ [(nw_Name net, h)]\<rparr>)))"

definition need_subnet :: "engine \<Rightarrow> network_handle \<Rightarrow> subnetwork \<Rightarrow> wiring \<Rightarrow> wiring operation" where
  "need_subnet e h sub w =
     (if sn_Name sub \<in> set (wi_subnets w) then give w
      else and_then (CreateSubnetworkFromDaisySubnetwork e h sub) (\<lambda>_.
        give (w\<lparr>wi_subnets := wi_subnets w @ [sn_Name sub]\<rparr>)))"

definition add_nic :: "engine \<Rightarrow> string \<Rightarrow> string \<Rightarrow> bool \<Rightarrow> nat \<times> string \<Rightarrow> wiring \<Rightarrow> wiring operation" where
  "add_nic e project zone isMetal it w =
     (let (nicIndex, nicType) = it
      in and_then (or_fail (''building daisy network: unsupported NIC type: '' @ nicType)
           (daisyNetworkForNIC nicType nicIndex project zone isMetal)) (\<lambda>net.
         and_then (need_network e net w) (\<lambda>(h, w).
         and_then (or_fail ''building daisy subnetwork'' (daisySubnet net nicIndex zone)) (\<lambda>sub.
         and_then (need_subnet e h sub w) (\<lambda>w.
         give (w\<lparr>wi_nics := wi_nics w @
           [new_interface\<lparr>if_NicType := nicType, if_Network := nw_Name net, if_Subnetwork := sn_Name sub,
              if_StackType := sn_StackType sub, if_Ipv6AccessType := sn_Ipv6AccessType sub,
              if_AccessConfigs := Some (accessConfigsForNIC nicType)\<rparr>]\<rparr>))))))"

text \<open>\<open>model\<close> is the flag of the provisioning model.  Without NIC types the interfaces stay nil.\<close>

definition CreateMachineWithNetworks ::
  "engine \<Rightarrow> string \<Rightarrow> string \<Rightarrow> string \<Rightarrow> string \<Rightarrow> string list \<Rightarrow> machine operation" where
  "CreateMachineWithNetworks e model project zone machineType nicTypes =
     and_then (fold_each (add_nic e project zone (IsMetal machineType)) (enumerate 0 nicTypes)
         \<lparr>wi_networks = [], wi_subnets = [], wi_nics = []\<rparr>) (\<lambda>w.
     give (new_machine\<lparr>m_Interfaces := (if wi_nics w = [] then None else Some (wi_nics w)),
       m_Scheduling := Some \<lparr>sch_OnHostMaintenance = MachineMaintenancePolicy machineType,
         sch_ProvisioningModel = model, sch_Preemptible = False\<rparr>\<rparr>))"

subsection \<open>The machine is wired\<close>

definition nics_of :: "machine \<Rightarrow> interface list" where
  "nics_of m = (case m_Interfaces m of None \<Rightarrow> [] | Some fs \<Rightarrow> fs)"

text \<open>
  The invariant of the loop, against the state t0 in which it began: the networks and subnetworks made
  since are those of the wiring, once each, and every interface is in one of the subnetworks, which is
  one of the network of the interface.
\<close>

definition wired_to :: "network list \<Rightarrow> subnetwork list \<Rightarrow> interface list \<Rightarrow> bool" where
  "wired_to ns ss fs \<longleftrightarrow> distinct (map nw_Name ns) \<and> distinct (map sn_Name ss)
     \<and> (\<forall>f \<in> set fs. if_Network f \<in> nw_Name ` set ns
          \<and> (\<exists>s \<in> set ss. sn_Name s = if_Subnetwork f \<and> sn_Network s = if_Network f))"

definition wired :: "test_workflow \<Rightarrow> nat \<Rightarrow> wiring \<Rightarrow> test_workflow \<Rightarrow> bool" where
  "wired t0 i w t \<longleftrightarrow> (\<exists>ns ss. tw_networks t = tw_networks t0 @ ns \<and> tw_subnetworks t = tw_subnetworks t0 @ ss
     \<and> map nw_Name ns = map fst (wi_networks w) \<and> (\<forall>(n, h) \<in> set (wi_networks w). nh_name h = n)
     \<and> map sn_Name ss = wi_subnets w \<and> wired_to ns ss (wi_nics w)
     \<and> (\<forall>s \<in> set ss. (\<exists>k < i. sn_Name s = subnet_name k) \<or> sn_Name s = default_name (sn_Network s)))"

lemma utoa_inject: "utoa m = utoa n \<longleftrightarrow> m = n"
  by (metis digits_val_utoa option.inject of_nat_eq_iff)

lemma subnet_names [simp]:
  "subnet_name m = subnet_name n \<longleftrightarrow> m = n" "default_name a = default_name b \<longleftrightarrow> a = b"
  "subnet_name m \<noteq> default_name a" "default_name a \<noteq> subnet_name m"
  by (simp_all add: subnet_name_def default_name_def utoa_inject)

lemma daisySubnet_name:
  "daisySubnet net i zone = Some s \<Longrightarrow>
     sn_Name s = subnet_name i \<or> sn_Name s = default_name (nw_Name net)"
  by (auto simp: daisySubnet_def new_subnetwork_def split: option.splits if_splits)

lemma append_step_stores:
  "append_step e n add fresh t = (Ok s, t') \<Longrightarrow> tw_networks t' = tw_networks t \<and> tw_subnetworks t' = tw_subnetworks t"
  by (auto simp: append_step_def and_then_def modify_def give_def raise_def panic_def NewStep_def update_step_def
      split: option.splits sum.splits)

lemma AddDependency_stores:
  "AddDependency e a b t = (Ok u, t') \<Longrightarrow> tw_networks t' = tw_networks t \<and> tw_subnetworks t' = tw_subnetworks t"
  by (auto simp: AddDependency_def split: sum.splits)

lemma network_made:
  assumes "CreateNetworkFromDaisyNetwork e net t = (Ok h, t')"
  shows "nh_name h = nw_Name net \<and> tw_subnetworks t' = tw_subnetworks t
    \<and> (\<exists>n. tw_networks t' = tw_networks t @ [n] \<and> nw_Name n = nw_Name net)"
  using assms
  by (auto simp: CreateNetworkFromDaisyNetwork_def appendCreateNetworkStep_def add_network_step_def
      alloc_network_def and_then_Ok give_def split: if_splits dest!: append_step_stores AddDependency_stores)

lemma subnetwork_made:
  assumes "CreateSubnetworkFromDaisySubnetwork e h sub t = (Ok r, t')"
  shows "tw_networks t' = tw_networks t
    \<and> (\<exists>s. tw_subnetworks t' = tw_subnetworks t @ [s] \<and> sn_Name s = sn_Name sub \<and> sn_Network s = nh_name h)"
  using assms
  by (auto simp: CreateSubnetworkFromDaisySubnetwork_def appendCreateSubnetworksStep_def
      alloc_subnetwork_def and_then_Ok give_def raise_def split: if_splits
      dest!: append_step_stores AddDependency_stores)

lemma need_network_wired:
  assumes "need_network e net w t = (Ok (h, w'), t')" and "wired t0 i w t"
  shows "wired t0 i w' t' \<and> nh_name h = nw_Name net \<and> nw_Name net \<in> fst ` set (wi_networks w')
    \<and> wi_nics w' = wi_nics w"
proof (cases "map_of (wi_networks w) (nw_Name net)")
  case (Some h')
  then have eq: "h = h'" "w' = w" "t' = t" using assms(1) by (simp_all add: need_network_def give_def)
  note m = map_of_SomeD [OF Some]
  have "nh_name h' = nw_Name net" using m assms(2) unfolding wired_def by blast
  moreover have "nw_Name net \<in> fst ` set (wi_networks w)" using m by (rule image_eqI [rotated]) simp
  ultimately show ?thesis using assms(2) eq by simp
next
  case None
  then have m: "CreateNetworkFromDaisyNetwork e net t = (Ok h, t')"
    and w': "w' = w\<lparr>wi_networks := wi_networks w @ [(nw_Name net, h)]\<rparr>"
    using assms(1) by (auto simp: need_network_def and_then_Ok give_def)
  obtain n where n: "tw_networks t' = tw_networks t @ [n]" "nw_Name n = nw_Name net"
      "nh_name h = nw_Name net" "tw_subnetworks t' = tw_subnetworks t"
    using network_made [OF m] by blast
  obtain ns ss where o: "tw_networks t = tw_networks t0 @ ns" "tw_subnetworks t = tw_subnetworks t0 @ ss"
      "map nw_Name ns = map fst (wi_networks w)" "\<forall>(n, h) \<in> set (wi_networks w). nh_name h = n"
      "map sn_Name ss = wi_subnets w" "wired_to ns ss (wi_nics w)"
      "\<forall>s \<in> set ss. (\<exists>k < i. sn_Name s = subnet_name k) \<or> sn_Name s = default_name (sn_Network s)"
    using assms(2) unfolding wired_def by blast
  have new: "nw_Name n \<notin> set (map nw_Name ns)"
    using None unfolding o(3) n(2) by (simp add: map_of_eq_None_iff)
  have "wired_to (ns @ [n]) ss (wi_nics w)"
    using o(6) new by (auto simp: wired_to_def)
  then have "wired t0 i w' t'"
    unfolding wired_def w' using o n by (intro exI [of _ "ns @ [n]"] exI [of _ ss]) auto
  then show ?thesis using n w' by simp
qed

lemma need_subnet_wired:
  assumes "need_subnet e h sub w t = (Ok w', t')" and "wired t0 i w t"
    and "daisySubnet net i zone = Some sub" and "nh_name h = nw_Name net"
    and "nw_Name net \<in> fst ` set (wi_networks w)" and "if_Network f = nw_Name net" and "if_Subnetwork f = sn_Name sub"
  shows "wired t0 (Suc i) (w'\<lparr>wi_nics := wi_nics w' @ [f]\<rparr>) t' \<and> wi_nics w' = wi_nics w"
proof -
  obtain ns ss where o: "tw_networks t = tw_networks t0 @ ns" "tw_subnetworks t = tw_subnetworks t0 @ ss"
      "map nw_Name ns = map fst (wi_networks w)" "\<forall>(n, h) \<in> set (wi_networks w). nh_name h = n"
      "map sn_Name ss = wi_subnets w" "wired_to ns ss (wi_nics w)"
      "\<forall>s \<in> set ss. (\<exists>k < i. sn_Name s = subnet_name k) \<or> sn_Name s = default_name (sn_Network s)"
    using assms(2) unfolding wired_def by blast
  have net: "if_Network f \<in> nw_Name ` set ns"
    using assms(5,6) o(3) by (metis (no_types) list.set_map)
  note nm = daisySubnet_name [OF assms(3)]
  show ?thesis
  proof (cases "sn_Name sub \<in> set (wi_subnets w)")
    case True
    then have w': "w' = w" "t' = t" using assms(1) by (auto simp: need_subnet_def give_def)
    from True obtain s where s: "s \<in> set ss" "sn_Name s = sn_Name sub" unfolding o(5) [symmetric] by auto
    then have "sn_Network s = nw_Name net" using o(7) nm by (cases "\<exists>k < i. sn_Name s = subnet_name k") auto
    then have "wired_to ns ss (wi_nics w @ [f])"
      using o(6) s net assms(6,7) by (auto simp: wired_to_def)
    then show ?thesis
      unfolding wired_def w' using o by (auto simp: less_Suc_eq)
  next
    case False
    then obtain r where m: "CreateSubnetworkFromDaisySubnetwork e h sub t = (Ok r, t')"
      and w': "w' = w\<lparr>wi_subnets := wi_subnets w @ [sn_Name sub]\<rparr>"
      using assms(1) by (auto simp: need_subnet_def and_then_Ok give_def)
    obtain s where s: "tw_subnetworks t' = tw_subnetworks t @ [s]" "sn_Name s = sn_Name sub"
        "sn_Network s = nw_Name net" "tw_networks t' = tw_networks t"
      using subnetwork_made [OF m] assms(4) by auto
    have new: "sn_Name s \<notin> set (map sn_Name ss)" using False unfolding o(5) s(2) .
    then have "wired_to ns (ss @ [s]) (wi_nics w @ [f])"
      using o(6) s net assms(6,7) by (auto simp: wired_to_def)
    then have "wired t0 (Suc i) (w'\<lparr>wi_nics := wi_nics w' @ [f]\<rparr>) t'"
      unfolding wired_def w' using o s nm
      by (intro exI [of _ ns] exI [of _ "ss @ [s]"]) (auto simp: less_Suc_eq)
    then show ?thesis using w' by simp
  qed
qed

lemma or_fail_Ok: "or_fail err r t = (Ok x, t') \<longleftrightarrow> r = Some x \<and> t' = t"
  by (auto simp: or_fail_def give_def raise_def split: option.splits)

lemma add_nic_wired:
  assumes "add_nic e project zone isMetal (i, ty) w t = (Ok w', t')" and "wired t0 i w t"
  shows "wired t0 (Suc i) w' t' \<and> map if_NicType (wi_nics w') = map if_NicType (wi_nics w) @ [ty]"
proof -
  obtain net h w1 t1 sub w2 where
      net: "need_network e net w t = (Ok (h, w1), t1)" and
      sub: "daisySubnet net i zone = Some sub" "need_subnet e h sub w1 t1 = (Ok w2, t')" and
      w2: "w' = w2\<lparr>wi_nics := wi_nics w2 @
        [new_interface\<lparr>if_NicType := ty, if_Network := nw_Name net, if_Subnetwork := sn_Name sub,
           if_StackType := sn_StackType sub, if_Ipv6AccessType := sn_Ipv6AccessType sub,
           if_AccessConfigs := Some (accessConfigsForNIC ty)\<rparr>]\<rparr>"
    using assms(1) by (auto simp: add_nic_def and_then_Ok or_fail_Ok give_def)
  obtain f where f: "if_NicType f = ty" "if_Network f = nw_Name net" "if_Subnetwork f = sn_Name sub"
    and w': "w' = w2\<lparr>wi_nics := wi_nics w2 @ [f]\<rparr>"
    by (rule that [OF _ _ _ w2]) simp_all
  note n = need_network_wired [OF net assms(2)]
  then have s: "wired t0 (Suc i) w' t'" "wi_nics w2 = wi_nics w"
    unfolding w' using need_subnet_wired [OF sub(2) _ sub(1) _ _ f(2,3)] by auto
  have "map if_NicType (wi_nics w') = map if_NicType (wi_nics w) @ [ty]" by (simp add: w' s(2) f(1))
  then show ?thesis using s(1) by blast
qed

lemma add_nics_wired:
  assumes "fold_each (add_nic e project zone isMetal) (enumerate i ts) w t = (Ok w', t')" and "wired t0 i w t"
  shows "wired t0 (i + length ts) w' t' \<and> map if_NicType (wi_nics w') = map if_NicType (wi_nics w) @ ts"
  using assms
proof (induction ts arbitrary: i w t)
  case (Cons ty ts)
  then obtain w1 t1 where a: "add_nic e project zone isMetal (i, ty) w t = (Ok w1, t1)"
    and r: "fold_each (add_nic e project zone isMetal) (enumerate (Suc i) ts) w1 t1 = (Ok w', t')"
    by (auto simp: and_then_Ok)
  note s = add_nic_wired [OF a Cons.prems(2)]
  show ?case using Cons.IH [OF r] s by simp
qed (simp add: give_def)

lemma keeps_fold_each: "(\<And>x y. keeps I (f x y)) \<Longrightarrow> keeps I (fold_each f xs y)"
  by (induction xs arbitrary: y) (simp_all add: keeps_ends keeps_and_then)

lemma add_nic_keeps:
  assumes "engine_ok e"
  shows "keeps built (add_nic e project zone isMetal it w)"
proof -
  have o: "keeps built (or_fail err r)" for err and r :: "'a option"
    by (cases r) (simp_all add: or_fail_def keeps_ends)
  have n: "keeps built (need_network e net w)" for net w
    by (cases "map_of (wi_networks w) (nw_Name net)")
       (simp_all add: need_network_def keeps_ends keeps_and_then CreateNetwork_keeps [OF assms])
  have s: "keeps built (need_subnet e h sub w)" for h sub w
    by (simp add: need_subnet_def keeps_ends keeps_and_then CreateSubnetwork_keeps [OF assms])
  show ?thesis
    unfolding add_nic_def Let_def
    by (cases it) (auto intro!: keeps_and_then o n s keeps_ends)
qed

lemma CreateMachineWithNetworks_keeps:
  "engine_ok e \<Longrightarrow> keeps built (CreateMachineWithNetworks e model project zone mt nicTypes)"
  unfolding CreateMachineWithNetworks_def
  by (intro keeps_and_then keeps_fold_each add_nic_keeps keeps_ends)

text \<open>C40: \<open>CreateMachineWithNetworks\<close> is safe on every workflow the fixtures have built: it returns or fails with an
  error and leaves a workflow that can be scheduled.  A machine it returns has one interface per
  requested NIC type, in that order; each is in a subnetwork that was made for it in the network it
  names, and networks and subnetworks are made once each, even when interfaces share them.\<close>

theorem machine_is_wired:
  assumes "engine_ok e" and "built_by e t"
  shows "fst (CreateMachineWithNetworks e model project zone mt nicTypes t) \<notin> {Panic, Hang}
    \<and> built (snd (CreateMachineWithNetworks e model project zone mt nicTypes t))
    \<and> (\<forall>m t'. CreateMachineWithNetworks e model project zone mt nicTypes t = (Ok m, t') \<longrightarrow>
         map if_NicType (nics_of m) = nicTypes
         \<and> (\<exists>ns ss. tw_networks t' = tw_networks t @ ns \<and> tw_subnetworks t' = tw_subnetworks t @ ss
              \<and> wired_to ns ss (nics_of m)))"
proof (intro conjI allI impI)
  let ?c = "CreateMachineWithNetworks e model project zone mt nicTypes"
  note b = built_by_built [OF assms]
  note k = CreateMachineWithNetworks_keeps [OF assms(1), of model project zone mt nicTypes]
  show "fst (?c t) \<notin> {Panic, Hang}" using keeps_returns [OF k b] by simp
  show "built (snd (?c t))" using keepsD [OF k b] .
  fix m t' assume "?c t = (Ok m, t')"
  then obtain w where w: "fold_each (add_nic e project zone (IsMetal mt)) (enumerate 0 nicTypes)
      \<lparr>wi_networks = [], wi_subnets = [], wi_nics = []\<rparr> t = (Ok w, t')"
    and m: "nics_of m = wi_nics w"
    by (auto simp: CreateMachineWithNetworks_def and_then_Ok give_def nics_of_def)
  have "wired t 0 \<lparr>wi_networks = [], wi_subnets = [], wi_nics = []\<rparr> t"
    by (simp add: wired_def wired_to_def)
  from add_nics_wired [OF w this] show "map if_NicType (nics_of m) = nicTypes"
    and "\<exists>ns ss. tw_networks t' = tw_networks t @ ns \<and> tw_subnetworks t' = tw_subnetworks t @ ss
      \<and> wired_to ns ss (nics_of m)"
    unfolding m wired_def by auto
qed

theorem machine_is_wired_witness:
  "\<exists>m t'. CreateMachineWithNetworks example_engine ''SPOT'' ''p'' ''us-east4-a'' ''a4-highgpu-8g''
       [''GVNIC'', ''MRDMA'', ''MRDMA''] example_created = (Ok m, t')
     \<and> length (tw_networks t') = length (tw_networks example_created) + 2 \<and> length (nics_of m) = 3"
proof -
  define r where "r = CreateMachineWithNetworks example_engine ''SPOT'' ''p'' ''us-east4-a'' ''a4-highgpu-8g''
     [''GVNIC'', ''MRDMA'', ''MRDMA''] example_created"
  have "case r of (Ok m, t') \<Rightarrow> length (tw_networks t') = length (tw_networks example_created) + 2 | _ \<Rightarrow> False"
    unfolding r_def by code_simp
  then obtain m t' where w: "r = (Ok m, t')" "length (tw_networks t') = length (tw_networks example_created) + 2"
    by (auto split: prod.splits outcome.splits)
  have "map if_NicType (nics_of m) = [''GVNIC'', ''MRDMA'', ''MRDMA'']"
    using machine_is_wired [OF example_engine_ok example_built(2)] w(1) unfolding r_def by blast
  then have "length (nics_of m) = 3" using arg_cong [of _ _ length] by fastforce
  then show ?thesis using w unfolding r_def by blast
qed

end
