(* ===== verification/Exceptions.thy ===== *)
theory Exceptions
  imports Go_Strconv Go_Regexp
begin

text \<open>
  \<open>utils/exceptions/exceptions.go\<close>: whether an image name falls under a list of exceptions.  A
  regular expression is its syntax tree; \<open>None\<close> is a text that does not compile.
\<close>

subsection \<open>The images\<close>

definition ImageUbuntu :: rexp where "ImageUbuntu = around ''ubuntu''"
definition ImageUbuntuMinimal :: rexp where "ImageUbuntuMinimal = around ''ubuntu-minimal''"
definition ImageCOS :: rexp where "ImageCOS = around ''cos''"
definition ImageSLES :: rexp where "ImageSLES = around ''sles''"
definition ImageDebian :: rexp where "ImageDebian = around ''debian''"
definition ImageRHEL :: rexp where "ImageRHEL = around ''rhel''"
definition ImageRHELEUS :: rexp where "ImageRHELEUS = around2 ''rhel'' ''eus''"
definition ImageRHELLVM :: rexp where "ImageRHELLVM = around2 ''rhel'' ''lvm''"
definition ImageRHELSAP :: rexp where "ImageRHELSAP = around2 ''rhel'' ''sap''"
definition ImageOracle :: rexp where "ImageOracle = around ''oracle-linux''"
definition ImageRocky :: rexp where "ImageRocky = around ''rocky-linux''"
definition ImageCentOS :: rexp where "ImageCentOS = around ''centos''"
definition ImageWindows :: rexp where "ImageWindows = around ''windows''"
definition ImageSQL :: rexp where "ImageSQL = around ''sql''"
definition ImageAlmaLinux :: rexp where "ImageAlmaLinux = around ''almalinux''"

text \<open>A part that departs from the word \<open>minimal\<close> at one letter.\<close>

definition departs :: "string \<Rightarrow> char \<Rightarrow> rexp" where
  "departs pre c = Seq (word pre) (Seq (NotCh c) anything)"

definition ImageUbuntuNoMinimal :: rexp where
  "ImageUbuntuNoMinimal =
     Seq anything (Seq (word ''ubuntu-'')
       (Seq (Star (Seq (alts [departs '''' CHR ''m'', departs ''m'' CHR ''i'', departs ''mi'' CHR ''n'',
                             departs ''min'' CHR ''i'', departs ''mini'' CHR ''m'',
                             departs ''minim'' CHR ''a'', departs ''minima'' CHR ''l''])
                  (Ch CHR ''-'')))
         (Seq (Range CHR ''0'' CHR ''9'') (Seq (Star (Range CHR ''0'' CHR ''9'')) anything))))"

definition elImages :: "rexp list" where
  "elImages = [ImageRHEL, ImageRHELEUS, ImageRHELLVM, ImageRHELSAP, ImageRocky, ImageCentOS,
     ImageOracle, ImageAlmaLinux]"

definition windowsImages :: "rexp list" where
  "windowsImages = [ImageWindows, ImageSQL]"

definition ImageEL :: rexp where "ImageEL = alts elImages"
definition ImageAllWindows :: rexp where "ImageAllWindows = alts windowsImages"

subsection \<open>Exceptions\<close>

datatype exception_type = Equal | NotEqual | GreaterThan | LessThan | GreaterThanOrEqualTo
  | LessThanOrEqualTo

record exception =
  ex_Match :: "rexp option"
  ex_Version :: int
  ex_Type :: exception_type

fun checkException :: "int \<Rightarrow> exception \<Rightarrow> bool" where
  "checkException version e =
     (case ex_Type e of
        GreaterThan \<Rightarrow> version > ex_Version e
      | LessThan \<Rightarrow> version < ex_Version e
      | Equal \<Rightarrow> version = ex_Version e
      | NotEqual \<Rightarrow> version \<noteq> ex_Version e
      | GreaterThanOrEqualTo \<Rightarrow> version \<ge> ex_Version e
      | LessThanOrEqualTo \<Rightarrow> version \<le> ex_Version e)"

fun first_int :: "string list \<Rightarrow> int" where
  "first_int [] = 0"
| "first_int (p # ps) = (case Atoi p of Some v \<Rightarrow> v | None \<Rightarrow> first_int ps)"

definition parseVersion :: "string \<Rightarrow> int" where
  "parseVersion img = first_int (Split (CHR ''-'') (path_Base img))"

fun check_all :: "int \<Rightarrow> exception list \<Rightarrow> bool" where
  "check_all version [] = True"
| "check_all version (e # es) =
     (if ex_Version e = 0 then True
      else if \<not> checkException version e then False else check_all version es)"

definition MatchAll :: "string \<Rightarrow> rexp option \<Rightarrow> exception list \<Rightarrow> bool" where
  "MatchAll img base exs =
     (case base of
        None \<Rightarrow> False
      | Some r \<Rightarrow>
          if \<not> MatchString r (path_Base img) then False
          else if exs = [] then True
          else check_all (parseVersion (path_Base img)) exs)"

fun has_match :: "int \<Rightarrow> string \<Rightarrow> exception list \<Rightarrow> bool" where
  "has_match version img [] = False"
| "has_match version img (e # es) =
     (case ex_Match e of
        None \<Rightarrow> False
      | Some r \<Rightarrow>
          let img' = path_Base img
          in if \<not> MatchString r img' then has_match version img' es
             else if ex_Version e = 0 then True
             else if checkException version e then True
             else has_match version img' es)"

definition HasMatch :: "string \<Rightarrow> exception list \<Rightarrow> bool" where
  "HasMatch img exs = (if exs = [] then False else has_match (parseVersion img) img exs)"

subsection \<open>The base name\<close>

lemma path_Base_clean:
  assumes "s \<noteq> []" and "CHR ''/'' \<notin> set s"
  shows "path_Base s = s"
proof -
  have "dropWhile (\<lambda>c. c = CHR ''/'') (rev s) = rev s"
    using assms by (cases "rev s") (auto simp: dropWhile_eq_self_iff)
  then show ?thesis using assms by (simp add: path_Base_def Split_single Let_def)
qed

lemma path_Base_idem: "path_Base (path_Base s) = path_Base s"
proof -
  have "path_Base s = ''/'' \<or> (path_Base s \<noteq> [] \<and> CHR ''/'' \<notin> set (path_Base s))"
    using Split_parts [OF last_in_set [OF Split_nonempty], of "CHR ''/''"]
    by (auto simp: path_Base_def Let_def)
  moreover have "path_Base ''/'' = ''/''" by (simp add: path_Base_def Let_def)
  ultimately show ?thesis using path_Base_clean by metis
qed

subsection \<open>The two functions\<close>

lemma check_all_iff:
  "check_all version es \<longleftrightarrow>
     (\<forall>e \<in> set (takeWhile (\<lambda>e. ex_Version e \<noteq> 0) es). checkException version e)"
  by (induction es) auto

text \<open>An exception that applies to an image.\<close>

definition applies :: "int \<Rightarrow> string \<Rightarrow> exception \<Rightarrow> bool" where
  "applies version img e \<longleftrightarrow> (\<exists>r. ex_Match e = Some r \<and> MatchString r img)
     \<and> (ex_Version e = 0 \<or> checkException version e)"

lemma has_match_iff:
  assumes "path_Base img = b" and "\<forall>e \<in> set es. ex_Match e \<noteq> None"
  shows "has_match version img es \<longleftrightarrow> (\<exists>e \<in> set es. applies version b e)"
  using assms
proof (induction es arbitrary: img)
  case (Cons e es)
  then obtain r where r: "ex_Match e = Some r" by auto
  have "path_Base b = b" using Cons.prems(1) path_Base_idem by metis
  then have IH: "has_match version b es \<longleftrightarrow> (\<exists>e \<in> set es. applies version b e)"
    using Cons.IH Cons.prems(2) by simp
  have "applies version b e \<longleftrightarrow> MatchString r b \<and> (ex_Version e = 0 \<or> checkException version e)"
    by (simp add: applies_def r)
  then show ?case using Cons.prems(1) IH r by (simp add: Let_def del: checkException.simps)
qed simp

subsection \<open>Properties\<close>

text \<open>\<open>HasMatch\<close> is true exactly when some exception matches the base name of the image and is
  either without a version or satisfied by the version parsed from the image's name, whatever the
  order of the exceptions, as long as their expressions are set.\<close>

theorem has_match_exact:
  assumes "\<forall>e \<in> set exs. ex_Match e \<noteq> None"
  shows "HasMatch img exs \<longleftrightarrow> (\<exists>e \<in> set exs. applies (parseVersion img) (path_Base img) e)"
  using has_match_iff [OF refl assms] by (simp add: HasMatch_def)

theorem has_match_exact_witness:
  "HasMatch ''projects/p/global/images/sles-12-sp5-v1''
     [\<lparr>ex_Match = Some ImageDebian, ex_Version = 0, ex_Type = Equal\<rparr>,
      \<lparr>ex_Match = Some ImageSLES, ex_Version = 15, ex_Type = LessThan\<rparr>]"
proof -
  have "applies (parseVersion ''projects/p/global/images/sles-12-sp5-v1'')
      (path_Base ''projects/p/global/images/sles-12-sp5-v1'')
      \<lparr>ex_Match = Some ImageSLES, ex_Version = 15, ex_Type = LessThan\<rparr>"
  proof -
    have "path_Base ''projects/p/global/images/sles-12-sp5-v1'' = ''sles-12-sp5-v1''" by code_simp
    moreover have "parseVersion ''projects/p/global/images/sles-12-sp5-v1'' = 12" by code_simp
    moreover have "MatchString ImageSLES ''sles-12-sp5-v1''" by code_simp
    ultimately show ?thesis by (simp add: applies_def)
  qed
  then show ?thesis by (subst has_match_exact) auto
qed

text \<open>\<open>MatchAll\<close> checks only the exceptions before the first one without a version: the result is
  true when the image matches and those hold, whatever the later exceptions say.\<close>

theorem match_all_stops:
  assumes "base = Some r"
  shows "MatchAll img base exs \<longleftrightarrow> MatchString r (path_Base img)
    \<and> (\<forall>e \<in> set (takeWhile (\<lambda>e. ex_Version e \<noteq> 0) exs). checkException (parseVersion img) e)"
  using assms by (auto simp: MatchAll_def check_all_iff parseVersion_def path_Base_idem)

theorem match_all_stops_witness:
  "MatchAll ''debian-12'' (Some ImageDebian)
     [\<lparr>ex_Match = None, ex_Version = 0, ex_Type = Equal\<rparr>,
      \<lparr>ex_Match = None, ex_Version = 11, ex_Type = Equal\<rparr>]"
proof -
  have "MatchString ImageDebian (path_Base ''debian-12'')" by code_simp
  then show ?thesis by (subst match_all_stops [OF refl]) simp
qed

end
