(* ===== verification/Suite_Calls.thy ===== *)
theory Suite_Calls
  imports Workflow_Run_Guarantees Network_Machines Exceptions Test_Utils
begin

text \<open>
  What the setups of the test suites under \<open>test_suites\<close> are built from: operations that read the
  workflow, calls whose error is dropped, the questions to the compute service, and the rules that show
  that a setup does nothing to its workflow but call fixtures, and that it ends.
\<close>

subsection \<open>Operations of setups\<close>

definition reading :: "(test_workflow \<Rightarrow> 'a) \<Rightarrow> ('a \<Rightarrow> 'b operation) \<Rightarrow> 'b operation" where
  "reading g f t = f (g t) t"

text \<open>A call whose error the code does not look at.\<close>

definition ignoring :: "'a operation \<Rightarrow> unit operation" where
  "ignoring m t =
     (case m t of (Ok _, t') \<Rightarrow> (Ok (), t') | (Fail _, t') \<Rightarrow> (Ok (), t') | (Panic, t') \<Rightarrow> (Panic, t') | (Hang, t') \<Rightarrow> (Hang, t'))"

text \<open>An error that the code wraps.\<close>

definition wrapping :: "string \<Rightarrow> 'a operation \<Rightarrow> 'a operation" where
  "wrapping what m t = (case m t of (Fail err, t') \<Rightarrow> (Fail (what @ '': '' @ err), t') | r \<Rightarrow> r)"

text \<open>A call whose result the code uses before it looks at the error: the nil machine then panics.\<close>

definition unguarded :: "'a operation \<Rightarrow> ('a \<Rightarrow> 'b operation) \<Rightarrow> 'b operation" where
  "unguarded m f t = (case m t of
       (Ok x, t') \<Rightarrow> f x t'
     | (Fail err, t') \<Rightarrow> (Panic, t')
     | (Panic, t') \<Rightarrow> (Panic, t')
     | (Hang, t') \<Rightarrow> (Hang, t'))"

definition lift_sum :: "string + 'a \<Rightarrow> 'a operation" where
  "lift_sum r = (case r of Inl err \<Rightarrow> raise err | Inr x \<Rightarrow> give x)"

text \<open>Some calls one after the other.\<close>

fun in_turn :: "unit operation list \<Rightarrow> unit operation" where
  "in_turn [] = give ()"
| "in_turn (m # ms) = and_then m (\<lambda>_. in_turn ms)"

definition cloud_platform :: string where
  "cloud_platform = ''https://www.googleapis.com/auth/cloud-platform''"

text \<open>A machine that runs some tests, by its name or by its disks and parameters.\<close>

definition run_on :: "engine \<Rightarrow> string \<Rightarrow> string \<Rightarrow> unit operation" where
  "run_on e name tests = and_then (CreateTestVM e name) (\<lambda>vm. modify (RunTests vm tests))"

definition run_instance :: "engine \<Rightarrow> disk_params list \<Rightarrow> machine \<Rightarrow> string \<Rightarrow> unit operation" where
  "run_instance e disks inst tests =
     and_then (CreateTestVMMultipleDisks e disks (Some inst)) (\<lambda>vm. modify (RunTests vm tests))"

text \<open>Metadata, and a machine whose tests shut it down.\<close>

definition set_metadata :: "test_vm \<Rightarrow> (string \<times> string) list \<Rightarrow> unit operation" where
  "set_metadata vm kvs = for_each (\<lambda>kv. modify (AddMetadata vm (fst kv) (snd kv))) kvs"

definition reboots_during_test :: machine where
  "reboots_during_test = new_machine\<lparr>m_Metadata := [ShouldRebootDuringTest \<mapsto> ''true'']\<rparr>"

text \<open>A network and one subnetwork of it.\<close>

type_synonym net_with_subnet = "network_handle \<times> subnetwork_handle"

definition network_with :: "engine \<Rightarrow> string \<Rightarrow> string \<Rightarrow> string \<Rightarrow> net_with_subnet operation" where
  "network_with e net sub ipRange =
     and_then (CreateNetwork e net False) (\<lambda>n. and_then (CreateSubnetwork e n sub ipRange) (\<lambda>s. give (n, s)))"

text \<open>
  The compute service as the setups see it: the workflow's own zone, the name and region of a zone, the
  name and number of CPUs of a machine type.
\<close>

record suite_client =
  sc_own :: "test_workflow \<Rightarrow> string \<times> string"
  sc_GetZone :: "string \<Rightarrow> string \<Rightarrow> string + string \<times> string"
  sc_GetMachineType :: "string \<Rightarrow> string \<Rightarrow> string \<Rightarrow> string + string \<times> int"

text \<open>The name of the machine type of the workflow, which its creation has set.\<close>

definition machine_type :: "test_workflow \<Rightarrow> string" where
  "machine_type t = (case tw_MachineType t of None \<Rightarrow> [] | Some mt \<Rightarrow> mt)"

subsection \<open>Setups that only call fixtures and end\<close>

definition sound_setup :: "engine \<Rightarrow> 'a operation \<Rightarrow> bool" where
  "sound_setup e m \<longleftrightarrow> calls_fixtures e m \<and> (engine_ok e \<longrightarrow> (\<forall>t. built_by e t \<longrightarrow> fst (m t) \<noteq> Hang))"

text \<open>A value that an operation can give.\<close>

definition yielded :: "'a operation \<Rightarrow> 'a \<Rightarrow> bool" where
  "yielded m x \<longleftrightarrow> (\<exists>t t'. m t = (Ok x, t'))"

named_theorems suite_calls \<open>operations whose effect is that of a sequence of fixtures\<close>

lemma calls_at:
  "(\<And>t. \<exists>fs. (\<forall>f \<in> set fs. fixture_call e f) \<and> snd (m t) = fold (\<lambda>f. f) fs t) \<Longrightarrow> calls_fixtures e m"
  by (simp add: calls_fixtures_def)

text \<open>A setup that calls fixtures leaves a workflow that fixtures have built, of the same suite and image.\<close>

lemma setup_builds:
  assumes "engine_ok e" and "calls_fixtures e m" and "built_by e t"
  shows "built_by e (snd (m t)) \<and> identity (snd (m t)) = identity t"
proof -
  obtain fs where "\<forall>f \<in> set fs. fixture_call e f" "snd (m t) = fold (\<lambda>f. f) fs t"
    using assms(2) unfolding calls_fixtures_def by blast
  then show ?thesis using fold_calls [OF assms(1) _ assms(3), of fs] by simp
qed

lemma calls_and_then:
  assumes "calls_fixtures e m" and "\<And>x. yielded m x \<Longrightarrow> calls_fixtures e (f x)"
  shows "calls_fixtures e (and_then m f)"
proof (rule calls_at)
  fix t
  obtain fs where fs: "\<forall>g \<in> set fs. fixture_call e g" "snd (m t) = fold (\<lambda>g. g) fs t"
    using assms(1) unfolding calls_fixtures_def by blast
  show "\<exists>fs. (\<forall>g \<in> set fs. fixture_call e g) \<and> snd (and_then m f t) = fold (\<lambda>g. g) fs t"
  proof (cases "fst (m t)")
    case (Ok x)
    then have "yielded m x" unfolding yielded_def by (metis prod.collapse)
    then obtain gs where gs: "\<forall>g \<in> set gs. fixture_call e g" "snd (f x (snd (m t))) = fold (\<lambda>g. g) gs (snd (m t))"
      using assms(2) unfolding calls_fixtures_def by blast
    have "and_then m f t = f x (snd (m t))" using Ok and_then_simps(1) by (metis prod.collapse)
    then show ?thesis using fs gs by (intro exI [of _ "fs @ gs"]) auto
  qed (use fs in \<open>auto simp: and_then_def split: prod.splits outcome.splits\<close>)
qed

lemma sound_and_then [suite_calls]:
  assumes "sound_setup e m" and f: "\<And>x. yielded m x \<Longrightarrow> sound_setup e (f x)"
  shows "sound_setup e (and_then m f)"
proof -
  have "fst (and_then m f t) \<noteq> Hang" if e: "engine_ok e" and b: "built_by e t" for t
  proof (cases "fst (m t)")
    case (Ok x)
    then have "sound_setup e (f x)" by (intro f) (metis prod.collapse yielded_def)
    moreover have "built_by e (snd (m t))" using setup_builds [OF e _ b, of m] assms(1) by (simp add: sound_setup_def)
    moreover have "and_then m f t = f x (snd (m t))" using Ok and_then_simps(1) by (metis prod.collapse)
    ultimately show ?thesis using e by (simp add: sound_setup_def)
  next
    case Hang
    then show ?thesis using assms(1) e b by (simp add: sound_setup_def)
  qed (auto simp: and_then_def split: prod.splits)
  then show ?thesis using calls_and_then [of e m f] assms by (simp add: sound_setup_def)
qed

lemma sound_ends [suite_calls]:
  "sound_setup e (give x)" "sound_setup e (raise err)" "sound_setup e panic"
  by (simp_all add: sound_setup_def calls_at [OF exI [of _ "[]"]] give_def raise_def panic_def)

lemma sound_call:
  assumes "fixture_call e (\<lambda>t. snd (m t))" and "engine_ok e \<Longrightarrow> keeps built m \<or> (\<forall>t. fst (m t) \<noteq> Hang)"
  shows "sound_setup e m"
proof -
  have "fst (m t) \<noteq> Hang" if "engine_ok e" "built_by e t" for t
    using assms(2) [OF that(1)] keeps_returns [of built m t] built_by_built [OF that] by auto
  moreover have "calls_fixtures e m" by (rule calls_at, rule exI [of _ "[\<lambda>t. snd (m t)]"]) (simp add: assms(1))
  ultimately show ?thesis by (simp add: sound_setup_def)
qed

lemma sound_modify: "fixture_call e f \<Longrightarrow> sound_setup e (modify f)"
  by (rule sound_call) (simp_all add: modify_def)

lemma sound_reading [suite_calls]: "(\<And>x. sound_setup e (f x)) \<Longrightarrow> sound_setup e (reading g f)"
  by (simp add: sound_setup_def calls_fixtures_def reading_def)

lemma sound_same:
  "(\<And>t. snd (m t) = snd (k t) \<and> (fst (m t) = Hang \<longrightarrow> fst (k t) = Hang)) \<Longrightarrow> sound_setup e k \<Longrightarrow> sound_setup e m"
  unfolding sound_setup_def calls_fixtures_def by metis

lemma sound_wrapped [suite_calls]:
  "sound_setup e m \<Longrightarrow> sound_setup e (ignoring m)" "sound_setup e m \<Longrightarrow> sound_setup e (wrapping what m)"
  by (rule sound_same [of _ m]; simp add: ignoring_def wrapping_def split: prod.split outcome.split)+

lemma sound_unguarded [suite_calls]:
  assumes "sound_setup e m" and "\<And>x. yielded m x \<Longrightarrow> sound_setup e (f x)"
  shows "sound_setup e (unguarded m f)"
  by (rule sound_same [OF _ sound_and_then [OF assms]]) (auto simp: unguarded_def and_then_def split: prod.split outcome.split)

lemma sound_cases [suite_calls]:
  "(b \<Longrightarrow> sound_setup e m) \<Longrightarrow> (\<not> b \<Longrightarrow> sound_setup e k) \<Longrightarrow> sound_setup e (if b then m else k)"
  "sound_setup e n \<Longrightarrow> (\<And>x. o1 = Some x \<Longrightarrow> sound_setup e (f x)) \<Longrightarrow> sound_setup e (case o1 of None \<Rightarrow> n | Some x \<Rightarrow> f x)"
  "(\<And>x. s = Inl x \<Longrightarrow> sound_setup e (g x)) \<Longrightarrow> (\<And>y. s = Inr y \<Longrightarrow> sound_setup e (h y))
     \<Longrightarrow> sound_setup e (case s of Inl x \<Rightarrow> g x | Inr y \<Rightarrow> h y)"
  "(\<And>a b. p = (a, b) \<Longrightarrow> sound_setup e (k2 a b)) \<Longrightarrow> sound_setup e (case p of (a, b) \<Rightarrow> k2 a b)"
  by (simp_all split: option.split sum.split prod.split)

lemma sound_lift [suite_calls]: "sound_setup e (lift_sum r)"
  by (simp add: lift_sum_def sound_ends split: sum.split)

lemma sound_in_turn:
  "list_all (sound_setup e) ms \<Longrightarrow> sound_setup e (in_turn ms)"
  by (induction ms) (simp_all add: sound_ends sound_and_then)

lemma sound_turns [suite_calls]:
  "sound_setup e (in_turn [])" "sound_setup e m \<Longrightarrow> sound_setup e (in_turn ms) \<Longrightarrow> sound_setup e (in_turn (m # ms))"
  by (simp_all add: sound_ends sound_and_then)

lemma sound_loops [suite_calls]:
  "(\<And>x. x \<in> set xs \<Longrightarrow> sound_setup e (f x)) \<Longrightarrow> sound_setup e (for_each f xs)"
  "(\<And>x z. x \<in> set xs \<Longrightarrow> sound_setup e (g x z)) \<Longrightarrow> sound_setup e (fold_each g xs y)"
proof -
  show "(\<And>x. x \<in> set xs \<Longrightarrow> sound_setup e (f x)) \<Longrightarrow> sound_setup e (for_each f xs)"
    by (induction xs) (simp_all add: sound_ends sound_and_then)
  show "(\<And>x z. x \<in> set xs \<Longrightarrow> sound_setup e (g x z)) \<Longrightarrow> sound_setup e (fold_each g xs y)"
    by (induction xs arbitrary: y) (simp_all add: sound_ends sound_and_then)
qed

subsection \<open>The fixtures\<close>

text \<open>The builders, which return on what fixtures have built.\<close>

lemma sound_machines [suite_calls]:
  "plain (vmname_of name) \<Longrightarrow> sound_setup e (CreateTestVM e name)"
  "plain (vmname_of (dp_Name (hd disks))) \<Longrightarrow> sound_setup e (CreateTestVMMultipleDisks e disks i)"
  "plain (vmname_of (dp_Name (hd disks))) \<Longrightarrow> sound_setup e (CreateTestVMFromInstanceBeta e j disks)"
  by (rule sound_call, rule fixture_call.intros, assumption, rule disjI1,
      simp add: CreateTestVM_keeps CreateTestVMMultipleDisks_keeps)+

lemma sound_life [suite_calls]:
  "plain (vm_name vm) \<Longrightarrow> sound_setup e (CreateDerivativeVM e vm copy)" "plain (vm_name vm) \<Longrightarrow> sound_setup e (Reboot e vm)"
  "plain (vm_name vm) \<Longrightarrow> sound_setup e (Resume e vm)" "plain (vm_name vm) \<Longrightarrow> sound_setup e (ResizeDiskAndReboot e vm gb)"
  by (rule sound_call, rule fixture_call.intros, assumption, rule disjI1,
      simp add: CreateDerivativeVM_keeps Reboot_keeps Resume_keeps ResizeDiskAndReboot_keeps)+

lemma sound_networks [suite_calls]:
  "sound_setup e (CreateNetworkFromDaisyNetwork e net)" "sound_setup e (CreateNetwork e nm auto)"
  "sound_setup e (CreateSubnetworkFromDaisySubnetwork e n sub)" "sound_setup e (CreateSubnetwork e n nm ipRange)"
  "sound_setup e (CreateFirewallRule e n nm protocol ports ranges)"
  "sound_setup e (WaitForVMQuota e qa)" "sound_setup e (WaitForDisksQuota e qa)"
  by (rule sound_call, rule fixture_call.intros, rule disjI1,
      simp add: CreateNetwork_keeps CreateSubnetwork_keeps CreateFirewallRule_keeps wait_quota_keeps)+

text \<open>The options, which do not loop.\<close>

lemma options_end:
  "fst (UseGVNIC vm t) \<noteq> Hang" "fst (AddCustomNetworkWithStackType vm n s stackType access t) \<noteq> Hang"
  "fst (AddAliasIPRanges vm ip rn t) \<noteq> Hang" "fst (SetPrivateIP vm n ip t) \<noteq> Hang"
  "fst (AddDisk vm diskType initType t) \<noteq> Hang" "fst (SetNetworkPerformanceTier vm tier t) \<noteq> Hang"
  "fst (script_file src key file write vm t) \<noteq> Hang" "fst (AddSSHKey file made user t) \<noteq> Hang"
  by (auto simp: failing_option_defs outcome_defs Let_def split: machine_ref.split option.split list.split sum.split bool.split)

lemma sound_options [suite_calls]:
  "sound_setup e (UseGVNIC vm)" "sound_setup e (AddCustomNetworkWithStackType vm n s stackType access)"
  "sound_setup e (AddCustomNetwork vm n s)" "sound_setup e (AddAliasIPRanges vm ip rn)"
  "sound_setup e (SetPrivateIP vm n ip)" "sound_setup e (AddDisk vm diskType initType)"
  "sound_setup e (SetNetworkPerformanceTier vm tier)" "sound_setup e (script_file src key file write vm)"
  "sound_setup e (AddSSHKey file made user)"
  unfolding AddCustomNetwork_def by (rule sound_call, rule fixture_call.intros, simp add: options_end)+

lemma sound_settings [suite_calls]:
  "sound_setup e (modify (AddMetadata vm key val))" "sound_setup e (modify (AddUser vm user pk))"
  "sound_setup e (modify (set_script key vm script))" "sound_setup e (modify (RunTests vm runtest))"
  "sound_setup e (modify (AddScope vm scope))" "sound_setup e (modify (ForceMachineType vm mt))"
  "sound_setup e (modify (ForceZone vm z))" "sound_setup e (modify (EnableSecureBoot vm))"
  "sound_setup e (modify (SetMTU nh mtu))"
  "sound_setup e (modify (SetRegion sh region))" "sound_setup e (modify (SetPurpose sh purpose))"
  "sound_setup e (modify (SetRole sh role))" "sound_setup e (modify (AddSecondaryRange sh rn ipr))"
  "sound_setup e (modify (Skip message))" "sound_setup e (modify LockProject)"
  "sound_setup e (modify (SkipTests reason tests))" "sound_setup e (modify creates_load_balancers)"
  by (rule sound_modify, rule fixture_call.intros)+

lemma sound_scripts [suite_calls]:
  "sound_setup e (modify (SetShutdownScript vm script))" "sound_setup e (modify (SetWindowsShutdownScript vm script))"
  "sound_setup e (modify (SetStartupScript vm script))" "sound_setup e (modify (SetWindowsStartupScript vm script))"
  "sound_setup e (SetShutdownScriptURL file write vm)" "sound_setup e (SetWindowsShutdownScriptURL file write vm)"
  "sound_setup e (SetWindowsSysprepScriptURL file write vm)"
  by (simp_all add: SetShutdownScript_def SetWindowsShutdownScript_def SetStartupScript_def SetWindowsStartupScript_def
      SetShutdownScriptURL_def SetWindowsShutdownScriptURL_def SetWindowsSysprepScriptURL_def sound_settings sound_options)

lemma sound_patterns [suite_calls]:
  "plain (vmname_of name) \<Longrightarrow> sound_setup e (run_on e name tests)"
  "plain (vmname_of (dp_Name (hd disks))) \<Longrightarrow> sound_setup e (run_instance e disks inst tests)"
  "sound_setup e (network_with e net sub ipRange)" "sound_setup e (set_metadata vm kvs)"
  unfolding run_on_def run_instance_def network_with_def set_metadata_def by (intro suite_calls; assumption)+

text \<open>The names of the machines that builders return.\<close>

lemma yielded_and_then: "yielded (and_then m f) x \<Longrightarrow> \<exists>y. yielded (f y) x"
  unfolding yielded_def by (blast dest: and_then_Ok [THEN iffD1])

lemma yielded_give: "yielded (give x) y \<longleftrightarrow> y = x"
  by (auto simp: yielded_def give_def)

lemma yielded_wrapping [dest]: "yielded (wrapping what m) x \<Longrightarrow> yielded m x"
proof -
  assume "yielded (wrapping what m) x"
  then obtain t t' where w: "wrapping what m t = (Ok x, t')" unfolding yielded_def by blast
  have "m t = (Ok x, t')"
    by (cases "m t"; cases "fst (m t)") (use w in \<open>auto simp: wrapping_def\<close>)
  then show ?thesis unfolding yielded_def by blast
qed

lemma yielded_machine:
  "yielded (CreateTestVM e name) vm \<Longrightarrow> vm_name vm = vmname_of name"
  "yielded (CreateTestVMMultipleDisks e disks i) vm \<Longrightarrow> vm_name vm = vmname_of (dp_Name (hd disks))"
  "yielded (CreateTestVMFromInstanceBeta e j disks) vm \<Longrightarrow> vm_name vm = vmname_of (dp_Name (hd disks))"
proof -
  assume "yielded (CreateTestVM e name) vm"
  then show "vm_name vm = vmname_of name"
    by (auto simp: CreateTestVM_def Let_def yielded_give split: prod.splits dest!: yielded_and_then)
next
  assume "yielded (CreateTestVMMultipleDisks e disks i) vm"
  then show "vm_name vm = vmname_of (dp_Name (hd disks))"
    by (auto simp: yielded_def CreateTestVMMultipleDisks_def Let_def raise_def give_def and_then_Ok split: if_splits prod.splits)
next
  assume "yielded (CreateTestVMFromInstanceBeta e j disks) vm"
  then show "vm_name vm = vmname_of (dp_Name (hd disks))"
    by (auto simp: yielded_def CreateTestVMFromInstanceBeta_def Let_def raise_def give_def and_then_Ok split: if_splits prod.splits)
qed

text \<open>What is left of a goal on a setup: the names of machines.\<close>

lemma vmname_first: "c \<noteq> CHR ''.'' \<Longrightarrow> c \<noteq> CHR ''_'' \<Longrightarrow> vmname_of (c # s) = c # vmname_of s"
  by (cases "Split CHR ''.'' s") (simp_all add: vmname_of_def)

lemmas plain_names = plain_iff vmname_of_def disk_named_def

end
