(* ===== verification/Network_Perf.thy ===== *)
theory Network_Perf
  imports Suite_Calls
begin

text \<open>
  \<open>test_suites/networkperf/setup.go\<close>: the cases of the network performance suite, the performance each is
  held to, and the setup that builds a server and a client for each.  The flags, the regular expression
  of the filter, the startup scripts and the compute service are parameters; the files of targets are
  the tables that their JSON denotes.
\<close>

subsection \<open>Cases\<close>

definition defaultTier :: string where "defaultTier = ''DEFAULT''"
definition tier1Tier :: string where "tier1Tier = ''TIER_1''"
definition x86_64 :: string where "x86_64 = ''X86_64''"
definition arm64 :: string where "arm64 = ''ARM64''"

record networkPerfConfig =
  nc_machineType :: string
  nc_arch :: string
  nc_networks :: "string list"
  nc_zone :: string
  nc_nicTypes :: string

record networkPerfTest =
  np_name :: string
  np_machineType :: string
  np_zone :: string
  np_arch :: string
  np_network :: string
  np_mtu :: int
  np_nicTypes :: "string list"

definition perf_config :: "string \<Rightarrow> string \<Rightarrow> string list \<Rightarrow> string \<Rightarrow> networkPerfConfig" where
  "perf_config machineType arch networks z = \<lparr>nc_machineType = machineType, nc_arch = arch, nc_networks = networks,
     nc_zone = z, nc_nicTypes = []\<rparr>"

definition defaultNetworkPerfTestConfigs :: "networkPerfConfig list" where
  "defaultNetworkPerfTestConfigs =
    [perf_config ''n1-standard-2'' x86_64 [defaultTier] [],
     perf_config ''n2-standard-2'' x86_64 [defaultTier] [],
     perf_config ''n2d-standard-2'' x86_64 [defaultTier] [],
     perf_config ''e2-standard-2'' x86_64 [defaultTier] [],
     perf_config ''t2d-standard-1'' x86_64 [defaultTier] [],
     perf_config ''t2a-standard-1'' arm64 [defaultTier] ''us-central1-a'',
     perf_config ''n2-standard-32'' x86_64 [defaultTier, tier1Tier] [],
     perf_config ''n2d-standard-48'' x86_64 [defaultTier, tier1Tier] [],
     perf_config ''n4-standard-16'' x86_64 [defaultTier] ''us-central1-b'',
     perf_config ''n4-standard-80'' x86_64 [defaultTier] ''us-central1-b'',
     perf_config ''c4-standard-2'' x86_64 [defaultTier] ''us-central1-a'',
     perf_config ''c4-standard-192'' x86_64 [defaultTier, tier1Tier] ''us-central1-a'']"

definition perf_test :: "networkPerfConfig \<Rightarrow> int \<Rightarrow> string \<Rightarrow> string list \<Rightarrow> networkPerfTest" where
  "perf_test c mtu network nicTypes =
     \<lparr>np_name = nc_machineType c @ ''_'' @ itoa mtu @ ''_'' @ network, np_machineType = nc_machineType c, np_zone = nc_zone c,
      np_arch = nc_arch c, np_network = network, np_mtu = mtu, np_nicTypes = nicTypes\<rparr>"

definition add_perf_test ::
  "networkPerfConfig \<Rightarrow> int \<Rightarrow> string \<Rightarrow> networkPerfTest list \<Rightarrow> nic_error + networkPerfTest list" where
  "add_perf_test c mtu network tests =
     (case ExpandNICTypes (nc_nicTypes c) of
        Inl err \<Rightarrow> Inl err
      | Inr nicTypes \<Rightarrow> Inr (tests @ [perf_test c mtu network nicTypes]))"

definition expandNetworkTestConfigs :: "networkPerfConfig list \<Rightarrow> nic_error + networkPerfTest list" where
  "expandNetworkTestConfigs configs =
     fold_err (\<lambda>c. fold_err (\<lambda>mtu. fold_err (add_perf_test c mtu) (nc_networks c)) [DefaultMTU, JumboFramesMTU]) configs []"

definition filterNetworkTestConfigs :: "networkPerfTest list \<Rightarrow> (string \<Rightarrow> bool) \<Rightarrow> string \<Rightarrow> networkPerfTest list" where
  "filterNetworkTestConfigs tests matches imageArch = filter (\<lambda>test. matches (np_name test) \<and> np_arch test = imageArch) tests"

subsection \<open>Targets\<close>

definition default_targets :: "(string \<times> int) list" where
  "default_targets =
    [(''c3-standard-4'', 23), (''c3-standard-44'', 32), (''c3-standard-88'', 62),
     (''c3-standard-176'', 100), (''c3-highcpu-4'', 23), (''c3-highcpu-44'', 32), (''c3-highcpu-88'', 62),
     (''c3-highcpu-176'', 100), (''c3-highmem-4'', 23), (''c3-highmem-44'', 32), (''c3-highmem-88'', 62),
     (''c3-highmem-176'', 100), (''c3-standard-4-lssd'', 23), (''c3-standard-44-lssd'', 32),
     (''c3-standard-88-lssd'', 62), (''c3-standard-176-lssd'', 100), (''e2-standard-2'', 4),
     (''e2-standard-4'', 8), (''e2-standard-8'', 16), (''e2-highmem-2'', 4), (''e2-highmem-4'', 8),
     (''e2-highmem-8'', 16), (''e2-highcpu-2'', 4), (''e2-highcpu-4'', 8), (''e2-highcpu-8'', 16),
     (''n1-standard-1'', 2), (''n1-standard-2'', 10), (''n1-standard-8'', 16), (''n1-standard-16'', 32),
     (''n1-highmem-2'', 10), (''n1-highmem-16'', 16), (''n1-highmem-32'', 32), (''n1-highcpu-2'', 10),
     (''n1-highcpu-16'', 16), (''n1-highcpu-32'', 32), (''n4-standard-2'', 10), (''n4-standard-8'', 16),
     (''n4-standard-16'', 32), (''n4-standard-64'', 45), (''n4-standard-80'', 50), (''n4-highmem-2'', 10),
     (''n4-highmem-8'', 16), (''n4-highmem-16'', 32), (''n4-highmem-64'', 45), (''n4-highmem-80'', 50),
     (''n4-highcpu-2'', 10), (''n4-highcpu-8'', 16), (''n4-highcpu-16'', 32), (''n4-highcpu-64'', 45),
     (''n4-highcpu-80'', 50), (''c4-standard-2'', 10), (''c4-standard-48'', 34), (''c4-standard-96'', 67),
     (''c4-standard-192'', 100), (''c4-highmem-2'', 23), (''c4-highmem-48'', 34), (''c4-highmem-96'', 67),
     (''c4-highmem-192'', 100), (''c4-highcpu-2'', 23), (''c4-highcpu-48'', 34), (''c4-highcpu-96'', 67),
     (''c4-highcpu-192'', 100), (''n2-standard-2'', 10), (''n2-standard-8'', 16), (''n2-standard-16'', 32),
     (''n2-highmem-2'', 10), (''n2-highmem-16'', 16), (''n2-highmem-32'', 32), (''n2-highcpu-2'', 10),
     (''n2-highcpu-16'', 16), (''n2-highcpu-32'', 32), (''n2d-standard-2'', 10), (''n2d-standard-8'', 16),
     (''n2d-standard-16'', 32), (''n2d-highmem-2'', 10), (''n2d-highmem-16'', 16),
     (''n2d-highmem-32'', 32), (''n2d-highcpu-2'', 10), (''n2d-highcpu-16'', 16), (''n2d-highcpu-32'', 32),
     (''t2d-standard-1'', 10), (''t2d-standard-8'', 16), (''t2d-standard-16'', 32),
     (''t2a-standard-1'', 10), (''t2a-standard-8'', 16), (''t2a-standard-16'', 32),
     (''a3-ultragpu-8g'', 200)]"

definition tier1_targets :: "(string \<times> int) list" where
  "tier1_targets =
    [(''c3-standard-44'', 50), (''c3-standard-88'', 100), (''c3-standard-176'', 200),
     (''c3-highcpu-44'', 50), (''c3-highcpu-88'', 100), (''c3-highcpu-176'', 200), (''c3-highmem-44'', 50),
     (''c3-highmem-88'', 100), (''c3-highmem-176'', 200), (''c3-standard-44-lssd'', 50),
     (''c3-standard-88-lssd'', 100), (''c3-standard-176-lssd'', 200), (''n2-standard-32'', 50),
     (''n2-standard-64'', 75), (''n2-standard-80'', 100), (''n2-highcpu-32'', 50), (''n2-highcpu-64'', 75),
     (''n2-highcpu-80'', 100), (''n2-highmem-32'', 50), (''n2-highmem-64'', 75), (''n2-highmem-80'', 100),
     (''n2d-standard-48'', 50), (''n2d-standard-96'', 100), (''n2d-highcpu-48'', 50),
     (''n2d-highcpu-96'', 100), (''n2d-highmem-48'', 50), (''n2d-highmem-96'', 100),
     (''c4-standard-48'', 50), (''c4-standard-96'', 100), (''c4-standard-192'', 200),
     (''c4-highmem-48'', 50), (''c4-highmem-96'', 100), (''c4-highmem-192'', 200), (''c4-highcpu-48'', 50),
     (''c4-highcpu-96'', 100), (''c4-highcpu-192'', 200)]"

text \<open>\<open>-[0-9]+$\<close> replaced by another number of CPUs; a name without the suffix stays as it is.\<close>

definition with_cpus :: "string \<Rightarrow> int \<Rightarrow> string" where
  "with_cpus name n =
     (let stem = rev (dropWhile digit (rev name))
      in if stem \<noteq> [] \<and> last stem = CHR ''-'' \<and> stem \<noteq> name then stem @ itoa n else name)"

function expected_below :: "(string \<times> int) list \<Rightarrow> string \<Rightarrow> int \<Rightarrow> int option" where
  "expected_below targetMap name numCPUs =
     (let n = numCPUs - 1
      in case map_of targetMap (with_cpus name n) of
           Some perf \<Rightarrow> Some perf
         | None \<Rightarrow> if n \<le> 1 then None else expected_below targetMap name n)"
  by pat_completeness auto
termination by (relation "measure (\<lambda>(m, name, n). nat n)") auto

declare expected_below.simps [simp del]

text \<open>The machine type is its name and its number of CPUs.\<close>

definition getExpectedPerf :: "(string \<times> int) list \<Rightarrow> string \<times> int \<Rightarrow> string + int" where
  "getExpectedPerf targetMap machineType =
     (case map_of targetMap (fst machineType) of
        Some perf \<Rightarrow> Inr perf
      | None \<Rightarrow> (case expected_below targetMap (fst machineType) (snd machineType) of
            None \<Rightarrow> Inl (''Error: appropriate perf target not found for '' @ fst machineType)
          | Some perf \<Rightarrow> Inr perf))"

definition perfTarget :: "string \<times> int \<Rightarrow> string \<Rightarrow> string + int" where
  "perfTarget machineType networkTier =
     (if networkTier \<noteq> defaultTier \<and> networkTier \<noteq> tier1Tier then Inl (''unknown network tier: '' @ networkTier)
      else case getExpectedPerf (if networkTier = defaultTier then default_targets else tier1_targets) machineType of
             Inl err \<Rightarrow> Inl (''could not get default perf target: '' @ err)
           | Inr perf \<Rightarrow> Inr perf)"

subsection \<open>Networks and machines\<close>

record networkperf_flags =
  nf_test_filter :: string
  nf_use_spot_instances :: bool
  nf_network_tiers :: string
  nf_nic_types :: string

text \<open>What the setup reads: its flags, the service, the compiler of the filter and the embedded scripts.\<close>

record networkperf_env =
  ne_flags :: networkperf_flags
  ne_client :: suite_client
  ne_compile :: "string \<Rightarrow> string + (string \<Rightarrow> bool)"
  ne_scripts :: "string \<Rightarrow> string + string"

definition startupScripts :: "networkperf_env \<Rightarrow> image \<Rightarrow> string + string \<times> string" where
  "startupScripts v img =
     (let base = (\<lambda>f. ''startupscripts/'' @ (if HasFeature img ''WINDOWS'' then ''windows_'' @ f @ ''.ps1'' else ''linux_'' @ f @ ''.sh''))
      in case ne_scripts v (base ''common'') of Inl err \<Rightarrow> Inl err | Inr common \<Rightarrow>
        (case ne_scripts v (base ''serverstartup'') of Inl err \<Rightarrow> Inl err | Inr server \<Rightarrow>
        (case ne_scripts v (base ''clientstartup'') of Inl err \<Rightarrow> Inl err | Inr client \<Rightarrow>
           Inr (common @ server, common @ client))))"

definition sanitizeResourceName :: "string \<Rightarrow> string" where
  "sanitizeResourceName name = filter (\<lambda>c. c \<noteq> CHR ''-'') (filter (\<lambda>c. c \<noteq> CHR ''_'') (map ascii_lower name))"

definition networkPrefix :: "nat \<Rightarrow> string" where
  "networkPrefix ifaceIndex = ''192.168.'' @ utoa ifaceIndex @ ''.0/24''"

definition clientAddress :: "nat \<Rightarrow> string" where
  "clientAddress ifaceIndex = ''192.168.'' @ utoa ifaceIndex @ ''.2''"

definition serverAddress :: "nat \<Rightarrow> string" where
  "serverAddress ifaceIndex = ''192.168.'' @ utoa ifaceIndex @ ''.3''"

record networkConfig =
  cg_network :: network_handle
  cg_subnetwork :: subnetwork_handle
  cg_nicType :: string

text \<open>The options of \<open>createNetworks\<close> are its arguments.\<close>

definition create_network ::
  "engine \<Rightarrow> string \<Rightarrow> string \<Rightarrow> int \<Rightarrow> nat \<times> string \<Rightarrow> networkConfig list \<Rightarrow> networkConfig list operation" where
  "create_network e namePrefix region mtu it configs =
     (let (ifaceIndex, nicType) = it; ifNameprefix = namePrefix @ utoa ifaceIndex
      in if nicType \<noteq> ''GVNIC'' then raise (''unsupported nic type: '' @ nicType)
         else and_then (CreateNetwork e ifNameprefix False) (\<lambda>network.
              and_then (CreateSubnetwork e network ifNameprefix (networkPrefix ifaceIndex)) (\<lambda>subnetwork.
              and_then (modify (SetRegion subnetwork region)) (\<lambda>_.
              and_then (CreateFirewallRule e network (''allow-iperf-'' @ ifNameprefix) ''tcp'' [''5001-5010'']
                (Some [networkPrefix ifaceIndex])) (\<lambda>_.
              and_then (if mtu = JumboFramesMTU then modify (SetMTU network JumboFramesMTU) else give ()) (\<lambda>_.
              give (configs @ [\<lparr>cg_network = network, cg_subnetwork = subnetwork, cg_nicType = nicType\<rparr>])))))))"

definition createNetworks :: "engine \<Rightarrow> string \<Rightarrow> string \<Rightarrow> int \<Rightarrow> string list \<Rightarrow> networkConfig list operation" where
  "createNetworks e namePrefix region mtu nicTypes =
     fold_each (create_network e namePrefix region mtu) (enumerate 0 nicTypes) []"

definition attach_network :: "string \<Rightarrow> test_vm \<Rightarrow> nat \<times> networkConfig \<Rightarrow> unit operation" where
  "attach_network machinePrefix vm ic =
     (if machinePrefix \<noteq> ''client'' \<and> machinePrefix \<noteq> ''server'' then raise (''unknown machine prefix: '' @ machinePrefix)
      else and_then (wrapping ''adding network'' (AddCustomNetwork vm (cg_network (snd ic)) (Some (cg_subnetwork (snd ic))))) (\<lambda>_.
           wrapping ''setting private IP'' (SetPrivateIP vm (cg_network (snd ic))
             (if machinePrefix = ''client'' then clientAddress (fst ic) else serverAddress (fst ic)))))"

definition createMachine ::
  "engine \<Rightarrow> bool \<Rightarrow> string \<Rightarrow> string \<Rightarrow> networkConfig list \<Rightarrow> string \<Rightarrow> string \<Rightarrow> test_vm operation" where
  "createMachine e spot testName machinePrefix networkConfigs machineType z =
     (let name = machinePrefix @ sanitizeResourceName testName;
          disk = (disk_named name)\<lparr>dp_Type := DiskTypeNeeded machineType, dp_Zone := z\<rparr>;
          inst = (if spot then new_machine\<lparr>m_Scheduling := Some (no_scheduling\<lparr>sch_Preemptible := True\<rparr>)\<rparr> else new_machine)
      in and_then (wrapping ''creating machine'' (CreateTestVMMultipleDisks e [disk] (Some inst))) (\<lambda>vm.
         and_then (modify (ForceMachineType vm machineType)) (\<lambda>_.
         and_then (modify (ForceZone vm z)) (\<lambda>_.
         and_then (for_each (attach_network machinePrefix vm) (enumerate 0 networkConfigs)) (\<lambda>_.
         give vm)))))"

subsection \<open>The setup\<close>

fun parse_tiers :: "string list \<Rightarrow> string + string list" where
  "parse_tiers [] = Inr []"
| "parse_tiers (x # xs) =
     (let p = TrimSpace x
      in if p = [] then parse_tiers xs
         else if p = defaultTier \<or> p = tier1Tier then map_sum id (\<lambda>ts. p # ts) (parse_tiers xs)
         else Inl (''invalid network tier: '' @ p))"

definition parseNetworkTiers :: "string \<Rightarrow> string + string list" where
  "parseNetworkTiers s =
     (case parse_tiers (Split (CHR '','') s) of
        Inl err \<Rightarrow> Inl err
      | Inr tiers \<Rightarrow> Inr (if tiers = [] then [defaultTier] else tiers))"

fun nic_text :: "nic_error \<Rightarrow> string" where
  "nic_text (BadNic s) = ''invalid nic type count: '' @ s"
| "nic_text (BadCount s) = ''invalid count: '' @ s"

definition expanded :: "networkPerfConfig list \<Rightarrow> string + networkPerfTest list" where
  "expanded cs = map_sum (\<lambda>err. ''expanding network test configs: '' @ nic_text err) id (expandNetworkTestConfigs cs)"

definition testConfigs :: "networkperf_env \<Rightarrow> test_workflow \<Rightarrow> string + networkPerfTest list" where
  "testConfigs v t =
     (if nf_test_filter (ne_flags v) \<noteq> []
      then (case ne_compile v (nf_test_filter (ne_flags v)) of
              Inl err \<Rightarrow> Inl (''parsing test filter: '' @ err)
            | Inr matches \<Rightarrow> map_sum id (\<lambda>tests. filterNetworkTestConfigs tests matches (im_Architecture (tw_Image t)))
                (expanded defaultNetworkPerfTestConfigs))
      else (case parseNetworkTiers (nf_network_tiers (ne_flags v)) of
              Inl err \<Rightarrow> Inl (''parsing network tiers: '' @ err)
            | Inr tiers \<Rightarrow> expanded [\<lparr>nc_machineType = (case tw_MachineType t of None \<Rightarrow> [] | Some mt \<Rightarrow> mt), nc_arch = [],
                nc_networks = tiers, nc_zone = fst (sc_own (ne_client v) t), nc_nicTypes = nf_nic_types (ne_flags v)\<rparr>]))"

text \<open>The name and the region of the zone of a case.\<close>

definition case_zone :: "networkperf_env \<Rightarrow> networkPerfTest \<Rightarrow> test_workflow \<Rightarrow> string + string \<times> string" where
  "case_zone v tc t =
     (if np_zone tc = [] then Inr (fst (sc_own (ne_client v) t), path_Base (snd (sc_own (ne_client v) t)))
      else map_sum id (\<lambda>z. (fst z, path_Base (snd z))) (sc_GetZone (ne_client v) (tw_Project t) (np_zone tc)))"

definition setup_case :: "engine \<Rightarrow> networkperf_env \<Rightarrow> networkPerfTest \<Rightarrow> unit operation" where
  "setup_case e v tc =
     reading (\<lambda>t. t) (\<lambda>t0.
     and_then (lift_sum (case_zone v tc t0)) (\<lambda>(z, region).
     and_then (lift_sum (sc_GetMachineType (ne_client v) (tw_Project t0) z (np_machineType tc))) (\<lambda>machine.
     and_then (wrapping ''creating networks'' (createNetworks e (sanitizeResourceName (np_name tc)) region (np_mtu tc) (np_nicTypes tc))) (\<lambda>configs.
     and_then (wrapping ''loading startup scripts'' (lift_sum (startupScripts v (tw_Image t0)))) (\<lambda>(serverStartup, clientStartup).
     and_then (wrapping ''creating server machine'' (createMachine e (nf_use_spot_instances (ne_flags v)) (np_name tc) ''server'' configs
       (np_machineType tc) z)) (\<lambda>serverVM.
     and_then (wrapping ''creating client machine'' (createMachine e (nf_use_spot_instances (ne_flags v)) (np_name tc) ''client'' configs
       (np_machineType tc) z)) (\<lambda>clientVM.
     and_then (if HasFeature (tw_Image t0) ''WINDOWS''
         then and_then (modify (SetWindowsStartupScript serverVM serverStartup)) (\<lambda>_. modify (SetWindowsStartupScript clientVM clientStartup))
         else and_then (modify (SetStartupScript serverVM serverStartup)) (\<lambda>_. modify (SetStartupScript clientVM clientStartup))) (\<lambda>_.
     and_then (wrapping ''getting perf target'' (lift_sum (perfTarget machine (np_network tc)))) (\<lambda>target.
     and_then (modify (AddMetadata clientVM ''enable-guest-attributes'' ''TRUE'')) (\<lambda>_.
     and_then (modify (AddMetadata clientVM ''num-parallel-tests'' (utoa (length configs)))) (\<lambda>_.
     and_then (modify (AddMetadata serverVM ''num-parallel-tests'' (utoa (length configs)))) (\<lambda>_.
     and_then (for_each (\<lambda>i. modify (AddMetadata clientVM (''iperftarget-'' @ utoa i) (serverAddress i))) [0..<length configs]) (\<lambda>_.
     and_then (modify (AddMetadata clientVM ''expectedperf'' (itoa target))) (\<lambda>_.
     and_then (modify (AddMetadata clientVM ''network-tier'' (np_network tc))) (\<lambda>_.
     and_then (UseGVNIC clientVM) (\<lambda>_.
     and_then (UseGVNIC serverVM) (\<lambda>_.
     and_then (modify (RunTests serverVM ''TestGVNICExists'')) (\<lambda>_.
     modify (RunTests clientVM ''TestGVNICExists|TestNetworkPerformance'')))))))))))))))))))"

definition networkperf_TestSetup :: "engine \<Rightarrow> networkperf_env \<Rightarrow> unit operation" where
  "networkperf_TestSetup e v =
     and_then (reading tw_Image (\<lambda>img. if \<not> HasFeature img ''GVNIC''
       then modify (Skip ([CHR 0x22] @ im_Name img @ [CHR 0x22] @ '' does not support GVNIC'')) else give ())) (\<lambda>_.
     and_then (reading (testConfigs v) (\<lambda>tests. wrapping ''getting test configs'' (lift_sum tests))) (\<lambda>tests.
     for_each (setup_case e v) tests))"

subsection \<open>The performance that is expected\<close>

lemma expected_below_iff:
  "expected_below m name n = Some p \<longleftrightarrow>
     (\<exists>k < n. (1 \<le> k \<or> k = n - 1) \<and> map_of m (with_cpus name k) = Some p
        \<and> (\<forall>j. k < j \<and> j < n \<longrightarrow> map_of m (with_cpus name j) = None))"
proof (induction m name n rule: expected_below.induct)
  case (1 m name n)
  show ?case
  proof (cases "map_of m (with_cpus name (n - 1))")
    case (Some q)
    have "k = n - 1" if "k < n" "\<forall>j. k < j \<and> j < n \<longrightarrow> map_of m (with_cpus name j) = None" for k
      using that Some spec [OF that(2), of "n - 1"] by (cases "k < n - 1") auto
    moreover have "expected_below m name n = Some q" using Some by (subst expected_below.simps) (simp add: Let_def)
    moreover have "n - 1 < n \<and> (\<forall>j. n - 1 < j \<and> j < n \<longrightarrow> map_of m (with_cpus name j) = None)" by auto
    ultimately show ?thesis using Some by (metis option.inject)
  next
    case None
    note none = None
    show ?thesis
    proof (cases "n - 1 \<le> 1")
      case True
      have "expected_below m name n = None" using none True by (subst expected_below.simps) (simp add: Let_def)
      moreover have "k = n - 1" if "k < n" "1 \<le> k \<or> k = n - 1" for k using that True by auto
      ultimately show ?thesis using none by (metis option.distinct(1))
    next
      case False
      have step: "expected_below m name n = expected_below m name (n - 1)"
        using none False by (subst expected_below.simps) (simp add: Let_def)
      have later: "(\<forall>j. k < j \<and> j < n \<longrightarrow> map_of m (with_cpus name j) = None)
          \<longleftrightarrow> (\<forall>j. k < j \<and> j < n - 1 \<longrightarrow> map_of m (with_cpus name j) = None)" for k
      proof (intro iffI allI impI)
        fix j assume a: "\<forall>j. k < j \<and> j < n - 1 \<longrightarrow> map_of m (with_cpus name j) = None" "k < j \<and> j < n"
        then show "map_of m (with_cpus name j) = None" using none by (cases "j = n - 1") auto
      qed auto
      have first: "(k < n \<and> (1 \<le> k \<or> k = n - 1) \<and> map_of m (with_cpus name k) = Some p)
          = (k < n - 1 \<and> (1 \<le> k \<or> k = n - 1 - 1) \<and> map_of m (with_cpus name k) = Some p)" for k
        using none False by (cases "k = n - 1") auto
      have "(k < n \<and> (1 \<le> k \<or> k = n - 1) \<and> map_of m (with_cpus name k) = Some p
            \<and> (\<forall>j. k < j \<and> j < n \<longrightarrow> map_of m (with_cpus name j) = None))
          = (k < n - 1 \<and> (1 \<le> k \<or> k = n - 1 - 1) \<and> map_of m (with_cpus name k) = Some p
            \<and> (\<forall>j. k < j \<and> j < n - 1 \<longrightarrow> map_of m (with_cpus name j) = None))" for k
        unfolding later using first by blast
      then show ?thesis using 1 [OF refl none False] unfolding step by simp
    qed
  qed
qed

text \<open>C35: The performance a machine is held to: the search for a breakpoint always ends, and it yields the target
  of the machine type itself, or else that of the type with the greatest smaller number of CPUs, down to
  one, that has a target; it is an error exactly when there is none.\<close>

theorem expected_perf_exact:
  "(getExpectedPerf m (name, n) = Inr p) = (map_of m name = Some p \<or> (map_of m name = None
     \<and> (\<exists>k < n. (1 \<le> k \<or> k = n - 1) \<and> map_of m (with_cpus name k) = Some p
          \<and> \<not> (\<exists>j. k < j \<and> j < n \<and> map_of m (with_cpus name j) \<noteq> None))))"
  using expected_below_iff [of m name n p] by (auto simp: getExpectedPerf_def split: option.splits)

text \<open>The number of CPUs in a name.\<close>

definition cpus_in :: "string \<Rightarrow> int" where
  "cpus_in name = (case digits_val 0 (rev (takeWhile digit (rev name))) of None \<Rightarrow> 0 | Some n \<Rightarrow> n)"

definition mtus :: "int list" where "mtus = [DefaultMTU, JumboFramesMTU]"

definition cases_of :: "string list \<Rightarrow> networkPerfConfig \<Rightarrow> networkPerfTest list" where
  "cases_of nicTypes c = concat (map (\<lambda>mtu. map (\<lambda>network. perf_test c mtu network nicTypes) (nc_networks c)) mtus)"

lemma fold_err_Inr: "(\<And>x ys. x \<in> set xs \<Longrightarrow> f x ys = Inr (ys @ g x)) \<Longrightarrow> fold_err f xs ys = Inr (ys @ concat (map g xs))"
  by (induction xs arbitrary: ys) simp_all

lemma expand_flat:
  assumes "\<And>c. c \<in> set configs \<Longrightarrow> ExpandNICTypes (nc_nicTypes c) = Inr nicTypes"
  shows "expandNetworkTestConfigs configs = Inr (concat (map (cases_of nicTypes) configs))"
proof -
  have one: "fold_err (add_perf_test c mtu) nets ys = Inr (ys @ map (\<lambda>network. perf_test c mtu network nicTypes) nets)"
    if "c \<in> set configs" for c mtu nets ys
    using fold_err_Inr [of nets "add_perf_test c mtu" "\<lambda>network. [perf_test c mtu network nicTypes]" ys] assms [OF that]
    by (simp add: add_perf_test_def map_concat)
  have two: "fold_err (\<lambda>mtu. fold_err (add_perf_test c mtu) (nc_networks c)) [DefaultMTU, JumboFramesMTU] ys
      = Inr (ys @ cases_of nicTypes c)" if "c \<in> set configs" for c ys
    by (simp add: one [OF that] cases_of_def mtus_def)
  show ?thesis
    unfolding expandNetworkTestConfigs_def
    using fold_err_Inr [of configs "\<lambda>c. fold_err (\<lambda>mtu. fold_err (add_perf_test c mtu) (nc_networks c)) [DefaultMTU, JumboFramesMTU]"
      "cases_of nicTypes" "[]"] two by simp
qed

definition default_cases :: "networkPerfTest list" where
  "default_cases = concat (map (cases_of [''GVNIC'']) defaultNetworkPerfTestConfigs)"

lemma mtu_names: "itoa DefaultMTU = ''1460''" "itoa JumboFramesMTU = ''8896''"
proof -
  have "map char_of [48 :: nat, 49, 52, 54, 56, 57] = ''014689''" by code_simp
  then show "itoa DefaultMTU = ''1460''" "itoa JumboFramesMTU = ''8896''"
    by (simp_all add: DefaultMTU_def JumboFramesMTU_def itoa_def utoa.simps digit_char_def)
qed

lemma default_names:
  "map np_name default_cases =
    [''n1-standard-2_1460_DEFAULT'', ''n1-standard-2_8896_DEFAULT'', ''n2-standard-2_1460_DEFAULT'', ''n2-standard-2_8896_DEFAULT'',
     ''n2d-standard-2_1460_DEFAULT'', ''n2d-standard-2_8896_DEFAULT'', ''e2-standard-2_1460_DEFAULT'', ''e2-standard-2_8896_DEFAULT'',
     ''t2d-standard-1_1460_DEFAULT'', ''t2d-standard-1_8896_DEFAULT'', ''t2a-standard-1_1460_DEFAULT'', ''t2a-standard-1_8896_DEFAULT'',
     ''n2-standard-32_1460_DEFAULT'', ''n2-standard-32_1460_TIER_1'', ''n2-standard-32_8896_DEFAULT'', ''n2-standard-32_8896_TIER_1'',
     ''n2d-standard-48_1460_DEFAULT'', ''n2d-standard-48_1460_TIER_1'', ''n2d-standard-48_8896_DEFAULT'', ''n2d-standard-48_8896_TIER_1'',
     ''n4-standard-16_1460_DEFAULT'', ''n4-standard-16_8896_DEFAULT'', ''n4-standard-80_1460_DEFAULT'', ''n4-standard-80_8896_DEFAULT'',
     ''c4-standard-2_1460_DEFAULT'', ''c4-standard-2_8896_DEFAULT'', ''c4-standard-192_1460_DEFAULT'', ''c4-standard-192_1460_TIER_1'',
     ''c4-standard-192_8896_DEFAULT'', ''c4-standard-192_8896_TIER_1'']"
  by (simp add: default_cases_def defaultNetworkPerfTestConfigs_def cases_of_def mtus_def perf_test_def perf_config_def
      mtu_names defaultTier_def tier1Tier_def)

definition default_types :: "(string \<times> string) list" where
  "default_types = concat (map (\<lambda>c. map (Pair (nc_machineType c)) (nc_networks c)) defaultNetworkPerfTestConfigs)"

lemma default_case_types: "tc \<in> set default_cases \<Longrightarrow> (np_machineType tc, np_network tc) \<in> set default_types"
  by (auto simp: default_cases_def default_types_def cases_of_def mtus_def perf_test_def image_iff)

lemma default_targets_found:
  "list_all (\<lambda>(m, n). case perfTarget (m, cpus_in m) n of Inl err \<Rightarrow> False | Inr p \<Rightarrow> True) default_types"
  by code_simp

text \<open>The configured cases are complete: each of the twelve machine types is tested with both MTUs and each of
  its tiers, on one GVNIC; the names that the machines and networks of the cases are built from are
  distinct; and each case has a performance target for as many CPUs as the name of its type has.\<close>

theorem default_cases_complete:
  "expandNetworkTestConfigs defaultNetworkPerfTestConfigs
     = Inr (concat (map (\<lambda>c. concat (map (\<lambda>mtu. map (\<lambda>network. perf_test c mtu network [''GVNIC'']) (nc_networks c))
         [DefaultMTU, JumboFramesMTU])) defaultNetworkPerfTestConfigs))
   \<and> length default_cases = 30 \<and> distinct (map (sanitizeResourceName \<circ> np_name) default_cases)
   \<and> list_all (\<lambda>tc. \<exists>p. perfTarget (np_machineType tc, cpus_in (np_machineType tc)) (np_network tc) = Inr p) default_cases"
proof -
  have n: "ExpandNICTypes (nc_nicTypes c) = Inr [''GVNIC'']" if "c \<in> set defaultNetworkPerfTestConfigs" for c
    using that by (auto simp: defaultNetworkPerfTestConfigs_def perf_config_def ExpandNICTypes_def expand_nic_def
        TrimSpace_def NICTypeGVNIC_def)
  note expand_flat [OF n, unfolded cases_of_def mtus_def]
  moreover have "length (map np_name default_cases) = 30" unfolding default_names by simp
  moreover have "distinct (map sanitizeResourceName (map np_name default_cases))" unfolding default_names by code_simp
  moreover have "\<exists>p. perfTarget (np_machineType tc, cpus_in (np_machineType tc)) (np_network tc) = Inr p"
    if "tc \<in> set default_cases" for tc
    using default_case_types [OF that] default_targets_found
    by (cases "perfTarget (np_machineType tc, cpus_in (np_machineType tc)) (np_network tc)") (fastforce simp: list_all_iff)+
  ultimately show ?thesis by (simp add: list_all_iff)
qed

subsection \<open>The setup calls fixtures\<close>

lemma plain_machines: "plain (vmname_of (''client'' @ s))" "plain (vmname_of (''server'' @ s))"
  by (simp_all add: plain_iff vmname_first)

lemma createMachine_calls:
  assumes "machinePrefix = ''client'' \<or> machinePrefix = ''server''"
  shows "sound_setup e (createMachine e spot testName machinePrefix configs machineType z)"
  unfolding createMachine_def attach_network_def Let_def
  by (intro suite_calls) (use assms plain_machines in \<open>auto simp: disk_named_def\<close>)

lemma createNetworks_calls: "sound_setup e (createNetworks e namePrefix region mtu nicTypes)"
  unfolding createNetworks_def create_network_def Let_def
  by (intro suite_calls)

lemma networkperf_calls: "sound_setup e (networkperf_TestSetup e v)"
  unfolding networkperf_TestSetup_def setup_case_def SetStartupScript_def SetWindowsStartupScript_def
  by (intro suite_calls createMachine_calls createNetworks_calls) simp_all

end
