(* ===== verification/Storage_Perf.thy ===== *)
theory Storage_Perf
  imports Suite_Calls
begin

text \<open>
  \<open>test_suites/storageperf\<close>: the configured cases, the performance and the disk size each is given, the
  setup that builds a machine for each, and the options and the environment of the benchmark that runs
  on it (\<open>storage_perf_utils.go\<close>).  The flag, the compute service, the embedded script and the outside
  of the machine are parameters.  The targets are whole numbers, and so small that the division of
  floats, truncated, is that of integers.
\<close>

subsection \<open>Targets\<close>

definition HyperdiskExtreme :: string where "HyperdiskExtreme = ''hyperdisk-extreme''"
definition HyperdiskThroughput :: string where "HyperdiskThroughput = ''hyperdisk-throughput''"

record PerformanceTargets =
  pt_randReadIOPS :: int
  pt_randWriteIOPS :: int
  pt_seqReadBW :: int
  pt_seqWriteBW :: int

definition targets :: "int \<Rightarrow> int \<Rightarrow> int \<Rightarrow> int \<Rightarrow> PerformanceTargets" where
  "targets rr rw sr sw = \<lparr>pt_randReadIOPS = rr, pt_randWriteIOPS = rw, pt_seqReadBW = sr, pt_seqWriteBW = sw\<rparr>"

definition lssdIOPSMap :: "(string \<times> PerformanceTargets) list" where
  "lssdIOPSMap =
     [(''c3-standard-88-lssd'', targets 1600000 800000 6240 3120),
      (''c3d-standard-180'', targets 1600000 800000 6240 3120)]"

definition hyperdiskExtremeIOPSMap :: "(string \<times> PerformanceTargets) list" where
  "hyperdiskExtremeIOPSMap =
     [(''c3-standard-88'', targets 350000 350000 5000 5000),
      (''c3d-standard-180'', targets 350000 350000 5000 5000),
      (''n2-standard-80'', targets 160000 160000 5000 5000),
      (''c4-standard-192'', targets 1000000 1000000 10000 10000)]"

definition hyperdiskBalancedIOPSMap :: "(string \<times> PerformanceTargets) list" where
  "hyperdiskBalancedIOPSMap =
     [(''n4-standard-48'', targets 160000 160000 2400 2400),
      (''n4-standard-64'', targets 160000 160000 3000 3000),
      (''c4-standard-192'', targets 320000 320000 10000 10000)]"

definition hyperdiskThroughputIOPSMap :: "(string \<times> PerformanceTargets) list" where
  "hyperdiskThroughputIOPSMap =
     [(''c4-standard-192'', targets 320000 320000 10000 10000)]"

definition pdbalanceIOPSMap :: "(string \<times> PerformanceTargets) list" where
  "pdbalanceIOPSMap =
     [(''c3-standard-88'', targets 80000 80000 1200 1200),
      (''c3d-standard-180'', targets 80000 80000 1200 1200),
      (''n2d-standard-64'', targets 80000 80000 1200 1200),
      (''n1-standard-64'', targets 80000 80000 1200 1200),
      (''h3-standard-88'', targets 15000 15000 240 240),
      (''t2a-standard-48'', targets 80000 80000 1800 1800)]"

definition iopsPerGBMap :: "(string \<times> int) list" where
  "iopsPerGBMap = [(HyperdiskExtreme, 1000), (PdBalanced, 6), (''lssd'', 0)]"

definition bootdiskSizeGB :: int where "bootdiskSizeGB = 50"
definition mountDiskName :: string where "mountDiskName = ''hyperdisk''"

definition iops_target :: "string \<Rightarrow> string \<Rightarrow> PerformanceTargets option" where
  "iops_target machineType diskType =
     (if diskType = PdBalanced then map_of pdbalanceIOPSMap machineType
      else if diskType = HyperdiskExtreme then map_of hyperdiskExtremeIOPSMap machineType
      else if diskType = HyperdiskBalanced then map_of hyperdiskBalancedIOPSMap machineType
      else if diskType = HyperdiskThroughput then map_of hyperdiskThroughputIOPSMap machineType
      else None)"

definition getRequiredDiskSize :: "string \<Rightarrow> string \<Rightarrow> int" where
  "getRequiredDiskSize machineType diskType =
     (if diskType = ''lssd'' then 0
      else case (iops_target machineType diskType, map_of iopsPerGBMap diskType) of
             (Some target, Some iopsPerGB) \<Rightarrow>
               let calculatedDiskSizeGB = go_div (pt_randReadIOPS target) iopsPerGB
               in if 3500 < calculatedDiskSizeGB then calculatedDiskSizeGB else 3500
           | _ \<Rightarrow> 3500)"

subsection \<open>Cases\<close>

record storagePerfTest =
  sp_name :: string
  sp_machineType :: string
  sp_arch :: string
  sp_bootDiskType :: string
  sp_diskType :: string
  sp_cpuMetric :: string
  sp_minCPUPlatform :: string
  sp_zone :: string
  sp_requiredFeatures :: "string list"

definition perf_case ::
  "string \<Rightarrow> string \<Rightarrow> string \<Rightarrow> string \<Rightarrow> string \<Rightarrow> string \<Rightarrow> string \<Rightarrow> string \<Rightarrow> string list \<Rightarrow> storagePerfTest" where
  "perf_case n mt arch boot disk metric cpu z feats = \<lparr>sp_name = n, sp_machineType = mt, sp_arch = arch,
     sp_bootDiskType = boot, sp_diskType = disk, sp_cpuMetric = metric, sp_minCPUPlatform = cpu, sp_zone = z,
     sp_requiredFeatures = feats\<rparr>"

definition storagePerfTestConfig :: "storagePerfTest list" where
  "storagePerfTestConfig =
     [perf_case ''h3-pd'' ''h3-standard-88'' ''X86_64'' PdBalanced PdBalanced ''CPUS'' [] ''us-central1-a'' [''GVNIC''],
      perf_case ''c3d-pd'' ''c3d-standard-180'' ''X86_64'' PdBalanced PdBalanced ''CPUS'' [] ''us-east4-c'' [''GVNIC''],
      perf_case ''c3-lssd'' ''c3-standard-88-lssd'' ''X86_64'' PdBalanced ''lssd'' ''C3_CPUS'' [] [] [''GVNIC''],
      perf_case ''c3-hde'' ''c3-standard-88'' ''X86_64'' PdBalanced HyperdiskExtreme ''C3_CPUS'' [] [] [''GVNIC''],
      perf_case ''c3-pd'' ''c3-standard-88'' ''X86_64'' PdBalanced PdBalanced ''C3_CPUS'' [] [] [''GVNIC''],
      perf_case ''c4-hdb'' ''c4-standard-192'' ''X86_64'' HyperdiskBalanced HyperdiskBalanced ''CPUS'' [] ''us-east4-b'' [''GVNIC''],
      perf_case ''c4-hde'' ''c4-standard-192'' ''X86_64'' HyperdiskBalanced HyperdiskExtreme ''CPUS'' [] ''us-east4-b'' [''GVNIC''],
      perf_case ''t2a-pd'' ''t2a-standard-48'' ''ARM64'' PdBalanced PdBalanced ''T2A_CPUS'' [] ''us-central1-a'' [],
      perf_case ''n4-hdb'' ''n4-standard-64'' ''X86_64'' HyperdiskBalanced HyperdiskBalanced ''CPUS'' [] ''us-east4-b'' [''GVNIC''],
      perf_case ''n2-hde'' ''n2-standard-80'' ''X86_64'' PdBalanced HyperdiskExtreme ''N2_CPUS'' [] [] [],
      perf_case ''n2d-pd'' ''n2d-standard-64'' ''X86_64'' PdBalanced PdBalanced ''N2D_CPUS'' [] [] [],
      perf_case ''n1-pd'' ''n1-standard-64'' ''X86_64'' PdBalanced PdBalanced ''CPUS'' ''Intel Skylake'' [] []]"

definition skipTest :: "storagePerfTest \<Rightarrow> image \<Rightarrow> bool" where
  "skipTest tc img =
     (im_Architecture img \<noteq> sp_arch tc
      \<or> list_ex (\<lambda>feat. \<not> HasFeature img feat) (sp_requiredFeatures tc)
      \<or> (HasPrefix (sp_machineType tc) ''c3d'' \<and> (Contains (im_Family img) ''windows-2012'' \<or> Contains (im_Family img) ''windows-2016''))
      \<or> (Contains (im_Name img) ''ubuntu-pro-1604'' \<and> HasPrefix (sp_machineType tc) ''c3-''))"

definition case_region :: "storagePerfTest \<Rightarrow> string" where
  "case_region tc = (if 2 < length (sp_zone tc) then take (length (sp_zone tc) - 2) (sp_zone tc) else sp_zone tc)"

text \<open>The size of the mounted disk, which must not be that of the boot disk.\<close>

definition mount_size :: "storagePerfTest \<Rightarrow> int" where
  "mount_size tc =
     (let size = getRequiredDiskSize (sp_machineType tc) (sp_diskType tc) in if bootdiskSizeGB = size then size + 1 else size)"

definition vm_targets :: "storagePerfTest \<Rightarrow> PerformanceTargets option" where
  "vm_targets tc =
     (if sp_diskType tc = HyperdiskExtreme then map_of hyperdiskExtremeIOPSMap (sp_machineType tc)
      else if sp_diskType tc = HyperdiskBalanced then map_of hyperdiskBalancedIOPSMap (sp_machineType tc)
      else if sp_diskType tc = HyperdiskThroughput then map_of hyperdiskThroughputIOPSMap (sp_machineType tc)
      else if sp_diskType tc = PdBalanced then map_of pdbalanceIOPSMap (sp_machineType tc)
      else if sp_diskType tc = ''lssd'' then map_of lssdIOPSMap (sp_machineType tc)
      else None)"

subsection \<open>The setup\<close>

record storageperf_env =
  se_filter :: string
  se_client :: suite_client
  se_compile :: "string \<Rightarrow> string + (string \<Rightarrow> bool)"
  se_scripts :: "string \<Rightarrow> string + string"

text \<open>\<open>%f\<close> of a whole number.\<close>

definition six_decimals :: "int \<Rightarrow> string" where
  "six_decimals n = itoa n @ ''.000000''"

definition boot_disk :: "storagePerfTest \<Rightarrow> disk_params" where
  "boot_disk tc = (disk_named (filter (\<lambda>c. c \<noteq> CHR ''-'') (sp_machineType tc @ sp_diskType tc)))
     \<lparr>dp_Type := sp_bootDiskType tc, dp_SizeGb := bootdiskSizeGB, dp_Zone := sp_zone tc\<rparr>"

definition mount_disk :: "storagePerfTest \<Rightarrow> disk_params" where
  "mount_disk tc = (disk_named (mountDiskName @ sp_machineType tc @ sp_diskType tc))
     \<lparr>dp_Type := sp_diskType tc, dp_SizeGb := mount_size tc, dp_Zone := sp_zone tc\<rparr>"

definition wait_for_quota :: "engine \<Rightarrow> storageperf_env \<Rightarrow> storagePerfTest \<Rightarrow> unit operation" where
  "wait_for_quota e v tc =
     and_then (WaitForDisksQuota e \<lparr>qa_Metric = ''SSD_TOTAL_GB'', qa_Units = bootdiskSizeGB + mount_size tc, qa_Region = case_region tc\<rparr>) (\<lambda>_.
     if sp_cpuMetric tc = [] then give ()
     else reading (\<lambda>t. sc_GetMachineType (se_client v) (tw_Project t)
                (if sp_zone tc = [] then fst (sc_own (se_client v) t) else sp_zone tc) (sp_machineType tc)) (\<lambda>r.
          case r of
            Inl err \<Rightarrow> raise (''could not find machinetype '' @ err)
          | Inr mt \<Rightarrow> WaitForVMQuota e \<lparr>qa_Metric = sp_cpuMetric tc, qa_Units = snd mt, qa_Region = case_region tc\<rparr>))"

definition setup_storage_case :: "engine \<Rightarrow> storageperf_env \<Rightarrow> storagePerfTest \<Rightarrow> test_vm operation" where
  "setup_storage_case e v tc =
     and_then (if sp_diskType tc \<noteq> ''lssd'' then wait_for_quota e v tc else give ()) (\<lambda>_.
     and_then (CreateTestVMMultipleDisks e (boot_disk tc # (if sp_diskType tc \<noteq> ''lssd'' then [mount_disk tc] else []))
       (Some (new_machine\<lparr>m_MachineType := sp_machineType tc, m_MinCpuPlatform := sp_minCPUPlatform tc, m_Zone := sp_zone tc\<rparr>))) (\<lambda>vm.
     and_then (modify (AddMetadata vm ''enable-guest-attributes'' ''TRUE'')) (\<lambda>_.
     and_then (modify (AddMetadata vm ''diskType'' (sp_diskType tc))) (\<lambda>_.
     and_then (modify (AddMetadata vm ''diskSizeGB'' (itoa (mount_size tc)))) (\<lambda>_.
     case vm_targets tc of
       None \<Rightarrow> raise (''expected performance for machine type '' @ sp_machineType tc @ '' and disk type '' @ sp_diskType tc @ '' not found'')
     | Some p \<Rightarrow>
         and_then (modify (AddMetadata vm ''randRead'' (six_decimals (pt_randReadIOPS p)))) (\<lambda>_.
         and_then (modify (AddMetadata vm ''randWrite'' (six_decimals (pt_randWriteIOPS p)))) (\<lambda>_.
         and_then (modify (AddMetadata vm ''seqRead'' (six_decimals (pt_seqReadBW p)))) (\<lambda>_.
         and_then (modify (AddMetadata vm ''seqWrite'' (six_decimals (pt_seqWriteBW p)))) (\<lambda>_.
         and_then (reading tw_Image (\<lambda>img. if HasFeature img ''WINDOWS''
             then and_then (lift_sum (se_scripts v ''startupscripts/install_fio.ps1'')) (\<lambda>script.
                  modify (AddMetadata vm ''windows-startup-script-ps1'' script))
             else give ())) (\<lambda>_.
         give vm))))))))))"

definition add_storage_case ::
  "engine \<Rightarrow> storageperf_env \<Rightarrow> (string \<Rightarrow> bool) \<Rightarrow> storagePerfTest \<Rightarrow> test_vm list \<Rightarrow> test_vm list operation" where
  "add_storage_case e v matches tc testVMs =
     reading tw_Image (\<lambda>img. if skipTest tc img \<or> \<not> matches (sp_name tc) then give testVMs
       else and_then (setup_storage_case e v tc) (\<lambda>vm. give (testVMs @ [vm])))"

definition storageperf_TestSetup :: "engine \<Rightarrow> storageperf_env \<Rightarrow> unit operation" where
  "storageperf_TestSetup e v =
     (case se_compile v (se_filter v) of
        Inl err \<Rightarrow> raise (''invalid test case filter: '' @ err)
      | Inr matches \<Rightarrow>
          and_then (fold_each (add_storage_case e v matches) storagePerfTestConfig []) (\<lambda>testVMs.
          for_each (\<lambda>vm. modify (RunTests vm
            ''TestRandomReadIOPS|TestSequentialReadIOPS|TestRandomWriteIOPS|TestSequentialWriteIOPS'')) testVMs))"

subsection \<open>The benchmark on the machine\<close>

definition commonFIORandOptions :: string where
  "commonFIORandOptions =
     ''--name=write_iops_test --filesize=500G --numjobs=1 --time_based --runtime=1m --ramp_time=2s ''
     @ ''--direct=1 --verify=0 --bs=4K --iodepth=256 --randrepeat=0 --iodepth_batch_submit=256  ''
     @ ''--iodepth_batch_complete_max=256 --output-format=json''"

definition commonFIOSeqOptions :: string where
  "commonFIOSeqOptions =
     ''--name=write_bandwidth_test --filesize=500G --time_based --ramp_time=2s --runtime=1m ''
     @ ''--direct=1 --verify=0 --randrepeat=0 --numjobs=1 --offset_increment=500G --bs=1M --iodepth=64 ''
     @ ''--iodepth_batch_submit=64 --iodepth_batch_complete_max=64 --output-format=json''"

definition hyperdiskFIORandOptions :: string where
  "hyperdiskFIORandOptions =
     ''--numjobs=8 --size=500G --time_based --runtime=5m --ramp_time=10s --direct=1 --verify=0 ''
     @ ''--bs=4K --iodepth=256 --iodepth_batch_submit=256 --iodepth_batch_complete_max=256 ''
     @ ''--group_reporting --output-format=json''"

definition hyperdiskFIOSeqOptions :: string where
  "hyperdiskFIOSeqOptions =
     ''--numjobs=8 --size=500G --time_based --runtime=5m --ramp_time=10s --direct=1 --verify=0 ''
     @ ''--bs=1M --iodepth=64 --iodepth_batch_submit=64 --iodepth_batch_complete_max=64 ''
     @ ''--offset_increment=20G --group_reporting --output-format=json''"

definition lssdFIORandOptions :: string where
  "lssdFIORandOptions =
     ''--name=write_iops_test --numjobs=8 --size=500G --time_based --runtime=5m --randrepeat=0 ''
     @ ''--invalidate=1 --ramp_time=10s --direct=1 --verify=0 --verify_fatal=0 --bs=4K --iodepth=256 ''
     @ ''--iodepth_batch_submit=256 --iodepth_batch_complete_max=256 --group_reporting ''
     @ ''--output-format=json''"

definition lssdFIOSeqOptions :: string where
  "lssdFIOSeqOptions =
     ''--name=write_bandwidth_test --numjobs=8 --size=500G --time_based --runtime=5m --randrepeat=0 ''
     @ ''--invalidate=1 --ramp_time=10s --direct=1 --verify=0 --verify_fatal=0 --bs=1M --iodepth=64 ''
     @ ''--iodepth_batch_submit=64 --iodepth_batch_complete_max=64 --offset_increment=20G ''
     @ ''--group_reporting --output-format=json''"

text \<open>The class of a disk is one of ``pd'', ``hyperdisk'' and ``lssd''.\<close>

definition getFIOOptions :: "string \<Rightarrow> string \<Rightarrow> string" where
  "getFIOOptions mode diskClass =
     (let rnd = (mode = ''randread'' \<or> mode = ''randwrite'')
      in (if diskClass = ''hyperdisk'' then (if rnd then hyperdiskFIORandOptions else hyperdiskFIOSeqOptions)
          else if diskClass = ''lssd'' then (if rnd then lssdFIORandOptions else lssdFIOSeqOptions)
          else (if rnd then commonFIORandOptions else commonFIOSeqOptions)) @ '' --rw='' @ mode)"

text \<open>The metadata give the disk type, or an error.\<close>

definition getDiskClass :: "string + string \<Rightarrow> string" where
  "getDiskClass diskType =
     (case diskType of
        Inl err \<Rightarrow> ''pd''
      | Inr ty \<Rightarrow> if ty = ''lssd'' then ''lssd''
          else if ty = HyperdiskExtreme \<or> ty = HyperdiskThroughput \<or> ty = HyperdiskBalanced then ''hyperdisk'' else ''pd'')"

text \<open>The first line on NUMA nodes whose last part is a number; \<open>out\<close> is what \<open>lscpu\<close> prints.\<close>

definition numa_line :: "string \<Rightarrow> int option" where
  "numa_line line =
     (let l = map ascii_lower line
      in if Contains l ''numa node'' then Atoi (TrimSpace (last (Fields l))) else None)"

definition getNumNumaNodes :: "string + string \<Rightarrow> string + int" where
  "getNumNumaNodes lscpu =
     (case lscpu of
        Inl err \<Rightarrow> Inl err
      | Inr out \<Rightarrow>
          let n = (case find (\<lambda>l. numa_line l \<noteq> None) (Split (CHR 0x0A) out) of None \<Rightarrow> -1 | Some l \<Rightarrow> the (numa_line l))
          in if n < 0 then Inl (''did not find any line with numNumaNodes in lscpu output: '' @ out) else Inr n)"

text \<open>The file that is printed: the name goes to \<open>cat\<close> as it is, without a shell.\<close>

definition cpu_list_file :: "string \<Rightarrow> string" where
  "cpu_list_file symlinkRealPath = ''/sys/class/block/'' @ symlinkRealPath @ ''/mq/*/cpu_list''"

definition getCPUNvmeMapping :: "(string \<Rightarrow> string + string) \<Rightarrow> string \<Rightarrow> string + string \<times> string" where
  "getCPUNvmeMapping cat symlinkRealPath =
     (case cat (cpu_list_file symlinkRealPath) of
        Inl err \<Rightarrow> Inl err
      | Inr out \<Rightarrow> (case Split (CHR 0x0A) out of
            l1 # l2 # _ \<Rightarrow> Inr (TrimSpace l1, TrimSpace l2)
          | ls \<Rightarrow> Inl (''expected at least two lines for cpu queue mapping, got string '' @ out @ '' with ''
                     @ utoa (length ls) @ '' lines'')))"

definition getHyperdiskAdditionalOptions ::
  "string + string \<Rightarrow> (string \<Rightarrow> string + string) \<Rightarrow> string \<Rightarrow> string + string" where
  "getHyperdiskAdditionalOptions lscpu cat symlinkRealPath =
     (case getNumNumaNodes lscpu of
        Inl err \<Rightarrow> Inl (''failed to get number of numa nodes: err '' @ err)
      | Inr n \<Rightarrow>
          if n = 1
          then (case getCPUNvmeMapping cat symlinkRealPath of
                  Inl err \<Rightarrow> Inl (''could not get cpu to nvme queue mapping: err '' @ err)
                | Inr (q1, q2) \<Rightarrow> Inr ('' --name=read_iops --cpus_allowed='' @ q1 @ '' --name=read_iops_2 --cpus_allowed='' @ q2))
          else Inr '' --name=read_iops --numa_cpu_nodes=0 --name=read_iops_2 --numa_cpu_nodes=1'')"

text \<open>The last arguments of the command, after the options of the class of the disk.\<close>

definition fio_suffix :: "string + string \<Rightarrow> (string \<Rightarrow> string + string) \<Rightarrow> string \<Rightarrow> string \<Rightarrow> string + string" where
  "fio_suffix lscpu cat diskClass diskPath =
     map_sum id (\<lambda>extra. '' --filename='' @ diskPath @ '' --ioengine=libaio'' @ extra)
       (if diskClass = ''hyperdisk''
        then map_sum (\<lambda>err. ''failed to get hyperdisk additional options: error '' @ err) id (getHyperdiskAdditionalOptions lscpu cat diskPath)
        else Inr [])"

subsection \<open>The cases are complete\<close>

text \<open>A mounted disk whose size times the limit per GB is less than the target it is made for.\<close>

definition falls_short :: "storagePerfTest \<Rightarrow> bool" where
  "falls_short tc =
     (case (iops_target (sp_machineType tc) (sp_diskType tc), map_of iopsPerGBMap (sp_diskType tc)) of
        (Some p, Some iopsPerGB) \<Rightarrow> mount_size tc * iopsPerGB < pt_randReadIOPS p
      | _ \<Rightarrow> False)"

text \<open>The configured cases of the storage suite are complete: each finds its targets, so that the setup never
  fails for lack of them, mounts a disk of another size than the boot disk's, and has names of its own
  for its machine and its disk.  But the size is rounded down: in the five cases of 80000 operations on
  balanced disks, the mounted disk is too small to reach the target.\<close>

theorem storage_cases_complete:
  "list_all (\<lambda>tc. vm_targets tc \<noteq> None \<and> mount_size tc \<noteq> bootdiskSizeGB \<and> (sp_diskType tc = ''lssd'' \<or> 3500 \<le> mount_size tc))
     storagePerfTestConfig
   \<and> distinct (map (\<lambda>tc. vmname_of (dp_Name (boot_disk tc))) storagePerfTestConfig)
   \<and> distinct (map (\<lambda>tc. dp_Name (mount_disk tc)) storagePerfTestConfig)
   \<and> map sp_name (filter falls_short storagePerfTestConfig) = [''c3d-pd'', ''c3-pd'', ''t2a-pd'', ''n2d-pd'', ''n1-pd'']"
proof (intro conjI)
  have t: "list_all (\<lambda>tc. (case vm_targets tc of None \<Rightarrow> False | Some p \<Rightarrow> True) \<and> mount_size tc \<noteq> bootdiskSizeGB
      \<and> (sp_diskType tc = ''lssd'' \<or> 3500 \<le> mount_size tc)) storagePerfTestConfig" by code_simp
  show "list_all (\<lambda>tc. vm_targets tc \<noteq> None \<and> mount_size tc \<noteq> bootdiskSizeGB
      \<and> (sp_diskType tc = ''lssd'' \<or> 3500 \<le> mount_size tc)) storagePerfTestConfig"
    by (rule list.pred_mono_strong [OF t]) (simp split: option.splits)
  show "distinct (map (\<lambda>tc. vmname_of (dp_Name (boot_disk tc))) storagePerfTestConfig)" by code_simp
  show "distinct (map (\<lambda>tc. dp_Name (mount_disk tc)) storagePerfTestConfig)" by code_simp
  show "map sp_name (filter falls_short storagePerfTestConfig) = [''c3d-pd'', ''c3-pd'', ''t2a-pd'', ''n2d-pd'', ''n1-pd'']"
    by code_simp
qed

subsection \<open>The setup calls fixtures\<close>

lemma plain_cases: "tc \<in> set storagePerfTestConfig \<Longrightarrow> plain (vmname_of (dp_Name (boot_disk tc)))"
proof -
  have "list_all (\<lambda>tc. vmname_of (dp_Name (boot_disk tc)) \<noteq> ''for-vm-quota''
      \<and> vmname_of (dp_Name (boot_disk tc)) \<noteq> ''for-disk-quota'') storagePerfTestConfig" by code_simp
  then show "tc \<in> set storagePerfTestConfig \<Longrightarrow> plain (vmname_of (dp_Name (boot_disk tc)))"
    by (simp add: list_all_iff plain_iff)
qed

lemma setup_storage_case_calls:
  "tc \<in> set storagePerfTestConfig \<Longrightarrow> sound_setup e (setup_storage_case e v tc)"
  unfolding setup_storage_case_def wait_for_quota_def
  by (intro suite_calls) (simp_all add: plain_cases)

lemma storageperf_calls: "sound_setup e (storageperf_TestSetup e v)"
  unfolding storageperf_TestSetup_def add_storage_case_def
  by (intro suite_calls setup_storage_case_calls)

end
