(* ===== verification/Nic_Setup.thy ===== *)
theory Nic_Setup
  imports Suite_Calls
begin

text \<open>
  \<open>test_suites/nicsetup/setup.go\<close>: machines with one and with two interfaces in every combination of
  IPv4, dual-stack and IPv6 networks.  The flag is a parameter.
\<close>

subsection \<open>Images without IPv6\<close>

definition rhelSapImages :: rexp where
  "rhelSapImages = Seq (word ''rhel-'') (Seq (Alt (word ''9-0'') (word ''8-6'')) (Seq (word ''-sap'')
     (Alt Eps (Alt (word ''-byos'') (word ''-ha'')))))"

text \<open>The last exception leaves its version and its type out.\<close>

definition ipv6Exceptions :: "exception list" where
  "ipv6Exceptions =
     [\<lparr>ex_Match = Some ImageSLES, ex_Version = 12, ex_Type = Equal\<rparr>,
      \<lparr>ex_Match = Some ImageSLES, ex_Version = 15, ex_Type = Equal\<rparr>,
      \<lparr>ex_Match = Some ImageUbuntu, ex_Version = 1604, ex_Type = Equal\<rparr>,
      \<lparr>ex_Match = Some rhelSapImages, ex_Version = 0, ex_Type = Equal\<rparr>]"

definition possibleVMTypes :: "string list" where
  "possibleVMTypes = [''multi'', ''single'', ''both'']"

definition pingVMIPv4 :: string where "pingVMIPv4 = ''10.0.0.128''"
definition supportIpv6Key :: string where "supportIpv6Key = ''supports-ipv6''"

definition FormatBool :: "bool \<Rightarrow> string" where
  "FormatBool b = (if b then ''true'' else ''false'')"

subsection \<open>The setup\<close>

definition nic_subnet :: "string \<Rightarrow> string \<Rightarrow> string \<Rightarrow> subnetwork" where
  "nic_subnet name cidr access = \<lparr>sn_Name = name, sn_Description = [], sn_Cidr = cidr, sn_Network = [],
     sn_StackType = ''IPV4_IPV6'', sn_Ipv6AccessType = access, sn_Region = [], sn_Purpose = [], sn_Role = [],
     sn_Secondary = [], sn_NoCleanup = False\<rparr>"

text \<open>A network with its subnetwork.\<close>

type_synonym nic_net = "network_handle \<times> subnetwork_handle"

text \<open>An interface of a stack type and an access type; the error is dropped.\<close>

definition wire :: "nic_net \<Rightarrow> test_vm \<Rightarrow> string \<times> string \<Rightarrow> unit operation" where
  "wire net vm stack = ignoring (AddCustomNetworkWithStackType vm (fst net) (Some (snd net)) (fst stack) (snd stack))"

definition wire_both :: "nic_net \<Rightarrow> nic_net \<Rightarrow> test_vm \<times> (string \<times> string) \<times> (string \<times> string) \<Rightarrow> unit operation" where
  "wire_both net1 net2 vs = and_then (wire net1 (fst vs) (fst (snd vs))) (\<lambda>_. wire net2 (fst vs) (snd (snd vs)))"

fun create_vms :: "engine \<Rightarrow> string list \<Rightarrow> test_vm list operation" where
  "create_vms e [] = give []"
| "create_vms e (n # ns) = and_then (CreateTestVM e n) (\<lambda>vm. and_then (create_vms e ns) (\<lambda>vms. give (vm # vms)))"

definition primary_net :: "engine \<Rightarrow> nic_net operation" where
  "primary_net e =
     and_then (CreateNetwork e ''network1'' False) (\<lambda>network1.
     and_then (CreateSubnetworkFromDaisySubnetwork e network1 (nic_subnet ''dual'' ''10.128.0.0/24'' ''EXTERNAL'')) (\<lambda>subnetwork1.
     give (network1, subnetwork1)))"

definition secondary_net :: "engine \<Rightarrow> nic_net operation" where
  "secondary_net e =
     and_then (CreateNetworkFromDaisyNetwork e \<lparr>nw_Name = ''network2'', nw_Description = [], nw_Mtu = 0, nw_Profile = [],
       nw_AutoCreate = Some False, nw_EnableUlaInternalIpv6 = True\<rparr>) (\<lambda>network2.
     and_then (CreateSubnetworkFromDaisySubnetwork e network2 (nic_subnet ''dual-2'' ''10.0.0.0/24'' ''INTERNAL'')) (\<lambda>subnetwork2.
     and_then (CreateFirewallRule e network2 ''allow-connection-ipv4'' ''tcp'' [] (Some [''0.0.0.0/0''])) (\<lambda>_.
     and_then (CreateFirewallRule e network2 ''allow-connection-ipv6'' ''tcp'' [] (Some [''0::0/0''])) (\<lambda>_.
     give (network2, subnetwork2)))))"

definition single_vms :: "engine \<Rightarrow> bool \<Rightarrow> nic_net \<Rightarrow> test_vm list operation" where
  "single_vms e supportsIpv6 net1 =
     and_then (CreateTestVM e ''ipv4'') (\<lambda>ipv4VM1.
     and_then (wire net1 ipv4VM1 (''IPV4_ONLY'', [])) (\<lambda>_.
     if \<not> supportsIpv6 then give [ipv4VM1]
     else and_then (CreateTestVM e ''dual'') (\<lambda>dualstackVM1.
          and_then (CreateTestVM e ''ipv6'') (\<lambda>ipv6VM1.
          and_then (wire net1 dualstackVM1 (''IPV4_IPV6'', [])) (\<lambda>_.
          and_then (wire net1 ipv6VM1 (''IPV6_ONLY'', ''EXTERNAL'')) (\<lambda>_.
          give [ipv4VM1, dualstackVM1, ipv6VM1]))))))"

definition ping_vm :: "engine \<Rightarrow> bool \<Rightarrow> nic_net \<Rightarrow> unit operation" where
  "ping_vm e supportsIpv6 net2 =
     and_then (CreateTestVM e ''ping'') (\<lambda>pingVM.
     and_then (wire net2 pingVM (if supportsIpv6 then (''IPV4_IPV6'', ''INTERNAL'') else (''IPV4_ONLY'', []))) (\<lambda>_.
     and_then (ignoring (SetPrivateIP pingVM (fst net2) pingVMIPv4)) (\<lambda>_.
     and_then (modify (AddScope pingVM ''https://www.googleapis.com/auth/compute'')) (\<lambda>_.
     and_then (modify (AddMetadata pingVM supportIpv6Key (FormatBool supportsIpv6))) (\<lambda>_.
     modify (RunTests pingVM ''TestEmpty''))))))"

text \<open>The machines with two interfaces: name, stack and access type of the first and of the second.\<close>

definition multi_stacks :: "(string \<times> (string \<times> string) \<times> (string \<times> string)) list" where
  "multi_stacks =
     [(''ipv4dual'', (''IPV4_ONLY'', []), (''IPV4_IPV6'', ''INTERNAL'')),
      (''ipv4ipv6'', (''IPV4_ONLY'', []), (''IPV6_ONLY'', ''INTERNAL'')),
      (''dualipv4'', (''IPV4_IPV6'', []), (''IPV4_ONLY'', ''INTERNAL'')),
      (''dualdual'', (''IPV4_IPV6'', []), (''IPV4_IPV6'', ''INTERNAL'')),
      (''dualipv6'', (''IPV4_IPV6'', []), (''IPV6_ONLY'', ''INTERNAL'')),
      (''ipv6ipv4'', (''IPV6_ONLY'', ''EXTERNAL''), (''IPV4_ONLY'', [])),
      (''ipv6dual'', (''IPV6_ONLY'', ''EXTERNAL''), (''IPV4_IPV6'', ''INTERNAL''))]"

definition multi_vms :: "engine \<Rightarrow> bool \<Rightarrow> nic_net \<Rightarrow> nic_net \<Rightarrow> test_vm list operation" where
  "multi_vms e supportsIpv6 net1 net2 =
     and_then (CreateTestVM e ''ipv4ipv4'') (\<lambda>ipv4ipv4.
     and_then (wire_both net1 net2 (ipv4ipv4, (''IPV4_ONLY'', []), (''IPV4_ONLY'', []))) (\<lambda>_.
     if \<not> supportsIpv6 then give [ipv4ipv4]
     else and_then (create_vms e (map fst multi_stacks)) (\<lambda>vms.
          and_then (for_each (wire_both net1 net2) (zip vms (map snd multi_stacks))) (\<lambda>_.
          and_then (CreateTestVM e ''ipv6ipv6'') (\<lambda>ipv6ipv6.
          and_then (wire_both net1 net2 (ipv6ipv6, (''IPV6_ONLY'', ''EXTERNAL''), (''IPV6_ONLY'', ''INTERNAL''))) (\<lambda>_.
          give (ipv4ipv4 # vms @ [ipv6ipv6])))))))"

definition multi_stage :: "engine \<Rightarrow> bool \<Rightarrow> nic_net \<Rightarrow> test_vm list operation" where
  "multi_stage e supportsIpv6 net1 =
     and_then (secondary_net e) (\<lambda>net2.
     and_then (ping_vm e supportsIpv6 net2) (\<lambda>_.
     and_then (multi_vms e supportsIpv6 net1 net2) (\<lambda>vms.
     and_then (for_each (\<lambda>vm. modify (AddScope vm ''https://www.googleapis.com/auth/compute.readonly'')) vms) (\<lambda>_.
     give vms))))"

definition run_nic_tests :: "bool \<Rightarrow> string \<Rightarrow> test_vm \<Rightarrow> unit operation" where
  "run_nic_tests supportsIpv6 runTests vm =
     and_then (modify (AddMetadata vm supportIpv6Key (FormatBool supportsIpv6))) (\<lambda>_. modify (RunTests vm runTests))"

definition nic_tests :: "image \<Rightarrow> string" where
  "nic_tests img = ''TestNICSetup'' @ (if Contains (im_Name img) ''guest-configs''
     then ''|TestMetadataHostsCompliance|TestMetadataResolutionAndReachability|TestMDSHostsCorrection'' else [])"

definition all_vms :: "engine \<Rightarrow> string \<Rightarrow> bool \<Rightarrow> test_vm list operation" where
  "all_vms e vmtype supportsIpv6 =
     and_then (primary_net e) (\<lambda>net1.
     and_then (if vmtype \<noteq> ''multi'' then single_vms e supportsIpv6 net1 else give []) (\<lambda>singles.
     and_then (if vmtype \<noteq> ''single'' then multi_stage e supportsIpv6 net1 else give []) (\<lambda>multis.
     give (singles @ multis))))"

definition nicsetup_TestSetup :: "engine \<Rightarrow> string \<Rightarrow> unit operation" where
  "nicsetup_TestSetup e vmtype =
     reading tw_Image (\<lambda>img.
     if HasFeature img ''WINDOWS'' then give ()
     else if Contains (im_Name img) ''sles-16''
     then modify (Skip ''b/511534265: Skipping nicsetup test for SLES 16 due to flaky tests.'')
     else if vmtype \<notin> set possibleVMTypes
     then raise (''invalid vmtype: '' @ vmtype @ newline @ ''Must be one of: [multi single both]'')
     else let supportsIpv6 = (\<not> HasMatch (im_Name img) ipv6Exceptions)
          in and_then (all_vms e vmtype supportsIpv6) (\<lambda>vms. for_each (run_nic_tests supportsIpv6 (nic_tests img)) vms))"

subsection \<open>The setup calls fixtures\<close>

lemma wire_calls: "sound_setup e (wire net vm stack)" "sound_setup e (wire_both net1 net2 vs)"
  unfolding wire_both_def wire_def by (intro suite_calls)+

lemma create_vms_calls: "\<forall>n \<in> set ns. plain (vmname_of n) \<Longrightarrow> sound_setup e (create_vms e ns)"
  by (induction ns) (simp_all add: suite_calls)

lemma nic_names_plain:
  "plain (vmname_of ''ipv4'')" "plain (vmname_of ''dual'')" "plain (vmname_of ''ipv6'')" "plain (vmname_of ''ping'')"
  "plain (vmname_of ''ipv4ipv4'')" "plain (vmname_of ''ipv6ipv6'')" "\<forall>n \<in> set (map fst multi_stacks). plain (vmname_of n)"
  by (simp_all add: plain_iff vmname_of_def multi_stacks_def)

lemma nicsetup_calls: "sound_setup e (nicsetup_TestSetup e vmtype)"
  unfolding nicsetup_TestSetup_def all_vms_def primary_net_def single_vms_def multi_stage_def secondary_net_def ping_vm_def
    multi_vms_def run_nic_tests_def Let_def
  by (intro suite_calls wire_calls create_vms_calls nic_names_plain)

end
