(* ===== verification/License_Validation.thy ===== *)
theory License_Validation
  imports Suite_Calls
begin

text \<open>
  \<open>test_suites/licensevalidation/setup.go\<close>: the licenses an image must carry, by its name and family, and
  the setup that hands them to the tests.  The base path of the compute service and the licenses the
  image has are parameters.
\<close>

subsection \<open>Expressions\<close>

text \<open>\<open>-(arm|amd|x86_)64$\<close>, \<open>-[0-9]+-sap-(ha|byos)$\<close>, \<open>sles-[0-9]+\<close>\<close>

definition imageSuffixRe :: rexp where
  "imageSuffixRe = Seq (Ch CHR ''-'') (Seq (alts [word ''arm'', word ''amd'', word ''x86_'']) (word ''64''))"

definition rhelSapVersionRe :: rexp where
  "rhelSapVersionRe = Seq (Ch CHR ''-'') (Seq any_digit (Seq (Star any_digit) (Seq (word ''-sap-'') (Alt (word ''ha'') (word ''byos'')))))"

definition slesMajorVersionRe :: rexp where
  "slesMajorVersionRe = Seq (word ''sles-'') (Seq any_digit (Star any_digit))"

definition sqlWindowsVersionRe :: rexp where
  "sqlWindowsVersionRe = Seq (word ''windows-'') (Seq (repeats 4 4 any_digit) (word ''-dc''))"

definition sqlVersionRe :: rexp where
  "sqlVersionRe = Seq (word ''sql-'') (Seq (repeats 4 4 any_digit) (Seq (Ch CHR ''-'')
     (alts [word ''express'', word ''enterprise'', word ''standard'', word ''web''])))"

definition nvidiaRe :: rexp where
  "nvidiaRe = Seq (word ''nvidia-'') (Alt (repeats 3 3 any_digit) (word ''latest''))"

definition windowsYearRe :: rexp where
  "windowsYearRe = Seq (repeats 4 4 any_digit) (Alt Eps (Seq (word ''-r'') any_digit))"

text \<open>What follows a word in the first match of the word and a number of digits.\<close>

definition version_after :: "string \<Rightarrow> nat \<Rightarrow> nat \<Rightarrow> string \<Rightarrow> string" where
  "version_after w lo hi s = TrimPrefix (FindString (Seq (word w) (repeats lo hi any_digit)) s) w"

subsection \<open>Required licenses\<close>

definition license_base :: "string \<Rightarrow> string" where
  "license_base basePath =
     (let tmpl = (if basePath = [] \<or> basePath = ''https://compute.googleapis.com/compute/v1/''
                  then ''https://www.googleapis.com/compute/v1/'' else basePath)
      in if HasSuffix tmpl ''/'' then tmpl else tmpl @ ''/'')"

definition license_url :: "string \<Rightarrow> string \<Rightarrow> string \<Rightarrow> string" where
  "license_url basePath project license =
     license_base basePath @ ''projects/'' @ project @ ''/global/licenses/'' @ license"

definition at_last :: "(string \<Rightarrow> string) \<Rightarrow> string list \<Rightarrow> string list" where
  "at_last f xs = butlast xs @ [f (last xs)]"

text \<open>The last part of a Debian name that has lower-case letters only.\<close>

definition debian_codename :: "string \<Rightarrow> string" where
  "debian_codename name =
     (case find (\<lambda>seg. length (FindString (Seq (Range CHR ''a'' CHR ''z'') (Star (Range CHR ''a'' CHR ''z''))) seg) = length seg)
        (rev (Split (CHR ''-'') name)) of None \<Rightarrow> [] | Some seg \<Rightarrow> seg)"

definition baremetal_license :: "string \<Rightarrow> string \<Rightarrow> string \<Rightarrow> string list" where
  "baremetal_license basePath project name =
     (if Contains name ''gvnic-baremetal'' then [license_url basePath project ''el-oot-gvnic-baremetal-driver''] else [])"

definition rhel_addon_licenses :: "string \<Rightarrow> string \<Rightarrow> string list" where
  "rhel_addon_licenses basePath name =
     (let url = license_url basePath ''rhel-cloud''; major = ''rhel-'' @ version_after ''rhel-'' 1 2 name
      in [url (major @ ''-'' @ (if IsBYOS name then ''byos'' else ''server''))]
         @ (if IsRHELEUS name then [url (major @ ''-server-eus'')] else [])
         @ (if IsRHELLVM name then [url ''rhel-lvm''] else [])
         @ (if IsRHEL name \<and> IsBeta name then [url (major @ ''-beta'')] else [])
         @ baremetal_license basePath ''rhel-cloud'' name)"

definition rhel_license :: "string \<Rightarrow> string \<Rightarrow> string" where
  "rhel_license name l =
     ReplaceAll (ReplaceAll (ReplaceAll (if IsBYOS name then l else l @ ''-server'') ''-c3m'' []) ''-gvnic-baremetal'' []) ''-unsigned'' []"

definition rocky_accelerator_licenses :: "string \<Rightarrow> string \<Rightarrow> string list" where
  "rocky_accelerator_licenses basePath name =
     (let v = version_after ''rocky-linux-'' 1 2 name
      in [license_url basePath ''rocky-linux-accelerator-cloud'' (''nvidia-'' @ TrimPrefix (FindString nvidiaRe name) ''nvidia-''),
          license_url basePath ''rocky-linux-accelerator-cloud'' (''rocky-linux-'' @ v @ ''-accelerated''),
          license_url basePath ''rocky-linux-cloud'' (''rocky-linux-'' @ v @ ''-optimized-gcp'')])"

definition ubuntu_accelerator_licenses :: "string \<Rightarrow> string \<Rightarrow> string list" where
  "ubuntu_accelerator_licenses basePath name =
     (let v0 = version_after ''ubuntu-accelerator-'' 4 4 name; v = (if HasSuffix v0 ''04'' then v0 @ ''-lts'' else v0)
      in [license_url basePath ''ubuntu-os-cloud'' (''ubuntu-'' @ v),
          license_url basePath ''ubuntu-os-accelerator-images'' (''ubuntu-'' @ v @ ''-accelerated''),
          license_url basePath ''ubuntu-os-accelerator-images'' (''nvidia-'' @ TrimPrefix (FindString nvidiaRe name) ''nvidia-'')])"

definition windows_licenses :: "string \<Rightarrow> string \<Rightarrow> string \<Rightarrow> string list" where
  "windows_licenses basePath name family =
     license_url basePath ''windows-cloud'' (''windows-server-'' @ FindString windowsYearRe family @ ''-dc'')
     # (if Contains name ''core'' then [license_url basePath ''windows-cloud'' ''windows-server-core'']
        else if Contains name ''bios'' then [license_url basePath ''google.com:windows-internal'' ''internal-windows'']
        else [])"

definition sql_licenses :: "string \<Rightarrow> string \<Rightarrow> string list" where
  "sql_licenses basePath name =
     [license_url basePath ''windows-sql-cloud'' (ReplaceAll (FindString sqlVersionRe name) ''sql-'' ''sql-server-''),
      license_url basePath ''windows-cloud'' (ReplaceAll (FindString sqlWindowsVersionRe name) ''windows-'' ''windows-server-'')]"

text \<open>
  The project of the first license, which is named after the family, and what becomes of the list that
  holds it; \<open>None\<close> inside is a panic, \<open>None\<close> outside an image of no known family.
\<close>

definition license_rule :: "string \<Rightarrow> image \<Rightarrow> (string \<times> (string list \<Rightarrow> string list option)) option" where
  "license_rule b img =
     (let name = im_Name img; family = im_Family img
      in if IsAlmaLinux name then Some (''almalinux-cloud'', Some)
         else if IsCentOS name then Some (''centos-cloud'',
           \<lambda>ls. Some (if family = ''centos-stream-8'' then at_last (\<lambda>l. take (length l - 2) l) ls else ls))
         else if IsDebian name then Some (''debian-cloud'', \<lambda>ls. Some (map (\<lambda>l. l @ ''-'' @ debian_codename name) ls))
         else if IsOpenSUSE name then Some (''opensuse-cloud'', \<lambda>ls. Some (at_last (\<lambda>l. l @ ''-42'') ls))
         else if IsRHELEUS name \<or> IsRHELLVM name \<or> (IsRHEL name \<and> IsBeta name)
         then Some (''rhel-cloud'', \<lambda>ls. Some (rhel_addon_licenses b name))
         else if IsRHEL name \<and> IsSAP name then Some (''rhel-sap-cloud'',
           \<lambda>ls. Some (at_last (replace_at_end rhelSapVersionRe (if IsBYOS name then ''-sap-byos'' else ''-sap'')) ls
                     @ baremetal_license b ''rhel-sap-cloud'' name))
         else if IsRHEL name then Some (''rhel-cloud'',
           \<lambda>ls. Some (at_last (rhel_license name) ls @ baremetal_license b ''rhel-cloud'' name))
         else if IsRocky name \<and> IsAccelerator name then Some (''rocky-linux-cloud'', \<lambda>ls. Some (rocky_accelerator_licenses b name))
         else if IsOracle name then Some (''oracle-linux-cloud'', Some)
         else if IsRocky name \<and> HasSuffix family ''-oot-gve'' then Some (''rocky-linux-cloud'',
           \<lambda>ls. Some [license_url b ''rocky-linux-cloud'' (TrimSuffix family ''-oot-gve''), license_url b ''rocky-linux-cloud'' family])
         else if IsRocky name then Some (''rocky-linux-cloud'', Some)
         else if IsSLES name \<and> IsSAP name then Some (''suse-sap-cloud'', Some)
         else if IsSLES name then Some (''suse-cloud'', \<lambda>ls.
           let base = replace_at_end imageSuffixRe [] family
           in if MatchString slesMajorVersionRe base
              then Some (ls[0 := license_url b ''suse-cloud'' (FindString slesMajorVersionRe base)]) else None)
         else if IsUbuntu name \<and> IsAccelerator name then Some (''ubuntu-os-cloud'', \<lambda>ls. Some (ubuntu_accelerator_licenses b name))
         else if Contains name ''ubuntu-pro'' \<or> Contains name ''ubuntu-minimal-pro'' then Some (''ubuntu-os-pro-cloud'', Some)
         else if IsUbuntu name then Some (''ubuntu-os-cloud'', Some)
         else if IsWindowsImage name \<and> IsWindowsSQLImage name then Some (''windows-cloud'', \<lambda>ls. Some (sql_licenses b name))
         else if IsWindowsImage name then Some (''windows-cloud'', \<lambda>ls. Some (windows_licenses b name family))
         else None)"

text \<open>\<open>None\<close> is a panic, \<open>Inl\<close> an error.\<close>

definition requiredLicenseList :: "string \<Rightarrow> image \<Rightarrow> (string + string list) option" where
  "requiredLicenseList basePath img =
     (case license_rule basePath img of
        None \<Rightarrow> Some (Inl (''Not sure what project to look for licenses from for '' @ im_Name img))
      | Some (project, transform) \<Rightarrow>
          map_option Inr (transform [license_url basePath project (replace_at_end imageSuffixRe [] (im_Family img))]))"

subsection \<open>The setup\<close>

definition rollStringToString :: "string list \<Rightarrow> string" where
  "rollStringToString xs = Join '','' xs"

definition rollInt64ToString :: "int list \<Rightarrow> string" where
  "rollInt64ToString xs = Join '','' (map itoa xs)"

definition skip_unlicensed :: "string \<Rightarrow> unit operation" where
  "skip_unlicensed name =
     (if Contains name ''windows-11'' then modify (Skip ''Skipping license check for Windows 11 client images.'')
      else if Contains name ''windows-10'' then modify (Skip ''Skipping license check for Windows 10 client images.'')
      else if Contains name ''opensuse-leap'' then modify (Skip ''Skipping license check for opensuse-leap images.'')
      else if Contains name ''opensuse-leap-arm64'' then modify (Skip ''Skipping license check for opensuse-leap-arm64 images.'')
      else give ())"

text \<open>\<open>licenses\<close> gives the licenses of an image and their codes.\<close>

definition licensevalidation_TestSetup :: "engine \<Rightarrow> string \<Rightarrow> (image \<Rightarrow> string list \<times> int list) \<Rightarrow> unit operation" where
  "licensevalidation_TestSetup e basePath licenses =
     reading tw_Image (\<lambda>img.
     and_then (skip_unlicensed (im_Name img)) (\<lambda>_.
     and_then (CreateTestVM e ''licensevm'') (\<lambda>vm1.
     case requiredLicenseList basePath img of
       None \<Rightarrow> panic
     | Some r \<Rightarrow> and_then (lift_sum r) (\<lambda>rlicenses.
         in_turn [modify (AddMetadata vm1 ''expected-licenses'' (rollStringToString rlicenses)),
           modify (AddMetadata vm1 ''actual-licenses'' (rollStringToString (fst (licenses img)))),
           modify (AddMetadata vm1 ''expected-license-codes'' (rollInt64ToString (snd (licenses img)))),
           modify (RunTests vm1 (''TestLicenses''
             @ (if HasFeature img ''WINDOWS'' then ''|TestWindowsActivationStatus'' else [])))]))))"

lemma licensevalidation_calls: "sound_setup e (licensevalidation_TestSetup e basePath licenses)"
  unfolding licensevalidation_TestSetup_def skip_unlicensed_def
  by (intro suite_calls) (simp add: plain_names)

subsection \<open>What is required\<close>

definition known_families :: "string list" where
  "known_families = [''almalinux'', ''centos'', ''debian'', ''opensuse'', ''eus'', ''lvm'', ''rhel'', ''rocky'', ''oracle'',
     ''sles'', ''ubuntu'', ''windows'']"

lemmas family_defs = IsAlmaLinux_def IsCentOS_def IsDebian_def IsOpenSUSE_def IsRHELEUS_def IsRHELLVM_def IsRHEL_def
  IsBeta_def IsSAP_def IsRocky_def IsAccelerator_def IsOracle_def IsSLES_def IsUbuntu_def IsWindowsImage_def
  IsWindowsSQLImage_def

lemma Contains_part: "Contains s (w @ v) \<Longrightarrow> Contains s w"
  unfolding Contains_iff by (metis append.assoc)

lemma ubuntu_parts:
  "Contains s ''ubuntu-pro'' \<Longrightarrow> Contains s ''ubuntu''" "Contains s ''ubuntu-minimal-pro'' \<Longrightarrow> Contains s ''ubuntu''"
  using Contains_part [of s "''ubuntu''" "''-pro''"] Contains_part [of s "''ubuntu''" "''-minimal-pro''"] by simp_all

lemma license_rule_known:
  "license_rule b img = None \<longleftrightarrow> \<not> list_ex (Contains (im_Name img)) known_families"
  using ubuntu_parts [of "im_Name img"]
  by (auto simp: license_rule_def known_families_def family_defs Let_def split del: if_split split: if_splits)

lemma license_lists:
  "at_last f ls \<noteq> []" "rhel_addon_licenses b name \<noteq> []" "rocky_accelerator_licenses b name \<noteq> []"
  "ubuntu_accelerator_licenses b name \<noteq> []" "windows_licenses b name family \<noteq> []" "sql_licenses b name \<noteq> []"
  by (simp_all add: at_last_def rhel_addon_licenses_def rocky_accelerator_licenses_def ubuntu_accelerator_licenses_def
      windows_licenses_def sql_licenses_def Let_def)

text \<open>What becomes of a list with one license: never an empty list, and no panic except for SLES.\<close>

lemma license_rule_gives:
  assumes "license_rule b img = Some (project, transform)"
  shows "transform [l] \<noteq> Some [] \<and> (transform [l] = None \<longrightarrow> IsSLES (im_Name img)
    \<and> \<not> MatchString slesMajorVersionRe (replace_at_end imageSuffixRe [] (im_Family img)))"
  using assms unfolding license_rule_def Let_def
  by (simp split: if_split_asm; elim conjE; hypsubst; simp add: license_lists Let_def)

text \<open>C39: The licenses that an image must carry: the list is an error exactly for an image whose name has the
  word of no known family; a panic happens only for a SLES image whose family has no major version; any
  other list has a license in it.\<close>

theorem license_list_exact:
  "case requiredLicenseList b img of
     None \<Rightarrow> list_ex (Contains (im_Name img)) known_families \<and> IsSLES (im_Name img)
       \<and> \<not> MatchString slesMajorVersionRe (replace_at_end imageSuffixRe [] (im_Family img))
   | Some (Inl err) \<Rightarrow> \<not> list_ex (Contains (im_Name img)) known_families
   | Some (Inr licenses) \<Rightarrow> list_ex (Contains (im_Name img)) known_families \<and> licenses \<noteq> []"
proof (cases "license_rule b img")
  case None
  then show ?thesis using license_rule_known [of b img] by (simp add: requiredLicenseList_def)
next
  case (Some r)
  obtain project transform where r: "r = (project, transform)" by (cases r)
  show ?thesis
    using license_rule_known [of b img] license_rule_gives [OF Some [unfolded r]] Some r
    by (cases "transform [license_url b project (replace_at_end imageSuffixRe [] (im_Family img))]")
       (auto simp: requiredLicenseList_def)
qed

end
