(* ===== verification/Accelerator_Setup.thy ===== *)
theory Accelerator_Setup
  imports Suite_Calls
begin

text \<open>
  The setups that \<open>utils/acceleratorutils/acceleratorutils.go\<close> shares and the six accelerator suites:
  two GVNIC networks and one RDMA network with eight subnetworks, and machines with eight GPUs.
\<close>

subsection \<open>Networks\<close>

definition gvnic_net :: "nat \<Rightarrow> string" where "gvnic_net i = ''gvnic-net'' @ utoa i"
definition gvnic_subnet :: "nat \<Rightarrow> string" where "gvnic_subnet i = gvnic_net i @ ''-sub0''"
definition mrdmaNetName :: string where "mrdmaNetName = ''mrdma-net''"
definition mrdma_subnet_name :: "nat \<Rightarrow> string" where "mrdma_subnet_name i = ''mrdma-net-sub-'' @ utoa i"
definition firewallAllowProtocols :: "string list" where "firewallAllowProtocols = [''tcp'', ''udp'', ''icmp'']"

definition subnet_of_third :: "nat \<Rightarrow> string" where
  "subnet_of_third i = ''192.168.'' @ utoa i @ ''.0/24''"

text \<open>The zone without its last part; \<open>None\<close> when it has no dash.\<close>

definition region_of_zone :: "string \<Rightarrow> string option" where
  "region_of_zone zone = (let i = LastIndex (CHR ''-'') zone in if i = -1 then None else Some (take (nat i) zone))"

definition gvnic_network :: "engine \<Rightarrow> string list \<Rightarrow> string \<Rightarrow> nat \<Rightarrow> unit operation" where
  "gvnic_network e protocols testRegion i =
     and_then (CreateNetwork e (gvnic_net i) False) (\<lambda>net.
     and_then (CreateSubnetwork e net (gvnic_subnet i) (subnet_of_third i)) (\<lambda>sub.
     and_then (for_each (\<lambda>protocol. CreateFirewallRule e net (gvnic_net i @ ''-allow-'' @ protocol) protocol []
        (Some [subnet_of_third i])) protocols) (\<lambda>_.
     modify (SetRegion sub testRegion))))"

definition mrdma_network :: "string \<Rightarrow> string \<Rightarrow> network" where
  "mrdma_network project testZone = \<lparr>nw_Name = mrdmaNetName, nw_Description = [], nw_Mtu = JumboFramesMTU,
     nw_Profile = ''projects/'' @ project @ ''/global/networkProfiles/'' @ testZone @ ''-vpc-roce'',
     nw_AutoCreate = Some False, nw_EnableUlaInternalIpv6 = False\<rparr>"

definition mrdma_subnet :: "engine \<Rightarrow> network_handle \<Rightarrow> string \<Rightarrow> nat \<Rightarrow> unit operation" where
  "mrdma_subnet e mrdmaNet testRegion i =
     and_then (CreateSubnetwork e mrdmaNet (mrdma_subnet_name i) (subnet_of_third (i + 2))) (\<lambda>sub.
     modify (SetRegion sub testRegion))"

definition gvnic_nic :: "nat \<Rightarrow> interface" where
  "gvnic_nic i = new_interface\<lparr>if_NicType := ''GVNIC'', if_Network := gvnic_net i, if_Subnetwork := gvnic_subnet i\<rparr>"

definition mrdma_nic :: "nat \<Rightarrow> interface" where
  "mrdma_nic i = new_interface\<lparr>if_NicType := ''MRDMA'', if_Network := mrdmaNetName, if_Subnetwork := mrdma_subnet_name i,
     if_AccessConfigs := Some []\<rparr>"

definition accelerator_nics :: "interface list" where
  "accelerator_nics = [gvnic_nic 0, gvnic_nic 1] @ map mrdma_nic [0..<8]"

text \<open>\<open>testZone\<close> is the zone of the workflow, \<open>protocols\<close> what the firewall lets through.\<close>

definition accelerator_networks :: "engine \<Rightarrow> string list \<Rightarrow> string \<Rightarrow> interface list operation" where
  "accelerator_networks e protocols testZone =
     (case region_of_zone testZone of
        None \<Rightarrow> raise (''invalid zone: '' @ testZone)
      | Some testRegion \<Rightarrow>
          and_then (gvnic_network e protocols testRegion 0) (\<lambda>_.
          and_then (gvnic_network e protocols testRegion 1) (\<lambda>_.
          reading tw_Project (\<lambda>project.
          and_then (CreateNetworkFromDaisyNetwork e (mrdma_network project testZone)) (\<lambda>mrdmaNet.
          and_then (for_each (mrdma_subnet e mrdmaNet testRegion) [0..<8]) (\<lambda>_.
          give accelerator_nics))))))"

definition accelerator_CreateNetwork :: "engine \<Rightarrow> suite_client \<Rightarrow> interface list operation" where
  "accelerator_CreateNetwork e sc = reading (\<lambda>t. fst (sc_own sc t)) (accelerator_networks e firewallAllowProtocols)"

subsection \<open>Machines\<close>

definition accelerator_machine :: "string \<Rightarrow> string \<Rightarrow> interface list \<Rightarrow> test_workflow \<Rightarrow> machine" where
  "accelerator_machine testZone name nics t = new_machine\<lparr>m_Name := name, m_MachineType := machine_type t, m_Zone := testZone,
     m_Scheduling := Some (no_scheduling\<lparr>sch_OnHostMaintenance := ''TERMINATE''\<rparr>), m_Interfaces := Some nics,
     m_GuestAccelerators := [(8, ''zones/'' @ testZone @ ''/acceleratorTypes/'' @ tw_AcceleratorType t)]\<rparr>"

definition accelerator_vm :: "engine \<Rightarrow> int \<Rightarrow> string \<Rightarrow> string \<Rightarrow> interface list \<Rightarrow> test_vm operation" where
  "accelerator_vm e gb testZone name nics =
     reading (accelerator_machine testZone name nics) (\<lambda>inst.
     CreateTestVMFromInstanceBeta e inst
       [(disk_named name)\<lparr>dp_Type := HyperdiskBalanced, dp_Zone := testZone, dp_SizeGb := gb\<rparr>])"

definition accelerator_CreateVM :: "engine \<Rightarrow> suite_client \<Rightarrow> string \<Rightarrow> interface list \<Rightarrow> test_vm operation" where
  "accelerator_CreateVM e sc name nics = reading (\<lambda>t. fst (sc_own sc t)) (\<lambda>testZone. accelerator_vm e 80 testZone name nics)"

definition CreateHostAndClientVMs :: "engine \<Rightarrow> suite_client \<Rightarrow> interface list \<Rightarrow> (test_vm \<times> test_vm) operation" where
  "CreateHostAndClientVMs e sc nics =
     and_then (accelerator_CreateVM e sc ''rdmahost'' nics) (\<lambda>hostVM.
     and_then (accelerator_CreateVM e sc ''rdmaclient'' nics) (\<lambda>clientVM. give (hostVM, clientVM)))"

subsection \<open>The suites\<close>

definition acceleratorconfig_tests :: string where
  "acceleratorconfig_tests = ''TestGpuCount|TestNicCount|TestGPUNumaMapping|TestNICNumaMapping|TestNICNaming|TestPCIETopology|TestGids|TestIbvDevinfo''"

definition acceleratorconfig_TestSetup :: "engine \<Rightarrow> suite_client \<Rightarrow> unit operation" where
  "acceleratorconfig_TestSetup e sc =
     and_then (modify LockProject) (\<lambda>_.
     reading tw_Image (\<lambda>img.
     and_then (if IsAccelerator (im_Name img) then give () else modify (Skip (''Skipping AcceleratorConfig tests for ''
       @ ''non-Accelerator/non-Nvidia images. The image name suggests that this is not an Accelerator image. ''
       @ ''We currently support Rocky and Ubuntu Accelerator images.''))) (\<lambda>_.
     reading (\<lambda>t. fst (sc_own sc t)) (\<lambda>testZone.
     and_then (accelerator_networks e [] testZone) (\<lambda>nics.
     and_then (accelerator_vm e 0 testZone ''accelerator-cfg'' nics) (\<lambda>tvm.
     modify (RunTests tvm acceleratorconfig_tests)))))))"

definition acceleratornccl_TestSetup :: "engine \<Rightarrow> suite_client \<Rightarrow> unit operation" where
  "acceleratornccl_TestSetup e sc =
     and_then (modify LockProject) (\<lambda>_.
     and_then (accelerator_CreateNetwork e sc) (\<lambda>nics.
     and_then (accelerator_CreateVM e sc ''ncclVM'' nics) (\<lambda>vm. modify (RunTests vm ''TestNCCL''))))"

definition rdma_suite :: "string \<Rightarrow> engine \<Rightarrow> suite_client \<Rightarrow> unit operation" where
  "rdma_suite test e sc =
     and_then (modify LockProject) (\<lambda>_.
     and_then (accelerator_CreateNetwork e sc) (\<lambda>nics.
     and_then (CreateHostAndClientVMs e sc nics) (\<lambda>(hostVM, clientVM).
     and_then (modify (RunTests hostVM (test @ ''Host''))) (\<lambda>_. modify (RunTests clientVM (test @ ''Client''))))))"

definition acceleratorrdma_TestSetup :: "engine \<Rightarrow> suite_client \<Rightarrow> unit operation" where
  "acceleratorrdma_TestSetup = rdma_suite ''TestGPUDirectRDMA''"

definition acceleratorrdmabandwidth_TestSetup :: "engine \<Rightarrow> suite_client \<Rightarrow> unit operation" where
  "acceleratorrdmabandwidth_TestSetup = rdma_suite ''TestIBWriteBW''"

definition acceleratorrdmanetwork_TestSetup :: "engine \<Rightarrow> suite_client \<Rightarrow> unit operation" where
  "acceleratorrdmanetwork_TestSetup = rdma_suite ''TestRDMANetwork''"

definition acceleratorrdmawriteimmediate_TestSetup :: "engine \<Rightarrow> suite_client \<Rightarrow> unit operation" where
  "acceleratorrdmawriteimmediate_TestSetup = rdma_suite ''TestWriteWithImmediate''"

subsection \<open>The tools of the tests\<close>

text \<open>The CUDA version that \<open>nvidia-smi\<close> names, and the package of it; \<open>None\<close> ends the test.\<close>

definition cuda_package :: "string \<Rightarrow> string option" where
  "cuda_package out =
     (case find (\<lambda>l. Contains l ''CUDA Version'') (Split (CHR 0x0A) out) of
        None \<Rightarrow> None
      | Some cudaVersionLine \<Rightarrow>
          (let line = Fields cudaVersionLine
           in if length line < 4 then None
              else Some (''cuda-toolkit-'' @ ReplaceAll (last line) ''.'' ''-'')))"

definition IsRockyLinux :: "string + string \<Rightarrow> bool" where
  "IsRockyLinux osRelease = (case osRelease of Inl err \<Rightarrow> False | Inr content \<Rightarrow> IsRocky content)"

text \<open>
  The client is run again while the host refuses the connection.  \<open>run k\<close> is the k-th run: its output and
  whether it failed; \<open>expired k\<close> whether the context has ended after it.  \<open>Some None\<close> ends the test.
\<close>

partial_function (option) rdma_client_from ::
  "(nat \<Rightarrow> string \<times> bool) \<Rightarrow> (nat \<Rightarrow> bool) \<Rightarrow> string \<Rightarrow> nat \<Rightarrow> string option option" where
  "rdma_client_from run expired target k =
     (let (out, failed) = run k
      in if \<not> failed then Some (Some out)
         else if Contains out (''Couldn't connect to '' @ target)
         then if expired k then Some None else rdma_client_from run expired target (Suc k)
         else Some None)"

declare rdma_client_from.simps [code]

definition RunRDMAClientCommand ::
  "string + string \<Rightarrow> (nat \<Rightarrow> string \<times> bool) \<Rightarrow> (nat \<Rightarrow> bool) \<Rightarrow> string option option" where
  "RunRDMAClientCommand target run expired =
     (case target of Inl err \<Rightarrow> Some None | Inr tg \<Rightarrow> rdma_client_from run expired tg 0)"

text \<open>The loop ends as soon as the context does.\<close>

lemma rdma_client_ends: "expired (k + n) \<Longrightarrow> rdma_client_from run expired target k \<noteq> None"
proof (induction n arbitrary: k)
  case 0
  then show ?case by (subst rdma_client_from.simps) (simp add: Let_def split: prod.split)
next
  case (Suc n)
  then show ?case using Suc.IH [of "Suc k"] by (subst rdma_client_from.simps) (simp add: Let_def split: prod.split)
qed

subsection \<open>The setups call fixtures\<close>

lemma LastIndex_cases:
  "LastIndex c s = -1 \<and> c \<notin> set s \<or> (\<exists>a b. s = a @ c # b \<and> c \<notin> set b \<and> LastIndex c s = int (length a))"
proof (induction s)
  case (Cons x s)
  from Cons.IH show ?case
  proof
    assume "LastIndex c s = -1 \<and> c \<notin> set s"
    then show ?thesis by (cases "x = c") (auto simp: Let_def intro: exI [of _ "[]"])
  next
    assume "\<exists>a b. s = a @ c # b \<and> c \<notin> set b \<and> LastIndex c s = int (length a)"
    then obtain a b where "s = a @ c # b" "c \<notin> set b" "LastIndex c s = int (length a)" by blast
    then have "x # s = (x # a) @ c # b" "LastIndex c (x # s) = int (length (x # a))" by (simp_all add: Let_def)
    then show ?thesis using \<open>c \<notin> set b\<close> by blast
  qed
qed simp

lemma last_split_unique: "a @ c # b = r @ c # l \<Longrightarrow> c \<notin> set b \<Longrightarrow> c \<notin> set l \<Longrightarrow> a = r"
  by (auto simp: append_eq_append_conv2 Cons_eq_append_conv append_eq_Cons_conv)

lemma region_of_zone_Some: "region_of_zone z = Some r \<longleftrightarrow> (\<exists>l. z = r @ CHR ''-'' # l \<and> CHR ''-'' \<notin> set l)"
proof (cases "CHR ''-'' \<in> set z")
  case True
  then obtain a b where z: "z = a @ CHR ''-'' # b" "CHR ''-'' \<notin> set b" "LastIndex (CHR ''-'') z = int (length a)"
    using LastIndex_cases [of "CHR ''-''" z] by blast
  then have "region_of_zone z = Some a" by (simp add: region_of_zone_def Let_def)
  moreover have "r = a" if "z = r @ CHR ''-'' # l" "CHR ''-'' \<notin> set l" for l
    using last_split_unique [of a "CHR ''-''" b r l] that z(1,2) by simp
  ultimately have "z = r @ CHR ''-'' # l \<and> CHR ''-'' \<notin> set l \<Longrightarrow> region_of_zone z = Some r" for l by blast
  moreover have "region_of_zone z = Some r \<Longrightarrow> z = r @ CHR ''-'' # b \<and> CHR ''-'' \<notin> set b"
    using z(1,2) \<open>region_of_zone z = Some a\<close> by simp
  ultimately show ?thesis by blast
next
  case False
  then have "LastIndex (CHR ''-'') z = -1" using LastIndex_cases [of "CHR ''-''" z] by force
  then have "region_of_zone z = None" by (simp add: region_of_zone_def)
  moreover have "z \<noteq> r @ CHR ''-'' # l" for l using False by auto
  ultimately show ?thesis by simp
qed

lemmas accelerator_defs = accelerator_networks_def gvnic_network_def mrdma_subnet_def accelerator_vm_def
  accelerator_CreateNetwork_def accelerator_CreateVM_def CreateHostAndClientVMs_def

lemma accelerator_calls:
  "sound_setup e (acceleratorconfig_TestSetup e sc)" "sound_setup e (acceleratornccl_TestSetup e sc)"
  "sound_setup e (acceleratorrdma_TestSetup e sc)" "sound_setup e (acceleratorrdmabandwidth_TestSetup e sc)"
  "sound_setup e (acceleratorrdmanetwork_TestSetup e sc)" "sound_setup e (acceleratorrdmawriteimmediate_TestSetup e sc)"
  unfolding acceleratorconfig_TestSetup_def acceleratornccl_TestSetup_def acceleratorrdma_TestSetup_def
    acceleratorrdmabandwidth_TestSetup_def acceleratorrdmanetwork_TestSetup_def acceleratorrdmawriteimmediate_TestSetup_def
    rdma_suite_def accelerator_defs
  by (intro suite_calls; simp add: plain_names)+

end
