(* ===== verification/Setups_Basic.thy ===== *)
theory Setups_Basic
  imports Suite_Calls
begin

text \<open>
  The setups of the suites that boot one or a few machines without networks of their own: what each
  asks of the image, the machines it creates and the tests it runs on them.  The compiled exclude
  filter and the random password are parameters.
\<close>

subsection \<open>Windows\<close>

definition windowscontainers_TestSetup :: "engine \<Rightarrow> unit operation" where
  "windowscontainers_TestSetup e =
     reading tw_Image (\<lambda>img. if HasFeature img ''WINDOWS'' then and_then (CreateTestVM e ''vm'') (\<lambda>_. give ()) else give ())"

text \<open>The machine is used before the error is looked at.\<close>

definition security_TestSetup :: "engine \<Rightarrow> unit operation" where
  "security_TestSetup e =
     unguarded (CreateTestVM e ''securitySetttings'') (\<lambda>vm.
     and_then (modify (AddMetadata vm ''enable-windows-ssh'' ''true'')) (\<lambda>_.
     modify (AddMetadata vm ''sysprep-specialize-script-cmd'' ''googet -noconfirm=true install google-compute-engine-ssh'')))"

definition wsfcAgentPort :: string where "wsfcAgentPort = ''59998''"

definition wsfc_TestSetup :: "engine \<Rightarrow> unit operation" where
  "wsfc_TestSetup e =
     reading tw_Image (\<lambda>img.
     and_then (if HasFeature img ''WINDOWS'' then give () else modify (Skip ''Skipping wsfc test for non-Windows images.'')) (\<lambda>_.
     and_then (CreateTestVM e ''wsfc'') (\<lambda>vm.
     in_turn [modify (AddMetadata vm ''enable-wsfc'' ''true''), modify (AddMetadata vm ''wcf-agent-port'' wsfcAgentPort),
       modify (RunTests vm ''TestHealthCheckAgent'')])))"

text \<open>\<open>passwd\<close> is what \<open>ValidWindowsPassword 14\<close> gives when it returns.\<close>

definition winrm_vm :: "engine \<Rightarrow> string \<Rightarrow> string \<times> string \<Rightarrow> unit operation" where
  "winrm_vm e passwd v =
     and_then (CreateTestVM e (fst v)) (\<lambda>vm.
     and_then (modify (AddMetadata vm ''winrm-passwd'' passwd)) (\<lambda>_. modify (RunTests vm (snd v))))"

definition winrm_TestSetup :: "engine \<Rightarrow> string \<Rightarrow> unit operation" where
  "winrm_TestSetup e passwd =
     reading tw_Image (\<lambda>img.
     and_then (if IsWindowsClient (im_Name img) then modify (Skip ''Skipping winrm test for Windows Client Images.'') else give ()) (\<lambda>_.
     if \<not> HasFeature img ''WINDOWS'' then give ()
     else for_each (winrm_vm e passwd) [(''client'', ''TestWinrmConnection''), (''server'', ''TestWaitForWinrmConnection'')]))"

definition packageupgrade_vms :: "(string \<times> string) list" where
  "packageupgrade_vms =
     [(''installDrivers'', ''TestPvpanicDriverInstallFromTesting|TestGgaDriverInstallFromTesting|'' @
        ''TestBalloonDriverInstallFromTesting|TestNetkvmDriverInstallFromTesting|TestVioscsiDriverInstallFromTesting''),
      (''installPackages'', ''TestCertgenPackageInstallFromTesting|TestGoogetPackageInstallFromTesting|'' @
        ''TestGceDiagnosticsPackageInstallFromTesting|TestGceMetadataScriptsPackageInstallFromTesting''),
      (''installPackages2'', ''TestGcePowershellPackageInstallFromTesting|TestGceSysprepPackageInstallFromTesting|'' @
        ''TestWindowsGuestAgentInstallFromTesting|TestOSConfigAgentInstallFromTesting''),
      (''googetUpdate'', ''TestGoogetUpdateFromTesting'')]"

definition upgrade_vm :: "engine \<Rightarrow> string \<times> string \<Rightarrow> unit operation" where
  "upgrade_vm e v =
     and_then (CreateTestVM e (fst v)) (\<lambda>vm.
     and_then (modify (AddScope vm cloud_platform)) (\<lambda>_. modify (RunTests vm (snd v))))"

definition packageupgrade_TestSetup :: "engine \<Rightarrow> unit operation" where
  "packageupgrade_TestSetup e =
     reading tw_Image (\<lambda>img.
     if \<not> HasFeature img ''WINDOWS'' then give ()
     else and_then (for_each (upgrade_vm e) packageupgrade_vms) (\<lambda>_.
       if HasFeature img ''GVNIC'' \<and> \<not> Contains (im_Name img) ''windows-server-2012-r2''
       then upgrade_vm e (''gvnicDriverUpdate'', ''TestGvnicDriverInstallFromTesting'') else give ()))"

subsection \<open>One machine with parameters\<close>

definition livemigrate_TestSetup :: "engine \<Rightarrow> unit operation" where
  "livemigrate_TestSetup e =
     run_instance e [disk_named ''livemigrate''] (new_machine\<lparr>m_Scopes := [cloud_platform],
       m_Scheduling := Some (no_scheduling\<lparr>sch_OnHostMaintenance := ''MIGRATE''\<rparr>)\<rparr>) ''TestLiveMigrate''"

definition hotattach_disks :: "string \<Rightarrow> disk_params list" where
  "hotattach_disks diskType =
     [(disk_named (ReplaceAll (''reattach'' @ diskType) ''-'' []))\<lparr>dp_Type := diskType\<rparr>,
      (disk_named ''hotattachmount'')\<lparr>dp_Type := diskType, dp_SizeGb := 30\<rparr>]"

definition hotattach_TestSetup :: "engine \<Rightarrow> unit operation" where
  "hotattach_TestSetup e =
     reading machine_type (\<lambda>mt.
     and_then (CreateTestVMMultipleDisks e (hotattach_disks (DiskTypeNeeded mt)) (Some (new_machine\<lparr>m_Scopes := [cloud_platform]\<rparr>)))
       (\<lambda>vm.
     and_then (modify (AddMetadata vm ''hotattach-disk-name'' ''hotattachmount'')) (\<lambda>_.
     modify (RunTests vm ''TestFileHotAttach''))))"

definition unsupportedImages :: "string list" where
  "unsupportedImages = [''windows-server-2012-r2'', ''rhel-8-2-sap'', ''rhel-8-1-sap'', ''debian-10'',
     ''ubuntu-pro-1804-bionic-arm64'', ''sles-15-sp7'']"

definition suspendresume_TestSetup :: "engine \<Rightarrow> unit operation" where
  "suspendresume_TestSetup e =
     reading tw_Image (\<lambda>img.
     if im_Architecture img = ''ARM64'' \<or> list_ex (Contains (im_Name img)) unsupportedImages then give ()
     else and_then (CreateTestVMMultipleDisks e [disk_named ''suspend''] (Some (new_machine\<lparr>m_Scopes := [cloud_platform]\<rparr>))) (\<lambda>vm.
       and_then (modify (RunTests vm ''TestSuspend'')) (\<lambda>_. ignoring (Resume e vm))))"

subsection \<open>Families of images\<close>

definition lvmvalidation_TestSetup :: "engine \<Rightarrow> unit operation" where
  "lvmvalidation_TestSetup e =
     reading tw_Image (\<lambda>img.
     and_then (if IsRHEL (im_Name img) then give () else modify (Skip ''LVM validation test only supports Red Hat images.'')) (\<lambda>_.
     run_on e ''lvmTest'' ''TestLVMPackage|TestLVMExists''))"

text \<open>\<open>rhel-[0-9]{1,2}-[0-9]{0,2}\<close>\<close>

definition rhelVersionRe :: rexp where
  "rhelVersionRe = Seq (word ''rhel-'') (Seq (repeats 1 2 any_digit) (Seq (Ch CHR ''-'') (repeats 0 2 any_digit)))"

definition rhel_versions :: "string \<Rightarrow> string \<times> string" where
  "rhel_versions name =
     (let rhelVersionSplit = Split (CHR ''-'') (TrimPrefix (FindString rhelVersionRe name) ''rhel-'')
      in (hd rhelVersionSplit, if 1 < length rhelVersionSplit then rhelVersionSplit ! 1 else []))"

definition rhel_TestSetup :: "engine \<Rightarrow> unit operation" where
  "rhel_TestSetup e =
     reading tw_Image (\<lambda>img.
     and_then (if IsRHEL (im_Name img) then give () else modify (Skip ''Skipping RHEL test for non-RHEL images.'')) (\<lambda>_.
     and_then (CreateTestVM e ''rhel'') (\<lambda>vm.
     in_turn [modify (AddMetadata vm ''rhel-major-version'' (fst (rhel_versions (im_Name img)))),
       modify (AddMetadata vm ''rhel-minor-version'' (snd (rhel_versions (im_Name img)))),
       modify (RunTests vm ''TestVersionLock|TestRhuiPackage|TestPackageInstallation'')])))"

definition hostnamevalidation_TestSetup :: "engine \<Rightarrow> unit operation" where
  "hostnamevalidation_TestSetup e =
     reading tw_Image (\<lambda>img.
     and_then (run_on e ''vm1'' ''TestHostname|TestFQDN|TestHostKeysGeneratedOnce|TestHostsFile'') (\<lambda>_.
     if \<not> HasFeature img ''WINDOWS'' then run_on e ''vm2.custom.domain'' ''TestCustomHostname'' else give ()))"

definition no_core_plugin :: "string \<Rightarrow> bool" where
  "no_core_plugin name \<longleftrightarrow> \<not> Contains name ''guest-agent''
     \<and> (Contains name ''sles'' \<or> (Contains name ''ubuntu'' \<and> \<not> Contains name ''-2610-''))"

definition pluginmanager_TestSetup :: "engine \<Rightarrow> unit operation" where
  "pluginmanager_TestSetup e =
     and_then (run_on e ''plugincleanup'' ''TestPluginCleanup'') (\<lambda>_.
     reading tw_Image (\<lambda>img.
     if no_core_plugin (im_Name img) then run_on e ''nocoreplugin'' ''TestPluginManagerNoCorePlugin''
     else in_turn [run_on e ''localplugin'' ''TestLocalPlugin'', run_on e ''pluginstop'' ''TestCorePluginStop'',
       run_on e ''acsdisabled'' ''TestACSDisabled'']))"

definition mdsmtls_TestSetup :: "engine \<Rightarrow> unit operation" where
  "mdsmtls_TestSetup e =
     reading tw_Image (\<lambda>img.
     if \<not> HasFeature img ''UEFI_COMPATIBLE'' then give ()
     else and_then (CreateTestVM e ''mtlscreds'') (\<lambda>vm.
       and_then (modify (AddMetadata vm ''disable-https-mds-setup'' ''FALSE'')) (\<lambda>_.
       and_then (CreateTestVM e ''mtlscredsdisabled'') (\<lambda>vm2.
       and_then (modify (AddMetadata vm2 ''disable-https-mds-setup'' ''TRUE'')) (\<lambda>_.
       and_then (CreateTestVM e ''mtlscredswithtruststore'') (\<lambda>vm3.
       in_turn [modify (AddMetadata vm3 ''disable-https-mds-setup'' ''FALSE''),
         modify (AddMetadata vm3 ''enable-https-mds-native-cert-store'' ''TRUE''),
         modify (RunTests vm ''TestMTLSCredsExists|TestMTLSJobScheduled''), modify (RunTests vm2 ''TestDisabled''),
         modify (RunTests vm3 ''TestCredsExistsInOSTrustStore'')]))))))"

subsection \<open>Installed packages\<close>

definition ootGVEImageName :: string where
  "ootGVEImageName = ''rocky-linux-10-optimized-gcp-oot-gve''"

definition isOOTGVEImage :: "string \<Rightarrow> bool" where
  "isOOTGVEImage imageName = (imageName = ootGVEImageName \<or> HasPrefix imageName (ootGVEImageName @ ''-v''))"

definition package_tests :: "string \<Rightarrow> string" where
  "package_tests name =
     ''TestStandardPrograms|TestGuestPackages'' @ (if isOOTGVEImage name then ''|TestOOTGVEModule'' else [])
       @ (if Contains name ''artifact-registry'' then ''|TestArtifactRegistryPlugin'' else [])"

definition windows_package_vms :: "string \<Rightarrow> (string \<times> string) list" where
  "windows_package_vms name =
     [(''googetFunctionality'', ''TestGooGetInstalled|TestGooGetAvailable|TestSigned|TestRemoveInstall'' @
        ''|TestPackagesInstalled|TestPackagesAvailable|TestPackagesSigned''), (''repomanagement'', ''TestRepoManagement'')]
     @ (if Contains name ''windows-server-2012-dc'' then [] else
        [(''drivers'', ''TestNetworkDriverLoaded|TestDriversInstalled|TestDriversRemoved''),
         (''windowsImageValidation'', ''TestAutoUpdateEnabled|TestNetworkConnecton|TestEmsEnabled'' @
           ''|TestTimeZoneUTC|TestPowershellVersion|TestStartExe|TestDotNETVersion'' @
           ''|TestServicesState|TestWindowsEdition|TestWindowsCore|TestServerGuiShell''),
         (''gcesysprep'', ''TestGCESysprep'')])"

definition packagevalidation_TestSetup :: "engine \<Rightarrow> unit operation" where
  "packagevalidation_TestSetup e =
     reading tw_Image (\<lambda>img.
     and_then (CreateTestVM e ''installedPackages'') (\<lambda>vm1.
     and_then (if Contains (im_Name img) ''artifact-registry'' then modify (AddScope vm1 cloud_platform) else give ()) (\<lambda>_.
     and_then (modify (RunTests vm1 (package_tests (im_Name img)))) (\<lambda>_.
     if HasFeature img ''WINDOWS'' then for_each (\<lambda>v. run_on e (fst v) (snd v)) (windows_package_vms (im_Name img))
     else give ()))))"

subsection \<open>Booting\<close>

definition sbUnsupported :: "rexp list" where
  "sbUnsupported =
     [Seq (word ''debian-1'') (Seq (Alt (Ch CHR ''0'') (Ch CHR ''1'')) (Seq anything (word ''arm64''))),
      word ''windows-server-2012-r2-dc-core'',
      Seq (word ''rhel-10-2'') (Seq anything (word ''gvnic-baremetal'')),
      Seq (word ''rhel-10-2'') (Seq anything (word ''oot-gve'')),
      Seq (word ''rocky-linux'') (Seq anything (word ''oot-gve'')),
      Seq (word ''rhel-8'') (Seq anything (word ''arm64'')),
      Seq (word ''rhel-9'') (Seq anything (word ''arm64'')),
      Seq (word ''rhel-10'') (Seq anything (Seq (word ''arm64'') anything)),
      Seq (word ''centos-stream-9'') (Seq anything (word ''arm64'')),
      Seq (word ''centos-stream-10'') (Seq anything (Seq (word ''arm64'') anything)),
      Seq (Alt (word ''sles-15'') (word ''opensuse-leap'')) (Seq anything (word ''arm64''))]"

definition unless_excluded :: "(string \<Rightarrow> (string \<Rightarrow> bool) option) \<Rightarrow> string list \<Rightarrow> unit operation \<Rightarrow> unit operation" where
  "unless_excluded compile tests m = reading (TestsExcluded compile tests) (\<lambda>excluded. if excluded then give () else m)"

definition imageboot_TestSetup :: "engine \<Rightarrow> (string \<Rightarrow> (string \<Rightarrow> bool) option) \<Rightarrow> unit operation" where
  "imageboot_TestSetup e compile =
     in_turn
       [unless_excluded compile [''TestGuestBoot'', ''TestGuestReboot'']
          (and_then (CreateTestVM e ''boot'') (\<lambda>vm. and_then (Reboot e vm) (\<lambda>_. modify (RunTests vm ''TestGuestBoot|TestGuestReboot$'')))),
        unless_excluded compile [''TestGuestRebootOnHost''] (run_on e ''guestreboot'' ''TestGuestRebootOnHost''),
        unless_excluded compile [''TestBootTime''] (run_on e ''boottime'' ''TestBootTime''),
        reading tw_Image (\<lambda>img.
          if list_ex (\<lambda>r. MatchString r (im_Name img)) sbUnsupported \<or> \<not> HasFeature img ''UEFI_COMPATIBLE'' then give ()
          else unless_excluded compile [''TestGuestSecureBoot'']
            (and_then (CreateTestVM e ''secureboot'') (\<lambda>vm4. and_then (modify (EnableSecureBoot vm4)) (\<lambda>_.
             modify (RunTests vm4 ''TestGuestSecureBoot'')))))]"

definition blockdevNamingCases :: "(string \<times> string) list" where
  "blockdevNamingCases = [(''c4a-standard-1'', ''ARM64''), (''c3-standard-4'', ''X86_64'')]"

definition block_naming :: "string \<Rightarrow> string" where
  "block_naming machineType = ''blockNaming'' @ map ascii_upper (hd (Split (CHR ''-'') machineType))"

definition block_naming_vm :: "engine \<Rightarrow> string \<times> string \<Rightarrow> unit operation" where
  "block_naming_vm e tc =
     run_instance e [(disk_named (block_naming (fst tc)))\<lparr>dp_Type := HyperdiskBalanced\<rparr>,
         (disk_named ''secondary'')\<lparr>dp_Type := HyperdiskBalanced, dp_SizeGb := 10\<rparr>]
       (new_machine\<lparr>m_MachineType := fst tc, m_Name := block_naming (fst tc)\<rparr>) ''TestBlockDeviceNaming''"

definition disk_TestSetup :: "engine \<Rightarrow> unit operation" where
  "disk_TestSetup e =
     reading tw_Image (\<lambda>img.
     and_then (CreateTestVMMultipleDisks e [disk_named ''resize''] (Some reboots_during_test)) (\<lambda>vm.
     and_then (if \<not> HasFeature img ''WINDOWS'' then ResizeDiskAndReboot e vm 200 else give ()) (\<lambda>_.
     and_then (modify (RunTests vm ''TestDiskReadWrite|TestDiskResize'')) (\<lambda>_.
     if \<not> HasFeature img ''WINDOWS'' \<and> HasFeature img ''GVNIC''
     then for_each (block_naming_vm e) (filter (\<lambda>tc. snd tc = im_Architecture img) blockdevNamingCases) else give ()))))"

subsection \<open>The setups call fixtures\<close>

lemma simple_setups_call:
  "sound_setup e (windowscontainers_TestSetup e)" "sound_setup e (security_TestSetup e)" "sound_setup e (wsfc_TestSetup e)"
  "sound_setup e (livemigrate_TestSetup e)" "sound_setup e (lvmvalidation_TestSetup e)" "sound_setup e (rhel_TestSetup e)"
  "sound_setup e (hostnamevalidation_TestSetup e)" "sound_setup e (pluginmanager_TestSetup e)" "sound_setup e (mdsmtls_TestSetup e)"
  unfolding windowscontainers_TestSetup_def security_TestSetup_def wsfc_TestSetup_def livemigrate_TestSetup_def
    lvmvalidation_TestSetup_def rhel_TestSetup_def hostnamevalidation_TestSetup_def pluginmanager_TestSetup_def mdsmtls_TestSetup_def
  by (intro suite_calls; simp add: plain_names)+

lemma looping_setups_call:
  "sound_setup e (winrm_TestSetup e passwd)" "sound_setup e (packageupgrade_TestSetup e)" "sound_setup e (packagevalidation_TestSetup e)"
  unfolding winrm_TestSetup_def winrm_vm_def packageupgrade_TestSetup_def upgrade_vm_def packagevalidation_TestSetup_def
  by (intro suite_calls;
      auto simp: plain_iff vmname_first packageupgrade_vms_def windows_package_vms_def split: if_splits)+

lemma block_naming_vm_calls: "sound_setup e (block_naming_vm e tc)"
  unfolding block_naming_vm_def block_naming_def by (intro suite_calls) (simp add: disk_named_def plain_iff vmname_first)

lemma rebooting_setups_call:
  "sound_setup e (suspendresume_TestSetup e)" "sound_setup e (imageboot_TestSetup e compile)" "sound_setup e (disk_TestSetup e)"
  unfolding suspendresume_TestSetup_def imageboot_TestSetup_def unless_excluded_def disk_TestSetup_def
  by (intro suite_calls block_naming_vm_calls;
      auto dest!: yielded_machine simp: disk_named_def plain_iff vmname_first)+

lemma hotattach_calls: "sound_setup e (hotattach_TestSetup e)"
  unfolding hotattach_TestSetup_def
  by (intro suite_calls) (simp add: hotattach_disks_def disk_named_def ReplaceAll_def HasPrefix_def plain_iff vmname_first)

end
