(* ===== verification/Setups_Network.thy ===== *)
theory Setups_Network
  imports Suite_Calls Network_Perf
begin

text \<open>
  The setups of the suites that make networks of their own: \<open>network\<close>, \<open>networkinterfacenaming\<close>,
  \<open>networkconfig\<close>, \<open>mdsroutes\<close>, \<open>packagemanager\<close>, \<open>loadbalancer\<close> and \<open>u4c\<close>.  Flags, the compiled exclude
  filter and the random choice of a zone are parameters.
\<close>

subsection \<open>Interfaces and routes\<close>

text \<open>An interface in a network and its subnetwork.\<close>

definition joins :: "test_vm \<Rightarrow> net_with_subnet \<Rightarrow> unit operation" where
  "joins vm net = AddCustomNetwork vm (fst net) (Some (snd net))"

definition alias_range :: "net_with_subnet \<Rightarrow> unit operation" where
  "alias_range net = modify (AddSecondaryRange (snd net) ''secondary-range'' ''10.14.0.0/16'')"

definition vm1Config :: "string \<times> string" where "vm1Config = (''ping1'', ''192.168.0.2'')"
definition vm2Config :: "string \<times> string" where "vm2Config = (''ping2'', ''192.168.0.3'')"

definition tests_aliases :: "image \<Rightarrow> bool" where
  "tests_aliases img \<longleftrightarrow> \<not> HasFeature img ''WINDOWS''
     \<and> \<not> list_ex (Contains (im_Name img)) [''sles-15'', ''sles-16'', ''opensuse-leap'', ''ubuntu-1604'', ''ubuntu-pro-1604'']
     \<and> \<not> IsCOS (im_Name img)"

text \<open>\<open>(centos|rhel)-7\<close>\<close>

definition el7Re :: rexp where
  "el7Re = Seq (Alt (word ''centos'') (word ''rhel'')) (word ''-7'')"

definition network_nets :: "engine \<Rightarrow> (net_with_subnet \<times> net_with_subnet) operation" where
  "network_nets e =
     and_then (network_with e ''network-1'' ''subnetwork-1'' ''10.128.0.0/20'') (\<lambda>net1.
     and_then (alias_range net1) (\<lambda>_.
     and_then (CreateFirewallRule e (fst net1) ''allow-tcp-net1'' ''tcp'' [] (Some [''10.128.0.0/20''])) (\<lambda>_.
     and_then (network_with e ''network-2'' ''subnetwork-2'' ''192.168.0.0/16'') (\<lambda>net2.
     and_then (CreateFirewallRule e (fst net2) ''allow-tcp-net2'' ''tcp'' [] (Some [''192.168.0.0/16''])) (\<lambda>_.
     give (net1, net2))))))"

definition multinic_tests :: "image \<Rightarrow> string" where
  "multinic_tests img = ''TestWaitForPing''
     @ (if tests_aliases img then ''|TestAlias|TestGgactlCommand|TestNetworkManagerRestart'' else [])
     @ (if HasFeature img ''GVNIC'' \<and> \<not> MatchString el7Re (im_Family img) then ''|TestGVNIC'' else [])"

definition network_TestSetup :: "engine \<Rightarrow> unit operation" where
  "network_TestSetup e =
     reading tw_Image (\<lambda>img.
     and_then (network_nets e) (\<lambda>(net1, net2).
     and_then (CreateTestVM e (fst vm1Config)) (\<lambda>vm1.
     and_then (in_turn [joins vm1 net1, joins vm1 net2, SetPrivateIP vm1 (fst net2) (snd vm1Config),
       modify (RunTests vm1 ''TestStaticIP|TestSendPing|TestDHCP|TestDefaultMTU|TestNTP'')]) (\<lambda>_.
     and_then (CreateTestVMMultipleDisks e [disk_named (fst vm2Config)] (Some reboots_during_test)) (\<lambda>vm2.
     and_then (in_turn [modify (AddMetadata vm2 ''enable-guest-attributes'' ''TRUE''), joins vm2 net1, joins vm2 net2,
       SetPrivateIP vm2 (fst net2) (snd vm2Config), AddAliasIPRanges vm2 ''10.14.8.0/24'' ''secondary-range'', Reboot e vm2,
       if HasFeature img ''GVNIC'' \<and> \<not> MatchString el7Re (im_Family img) then UseGVNIC vm2 else give (),
       modify (RunTests vm2 (multinic_tests img))]) (\<lambda>_.
     if MatchString el7Re (im_Family img)
     then and_then (CreateTestVM e ''testGVNICEl7'') (\<lambda>vm3. and_then (modify (RunTests vm3 ''TestGVNIC'')) (\<lambda>_. UseGVNIC vm3))
     else give ()))))))"

definition mds_unsupported :: "exception list" where
  "mds_unsupported =
     [\<lparr>ex_Match = Some ImageCOS, ex_Version = 0, ex_Type = Equal\<rparr>, \<lparr>ex_Match = Some ImageSLES, ex_Version = 15, ex_Type = Equal\<rparr>]"

text \<open>On most images the setup returns before it says which tests to run.\<close>

definition mdsroutes_TestSetup :: "engine \<Rightarrow> unit operation" where
  "mdsroutes_TestSetup e =
     reading tw_Image (\<lambda>img.
     if HasMatch (im_Family img) mds_unsupported then modify (Skip (''MDS routes not supported on '' @ im_Family img))
     else and_then (network_with e ''network-1'' ''subnetwork-1'' ''10.128.0.0/20'') (\<lambda>net1.
       and_then (alias_range net1) (\<lambda>_.
       and_then (network_with e ''network-2'' ''subnetwork-2'' ''192.168.0.0/16'') (\<lambda>net2.
       and_then (CreateTestVM e ''multinic'') (\<lambda>vm.
       and_then (in_turn [joins vm net1, joins vm net2, SetPrivateIP vm (fst net2) ''192.168.0.2'',
         AddAliasIPRanges vm ''10.14.8.0/24'' ''secondary-range'']) (\<lambda>_.
       if \<not> MatchAll (im_Name img) (Some ImageUbuntu) [\<lparr>ex_Match = None, ex_Version = 2204, ex_Type = Equal\<rparr>] then give ()
       else modify (RunTests vm (Join ''|'' [''TestDNS'', ''TestMetadataPath'']))))))))"

subsection \<open>Names of interfaces\<close>

definition supportedZones :: "string list" where
  "supportedZones = [''asia-southeast1-a'', ''asia-southeast1-c'', ''us-west1-a'', ''us-west1-b'', ''us-east1-c'',
     ''us-east1-d'', ''us-east4-a'', ''us-east4-c'', ''europe-west1-b'', ''europe-west1-c'']"

text \<open>
  The zone of the metal machine and the zones used from then on; \<open>intn n\<close> is a random number below n.
\<close>

definition c3metalZone :: "string \<Rightarrow> (nat \<Rightarrow> nat) \<Rightarrow> string list \<Rightarrow> string \<times> string list" where
  "c3metalZone flag intn used =
     (if flag \<noteq> [] then (flag, used)
      else let unused = filter (\<lambda>z. z \<notin> set used) supportedZones
           in if unused = [] then let zone = supportedZones ! intn (length supportedZones) in (zone, [zone])
              else let zone = unused ! intn (length unused) in (zone, zone # used))"

definition gvnicOnly :: "string \<Rightarrow> bool" where
  "gvnicOnly machineType = list_ex (HasPrefix machineType) [''c3'', ''c4'', ''n4'']"

definition nic_pair :: "image \<Rightarrow> string \<Rightarrow> string \<times> string" where
  "nic_pair img machineType =
     (if im_Architecture img \<noteq> ''ARM64'' \<and> HasFeature img ''GVNIC''
      then (if gvnicOnly machineType then ''GVNIC'' else ''VIRTIO_NET'', ''GVNIC'') else ([], []))"

definition nicname_machine :: "string \<times> string \<Rightarrow> machine" where
  "nicname_machine nics = new_machine\<lparr>m_Interfaces := Some
     [new_interface\<lparr>if_NicType := fst nics, if_Subnetwork := ''subnetwork-1''\<rparr>,
      new_interface\<lparr>if_NicType := snd nics, if_Subnetwork := ''subnetwork-2''\<rparr>]\<rparr>"

definition metal_machine :: "string \<Rightarrow> machine" where
  "metal_machine zone = new_machine\<lparr>m_MachineType := ''c3-standard-192-metal'', m_Zone := zone,
     m_Scheduling := Some (no_scheduling\<lparr>sch_OnHostMaintenance := ''TERMINATE''\<rparr>)\<rparr>"

text \<open>\<open>zone\<close> is what \<open>c3metalZone\<close> gives.\<close>

definition networkinterfacenaming_TestSetup ::
  "engine \<Rightarrow> (string \<Rightarrow> (string \<Rightarrow> bool) option) \<Rightarrow> string \<Rightarrow> unit operation" where
  "networkinterfacenaming_TestSetup e compile zone =
     reading tw_Image (\<lambda>img. reading machine_type (\<lambda>mt.
     reading (ShouldRunTests compile ''TestNICNamingScheme'') (\<lambda>runNICNaming.
     reading (\<lambda>t. im_Architecture img = ''X86_64'' \<and> HasFeature img ''IDPF'' \<and> ShouldRunTests compile ''TestIDPFNICNamingScheme'' t)
       (\<lambda>runIDPFNICNaming.
     if \<not> runNICNaming \<and> \<not> runIDPFNICNaming
     then modify (Skip ''all applicable networkinterfacenaming tests are excluded'')
     else and_then (if runIDPFNICNaming
         then run_instance e [(disk_named ''c3metal'')\<lparr>dp_Type := DiskTypeNeeded ''c3-standard-192-metal'', dp_Zone := zone\<rparr>]
           (metal_machine zone) ''TestIDPFNICNamingScheme''
         else give ()) (\<lambda>_.
       if \<not> runNICNaming then give ()
       else and_then (network_with e ''network-1'' ''subnetwork-1'' ''10.128.0.0/20'') (\<lambda>_.
         and_then (network_with e ''network-2'' ''subnetwork-2'' ''192.168.0.0/16'') (\<lambda>_.
         run_instance e [(disk_named ''nicname'')\<lparr>dp_Type := DiskTypeNeeded mt\<rparr>] (nicname_machine (nic_pair img mt))
           ''TestNICNamingScheme'')))))))"

subsection \<open>One machine with the interfaces of a flag\<close>

text \<open>\<open>nics\<close> and \<open>model\<close> are the flags of the NIC types and of the provisioning model.\<close>

definition networkconfig_createMachine ::
  "engine \<Rightarrow> string \<Rightarrow> string \<Rightarrow> string \<Rightarrow> string \<Rightarrow> test_vm operation" where
  "networkconfig_createMachine e nics model machineType zone =
     (case ExpandNICTypes nics of
        Inl err \<Rightarrow> raise (''expanding NIC types: '' @ nic_text err)
      | Inr nicTypes \<Rightarrow> reading tw_Project (\<lambda>project.
          and_then (wrapping ''creating machine with networks'' (CreateMachineWithNetworks e model project zone machineType nicTypes))
            (\<lambda>inst.
          and_then (wrapping ''creating machine'' (CreateTestVMMultipleDisks e
            [(disk_named ''machine'')\<lparr>dp_Type := DiskTypeNeeded machineType, dp_Zone := zone\<rparr>] (Some inst))) (\<lambda>vm.
          and_then (modify (ForceMachineType vm machineType)) (\<lambda>_.
          and_then (modify (ForceZone vm zone)) (\<lambda>_. give vm))))))"

definition networkconfig_TestSetup :: "engine \<Rightarrow> suite_client \<Rightarrow> string \<Rightarrow> string \<Rightarrow> unit operation" where
  "networkconfig_TestSetup e sc nics model =
     reading machine_type (\<lambda>mt. reading (\<lambda>t. fst (sc_own sc t)) (\<lambda>zone.
     and_then (networkconfig_createMachine e nics model mt zone) (\<lambda>vm.
     modify (RunTests vm ''TestNICNames|TestDeviceConfig''))))"

subsection \<open>Subnetworks with a stack\<close>

definition stack_subnet :: "string \<Rightarrow> string \<Rightarrow> string \<Rightarrow> string \<Rightarrow> subnetwork" where
  "stack_subnet name stack cidr access = \<lparr>sn_Name = name, sn_Description = [], sn_Cidr = cidr, sn_Network = [],
     sn_StackType = stack, sn_Ipv6AccessType = access, sn_Region = [], sn_Purpose = [], sn_Role = [], sn_Secondary = [],
     sn_NoCleanup = False\<rparr>"

definition stack_machine :: "string \<Rightarrow> string \<Rightarrow> machine" where
  "stack_machine stack sub = new_machine\<lparr>m_Interfaces := Some
     [new_interface\<lparr>if_StackType := stack, if_Network := ''network-1'', if_Subnetwork := sub\<rparr>]\<rparr>"

definition packagemanager_TestSetup :: "engine \<Rightarrow> unit operation" where
  "packagemanager_TestSetup e =
     and_then (CreateNetwork e ''network-1'' False) (\<lambda>network1.
     and_then (CreateSubnetworkFromDaisySubnetwork e network1 (stack_subnet ''ipv4Only'' ''IPV4_ONLY'' ''10.128.0.0/24'' [])) (\<lambda>_.
     and_then (CreateSubnetworkFromDaisySubnetwork e network1 (stack_subnet ''dualStack'' ''IPV4_IPV6'' ''10.128.1.0/24'' ''EXTERNAL''))
       (\<lambda>_.
     and_then (run_instance e [disk_named ''dualstack''] (stack_machine ''IPV4_IPV6'' ''dualStack'') ''TestRepoReachabilityDualStack'')
       (\<lambda>_.
     and_then (run_instance e [disk_named ''ipv4only''] (stack_machine ''IPV4_ONLY'' ''ipv4Only'') ''TestRepoReachabilityIPv4Only'')
       (\<lambda>_.
     reading tw_Image (\<lambda>img.
     if Contains (im_Name img) ''guest-agent'' then run_on e ''removeagent'' ''TestRemoveAgentSetup'' else give ()))))))"

subsection \<open>Load balancers\<close>

definition lb_net :: "engine \<Rightarrow> net_with_subnet operation" where
  "lb_net e =
     and_then (CreateNetwork e ''loadbalancer'' False) (\<lambda>lbnet.
     and_then (CreateSubnetwork e lbnet ''lb-proxy-subnet'' ''10.1.2.128/25'') (\<lambda>proxysubnet.
     and_then (modify (SetPurpose proxysubnet ''REGIONAL_MANAGED_PROXY'')) (\<lambda>_.
     and_then (modify (SetRole proxysubnet ''ACTIVE'')) (\<lambda>_.
     and_then (CreateSubnetwork e lbnet ''lb-backend-subnet'' ''10.1.2.0/25'') (\<lambda>lbsubnet.
     and_then (in_turn
       [CreateFirewallRule e lbnet ''fw-allow-health-check'' ''tcp'' [] (Some [''130.211.0.0/22'', ''35.191.0.0/16'']),
        CreateFirewallRule e lbnet ''fw-lb-access'' ''tcp'' [] (Some [''10.1.2.0/25'']),
        CreateFirewallRule e lbnet ''fw-proxy-access'' ''tcp'' [] (Some [''10.1.2.128/25''])]) (\<lambda>_.
     give (lbnet, lbsubnet)))))))"

text \<open>A machine: its name, address and test, and whether it is a client, which has one scope more.\<close>

definition lb_vms :: "(string \<times> string \<times> string \<times> bool) list" where
  "lb_vms =
     [(''l3backend1'', ''10.1.2.10'', ''TestL3Backend'', False), (''l3backend2'', ''10.1.2.20'', ''TestL3Backend'', False),
      (''l3client'', ''10.1.2.50'', ''TestL3Client'', True),
      (''l7backend1'', ''10.1.2.30'', ''TestL7Backend'', False), (''l7backend2'', ''10.1.2.40'', ''TestL7Backend'', False),
      (''l7client'', ''10.1.2.60'', ''TestL7Client'', True)]"

definition mkvm :: "engine \<Rightarrow> net_with_subnet \<Rightarrow> string \<times> string \<times> string \<times> bool \<Rightarrow> unit operation" where
  "mkvm e net v =
     (case v of (name, ip, test, client) \<Rightarrow>
        and_then (CreateTestVMMultipleDisks e [disk_named name] (Some new_machine)) (\<lambda>vm.
        in_turn [joins vm net, SetPrivateIP vm (fst net) ip, modify (RunTests vm test),
          if client then modify (AddScope vm cloud_platform) else give ()]))"

definition loadbalancer_TestSetup :: "engine \<Rightarrow> unit operation" where
  "loadbalancer_TestSetup e =
     reading tw_Image (\<lambda>img.
     if HasPrefix (im_Family img) ''cos-'' then give ()
     else and_then (modify creates_load_balancers) (\<lambda>_.
       and_then (lb_net e) (\<lambda>net. for_each (mkvm e net) lb_vms)))"

subsection \<open>Bare metal\<close>

definition rockyOOTGVEFamily :: string where "rockyOOTGVEFamily = ''rocky-linux-10-optimized-gcp-oot-gve''"

definition u4c_regionFromZone :: "string \<Rightarrow> string option" where
  "u4c_regionFromZone zone =
     (let i = LastIndex (CHR ''-'') zone
      in if length (filter (\<lambda>c. c = CHR ''-'') zone) < 2 \<or> i \<le> 0 \<or> i = int (length zone) - 1 then None
         else Some (take (nat i) zone))"

definition u4c_network :: "string \<Rightarrow> string \<Rightarrow> network" where
  "u4c_network name profile = \<lparr>nw_Name = name, nw_Description = [], nw_Mtu = 0, nw_Profile = profile,
     nw_AutoCreate = Some False, nw_EnableUlaInternalIpv6 = False\<rparr>"

definition u4c_subnet :: "string \<Rightarrow> string \<times> string \<times> string \<Rightarrow> subnetwork" where
  "u4c_subnet region s = \<lparr>sn_Name = fst s, sn_Description = [], sn_Cidr = snd (snd s), sn_Network = fst (snd s),
     sn_StackType = ''IPV4_ONLY'', sn_Ipv6AccessType = [], sn_Region = region, sn_Purpose = [], sn_Role = [],
     sn_Secondary = [], sn_NoCleanup = False\<rparr>"

definition u4c_nic :: "string \<times> string \<times> (string \<times> string) list \<Rightarrow> interface" where
  "u4c_nic n = new_interface\<lparr>if_NicType := ''GVNIC'', if_Network := fst n, if_Subnetwork := fst (snd n), if_QueueCount := 32,
     if_AccessConfigs := Some (snd (snd n))\<rparr>"

record networkPlan =
  np_general :: network
  np_ull :: network
  np_subnetworks :: "subnetwork list"
  np_interfaces :: "interface list"

definition buildNetworkPlan :: "string \<Rightarrow> string \<Rightarrow> string + networkPlan" where
  "buildNetworkPlan project zone =
     (case u4c_regionFromZone zone of
        None \<Rightarrow> Inl (''invalid zone '' @ zone)
      | Some region \<Rightarrow> Inr \<lparr>np_general = u4c_network ''u4c-general'' [],
          np_ull = u4c_network ''u4c-ull'' (''projects/'' @ project @ ''/global/networkProfiles/'' @ zone @ ''-vpc-ull-participant''),
          np_subnetworks = map (u4c_subnet region)
            [(''u4c-general-subnet'', ''u4c-general'', ''10.128.0.0/20''), (''u4c-ull-subnet-1'', ''u4c-ull'', ''10.129.0.0/24''),
             (''u4c-ull-subnet-2'', ''u4c-ull'', ''10.130.0.0/24'')],
          np_interfaces = map u4c_nic
            [(''u4c-general'', ''u4c-general-subnet'', [(''ONE_TO_ONE_NAT'', [])]), (''u4c-ull'', ''u4c-ull-subnet-1'', []),
             (''u4c-ull'', ''u4c-ull-subnet-2'', [])]\<rparr>)"

definition isRockyOOTGVEImage :: "string \<Rightarrow> string \<Rightarrow> bool" where
  "isRockyOOTGVEImage name family \<longleftrightarrow>
     family = rockyOOTGVEFamily \<or> name = rockyOOTGVEFamily \<or> HasPrefix name (rockyOOTGVEFamily @ ''-v'')"

definition u4c_machine :: "string \<Rightarrow> string \<Rightarrow> interface list \<Rightarrow> machine" where
  "u4c_machine zone machineType nics = new_machine\<lparr>m_Zone := zone, m_MachineType := machineType, m_Interfaces := Some nics,
     m_Scheduling := Some (no_scheduling\<lparr>sch_OnHostMaintenance := ''TERMINATE''\<rparr>)\<rparr>"

definition u4c_create :: "engine \<Rightarrow> string \<Rightarrow> string \<Rightarrow> networkPlan \<Rightarrow> unit operation" where
  "u4c_create e zone machineType plan =
     and_then (wrapping ''creating general-purpose U4C network'' (CreateNetworkFromDaisyNetwork e (np_general plan))) (\<lambda>general.
     and_then (wrapping ''creating participant ULL network'' (CreateNetworkFromDaisyNetwork e (np_ull plan))) (\<lambda>ull.
     and_then (wrapping ''creating general-purpose U4C subnet''
       (CreateSubnetworkFromDaisySubnetwork e general (np_subnetworks plan ! 0))) (\<lambda>_.
     and_then (for_each (\<lambda>s. and_then (wrapping (''creating participant ULL subnet '' @ sn_Name s)
       (CreateSubnetworkFromDaisySubnetwork e ull s)) (\<lambda>_. give ())) (tl (np_subnetworks plan))) (\<lambda>_.
     run_instance e [(disk_named ''u4csmoke'')\<lparr>dp_Type := HyperdiskBalanced, dp_Zone := zone\<rparr>]
       (u4c_machine zone machineType (np_interfaces plan)) ''TestGVNICsVisible|TestOOTGVEModule|TestLocalSSDVisible''))))"

definition u4c_TestSetup :: "engine \<Rightarrow> suite_client \<Rightarrow> unit operation" where
  "u4c_TestSetup e sc =
     reading tw_Image (\<lambda>img. reading machine_type (\<lambda>mt.
     if \<not> HasPrefix mt ''u4c-'' then raise (''u4c suite requires a U4C machine type, got '' @ mt)
     else if \<not> isRockyOOTGVEImage (im_Name img) (im_Family img)
     then modify (Skip ''The U4C smoke suite only tests Rocky Linux OOT-GVE images'')
     else reading tw_Project (\<lambda>project. reading (\<lambda>t. fst (sc_own sc t)) (\<lambda>zone.
       and_then (lift_sum (buildNetworkPlan project zone)) (u4c_create e zone mt)))))"

subsection \<open>The setups call fixtures\<close>

lemma joins_call [suite_calls]: "sound_setup e (joins vm net)" "sound_setup e (alias_range net)"
  unfolding joins_def alias_range_def by (intro suite_calls)+

lemma CreateMachineWithNetworks_calls [suite_calls]:
  "sound_setup e (CreateMachineWithNetworks e model project zone machineType nicTypes)"
  unfolding CreateMachineWithNetworks_def add_nic_def need_network_def need_subnet_def or_fail_def Let_def
  by (intro suite_calls)

lemma network_setups_call:
  "sound_setup e (network_TestSetup e)" "sound_setup e (mdsroutes_TestSetup e)"
  "sound_setup e (networkinterfacenaming_TestSetup e compile zone)" "sound_setup e (packagemanager_TestSetup e)"
  unfolding network_TestSetup_def network_nets_def mdsroutes_TestSetup_def networkinterfacenaming_TestSetup_def packagemanager_TestSetup_def
  by (intro suite_calls; auto dest!: yielded_machine simp: vm1Config_def vm2Config_def plain_names)+

lemma networkconfig_calls: "sound_setup e (networkconfig_TestSetup e sc nics model)"
  unfolding networkconfig_TestSetup_def networkconfig_createMachine_def
  by (intro suite_calls) (simp add: plain_names)

lemma loadbalancer_calls: "sound_setup e (loadbalancer_TestSetup e)"
  unfolding loadbalancer_TestSetup_def lb_net_def mkvm_def
  by (intro suite_calls) (auto simp: lb_vms_def plain_names)

lemma u4c_calls: "sound_setup e (u4c_TestSetup e sc)"
  unfolding u4c_TestSetup_def u4c_create_def
  by (intro suite_calls) (simp add: plain_names)

subsection \<open>What the setups decide\<close>

text \<open>Metal zones are supported ones, and used twice only when all of them have been used.\<close>

lemma c3metalZone_fresh:
  assumes "\<And>n. 0 < n \<Longrightarrow> intn n < n" and "c3metalZone [] intn used = (zone, used')"
  shows "zone \<in> set supportedZones \<and> zone \<in> set used' \<and> (zone \<notin> set used \<or> set supportedZones \<subseteq> set used)"
proof (cases "filter (\<lambda>z. z \<notin> set used) supportedZones = []")
  case True
  moreover have "supportedZones ! intn (length supportedZones) \<in> set supportedZones"
    using assms(1) [of "length supportedZones"] by (intro nth_mem) (simp add: supportedZones_def)
  ultimately show ?thesis using assms(2) by (auto simp: c3metalZone_def Let_def filter_empty_conv)
next
  case False
  let ?u = "filter (\<lambda>z. z \<notin> set used) supportedZones"
  have "?u ! intn (length ?u) \<in> set ?u" using assms(1) [of "length ?u"] False by (intro nth_mem) simp
  then show ?thesis using assms(2) False by (auto simp: c3metalZone_def Let_def)
qed

end
