(* ===== verification/Setups_Guest.thy ===== *)
theory Setups_Guest
  imports Suite_Calls
begin

text \<open>
  The setups of the suites on the guest environment: \<open>guestagent\<close>, \<open>compatmanager\<close>, \<open>metadata\<close>, \<open>oslogin\<close>,
  \<open>ssh\<close> and \<open>sql\<close>.  Embedded files, written files, keys and secrets are parameters.
\<close>

definition guest_attributes :: "string \<times> string" where
  "guest_attributes = (''enable-guest-attributes'', ''TRUE'')"

subsection \<open>The guest agent\<close>

definition agent_machine :: "string \<Rightarrow> machine" where
  "agent_machine name = new_machine\<lparr>m_Scopes := [cloud_platform], m_Name := name\<rparr>"

definition agent_disk :: "string \<Rightarrow> string \<Rightarrow> disk_params list" where
  "agent_disk diskType name = [(disk_named name)\<lparr>dp_Type := diskType\<rparr>]"

definition telemetry_vm :: "engine \<Rightarrow> string \<Rightarrow> string \<times> string \<times> string \<Rightarrow> unit operation" where
  "telemetry_vm e diskType v =
     and_then (CreateTestVMMultipleDisks e (agent_disk diskType (fst v)) (Some (agent_machine (fst v)))) (\<lambda>vm.
     and_then (modify (AddMetadata vm ''disable-guest-telemetry'' (fst (snd v)))) (\<lambda>_.
     modify (RunTests vm (snd (snd v)))))"

definition mwlidVMName :: string where "mwlidVMName = ''mwlid''"

definition workload_identity :: string where
  "workload_identity = concat [''cic-pool1'', ''.global.'', ''281997379984'', ''.workload.id.goog/ns/'', ''cic-ns'', ''/sa/'',
     ''cic-mi-sa-email1'']"

definition mwlid_machine :: "string \<Rightarrow> machine" where
  "mwlid_machine machineType = new_machine\<lparr>m_Name := mwlidVMName, m_MachineType := machineType,
     m_WorkloadIdentity := Some (workload_identity, True), m_ServiceAccounts := [(''default'', [cloud_platform])],
     m_Tags := [''vmexp-enable-shared-centralized-issuance-configs'', ''vmexp-enable-s2a''],
     m_Metadata := [''vmDnsSetting'' \<mapsto> ''ZonalOnly''],
     m_Interfaces := Some [new_interface\<lparr>if_Network := ''global/networks/default'',
       if_AccessConfigs := Some [(''ONE_TO_ONE_NAT'', [])]\<rparr>]\<rparr>"

definition windows_account_vm :: "engine \<Rightarrow> unit operation" where
  "windows_account_vm e =
     and_then (CreateTestVMMultipleDisks e [disk_named ''windowsaccount''] (Some (new_machine\<lparr>m_Scopes := [cloud_platform]\<rparr>)))
       (\<lambda>vm.
     and_then (set_metadata vm [(''enable-diagnostics'', ''true''), (''enable-guest-attributes'', ''true'')]) (\<lambda>_.
     modify (RunTests vm ''TestWindowsPasswordReset|TestDiagnostic'')))"

definition ssh_key_vm :: "engine \<Rightarrow> unit operation" where
  "ssh_key_vm e =
     and_then (wrapping ''failed to create test VM'' (CreateTestVM e ''sshkeytest'')) (\<lambda>vm.
     and_then (modify (AddScope vm cloud_platform)) (\<lambda>_.
     modify (RunTests vm (''TestSSHHostKeyExistence|TestSSHHostKeyTimingVsAgent|'' @ ''TestNetworkSetupCompletesBeforeAgentReady''))))"

definition mwlid_vm :: "engine \<Rightarrow> string \<Rightarrow> string \<Rightarrow> unit operation" where
  "mwlid_vm e diskType machineType =
     and_then (wrapping ''failed to create MWLID test VM''
       (CreateTestVMMultipleDisks e (agent_disk diskType mwlidVMName) (Some (mwlid_machine machineType)))) (\<lambda>vm.
     modify (RunTests vm ''TestMWLIDCredentials''))"

definition guestagent_TestSetup :: "engine \<Rightarrow> unit operation" where
  "guestagent_TestSetup e =
     reading tw_Image (\<lambda>img. reading machine_type (\<lambda>mt.
     let diskType = DiskTypeNeeded mt; given = (\<lambda>b m. if b then m else give ())
     in in_turn
       [telemetry_vm e diskType (''telemetryDisabled'', ''true'', ''TestTelemetryDisabled''),
        telemetry_vm e diskType (''telemetryEnabled'', ''false'', ''TestTelemetryEnabled|TestServiceConfig''),
        given (\<not> IsWindowsClient (im_Name img) \<and> \<not> Contains diskType ''hyperdisk'')
          (run_instance e (agent_disk diskType ''snapshotScripts'') (agent_machine ''snapshotScripts'') ''TestSnapshotScripts''),
        given (HasFeature img ''WINDOWS'') (windows_account_vm e),
        given (\<not> IsWindowsImage (im_Name img)) (ssh_key_vm e),
        given (Contains (im_Name img) ''guest-agent'' \<or> Contains (im_SelfLink img) ''gce-unstable-pkg-test-images'')
          (mwlid_vm e diskType mt)]))"

subsection \<open>The compat manager\<close>

definition linux_script :: "string \<Rightarrow> string" where
  "linux_script file = newline @ ''#!/bin/bash'' @ newline @ newline @ ''ps -eo command >> /home/'' @ file @ newline @ ''sync'' @ newline"

definition windows_script :: "string \<Rightarrow> string" where
  "windows_script file = newline @ ''Get-Process | Format-List * | Out-File -FilePath 'C:'' @ [CHR 0x5C] @ file
     @ ''' -Encoding ASCII'' @ newline"

definition either_arch :: rexp where
  "either_arch = Alt (word ''amd64'') (word ''arm64'')"

definition ubuntuExceptions :: "exception list" where
  "ubuntuExceptions =
     [\<lparr>ex_Match = Some (Seq (word ''ubuntu-2404-lts-'') (Seq either_arch (Seq (word ''-guest-agent-stable'') anything))),
       ex_Version = 2404, ex_Type = Equal\<rparr>,
      \<lparr>ex_Match = Some (Seq (word ''ubuntu-2504-'') (Seq either_arch (Seq (word ''-guest-agent-stable'') anything))),
       ex_Version = 2504, ex_Type = Equal\<rparr>]"

definition core_plugin :: "test_vm \<Rightarrow> unit operation" where
  "core_plugin vm = modify (AddMetadata vm ''enable-guest-agent-core-plugin'' ''true'')"

definition scoped :: "test_vm operation \<Rightarrow> test_vm operation" where
  "scoped m = and_then m (\<lambda>vm. and_then (modify (AddScope vm cloud_platform)) (\<lambda>_. give vm))"

definition shutdown_vm :: "engine \<Rightarrow> string \<Rightarrow> test_vm operation" where
  "shutdown_vm e name = CreateTestVMMultipleDisks e [disk_named name] (Some reboots_during_test)"

text \<open>The scripts of the machines for startup and shutdown; on Windows two machines more, with their tests.\<close>

definition compat_windows ::
  "engine \<Rightarrow> test_vm \<Rightarrow> test_vm \<Rightarrow> test_vm \<Rightarrow> test_vm \<Rightarrow> (test_vm \<times> string) list operation" where
  "compat_windows e startupVM defaultStartupVM rebootVM defaultRebootVM =
     and_then (CreateTestVM e ''sysprepspecialize'') (\<lambda>sysprepVM.
     and_then (core_plugin sysprepVM) (\<lambda>_.
     and_then (modify (AddScope sysprepVM cloud_platform)) (\<lambda>_.
     and_then (scoped (CreateTestVM e ''defaultsysprep'')) (\<lambda>defaultSysprepVM.
     and_then (in_turn [modify (SetWindowsStartupScript startupVM (windows_script ''startup.txt'')),
       modify (SetWindowsShutdownScript rebootVM (windows_script ''shutdown.txt'')),
       modify (AddMetadata sysprepVM ''sysprep-specialize-script-ps1'' (windows_script ''sysprep.txt'')),
       modify (SetWindowsStartupScript defaultStartupVM (windows_script ''startup.txt'')),
       modify (SetWindowsShutdownScript defaultRebootVM (windows_script ''shutdown.txt'')),
       modify (AddMetadata defaultSysprepVM ''sysprep-specialize-script-ps1'' (windows_script ''sysprep.txt''))]) (\<lambda>_.
     give [(sysprepVM, ''TestMetadataScriptCompatSysprep''), (defaultSysprepVM, ''TestDefaultMetadataScriptSysprep'')])))))"

definition compat_linux ::
  "test_vm \<Rightarrow> test_vm \<Rightarrow> test_vm \<Rightarrow> test_vm \<Rightarrow> (test_vm \<times> string) list operation" where
  "compat_linux startupVM defaultStartupVM rebootVM defaultRebootVM =
     and_then (in_turn [modify (SetShutdownScript rebootVM (linux_script ''shutdown.txt'')),
       modify (SetStartupScript startupVM (linux_script ''startup.txt'')),
       modify (SetStartupScript defaultStartupVM (linux_script ''startup.txt'')),
       modify (SetShutdownScript defaultRebootVM (linux_script ''shutdown.txt''))]) (\<lambda>_. give [])"

definition compat_create :: "engine \<Rightarrow> image \<Rightarrow> unit operation" where
  "compat_create e img =
     and_then (scoped (CreateTestVM e ''compatmanager'')) (\<lambda>defaultVM.
     and_then (modify (RunTests defaultVM ''TestCompatManager'')) (\<lambda>_.
     and_then (scoped (CreateTestVM e ''compatmanagermetadatastartup'')) (\<lambda>startupVM.
     and_then (core_plugin startupVM) (\<lambda>_.
     and_then (scoped (CreateTestVM e ''defaultmetadatastartup'')) (\<lambda>defaultStartupVM.
     and_then (scoped (shutdown_vm e ''shutdownscripts'')) (\<lambda>rebootVM.
     and_then (core_plugin rebootVM) (\<lambda>_.
     and_then (scoped (shutdown_vm e ''defaultshutdownscripts'')) (\<lambda>defaultRebootVM.
     and_then (if HasFeature img ''WINDOWS'' then compat_windows e startupVM defaultStartupVM rebootVM defaultRebootVM
               else compat_linux startupVM defaultStartupVM rebootVM defaultRebootVM) (\<lambda>more.
     and_then (Reboot e rebootVM) (\<lambda>_.
     and_then (Reboot e defaultRebootVM) (\<lambda>_.
     for_each (\<lambda>v. modify (RunTests (fst v) (snd v)))
       ([(startupVM, ''TestMetadataScriptCompatStartup''), (rebootVM, ''TestMetadataScriptCompatShutdown''),
         (defaultStartupVM, ''TestDefaultMetadataScriptStartup''), (defaultRebootVM, ''TestDefaultMetadataScriptShutdown'')]
        @ more))))))))))))"

definition compatmanager_TestSetup :: "engine \<Rightarrow> unit operation" where
  "compatmanager_TestSetup e =
     reading tw_Image (\<lambda>img.
     if HasFeature img ''WINDOWS'' then modify (Skip ''Compat manager is temporarily disabled on Windows images.'')
     else if HasMatch (im_Name img) ubuntuExceptions
     then modify (Skip (''Skipping test for image '' @ im_Name img @ '', derived image does not have compat manager disabled''))
     else compat_create e img)"

subsection \<open>Metadata scripts\<close>

definition metadataMaxLength :: nat where "metadataMaxLength = 32768"

definition result_url :: "string \<Rightarrow> string" where
  "result_url x = ''http://metadata.google.internal/computeMetadata/v1/instance/guest-attributes/testing/'' @ x @ ''-result''"

definition ps1Cmd :: "string \<Rightarrow> string" where
  "ps1Cmd x = ''Invoke-RestMethod -Method Put -Body '' @ x @ ''-success -Headers '' @ [CHR 0x40]
     @ ''{'Metadata-Flavor' = 'Google'} -Uri '' @ [CHR 0x27]
     @ result_url x @ ''' -ContentType 'application/json; charset=utf-8' -UseBasicParsing''"

definition cmdCmd :: "string \<Rightarrow> string" where
  "cmdCmd x = ''pwsh -Command \"'' @ ps1Cmd x @ ''\"''"

definition batCmd :: "string \<Rightarrow> string" where
  "batCmd x = ''curl -X PUT -H \"Metadata-Flavor: Google\" -H \"Content-Type: application/json; charset=utf-8\" --data \"'' @ x
     @ ''-success\" \"'' @ result_url x @ ''\"''"

text \<open>
  \<open>files\<close> reads an embedded file; \<open>written\<close> gives for each script that is passed by file the name of the
  file and the error of writing it.
\<close>

record metadata_env =
  md_files :: "string \<Rightarrow> string + string"
  md_written :: "string \<Rightarrow> string \<times> string option"

record script_vms =
  sv_shutdown :: test_vm
  sv_shutdownMax :: test_vm
  sv_startup :: test_vm
  sv_startupMax :: test_vm
  sv_daemon :: test_vm

definition attributed :: "test_vm operation \<Rightarrow> test_vm operation" where
  "attributed m = and_then m (\<lambda>vm. and_then (set_metadata vm [guest_attributes]) (\<lambda>_. give vm))"

definition rebooted :: "engine \<Rightarrow> string \<Rightarrow> test_vm operation" where
  "rebooted e name = and_then (attributed (shutdown_vm e name)) (\<lambda>vm. and_then (Reboot e vm) (\<lambda>_. give vm))"

definition create_script_vms :: "engine \<Rightarrow> script_vms operation" where
  "create_script_vms e =
     and_then (rebooted e ''shutdownscripts'') (\<lambda>shutdown.
     and_then (rebooted e ''shutdownscriptsfailed'') (\<lambda>shutdownMax.
     and_then (attributed (CreateTestVM e ''startupscripts'')) (\<lambda>startup.
     and_then (attributed (CreateTestVM e ''startupscriptsfailed'')) (\<lambda>startupMax.
     and_then (attributed (CreateTestVM e ''daemonscripts'')) (\<lambda>daemon.
     give \<lparr>sv_shutdown = shutdown, sv_shutdownMax = shutdownMax, sv_startup = startup, sv_startupMax = startupMax,
       sv_daemon = daemon\<rparr>)))))"

definition too_long :: string where
  "too_long = replicate metadataMaxLength CHR ''a''"

text \<open>The errors of writing the scripts are dropped.\<close>

definition windows_scripts :: "engine \<Rightarrow> metadata_env \<Rightarrow> script_vms \<Rightarrow> unit operation" where
  "windows_scripts e v vms =
     and_then (lift_sum (md_files v ''scripts/daemonScriptWindows.ps1'')) (\<lambda>daemonScript.
     and_then (in_turn
       [modify (SetWindowsShutdownScript (sv_shutdown vms) (ps1Cmd ''shutdown-ps1'')),
        set_metadata (sv_shutdown vms) [(''windows-shutdown-script-cmd'', cmdCmd ''shutdown-cmd''),
          (''windows-shutdown-script-bat'', batCmd ''shutdown-bat'')],
        ignoring (case_prod SetWindowsShutdownScriptURL (md_written v (ps1Cmd ''shutdown-url'')) (sv_shutdown vms)),
        modify (SetWindowsShutdownScript (sv_shutdownMax vms) too_long),
        modify (SetWindowsStartupScript (sv_startup vms) (ps1Cmd ''startup-ps1'')),
        set_metadata (sv_startup vms) [(''windows-startup-script-cmd'', cmdCmd ''startup-cmd''),
          (''windows-startup-script-bat'', batCmd ''startup-bat'')],
        modify (SetWindowsStartupScript (sv_startupMax vms) too_long),
        modify (SetWindowsStartupScript (sv_daemon vms) daemonScript)]) (\<lambda>_.
     and_then (attributed (CreateTestVM e ''sysprepspecialize'')) (\<lambda>sysprep.
     in_turn
       [set_metadata sysprep [(''sysprep-specialize-script-ps1'', ps1Cmd ''sysprep-ps1''),
          (''sysprep-specialize-script-cmd'', cmdCmd ''sysprep-cmd''), (''sysprep-specialize-script-bat'', batCmd ''sysprep-bat'')],
        ignoring (case_prod SetWindowsSysprepScriptURL (md_written v (ps1Cmd ''sysprep-url'')) sysprep),
        modify (RunTests sysprep ''TestSysprepSpecialize'')])))"

definition linux_scripts :: "engine \<Rightarrow> metadata_env \<Rightarrow> script_vms \<Rightarrow> unit operation" where
  "linux_scripts e v vms =
     and_then (lift_sum (md_files v ''scripts/startupScriptLinux.sh'')) (\<lambda>startupScript.
     and_then (lift_sum (md_files v ''scripts/shutdownScriptLinux.sh'')) (\<lambda>shutdownScript.
     and_then (lift_sum (md_files v ''scripts/daemonScriptLinux.sh'')) (\<lambda>daemonScript.
     and_then (shutdown_vm e ''shutdownurlscripts'') (\<lambda>urlVM.
     and_then (Reboot e urlVM) (\<lambda>_.
     in_turn
       [set_metadata urlVM [guest_attributes],
        modify (RunTests urlVM ''TestShutdownURLScripts''),
        modify (SetShutdownScript (sv_shutdown vms) shutdownScript),
        modify (SetShutdownScript (sv_shutdownMax vms) too_long),
        ignoring (case_prod SetShutdownScriptURL (md_written v shutdownScript) urlVM),
        modify (SetStartupScript (sv_startup vms) startupScript),
        modify (SetStartupScript (sv_startupMax vms) too_long),
        modify (SetStartupScript (sv_daemon vms) daemonScript)])))))"

definition script_tests :: "string list" where
  "script_tests = [''TestShutdownScripts'', ''TestShutdownURLScripts'', ''TestShutdownScriptsFailed'', ''TestStartupScripts'',
     ''TestStartupScriptsFailed'', ''TestDaemonScripts'']"

definition metadata_scripts :: "engine \<Rightarrow> metadata_env \<Rightarrow> image \<Rightarrow> unit operation" where
  "metadata_scripts e v img =
     and_then (create_script_vms e) (\<lambda>vms.
     and_then (if HasFeature img ''WINDOWS'' then windows_scripts e v vms else linux_scripts e v vms) (\<lambda>_.
     in_turn [modify (RunTests (sv_shutdown vms) ''TestShutdownScripts''),
       modify (RunTests (sv_shutdownMax vms) ''TestShutdownScriptsFailed''),
       modify (RunTests (sv_startup vms) ''TestStartupScripts''),
       modify (RunTests (sv_startupMax vms) ''TestStartupScriptsFailed''),
       modify (RunTests (sv_daemon vms) ''TestDaemonScripts'')]))"

definition metadata_TestSetup :: "engine \<Rightarrow> metadata_env \<Rightarrow> unit operation" where
  "metadata_TestSetup e v =
     reading tw_Image (\<lambda>img.
     and_then (CreateTestVM e ''mdscommunication'') (\<lambda>vm.
     reading HasCustomStartupScript (\<lambda>custom.
     and_then (if custom
       then modify (SkipTests ''custom startup script replaces the startup-script metadata that these tests depend on'' script_tests)
       else metadata_scripts e v img) (\<lambda>_.
     reading IsComputeStaging (\<lambda>staging.
     modify (RunTests vm (''TestTokenFetch|TestGetMetaDataUsingIP'' @ (if staging then [] else ''|TestMetaDataResponseHeaders''))))))))"

subsection \<open>OS Login\<close>

definition computeScope :: string where "computeScope = ''https://www.googleapis.com/auth/compute''"

record test2FAUser =
  tu_email :: string
  tu_twoFA :: string
  tu_sshKey :: string

definition user_of :: "string \<Rightarrow> string \<Rightarrow> test2FAUser" where
  "user_of kind sfx = \<lparr>tu_email = kind @ ''-2fa-user'' @ sfx, tu_twoFA = kind @ ''-2fa-key'' @ sfx,
     tu_sshKey = kind @ ''-2fa-ssh-key'' @ sfx\<rparr>"

definition numbered_user :: "string \<Rightarrow> rexp" where
  "numbered_user kind = Seq (word (kind @ ''-2fa-user-'')) (Seq any_digit (Star any_digit))"

text \<open>The users that the names of the secrets tell of, after the one without a number.\<close>

definition users_of :: "string \<Rightarrow> string list \<Rightarrow> test2FAUser list" where
  "users_of kind secrets = user_of kind []
     # map (\<lambda>s. user_of kind (''-'' @ TrimPrefix (FindString (numbered_user kind) s) (kind @ ''-2fa-user-'')))
         (filter (MatchString (numbered_user kind)) secrets)"

text \<open>
  The users and the counter are made once.  \<open>secrets\<close> are the names listed, or the error of the client;
  \<open>intn n\<close> is a random number below n.
\<close>

definition initialize2FA :: "string + string list \<Rightarrow> (nat \<Rightarrow> nat) \<Rightarrow> test2FAUser list \<times> test2FAUser list \<times> nat" where
  "initialize2FA secrets intn =
     (case secrets of
        Inl err \<Rightarrow> ([user_of ''normal'' []], [user_of ''admin'' []], 0)
      | Inr names \<Rightarrow>
          let normal = users_of ''normal'' names; admin = users_of ''admin'' names
          in (normal, admin, intn (max (length normal) (length admin))))"

definition user_metadata :: "string \<Rightarrow> test2FAUser \<Rightarrow> (string \<times> string) list" where
  "user_metadata kind u = [(kind @ ''-2fa-user'', tu_email u), (kind @ ''-2fa-key'', tu_twoFA u), (kind @ ''-2fa-ssh-key'', tu_sshKey u)]"

definition oslogin_vm :: "engine \<Rightarrow> string \<Rightarrow> string \<Rightarrow> (string \<times> string) list \<Rightarrow> string \<Rightarrow> unit operation" where
  "oslogin_vm e name scope kvs tests =
     and_then (CreateTestVM e name) (\<lambda>vm.
     in_turn [modify (AddScope vm scope), set_metadata vm kvs, modify (RunTests vm tests)])"

text \<open>The setup gives the counter of the next one.\<close>

definition oslogin_create :: "engine \<Rightarrow> test2FAUser list \<Rightarrow> test2FAUser list \<Rightarrow> nat \<Rightarrow> nat operation" where
  "oslogin_create e normal admin counter =
     and_then (in_turn
       [oslogin_vm e ''testagent'' computeScope [(''enable-oslogin'', ''true''), (''enable-oslogin-2fa'', ''true'')]
          ''TestAgent|TestOsLoginEnabled|TestGetentPasswd'',
        oslogin_vm e ''default'' computeScope [(''enable-oslogin'', ''true'')] ''TestEmpty'',
        oslogin_vm e ''ssh'' cloud_platform ([(''enable-oslogin'', ''false'')]
            @ user_metadata ''normal'' (normal ! (counter mod length normal))
            @ user_metadata ''admin'' (admin ! (counter mod length admin)))
          ''TestOsLoginDisabled|TestSSH|TestAdminSSH|Test2FASSH|Test2FAAdminSSH'',
        oslogin_vm e ''twofa'' computeScope [(''enable-oslogin'', ''true''), (''enable-oslogin-2fa'', ''true'')] ''TestEmpty''])
     (\<lambda>_. give (Suc counter))"

definition oslogin_TestSetup :: "engine \<Rightarrow> test2FAUser list \<times> test2FAUser list \<times> nat \<Rightarrow> nat operation" where
  "oslogin_TestSetup e users =
     (case users of (normal, admin, counter) \<Rightarrow>
        reading tw_Image (\<lambda>img.
        if HasFeature img ''WINDOWS'' then and_then (modify (Skip ''OSLogin not supported on windows'')) (\<lambda>_. give counter)
        else if Contains (im_Name img) ''rhel-9-0-sap''
        then and_then (modify (Skip (''OSLogin is not working on rhel-9-0-sap images, skipping the test until '' @ ''b/440641320 is fixed.'')))
          (\<lambda>_. give counter)
        else oslogin_create e normal admin counter))"

subsection \<open>Keys of users\<close>

text \<open>\<open>keys user\<close> is the file of the key that is made for the user, and the public key or an error.\<close>

definition windows_ssh :: "(string \<times> string) list" where
  "windows_ssh = [(''enable-windows-ssh'', ''true''),
     (''sysprep-specialize-script-cmd'', ''googet -noconfirm=true install google-compute-engine-ssh'')]"

definition ssh_key :: "(string \<Rightarrow> string \<times> (string + string)) \<Rightarrow> string \<Rightarrow> string operation" where
  "ssh_key keys user = AddSSHKey (fst (keys user)) (snd (keys user)) user"

definition ssh_vms :: "engine \<Rightarrow> image \<Rightarrow> string \<Rightarrow> string \<Rightarrow> string \<Rightarrow> string \<Rightarrow> unit operation" where
  "ssh_vms e img key1 key2 key3 key4 =
     and_then (CreateTestVM e ''client'') (\<lambda>vm.
     and_then (in_turn [modify (AddScope vm cloud_platform),
       set_metadata vm ([(''block-project-ssh-keys'', ''true''), (''enable-guest-attributes'', ''true'')] @ windows_ssh),
       modify (RunTests vm (''TestSSHInstanceKey|TestHostKeysAreUnique|TestMatchingKeysInGuestAttributes''
         @ (if IsWindowsImage (im_Name img) then [] else ''|TestSSHServiceStartsAfterGuestAgent|TestDeleteLocalUser|TestDeleteUserDefault'')))])
       (\<lambda>_.
     and_then (CreateTestVM e ''server2'') (\<lambda>vm4.
     and_then (in_turn [modify (AddUser vm4 ''test-user'' key1), modify (AddUser vm4 ''test-user2'' key2),
       modify (AddUser vm4 ''test-user3'' key3), set_metadata vm4 [(''target-public-key'', key4)],
       modify (AddScope vm4 cloud_platform),
       set_metadata vm4 ([(''enable-guest-attributes'', ''true''), (''enable-oslogin'', ''false'')] @ windows_ssh),
       modify (RunTests vm4 (''TestSSHChangeKey'' @ (if IsWindowsImage (im_Name img) then [] else ''|TestSwitchDefaultConfig'')))]) (\<lambda>_.
     and_then (CreateTestVM e ''server'') (\<lambda>vm2.
     and_then (in_turn [modify (AddUser vm2 ''test-user'' key1), modify (AddUser vm2 ''test-user2'' key2),
       set_metadata vm2 ([(''enable-guest-attributes'', ''true''), (''enable-oslogin'', ''false'')] @ windows_ssh),
       modify (RunTests vm2 ''TestEmptyTest'')]) (\<lambda>_.
     run_on e ''hostkeysafteragentrestart'' ''TestHostKeysNotOverrideAfterAgentRestart''))))))"

definition ssh_TestSetup :: "engine \<Rightarrow> (string \<Rightarrow> string \<times> (string + string)) \<Rightarrow> unit operation" where
  "ssh_TestSetup e keys =
     and_then (ssh_key keys ''test-user'') (\<lambda>key1.
     and_then (ssh_key keys ''test-user2'') (\<lambda>key2.
     and_then (ssh_key keys ''test-user3'') (\<lambda>key3.
     and_then (ssh_key keys ''test-user4'') (\<lambda>key4.
     reading tw_Image (\<lambda>img. ssh_vms e img key1 key2 key3 key4)))))"

subsection \<open>SQL servers\<close>

definition serverConfig :: "string \<times> string" where "serverConfig = (''server'', ''192.168.0.10'')"
definition clientConfig :: "string \<times> string" where "clientConfig = (''client'', ''192.168.0.11'')"

definition sql_vm :: "engine \<Rightarrow> net_with_subnet \<Rightarrow> string \<times> string \<Rightarrow> test_vm operation" where
  "sql_vm e net c =
     and_then (CreateTestVM e (fst c)) (\<lambda>vm.
     and_then (AddCustomNetwork vm (fst net) (Some (snd net))) (\<lambda>_.
     and_then (SetPrivateIP vm (fst net) (snd c)) (\<lambda>_. give vm)))"

definition sql_create :: "engine \<Rightarrow> (string \<Rightarrow> string + string) \<Rightarrow> unit operation" where
  "sql_create e files =
     and_then (network_with e ''default-network'' ''default-subnetwork'' ''192.168.0.0/24'') (\<lambda>net.
     and_then (in_turn
       [CreateFirewallRule e (fst net) ''allow-sql-tcp'' ''tcp'' [''135'', ''1433'', ''1434'', ''4022'', ''5022''] (Some [''192.168.0.0/24'']),
        CreateFirewallRule e (fst net) ''allow-sql-udp'' ''udp'' [''1434''] (Some [''192.168.0.0/24''])]) (\<lambda>_.
     and_then (lift_sum (files ''startupscripts/remote_auth_server_setup.ps1'')) (\<lambda>serverStartup.
     and_then (lift_sum (files ''startupscripts/remote_auth_client_setup.ps1'')) (\<lambda>clientStartup.
     and_then (sql_vm e net serverConfig) (\<lambda>serverVM.
     and_then (sql_vm e net clientConfig) (\<lambda>clientVM.
     and_then (in_turn [set_metadata clientVM [guest_attributes, (''sqltarget'', snd serverConfig)],
       set_metadata serverVM [(''windows-startup-script-ps1'', serverStartup)],
       set_metadata clientVM [(''windows-startup-script-ps1'', clientStartup)]]) (\<lambda>_.
     and_then (CreateTestVM e ''settings'') (\<lambda>vm1.
     in_turn [set_metadata vm1 [(''windows-startup-script-ps1'', ''(Get-Service 'MSSQLSERVER').WaitForStatus('Running', '00:10:00')'')],
       modify (RunTests vm1 ''TestSqlVersion|TestPowerPlan|TestSSMSVersion''),
       modify (RunTests clientVM ''TestRemoteConnectivity|TestSSMSVersion''),
       modify (RunTests serverVM ''TestPowerPlan'')]))))))))"

definition sql_TestSetup :: "engine \<Rightarrow> (string \<Rightarrow> string + string) \<Rightarrow> unit operation" where
  "sql_TestSetup e files =
     reading tw_Image (\<lambda>img.
     if HasFeature img ''WINDOWS'' \<and> IsWindowsSQLImage (im_Name img) then sql_create e files else give ())"

subsection \<open>The setups call fixtures\<close>

text \<open>A machine that an operation gives on keeps its name.\<close>

lemma yielded_same:
  "yielded (scoped m) vm \<Longrightarrow> yielded m vm" "yielded (attributed m) vm \<Longrightarrow> yielded m vm"
  by (auto simp: scoped_def attributed_def yielded_def give_def dest!: and_then_Ok [THEN iffD1]) blast+

lemma yielded_shutdown: "yielded (shutdown_vm e name) vm \<Longrightarrow> vm_name vm = vmname_of name"
  using yielded_machine(2) unfolding shutdown_vm_def by (fastforce simp: disk_named_def)

lemma machine_helpers_call [suite_calls]:
  "sound_setup e m \<Longrightarrow> sound_setup e (scoped m)" "sound_setup e m \<Longrightarrow> sound_setup e (attributed m)"
  "plain (vmname_of name) \<Longrightarrow> sound_setup e (shutdown_vm e name)" "sound_setup e (core_plugin vm)"
  "plain (vmname_of name) \<Longrightarrow> sound_setup e (rebooted e name)"
proof -
  show attributed: "sound_setup e m \<Longrightarrow> sound_setup e (attributed m)" for m
    unfolding attributed_def by (intro suite_calls)
  show shutdown: "plain (vmname_of name) \<Longrightarrow> sound_setup e (shutdown_vm e name)"
    unfolding shutdown_vm_def by (intro suite_calls) (simp add: disk_named_def)
  show "plain (vmname_of name) \<Longrightarrow> sound_setup e (rebooted e name)"
    unfolding rebooted_def by (intro suite_calls attributed shutdown) (auto dest!: yielded_same yielded_shutdown)
  show "sound_setup e m \<Longrightarrow> sound_setup e (scoped m)" "sound_setup e (core_plugin vm)"
    unfolding scoped_def core_plugin_def by (intro suite_calls; assumption)+
qed

lemma guestagent_calls: "sound_setup e (guestagent_TestSetup e)"
  unfolding guestagent_TestSetup_def telemetry_vm_def windows_account_vm_def ssh_key_vm_def mwlid_vm_def Let_def
  by (intro suite_calls) (simp_all add: agent_disk_def mwlidVMName_def plain_names)

lemma compatmanager_calls: "sound_setup e (compatmanager_TestSetup e)"
  unfolding compatmanager_TestSetup_def compat_create_def compat_windows_def compat_linux_def
  by (intro suite_calls) (auto dest!: yielded_same yielded_shutdown simp: plain_names)

lemma metadata_calls: "sound_setup e (metadata_TestSetup e v)"
  unfolding metadata_TestSetup_def metadata_scripts_def create_script_vms_def windows_scripts_def linux_scripts_def case_prod_beta
  by (intro suite_calls) (auto dest!: yielded_shutdown simp: plain_names)

lemma oslogin_calls: "sound_setup e (oslogin_TestSetup e users)"
  unfolding oslogin_TestSetup_def oslogin_create_def oslogin_vm_def
  by (intro suite_calls) (simp_all add: plain_names)

lemma ssh_calls: "sound_setup e (ssh_TestSetup e keys)"
  unfolding ssh_TestSetup_def ssh_vms_def ssh_key_def
  by (intro suite_calls) (simp_all add: plain_names)

lemma sql_calls: "sound_setup e (sql_TestSetup e files)"
  unfolding sql_TestSetup_def sql_create_def sql_vm_def
  by (intro suite_calls) (simp_all add: serverConfig_def clientConfig_def plain_names)

subsection \<open>What the setups decide\<close>

text \<open>There is a user of each kind, whatever the secrets, so the choice of one is in range.\<close>

lemma users_chosen:
  assumes "initialize2FA secrets intn = (normal, admin, counter)"
  shows "counter mod length normal < length normal \<and> counter mod length admin < length admin"
  using assms by (cases secrets) (auto simp: initialize2FA_def users_of_def Let_def)

end
