(* ===== verification/Setups_Shapes.thy ===== *)
theory Setups_Shapes
  imports Suite_Calls
begin

text \<open>
  The setups of the suites that choose shapes and zones of their machines: \<open>shapevalidation\<close>, \<open>lssd\<close>,
  \<open>cvm\<close> and \<open>vmspec\<close>.  Flags, random numbers and the order in which Go ranges over a map are parameters.
\<close>

definition PdStandard :: string where "PdStandard = ''pd-standard''"
definition LocalSsd :: string where "LocalSsd = ''local-ssd''"

subsection \<open>The largest shapes\<close>

record vm_shape =
  sp_name :: string
  sp_cpu :: int
  sp_mem :: int
  sp_numa :: int
  sp_disks :: "disk_params list"
  sp_zone :: string
  sp_requireFeatures :: "string list"
  sp_excludeFeatures :: "string list"
  sp_exceptions :: "rexp list"
  sp_quota :: "quota option"

definition plain_shape :: "string \<Rightarrow> string \<Rightarrow> int \<times> int \<times> int \<Rightarrow> string \<Rightarrow> string \<Rightarrow> string \<times> int \<times> string \<Rightarrow> vm_shape" where
  "plain_shape family name sizes diskType zone qa =
     \<lparr>sp_name = name, sp_cpu = fst sizes, sp_mem = fst (snd sizes), sp_numa = snd (snd sizes),
      sp_disks = [(disk_named family)\<lparr>dp_Type := diskType, dp_Zone := zone\<rparr>], sp_zone = zone,
      sp_requireFeatures = [], sp_excludeFeatures = [], sp_exceptions = [],
      sp_quota = Some \<lparr>qa_Metric = fst qa, qa_Units = fst (snd qa), qa_Region = snd (snd qa)\<rparr>\<rparr>"

text \<open>\<open>(rhel|centos|almalinux|rocky-linux)-7\<close>\<close>

definition el7_images :: rexp where
  "el7_images = Seq (alts [word ''rhel'', word ''centos'', word ''almalinux'', word ''rocky-linux'']) (word ''-7'')"

definition x86shapes :: "(string \<times> vm_shape) list" where
  "x86shapes =
     [(''C3'', (plain_shape ''C3'' ''c3-highmem-176'' (176, 1408, 4) PdBalanced [] (''C3_CPUS'', 176, []))
         \<lparr>sp_requireFeatures := [''GVNIC'']\<rparr>),
      (''C3D'', (plain_shape ''C3D'' ''c3d-highmem-360'' (360, 2880, 2) PdBalanced ''us-east4-c'' (''CPUS'', 176, ''us-east4''))
         \<lparr>sp_requireFeatures := [''GVNIC''], sp_excludeFeatures := [''WINDOWS''], sp_exceptions := [el7_images]\<rparr>),
      (''E2'', plain_shape ''E2'' ''e2-standard-32'' (32, 128, 1) PdStandard [] (''E2_CPUS'', 32, [])),
      (''N4'', (plain_shape ''N4'' ''n4-highmem-80'' (80, 640, 1) HyperdiskBalanced ''us-east4-b'' (''CPUS'', 80, ''us-east4''))
         \<lparr>sp_requireFeatures := [''GVNIC'']\<rparr>),
      (''C4'', (plain_shape ''C4'' ''c4-highmem-192'' (192, 1488, 2) HyperdiskBalanced ''us-east4-a'' (''CPUS'', 192, ''us-east4''))
         \<lparr>sp_requireFeatures := [''GVNIC'']\<rparr>),
      (''N2'', plain_shape ''N2'' ''n2-highmem-128'' (128, 864, 2) PdStandard [] (''N2_CPUS'', 128, [])),
      (''N2D'', plain_shape ''N2D'' ''n2d-standard-224'' (224, 896, 2) PdStandard [] (''N2D_CPUS'', 224, [])),
      (''T2D'', plain_shape ''T2D'' ''t2d-standard-60'' (60, 240, 1) PdStandard [] (''T2D_CPUS'', 60, [])),
      (''N1'', plain_shape ''N1'' ''n1-highmem-96'' (96, 624, 2) PdStandard [] (''CPUS'', 96, []))]"

definition armshapes :: "(string \<times> vm_shape) list" where
  "armshapes =
     [(''T2A'', plain_shape ''T2A'' ''t2a-standard-48'' (48, 192, 1) PdStandard ''europe-west4-a'' (''T2A_CPUS'', 48, ''europe-west4''))]"

definition shape_applies :: "(string \<Rightarrow> bool) \<Rightarrow> image \<Rightarrow> string \<times> vm_shape \<Rightarrow> bool" where
  "shape_applies matches img fs \<longleftrightarrow> matches (fst fs)
     \<and> list_all (HasFeature img) (sp_requireFeatures (snd fs)) \<and> \<not> list_ex (HasFeature img) (sp_excludeFeatures (snd fs))
     \<and> \<not> list_ex (\<lambda>r. MatchString r (im_Name img)) (sp_exceptions (snd fs))"

definition shape_vm :: "engine \<Rightarrow> vm_shape \<Rightarrow> unit operation" where
  "shape_vm e sp =
     and_then (case sp_quota sp of None \<Rightarrow> give () | Some qa \<Rightarrow> WaitForVMQuota e qa) (\<lambda>_.
     and_then (CreateTestVMMultipleDisks e (sp_disks sp) None) (\<lambda>vm.
     and_then (if sp_zone sp \<noteq> [] then modify (ForceZone vm (sp_zone sp)) else give ()) (\<lambda>_.
     in_turn [modify (ForceMachineType vm (sp_name sp)), modify (AddMetadata vm ''expected_memory'' (itoa (sp_mem sp))),
       modify (AddMetadata vm ''expected_cpu'' (itoa (sp_cpu sp))), modify (AddMetadata vm ''expected_numa'' (itoa (sp_numa sp))),
       modify (RunTests vm ''(TestCpu)|(TestMem)|(TestNuma)'')])))"

text \<open>\<open>families\<close> are those of the map in the order of the loop, \<open>filter_flag\<close> the compiled flag.\<close>

definition testFamily :: "engine \<Rightarrow> string + (string \<Rightarrow> bool) \<Rightarrow> (string \<times> vm_shape) list \<Rightarrow> unit operation" where
  "testFamily e filter_flag families =
     (case filter_flag of
        Inl err \<Rightarrow> raise (''invalid shapevalidation test filter: '' @ err)
      | Inr matches \<Rightarrow>
          and_then (modify LockProject) (\<lambda>_.
          reading tw_Image (\<lambda>img. for_each (\<lambda>fs. shape_vm e (snd fs)) (filter (shape_applies matches img) families))))"

text \<open>\<open>order\<close> is the order in which Go ranges over a map.\<close>

definition shapevalidation_TestSetup ::
  "engine \<Rightarrow> string + (string \<Rightarrow> bool) \<Rightarrow> ((string \<times> vm_shape) list \<Rightarrow> (string \<times> vm_shape) list) \<Rightarrow> unit operation" where
  "shapevalidation_TestSetup e filter_flag order =
     reading tw_Image (\<lambda>img. testFamily e filter_flag (order (if im_Architecture img = ''ARM64'' then armshapes else x86shapes)))"

subsection \<open>Zones\<close>

text \<open>\<open>intn n\<close> is a random number below n.\<close>

definition suite_pickZone :: "(nat \<Rightarrow> nat) \<Rightarrow> string \<Rightarrow> string list \<Rightarrow> string" where
  "suite_pickZone intn zone zones = (if zone \<in> set zones then zone else zones ! intn (length zones))"

lemma suite_pickZone_in:
  assumes "\<And>n. 0 < n \<Longrightarrow> intn n < n" and "zones \<noteq> []"
  shows "suite_pickZone intn zone zones \<in> set zones"
  using assms(1) [of "length zones"] assms(2) by (simp add: suite_pickZone_def)

subsection \<open>Local disks\<close>

definition c3LSSDZones :: "string list" where
  "c3LSSDZones =
     [''us-central1-a'', ''us-central1-b'', ''us-central1-c'', ''us-east1-b'', ''us-east1-c'', ''us-east1-d'',
      ''us-east4-a'', ''us-east4-b'', ''us-east4-c'', ''us-west1-a'', ''us-west1-b'', ''us-west4-a'', ''us-west4-b'',
      ''europe-west1-b'', ''europe-west1-c'', ''europe-west1-d'', ''europe-west2-a'', ''europe-west2-c'',
      ''europe-west3-a'', ''europe-west3-b'', ''europe-west3-c'', ''europe-west4-a'', ''europe-west4-b'', ''europe-west4-c'',
      ''asia-southeast1-a'', ''asia-southeast1-b'', ''asia-southeast1-c'']"

definition vmLSSDTests :: string where
  "vmLSSDTests = ''TestMount|TestUdevRulesAndScript|TestLSSDSymlinksAndUdevProperties|'' @
     ''TestLSSDPartitionSymlinks|TestLSSDGoogleNVMeIDNaming''"

definition bareMetalLSSDTests :: string where
  "bareMetalLSSDTests = ''TestBareMetalMount|TestBareMetalUdevRulesAndScript|TestBareMetalLSSDSymlinksAndUdevProperties|'' @
     ''TestBareMetalLSSDPartitionSymlinks|TestBareMetalLSSDVendorExtensionNaming''"

text \<open>The two flags and the number of partitions of the local disks bundled with the machine type of the workflow.\<close>

record lssd_env =
  le_metal_type :: string
  le_metal_zone :: string
  le_bundled :: nat

definition metal_type :: "lssd_env \<Rightarrow> string \<Rightarrow> string" where
  "metal_type v machineType =
     (if le_metal_type v = [] \<and> IsMetal machineType \<and> 0 < le_bundled v then machineType else le_metal_type v)"

definition metal_zone :: "lssd_env \<Rightarrow> string \<Rightarrow> string \<Rightarrow> string" where
  "metal_zone v own zone = (if le_metal_zone v \<noteq> [] then le_metal_zone v else if own \<noteq> [] then own else zone)"

definition lssd_vm :: "engine \<Rightarrow> string \<Rightarrow> string \<Rightarrow> machine \<Rightarrow> string \<Rightarrow> string \<Rightarrow> unit operation" where
  "lssd_vm e name diskType inst disk tests =
     and_then (CreateTestVMMultipleDisks e [(disk_named name)\<lparr>dp_Type := diskType, dp_Zone := m_Zone inst\<rparr>] (Some inst)) (\<lambda>vm.
     and_then (modify (AddMetadata vm ''hotattach-disk-name'' disk)) (\<lambda>_. modify (RunTests vm tests)))"

definition lssd_metal_machine :: "string \<Rightarrow> string \<Rightarrow> machine" where
  "lssd_metal_machine machineType zone = new_machine\<lparr>m_Zone := zone, m_MachineType := machineType,
     m_Scheduling := Some (no_scheduling\<lparr>sch_OnHostMaintenance := MachineMaintenancePolicy machineType\<rparr>)\<rparr>"

definition lssd_TestSetup :: "engine \<Rightarrow> suite_client \<Rightarrow> lssd_env \<Rightarrow> (nat \<Rightarrow> nat) \<Rightarrow> unit operation" where
  "lssd_TestSetup e sc v intn =
     reading tw_Image (\<lambda>img. reading machine_type (\<lambda>mt. reading (\<lambda>t. fst (sc_own sc t)) (\<lambda>own.
     if im_Architecture img = ''ARM64'' \<or> \<not> HasFeature img ''GVNIC'' then give ()
     else let zone = suite_pickZone intn own c3LSSDZones; metal = metal_type v mt
          in and_then (lssd_vm e ''remountLSSD'' PdBalanced
               (new_machine\<lparr>m_Zone := zone, m_MachineType := ''c3-standard-8-lssd''\<rparr>)
               (if HasFeature img ''WINDOWS'' then ''nvme_card0'' else ''local-nvme-ssd-0'') vmLSSDTests) (\<lambda>_.
             if metal \<noteq> [] \<and> \<not> HasFeature img ''WINDOWS''
             then lssd_vm e ''lssdMetal'' (DiskTypeNeeded metal) (lssd_metal_machine metal (metal_zone v own zone))
               ''local-nvme-ssd-0'' bareMetalLSSDTests
             else give ()))))"

subsection \<open>Confidential machines\<close>

definition cvmZones :: "string list" where
  "cvmZones =
     [''us-central1-a'', ''us-central1-b'', ''us-central1-c'', ''europe-west3-a'', ''europe-west3-b'',
      ''europe-west4-a'', ''europe-west4-b'', ''europe-west4-c'', ''asia-southeast1-a'', ''asia-southeast1-b'', ''asia-southeast1-c'']"

definition sevSnpZones :: "string list" where
  "sevSnpZones = [''us-central1-a'', ''us-central1-b'', ''us-central1-c'']"

text \<open>Name, kind, machine type, platform and tests of a confidential machine.\<close>

definition confidential_machine :: "string \<times> string \<times> string \<times> string \<Rightarrow> machine" where
  "confidential_machine c = (case c of (name, kind, machineType, platform) \<Rightarrow>
     new_machine\<lparr>m_Name := name, m_ConfidentialType := kind, m_Confidential := Some True, m_MachineType := machineType,
       m_MinCpuPlatform := platform, m_Scheduling := Some (no_scheduling\<lparr>sch_OnHostMaintenance := ''TERMINATE''\<rparr>)\<rparr>)"

definition sev_machine :: "image \<Rightarrow> machine" where
  "sev_machine img =
     (let m = confidential_machine (''sev'', ''SEV'', ''c3d-standard-4'', ''AMD Genoa'')
      in if HasFeature img ''SEV_LIVE_MIGRATABLE_V2''
         then m\<lparr>m_Scopes := [cloud_platform], m_Scheduling := Some (no_scheduling\<lparr>sch_OnHostMaintenance := ''MIGRATE''\<rparr>)\<rparr> else m)"

definition sev_tests :: "image \<Rightarrow> string" where
  "sev_tests img = ''TestSEVEnabled|TestCheckApicId|TestCheckCpuidLeaf7''
     @ (if HasFeature img ''SEV_LIVE_MIGRATABLE_V2'' then ''|TestLiveMigrate'' else [])"

definition confidential_vm :: "engine \<Rightarrow> string \<Rightarrow> machine \<Rightarrow> string \<Rightarrow> unit operation" where
  "confidential_vm e zone inst tests =
     and_then (CreateTestVMFromInstanceBeta e inst [(disk_named (m_Name inst))\<lparr>dp_Type := PdBalanced, dp_Zone := zone\<rparr>]) (\<lambda>tvm.
     and_then (modify (ForceZone tvm zone)) (\<lambda>_. modify (RunTests tvm tests)))"

definition cvm_feature :: "engine \<Rightarrow> (nat \<Rightarrow> nat) \<Rightarrow> image \<Rightarrow> string \<Rightarrow> string \<Rightarrow> unit operation" where
  "cvm_feature e intn img own feature =
     (if feature = ''SEV_CAPABLE''
      then confidential_vm e (suite_pickZone intn own cvmZones) (sev_machine img) (sev_tests img)
      else if feature = ''SEV_SNP_CAPABLE''
      then confidential_vm e (suite_pickZone intn own sevSnpZones)
        (confidential_machine (''sevsnp'', ''SEV_SNP'', ''n2d-standard-2'', ''AMD Milan''))
        ''TestSEVSNPEnabled|TestSEVSNPAttestation|TestCheckApicId|TestCheckCpuidLeaf7''
      else if feature = ''TDX_CAPABLE''
      then confidential_vm e (suite_pickZone intn own cvmZones)
        (confidential_machine (''tdx'', ''TDX'', ''c3-standard-4'', ''Intel Sapphire Rapids''))
        ''TestTDXEnabled|TestTDXAttestation|TestCheckApicId|TestCheckCpuidLeaf7''
      else give ())"

text \<open>\<open>features\<close> are those of the beta image, \<open>intn i\<close> the random numbers of the i-th turn.\<close>

definition cvm_TestSetup :: "engine \<Rightarrow> suite_client \<Rightarrow> string list \<Rightarrow> (nat \<Rightarrow> nat \<Rightarrow> nat) \<Rightarrow> unit operation" where
  "cvm_TestSetup e sc features intn =
     reading tw_Image (\<lambda>img. reading (\<lambda>t. fst (sc_own sc t)) (\<lambda>own.
     for_each (\<lambda>p. cvm_feature e (intn (fst p)) img own (snd p)) (enumerate 0 features)))"

subsection \<open>A change of the machine\<close>

definition vmspec_zones :: "string list" where
  "vmspec_zones = [''us-central1-a'', ''us-central1-b'', ''us-central1-c'']"

definition vmspec_machineTypes :: "string list" where
  "vmspec_machineTypes = [''n1-standard-1'', ''n2-standard-2'', ''n2d-standard-2'']"

definition vmspec_net :: "engine \<Rightarrow> string \<times> string \<times> string \<Rightarrow> string \<Rightarrow> net_with_subnet operation" where
  "vmspec_net e n number =
     and_then (wrapping (''failed to create test network'' @ (if number = ''2'' then '' 2'' else [])) (CreateNetwork e (fst n) False)) (\<lambda>net.
     and_then (wrapping (''failed to create test subnetwork '' @ number) (CreateSubnetwork e net (fst (snd n)) (snd (snd n)))) (\<lambda>sub.
     and_then (modify (SetRegion sub ''us-central1'')) (\<lambda>_. give (net, sub))))"

definition forced :: "string \<Rightarrow> string \<Rightarrow> test_vm \<Rightarrow> unit operation" where
  "forced machineType zone vm = and_then (modify (ForceMachineType vm machineType)) (\<lambda>_. modify (ForceZone vm zone))"

definition vmspec_create :: "engine \<Rightarrow> suite_client \<Rightarrow> image \<Rightarrow> string \<Rightarrow> string \<Rightarrow> unit operation" where
  "vmspec_create e sc img zoneString machineType =
     and_then (vmspec_net e (''test-network'', ''test-subnetwork-1'', ''10.128.0.0/16'') ''1'') (\<lambda>net1.
     and_then (vmspec_net e (''test-network-2'', ''test-subnetwork-2'', ''10.0.0.0/24'') ''2'') (\<lambda>net2.
     reading tw_Project (\<lambda>project.
     and_then (wrapping ''failed to get zone'' (lift_sum (sc_GetZone sc project zoneString))) (\<lambda>zone.
     and_then (CreateTestVMMultipleDisks e [(disk_named ''source'')\<lparr>dp_Type := PdBalanced, dp_Zone := fst zone\<rparr>] (Some new_machine))
       (\<lambda>source.
     and_then (forced machineType zoneString source) (\<lambda>_.
     and_then (modify (RunTests source ''TestEmpty'')) (\<lambda>_.
     and_then (CreateDerivativeVM e source ''lssd'') (\<lambda>vmspec.
     in_turn [forced machineType zoneString vmspec,
       AddDisk vmspec ''SCRATCH'' (Some LocalSsd), AddDisk vmspec ''SCRATCH'' (Some LocalSsd),
       AddCustomNetwork vmspec (fst net1) (Some (snd net1)), AddCustomNetwork vmspec (fst net2) (Some (snd net2)),
       modify (RunTests vmspec (''TestPCIEChanged|'' @ (if HasFeature img ''WINDOWS'' then ''TestWindowsPing'' else ''TestPing'')
         @ ''|TestMetadataServer''))]))))))))"

text \<open>The counters of zones and machine types, which a setup that succeeds moves on.\<close>

definition vmspec_TestSetup :: "engine \<Rightarrow> suite_client \<Rightarrow> nat \<times> nat \<Rightarrow> (nat \<times> nat) operation" where
  "vmspec_TestSetup e sc counters =
     reading tw_Image (\<lambda>img.
     if im_Architecture img = ''ARM64''
     then and_then (modify (Skip ''vmspec not supported on ARM images'')) (\<lambda>_. give counters)
     else and_then (vmspec_create e sc img (vmspec_zones ! (fst counters mod length vmspec_zones))
         (vmspec_machineTypes ! (snd counters mod length vmspec_machineTypes))) (\<lambda>_.
       give (Suc (fst counters), Suc (snd counters))))"

subsection \<open>The setups call fixtures\<close>

lemma shape_names: "fs \<in> set (x86shapes @ armshapes) \<Longrightarrow> plain (vmname_of (dp_Name (hd (sp_disks (snd fs)))))"
  by (auto simp: x86shapes_def armshapes_def plain_shape_def plain_names)

lemma shapevalidation_calls:
  assumes "\<And>fs. set (order fs) \<subseteq> set fs"
  shows "sound_setup e (shapevalidation_TestSetup e filter_flag order)"
proof -
  have sub: "set (order (if b then armshapes else x86shapes)) \<subseteq> set (x86shapes @ armshapes)" for b
    using assms [of "if b then armshapes else x86shapes"] by (cases b) auto
  show ?thesis
    unfolding shapevalidation_TestSetup_def testFamily_def shape_vm_def
    by (intro suite_calls shape_names) (rule subsetD [OF sub], simp only: set_filter mem_Collect_eq, elim conjE, assumption)
qed

lemma lssd_calls: "sound_setup e (lssd_TestSetup e sc v intn)"
  unfolding lssd_TestSetup_def lssd_vm_def Let_def
  by (intro suite_calls) (simp_all add: plain_names)

lemma cvm_calls: "sound_setup e (cvm_TestSetup e sc features intn)"
  unfolding cvm_TestSetup_def cvm_feature_def confidential_vm_def
  by (intro suite_calls) (simp_all add: sev_machine_def confidential_machine_def Let_def plain_names)

lemma vmspec_calls: "sound_setup e (vmspec_TestSetup e sc counters)"
  unfolding vmspec_TestSetup_def vmspec_create_def vmspec_net_def forced_def
  by (intro suite_calls) (auto dest!: yielded_machine simp: plain_names)

end
