(* ===== verification/Suites.thy ===== *)
theory Suites
  imports Manager_Guarantees Fixtures_Marks Network_Perf Storage_Perf Nic_Setup License_Validation Accelerator_Setup
    Setups_Basic Setups_Network Setups_Guest Setups_Shapes
begin

text \<open>
  The setups of all test suites by the names of their packages, as \<open>cmd/manager/main.go\<close> lists them, and
  what a manager with these setups promises.
\<close>

subsection \<open>The setups by name\<close>

text \<open>What the setups read of the outside: the parameters of the single suites.\<close>

record suites_env =
  su_client :: suite_client
  su_compile :: "string \<Rightarrow> (string \<Rightarrow> bool) option"
  su_networkperf :: networkperf_env
  su_storageperf :: storageperf_env
  su_vmtype :: string
  su_basePath :: string
  su_licenses :: "image \<Rightarrow> string list \<times> int list"
  su_password :: string
  su_metalZone :: string
  su_nicTypes :: string
  su_provisioning :: string
  su_metadata :: metadata_env
  su_users :: "test2FAUser list \<times> test2FAUser list \<times> nat"
  su_keys :: "string \<Rightarrow> string \<times> (string + string)"
  su_sqlFiles :: "string \<Rightarrow> string + string"
  su_shapeFilter :: "string + (string \<Rightarrow> bool)"
  su_shapeOrder :: "(string \<times> vm_shape) list \<Rightarrow> (string \<times> vm_shape) list"
  su_lssd :: lssd_env
  su_random :: "nat \<Rightarrow> nat"
  su_betaFeatures :: "string list"
  su_cvmRandom :: "nat \<Rightarrow> nat \<Rightarrow> nat"
  su_counters :: "nat \<times> nat"

definition unit_of :: "'a operation \<Rightarrow> unit operation" where
  "unit_of m = and_then m (\<lambda>_. give ())"

definition suite_setup :: "engine \<Rightarrow> suites_env \<Rightarrow> string \<Rightarrow> unit operation" where
  "suite_setup e v name t =
     (if name = ''acceleratorconfig'' then acceleratorconfig_TestSetup e (su_client v) t
      else if name = ''acceleratornccl'' then acceleratornccl_TestSetup e (su_client v) t
      else if name = ''acceleratorrdma'' then acceleratorrdma_TestSetup e (su_client v) t
      else if name = ''acceleratorrdmabandwidth'' then acceleratorrdmabandwidth_TestSetup e (su_client v) t
      else if name = ''acceleratorrdmanetwork'' then acceleratorrdmanetwork_TestSetup e (su_client v) t
      else if name = ''acceleratorrdmawriteimmediate'' then acceleratorrdmawriteimmediate_TestSetup e (su_client v) t
      else if name = ''cvm'' then cvm_TestSetup e (su_client v) (su_betaFeatures v) (su_cvmRandom v) t
      else if name = ''livemigrate'' then livemigrate_TestSetup e t
      else if name = ''suspendresume'' then suspendresume_TestSetup e t
      else if name = ''networkperf'' then networkperf_TestSetup e (su_networkperf v) t
      else if name = ''networkconfig'' then networkconfig_TestSetup e (su_client v) (su_nicTypes v) (su_provisioning v) t
      else if name = ''networkinterfacenaming'' then networkinterfacenaming_TestSetup e (su_compile v) (su_metalZone v) t
      else if name = ''loadbalancer'' then loadbalancer_TestSetup e t
      else if name = ''guestagent'' then guestagent_TestSetup e t
      else if name = ''hostnamevalidation'' then hostnamevalidation_TestSetup e t
      else if name = ''imageboot'' then imageboot_TestSetup e (su_compile v) t
      else if name = ''licensevalidation'' then licensevalidation_TestSetup e (su_basePath v) (su_licenses v) t
      else if name = ''network'' then network_TestSetup e t
      else if name = ''security'' then security_TestSetup e t
      else if name = ''hotattach'' then hotattach_TestSetup e t
      else if name = ''lssd'' then lssd_TestSetup e (su_client v) (su_lssd v) (su_random v) t
      else if name = ''u4c'' then u4c_TestSetup e (su_client v) t
      else if name = ''lvmvalidation'' then lvmvalidation_TestSetup e t
      else if name = ''disk'' then disk_TestSetup e t
      else if name = ''shapevalidation'' then shapevalidation_TestSetup e (su_shapeFilter v) (su_shapeOrder v) t
      else if name = ''packagemanager'' then packagemanager_TestSetup e t
      else if name = ''packageupgrade'' then packageupgrade_TestSetup e t
      else if name = ''packagevalidation'' then packagevalidation_TestSetup e t
      else if name = ''storageperf'' then storageperf_TestSetup e (su_storageperf v) t
      else if name = ''ssh'' then ssh_TestSetup e (su_keys v) t
      else if name = ''winrm'' then winrm_TestSetup e (su_password v) t
      else if name = ''sql'' then sql_TestSetup e (su_sqlFiles v) t
      else if name = ''metadata'' then metadata_TestSetup e (su_metadata v) t
      else if name = ''oslogin'' then unit_of (oslogin_TestSetup e (su_users v)) t
      else if name = ''mdsmtls'' then mdsmtls_TestSetup e t
      else if name = ''mdsroutes'' then mdsroutes_TestSetup e t
      else if name = ''windowscontainers'' then windowscontainers_TestSetup e t
      else if name = ''vmspec'' then unit_of (vmspec_TestSetup e (su_client v) (su_counters v)) t
      else if name = ''pluginmanager'' then pluginmanager_TestSetup e t
      else if name = ''rhel'' then rhel_TestSetup e t
      else if name = ''compatmanager'' then compatmanager_TestSetup e t
      else if name = ''nicsetup'' then nicsetup_TestSetup e (su_vmtype v) t
      else if name = ''wsfc'' then wsfc_TestSetup e t
      else panic t)"

text \<open>Go ranges over each family of shapes once, in some order.\<close>

definition suites_env_ok :: "suites_env \<Rightarrow> bool" where
  "suites_env_ok v \<longleftrightarrow> (\<forall>fs. mset (su_shapeOrder v fs) = mset fs)"

subsection \<open>Every setup is sound\<close>

lemmas setups_call = accelerator_calls cvm_calls simple_setups_call looping_setups_call rebooting_setups_call hotattach_calls
  networkperf_calls networkconfig_calls network_setups_call loadbalancer_calls u4c_calls guestagent_calls licensevalidation_calls
  lssd_calls storageperf_calls ssh_calls sql_calls metadata_calls oslogin_calls vmspec_calls compatmanager_calls nicsetup_calls

lemma sound_apply:
  "(b \<Longrightarrow> sound_setup e m) \<Longrightarrow> (\<not> b \<Longrightarrow> sound_setup e k) \<Longrightarrow> sound_setup e (\<lambda>t. if b then m t else k t)"
  by (cases b) simp_all

lemma suite_setup_sound:
  assumes "suites_env_ok v"
  shows "sound_setup e (suite_setup e v name)"
proof -
  have "set (su_shapeOrder v fs) \<subseteq> set fs" for fs
    using assms unfolding suites_env_ok_def by (metis order_refl set_mset_mset)
  then have "sound_setup e (shapevalidation_TestSetup e (su_shapeFilter v) (su_shapeOrder v))"
    by (rule shapevalidation_calls)
  moreover have "suite_setup e v name = (\<lambda>t. suite_setup e v name t)" by simp
  ultimately show ?thesis
    unfolding suite_setup_def unit_of_def
    by (intro sound_apply sound_and_then sound_ends setups_call)
qed


definition example_suites_env :: suites_env where
  "example_suites_env =
     (let c = \<lparr>sc_own = (\<lambda>t. (''us-west1-a'', ''us-west1'')), sc_GetZone = (\<lambda>p z. Inr (z, [])),
                sc_GetMachineType = (\<lambda>p z m. Inr (m, 4))\<rparr>
      in \<lparr>su_client = c, su_compile = (\<lambda>re. None),
          su_networkperf = \<lparr>ne_flags = \<lparr>nf_test_filter = [], nf_use_spot_instances = False, nf_network_tiers = [], nf_nic_types = ''GVNIC''\<rparr>,
            ne_client = c, ne_compile = (\<lambda>re. Inr (\<lambda>n. True)), ne_scripts = (\<lambda>f. Inr f)\<rparr>,
          su_storageperf = \<lparr>se_filter = [], se_client = c, se_compile = (\<lambda>re. Inr (\<lambda>n. True)), se_scripts = (\<lambda>f. Inr f)\<rparr>,
          su_vmtype = ''both'', su_basePath = [], su_licenses = (\<lambda>img. ([], [])), su_password = ''Passw0rd'',
          su_metalZone = ''us-west1-a'', su_nicTypes = ''GVNIC'', su_provisioning = [],
          su_metadata = \<lparr>md_files = (\<lambda>f. Inr f), md_written = (\<lambda>f. (f, None))\<rparr>,
          su_users = initialize2FA (Inr []) (\<lambda>n. 0), su_keys = (\<lambda>u. (u, Inr ''key'')), su_sqlFiles = (\<lambda>f. Inr f),
          su_shapeFilter = Inr (\<lambda>n. True), su_shapeOrder = (\<lambda>fs. fs),
          su_lssd = \<lparr>le_metal_type = [], le_metal_zone = [], le_bundled = 0\<rparr>, su_random = (\<lambda>n. 0), su_betaFeatures = [],
          su_cvmRandom = (\<lambda>i n. 0), su_counters = (0, 0)\<rparr>)"

definition example_disk :: "unit outcome \<times> test_workflow" where
  "example_disk = suite_setup example_engine example_suites_env ''disk'' example_workflow"


subsection \<open>The manager with these setups\<close>

definition repository_env :: "engine \<Rightarrow> suites_env \<Rightarrow> manager_env \<Rightarrow> bool" where
  "repository_env en v e \<longleftrightarrow> me_setup e = suite_setup en v \<and> me_extra e = []
     \<and> (\<forall>i. wf_Steps (me_new e i) = [] \<and> wf_Dependencies (me_new e i) = [])"

lemma repository_setups_ok:
  assumes "engine_ok en" and "suites_env_ok v" and "repository_env en v e"
  shows "setups_ok en e"
  using assms suite_setup_sound [OF assms(2)]
  by (auto simp: setups_ok_def repository_env_def testPackages_def sound_setup_def)

text \<open>C7: A manager with the setups of the repository, and no others, plans one test for every package its filters
  accept and every image that is not empty, in this order; each is the workflow of its package on its image,
  with a graph of steps that daisy can run and resources that the cleanup recognises.\<close>

theorem repository_plan_sound:
  assumes "engine_ok en" and "suites_env_ok v" and "repository_env en v e" and "plan_tests e f = Ok tests"
  shows "length tests = length (wanted_pairs e f) \<and> (\<forall>k < length tests.
      tw_Name (tests ! k) = fst (fst (wanted_pairs e f ! k))
      \<and> formatImageName (snd (wanted_pairs e f ! k)) = Inr (tw_ImageURL (tests ! k))
      \<and> acyclic (depends (tw_wf (tests ! k))) \<and> distinct (step_names (tw_wf (tests ! k))) \<and> owned (tests ! k))"
proof -
  note p = plan_planned [OF repository_setups_ok [OF assms(1-3)] assms(4)]
  have "acyclic (depends (tw_wf t)) \<and> distinct (step_names (tw_wf t)) \<and> owned t" if "built_by en t" for t
    using built_by_built [OF assms(1) that] built_by_owned [OF assms(1) that] by (simp add: built_def sound_graph_def)
  then show ?thesis using p by (simp add: planned_def)
qed

text \<open>Planning uses the setups of accepted packages only.\<close>

lemma add_tests_setup: "add_tests (e\<lparr>me_setup := g\<rparr>) f pis st = add_tests e f pis st"
proof (induction pis arbitrary: st)
  case (Cons pi pis)
  have "me_client (e\<lparr>me_setup := g\<rparr>) = me_client e" "me_new (e\<lparr>me_setup := g\<rparr>) = me_new e" by simp_all
  then have "add_test (e\<lparr>me_setup := g\<rparr>) f pi st = add_test e f pi st" by (simp only: add_test_def)
  then show ?case unfolding add_tests.simps Cons.IH by simp
qed simp

lemma plan_setup:
  assumes "\<And>n. n \<in> set packageNames \<Longrightarrow> flag_regex e (mf_filter f) = Inr (Some m) \<and> m n \<Longrightarrow> g n = h n"
    and "flag_regex e (mf_filter f) = Inr (Some m)"
  shows "plan_tests (e\<lparr>me_setup := g\<rparr>) f = plan_tests (e\<lparr>me_setup := h\<rparr>) f"
proof -
  have "filter (accepts_package (Some m) xr) (testPackages (e\<lparr>me_setup := g\<rparr>))
      = filter (accepts_package (Some m) xr) (testPackages (e\<lparr>me_setup := h\<rparr>))" for xr
    using assms unfolding testPackages_def filter_append
    by (cases xr) (auto simp: filter_map o_def accepts_package_def cong: filter_cong)
  moreover have f: "me_compute (e\<lparr>me_setup := k\<rparr>) = me_compute e" "me_compile (e\<lparr>me_setup := k\<rparr>) = me_compile e"
    "me_list (e\<lparr>me_setup := k\<rparr>) = me_list e" "me_client (e\<lparr>me_setup := k\<rparr>) = me_client e" for k by simp_all
  moreover have "flag_regex (e\<lparr>me_setup := k\<rparr>) = flag_regex e" "choose_images (e\<lparr>me_setup := k\<rparr>) = choose_images e" for k
    unfolding fun_eq_iff flag_regex_def listed_images_def choose_images_def f by simp_all
  ultimately show ?thesis
    unfolding plan_tests_def add_tests_setup by (simp only: assms(2) sum.case)
qed

definition example_repository :: manager_env where
  "example_repository = example_manager_env\<lparr>me_setup := suite_setup example_engine example_suites_env\<rparr>"

definition example_security_flags :: manager_flags where
  "example_security_flags = example_manager_flags\<lparr>mf_filter := ''security''\<rparr>"

definition example_security_plan :: "test_workflow list" where
  "example_security_plan = (case plan_tests (example_manager_env\<lparr>me_setup := (\<lambda>n. security_TestSetup example_engine)\<rparr>)
     example_security_flags of Ok ts \<Rightarrow> ts | _ \<Rightarrow> [])"

lemma example_security_planned: "plan_tests example_repository example_security_flags = Ok example_security_plan"
proof -
  have m: "flag_regex example_manager_env (mf_filter example_security_flags) = Inr (Some (Contains ''security''))"
    by (simp add: flag_regex_def example_manager_env_def example_security_flags_def example_manager_flags_def)
  have "list_all (\<lambda>n. Contains ''security'' n \<longrightarrow> n = ''security'') packageNames" by code_simp
  then have only: "n = ''security''" if "n \<in> set packageNames" "Contains ''security'' n" for n
    using that unfolding list_all_iff by blast
  have "suite_setup example_engine example_suites_env ''security'' = security_TestSetup example_engine"
    by (rule ext) (simp add: suite_setup_def)
  then have su: "suite_setup example_engine example_suites_env n = security_TestSetup example_engine"
    if "n \<in> set packageNames" "Contains ''security'' n" for n
    using only [OF that] by (simp only:)
  have "plan_tests example_repository example_security_flags
      = plan_tests (example_manager_env\<lparr>me_setup := (\<lambda>n. security_TestSetup example_engine)\<rparr>) example_security_flags"
    unfolding example_repository_def by (rule plan_setup [OF _ m]) (elim conjE, rule su)
  moreover have "case plan_tests (example_manager_env\<lparr>me_setup := (\<lambda>n. security_TestSetup example_engine)\<rparr>)
      example_security_flags of Ok ts \<Rightarrow> True | _ \<Rightarrow> False" by code_simp
  ultimately show ?thesis by (simp add: example_security_plan_def split: outcome.splits)
qed

theorem repository_plan_sound_witness:
  "map tw_Name example_security_plan = [''security'']
   \<and> list_all (\<lambda>t. acyclic (depends (tw_wf t)) \<and> owned t \<and> length (tw_machines t) = 1) example_security_plan"
proof -
  have v: "suites_env_ok example_suites_env" by (simp add: suites_env_ok_def example_suites_env_def Let_def)
  have "repository_env example_engine example_suites_env example_repository"
    by (simp add: repository_env_def example_repository_def example_manager_env_def example_workflow_def)
  note r = repository_plan_sound [OF example_engine_ok v this example_security_planned]
  have "map tw_Name example_security_plan = [''security''] \<and> list_all (\<lambda>t. length (tw_machines t) = 1) example_security_plan"
    by code_simp
  then show ?thesis using r by (auto simp: list_all_length)
qed

end
