(* ===== verification/Spec2Isabelle.thy ===== *)
theory Spec2Isabelle
  imports Citrun_Run Cleanup_Command Test_Wrapper Manager_Guarantees Manager_Images
    Suites
begin

text \<open>
  A verification development for cloud-image-tests, the repository of tests that run on virtual
  machines made from cloud images.  It covers the parts of the repository that carry logic of
  their own.

  \<^bold>\<open>Parts.\<close>  \<open>cmd/citrun\<close> runs a matrix of images, machine shapes and test suites.
  \<open>LoadConfig\<close> reads and validates the configuration, \<open>ExpandJobs\<close> turns its matrix into jobs,
  \<open>validatePlaceable\<close> rejects jobs that no region can take, and \<open>Scheduler.Run\<close> launches attempts
  under the budgets, retries them by the class of their failure and saves the state after each
  transition; \<open>resume\<close> reconciles an interrupted run, optionally after \<open>refreshRunConfig\<close> has
  moved it to an edited configuration; \<open>status\<close> and \<open>report\<close> render the saved state.
  \<open>cleanerupper\<close> deletes cloud resources that tests left behind, as a policy allows.
  \<open>utils/exceptions\<close> decides which images a test makes exceptions for.  \<open>fixtures.go\<close> and
  \<open>testworkflow.go\<close> build the workflow of a test suite, a graph of steps that the engine daisy runs:
  the setup of a suite calls fixtures that add machines, disks, networks and the steps of a machine's
  life.  \<open>RunTests\<close> finalizes the workflows, runs them with parallel workers that draw projects from two
  channels, retries a workflow in other zones after stockouts, cleans up with \<open>cleanerupper\<close> and turns
  the outputs into the report that \<open>citrun\<close> later classifies.  \<open>cmd/manager\<close> plans a workflow for every
  test suite and image, runs them all and writes the report; \<open>cmd/wrapper\<close> runs the tests on a machine
  and stores their results; \<open>cmd/cleanup\<close> is the command around \<open>cleanerupper\<close>.  Each directory of
  \<open>test_suites\<close> has a \<open>TestSetup\<close> that calls fixtures.  \<open>utils/networkutils\<close> serves the network tests: CPU
  sets, NIC types, kernel versions and machines with several interfaces; \<open>utils/test_utils.go\<close> and
  \<open>utils/acceleratorutils\<close> serve the suites.

  \<^bold>\<open>Theories.\<close>  Each opens with what it models.
  \<^item> \<open>Prelude\<close>: Go's integers, durations, strings and path functions; \<open>Go_Float\<close>: the product of an
    integer and a binary float, truncated; \<open>Go_Strconv\<close>, \<open>Go_Time\<close>, \<open>Path_Match\<close>: \<open>Atoi\<close>, the
    formatting of durations and \<open>path.Match\<close>.
  \<^item> \<open>Citrun_Config\<close>, \<open>Citrun_Matrix\<close>, \<open>Citrun_Placement\<close>, \<open>Citrun_State\<close>: \<open>config.go\<close>, \<open>matrix.go\<close>,
    \<open>placement.go\<close>, \<open>state.go\<close> of \<open>cmd/citrun\<close>.
  \<^item> \<open>Citrun_Scheduler\<close>: the operations of \<open>scheduler.go\<close>.  The state is the record \<open>scheduler\<close>, with
    the attempts in flight in place of the goroutines and the channel; \<open>env\<close> is what an operation
    observes of the outside, the clock and the outcome of each write.
  \<^item> \<open>Citrun_Ledger\<close>: the abstract specification, a ledger of leases on limited resources, as a
    locale, and its interpretation on the scheduler's resources.
  \<^item> \<open>Citrun_Admission\<close>: the state invariant and its preservation by every operation;
    \<open>Citrun_Run_Loop\<close>: the loop as a step relation in which admissions, completions in any order,
    clock ticks, drains, kills and pauses interleave freely, and the safety of its reachable states;
    \<open>Citrun_Retries\<close>: the bounds on retries; \<open>Citrun_Progress\<close>: completeness of the zone choice;
    \<open>Citrun_Guarantees\<close>: the resulting properties and an example run.
  \<^item> \<open>Citrun_Resume\<close>, \<open>Citrun_Refresh\<close>, \<open>Citrun_Executor\<close>, \<open>Citrun_Status\<close>, \<open>Citrun_Report\<close>,
    \<open>Citrun_Run\<close>: \<open>resume.go\<close>, \<open>refresh.go\<close>, \<open>executor.go\<close>, \<open>status.go\<close>, \<open>report.go\<close>, \<open>run.go\<close>.
  \<^item> \<open>Cleaner_Policy\<close>, \<open>Cleaner\<close>, \<open>Cleaner_Guarantees\<close>: the policies, the operations and the
    properties of \<open>cleanerupper/cleanerupper.go\<close>.
  \<^item> \<open>Go_Regexp\<close>: regular expressions matched by derivatives; \<open>Exceptions\<close>:
    \<open>utils/exceptions/exceptions.go\<close>.
  \<^item> \<open>Machine_Types\<close>: disk types and maintenance policies of machine types from \<open>fixtures.go\<close>;
    \<open>Network_Utils\<close>: \<open>utils/networkutils/networkutils.go\<close>.
  \<^item> \<open>Workflow_Model\<close>: the data of a test workflow, the operations of the engine as a parameter and
    the outcomes of an operation (it returns, fails, panics or hangs), with triples over them.
    \<open>Workflow_Steps\<close>: the builders of steps of \<open>testworkflow.go\<close>; \<open>Fixtures\<close>, \<open>Fixture_Options\<close>: the
    fixtures of \<open>fixtures.go\<close>.
  \<^item> \<open>Fixtures_Graph\<close>: the invariant of the graph of steps; \<open>Fixtures_Builders\<close>: every fixture keeps it;
    \<open>Fixtures_Chains\<close>: the chain of steps of a machine and the search for its end;
    \<open>Fixtures_Guarantees\<close>: the resulting properties, for any sequence of fixture calls;
    \<open>Fixtures_Marks\<close>: the mark of ownership on every resource; \<open>Network_Machines\<close>: machines with
    several interfaces, from \<open>networkutils.go\<close>, built with the fixtures.
  \<^item> \<open>Workflow_Finalize\<close>, \<open>Workflow_Ready\<close>: \<open>finalizeWorkflows\<close> and the graph it leaves; \<open>Workflow_Run\<close>,
    \<open>Workflow_Run_Guarantees\<close>: the creation of workflows, runs with retries, as lists of the events
    the outside sees, cleanup and results; \<open>Go_Decimal\<close>, \<open>Workflow_Results\<close>: the sums of times and the
    reports of \<open>junit.go\<close> and \<open>parseResult\<close>; \<open>Workflow_Pool\<close>, \<open>Workflow_Pool_Guarantees\<close>: \<open>RunTests\<close>,
    with the workers as a step relation over all interleavings.
  \<^item> \<open>Cleanup_Command\<close>, \<open>Test_Wrapper\<close>: \<open>main\<close> of \<open>cmd/cleanup\<close> and \<open>cmd/wrapper\<close>, as lists of the events the
    outside sees.  \<open>Manager\<close>, \<open>Manager_Images\<close>, \<open>Manager_Guarantees\<close>: \<open>cmd/manager\<close>, its names of images, and
    what it promises: a suite in the report for every accepted package and image, zones in turn.
  \<^item> \<open>Go_Find\<close>: finding and replacing by expressions; \<open>Test_Utils\<close>: \<open>utils/test_utils.go\<close>.
  \<^item> \<open>Suite_Calls\<close>: what setups of suites are built from, and the rules that show that a setup does
    nothing but call fixtures and that it ends (\<open>sound_setup\<close>).  The setups: \<open>Network_Perf\<close>, \<open>Storage_Perf\<close>,
    \<open>Nic_Setup\<close>, \<open>License_Validation\<close> for the suites of these names, \<open>Accelerator_Setup\<close> for
    \<open>utils/acceleratorutils\<close> and the six accelerator suites, \<open>Setups_Basic\<close> for those of single machines,
    \<open>Setups_Network\<close> for those with networks of their own, \<open>Setups_Guest\<close> for those on the guest
    environment, \<open>Setups_Shapes\<close> for those that choose shapes and zones.  \<open>Suites\<close>: all setups by the names
    of their packages, and what a manager with these setups promises.

  \<^bold>\<open>Conventions.\<close>  Configuration numbers and counters are \<open>int\<close>; durations are \<open>int\<close> nanoseconds with
  the wrap-around of \<open>int64\<close> written out where a product can overflow; times are \<open>int\<close> nanoseconds.
  Strings are lists of bytes.  Go maps are partial functions, or association lists where the code
  iterates over them and the order can show; where Go leaves an iteration order open, the order is
  an argument.  A nil dereference or an index out of range is the value \<open>None\<close> of a partial
  operation, an error a value of a sum type.  Where a loop of the code may run forever, it is not cut
  off: \<open>Scheduler.Run\<close> is a step relation; the search of \<open>getLastStepForVM\<close> is a partial function that
  is proved to return on every workflow the fixtures build; the choice of a password and the client
  command of the accelerator tests are partial functions too, the second proved to return when its
  context ends.  No fuel is used.

  \<^bold>\<open>Parameters.\<close>  What is not in the repository is an argument: the YAML decoder of \<open>LoadConfig\<close>,
  the files and clock of the scheduler, the containers of \<open>resume\<close>, the docker command and the
  artifacts of an attempt, parsed XML reports, the cloud's listings and the outcome of each deletion,
  the workflow engine, of which \<open>engine_ok\<close> states what adding a step and a dependency do, the error
  with which it runs a workflow, the compute and storage services of a test, the setup of its suite,
  the random source, the metadata server and the processes of a machine, the compiler of expressions
  given in flags, the compute service that suites ask for zones and machine types, and the parser of
  \<open>go test\<close> outputs.

  \<^bold>\<open>Not modelled.\<close>  The encodings of JSON and XML, signal handling, the delays between workers, the
  download of artifacts by \<open>cmd/manager\<close>, the parts of the guest utilities that only run commands or
  read files of a machine, the display names of access configurations, and the tests
  themselves, which are assertions over the state of running machines.
\<close>

subsection \<open>A run from its start\<close>

text \<open>C2: The promise of \<open>citrun run\<close> as a whole: when it starts a run from a configuration that loads,
  with resource demands that are not negative, the run has been saved before it starts, each of its
  jobs that is not quarantined has a zone whose region can take it, and in every state its
  scheduler can reach, whatever the attempts do, the resource limits hold and the attempts of each
  job that reached a verdict are bounded by the retry caps.\<close>

theorem started_run_is_safe:
  assumes "cmdRun (LoadConfig read decode path) fl stamp dir_ok save t f = (RunStarted cfg st, f')"
    and "nonneg_demands cfg" and "run_reachable cfg (start_world now keys ids st f') w"
  shows "LoadState f' = Inr st
    \<and> (\<forall>i rec. rs_Jobs st i = Some rec \<and> j_Quarantined (jr_Job rec) = [] \<longrightarrow>
         (\<exists>z \<in> set (j_Zones (jr_Job rec)).
            j_CPUCost (jr_Job rec) \<le> regionUsable cfg (jr_Job rec) (zoneRegion z)))
    \<and> within_limits cfg (w_sched w)
    \<and> (\<forall>i rec. rs_Jobs (sc_st (w_sched w)) i = Some rec \<longrightarrow>
         int (verdicts rec) \<le> attempt_bound (c_Retries cfg) (jr_Job rec))"
  using assms(1)
proof (rule cmdRun_started)
  fix jobs
  assume l: "LoadConfig read decode path = Inr cfg" and e: "ExpandJobs cfg (run_filter fl) = Inr jobs"
    and p: "validatePlaceable cfg jobs = None" and ld: "LoadState f' = Inr st"
    and st: "st = NewRunState (path_Base (if rf_runDir fl = [] then path_Join [''runs'', stamp]
       else rf_runDir fl)) t jobs"
  note jobs = ExpandJobs_Inr [OF e]
  have v: "valid_config cfg" using LoadConfig_Inr [OF l] by (auto simp: Validate_None)
  have ok: "\<forall>j \<in> set jobs. job_ok j"
    using jobs(1) candidate_job_ok [OF v assms(2)] by auto
  have s: "startable st" unfolding st by (rule NewRunState_startable [OF jobs(3) ok])
  have r: "retries_ok cfg st"
    unfolding st by (rule NewRunState_fresh [OF jobs(3)]) (use v in \<open>simp add: valid_config_def\<close>)
  have "\<exists>z \<in> set (j_Zones (jr_Job rec)). j_CPUCost (jr_Job rec) \<le> regionUsable cfg (jr_Job rec) (zoneRegion z)"
    if "rs_Jobs st i = Some rec" "j_Quarantined (jr_Job rec) = []" for i rec
  proof -
    have "jr_Job rec \<in> set jobs"
      using NewRunState_record [OF jobs(3) that(1) [unfolded st]] by (auto simp: new_record_def)
    then show ?thesis using p that(2) by (auto simp: unplaceable_iff)
  qed
  moreover have "caps_ok (c_Retries cfg) rec" if "rs_Jobs (sc_st (w_sched w)) i = Some rec" for i rec
    using reachable_retry_inv [OF assms(3) s r] that by (simp add: retry_inv_def retries_ok_def)
  ultimately show ?thesis
    using ld reachable_within_limits [OF assms(3) s] verdicts_bound by blast
qed

definition example_flags :: run_flags where
  "example_flags = \<lparr>rf_configs = [], rf_images = ''debian-*'', rf_shapes = [], rf_suites = [],
     rf_runDir = ''runs/a'', rf_dryRun = False, rf_tier = ''all''\<rparr>"

definition no_files :: run_files where
  "no_files = (example_files example_run)\<lparr>rf_State := Missing\<rparr>"

lemma example_cmdRun:
  "\<exists>st f'. cmdRun (LoadConfig (\<lambda>_. Some ''doc'') (\<lambda>_ _. Some example_config) ''citrun.yaml'') example_flags []
     True IoOk 0 no_files = (RunStarted example_config st, f')
   \<and> st = NewRunState ''a'' 0 [example_job]"
proof -
  have l: "LoadConfig (\<lambda>_. Some ''doc'') (\<lambda>_ _. Some example_config) ''citrun.yaml'' = Inr example_config"
    by code_simp
  have f: "run_filter example_flags = \<lparr>fl_Configs = [], fl_Images = [''debian-*''], fl_Shapes = [],
      fl_Suites = [], fl_Tier = []\<rparr>" by code_simp
  define X where "X = ExpandJobs example_config \<lparr>fl_Configs = [], fl_Images = [''debian-*''], fl_Shapes = [],
      fl_Suites = [], fl_Tier = []\<rparr>"
  have v: "case X of Inl e \<Rightarrow> False | Inr jobs \<Rightarrow> map j_ID jobs = [j_ID example_job] \<and> hd jobs = example_job"
    unfolding X_def by code_simp
  obtain jobs where j: "X = Inr jobs" using v by (cases X) simp_all
  have "jobs = [example_job]"
    using v by (auto simp: j map_eq_Cons_conv)
  then have e: "ExpandJobs example_config (run_filter example_flags) = Inr [example_job]"
    using j by (simp add: X_def f)
  have b: "path_Base ''runs/a'' = ''a''" by code_simp
  have u: "\<not> unknown_tier example_config (rf_tier example_flags)" "\<not> rf_dryRun example_flags"
    "rf_runDir example_flags = ''runs/a''"
    by (simp_all add: unknown_tier_def example_flags_def)
  show ?thesis
    by (simp add: cmdRun_def l e example_placeable u b runDirFresh_def no_files_def SaveState_def Let_def)
qed

theorem started_run_is_safe_witness:
  "\<exists>st f'. cmdRun (LoadConfig (\<lambda>_. Some ''doc'') (\<lambda>_ _. Some example_config) ''citrun.yaml'') example_flags []
     True IoOk 0 no_files = (RunStarted example_config st, f')
   \<and> within_limits example_config (w_sched (start_world 0 [] [] st f')) \<and> rs_Order st = [j_ID example_job]"
proof -
  obtain st f' where r: "cmdRun (LoadConfig (\<lambda>_. Some ''doc'') (\<lambda>_ _. Some example_config) ''citrun.yaml'')
      example_flags [] True IoOk 0 no_files = (RunStarted example_config st, f')"
    and st: "st = NewRunState ''a'' 0 [example_job]" using example_cmdRun by blast
  have "nonneg_demands example_config" by (simp add: nonneg_demands_def example_config_def)
  from started_run_is_safe [OF r this Start [of example_config "start_world 0 [] [] st f'"]] r
  have "within_limits example_config (w_sched (start_world 0 [] [] st f'))" by blast
  moreover have "rs_Order st = [j_ID example_job]" by (simp add: st)
  ultimately show ?thesis using r by blast
qed

end
